(* ===== verification/Prelude.thy ===== *)
theory Prelude
  imports Main "HOL-Library.AList" "HOL-Library.Sublist"
begin

text \<open>
  Shared vocabulary of the development.

  \<^item> Operations that read and change a state and may throw: \<open>('s, 'a) op\<close> maps a state to a
    result and the state left behind.  A JavaScript exception does not undo the assignments made
    before it, so the state is returned with the error too; only a database transaction rolls back.
  \<^item> JavaScript strings as \<open>string\<close>.  Text outside ASCII is held as its UTF-8 bytes, and
    \<open>length\<close> counts these; JavaScript counts UTF-16 units, which is the same number for ASCII.
  \<^item> JavaScript \<open>Map\<close> objects as association lists in insertion order (\<open>AList.update\<close> keeps the
    position of a key it replaces, as \<open>Map.set\<close> does).
\<close>

named_theorems op_defs "definitions of the operation combinators"
named_theorems keeps "operations that keep an invariant"

section \<open>Errors and operations\<close>

datatype js_error = Error (message: string)

type_synonym 'a result = "js_error + 'a"
type_synonym ('s, 'a) op = "'s \<Rightarrow> 'a result \<times> 's"

definition ret :: "'a \<Rightarrow> ('s, 'a) op" where
  [op_defs]: "ret a = (\<lambda>s. (Inr a, s))"

definition throw :: "string \<Rightarrow> ('s, 'a) op" where
  [op_defs]: "throw m = (\<lambda>s. (Inl (Error m), s))"

definition andthen :: "('s, 'a) op \<Rightarrow> ('a \<Rightarrow> ('s, 'b) op) \<Rightarrow> ('s, 'b) op" where
  [op_defs]: "andthen m f = (\<lambda>s. case m s of (Inl e, s') \<Rightarrow> (Inl e, s') | (Inr a, s') \<Rightarrow> f a s')"

definition gets :: "('s \<Rightarrow> 'a) \<Rightarrow> ('s, 'a) op" where
  [op_defs]: "gets f = (\<lambda>s. (Inr (f s), s))"

definition modify :: "('s \<Rightarrow> 's) \<Rightarrow> ('s, unit) op" where
  [op_defs]: "modify f = (\<lambda>s. (Inr (), f s))"

definition rbind :: "'a result \<Rightarrow> ('a \<Rightarrow> 'b result) \<Rightarrow> 'b result" where
  [op_defs]: "rbind r f = (case r of Inl e \<Rightarrow> Inl e | Inr a \<Rightarrow> f a)"

definition require :: "bool \<Rightarrow> string \<Rightarrow> ('s, unit) op" where
  [op_defs]: "require b m = (if b then ret () else throw m)"

definition lift_result :: "'a result \<Rightarrow> ('s, 'a) op" where
  [op_defs]: "lift_result r = (\<lambda>s. (r, s))"

definition catch_error :: "('s, 'a) op \<Rightarrow> (js_error \<Rightarrow> ('s, 'a) op) \<Rightarrow> ('s, 'a) op" where
  [op_defs]: "catch_error m h = (\<lambda>s. case m s of (Inl e, s') \<Rightarrow> h e s' | (Inr a, s') \<Rightarrow> (Inr a, s'))"

definition when_do :: "bool \<Rightarrow> ('s, unit) op \<Rightarrow> ('s, unit) op" where
  [op_defs]: "when_do b m = (if b then m else ret ())"

fun each :: "('a \<Rightarrow> ('s, unit) op) \<Rightarrow> 'a list \<Rightarrow> ('s, unit) op" where
  "each f [] = ret ()"
| "each f (x # xs) = andthen (f x) (\<lambda>_. each f xs)"

definition result_of :: "('s, 'a) op \<Rightarrow> 's \<Rightarrow> 'a result" where
  "result_of m s = fst (m s)"

definition state_of :: "('s, 'a) op \<Rightarrow> 's \<Rightarrow> 's" where
  "state_of m s = snd (m s)"

lemma andthen_ret [simp]: "andthen (ret a) f = f a"
  by (simp add: op_defs)

lemma andthen_throw [simp]: "andthen (throw m) f = throw m"
  by (simp add: op_defs)

lemma andthen_assoc: "andthen (andthen m f) g = andthen m (\<lambda>a. andthen (f a) g)"
  by (auto simp: op_defs fun_eq_iff split: sum.splits prod.splits)

lemma andthen_gets [simp]: "andthen (gets f) g s = g (f s) s"
  by (simp add: op_defs)

lemma andthen_modify [simp]: "andthen (modify f) g s = g () (f s)"
  by (simp add: op_defs)

lemma rbind_simps [simp]: "rbind (Inl e) f = Inl e" "rbind (Inr a) f = f a"
  by (simp_all add: rbind_def)

lemma rbind_Inr_iff: "rbind r f = Inr b \<longleftrightarrow> (\<exists>a. r = Inr a \<and> f a = Inr b)"
  by (cases r) auto

lemma require_True [simp]: "require True m = ret ()"
  by (simp add: require_def)

lemma require_False [simp]: "require False m = throw m"
  by (simp add: require_def)

lemma when_do_simps [simp]: "when_do True m = m" "when_do False m = ret ()"
  by (simp_all add: when_do_def)

lemma ret_apply [simp]: "ret a s = (Inr a, s)"
  by (simp add: ret_def)

lemma throw_apply [simp]: "throw m s = (Inl (Error m), s)"
  by (simp add: throw_def)

lemma andthen_InrE:
  assumes "andthen m f s = (Inr b, s'')"
  obtains a s' where "m s = (Inr a, s')" and "f a s' = (Inr b, s'')"
  using assms by (auto simp: andthen_def split: prod.splits sum.splits)

lemma require_InrE:
  assumes "andthen (require b m) f s = (Inr x, s')"
  obtains b and "f () s = (Inr x, s')"
  using assms by (cases b) auto

section \<open>Invariants of operations\<close>

text \<open>An operation keeps \<open>P\<close> when \<open>P\<close> also holds after it, whether it returned or threw.\<close>

definition keeps_inv :: "('s \<Rightarrow> bool) \<Rightarrow> ('s, 'a) op \<Rightarrow> bool" where
  "keeps_inv P m \<longleftrightarrow> (\<forall>s. P s \<longrightarrow> P (snd (m s)))"

lemma keeps_invI: "(\<And>s. P s \<Longrightarrow> P (snd (m s))) \<Longrightarrow> keeps_inv P m"
  by (simp add: keeps_inv_def)

lemma keeps_invD: "keeps_inv P m \<Longrightarrow> P s \<Longrightarrow> P (snd (m s))"
  by (simp add: keeps_inv_def)

lemma keeps_ret [keeps]: "keeps_inv P (ret a)"
  by (simp add: keeps_inv_def)

lemma keeps_throw [keeps]: "keeps_inv P (throw m)"
  by (simp add: keeps_inv_def)

lemma keeps_gets [keeps]: "keeps_inv P (gets f)"
  by (simp add: keeps_inv_def gets_def)

lemma keeps_lift_result [keeps]: "keeps_inv P (lift_result r)"
  by (simp add: keeps_inv_def lift_result_def)

lemma keeps_require [keeps]: "keeps_inv P (require b m)"
  by (simp add: keeps_inv_def require_def)

lemma keeps_andthen [keeps]:
  "keeps_inv P m \<Longrightarrow> (\<And>a. keeps_inv P (f a)) \<Longrightarrow> keeps_inv P (andthen m f)"
  by (fastforce simp: keeps_inv_def andthen_def split: prod.splits sum.splits)

lemma keeps_catch [keeps]:
  "keeps_inv P m \<Longrightarrow> (\<And>e. keeps_inv P (h e)) \<Longrightarrow> keeps_inv P (catch_error m h)"
  by (fastforce simp: keeps_inv_def catch_error_def split: prod.splits sum.splits)

lemma keeps_when [keeps]: "(b \<Longrightarrow> keeps_inv P m) \<Longrightarrow> keeps_inv P (when_do b m)"
  by (cases b) (auto intro: keeps)

lemma keeps_if [keeps]:
  "(b \<Longrightarrow> keeps_inv P m) \<Longrightarrow> (\<not> b \<Longrightarrow> keeps_inv P m') \<Longrightarrow> keeps_inv P (if b then m else m')"
  by simp

lemma keeps_case_option [keeps]:
  "(x = None \<Longrightarrow> keeps_inv P m) \<Longrightarrow> (\<And>a. x = Some a \<Longrightarrow> keeps_inv P (f a)) \<Longrightarrow>
   keeps_inv P (case x of None \<Rightarrow> m | Some a \<Rightarrow> f a)"
  by (cases x) auto

lemma keeps_each [keeps]: "(\<And>x. x \<in> set xs \<Longrightarrow> keeps_inv P (f x)) \<Longrightarrow> keeps_inv P (each f xs)"
  by (induction xs) (auto intro: keeps)

lemma keeps_modify: "(\<And>s. P s \<Longrightarrow> P (f s)) \<Longrightarrow> keeps_inv P (modify f)"
  by (simp add: keeps_inv_def modify_def)

lemma foldl_keeps: "(\<And>s e. P s \<Longrightarrow> P (f s e)) \<Longrightarrow> P s \<Longrightarrow> P (foldl f s es)"
  by (induction es arbitrary: s) simp_all

section \<open>Strings\<close>

definition is_digit :: "char \<Rightarrow> bool" where
  "is_digit c \<longleftrightarrow> 48 \<le> (of_char c :: nat) \<and> (of_char c :: nat) \<le> 57"

definition digit_val :: "char \<Rightarrow> nat" where
  "digit_val c = of_char c - 48"

text \<open>\<open>Number(s)\<close> on a string of ASCII digits.\<close>

definition digits_val :: "string \<Rightarrow> nat" where
  "digits_val s = foldl (\<lambda>n c. 10 * n + digit_val c) 0 s"

fun nat_str :: "nat \<Rightarrow> string" where
  "nat_str n = (if n < 10 then [char_of (48 + n)] else nat_str (n div 10) @ [char_of (48 + n mod 10)])"

declare nat_str.simps [simp del]

text \<open>\<open>text.split(c)\<close> for a one-character separator.\<close>

fun split_on :: "char \<Rightarrow> string \<Rightarrow> string list" where
  "split_on c [] = [[]]"
| "split_on c (x # xs) =
     (if x = c then [] # split_on c xs
      else case split_on c xs of [] \<Rightarrow> [[x]] | w # ws \<Rightarrow> (x # w) # ws)"

text \<open>The ASCII part of what \<open>\s\<close> and \<open>trim\<close> take as white space.\<close>

definition is_space :: "char \<Rightarrow> bool" where
  "is_space c \<longleftrightarrow> (of_char c :: nat) = 32 \<or> 9 \<le> (of_char c :: nat) \<and> (of_char c :: nat) \<le> 13"

definition js_trim :: "string \<Rightarrow> string" where
  "js_trim s = rev (dropWhile is_space (rev (dropWhile is_space s)))"

definition starts_with :: "string \<Rightarrow> string \<Rightarrow> bool" where
  "starts_with p s \<longleftrightarrow> take (length p) s = p"

definition js_includes :: "string \<Rightarrow> string \<Rightarrow> bool" where
  "js_includes needle s \<longleftrightarrow> sublist needle s"

text \<open>\<open>s.replace(/\s+/g, ' ')\<close>.\<close>

fun collapse_after :: "bool \<Rightarrow> string \<Rightarrow> string" where
  "collapse_after in_space [] = []"
| "collapse_after in_space (c # cs) =
     (if is_space c then (if in_space then [] else '' '') @ collapse_after True cs
      else c # collapse_after False cs)"

definition collapse_spaces :: "string \<Rightarrow> string" where
  "collapse_spaces s = collapse_after False s"

lemma split_on_nonempty [simp]: "split_on c s \<noteq> []"
  by (induction s) (auto split: list.splits)

lemma starts_with_append [simp]: "starts_with p (p @ s)"
  by (simp add: starts_with_def)

lemma starts_with_Nil [simp]: "starts_with [] s"
  by (simp add: starts_with_def)

lemma starts_with_Cons: "starts_with (c # p) s \<longleftrightarrow> (\<exists>s'. s = c # s' \<and> starts_with p s')"
  by (cases s) (auto simp: starts_with_def)

lemma starts_with_Cons_Cons [simp]: "starts_with (c # p) (d # s) \<longleftrightarrow> c = d \<and> starts_with p s"
  by (auto simp: starts_with_def)

lemma nat_str_nonempty [simp]: "nat_str n \<noteq> []"
  by (subst nat_str.simps) simp

section \<open>Lists\<close>

text \<open>\<open>[...new Set(xs)]\<close>, and parsing every element of a list.\<close>

fun dedup :: "'a list \<Rightarrow> 'a list" where
  "dedup [] = []"
| "dedup (x # xs) = x # dedup (List.filter (\<lambda>y. y \<noteq> x) xs)"

fun parse_all :: "('v \<Rightarrow> 'a option) \<Rightarrow> 'v list \<Rightarrow> 'a list option" where
  "parse_all f [] = Some []"
| "parse_all f (x # xs) =
     (case f x of None \<Rightarrow> None | Some a \<Rightarrow> map_option ((#) a) (parse_all f xs))"

lemma set_dedup [simp]: "set (dedup xs) = set xs"
  by (induction xs rule: dedup.induct) auto

lemma distinct_dedup [simp]: "distinct (dedup xs)"
  by (induction xs rule: dedup.induct) auto

lemma length_dedup: "length (dedup xs) \<le> length xs"
proof (induction xs rule: dedup.induct)
  case (2 x xs)
  then show ?case using le_trans length_filter_le by (metis Suc_le_mono dedup.simps(2) length_Cons)
qed simp

lemma length_dedup_eq_iff: "length (dedup xs) = length xs \<longleftrightarrow> distinct xs"
  by (metis card_distinct distinct_card distinct_dedup set_dedup)

lemma parse_all_Some_iff:
  "parse_all f xs = Some ys \<longleftrightarrow> map f xs = map Some ys"
  by (induction xs arbitrary: ys) (auto split: option.splits simp: Cons_eq_map_conv)

lemma parse_all_in:
  assumes "parse_all f xs = Some ys" and "y \<in> set ys"
  obtains x where "x \<in> set xs" and "f x = Some y"
proof -
  have "Some y \<in> set (map Some ys)" using assms(2) by simp
  then have "Some y \<in> set (map f xs)" using assms(1) unfolding parse_all_Some_iff by metis
  then show thesis using that by auto
qed

section \<open>Maps in insertion order\<close>

type_synonym ('k, 'v) jsmap = "('k \<times> 'v) list"

abbreviation mget :: "('k, 'v) jsmap \<Rightarrow> 'k \<Rightarrow> 'v option" where
  "mget \<equiv> map_of"

abbreviation mset_key :: "'k \<Rightarrow> 'v \<Rightarrow> ('k, 'v) jsmap \<Rightarrow> ('k, 'v) jsmap" where
  "mset_key \<equiv> AList.update"

abbreviation mdelete :: "'k \<Rightarrow> ('k, 'v) jsmap \<Rightarrow> ('k, 'v) jsmap" where
  "mdelete \<equiv> AList.delete"

abbreviation mhas :: "('k, 'v) jsmap \<Rightarrow> 'k \<Rightarrow> bool" where
  "mhas m k \<equiv> map_of m k \<noteq> None"

abbreviation mkeys :: "('k, 'v) jsmap \<Rightarrow> 'k list" where
  "mkeys m \<equiv> map fst m"

abbreviation mvalues :: "('k, 'v) jsmap \<Rightarrow> 'v list" where
  "mvalues m \<equiv> map snd m"

end
