(* ===== verification/Calendar.thy ===== *)
theory Calendar
  imports Prelude
begin

text \<open>
  The part of JavaScript's \<open>Date\<close> that \<^verbatim>\<open>packages/core/src/cron.ts\<close> uses, for a local time
  without daylight-saving changes and from 1970 on.  A time is the local number of milliseconds
  since 1970-01-01; \<open>getMonth\<close> is here 1 to 12, as the code adds one everywhere.

  The accessors count through years and months, and the four lemma groups at the end are what a
  search over minutes needs: a field is constant up to the next time the code jumps to.
\<close>

type_synonym ms = nat

definition MINUTE_MS :: nat where "MINUTE_MS = 60000"

definition HOUR_MS :: nat where "HOUR_MS = 3600000"

definition DAY_MS :: nat where "DAY_MS = 86400000"

lemmas ms_defs = MINUTE_MS_def HOUR_MS_def DAY_MS_def

definition leap_year :: "nat \<Rightarrow> bool" where
  "leap_year y \<longleftrightarrow> 4 dvd y \<and> (\<not> 100 dvd y \<or> 400 dvd y)"

definition year_days :: "nat \<Rightarrow> nat" where
  "year_days y = (if leap_year y then 366 else 365)"

definition month_lengths :: "nat \<Rightarrow> nat list" where
  "month_lengths y = [31, if leap_year y then 29 else 28, 31, 30, 31, 30, 31, 31, 30, 31, 30, 31]"

lemma year_days_pos [simp]: "0 < year_days y"
  by (simp add: year_days_def)

text \<open>Year and day of the year, counting years from \<open>y\<close>.\<close>

function year_of :: "nat \<Rightarrow> nat \<Rightarrow> nat \<times> nat" where
  "year_of y n = (if n < year_days y then (y, n) else year_of (Suc y) (n - year_days y))"
  by pat_completeness auto
termination
  by (relation "measure snd")
     (auto simp: not_less intro: diff_less [OF year_days_pos] less_le_trans [OF year_days_pos])

declare year_of.simps [simp del]

text \<open>Month (from \<open>m\<close>) and day of the month (from 0).\<close>

fun month_of :: "nat \<Rightarrow> nat list \<Rightarrow> nat \<Rightarrow> nat \<times> nat" where
  "month_of m [] n = (m, n)"
| "month_of m (l # ls) n = (if n < l then (m, n) else month_of (Suc m) ls (n - l))"

definition civil :: "nat \<Rightarrow> nat \<times> nat" where
  "civil day = (case year_of 1970 day of (y, n) \<Rightarrow> month_of 1 (month_lengths y) n)"

definition month_length :: "nat \<Rightarrow> nat" where
  "month_length day =
     (case year_of 1970 day of (y, n) \<Rightarrow> month_lengths y ! (fst (month_of 1 (month_lengths y) n) - 1))"

definition getMonth1 :: "ms \<Rightarrow> nat" where
  "getMonth1 t = fst (civil (t div DAY_MS))"

definition getDate :: "ms \<Rightarrow> nat" where
  "getDate t = snd (civil (t div DAY_MS)) + 1"

text \<open>1970-01-01 was a Thursday.\<close>

definition getDay :: "ms \<Rightarrow> nat" where
  "getDay t = (t div DAY_MS + 4) mod 7"

definition getHours :: "ms \<Rightarrow> nat" where
  "getHours t = t div HOUR_MS mod 24"

definition getMinutes :: "ms \<Rightarrow> nat" where
  "getMinutes t = t div MINUTE_MS mod 60"

text \<open>\<open>d.setMonth(d.getMonth() + 1, 1); d.setHours(0, 0, 0, 0)\<close>.\<close>

definition next_month :: "ms \<Rightarrow> ms" where
  "next_month t = (let day = t div DAY_MS in (day + (month_length day - snd (civil day))) * DAY_MS)"

text \<open>\<open>d.setDate(d.getDate() + 1); d.setHours(0, 0, 0, 0)\<close>.\<close>

definition next_day :: "ms \<Rightarrow> ms" where
  "next_day t = (t div DAY_MS + 1) * DAY_MS"

text \<open>\<open>d.setHours(d.getHours() + 1, 0, 0, 0)\<close>.\<close>

definition next_hour :: "ms \<Rightarrow> ms" where
  "next_hour t = (t div HOUR_MS + 1) * HOUR_MS"

text \<open>\<open>d.setMinutes(d.getMinutes() + 1, 0, 0)\<close>.\<close>

definition next_minute :: "ms \<Rightarrow> ms" where
  "next_minute t = (t div MINUTE_MS + 1) * MINUTE_MS"

section \<open>Fields between two jumps\<close>

lemma year_of_bound: "year_of y n = (y', r) \<Longrightarrow> r < year_days y'"
proof (induction y n rule: year_of.induct)
  case (1 y n)
  then show ?case by (cases "n < year_days y") (auto simp: year_of.simps [of y n])
qed

lemma year_of_shift: "year_of y n = (y', r) \<Longrightarrow> r + k < year_days y' \<Longrightarrow> year_of y (n + k) = (y', r + k)"
proof (induction y n rule: year_of.induct)
  case (1 y n)
  show ?case
  proof (cases "n < year_days y")
    case True
    with "1.prems" show ?thesis by (auto simp: year_of.simps)
  next
    case False
    then have "year_of (Suc y) (n - year_days y + k) = (y', r + k)"
      using "1.IH" "1.prems" by (simp add: year_of.simps [of y n])
    with False show ?thesis by (simp add: year_of.simps [of y "n + k"])
  qed
qed

lemma month_of_shift:
  "month_of m ls n = (m', r) \<Longrightarrow> n < sum_list ls \<Longrightarrow> r + k < ls ! (m' - m) \<Longrightarrow>
   month_of m ls (n + k) = (m', r + k)"
proof (induction m ls n rule: month_of.induct)
  case (1 m n)
  then show ?case by simp
next
  case (2 m l ls n)
  show ?case
  proof (cases "n < l")
    case True
    with "2.prems" show ?thesis by auto
  next
    case False
    have "m < m'" if "month_of (Suc m) ls j = (m', r)" for j
    proof -
      have "month_of a xs j = (b, r) \<Longrightarrow> a \<le> b" for a b xs j
        by (induction a xs j rule: month_of.induct) (auto split: if_splits)
      from this [OF that] show ?thesis by simp
    qed
    with False "2.prems" have "m < m'" by (auto split: if_splits)
    then have "(l # ls) ! (m' - m) = ls ! (m' - Suc m)"
      by (metis Suc_diff_Suc nth_Cons_Suc)
    with False "2.IH" "2.prems" show ?thesis by (simp add: less_diff_conv2)
  qed
qed

lemma month_of_bounds:
  "month_of m ls n = (m', r) \<Longrightarrow> n < sum_list ls \<Longrightarrow>
   m \<le> m' \<and> m' - m < length ls \<and> r < ls ! (m' - m)"
proof (induction m ls n rule: month_of.induct)
  case (1 m n)
  then show ?case by simp
next
  case (2 m l ls n)
  show ?case
  proof (cases "n < l")
    case True
    with "2.prems" show ?thesis by auto
  next
    case False
    with "2.IH" "2.prems" have *: "Suc m \<le> m' \<and> m' - Suc m < length ls \<and> r < ls ! (m' - Suc m)"
      by (simp add: less_diff_conv2)
    then have "(l # ls) ! (m' - m) = ls ! (m' - Suc m)"
      by (metis Suc_diff_le diff_Suc_Suc nth_Cons_Suc)
    with * show ?thesis by auto
  qed
qed

lemma month_lengths_sum [simp]: "sum_list (month_lengths y) = year_days y"
  by (simp add: month_lengths_def year_days_def)

lemma month_of_past: "sum_list ls \<le> n \<Longrightarrow> month_of a ls n = (a + length ls, n - sum_list ls)"
  by (induction a ls n rule: month_of.induct) auto

lemma month_lengths_length [simp]: "length (month_lengths y) = 12"
  by (simp add: month_lengths_def)

lemma civil_shift:
  assumes "snd (civil day) + k < month_length day"
  shows "civil (day + k) = (fst (civil day), snd (civil day) + k)"
proof -
  obtain y r where y: "year_of 1970 day = (y, r)" by fastforce
  obtain m d where m: "month_of 1 (month_lengths y) r = (m, d)" by fastforce
  from year_of_bound [OF y] have r: "r < sum_list (month_lengths y)" by simp
  from assms y m have k: "d + k < month_lengths y ! (m - 1)"
    by (simp add: civil_def month_length_def)
  have m': "month_of 1 (month_lengths y) (r + k) = (m, d + k)"
    by (rule month_of_shift [OF m r k])
  have "r + k < year_days y"
  proof (rule ccontr)
    assume "\<not> r + k < year_days y"
    then have "fst (month_of 1 (month_lengths y) (r + k)) = 13"
      by (simp add: month_of_past)
    moreover from month_of_bounds [OF m r] have "m \<le> 12" by simp arith
    ultimately show False using m' by simp
  qed
  from year_of_shift [OF y this] m m' y show ?thesis by (simp add: civil_def)
qed

lemma civil_in_month: "snd (civil day) < month_length day"
proof -
  obtain y r where y: "year_of 1970 day = (y, r)" by fastforce
  obtain m d where m: "month_of 1 (month_lengths y) r = (m, d)" by fastforce
  from year_of_bound [OF y] have r: "r < sum_list (month_lengths y)" by simp
  from month_of_bounds [OF m r] y m show ?thesis by (simp add: civil_def month_length_def)
qed

lemma month_until_next_month:
  assumes "t \<le> u" and "u < next_month t"
  shows "getMonth1 u = getMonth1 t"
proof -
  let ?a = "t div DAY_MS" and ?b = "u div DAY_MS"
  from assms(1) have ab: "?a \<le> ?b" by (rule div_le_mono)
  from assms(2) have "?b < ?a + (month_length ?a - snd (civil ?a))"
    by (simp add: next_month_def Let_def less_mult_imp_div_less)
  with ab civil_in_month [of ?a] have "snd (civil ?a) + (?b - ?a) < month_length ?a" by simp
  from civil_shift [OF this] ab show ?thesis by (simp add: getMonth1_def)
qed

lemma day_until_next_day:
  assumes "t \<le> u" and "u < next_day t"
  shows "u div DAY_MS = t div DAY_MS"
  using div_le_mono [OF assms(1), of DAY_MS] less_mult_imp_div_less [of u "t div DAY_MS + 1" DAY_MS] assms(2)
  by (simp add: next_day_def)

lemma hour_until_next_hour:
  assumes "t \<le> u" and "u < next_hour t"
  shows "u div HOUR_MS = t div HOUR_MS"
  using div_le_mono [OF assms(1), of HOUR_MS] less_mult_imp_div_less [of u "t div HOUR_MS + 1" HOUR_MS] assms(2)
  by (simp add: next_hour_def)

lemma minute_until_next_minute:
  assumes "t \<le> u" and "u < next_minute t"
  shows "u div MINUTE_MS = t div MINUTE_MS"
  using div_le_mono [OF assms(1), of MINUTE_MS] less_mult_imp_div_less [of u "t div MINUTE_MS + 1" MINUTE_MS] assms(2)
  by (simp add: next_minute_def)

lemma less_next_unit: "0 < w \<Longrightarrow> t < (t div w + 1) * w" for t w :: nat
  using dividend_less_div_times [of w t] by simp

lemma less_next_minute: "t < next_minute t"
  using less_next_unit [of MINUTE_MS t] by (simp add: next_minute_def ms_defs)

lemma less_next_hour: "t < next_hour t"
  using less_next_unit [of HOUR_MS t] by (simp add: next_hour_def ms_defs)

lemma less_next_day: "t < next_day t"
  using less_next_unit [of DAY_MS t] by (simp add: next_day_def ms_defs)

lemma less_next_month: "t < next_month t"
proof -
  let ?a = "t div DAY_MS"
  have "t < (?a + 1) * DAY_MS" using less_next_unit [of DAY_MS t] by (simp add: ms_defs)
  also have "\<dots> \<le> (?a + (month_length ?a - snd (civil ?a))) * DAY_MS"
    using civil_in_month [of ?a] by (intro mult_le_mono1) simp
  finally show ?thesis by (simp add: next_month_def Let_def)
qed

end
