(* ===== verification/Cron.thy ===== *)
theory Cron
  imports Calendar
begin

text \<open>
  \<^verbatim>\<open>packages/core/src/cron.ts\<close>: parsing five-field cron expressions and finding the next run.
  JavaScript \<open>Set\<close>s of numbers are sets; \<open>throw\<close> is \<open>Inl\<close>.
\<close>

section \<open>Parsing\<close>

record cron =
  minute :: "nat set"
  hour :: "nat set"
  day :: "nat set"
  month :: "nat set"
  weekday :: "nat set"
  dayRestricted :: bool
  weekdayRestricted :: bool

definition RANGES :: "(nat \<times> nat) list" where
  "RANGES = [(0, 59), (0, 23), (1, 31), (1, 12), (0, 7)]"

text \<open>
  The groups of \<^verbatim>\<open>/^(\*|(\d+)(?:-(\d+))?)(?:\/(\d+))?$/\<close>: group 1 is \<open>Star\<close> or a number with an
  optional upper end, and the last group is the step.
\<close>

datatype cron_base = Star | Num nat "nat option"

definition match_base :: "string \<Rightarrow> (cron_base \<times> string) option" where
  "match_base s =
     (if s \<noteq> [] \<and> hd s = CHR ''*'' then Some (Star, tl s)
      else let a = takeWhile is_digit s; r = dropWhile is_digit s
           in if a = [] then None
              else if r \<noteq> [] \<and> hd r = CHR ''-''
              then let b = takeWhile is_digit (tl r)
                   in if b = [] then None
                      else Some (Num (digits_val a) (Some (digits_val b)), dropWhile is_digit (tl r))
              else Some (Num (digits_val a) None, r))"

definition match_part :: "string \<Rightarrow> (cron_base \<times> nat option) option" where
  "match_part s =
     (case match_base s of
        None \<Rightarrow> None
      | Some (b, rest) \<Rightarrow>
          if rest = [] then Some (b, None)
          else if hd rest = CHR ''/'' \<and> tl rest \<noteq> [] \<and> list_all is_digit (tl rest)
          then Some (b, Some (digits_val (tl rest)))
          else None)"

text \<open>\<open>for (let v = from; v <= to; v += step) out.add(v)\<close>, for \<open>step >= 1\<close>.\<close>

function step_values :: "nat \<Rightarrow> nat \<Rightarrow> nat \<Rightarrow> nat list" where
  "step_values v to step =
     (if v \<le> to \<and> 0 < step then v # step_values (v + step) to step else [])"
  by pat_completeness auto
termination
  by (relation "measure (\<lambda>(v, to, step). Suc to - v)") auto

declare step_values.simps [simp del]

definition part_range :: "nat \<times> nat \<Rightarrow> cron_base \<Rightarrow> nat option \<Rightarrow> nat \<times> nat \<times> nat" where
  "part_range mm base st =
     (let step = (case st of None \<Rightarrow> 1 | Some n \<Rightarrow> n);
          lo = (case base of Star \<Rightarrow> fst mm | Num a _ \<Rightarrow> a);
          hi = (case base of Star \<Rightarrow> snd mm
                | Num a (Some b) \<Rightarrow> b
                | Num a None \<Rightarrow> (if st \<noteq> None then snd mm else lo))
      in (lo, hi, step))"

definition out_of_range :: "string \<Rightarrow> nat \<times> nat \<Rightarrow> string" where
  "out_of_range txt mm =
     ''cron field \"'' @ txt @ ''\" is out of range '' @ nat_str (fst mm) @ ''-'' @ nat_str (snd mm)"

fun field_parts :: "string \<Rightarrow> nat \<times> nat \<Rightarrow> string list \<Rightarrow> nat set \<Rightarrow> (nat set) result" where
  "field_parts txt mm [] out = Inr out"
| "field_parts txt mm (p # ps) out =
     (case match_part p of
        None \<Rightarrow> Inl (Error (''invalid cron field \"'' @ txt @ ''\"''))
      | Some (base, st) \<Rightarrow>
          (case part_range mm base st of
             (lo, hi, step) \<Rightarrow>
               if step < 1 \<or> lo < fst mm \<or> snd mm < hi \<or> hi < lo
               then Inl (Error (out_of_range txt mm))
               else field_parts txt mm ps (out \<union> set (step_values lo hi step))))"

definition field :: "string \<Rightarrow> nat \<times> nat \<Rightarrow> (nat set) result" where
  "field txt mm = field_parts txt mm (split_on (CHR '','') txt) {}"

fun fields :: "string list \<Rightarrow> (nat \<times> nat) list \<Rightarrow> (nat set list) result" where
  "fields (p # ps) (r # rs) =
     (case field p r of
        Inl e \<Rightarrow> Inl e
      | Inr v \<Rightarrow> (case fields ps rs of Inl e \<Rightarrow> Inl e | Inr vs \<Rightarrow> Inr (v # vs)))"
| "fields ps rs = Inr []"

definition parseCron :: "string \<Rightarrow> cron result" where
  "parseCron expr =
     (let ps = split_on (CHR '' '') (collapse_spaces (js_trim expr))
      in if length ps \<noteq> 5 then Inl (Error ''a cron expression has five fields'')
         else case fields ps RANGES of
             Inl e \<Rightarrow> Inl e
           | Inr vs \<Rightarrow>
               (let wd = vs ! 4
                in Inr \<lparr>minute = vs ! 0, hour = vs ! 1, day = vs ! 2, month = vs ! 3,
                        weekday = (if 7 \<in> wd then insert 0 wd else wd),
                        dayRestricted = (ps ! 2 \<noteq> ''*''), weekdayRestricted = (ps ! 4 \<noteq> ''*'')\<rparr>))"

section \<open>The next run\<close>

definition dayMatches :: "cron \<Rightarrow> ms \<Rightarrow> bool" where
  "dayMatches c d =
     (let dom = getDate d \<in> day c; dow = getDay d \<in> weekday c
      in if dayRestricted c \<and> weekdayRestricted c then dom \<or> dow else dom \<and> dow)"

definition run_limit :: "ms \<Rightarrow> ms" where
  "run_limit start = start + 4 * 366 * 24 * 3600000"

function next_run_loop :: "cron \<Rightarrow> ms \<Rightarrow> ms \<Rightarrow> ms option" where
  "next_run_loop c limit d =
     (if d \<le> limit then
        if getMonth1 d \<notin> month c then next_run_loop c limit (next_month d)
        else if \<not> dayMatches c d then next_run_loop c limit (next_day d)
        else if getHours d \<notin> hour c then next_run_loop c limit (next_hour d)
        else if getMinutes d \<notin> minute c then next_run_loop c limit (next_minute d)
        else Some d
      else None)"
  by pat_completeness auto
termination
  by (relation "measure (\<lambda>(c, limit, d). limit + 1 - d)")
     (use less_next_month less_next_day less_next_hour less_next_minute in \<open>auto intro: diff_less_mono2\<close>)

declare next_run_loop.simps [simp del]

definition nextRun :: "cron \<Rightarrow> ms \<Rightarrow> ms option" where
  "nextRun c start = next_run_loop c (run_limit start) (next_minute start)"

section \<open>Searching with jumps\<close>

text \<open>
  The loop is a search that may jump: from a time that does not match it goes to a later one, and
  no time it passes over matches.  Its result is then the least match.
\<close>

locale jump_search =
  fixes ok :: "nat \<Rightarrow> bool"
    and jump :: "nat \<Rightarrow> nat"
    and search :: "nat \<Rightarrow> nat \<Rightarrow> nat option"
  assumes jump_forward: "\<not> ok t \<Longrightarrow> t < jump t"
    and jump_safe: "\<not> ok t \<Longrightarrow> t \<le> u \<Longrightarrow> u < jump t \<Longrightarrow> \<not> ok u"
    and search_eq: "search limit t =
      (if t \<le> limit then if ok t then Some t else search limit (jump t) else None)"
begin

lemma search_Some:
  "search limit t = Some r \<Longrightarrow> t \<le> r \<and> r \<le> limit \<and> ok r \<and> (\<forall>u. t \<le> u \<and> u < r \<longrightarrow> \<not> ok u)"
proof (induction "limit + 1 - t" arbitrary: t rule: less_induct)
  case less
  show ?case
  proof (cases "t \<le> limit \<and> \<not> ok t")
    case True
    then have s: "search limit (jump t) = Some r" and j: "t < jump t"
      using less.prems jump_forward by (auto simp: search_eq [of limit t])
    then have "limit + 1 - jump t < limit + 1 - t" using True by linarith
    from less.hyps [OF this s]
    have r: "jump t \<le> r \<and> r \<le> limit \<and> ok r \<and> (\<forall>u. jump t \<le> u \<and> u < r \<longrightarrow> \<not> ok u)"
      by simp
    have "\<not> ok u" if "t \<le> u" "u < r" for u
      using that r True jump_safe by (cases "u < jump t") auto
    with r j show ?thesis by auto
  next
    case False
    with less.prems show ?thesis by (auto simp: search_eq [of limit t] split: if_splits)
  qed
qed

lemma search_None: "search limit t = None \<Longrightarrow> t \<le> u \<Longrightarrow> u \<le> limit \<Longrightarrow> \<not> ok u"
proof (induction "limit + 1 - t" arbitrary: t rule: less_induct)
  case less
  then have t: "\<not> ok t" "search limit (jump t) = None"
    by (auto simp: search_eq [of limit t] split: if_splits)
  with jump_forward have "t < jump t" by simp
  show ?case
  proof (cases "u < jump t")
    case True
    with t(1) less.prems(2) show ?thesis by (rule jump_safe)
  next
    case False
    with less.hyps [OF _ t(2)] less.prems \<open>t < jump t\<close> show ?thesis by simp
  qed
qed

lemma search_least:
  "search limit t =
   (if \<exists>u. t \<le> u \<and> u \<le> limit \<and> ok u then Some (LEAST u. t \<le> u \<and> u \<le> limit \<and> ok u) else None)"
proof (cases "search limit t")
  case None
  with search_None show ?thesis by auto
next
  case (Some r)
  from search_Some [OF this]
  have r: "t \<le> r \<and> r \<le> limit \<and> ok r" and least: "\<And>u. t \<le> u \<Longrightarrow> ok u \<Longrightarrow> r \<le> u"
    by (auto simp: not_less [symmetric])
  then have "(LEAST u. t \<le> u \<and> u \<le> limit \<and> ok u) = r"
    by (intro Least_equality) auto
  with Some r show ?thesis by auto
qed

end

definition cron_matches :: "cron \<Rightarrow> ms \<Rightarrow> bool" where
  "cron_matches c t \<longleftrightarrow>
     getMonth1 t \<in> month c \<and> dayMatches c t \<and> getHours t \<in> hour c \<and> getMinutes t \<in> minute c"

definition cron_jump :: "cron \<Rightarrow> ms \<Rightarrow> ms" where
  "cron_jump c t =
     (if getMonth1 t \<notin> month c then next_month t
      else if \<not> dayMatches c t then next_day t
      else if getHours t \<notin> hour c then next_hour t else next_minute t)"

lemma dayMatches_same_day: "u div DAY_MS = t div DAY_MS \<Longrightarrow> dayMatches c u = dayMatches c t"
  by (simp add: dayMatches_def getDate_def getDay_def)

lemma cron_jump_forward: "t < cron_jump c t"
  using less_next_month less_next_day less_next_hour less_next_minute by (auto simp: cron_jump_def)

lemma cron_jump_safe:
  assumes no: "\<not> cron_matches c t" and u: "t \<le> u" "u < cron_jump c t"
  shows "\<not> cron_matches c u"
proof -
  consider "getMonth1 t \<notin> month c" | "getMonth1 t \<in> month c" "\<not> dayMatches c t"
    | "getMonth1 t \<in> month c" "dayMatches c t" "getHours t \<notin> hour c"
    | "getMonth1 t \<in> month c" "dayMatches c t" "getHours t \<in> hour c" "getMinutes t \<notin> minute c"
    using no by (auto simp: cron_matches_def)
  then show ?thesis
  proof cases
    case 1
    with u month_until_next_month [of t u] show ?thesis by (simp add: cron_jump_def cron_matches_def)
  next
    case 2
    with u have "u < next_day t" by (simp add: cron_jump_def)
    from dayMatches_same_day [OF day_until_next_day [OF u(1) this], of c] 2 show ?thesis
      by (simp add: cron_matches_def)
  next
    case 3
    with u hour_until_next_hour [of t u] show ?thesis
      by (simp add: cron_jump_def cron_matches_def getHours_def)
  next
    case 4
    with u minute_until_next_minute [of t u] show ?thesis
      by (simp add: cron_jump_def cron_matches_def getMinutes_def)
  qed
qed

interpretation cron: jump_search "cron_matches c" "cron_jump c" "next_run_loop c" for c
proof
  show "t < cron_jump c t" for t by (rule cron_jump_forward)
  show "\<not> cron_matches c u" if "\<not> cron_matches c t" "t \<le> u" "u < cron_jump c t" for t u
    using that by (rule cron_jump_safe)
  show "next_run_loop c limit t =
    (if t \<le> limit then if cron_matches c t then Some t else next_run_loop c limit (cron_jump c t) else None)"
    for limit t
    by (subst next_run_loop.simps) (simp add: cron_matches_def cron_jump_def)
qed

section \<open>Properties\<close>

lemma set_step_values: "0 < step \<Longrightarrow> set (step_values v to step) = {u. \<exists>k. u = v + k * step \<and> u \<le> to}"
proof (induction v to step rule: step_values.induct)
  case (1 v to step)
  show ?case
  proof (cases "v \<le> to")
    case True
    have "{u. \<exists>k. u = v + k * step \<and> u \<le> to} = insert v {u. \<exists>k. u = v + step + k * step \<and> u \<le> to}"
    proof (intro set_eqI iffI)
      fix u assume "u \<in> {u. \<exists>k. u = v + k * step \<and> u \<le> to}"
      then obtain k where k: "u = v + k * step" "u \<le> to" by auto
      then show "u \<in> insert v {u. \<exists>k. u = v + step + k * step \<and> u \<le> to}"
        by (cases k) auto
    next
      fix u assume "u \<in> insert v {u. \<exists>k. u = v + step + k * step \<and> u \<le> to}"
      then show "u \<in> {u. \<exists>k. u = v + k * step \<and> u \<le> to}"
        using True by (auto intro: exI [of _ 0] exI [of _ "Suc _"])
    qed
    with True 1 show ?thesis by (simp add: step_values.simps [of v])
  next
    case False
    then show ?thesis by (auto simp: step_values.simps [of v])
  qed
qed

definition part_values :: "nat \<times> nat \<Rightarrow> string \<Rightarrow> nat set" where
  "part_values mm p =
     (case match_part p of
        None \<Rightarrow> {}
      | Some (base, st) \<Rightarrow>
          (case part_range mm base st of (lo, hi, step) \<Rightarrow> {u. \<exists>k. u = lo + k * step \<and> u \<le> hi}))"

definition part_ok :: "nat \<times> nat \<Rightarrow> string \<Rightarrow> bool" where
  "part_ok mm p =
     (case match_part p of
        None \<Rightarrow> False
      | Some (base, st) \<Rightarrow>
          (case part_range mm base st of (lo, hi, step) \<Rightarrow>
             1 \<le> step \<and> fst mm \<le> lo \<and> lo \<le> hi \<and> hi \<le> snd mm))"

lemma field_parts_eq:
  "field_parts txt mm ps out = Inr vs \<longleftrightarrow>
   list_all (part_ok mm) ps \<and> vs = out \<union> (\<Union>p\<in>set ps. part_values mm p)"
proof (induction ps arbitrary: out)
  case Nil
  then show ?case by auto
next
  case (Cons p ps)
  show ?case
  proof (cases "part_ok mm p")
    case True
    then obtain base st lo hi step where
      p: "match_part p = Some (base, st)" "part_range mm base st = (lo, hi, step)"
        "1 \<le> step" "fst mm \<le> lo" "lo \<le> hi" "hi \<le> snd mm"
      by (auto simp: part_ok_def split: option.splits prod.splits)
    then show ?thesis
      using Cons.IH by (auto simp: set_step_values part_values_def True not_less)
  next
    case False
    then show ?thesis
      by (auto simp: part_ok_def split: option.splits prod.splits if_splits)
  qed
qed

text \<open>
  A cron field parses exactly when every part of its comma list is a star, a number or a
  range with an optional step, inside the field's limits; it then holds the arithmetic progressions
  the parts denote, and nothing else.
\<close>

theorem field_values:
  "field txt mm = Inr vs \<longleftrightarrow>
   list_all (part_ok mm) (split_on (CHR '','') txt) \<and>
   vs = (\<Union>p\<in>set (split_on (CHR '','') txt). part_values mm p)"
  by (simp add: field_def field_parts_eq)

lemma part_values_bounds:
  assumes "part_ok mm p"
  shows "part_values mm p \<subseteq> {fst mm..snd mm}" and "part_values mm p \<noteq> {}"
proof -
  from assms obtain base st lo hi step where
    p: "match_part p = Some (base, st)" "part_range mm base st = (lo, hi, step)"
      "fst mm \<le> lo" "lo \<le> hi" "hi \<le> snd mm"
    by (auto simp: part_ok_def split: option.splits prod.splits)
  then have v: "part_values mm p = {u. \<exists>k. u = lo + k * step \<and> u \<le> hi}"
    by (simp add: part_values_def)
  from p show "part_values mm p \<subseteq> {fst mm..snd mm}" unfolding v by auto
  from p(4) have "lo \<in> part_values mm p" unfolding v by (auto intro: exI [of _ 0])
  then show "part_values mm p \<noteq> {}" by blast
qed

lemma field_bounds:
  assumes "field txt mm = Inr vs"
  shows "vs \<subseteq> {fst mm..snd mm} \<and> vs \<noteq> {}"
proof -
  let ?ps = "set (split_on (CHR '','') txt)"
  from assms have ok: "\<forall>p\<in>?ps. part_ok mm p" and vs: "vs = (\<Union>p\<in>?ps. part_values mm p)"
    by (simp_all add: field_def field_parts_eq list_all_iff)
  have "vs \<subseteq> {fst mm..snd mm}" unfolding vs
    by (rule UN_least, rule part_values_bounds(1)) (use ok in blast)
  moreover obtain p where "p \<in> ?ps" by (metis split_on_nonempty last_in_set)
  with ok part_values_bounds(2) [of mm p] vs have "vs \<noteq> {}" by blast
  ultimately show ?thesis by simp
qed

lemma fields_Inr:
  "fields ps rs = Inr vs \<Longrightarrow> length ps = length rs \<Longrightarrow>
   length vs = length rs \<and> (\<forall>i < length rs. field (ps ! i) (rs ! i) = Inr (vs ! i))"
proof (induction ps rs arbitrary: vs rule: fields.induct)
  case (1 p ps r rs)
  then show ?case by (auto split: sum.splits simp: nth_Cons split: nat.splits)
qed auto

text \<open>
  Every set of a parsed expression is non-empty and within its field's limits, and
  Sunday can be asked for as 0 whenever it was written as 7.
\<close>

theorem parseCron_in_range:
  assumes "parseCron expr = Inr c"
  shows "minute c \<subseteq> {0..59} \<and> hour c \<subseteq> {0..23} \<and> day c \<subseteq> {1..31} \<and> month c \<subseteq> {1..12} \<and>
    weekday c \<subseteq> {0..7} \<and> minute c \<noteq> {} \<and> hour c \<noteq> {} \<and> day c \<noteq> {} \<and> month c \<noteq> {} \<and> weekday c \<noteq> {} \<and>
    (7 \<in> weekday c \<longrightarrow> 0 \<in> weekday c)"
proof -
  define ps where "ps = split_on (CHR '' '') (collapse_spaces (js_trim expr))"
  from assms obtain vs where len: "length ps = 5" and vs: "fields ps RANGES = Inr vs"
    and c: "c = \<lparr>minute = vs ! 0, hour = vs ! 1, day = vs ! 2, month = vs ! 3,
                  weekday = (if 7 \<in> vs ! 4 then insert 0 (vs ! 4) else vs ! 4),
                  dayRestricted = (ps ! 2 \<noteq> ''*''), weekdayRestricted = (ps ! 4 \<noteq> ''*'')\<rparr>"
    by (auto simp: parseCron_def ps_def Let_def split: if_splits sum.splits)
  have R: "length RANGES = 5" by (simp add: RANGES_def)
  from fields_Inr [OF vs] len R have *: "\<forall>i<5. field (ps ! i) (RANGES ! i) = Inr (vs ! i)" by simp
  have "field (ps ! 0) (0, 59) = Inr (vs ! 0)" "field (ps ! 1) (0, 23) = Inr (vs ! 1)"
    "field (ps ! 2) (1, 31) = Inr (vs ! 2)" "field (ps ! 3) (1, 12) = Inr (vs ! 3)"
    "field (ps ! 4) (0, 7) = Inr (vs ! 4)"
    using * [rule_format, of 0] * [rule_format, of 1] * [rule_format, of 2] * [rule_format, of 3]
      * [rule_format, of 4] by (simp_all add: RANGES_def)
  from this [THEN field_bounds] show ?thesis unfolding c by auto
qed

lemma parseCron_in_range_witness:
  "\<exists>c. parseCron ''*/15 9-17 * * 1-5'' = Inr c \<and> minute c \<subseteq> {0..59} \<and> weekday c \<subseteq> {0..7}"
proof -
  let ?r = "parseCron ''*/15 9-17 * * 1-5''"
  have "isl ?r = False" by code_simp
  then obtain c where "?r = Inr c" by (cases ?r) auto
  with parseCron_in_range [OF this] show ?thesis by blast
qed

text \<open>
  C23 (nextRun_least). \<open>nextRun\<close> returns the least matching time at or after the next whole minute, or nothing
  when there is none within its limit of four years: the jumps over months, days and hours never
  skip a matching minute, and the loop always ends.
\<close>

theorem nextRun_least:
  "nextRun c start =
   (if \<exists>u. next_minute start \<le> u \<and> u \<le> run_limit start \<and> cron_matches c u
    then Some (LEAST u. next_minute start \<le> u \<and> u \<le> run_limit start \<and> cron_matches c u)
    else None)"
  unfolding nextRun_def by (rule cron.search_least)

end
