(* ===== verification/Protocol.thy ===== *)
theory Protocol
  imports Prelude Complex_Main
begin

text \<open>
  The data of \<^verbatim>\<open>packages/protocol/src\<close> that the daemon stores and exchanges: runtime events, task
  rows, peer and team records, and the checks their schemas make.  A schema check is a
  \<open>bool\<close>-valued function named after the schema.

  Strings with a fixed set of values are datatypes; numbers that the schemas bound below by 0 are
  \<open>nat\<close>; costs are \<open>rat\<close> (floating-point rounding is not modelled).
\<close>

section \<open>Identifiers (\<^verbatim>\<open>agent-ref.ts\<close>, \<^verbatim>\<open>team.ts\<close>)\<close>

definition is_lower :: "char \<Rightarrow> bool" where
  "is_lower c \<longleftrightarrow> 97 \<le> (of_char c :: nat) \<and> (of_char c :: nat) \<le> 122"

definition is_hex :: "char \<Rightarrow> bool" where
  "is_hex c \<longleftrightarrow> is_digit c \<or> 97 \<le> (of_char c :: nat) \<and> (of_char c :: nat) \<le> 102"

definition is_slug_char :: "char \<Rightarrow> bool" where
  "is_slug_char c \<longleftrightarrow> is_lower c \<or> is_digit c \<or> c = CHR ''-''"

definition taskIdSchema :: "string \<Rightarrow> bool" where
  "taskIdSchema s \<longleftrightarrow> length s = 12 \<and> take 2 s = ''t-'' \<and> list_all is_hex (drop 2 s)"

definition peerNodeSchema :: "string \<Rightarrow> bool" where
  "peerNodeSchema s \<longleftrightarrow> length s = 32 \<and> list_all is_hex s"

definition peerAgentIdSchema :: "string \<Rightarrow> bool" where
  "peerAgentIdSchema s \<longleftrightarrow>
     1 \<le> length s \<and> length s \<le> 40 \<and> (is_lower (hd s) \<or> is_digit (hd s)) \<and> list_all is_slug_char s"

definition generationSchema :: "string \<Rightarrow> bool" where
  "generationSchema s \<longleftrightarrow> length s = 16 \<and> list_all is_hex s"

definition peerAgentRefSchema :: "string \<Rightarrow> bool" where
  "peerAgentRefSchema s \<longleftrightarrow>
     (case split_on (CHR ''/'') s of
        [n, a, g] \<Rightarrow> peerNodeSchema n \<and> peerAgentIdSchema a \<and> generationSchema g
      | _ \<Rightarrow> False)"

definition delegateRefSchema :: "string \<Rightarrow> bool" where
  "delegateRefSchema s \<longleftrightarrow> peerAgentIdSchema s \<or> peerAgentRefSchema s"

definition workerIdSchema :: "string \<Rightarrow> bool" where
  "workerIdSchema s \<longleftrightarrow> peerAgentIdSchema s \<and> s \<noteq> ''builder''"

section \<open>JSON values\<close>

text \<open>A value of unknown shape.  A number that is not an integer keeps its text only.\<close>

datatype json =
  JNull
| JBool bool
| JInt int
| JReal string
| JStr string
| JArr "json list"
| JObj "(string \<times> json) list"

text \<open>\<open>JSON.stringify\<close>: strings with the escapes of JSON, objects in the order of their fields.\<close>

definition hex_digit :: "nat \<Rightarrow> char" where
  "hex_digit n = ''0123456789abcdef'' ! n"

definition json_char :: "char \<Rightarrow> string" where
  "json_char c =
     (let n = of_char c :: nat
      in if c = CHR 0x22 then [CHR 0x5C, CHR 0x22]
         else if c = CHR 0x5C then [CHR 0x5C, CHR 0x5C]
         else if n = 8 then CHR 0x5C # ''b'' else if n = 9 then CHR 0x5C # ''t''
         else if n = 10 then CHR 0x5C # ''n'' else if n = 12 then CHR 0x5C # ''f''
         else if n = 13 then CHR 0x5C # ''r''
         else if n < 32 then CHR 0x5C # ''u00'' @ [hex_digit (n div 16), hex_digit (n mod 16)]
         else [c])"

definition json_string :: "string \<Rightarrow> string" where
  "json_string s = CHR 0x22 # concat (map json_char s) @ [CHR 0x22]"

fun join :: "string \<Rightarrow> string list \<Rightarrow> string" where
  "join sep [] = []"
| "join sep [x] = x"
| "join sep (x # xs) = x @ sep @ join sep xs"

fun json_text :: "json \<Rightarrow> string" where
  "json_text JNull = ''null''"
| "json_text (JBool b) = (if b then ''true'' else ''false'')"
| "json_text (JInt n) = (if n < 0 then ''-'' @ nat_str (nat (- n)) else nat_str (nat n))"
| "json_text (JReal t) = t"
| "json_text (JStr s) = json_string s"
| "json_text (JArr xs) = ''['' @ join '','' (map json_text xs) @ '']''"
| "json_text (JObj kvs) =
     ''{'' @ join '','' (map (\<lambda>(k, v). json_string k @ '':'' @ json_text v) kvs) @ ''}''"

text \<open>\<open>String(v)\<close>; an array joins its elements with commas, \<open>null\<close> among them as nothing.\<close>

fun js_String :: "json \<Rightarrow> string" where
  "js_String (JStr s) = s"
| "js_String (JArr xs) = join '','' (map (\<lambda>x. case x of JNull \<Rightarrow> [] | _ \<Rightarrow> js_String x) xs)"
| "js_String (JObj _) = ''[object Object]''"
| "js_String j = json_text j"

section \<open>Runtime events (\<^verbatim>\<open>events.ts\<close>)\<close>

definition MAX_EVENT_TEXT :: nat where "MAX_EVENT_TEXT = 64 * 1024"

definition MAX_TOOL_OUTPUT :: nat where "MAX_TOOL_OUTPUT = 16 * 1024"

text \<open>
  Cuts a text, marking the cut; the marker begins with a newline and an ellipsis (three bytes of UTF-8).
\<close>

definition truncate_marker :: "nat \<Rightarrow> string" where
  "truncate_marker n =
     [CHR 0x0A, CHR 0xE2, CHR 0x80, CHR 0xA6] @ '' ['' @ nat_str n @ '' characters truncated]''"

definition truncate_text :: "string \<Rightarrow> nat \<Rightarrow> string" where
  "truncate_text s n =
     (if length s \<le> n then s
      else let marker = truncate_marker (length s - n) in take (n - length marker) s @ marker)"

datatype input_source = From_user | From_task

record usage_event =
  ue_model :: "string option"
  ue_input :: "nat option"
  ue_output :: "nat option"
  ue_cached :: "nat option"
  ue_cacheWrite :: "nat option"
  ue_reasoning :: "nat option"
  ue_cost :: "rat option"
  ue_cumulative :: "bool option"

datatype runtime_event =
  Ev_input string "input_source option"
| Ev_session_started string
| Ev_text_delta string
| Ev_message string
| Ev_progress string
| Ev_tool_call string string string
| Ev_tool_result string string bool
| Ev_usage usage_event
| Ev_error string bool
| Ev_notice string
| Ev_turn_completed

definition event_id_ok :: "string \<Rightarrow> bool" where
  "event_id_ok s \<longleftrightarrow> 1 \<le> length s \<and> length s \<le> 200"

fun runtimeEventSchema :: "runtime_event \<Rightarrow> bool" where
  "runtimeEventSchema (Ev_input t _) = (length t \<le> MAX_EVENT_TEXT)"
| "runtimeEventSchema (Ev_session_started r) = event_id_ok r"
| "runtimeEventSchema (Ev_text_delta t) = (length t \<le> MAX_EVENT_TEXT)"
| "runtimeEventSchema (Ev_message t) = (length t \<le> MAX_EVENT_TEXT)"
| "runtimeEventSchema (Ev_progress t) = (length t \<le> MAX_EVENT_TEXT)"
| "runtimeEventSchema (Ev_tool_call i n t) =
     (event_id_ok i \<and> length n \<le> 200 \<and> length t \<le> MAX_EVENT_TEXT)"
| "runtimeEventSchema (Ev_tool_result i out e) = (event_id_ok i \<and> length out \<le> MAX_TOOL_OUTPUT)"
| "runtimeEventSchema (Ev_usage u) =
     ((case ue_model u of None \<Rightarrow> True | Some m \<Rightarrow> length m \<le> 100) \<and>
      (case ue_cost u of None \<Rightarrow> True | Some c \<Rightarrow> 0 \<le> c))"
| "runtimeEventSchema (Ev_error m f) = (length m \<le> MAX_EVENT_TEXT)"
| "runtimeEventSchema (Ev_notice t) = (length t \<le> MAX_EVENT_TEXT)"
| "runtimeEventSchema Ev_turn_completed = True"

section \<open>Peers and teams (\<^verbatim>\<open>peers.ts\<close>, \<^verbatim>\<open>team.ts\<close>)\<close>

datatype task_status = Queued | Running | Done | Failed | Cancelled

fun status_str :: "task_status \<Rightarrow> string" where
  "status_str Queued = ''queued''"
| "status_str Running = ''running''"
| "status_str Done = ''done''"
| "status_str Failed = ''failed''"
| "status_str Cancelled = ''cancelled''"

definition in_flight :: "task_status \<Rightarrow> bool" where
  "in_flight st \<longleftrightarrow> st = Queued \<or> st = Running"

record execution =
  ex_server :: string
  ex_agent :: string

record team_origin =
  og_coordinator :: string
  og_task :: string
  og_agent :: string
  og_chain :: "string list"

record team_key =
  tk_coordinator :: string
  tk_task :: string

datatype outcome = Outcome_result json | Outcome_error string

record task_ref =
  ref_node :: string
  ref_task :: string

record peer_execution =
  pe_root :: task_ref
  pe_parent :: "task_ref option"
  pe_lineage :: "string list"

record peer_mirror =
  pm_node :: string
  pm_agent :: string
  pm_remoteTask :: "string option"
  pm_observed :: bool
  pm_root :: task_ref

datatype peer_info = Peer_execution peer_execution | Peer_mirror peer_mirror

definition is_mirror :: "peer_info option \<Rightarrow> bool" where
  "is_mirror p \<longleftrightarrow> (case p of Some (Peer_mirror _) \<Rightarrow> True | _ \<Rightarrow> False)"

definition is_observed :: "peer_info option \<Rightarrow> bool" where
  "is_observed p \<longleftrightarrow> (case p of Some (Peer_mirror m) \<Rightarrow> pm_observed m | _ \<Rightarrow> False)"

record peer_budget =
  b_start :: nat
  b_end :: nat

definition peerBudgetSchema :: "peer_budget \<Rightarrow> bool" where
  "peerBudgetSchema b \<longleftrightarrow> b_start b \<le> 60 \<and> b_end b \<le> 60 \<and> b_start b \<le> b_end b"

record peer_dispatch =
  dp_request :: string
  dp_parent :: "task_ref option"
  dp_root :: task_ref
  dp_target :: string
  dp_lineage :: "string list"
  dp_budget :: peer_budget
  dp_turn :: nat
  dp_text :: string

definition peerTaskRefSchema :: "task_ref \<Rightarrow> bool" where
  "peerTaskRefSchema r \<longleftrightarrow> peerNodeSchema (ref_node r) \<and> taskIdSchema (ref_task r)"

definition peerDispatchSchema :: "peer_dispatch \<Rightarrow> bool" where
  "peerDispatchSchema p \<longleftrightarrow>
     taskIdSchema (dp_request p) \<and>
     (case dp_parent p of None \<Rightarrow> True | Some r \<Rightarrow> peerTaskRefSchema r) \<and>
     peerTaskRefSchema (dp_root p) \<and> peerAgentRefSchema (dp_target p) \<and>
     list_all peerAgentRefSchema (dp_lineage p) \<and>
     1 \<le> length (dp_lineage p) \<and> length (dp_lineage p) \<le> 4 \<and>
     peerBudgetSchema (dp_budget p) \<and>
     1 \<le> dp_turn p \<and> dp_turn p \<le> 60 \<and>
     1 \<le> length (dp_text p) \<and> length (dp_text p) \<le> 200000"

datatype approval_kind = Proxy_approval | Policy_approval

record approval =
  ap_id :: string
  ap_kind :: approval_kind
  ap_task :: string
  ap_agent :: string
  ap_connector :: string
  ap_operation :: string
  ap_host :: string
  ap_summary :: string
  ap_createdAt :: rat
  ap_timeout :: rat
  ap_reason :: string
  ap_origin :: string

section \<open>Task rows (\<^verbatim>\<open>rpc.ts\<close>)\<close>

record task_row =
  t_id :: string
  t_agentId :: string
  t_trigger :: string
  t_title :: string
  t_status :: task_status
  t_resumeId :: "string option"
  t_runtime :: "string option"
  t_createdAt :: int
  t_startedAt :: "int option"
  t_finishedAt :: "int option"
  t_result :: "string option"
  t_links :: "string list"
  t_parentId :: "string option"
  t_rootId :: string
  t_depth :: nat
  t_turns :: nat
  t_inputTokens :: nat
  t_outputTokens :: nat
  t_peer :: "peer_info option"
  t_execution :: "execution option"
  t_teamOrigin :: "team_origin option"

definition active_task :: "task_row \<Rightarrow> bool" where
  "active_task t \<longleftrightarrow> in_flight (t_status t)"

record stored_event =
  se_seq :: nat
  se_ts :: int
  se_event :: runtime_event

record team_run =
  tr_origin :: team_origin
  tr_agent :: string
  tr_turn :: nat
  tr_text :: string

definition teamOriginSchema :: "team_origin \<Rightarrow> bool" where
  "teamOriginSchema og \<longleftrightarrow>
     peerNodeSchema (og_coordinator og) \<and> taskIdSchema (og_task og) \<and> peerAgentIdSchema (og_agent og) \<and>
     list_all (\<lambda>s. 1 \<le> length s \<and> length s \<le> 200) (og_chain og) \<and>
     1 \<le> length (og_chain og) \<and> length (og_chain og) \<le> 5"

definition teamKeySchema :: "team_key \<Rightarrow> bool" where
  "teamKeySchema k \<longleftrightarrow> peerNodeSchema (tk_coordinator k) \<and> taskIdSchema (tk_task k)"

definition teamRunSchema :: "team_run \<Rightarrow> bool" where
  "teamRunSchema r \<longleftrightarrow>
     teamOriginSchema (tr_origin r) \<and> workerIdSchema (tr_agent r) \<and>
     1 \<le> tr_turn r \<and> tr_turn r \<le> 100000 \<and> 1 \<le> length (tr_text r) \<and> length (tr_text r) \<le> 200000"

definition executionSchema :: "execution \<Rightarrow> bool" where
  "executionSchema e \<longleftrightarrow>
     1 \<le> length (ex_server e) \<and> length (ex_server e) \<le> 40 \<and>
     (is_lower (hd (ex_server e)) \<or> is_digit (hd (ex_server e))) \<and>
     list_all (\<lambda>c. is_slug_char c \<or> c = CHR ''.'' \<or> c = CHR ''_'') (ex_server e) \<and>
     ex_server e \<notin> {''local'', ''ls'', ''add'', ''rm''} \<and> workerIdSchema (ex_agent e)"

record team_tool =
  tt_id :: string
  tt_turn :: nat
  tt_tool :: string
  tt_args :: json

definition requestIdSchema :: "string \<Rightarrow> bool" where
  "requestIdSchema s \<longleftrightarrow> length s = 32 \<and> list_all is_hex s"

definition is_object :: "json \<Rightarrow> bool" where
  "is_object j = (case j of JObj _ \<Rightarrow> True | _ \<Rightarrow> False)"

definition teamToolSchema :: "team_tool \<Rightarrow> bool" where
  "teamToolSchema t \<longleftrightarrow>
     requestIdSchema (tt_id t) \<and> 1 \<le> tt_turn t \<and> 1 \<le> length (tt_tool t) \<and> length (tt_tool t) \<le> 100 \<and>
     is_object (tt_args t) \<and> length (json_text (tt_args t)) \<le> 64000"

fun outcomeSchema :: "outcome \<Rightarrow> bool" where
  "outcomeSchema (Outcome_result v) = is_object v"
| "outcomeSchema (Outcome_error m) = (length m \<le> 2000)"

fun outcome_json :: "outcome \<Rightarrow> json" where
  "outcome_json (Outcome_result v) = JObj [(''kind'', JStr ''result''), (''value'', v)]"
| "outcome_json (Outcome_error m) = JObj [(''kind'', JStr ''error''), (''message'', JStr m)]"

end
