(* ===== verification/Schema.thy ===== *)
theory Schema
  imports Cron Protocol "HOL-Library.Monad_Syntax" "HOL-Library.Char_ord" "HOL-Library.List_Lexorder"
begin

text \<open>
  \<^verbatim>\<open>packages/core/src/config/schema.ts\<close>: the schemas of agent and image files.  A schema is a
  function from a JSON value to what parsing yields, \<open>None\<close> for a value it refuses; a layer keeps
  the JSON value it had, so its schema is a check.  Names with a fixed set of values stay strings.
\<close>

section \<open>Schema combinators\<close>

type_synonym 'a parser = "json \<Rightarrow> 'a option"

fun p_string :: "string parser" where
  "p_string (JStr s) = Some s" | "p_string _ = None"

definition str_where :: "(string \<Rightarrow> bool) \<Rightarrow> string parser" where
  "str_where P j = do { s \<leftarrow> p_string j; if P s then Some s else None }"

definition p_enum :: "string list \<Rightarrow> string parser" where
  "p_enum vs = str_where (\<lambda>s. s \<in> set vs)"

fun int_between :: "int \<Rightarrow> int \<Rightarrow> int parser" where
  "int_between a b (JInt n) = (if a \<le> n \<and> n \<le> b then Some n else None)"
| "int_between a b _ = None"

fun p_array :: "'a parser \<Rightarrow> 'a list parser" where
  "p_array p (JArr xs) = parse_all p xs"
| "p_array p _ = None"

definition array_max :: "nat \<Rightarrow> 'a parser \<Rightarrow> 'a list parser" where
  "array_max n p j = do { xs \<leftarrow> p_array p j; if length xs \<le> n then Some xs else None }"

type_synonym fields = "(string \<times> json) list"

fun strictObject :: "string list \<Rightarrow> fields parser" where
  "strictObject allowed (JObj kvs) = (if set (map fst kvs) \<subseteq> set allowed then Some kvs else None)"
| "strictObject allowed _ = None"

definition needed :: "fields \<Rightarrow> string \<Rightarrow> 'a parser \<Rightarrow> 'a option" where
  "needed kvs k p = Option.bind (map_of kvs k) p"

definition optional :: "fields \<Rightarrow> string \<Rightarrow> 'a parser \<Rightarrow> 'a option option" where
  "optional kvs k p = (case map_of kvs k of None \<Rightarrow> Some None | Some j \<Rightarrow> map_option Some (p j))"

definition default_to :: "'a \<Rightarrow> fields \<Rightarrow> string \<Rightarrow> 'a parser \<Rightarrow> 'a option" where
  "default_to d kvs k p = (case map_of kvs k of None \<Rightarrow> Some d | Some j \<Rightarrow> p j)"

definition partialRecord :: "string list \<Rightarrow> 'a parser \<Rightarrow> (string \<times> 'a) list parser" where
  "partialRecord names p j = do {
     kvs \<leftarrow> strictObject names j;
     parse_all (\<lambda>(k, v). map_option (Pair k) (p v)) kvs }"

definition refine :: "bool \<Rightarrow> unit option" where
  "refine b = (if b then Some () else None)"

section \<open>Names\<close>

definition idSchema :: "string \<Rightarrow> bool" where
  "idSchema s \<longleftrightarrow>
     1 \<le> length s \<and> length s \<le> 40 \<and> (is_lower (hd s) \<or> is_digit (hd s)) \<and> list_all is_slug_char s"

definition RUNTIMES :: "string list" where
  "RUNTIMES = [''codex'', ''claude-code'', ''hermes'']"

definition PROXY_CONNECTORS :: "string list" where
  "PROXY_CONNECTORS =
     [''github'', ''aws'', ''linear'', ''posthog'', ''sentry'', ''firecrawl'', ''figma'', ''discord'']"

definition SERVICE_CONNECTORS :: "string list" where
  "SERVICE_CONNECTORS = [''gmail'', ''drive'', ''notion'', ''slack'', ''x'', ''reddit'']"

definition SOCIAL_CONNECTORS :: "string list" where
  "SOCIAL_CONNECTORS = [''x'', ''reddit'']"

definition connectorSchema :: "string parser" where
  "connectorSchema = p_enum (PROXY_CONNECTORS @ SERVICE_CONNECTORS)"

definition accountNameSchema :: "string \<Rightarrow> bool" where
  "accountNameSchema s \<longleftrightarrow>
     1 \<le> length s \<and> length s \<le> 32 \<and> (is_lower (hd s) \<or> is_digit (hd s)) \<and>
     list_all (\<lambda>c. is_slug_char c \<or> c = CHR ''_'') s"

definition accountsSchema :: "(string \<times> string) list parser" where
  "accountsSchema = partialRecord [''gmail'', ''drive''] (str_where accountNameSchema)"

definition DEFAULT_MAX_TASKS :: nat where "DEFAULT_MAX_TASKS = 3"

definition approvalsSchema :: "(string \<times> string) list parser" where
  "approvalsSchema =
     partialRecord (PROXY_CONNECTORS @ SERVICE_CONNECTORS) (p_enum [''auto'', ''ask''])"

definition HIGH_RISK_IDS :: "string list" where
  "HIGH_RISK_IDS =
     [''github-merge'', ''github-repo-delete'', ''github-repo-settings'', ''github-repo-transfer'',
      ''github-protection'', ''github-access'', ''github-ref-delete'', ''github-graphql'',
      ''git-default-branch'', ''git-ref-delete'', ''aws-destroy'', ''aws-s3-delete'', ''aws-s3-access'',
      ''linear-delete'', ''posthog-delete'', ''posthog-access'', ''sentry-delete'', ''sentry-access'',
      ''figma-webhook'', ''discord-delete'', ''discord-members'', ''discord-access'']"

definition highRiskConnector :: "string \<Rightarrow> string" where
  "highRiskConnector i =
     (let pre = hd (split_on (CHR ''-'') i)
      in if pre \<in> set PROXY_CONNECTORS then pre else ''github'')"

section \<open>Triggers\<close>

datatype poll =
  Linear_issues "string option" "string option" "string option"
| Github_issues string

datatype trigger =
  Schedule string string
| Poll poll string int

definition str_max :: "nat \<Rightarrow> string parser" where
  "str_max n = str_where (\<lambda>s. length s \<le> n)"

definition cronSchema :: "string parser" where
  "cronSchema = str_where (\<lambda>s. case parseCron s of Inl _ \<Rightarrow> False | Inr _ \<Rightarrow> True)"

definition triggerText :: "string parser" where
  "triggerText = str_where (\<lambda>s. length s \<le> 20000 \<and> js_trim s \<noteq> [])"

definition pollSchema :: "poll parser" where
  "pollSchema j =
     (case do { kvs \<leftarrow> strictObject [''type'', ''team'', ''label'', ''state''] j;
                _ \<leftarrow> needed kvs ''type'' (p_enum [''linear-issues'']);
                team \<leftarrow> optional kvs ''team'' (str_max 40);
                label \<leftarrow> optional kvs ''label'' (str_max 80);
                st \<leftarrow> optional kvs ''state'' (str_max 80);
                Some (Linear_issues team label st) } of
        Some p \<Rightarrow> Some p
      | None \<Rightarrow>
          do { kvs \<leftarrow> strictObject [''type'', ''query''] j;
               _ \<leftarrow> needed kvs ''type'' (p_enum [''github-issues'']);
               query \<leftarrow> needed kvs ''query'' (str_where (\<lambda>s. 1 \<le> length s \<and> length s \<le> 300));
               Some (Github_issues query) })"

definition triggerSchema :: "trigger parser" where
  "triggerSchema j =
     (case do { kvs \<leftarrow> strictObject [''schedule'', ''text''] j;
                c \<leftarrow> needed kvs ''schedule'' cronSchema;
                t \<leftarrow> needed kvs ''text'' triggerText;
                Some (Schedule c t) } of
        Some t \<Rightarrow> Some t
      | None \<Rightarrow>
          do { kvs \<leftarrow> strictObject [''poll'', ''text'', ''every''] j;
               p \<leftarrow> needed kvs ''poll'' pollSchema;
               t \<leftarrow> needed kvs ''text'' triggerText;
               every \<leftarrow> default_to 5 kvs ''every'' (int_between 1 1440);
               Some (Poll p t every) })"

section \<open>Workspaces and hosts\<close>

definition is_upper :: "char \<Rightarrow> bool" where
  "is_upper c \<longleftrightarrow> 65 \<le> (of_char c :: nat) \<and> (of_char c :: nat) \<le> 90"

definition to_lower :: "char \<Rightarrow> char" where
  "to_lower c = (if is_upper c then char_of (of_char c + 32 :: nat) else c)"

definition egressPattern :: "string \<Rightarrow> bool" where
  "egressPattern s \<longleftrightarrow>
     (let host = (if starts_with ''*.'' s then drop 2 s else s);
          parts = split_on (CHR ''.'') host
      in 2 \<le> length parts \<and>
         list_all (\<lambda>p. 1 \<le> length p \<and> length p \<le> 63 \<and> list_all is_slug_char p) parts)"

definition segment :: "string \<Rightarrow> bool" where
  "segment s \<longleftrightarrow>
     1 \<le> length s \<and> length s \<le> 100 \<and>
     list_all (\<lambda>c. is_upper c \<or> is_lower c \<or> is_digit c \<or> c \<in> set ''._ -'') s \<and>
     s \<noteq> ''.'' \<and> s \<noteq> ''..'' \<and> js_trim s = s"

record workspace =
  ws_path :: string
  ws_mode :: string
  ws_name :: "string option"

definition workspace_path :: "string \<Rightarrow> bool" where
  "workspace_path p \<longleftrightarrow> length p \<le> 500 \<and> list_all segment (split_on (CHR ''/'') p)"

definition workspaceSchema :: "workspace parser" where
  "workspaceSchema j = do {
     kvs \<leftarrow> strictObject [''path'', ''mode'', ''name''] j;
     path \<leftarrow> needed kvs ''path'' (str_where workspace_path);
     mode \<leftarrow> default_to ''ro'' kvs ''mode'' (p_enum [''ro'', ''rw'']);
     name \<leftarrow> optional kvs ''name'' (str_where idSchema);
     Some \<lparr>ws_path = path, ws_mode = mode, ws_name = name\<rparr> }"

definition workspaceName :: "workspace \<Rightarrow> string" where
  "workspaceName w =
     (case ws_name w of
        Some n \<Rightarrow> n
      | None \<Rightarrow>
          (let part = map to_lower (last (split_on (CHR ''/'') (ws_path w)));
               slug = map (\<lambda>c. if is_slug_char c then c else CHR ''-'') part;
               name = take 40 (dropWhile (\<lambda>c. c = CHR ''-'') slug)
           in if name = [] then ''workspace'' else name))"

section \<open>Agents\<close>

definition MODEL_ID :: "string \<Rightarrow> bool" where
  "MODEL_ID s \<longleftrightarrow>
     1 \<le> length s \<and> length s \<le> 100 \<and>
     (is_upper (hd s) \<or> is_lower (hd s) \<or> is_digit (hd s)) \<and>
     list_all (\<lambda>c. is_upper c \<or> is_lower c \<or> is_digit c \<or> c \<in> set ''._:/@+-'') s"

definition BASE_IMAGE :: string where "BASE_IMAGE = ''codex''"

definition RUNTIME_IMAGE_PREFIX :: string where "RUNTIME_IMAGE_PREFIX = ''runtime-''"

definition runtimeImage :: "string \<Rightarrow> string" where
  "runtimeImage runtime = RUNTIME_IMAGE_PREFIX @ runtime"

definition sandboxSchema :: "string parser" where
  "sandboxSchema = p_enum [''cell'', ''codex-workspace-write'']"

definition effortSchema :: "string parser" where
  "effortSchema = p_enum [''low'', ''medium'', ''high'', ''xhigh'']"

definition executionJson :: "execution parser" where
  "executionJson j = do {
     kvs \<leftarrow> strictObject [''server'', ''agent''] j;
     server \<leftarrow> needed kvs ''server'' p_string;
     agent \<leftarrow> needed kvs ''agent'' p_string;
     let e = \<lparr>ex_server = server, ex_agent = agent\<rparr>;
     if executionSchema e then Some e else None }"

definition agent_fields :: "string list" where
  "agent_fields =
     [''execution'', ''id'', ''name'', ''description'', ''runtime'', ''model'', ''effort'', ''prompt'',
      ''connectors'', ''image'', ''network'', ''sandbox'', ''delegates'', ''triggers'', ''skills'',
      ''approvals'', ''highRisk'', ''accounts'', ''workspaces'', ''maxTasks'', ''egress'']"

definition accepts :: "fields \<Rightarrow> string \<Rightarrow> 'a parser \<Rightarrow> bool" where
  "accepts kvs k p \<longleftrightarrow> optional kvs k p \<noteq> None"

definition layerPrompt :: "fields parser" where
  "layerPrompt j = do {
     kvs \<leftarrow> strictObject [''mode'', ''text'', ''file''] j;
     _ \<leftarrow> refine (accepts kvs ''mode'' (p_enum [''replace'', ''append'']) \<and>
                  accepts kvs ''text'' (str_max 100000) \<and> accepts kvs ''file'' p_string);
     Some kvs }"

definition layerHighRisk :: "fields parser" where
  "layerHighRisk j = do {
     kvs \<leftarrow> strictObject [''disable''] j;
     _ \<leftarrow> refine (accepts kvs ''disable'' (array_max 30 (p_enum HIGH_RISK_IDS)));
     Some kvs }"

definition agentLayerSchema :: "fields parser" where
  "agentLayerSchema j = do {
     kvs \<leftarrow> strictObject (''extends'' # agent_fields) j;
     _ \<leftarrow> refine (accepts kvs ''execution'' executionJson \<and> accepts kvs ''id'' (str_where idSchema) \<and>
       accepts kvs ''name'' (str_max 100) \<and> accepts kvs ''description'' (str_max 500) \<and>
       accepts kvs ''extends'' (str_where idSchema) \<and> accepts kvs ''runtime'' (p_enum RUNTIMES) \<and>
       accepts kvs ''model'' (str_where MODEL_ID) \<and> accepts kvs ''effort'' effortSchema \<and>
       accepts kvs ''prompt'' layerPrompt \<and> accepts kvs ''connectors'' (p_array connectorSchema) \<and>
       accepts kvs ''image'' (str_where idSchema) \<and> accepts kvs ''network'' (p_enum [''proxy'']) \<and>
       accepts kvs ''sandbox'' sandboxSchema \<and>
       accepts kvs ''delegates'' (array_max 50 (str_where delegateRefSchema)) \<and>
       accepts kvs ''triggers'' (array_max 20 triggerSchema) \<and>
       accepts kvs ''skills'' (array_max 200 (str_where idSchema)) \<and>
       accepts kvs ''approvals'' approvalsSchema \<and> accepts kvs ''highRisk'' layerHighRisk \<and>
       accepts kvs ''accounts'' accountsSchema \<and>
       accepts kvs ''workspaces'' (array_max 10 workspaceSchema) \<and>
       accepts kvs ''maxTasks'' (int_between 1 10) \<and>
       accepts kvs ''egress'' (array_max 100 (str_where egressPattern)));
     Some kvs }"

record resolved_agent =
  ra_execution :: "execution option"
  ra_id :: string
  ra_name :: string
  ra_description :: "string option"
  ra_runtime :: string
  ra_model :: "string option"
  ra_effort :: "string option"
  ra_prompt_mode :: string
  ra_prompt_text :: string
  ra_connectors :: "string list"
  ra_image :: string
  ra_sandbox :: string
  ra_delegates :: "string list"
  ra_triggers :: "trigger list"
  ra_skills :: "string list"
  ra_approvals :: "(string \<times> string) list"
  ra_accounts :: "(string \<times> string) list"
  ra_highRisk :: "string list"
  ra_workspaces :: "workspace list"
  ra_maxTasks :: nat
  ra_egress :: "string list option"
  ra_sourceFiles :: "string list"

definition promptSchema :: "(string \<times> string) parser" where
  "promptSchema j = do {
     kvs \<leftarrow> strictObject [''mode'', ''text''] j;
     mode \<leftarrow> default_to ''append'' kvs ''mode'' (p_enum [''replace'', ''append'']);
     txt \<leftarrow> default_to [] kvs ''text'' p_string;
     Some (mode, txt) }"

definition highRiskSchema :: "string list parser" where
  "highRiskSchema j = do {
     kvs \<leftarrow> strictObject [''disable''] j;
     default_to [] kvs ''disable'' (array_max 30 (p_enum HIGH_RISK_IDS)) }"

text \<open>The four \<open>refine\<close> steps, and that the connectors do not repeat.\<close>

definition agent_ok :: "resolved_agent \<Rightarrow> bool" where
  "agent_ok a \<longleftrightarrow>
     distinct (ra_connectors a) \<and> distinct (map workspaceName (ra_workspaces a)) \<and>
     (ra_runtime a = ''codex'' \<or> ra_sandbox a = ''cell'') \<and>
     ra_id a \<notin> set (ra_delegates a) \<and>
     set (map fst (ra_accounts a)) \<subseteq> set (ra_connectors a)"

definition resolvedAgentSchema :: "resolved_agent parser" where
  "resolvedAgentSchema j = do {
     kvs \<leftarrow> strictObject agent_fields j;
     execution \<leftarrow> optional kvs ''execution'' executionJson;
     i \<leftarrow> needed kvs ''id'' (str_where idSchema);
     name \<leftarrow> needed kvs ''name'' p_string;
     description \<leftarrow> optional kvs ''description'' p_string;
     runtime \<leftarrow> needed kvs ''runtime'' (p_enum RUNTIMES);
     model \<leftarrow> optional kvs ''model'' p_string;
     effort \<leftarrow> optional kvs ''effort'' effortSchema;
     prompt \<leftarrow> needed kvs ''prompt'' promptSchema;
     connectors \<leftarrow> default_to [] kvs ''connectors'' (p_array connectorSchema);
     image \<leftarrow> default_to BASE_IMAGE kvs ''image'' (str_where idSchema);
     _ \<leftarrow> default_to ''proxy'' kvs ''network'' (p_enum [''proxy'']);
     sandbox \<leftarrow> default_to ''cell'' kvs ''sandbox'' sandboxSchema;
     delegates \<leftarrow> default_to [] kvs ''delegates'' (p_array (str_where delegateRefSchema));
     triggers \<leftarrow> default_to [] kvs ''triggers'' (p_array triggerSchema);
     skills \<leftarrow> default_to [] kvs ''skills'' (p_array (str_where idSchema));
     approvals \<leftarrow> default_to [] kvs ''approvals'' approvalsSchema;
     accounts \<leftarrow> default_to [] kvs ''accounts'' accountsSchema;
     highRisk \<leftarrow> default_to [] kvs ''highRisk'' highRiskSchema;
     workspaces \<leftarrow> default_to [] kvs ''workspaces'' (array_max 10 workspaceSchema);
     maxTasks \<leftarrow> default_to (int DEFAULT_MAX_TASKS) kvs ''maxTasks'' (int_between 1 10);
     egress \<leftarrow> optional kvs ''egress'' (array_max 100 (str_where egressPattern));
     let a = \<lparr>ra_execution = execution, ra_id = i, ra_name = name, ra_description = description,
       ra_runtime = runtime, ra_model = model, ra_effort = effort, ra_prompt_mode = fst prompt,
       ra_prompt_text = snd prompt, ra_connectors = connectors, ra_image = image,
       ra_sandbox = sandbox, ra_delegates = delegates, ra_triggers = triggers, ra_skills = skills,
       ra_approvals = approvals, ra_accounts = accounts, ra_highRisk = highRisk,
       ra_workspaces = workspaces, ra_maxTasks = nat maxTasks, ra_egress = egress,
       ra_sourceFiles = []\<rparr>;
     if agent_ok a then Some a else None }"

section \<open>Images\<close>

record image_recipe =
  im_id :: "string option"
  im_from :: string
  im_packages :: "string list"
  im_run :: "string list"

definition aptPackage :: "string \<Rightarrow> bool" where
  "aptPackage s \<longleftrightarrow>
     1 \<le> length s \<and> length s \<le> 100 \<and> (is_lower (hd s) \<or> is_digit (hd s)) \<and>
     list_all (\<lambda>c. is_slug_char c \<or> c = CHR ''+'' \<or> c = CHR ''.'') s"

definition imageRecipeSchema :: "image_recipe parser" where
  "imageRecipeSchema j = do {
     kvs \<leftarrow> strictObject [''id'', ''description'', ''from'', ''packages'', ''run''] j;
     i \<leftarrow> optional kvs ''id'' (str_where idSchema);
     _ \<leftarrow> optional kvs ''description'' (str_max 500);
     fr \<leftarrow> default_to BASE_IMAGE kvs ''from'' (p_enum [BASE_IMAGE]);
     packages \<leftarrow> default_to [] kvs ''packages'' (array_max 200 (str_where aptPackage));
     run \<leftarrow> default_to [] kvs ''run'' (array_max 50 (str_where (\<lambda>s. 1 \<le> length s \<and> length s \<le> 4000)));
     Some \<lparr>im_id = i, im_from = fr, im_packages = packages, im_run = run\<rparr> }"

end
