(* ===== verification/Store.thy ===== *)
theory Store
  imports Schema
begin

text \<open>
  \<^verbatim>\<open>packages/daemon/src/store.ts\<close>: the daemon's SQLite database.  A table is a list of rows in
  rowid order, a key-value table an association list; a query is the list function it denotes.
  Where SQL leaves the order of equal sort keys open, rows keep their rowid order.

  The fields after the tables are what the statements read from outside the database: the clock
  (\<open>Date.now()\<close>), the random source (\<open>s_random n k\<close> is the \<open>k\<close>-th draw, of \<open>n\<close> bytes in hex),
  the SHA-256 digest of a JSON text, and the JSON text of an event.
\<close>

section \<open>Stored values\<close>

record team_job =
  tj_key :: team_key
  tj_task :: string
  tj_agent :: string
  tj_turn :: nat

record team_request =
  rq_tool :: team_tool
  rq_task :: string
  rq_outcome :: "outcome option"

record outbound =
  ob_task :: string
  ob_execution :: execution
  ob_target :: string
  ob_node :: string
  ob_origin :: team_origin
  ob_turn :: nat
  ob_text :: string
  ob_afterSeq :: nat
  ob_cancel :: bool
  ob_active :: bool

record outgoing =
  out_task :: string
  out_dispatch :: peer_dispatch
  out_cursor :: nat
  out_cancelled :: bool
  out_settled :: bool
  out_error :: "string option"

record incoming =
  in_task :: string
  in_turn :: nat
  in_identity :: string

record approval_route =
  ar_task :: string
  ar_remote :: string
  ar_approval :: approval

text \<open>The values of the \<open>team_state\<close> table, by the schema they are read with.\<close>

datatype team_value =
  Tv_string string
| Tv_nat nat
| Tv_effect string string
| Tv_key team_key
| Tv_job team_job
| Tv_receipt string
| Tv_request team_request
| Tv_outbound outbound
| Tv_answer string outcome
| Tv_outgoing outgoing
| Tv_incoming incoming
| Tv_budget peer_budget
| Tv_route approval_route

fun as_string :: "team_value \<Rightarrow> string option" where
  "as_string (Tv_string x) = Some x" | "as_string _ = None"

fun as_nat :: "team_value \<Rightarrow> nat option" where
  "as_nat (Tv_nat x) = Some x" | "as_nat _ = None"

fun as_effect :: "team_value \<Rightarrow> (string \<times> string) option" where
  "as_effect (Tv_effect d t) = Some (d, t)" | "as_effect _ = None"

fun as_key :: "team_value \<Rightarrow> team_key option" where
  "as_key (Tv_key x) = (if teamKeySchema x then Some x else None)" | "as_key _ = None"

fun as_job :: "team_value \<Rightarrow> team_job option" where
  "as_job (Tv_job x) = (if teamKeySchema (tj_key x) then Some x else None)" | "as_job _ = None"

fun as_receipt :: "team_value \<Rightarrow> string option" where
  "as_receipt (Tv_receipt x) = Some x" | "as_receipt _ = None"

fun as_request :: "team_value \<Rightarrow> team_request option" where
  "as_request (Tv_request x) =
     (if teamToolSchema (rq_tool x) \<and> (case rq_outcome x of None \<Rightarrow> True | Some out \<Rightarrow> outcomeSchema out)
      then Some x else None)"
| "as_request _ = None"

fun as_outbound :: "team_value \<Rightarrow> outbound option" where
  "as_outbound (Tv_outbound x) =
     (if executionSchema (ob_execution x) \<and> teamOriginSchema (ob_origin x) \<and> 1 \<le> ob_turn x \<and>
         length (ob_text x) \<le> 200000 then Some x else None)"
| "as_outbound _ = None"

fun as_answer :: "team_value \<Rightarrow> (string \<times> outcome) option" where
  "as_answer (Tv_answer d out) = (if outcomeSchema out then Some (d, out) else None)"
| "as_answer _ = None"

fun as_outgoing :: "team_value \<Rightarrow> outgoing option" where
  "as_outgoing (Tv_outgoing x) =
     (if peerDispatchSchema (out_dispatch x) \<and>
         (case out_error x of None \<Rightarrow> True | Some e \<Rightarrow> length e \<le> 2000) then Some x else None)"
| "as_outgoing _ = None"

fun as_incoming :: "team_value \<Rightarrow> incoming option" where
  "as_incoming (Tv_incoming x) = Some x" | "as_incoming _ = None"

fun as_budget :: "team_value \<Rightarrow> peer_budget option" where
  "as_budget (Tv_budget x) = (if peerBudgetSchema x then Some x else None)" | "as_budget _ = None"

fun as_route :: "team_value \<Rightarrow> approval_route option" where
  "as_route (Tv_route x) = Some x" | "as_route _ = None"

text \<open>The values that are hashed: \<open>createHash('sha256').update(JSON.stringify(value))\<close>.\<close>

datatype hashed =
  Dg_send string string
| Dg_delegate string string string
| Dg_run team_run
| Dg_outcome outcome
| Dg_dispatch peer_dispatch
| Dg_call string string string
| Dg_route string string string
| Dg_tool team_tool
| Dg_execution execution
| Dg_remote_approval string string

section \<open>Tables\<close>

record turn_usage =
  tu_input :: nat
  tu_cachedInput :: nat
  tu_cacheWrite :: nat
  tu_output :: nat
  tu_reasoning :: nat
  tu_costUsd :: rat

record usage_key =
  uk_taskId :: string
  uk_agentId :: string
  uk_runtime :: string
  uk_model :: string

record usage_row = usage_key +
  ur_ts :: int
  ur_usage :: turn_usage

record event_row =
  er_task :: string
  er_stored :: stored_event

record trigger_state =
  ts_key :: string
  ts_agentId :: string
  ts_nextRun :: "int option"
  ts_lastRun :: "int option"
  ts_lastResult :: "string option"
  ts_baseline :: bool

record audit_row =
  au_task :: string
  au_ts :: rat
  au_row :: string

record store =
  s_tasks :: "task_row list"
  s_team :: "(string, team_value) jsmap"
  s_events :: "event_row list"
  s_triggers :: "(string, trigger_state) jsmap"
  s_seen :: "(string \<times> string, string option) jsmap"
  s_usage :: "usage_row list"
  s_snapshots :: "(string \<times> string, turn_usage) jsmap"
  s_audit :: "audit_row list"
  s_depth :: nat
  s_now :: int
  s_draws :: nat
  s_random :: "nat \<Rightarrow> nat \<Rightarrow> string"
  s_sha :: "hashed \<Rightarrow> string"
  s_json :: "runtime_event \<Rightarrow> string"

type_synonym 'a store_op = "(store, 'a) op"

definition AUDIT_SAVED_MAX :: nat where "AUDIT_SAVED_MAX = 5000"

definition MAX_EVENTS_PER_TASK :: nat where "MAX_EVENTS_PER_TASK = 5000"

definition EVENTS_PAGE_LIMIT :: nat where "EVENTS_PAGE_LIMIT = 500"

definition EVENTS_PAGE_CHARS :: nat where "EVENTS_PAGE_CHARS = 1024 * 1024"

definition MAX_RESULT_CHARS :: nat where "MAX_RESULT_CHARS = 8000"

definition draw :: "nat \<Rightarrow> string store_op" where
  "draw n = (\<lambda>s. (Inr (s_random s n (s_draws s)), s\<lparr>s_draws := Suc (s_draws s)\<rparr>))"

section \<open>Links in a result\<close>

text \<open>
  \<^verbatim>\<open>/https?:\/\/[^\s<>()"'`\]]+/g\<close>, then trailing punctuation removed, duplicates dropped, ten kept.
\<close>

definition link_char :: "char \<Rightarrow> bool" where
  "link_char c \<longleftrightarrow> \<not> is_space c \<and> c \<notin> set ''<>()'' \<and> c \<noteq> CHR 0x22 \<and> c \<noteq> CHR 0x27 \<and> c \<noteq> CHR 0x60 \<and>
     c \<noteq> CHR '']''"

definition link_at :: "string \<Rightarrow> (string \<times> string) option" where
  "link_at s =
     (let scheme = (if starts_with ''https://'' s then Some ''https://''
                    else if starts_with ''http://'' s then Some ''http://'' else None)
      in case scheme of
           None \<Rightarrow> None
         | Some p \<Rightarrow>
             (let rest = drop (length p) s; body = takeWhile link_char rest
              in if body = [] then None else Some (p @ body, dropWhile link_char rest)))"

function match_links :: "string \<Rightarrow> string list" where
  "match_links s =
     (if s = [] then []
      else case link_at s of
          Some (u, rest) \<Rightarrow> (if length rest < length s then u # match_links rest else [])
        | None \<Rightarrow> match_links (tl s))"
  by pat_completeness auto
termination
  by (relation "measure length") (auto simp: neq_Nil_conv)

declare match_links.simps [simp del]

definition trim_punctuation :: "string \<Rightarrow> string" where
  "trim_punctuation u = rev (dropWhile (\<lambda>c. c \<in> set ''.,;:!?'') (rev u))"

definition extractLinks :: "string \<Rightarrow> string list" where
  "extractLinks txt = take 10 (dedup (map trim_punctuation (match_links txt)))"

section \<open>\<open>team_state\<close>\<close>

definition teamGet :: "string \<Rightarrow> (team_value \<Rightarrow> 'a option) \<Rightarrow> 'a option store_op" where
  "teamGet key schema =
     andthen (gets (\<lambda>s. mget (s_team s) key)) (\<lambda>v.
     case v of
       None \<Rightarrow> ret None
     | Some x \<Rightarrow> (case schema x of None \<Rightarrow> throw ''ZodError'' | Some a \<Rightarrow> ret (Some a)))"

definition teamPut :: "string \<Rightarrow> team_value \<Rightarrow> unit store_op" where
  "teamPut key v = modify (\<lambda>s. s\<lparr>s_team := mset_key key v (s_team s)\<rparr>)"

definition teamEntries :: "string \<Rightarrow> (team_value \<Rightarrow> 'a option) \<Rightarrow> 'a list store_op" where
  "teamEntries pre schema =
     andthen (gets (\<lambda>s. map snd (List.filter (\<lambda>kv. starts_with pre (fst kv)) (s_team s)))) (\<lambda>vs.
     case parse_all schema vs of None \<Rightarrow> throw ''ZodError'' | Some xs \<Rightarrow> ret xs)"

definition teamDeletePrefix :: "string \<Rightarrow> unit store_op" where
  "teamDeletePrefix pre =
     modify (\<lambda>s. s\<lparr>s_team := List.filter (\<lambda>kv. \<not> starts_with pre (fst kv)) (s_team s)\<rparr>)"

text \<open>The key \<open>node\<close> holds the node's identity, drawn once.\<close>

definition as_node :: "team_value \<Rightarrow> string option" where
  "as_node v = (case as_string v of None \<Rightarrow> None | Some n \<Rightarrow> if peerNodeSchema n then Some n else None)"

definition nodeId :: "string store_op" where
  "nodeId =
     andthen (teamGet ''node'' as_node) (\<lambda>existing.
     case existing of
       Some n \<Rightarrow> ret n
     | None \<Rightarrow>
         andthen (draw 16) (\<lambda>n.
         andthen (teamPut ''node'' (Tv_string n)) (\<lambda>_.
         ret n)))"

section \<open>Tasks\<close>

definition find_task :: "string \<Rightarrow> task_row list \<Rightarrow> task_row option" where
  "find_task i ts = List.find (\<lambda>t. t_id t = i) ts"

definition getTask :: "string \<Rightarrow> task_row option store_op" where
  "getTask i = gets (\<lambda>s. find_task i (s_tasks s))"

text \<open>\<open>getTask(id)!\<close>: using the row of a task that is gone throws.\<close>

definition getTask_existing :: "string \<Rightarrow> task_row store_op" where
  "getTask_existing i =
     andthen (getTask i) (\<lambda>t. case t of None \<Rightarrow> throw ''TypeError'' | Some r \<Rightarrow> ret r)"

definition update_task :: "string \<Rightarrow> (task_row \<Rightarrow> task_row) \<Rightarrow> unit store_op" where
  "update_task i f = modify (\<lambda>s. s\<lparr>s_tasks := map (\<lambda>t. if t_id t = i then f t else t) (s_tasks s)\<rparr>)"

definition setExecution :: "string \<Rightarrow> execution \<Rightarrow> unit store_op" where
  "setExecution i e = update_task i (\<lambda>t. t\<lparr>t_execution := Some e\<rparr>)"

definition setPeer :: "string \<Rightarrow> peer_info \<Rightarrow> unit store_op" where
  "setPeer i p = update_task i (\<lambda>t. t\<lparr>t_peer := Some p\<rparr>)"

definition setPeerTurns :: "string \<Rightarrow> nat \<Rightarrow> unit store_op" where
  "setPeerTurns i n = update_task i (\<lambda>t. t\<lparr>t_turns := n\<rparr>)"

definition setTeamOrigin :: "string \<Rightarrow> team_origin \<Rightarrow> unit store_op" where
  "setTeamOrigin i og = update_task i (\<lambda>t. t\<lparr>t_teamOrigin := Some og\<rparr>)"

definition new_task :: "string \<Rightarrow> int \<Rightarrow> string \<Rightarrow> string \<Rightarrow> string \<Rightarrow> task_row option \<Rightarrow> task_row" where
  "new_task i now agentId trigger title parent =
     \<lparr>t_id = i, t_agentId = agentId, t_trigger = trigger,
      t_title = take 120 (collapse_spaces title), t_status = Queued, t_resumeId = None,
      t_runtime = None, t_createdAt = now, t_startedAt = None, t_finishedAt = None, t_result = None,
      t_links = [],
      t_parentId = map_option t_id parent,
      t_rootId = (case parent of None \<Rightarrow> i | Some p \<Rightarrow> t_rootId p),
      t_depth = (case parent of None \<Rightarrow> 0 | Some p \<Rightarrow> t_depth p + 1),
      t_turns = 0, t_inputTokens = 0, t_outputTokens = 0, t_peer = None, t_execution = None,
      t_teamOrigin = None\<rparr>"

text \<open>The primary key refuses an id that is taken.\<close>

definition createTask :: "string \<Rightarrow> string \<Rightarrow> string \<Rightarrow> task_row option \<Rightarrow> task_row store_op" where
  "createTask agentId trigger title parent =
     andthen (draw 5) (\<lambda>hex.
     let i = ''t-'' @ hex in
     andthen (gets (\<lambda>s. find_task i (s_tasks s) = None)) (\<lambda>free.
     andthen (require free ''UNIQUE constraint failed: tasks.id'') (\<lambda>_.
     andthen (gets s_now) (\<lambda>now.
     andthen (modify (\<lambda>s. s\<lparr>s_tasks := s_tasks s @ [new_task i now agentId trigger title parent]\<rparr>)) (\<lambda>_.
     getTask_existing i)))))"

definition children :: "string \<Rightarrow> task_row list store_op" where
  "children i = gets (\<lambda>s. sort_key t_createdAt (List.filter (\<lambda>t. t_parentId t = Some i) (s_tasks s)))"

definition countTurn :: "string \<Rightarrow> unit store_op" where
  "countTurn i = update_task i (\<lambda>t. t\<lparr>t_turns := t_turns t + 1\<rparr>)"

definition treeTurns :: "string \<Rightarrow> nat store_op" where
  "treeTurns rootId =
     gets (\<lambda>s. sum_list (map t_turns (List.filter (\<lambda>t. t_rootId t = rootId \<or> t_id t = rootId) (s_tasks s))))"

definition listTasks :: "string option \<Rightarrow> nat \<Rightarrow> task_row list store_op" where
  "listTasks agent limit =
     gets (\<lambda>s. take limit (sort_key (\<lambda>t. - t_createdAt t)
       (List.filter (\<lambda>t. case agent of None \<Rightarrow> True | Some a \<Rightarrow> a = [] \<or> t_agentId t = a) (s_tasks s))))"

definition tree :: "string \<Rightarrow> task_row list store_op" where
  "tree rootId =
     gets (\<lambda>s. sort_key t_depth (sort_key t_createdAt
       (List.filter (\<lambda>t. t_id t = rootId \<or> t_rootId t = rootId) (s_tasks s))))"

definition addUsage :: "string \<Rightarrow> nat \<Rightarrow> nat \<Rightarrow> unit store_op" where
  "addUsage i inp out =
     update_task i (\<lambda>t. t\<lparr>t_inputTokens := t_inputTokens t + inp, t_outputTokens := t_outputTokens t + out\<rparr>)"

definition taskIdsOfAgent :: "string \<Rightarrow> string list store_op" where
  "taskIdsOfAgent agentId =
     gets (\<lambda>s. map t_id (sort_key t_createdAt (List.filter (\<lambda>t. t_agentId t = agentId) (s_tasks s))))"

definition finishedBefore :: "int \<Rightarrow> string list store_op" where
  "finishedBefore before =
     gets (\<lambda>s. map t_id (List.filter
       (\<lambda>t. t_createdAt t < before \<and> t_status t \<in> {Done, Failed, Cancelled}) (s_tasks s)))"

fun status_change :: "task_status \<Rightarrow> int \<Rightarrow> task_row \<Rightarrow> task_row" where
  "status_change Running now t =
     t\<lparr>t_status := Running,
       t_startedAt := (case t_startedAt t of None \<Rightarrow> Some now | Some x \<Rightarrow> Some x), t_finishedAt := None\<rparr>"
| "status_change Queued now t = t\<lparr>t_status := Queued\<rparr>"
| "status_change st now t = t\<lparr>t_status := st, t_finishedAt := Some now\<rparr>"

definition setStatus :: "string \<Rightarrow> task_status \<Rightarrow> task_row store_op" where
  "setStatus i st =
     andthen (gets s_now) (\<lambda>now.
     andthen (update_task i (status_change st now)) (\<lambda>_.
     getTask_existing i))"

definition setResult :: "string \<Rightarrow> string \<Rightarrow> unit store_op" where
  "setResult i result =
     (let txt = take MAX_RESULT_CHARS result
      in update_task i (\<lambda>t. t\<lparr>t_result := Some txt, t_links := extractLinks txt\<rparr>))"

definition setResumeId :: "string \<Rightarrow> string \<Rightarrow> unit store_op" where
  "setResumeId i r = update_task i (\<lambda>t. t\<lparr>t_resumeId := Some r\<rparr>)"

definition setRuntime :: "string \<Rightarrow> string \<Rightarrow> unit store_op" where
  "setRuntime i r = update_task i (\<lambda>t. t\<lparr>t_runtime := Some r\<rparr>)"

definition interrupted :: "task_row list store_op" where
  "interrupted = gets (\<lambda>s. List.filter active_task (s_tasks s))"

section \<open>Search\<close>

record task_query =
  q_agentId :: "string option"
  q_status :: "task_status option"
  q_text :: "string option"
  q_since :: "int option"
  q_until :: "int option"
  q_limit :: "int option"
  q_offset :: "int option"

text \<open>\<open>LIKE\<close> with the word escaped: the word occurs, ASCII letters in either case.\<close>

definition sql_contains :: "string \<Rightarrow> string \<Rightarrow> bool" where
  "sql_contains word txt \<longleftrightarrow> js_includes (map to_lower word) (map to_lower txt)"

definition query_words :: "task_query \<Rightarrow> string list" where
  "query_words q =
     take 8 (List.filter (\<lambda>w. w \<noteq> [])
       (split_on (CHR '' '') (collapse_spaces (case q_text q of None \<Rightarrow> [] | Some x \<Rightarrow> x))))"

definition query_matches :: "task_query \<Rightarrow> task_row \<Rightarrow> bool" where
  "query_matches q t \<longleftrightarrow>
     (case q_agentId q of None \<Rightarrow> True | Some a \<Rightarrow> a = [] \<or> t_agentId t = a) \<and>
     (case q_status q of None \<Rightarrow> True | Some st \<Rightarrow> t_status t = st) \<and>
     list_all (\<lambda>w. sql_contains w (t_title t) \<or>
                   (case t_result t of None \<Rightarrow> False | Some r \<Rightarrow> sql_contains w r)) (query_words q) \<and>
     (case q_since q of None \<Rightarrow> True | Some x \<Rightarrow> x \<le> t_createdAt t) \<and>
     (case q_until q of None \<Rightarrow> True | Some x \<Rightarrow> t_createdAt t < x)"

definition search_tasks :: "task_query \<Rightarrow> task_row list store_op" where
  "search_tasks q =
     (let limit = min (max (case q_limit q of None \<Rightarrow> 100 | Some n \<Rightarrow> n) 1) 500;
          offset = max (case q_offset q of None \<Rightarrow> 0 | Some n \<Rightarrow> n) 0
      in gets (\<lambda>s. take (nat limit) (drop (nat offset)
           (sort_key (\<lambda>t. - t_createdAt t) (List.filter (query_matches q) (s_tasks s))))))"

section \<open>Triggers\<close>

definition triggerState :: "string \<Rightarrow> trigger_state option store_op" where
  "triggerState key = gets (\<lambda>s. mget (s_triggers s) key)"

text \<open>A second save of a key keeps its agent: the update does not list \<open>agent_id\<close>.\<close>

definition saveTriggerState :: "trigger_state \<Rightarrow> unit store_op" where
  "saveTriggerState st =
     modify (\<lambda>s.
       let row = st\<lparr>ts_lastResult := map_option (take 500) (ts_lastResult st),
                    ts_agentId := (case mget (s_triggers s) (ts_key st) of
                                     None \<Rightarrow> ts_agentId st | Some old \<Rightarrow> ts_agentId old)\<rparr>
       in s\<lparr>s_triggers := mset_key (ts_key st) row (s_triggers s)\<rparr>)"

definition markSeen :: "string \<Rightarrow> string \<Rightarrow> string option \<Rightarrow> bool store_op" where
  "markSeen key item task =
     (\<lambda>s. if mhas (s_seen s) (key, item) then (Inr False, s)
          else (Inr True, s\<lparr>s_seen := mset_key (key, item) task (s_seen s)\<rparr>))"

definition seen :: "string \<Rightarrow> string \<Rightarrow> bool store_op" where
  "seen key item = gets (\<lambda>s. mhas (s_seen s) (key, item))"

definition setSeenTask :: "string \<Rightarrow> string \<Rightarrow> string \<Rightarrow> unit store_op" where
  "setSeenTask key item task =
     modify (\<lambda>s. if mhas (s_seen s) (key, item)
                 then s\<lparr>s_seen := mset_key (key, item) (Some task) (s_seen s)\<rparr> else s)"

definition deleteTriggerState :: "string \<Rightarrow> unit store_op" where
  "deleteTriggerState agentId =
     modify (\<lambda>s.
       let keys = map fst (List.filter (\<lambda>kv. ts_agentId (snd kv) = agentId) (s_triggers s))
       in s\<lparr>s_seen := List.filter (\<lambda>kv. fst (fst kv) \<notin> set keys) (s_seen s),
            s_triggers := List.filter (\<lambda>kv. ts_agentId (snd kv) \<noteq> agentId) (s_triggers s)\<rparr>)"

section \<open>Usage\<close>

definition usage_ge :: "turn_usage \<Rightarrow> turn_usage \<Rightarrow> bool" where
  "usage_ge c l \<longleftrightarrow>
     tu_input l \<le> tu_input c \<and> tu_cachedInput l \<le> tu_cachedInput c \<and>
     tu_cacheWrite l \<le> tu_cacheWrite c \<and> tu_output l \<le> tu_output c \<and>
     tu_reasoning l \<le> tu_reasoning c \<and> tu_costUsd l \<le> tu_costUsd c"

definition usage_diff :: "turn_usage \<Rightarrow> turn_usage \<Rightarrow> turn_usage" where
  "usage_diff c l =
     \<lparr>tu_input = tu_input c - tu_input l, tu_cachedInput = tu_cachedInput c - tu_cachedInput l,
      tu_cacheWrite = tu_cacheWrite c - tu_cacheWrite l, tu_output = tu_output c - tu_output l,
      tu_reasoning = tu_reasoning c - tu_reasoning l, tu_costUsd = tu_costUsd c - tu_costUsd l\<rparr>"

definition no_usage :: turn_usage where
  "no_usage = \<lparr>tu_input = 0, tu_cachedInput = 0, tu_cacheWrite = 0, tu_output = 0, tu_reasoning = 0,
     tu_costUsd = 0\<rparr>"

definition recordUsage :: "usage_key \<Rightarrow> int option \<Rightarrow> turn_usage \<Rightarrow> bool \<Rightarrow> turn_usage store_op" where
  "recordUsage row ts counts cumulative =
     andthen (gets (\<lambda>s.
       if cumulative
       then (case mget (s_snapshots s) (uk_taskId row, uk_model row) of
               None \<Rightarrow> counts
             | Some prev \<Rightarrow> if usage_ge counts prev then usage_diff counts prev else counts)
       else counts)) (\<lambda>turn.
     andthen (when_do cumulative
       (modify (\<lambda>s. s\<lparr>s_snapshots := mset_key (uk_taskId row, uk_model row) counts (s_snapshots s)\<rparr>))) (\<lambda>_.
     if turn = no_usage then ret turn
     else
       andthen (gets s_now) (\<lambda>now.
       andthen (modify (\<lambda>s. s\<lparr>s_usage := s_usage s @
         [usage_key.extend row \<lparr>ur_ts = (case ts of None \<Rightarrow> now | Some x \<Rightarrow> x), ur_usage = turn\<rparr>]\<rparr>)) (\<lambda>_.
       andthen (addUsage (uk_taskId row) (tu_input turn) (tu_output turn)) (\<lambda>_.
       ret turn)))))"

text \<open>
  \<open>GROUP BY\<close>: one row per key.  \<open>day_of\<close> is SQLite's \<open>date(ts / 1000, 'unixepoch', 'localtime')\<close>.
\<close>

datatype usage_group = By_agent | By_runtime | By_model | By_day

record usage_total =
  ut_key :: string
  ut_turns :: nat
  ut_sum :: turn_usage

definition usage_plus :: "turn_usage \<Rightarrow> turn_usage \<Rightarrow> turn_usage" where
  "usage_plus a b =
     \<lparr>tu_input = tu_input a + tu_input b, tu_cachedInput = tu_cachedInput a + tu_cachedInput b,
      tu_cacheWrite = tu_cacheWrite a + tu_cacheWrite b, tu_output = tu_output a + tu_output b,
      tu_reasoning = tu_reasoning a + tu_reasoning b, tu_costUsd = tu_costUsd a + tu_costUsd b\<rparr>"

fun group_key :: "(int \<Rightarrow> string) \<Rightarrow> usage_group \<Rightarrow> usage_row \<Rightarrow> string" where
  "group_key day_of By_agent r = uk_agentId r"
| "group_key day_of By_runtime r = uk_runtime r"
| "group_key day_of By_model r = uk_model r"
| "group_key day_of By_day r = day_of (ur_ts r)"

definition usage_totals :: "(usage_row \<Rightarrow> string) \<Rightarrow> usage_row list \<Rightarrow> usage_total list" where
  "usage_totals key rows =
     map (\<lambda>k. let group = List.filter (\<lambda>r. key r = k) rows
              in \<lparr>ut_key = k, ut_turns = length group,
                  ut_sum = foldl usage_plus no_usage (map ur_usage group)\<rparr>)
       (dedup (map key rows))"

text \<open>Days newest first, other groups largest first.\<close>

definition usageSummary ::
  "(int \<Rightarrow> string) \<Rightarrow> int \<Rightarrow> usage_group \<Rightarrow> usage_total list store_op" where
  "usageSummary day_of since by_group =
     gets (\<lambda>s.
       let totals = usage_totals (group_key day_of by_group) (List.filter (\<lambda>r. since \<le> ur_ts r) (s_usage s))
       in if by_group = By_day then rev (sort_key ut_key totals)
          else sort_key (\<lambda>t. - int (tu_input (ut_sum t) + tu_output (ut_sum t))) totals)"

section \<open>Audit rows\<close>

text \<open>A row read from the VM: its \<open>ts\<close> when that is a number, and its JSON text.\<close>

type_synonym vm_row = "rat option \<times> string"

definition insert_audit :: "string \<Rightarrow> audit_row list \<Rightarrow> vm_row \<Rightarrow> audit_row list" where
  "insert_audit i rows r =
     (if \<exists>x \<in> set rows. au_task x = i \<and> au_row x = snd r then rows
      else rows @ [\<lparr>au_task = i, au_ts = (case fst r of None \<Rightarrow> 0 | Some x \<Rightarrow> x), au_row = snd r\<rparr>])"

definition kept_audit :: "string \<Rightarrow> audit_row list \<Rightarrow> audit_row list" where
  "kept_audit i rows =
     take AUDIT_SAVED_MAX (sort_key (\<lambda>r. - au_ts r) (List.filter (\<lambda>r. au_task r = i) rows))"

text \<open>\<open>BEGIN\<close> fails inside a transaction.\<close>

definition saveAuditRows :: "string \<Rightarrow> vm_row list \<Rightarrow> unit store_op" where
  "saveAuditRows i rows =
     andthen (gets s_depth) (\<lambda>d.
     andthen (require (d = 0) ''cannot start a transaction within a transaction'') (\<lambda>_.
     modify (\<lambda>s.
       let all_rows = foldl (insert_audit i) (s_audit s) rows
       in s\<lparr>s_audit := List.filter (\<lambda>r. au_task r \<noteq> i \<or> r \<in> set (kept_audit i all_rows)) all_rows\<rparr>)))"

definition auditRowsSince :: "int \<Rightarrow> string list store_op" where
  "auditRowsSince since =
     gets (\<lambda>s. map au_row (sort_key au_ts (List.filter (\<lambda>r. of_int since / 1000 \<le> au_ts r) (s_audit s))))"

definition auditRows :: "string \<Rightarrow> string list store_op" where
  "auditRows i = gets (\<lambda>s. map au_row (sort_key au_ts (List.filter (\<lambda>r. au_task r = i) (s_audit s))))"

section \<open>Deleting tasks\<close>

text \<open>The keys of a task's content: what its transcript's deletion drops.\<close>

definition task_content_key :: "string \<Rightarrow> string \<Rightarrow> bool" where
  "task_content_key i k \<longleftrightarrow>
     k = ''outbound/'' @ i \<or> starts_with (''request/'' @ i @ ''/'') k \<or>
     starts_with (''answer/'' @ i @ ''/'') k \<or> starts_with (''effect/'' @ i @ ''/'') k"

definition is_approval_route :: "string \<Rightarrow> string \<times> team_value \<Rightarrow> bool" where
  "is_approval_route i kv \<longleftrightarrow>
     starts_with ''peer/approval/'' (fst kv) \<and> (case snd kv of Tv_route r \<Rightarrow> ar_task r = i | _ \<Rightarrow> False)"

definition delete_team_rows :: "(string \<times> team_value \<Rightarrow> bool) \<Rightarrow> unit store_op" where
  "delete_team_rows p = modify (\<lambda>s. s\<lparr>s_team := List.filter (\<lambda>kv. \<not> p kv) (s_team s)\<rparr>)"

definition deleteTask_rows :: "string \<Rightarrow> nat store_op" where
  "deleteTask_rows i =
     andthen (delete_team_rows (\<lambda>kv. task_content_key i (fst kv))) (\<lambda>_.
     andthen (teamDeletePrefix (''peer/out/'' @ i)) (\<lambda>_.
     andthen (teamDeletePrefix (''peer/budget/'' @ i)) (\<lambda>_.
     andthen (teamDeletePrefix (''peer/shadow/'' @ i @ ''/'')) (\<lambda>_.
     andthen (delete_team_rows (is_approval_route i)) (\<lambda>_.
     andthen (modify (\<lambda>s. s\<lparr>s_audit := List.filter (\<lambda>r. au_task r \<noteq> i) (s_audit s)\<rparr>)) (\<lambda>_.
     andthen (modify (\<lambda>s. s\<lparr>s_snapshots := List.filter (\<lambda>kv. fst (fst kv) \<noteq> i) (s_snapshots s)\<rparr>)) (\<lambda>_.
     andthen (modify (\<lambda>s. s\<lparr>s_events := List.filter (\<lambda>e. er_task e \<noteq> i) (s_events s)\<rparr>)) (\<lambda>_.
     andthen (gets (\<lambda>s. length (List.filter (\<lambda>t. t_id t = i) (s_tasks s)))) (\<lambda>changes.
     andthen (modify (\<lambda>s. s\<lparr>s_tasks := List.filter (\<lambda>t. t_id t \<noteq> i) (s_tasks s)\<rparr>)) (\<lambda>_.
     ret changes))))))))))"

fun deleteTasks :: "string list \<Rightarrow> nat store_op" where
  "deleteTasks [] = ret 0"
| "deleteTasks (i # ids) =
     andthen (deleteTask_rows i) (\<lambda>n. andthen (deleteTasks ids) (\<lambda>m. ret (n + m)))"

section \<open>Events\<close>

definition task_events :: "string \<Rightarrow> store \<Rightarrow> stored_event list" where
  "task_events i s = map er_stored (List.filter (\<lambda>e. er_task e = i) (s_events s))"

definition max_seq :: "stored_event list \<Rightarrow> nat" where
  "max_seq es = foldl (\<lambda>m e. max m (se_seq e)) 0 es"

text \<open>The foreign key refuses an event of a task that is gone.\<close>

definition appendEvent :: "string \<Rightarrow> runtime_event \<Rightarrow> nat store_op" where
  "appendEvent i ev =
     andthen (gets s_now) (\<lambda>ts.
     andthen (gets (\<lambda>s. max_seq (task_events i s) + 1)) (\<lambda>seq.
     andthen (getTask i) (\<lambda>t.
     andthen (require (t \<noteq> None) ''FOREIGN KEY constraint failed'') (\<lambda>_.
     andthen (modify (\<lambda>s. s\<lparr>s_events := s_events s @
       [\<lparr>er_task = i, er_stored = \<lparr>se_seq = seq, se_ts = ts, se_event = ev\<rparr>\<rparr>]\<rparr>)) (\<lambda>_.
     andthen (when_do (seq > MAX_EVENTS_PER_TASK)
       (modify (\<lambda>s. s\<lparr>s_events := List.filter
          (\<lambda>e. er_task e \<noteq> i \<or> se_seq (er_stored e) > seq - MAX_EVENTS_PER_TASK) (s_events s)\<rparr>))) (\<lambda>_.
     ret seq))))))"

fun page_events :: "(runtime_event \<Rightarrow> string) \<Rightarrow> int \<Rightarrow> nat \<Rightarrow> stored_event list \<Rightarrow> stored_event list \<Rightarrow>
    stored_event list" where
  "page_events js limit chars page [] = page"
| "page_events js limit chars page (r # rs) =
     (let chars' = chars + length (js (se_event r))
      in if 0 \<le> limit \<and> page \<noteq> [] \<and> chars' > EVENTS_PAGE_CHARS then page
         else page_events js limit chars' (page @ [r]) rs)"

definition sql_limit :: "int \<Rightarrow> 'a list \<Rightarrow> 'a list" where
  "sql_limit limit rows = (if limit < 0 then rows else take (nat limit) rows)"

definition events :: "string \<Rightarrow> nat \<Rightarrow> int \<Rightarrow> stored_event list store_op" where
  "events i afterSeq limit =
     gets (\<lambda>s.
       let rows = sql_limit limit (sort_key se_seq (List.filter (\<lambda>e. se_seq e > afterSeq) (task_events i s)))
       in page_events (s_json s) limit 0 [] rows)"

end
