(* ===== verification/Loader.thy ===== *)
theory Loader
  imports Schema
begin

text \<open>
  \<^verbatim>\<open>packages/core/src/config/loader.ts\<close> (with \<open>resolvePath\<close> of \<^verbatim>\<open>paths.ts\<close>): agents and images
  read from the home directory, templates merged along \<open>extends\<close>.

  The file system is a map from absolute paths to texts, read by the synchronous calls of one
  resolution.  The YAML parser is a parameter (\<open>ly_yaml\<close>), as is the digest of a recipe.
\<close>

section \<open>Files\<close>

record image_source =
  src_from :: string
  src_packages :: "string list"
  src_run :: "string list"

record layout =
  ly_home :: string
  ly_agentsDir :: string
  ly_templatesDir :: string
  ly_imagesDir :: string
  ly_files :: "(string, string) jsmap"
  ly_yaml :: "string \<Rightarrow> json result"
  ly_sha :: "image_source \<Rightarrow> string"

text \<open>\<open>path.resolve\<close> on an absolute path: empty and \<open>.\<close> parts go, \<open>..\<close> drops the part before it.\<close>

fun resolve_parts :: "string list \<Rightarrow> string list \<Rightarrow> string list" where
  "resolve_parts acc [] = rev acc"
| "resolve_parts acc (p # ps) =
     resolve_parts (if p = [] \<or> p = ''.'' then acc else if p = ''..'' then tl acc else p # acc) ps"

definition path_resolve :: "string \<Rightarrow> string" where
  "path_resolve p = concat (map (\<lambda>part. ''/'' @ part) (resolve_parts [] (split_on (CHR ''/'') p)))"

definition join_path :: "string \<Rightarrow> string \<Rightarrow> string" where
  "join_path dir name = dir @ ''/'' @ name"

definition expandHome :: "layout \<Rightarrow> string \<Rightarrow> string" where
  "expandHome ly p =
     (if p = ''~'' then ly_home ly
      else if starts_with ''~/'' p then join_path (ly_home ly) (drop 2 p) else p)"

definition resolvePath :: "layout \<Rightarrow> string \<Rightarrow> string \<Rightarrow> string" where
  "resolvePath ly p base =
     (let expanded = expandHome ly p
      in if starts_with ''/'' expanded then path_resolve expanded
         else path_resolve (join_path base expanded))"

definition path_dirname :: "string \<Rightarrow> string" where
  "path_dirname p = rev (drop 1 (dropWhile (\<lambda>c. c \<noteq> CHR ''/'') (rev p)))"

definition existsFile :: "layout \<Rightarrow> string \<Rightarrow> bool" where
  "existsFile ly f \<longleftrightarrow> mhas (ly_files ly) f"

definition readFile :: "layout \<Rightarrow> string \<Rightarrow> string result" where
  "readFile ly f =
     (case mget (ly_files ly) f of None \<Rightarrow> Inl (Error (''ENOENT: '' @ f)) | Some t \<Rightarrow> Inr t)"

definition ConfigError :: "string \<Rightarrow> string \<Rightarrow> js_error" where
  "ConfigError msg file = Error (if file = [] then msg else file @ '': '' @ msg)"

text \<open>A YAML file's name without its extension; a name that is only an extension has none.\<close>

definition yaml_stem :: "string \<Rightarrow> string option" where
  "yaml_stem f =
     (let stem = (\<lambda>ext. let n = length f - length ext in
                    if length ext < length f \<and> drop n f = ext then Some (take n f) else None)
      in case stem ''.yaml'' of Some s \<Rightarrow> Some s | None \<Rightarrow> stem ''.yml'')"

definition listIds :: "layout \<Rightarrow> string \<Rightarrow> string list" where
  "listIds ly dir =
     sort (List.map_filter
       (\<lambda>path. if path_dirname path = dir then yaml_stem (drop (length dir + 1) path) else None)
       (mkeys (ly_files ly)))"

definition listAgentIds :: "layout \<Rightarrow> string list" where
  "listAgentIds ly = listIds ly (ly_agentsDir ly)"

definition listImageIds :: "layout \<Rightarrow> string list" where
  "listImageIds ly = listIds ly (ly_imagesDir ly)"

definition findYaml :: "layout \<Rightarrow> string \<Rightarrow> string \<Rightarrow> string option" where
  "findYaml ly dir i =
     List.find (existsFile ly) (map (\<lambda>ext. join_path dir (i @ ext)) [''.yaml'', ''.yml''])"

definition agentFile :: "layout \<Rightarrow> string \<Rightarrow> string" where
  "agentFile ly i =
     (case findYaml ly (ly_agentsDir ly) i of Some f \<Rightarrow> f | None \<Rightarrow> join_path (ly_agentsDir ly) (i @ ''.yaml''))"

definition imageFile :: "layout \<Rightarrow> string \<Rightarrow> string" where
  "imageFile ly i =
     (case findYaml ly (ly_imagesDir ly) i of Some f \<Rightarrow> f | None \<Rightarrow> join_path (ly_imagesDir ly) (i @ ''.yaml''))"

section \<open>Layers\<close>

definition parseYamlAs :: "layout \<Rightarrow> string \<Rightarrow> 'a parser \<Rightarrow> string \<Rightarrow> 'a result" where
  "parseYamlAs ly raw schema file =
     (case ly_yaml ly raw of
        Inl e \<Rightarrow> Inl (ConfigError (''invalid YAML: '' @ message e) file)
      | Inr v \<Rightarrow>
          (case schema (if v = JNull then JObj [] else v) of
             None \<Rightarrow> Inl (ConfigError ''invalid value'' file)
           | Some a \<Rightarrow> Inr a))"

definition readYaml :: "layout \<Rightarrow> string \<Rightarrow> 'a parser \<Rightarrow> 'a result" where
  "readYaml ly file schema = rbind (readFile ly file) (\<lambda>raw. parseYamlAs ly raw schema file)"

definition obj_fields :: "json \<Rightarrow> fields" where
  "obj_fields j = (case j of JObj kvs \<Rightarrow> kvs | _ \<Rightarrow> [])"

text \<open>\<open>layer.prompt?.file\<close>, when it is set and not empty.\<close>

definition prompt_file :: "fields \<Rightarrow> string option" where
  "prompt_file layer = do {
     p \<leftarrow> map_of layer ''prompt'';
     f \<leftarrow> Option.bind (map_of (obj_fields p) ''file'') p_string;
     if f = [] then None else Some f }"

definition loadLayer :: "layout \<Rightarrow> string \<Rightarrow> string option \<Rightarrow> fields result" where
  "loadLayer ly file raw =
     rbind (case raw of None \<Rightarrow> readYaml ly file agentLayerSchema
                      | Some t \<Rightarrow> parseYamlAs ly t agentLayerSchema file) (\<lambda>layer.
     case prompt_file layer of
       None \<Rightarrow> Inr layer
     | Some pf \<Rightarrow>
         (let path = resolvePath ly pf (path_dirname file)
          in if \<not> existsFile ly path then Inl (ConfigError (''prompt file not found: '' @ path) file)
             else rbind (readFile ly path) (\<lambda>txt.
               let prompt = mdelete ''file'' (obj_fields (the (map_of layer ''prompt'')))
               in Inr (mset_key ''prompt'' (JObj (mset_key ''text'' (JStr txt) prompt)) layer))))"

text \<open>Objects merge key by key; anything else in \<open>over\<close> replaces what \<open>base\<close> has.\<close>

fun mergeLayers :: "json \<Rightarrow> json \<Rightarrow> json" and merge_fields :: "fields \<Rightarrow> fields \<Rightarrow> fields" where
  "mergeLayers base (JObj over) =
     (case base of JObj out \<Rightarrow> JObj (merge_fields out over) | _ \<Rightarrow> JObj over)"
| "mergeLayers base over = over"
| "merge_fields out [] = out"
| "merge_fields out ((k, v) # rest) =
     merge_fields
       (mset_key k (case map_of out k of None \<Rightarrow> v | Some old \<Rightarrow> mergeLayers old v) out) rest"

section \<open>Resolving an agent\<close>

lemma findYaml_exists: "findYaml ly dir i = Some f \<Longrightarrow> existsFile ly f"
  by (auto simp: findYaml_def split: if_splits)

lemma loadLayer_reads:
  assumes "loadLayer ly file raw = Inr layer"
  shows "raw \<noteq> None \<or> file \<in> fst ` set (ly_files ly)"
  using assms
  by (cases raw) (auto simp: loadLayer_def readYaml_def readFile_def rbind_Inr_iff
      split: option.splits dest: map_of_SomeD intro: image_eqI [where x = "(_, _)"])

text \<open>The layers from the base template down to the agent's own file.\<close>

function resolve_chain ::
  "layout \<Rightarrow> string \<Rightarrow> string option \<Rightarrow> (string \<times> fields) list \<Rightarrow> string \<Rightarrow> (string \<times> fields) list result"
where
  "resolve_chain ly file0 override chain file =
     (if file \<in> fst ` set chain then Inl (ConfigError ''circular \"extends\"'' file)
      else case loadLayer ly file (if file = file0 then override else None) of
          Inl e \<Rightarrow> Inl e
        | Inr layer \<Rightarrow>
            (case Option.bind (map_of layer ''extends'') p_string of
               None \<Rightarrow> Inr ((file, layer) # chain)
             | Some parent \<Rightarrow>
                 (case findYaml ly (ly_templatesDir ly) parent of
                    None \<Rightarrow> Inl (ConfigError (''template \"'' @ parent @ ''\" not found in '' @
                                              ly_templatesDir ly) file)
                  | Some f \<Rightarrow> resolve_chain ly file0 override ((file, layer) # chain) f)))"
  by pat_completeness auto
termination
proof (relation "measure (\<lambda>(ly, F0, ov, chain, file).
    card (insert F0 (fst ` set (ly_files ly)) - fst ` set chain))")
  fix ly :: layout and F0 override fl and chain :: "(string \<times> fields) list" and layer :: fields and x2 f
  let ?F = "insert F0 (fst ` set (ly_files ly))"
  assume new: "fl \<notin> fst ` set chain"
    and ok: "loadLayer ly fl (if fl = F0 then override else None) = Inr layer"
  have "fl \<in> ?F" using loadLayer_reads [OF ok] by (auto split: if_splits)
  then have "?F - fst ` set ((fl, layer) # chain) \<subset> ?F - fst ` set chain" using new by auto
  then have "card (?F - fst ` set ((fl, layer) # chain)) < card (?F - fst ` set chain)"
    by (intro psubset_card_mono) auto
  then show "((ly, F0, override, (fl, layer) # chain, f), ly, F0, override, chain, fl)
      \<in> measure (\<lambda>(ly, F0, ov, chain, file).
          card (insert F0 (fst ` set (ly_files ly)) - fst ` set chain))"
    by simp
qed simp

declare resolve_chain.simps [simp del]

definition agent_candidate :: "string \<Rightarrow> fields \<Rightarrow> json" where
  "agent_candidate i merged =
     (let rest = mdelete ''id'' (mdelete ''extends'' merged)
      in JObj (mset_key ''prompt'' (case map_of rest ''prompt'' of None \<Rightarrow> JObj [] | Some p \<Rightarrow> p)
           (mset_key ''name'' (case map_of rest ''name'' of None \<Rightarrow> JStr i | Some n \<Rightarrow> n)
             (mset_key ''id'' (JStr i) rest))))"

definition resolveAgent :: "layout \<Rightarrow> string \<Rightarrow> string option \<Rightarrow> resolved_agent result" where
  "resolveAgent ly i override =
     (case findYaml ly (ly_agentsDir ly) i of
        None \<Rightarrow> Inl (ConfigError (''agent \"'' @ i @ ''\" not found in '' @ ly_agentsDir ly) [])
      | Some file0 \<Rightarrow>
          rbind (resolve_chain ly file0 override [] file0) (\<lambda>chain.
          let merged = obj_fields (foldl (\<lambda>m (_, layer). mergeLayers m (JObj layer)) (JObj []) chain);
              declared = map_of merged ''id''
          in if declared \<noteq> None \<and> declared \<noteq> Some (JStr i)
             then Inl (ConfigError ''id does not match the file name'' file0)
             else case resolvedAgentSchema (agent_candidate i merged) of
                 None \<Rightarrow> Inl (ConfigError ''invalid value'' file0)
               | Some agent \<Rightarrow>
                   if ra_image agent \<noteq> BASE_IMAGE \<and>
                      findYaml ly (ly_imagesDir ly) (ra_image agent) = None
                   then Inl (ConfigError (''image \"'' @ ra_image agent @ ''\" not found in '' @
                                          ly_imagesDir ly) file0)
                   else Inr (agent\<lparr>ra_sourceFiles := map fst chain\<rparr>)))"

section \<open>Images\<close>

record loaded_image =
  li_id :: string
  li_recipe :: image_recipe
  li_hash :: string

definition imageHash :: "layout \<Rightarrow> image_recipe \<Rightarrow> string" where
  "imageHash ly r =
     take 16 (ly_sha ly \<lparr>src_from = im_from r, src_packages = im_packages r, src_run = im_run r\<rparr>)"

definition loadImage :: "layout \<Rightarrow> string \<Rightarrow> loaded_image result" where
  "loadImage ly i =
     (if i = BASE_IMAGE
      then Inr \<lparr>li_id = i, li_recipe = \<lparr>im_id = None, im_from = BASE_IMAGE, im_packages = [], im_run = []\<rparr>,
                li_hash = ''base''\<rparr>
      else if starts_with RUNTIME_IMAGE_PREFIX i
      then Inl (ConfigError ''image ids starting with \"runtime-\" are reserved'' [])
      else case findYaml ly (ly_imagesDir ly) i of
          None \<Rightarrow> Inl (ConfigError (''image \"'' @ i @ ''\" not found in '' @ ly_imagesDir ly) [])
        | Some file \<Rightarrow>
            rbind (readYaml ly file imageRecipeSchema) (\<lambda>recipe.
            if im_id recipe \<noteq> None \<and> im_id recipe \<noteq> Some i
            then Inl (ConfigError ''id does not match the file name'' file)
            else Inr \<lparr>li_id = i, li_recipe = recipe, li_hash = imageHash ly recipe\<rparr>))"

section \<open>Merging\<close>

lemma merge_fields_other: "k \<notin> fst ` set over \<Longrightarrow> map_of (merge_fields out over) k = map_of out k"
proof (induction over arbitrary: out)
  case (Cons kv over)
  then show ?case by (cases kv) (auto simp: update_conv')
qed simp

lemma merge_fields_map_of:
  assumes "distinct (map fst over)"
  shows "map_of (merge_fields out over) k =
    (case map_of over k of
       None \<Rightarrow> map_of out k
     | Some v \<Rightarrow> Some (case map_of out k of None \<Rightarrow> v | Some old \<Rightarrow> mergeLayers old v))"
  using assms
proof (induction over arbitrary: out)
  case (Cons kv over)
  obtain k' v where kv: "kv = (k', v)" by (cases kv)
  then have fresh: "k' \<notin> fst ` set over" and "distinct (map fst over)" using Cons.prems by auto
  then have none: "map_of over k' = None" by (simp add: map_of_eq_None_iff)
  show ?case
    using Cons.IH [OF \<open>distinct (map fst over)\<close>] none fresh
    by (cases "k = k'") (auto simp: kv update_conv' merge_fields_other split: option.split)
qed simp

lemma merge_fields_keys: "fst ` set (merge_fields out over) = fst ` set out \<union> fst ` set over"
proof (induction over arbitrary: out)
  case (Cons kv over)
  then show ?case by (cases kv) (auto simp: dom_update)
qed simp

text \<open>
  Merging a layer over a base works key by key: a key only one of them has
  keeps its value, a key both have holds the merge of the two, and lists and scalars of the upper
  layer replace what the base has.
\<close>

theorem mergeLayers_by_key:
  assumes "distinct (map fst over)"
  shows "\<exists>out. mergeLayers (JObj base) (JObj over) = JObj out \<and>
    fst ` set out = fst ` set base \<union> fst ` set over \<and>
    (\<forall>k. map_of out k =
      (case (map_of base k, map_of over k) of
         (b, None) \<Rightarrow> b
       | (None, Some v) \<Rightarrow> Some v
       | (Some b, Some (JObj ov)) \<Rightarrow> Some (mergeLayers b (JObj ov))
       | (Some b, Some v) \<Rightarrow> Some v))"
proof -
  have "map_of (merge_fields base over) k =
    (case (map_of base k, map_of over k) of
         (b, None) \<Rightarrow> b
       | (None, Some v) \<Rightarrow> Some v
       | (Some b, Some (JObj ov)) \<Rightarrow> Some (mergeLayers b (JObj ov))
       | (Some b, Some v) \<Rightarrow> Some v)" for k
    unfolding merge_fields_map_of [OF assms] by (auto split: option.split json.split)
  then show ?thesis by (simp add: merge_fields_keys)
qed

lemma mergeLayers_by_key_witness:
  "\<exists>out. mergeLayers (JObj [(''a'', JInt 1), (''o'', JObj [(''x'', JInt 1)])])
                    (JObj [(''o'', JObj [(''y'', JInt 2)]), (''l'', JArr [])]) = JObj out \<and>
     map_of out ''o'' = Some (JObj [(''x'', JInt 1), (''y'', JInt 2)])"
  using mergeLayers_by_key [of "[(''o'', JObj [(''y'', JInt 2)]), (''l'', JArr [])]"
      "[(''a'', JInt 1), (''o'', JObj [(''x'', JInt 1)])]"]
  by force

section \<open>What a resolved agent satisfies\<close>

lemma resolve_chain_files:
  assumes "resolve_chain ly file0 ov chain fl = Inr chain'" and "distinct (map fst chain)"
    and "chain = [] \<and> fl = file0 \<or> chain \<noteq> [] \<and> fst (last chain) = file0"
  shows "distinct (map fst chain') \<and> chain' \<noteq> [] \<and> fst (last chain') = file0"
  using assms
proof (induction ly file0 ov chain fl rule: resolve_chain.induct)
  case (1 ly file0 override chain fl)
  from "1.prems"(1) obtain layer where new: "fl \<notin> fst ` set chain"
    and ok: "loadLayer ly fl (if fl = file0 then override else None) = Inr layer"
    by (subst (asm) resolve_chain.simps) (auto split: if_splits sum.splits)
  have last: "fst (last ((fl, layer) # chain)) = file0" using "1.prems"(3) by auto
  show ?case
  proof (cases "Option.bind (map_of layer ''extends'') p_string")
    case None
    then have "chain' = (fl, layer) # chain"
      using "1.prems"(1) new ok by (subst (asm) resolve_chain.simps) simp
    then show ?thesis using new last "1.prems"(2) by auto
  next
    case (Some parent)
    with "1.prems"(1) new ok obtain f where f: "findYaml ly (ly_templatesDir ly) parent = Some f"
      by (subst (asm) resolve_chain.simps) (auto split: option.splits)
    with "1.prems"(1) new ok Some
    have "resolve_chain ly file0 override ((fl, layer) # chain) f = Inr chain'"
      by (subst (asm) resolve_chain.simps) simp
    then show ?thesis
      using "1.IH" [OF new ok Some f] new last "1.prems"(2) by auto
  qed
qed

lemma p_enum_in: "p_enum vs j = Some s \<Longrightarrow> s \<in> set vs"
  by (auto simp: p_enum_def str_where_def bind_eq_Some_conv split: if_splits)

lemma str_where_ok: "str_where P j = Some s \<Longrightarrow> j = JStr s \<and> P s"
  by (cases j) (auto simp: str_where_def split: if_splits)

lemma int_between_in: "int_between a b j = Some n \<Longrightarrow> a \<le> n \<and> n \<le> b"
  by (cases j) (auto split: if_splits)

lemma needed_Some: "needed kvs k p = Some a \<Longrightarrow> \<exists>j. map_of kvs k = Some j \<and> p j = Some a"
  by (auto simp: needed_def bind_eq_Some_conv)

lemma default_to_cases: "default_to d kvs k p = Some a \<Longrightarrow> a = d \<or> (\<exists>j. p j = Some a)"
  by (auto simp: default_to_def split: option.splits)

lemma cronSchema_parses: "cronSchema j = Some c \<Longrightarrow> \<exists>v. parseCron c = Inr v"
  unfolding cronSchema_def by (drule str_where_ok) (cases "parseCron c"; simp)

lemma triggerSchema_schedule: "triggerSchema j = Some (Schedule c t) \<Longrightarrow> \<exists>v. parseCron c = Inr v"
  by (auto simp: triggerSchema_def bind_eq_Some_conv dest!: needed_Some cronSchema_parses
      split: option.splits)

lemma array_triggers:
  assumes "p_array triggerSchema j = Some ts" and "Schedule c t \<in> set ts"
  shows "\<exists>v. parseCron c = Inr v"
  using assms by (cases j) (auto elim!: parse_all_in dest: triggerSchema_schedule)

lemma if_SomeD: "(if b then Some x else None) = Some a \<Longrightarrow> b \<and> x = a"
  by (simp split: if_splits)

lemma resolvedAgentSchema_parts:
  assumes "resolvedAgentSchema j = Some a"
  obtains kvs n where "strictObject agent_fields j = Some kvs"
    and "needed kvs ''id'' (str_where idSchema) = Some (ra_id a)"
    and "needed kvs ''runtime'' (p_enum RUNTIMES) = Some (ra_runtime a)"
    and "default_to [] kvs ''triggers'' (p_array triggerSchema) = Some (ra_triggers a)"
    and "default_to (int DEFAULT_MAX_TASKS) kvs ''maxTasks'' (int_between 1 10) = Some n"
    and "ra_maxTasks a = nat n" and "agent_ok a"
proof -
  show thesis
    using assms unfolding resolvedAgentSchema_def bind_eq_Some_conv Let_def
    apply (elim exE conjE)
    apply (drule if_SomeD)
    apply (elim conjE)
    apply hypsubst
    apply (rule that; simp)
    done
qed

lemma resolvedAgentSchema_sound:
  assumes "resolvedAgentSchema j = Some a"
  shows "agent_ok a \<and> ra_runtime a \<in> set RUNTIMES \<and> 1 \<le> ra_maxTasks a \<and> ra_maxTasks a \<le> 10 \<and>
    idSchema (ra_id a) \<and> map_of (obj_fields j) ''id'' = Some (JStr (ra_id a)) \<and>
    (\<forall>c t. Schedule c t \<in> set (ra_triggers a) \<longrightarrow> (\<exists>v. parseCron c = Inr v))"
proof -
  obtain kvs n where obj: "strictObject agent_fields j = Some kvs"
    and i: "needed kvs ''id'' (str_where idSchema) = Some (ra_id a)"
    and rt: "needed kvs ''runtime'' (p_enum RUNTIMES) = Some (ra_runtime a)"
    and tr: "default_to [] kvs ''triggers'' (p_array triggerSchema) = Some (ra_triggers a)"
    and mt: "default_to (int DEFAULT_MAX_TASKS) kvs ''maxTasks'' (int_between 1 10) = Some n"
    and n: "ra_maxTasks a = nat n" and ok: "agent_ok a"
    by (rule resolvedAgentSchema_parts [OF assms])
  have "j = JObj kvs" using obj by (cases j) (auto split: if_splits)
  moreover from needed_Some [OF i] have "map_of kvs ''id'' = Some (JStr (ra_id a))" "idSchema (ra_id a)"
    by (auto dest: str_where_ok)
  moreover from needed_Some [OF rt] have "ra_runtime a \<in> set RUNTIMES" by (auto dest: p_enum_in)
  moreover from default_to_cases [OF mt] have "1 \<le> n \<and> n \<le> 10"
    by (auto simp: DEFAULT_MAX_TASKS_def dest: int_between_in)
  moreover have "\<exists>v. parseCron c = Inr v" if "Schedule c t \<in> set (ra_triggers a)" for c t
    using default_to_cases [OF tr] that array_triggers by fastforce
  ultimately show ?thesis using ok n by (auto simp: obj_fields_def)
qed

text \<open>
  C20 (resolveAgent_sound). Whatever files an agent is resolved from, with any chain of templates,
  resolution ends (\<open>resolve_chain\<close> is total), and an agent it returns has the id of its file, runs on
  a known runtime with 1 to 10 tasks at a time, lists no connector and no workspace name twice, works
  outside a cell only on codex, does not delegate to itself, pins accounts only of connectors it lists,
  has schedules that parse, uses an image that exists, and was merged from distinct files, its own last.
\<close>

theorem resolveAgent_sound:
  assumes "resolveAgent ly i override = Inr a"
  shows "ra_id a = i \<and> idSchema i \<and> ra_runtime a \<in> set RUNTIMES \<and>
    1 \<le> ra_maxTasks a \<and> ra_maxTasks a \<le> 10 \<and>
    distinct (ra_connectors a) \<and> distinct (map workspaceName (ra_workspaces a)) \<and>
    (ra_sandbox a = ''cell'' \<or> ra_runtime a = ''codex'') \<and> i \<notin> set (ra_delegates a) \<and>
    (\<forall>x \<in> set (ra_accounts a). fst x \<in> set (ra_connectors a)) \<and>
    (\<forall>c t. Schedule c t \<in> set (ra_triggers a) \<longrightarrow> (\<exists>v. parseCron c = Inr v)) \<and>
    (ra_image a = BASE_IMAGE \<or> findYaml ly (ly_imagesDir ly) (ra_image a) \<noteq> None) \<and>
    distinct (ra_sourceFiles a) \<and> findYaml ly (ly_agentsDir ly) i = Some (last (ra_sourceFiles a))"
proof -
  obtain file0 chain merged agent where f: "findYaml ly (ly_agentsDir ly) i = Some file0"
    and ch: "resolve_chain ly file0 override [] file0 = Inr chain"
    and ag: "resolvedAgentSchema (agent_candidate i merged) = Some agent"
    and im: "ra_image agent = BASE_IMAGE \<or> findYaml ly (ly_imagesDir ly) (ra_image agent) \<noteq> None"
    and a: "a = agent\<lparr>ra_sourceFiles := map fst chain\<rparr>"
    using assms
    by (auto simp: resolveAgent_def Let_def rbind_Inr_iff split: option.splits if_splits)
  have "map_of (obj_fields (agent_candidate i merged)) ''id'' = Some (JStr i)"
    by (simp add: agent_candidate_def obj_fields_def Let_def update_conv')
  then have "ra_id agent = i" using resolvedAgentSchema_sound [OF ag] by simp
  moreover have "agent_ok a" using resolvedAgentSchema_sound [OF ag] by (simp add: a agent_ok_def)
  then have "distinct (ra_connectors a)" "distinct (map workspaceName (ra_workspaces a))"
    "ra_sandbox a = ''cell'' \<or> ra_runtime a = ''codex''" "ra_id a \<notin> set (ra_delegates a)"
    "\<forall>x \<in> set (ra_accounts a). fst x \<in> set (ra_connectors a)"
    by (auto simp: agent_ok_def)
  moreover have "distinct (map fst chain) \<and> chain \<noteq> [] \<and> fst (last chain) = file0"
    using resolve_chain_files [OF ch] by simp
  ultimately show ?thesis
    using resolvedAgentSchema_sound [OF ag] f im by (simp add: a last_map)
qed

definition demo_layout :: layout where
  "demo_layout =
     \<lparr>ly_home = ''/h'', ly_agentsDir = ''/a'', ly_templatesDir = ''/t'', ly_imagesDir = ''/i'',
      ly_files = [(''/a/dev.yaml'', ''1''), (''/t/base.yaml'', ''2'')],
      ly_yaml = (\<lambda>raw. Inr (if raw = ''1'' then JObj [(''extends'', JStr ''base''), (''maxTasks'', JInt 2)]
                            else JObj [(''runtime'', JStr ''codex''), (''maxTasks'', JInt 5)])),
      ly_sha = (\<lambda>_. [])\<rparr>"

lemma resolveAgent_sound_witness:
  "case resolveAgent demo_layout ''dev'' None of
     Inl _ \<Rightarrow> False
   | Inr a \<Rightarrow> ra_id a = ''dev'' \<and> ra_maxTasks a = 2 \<and> distinct (ra_sourceFiles a)"
proof -
  have "case resolveAgent demo_layout ''dev'' None of
     Inl _ \<Rightarrow> False | Inr a \<Rightarrow> ra_maxTasks a = 2"
    by code_simp
  then show ?thesis
    by (auto split: sum.splits dest: resolveAgent_sound)
qed

end
