(* ===== verification/World.thy ===== *)
theory World
  imports Store Loader
begin

text \<open>
  The daemon's state, which the components of \<^verbatim>\<open>packages/daemon/src\<close> share: the database
  (\<open>db\<close>), the fields of \<open>Hub\<close> (\<^verbatim>\<open>hub.ts\<close>), what the daemon is configured with, and the
  trace of what it emitted (\<open>outs\<close>: event emitter calls and promises resolved, in order).

  A JavaScript function runs without interruption up to its first \<open>await\<close>; operations are these
  uninterrupted pieces.  A turn that is under way records where its \<open>execute\<close> waits
  (\<open>rn_stage\<close>), and microtasks that were queued are in \<open>h_microtasks\<close>.
\<close>

section \<open>State\<close>

record job =
  j_task :: string
  j_text :: string

text \<open>
  Where a turn waits: its image and skills, a closing cell, a free cell (since when, once it
  waited), its cell's start, the events of its session (turn id, reply, failure, timed out), the
  execution node.
\<close>

datatype stage =
  Preparing
| Closing_cell string nat "int option"
| Waiting_room string "int option"
| Cell_starting
| In_turn string string "string option" bool
| Remote outbound
| Ended

record turn_state =
  rn_job :: job
  rn_aborted :: bool
  rn_queued :: bool
  rn_stage :: stage

record agent_state =
  as_id :: string
  as_agent :: "resolved_agent option"
  as_error :: "string option"
  as_queue :: "job list"
  as_running :: "(string, turn_state) jsmap"

record cell_key =
  ck_runtime :: string
  ck_image :: string
  ck_hash :: string
  ck_connectors :: "string list"
  ck_sandbox :: string
  ck_workspaces :: "workspace list"
  ck_egress :: "string list option"

record live_cell =
  lc_agentId :: string
  lc_key :: cell_key
  lc_idle :: bool
  lc_lastUsed :: int
  lc_closed :: bool

datatype emission =
  Out_event string string "nat option" runtime_event
| Out_task task_row
| Out_agents "string list"
| Out_turnEnded task_row string
| Out_resolved nat task_row
| Out_log string

text \<open>The peer network's directory (\<^verbatim>\<open>peer-network.ts\<close>), as \<open>directory()\<close> and \<open>identity()\<close> give it.\<close>

record peer_agent =
  pa_id :: string
  pa_name :: string
  pa_description :: "string option"
  pa_runtime :: "string option"
  pa_connectors :: "string list"
  pa_skills :: "string list"
  pa_generation :: string

record peer_node =
  pn_node :: string
  pn_label :: string
  pn_online :: bool
  pn_agents :: "peer_agent list"

record network =
  net_configured :: bool
  net_self :: string
  net_nodes :: "peer_node list"
  net_own :: "peer_agent list"

record options =
  op_peers :: bool
  op_team :: bool
  op_builtins :: "(string \<times> (string option \<Rightarrow> resolved_agent)) list"
  op_target :: "string \<Rightarrow> string result"
  op_maxCells :: "nat option"
  op_roomWaitMs :: "int option"

record hub =
  h_stopping :: bool
  h_states :: "(string, agent_state) jsmap"
  h_cells :: "(string, live_cell) jsmap"
  h_waiters :: "(string, nat list) jsmap"
  h_deleting :: "string list"
  h_roomQueue :: "(string, nat) jsmap"
  h_blocked :: "(string, nat) jsmap"
  h_roomWaiters :: "string list"
  h_closingTasks :: "(string, nat) jsmap"
  h_closing :: "nat list"
  h_closeSeq :: nat
  h_microtasks :: "string list"

record world =
  db :: store
  hub :: hub
  outs :: "emission list"
  layout :: layout
  network :: network
  opts :: options

type_synonym 'a act = "(world, 'a) op"

section \<open>Operations of the parts\<close>

definition on_db :: "'a store_op \<Rightarrow> 'a act" where
  "on_db m = (\<lambda>w. case m (db w) of (r, s) \<Rightarrow> (r, w\<lparr>db := s\<rparr>))"

definition on_hub :: "(hub \<Rightarrow> hub) \<Rightarrow> unit act" where
  "on_hub f = modify (\<lambda>w. w\<lparr>hub := f (hub w)\<rparr>)"

definition emit :: "emission \<Rightarrow> unit act" where
  "emit x = modify (\<lambda>w. w\<lparr>outs := outs w @ [x]\<rparr>)"

text \<open>
  A transaction: a nested one only runs.  The outermost one restores the tables when it throws; it
  cannot undo what the body did outside the database.
\<close>

definition rollback :: "store \<Rightarrow> store \<Rightarrow> store" where
  "rollback before s = before\<lparr>s_depth := 0, s_now := s_now s, s_draws := s_draws s\<rparr>"

definition transaction :: "'a act \<Rightarrow> 'a act" where
  "transaction run = (\<lambda>w.
     if s_depth (db w) > 0 then run w
     else case run (w\<lparr>db := (db w)\<lparr>s_depth := 1\<rparr>\<rparr>) of
         (Inr a, w') \<Rightarrow> (Inr a, w'\<lparr>db := (db w')\<lparr>s_depth := 0\<rparr>\<rparr>)
       | (Inl e, w') \<Rightarrow> (Inl e, w'\<lparr>db := rollback (db w) (db w')\<rparr>))"

section \<open>Hub: reading\<close>

definition hub_getTask :: "string \<Rightarrow> task_row act" where
  "hub_getTask i =
     andthen (on_db (getTask i)) (\<lambda>t.
     case t of None \<Rightarrow> throw (''unknown task \"'' @ i @ ''\"'') | Some row \<Rightarrow> ret row)"

definition agent_state_of :: "string \<Rightarrow> world \<Rightarrow> agent_state option" where
  "agent_state_of i w = mget (h_states (hub w)) i"

definition state_agent :: "string \<Rightarrow> world \<Rightarrow> resolved_agent option" where
  "state_agent i w = Option.bind (agent_state_of i w) as_agent"

definition set_state :: "string \<Rightarrow> agent_state \<Rightarrow> unit act" where
  "set_state i st = on_hub (\<lambda>h. h\<lparr>h_states := mset_key i st (h_states h)\<rparr>)"

definition update_state :: "string \<Rightarrow> (agent_state \<Rightarrow> agent_state) \<Rightarrow> unit act" where
  "update_state i f = on_hub (\<lambda>h. h\<lparr>h_states :=
     (case mget (h_states h) i of None \<Rightarrow> h_states h | Some st \<Rightarrow> mset_key i (f st) (h_states h))\<rparr>)"

text \<open>\<open>builtin(id, runtime)\<close>, \<open>resolve(id)\<close>, \<open>agentFor(task)\<close>.\<close>

definition builtin :: "string \<Rightarrow> string option \<Rightarrow> world \<Rightarrow> resolved_agent option" where
  "builtin i runtime w = map_option (\<lambda>agent. agent runtime) (map_of (op_builtins (opts w)) i)"

definition resolve :: "string \<Rightarrow> resolved_agent act" where
  "resolve i = (\<lambda>w.
     case builtin i None w of
       Some a \<Rightarrow> (Inr a, w)
     | None \<Rightarrow> (resolveAgent (layout w) i None, w))"

definition agentFor :: "task_row \<Rightarrow> resolved_agent act" where
  "agentFor task = (\<lambda>w.
     let pinned = (case t_runtime task of
                     Some r \<Rightarrow> if r \<in> set RUNTIMES then builtin (t_agentId task) (Some r) w else None
                   | None \<Rightarrow> None)
     in case pinned of Some a \<Rightarrow> (Inr a, w) | None \<Rightarrow> resolve (t_agentId task) w)"

definition mismatch_text :: "string \<Rightarrow> string \<Rightarrow> string \<Rightarrow> string" where
  "mismatch_text old agentId new =
     ''this task's session belongs to '' @ old @ '', but @'' @ agentId @ '' now runs on '' @ new @
     '', which cannot resume it; start a new task, or run a failed one again with `anchi retry --fresh`''"

definition runtimeMismatch :: "task_row \<Rightarrow> resolved_agent \<Rightarrow> string option" where
  "runtimeMismatch task agent =
     (case (t_resumeId task, t_runtime task) of
        (Some rid, Some r) \<Rightarrow>
          if rid = [] \<or> r = [] \<or> r = ra_runtime agent then None
          else Some (mismatch_text r (t_agentId task) (ra_runtime agent))
      | _ \<Rightarrow> None)"

section \<open>Hub: transcripts\<close>

definition emitAgents :: "unit act" where
  "emitAgents = andthen (gets (\<lambda>w. sort (mkeys (h_states (hub w))))) (\<lambda>is. emit (Out_agents is))"

definition or_else :: "'a option \<Rightarrow> 'a \<Rightarrow> 'a" where
  "or_else x d = (case x of None \<Rightarrow> d | Some a \<Rightarrow> a)"

text \<open>The use a \<open>usage\<close> event reports, under the runtime and the model it belongs to.\<close>

definition usage_counts :: "usage_event \<Rightarrow> turn_usage" where
  "usage_counts u =
     \<lparr>tu_input = or_else (ue_input u) 0, tu_cachedInput = or_else (ue_cached u) 0,
      tu_cacheWrite = or_else (ue_cacheWrite u) 0, tu_output = or_else (ue_output u) 0,
      tu_reasoning = or_else (ue_reasoning u) 0, tu_costUsd = or_else (ue_cost u) 0\<rparr>"

definition usage_runtime :: "task_row \<Rightarrow> string act" where
  "usage_runtime task =
     andthen (gets (state_agent (t_agentId task))) (\<lambda>agent.
     if t_execution task \<noteq> None \<or> Option.bind agent ra_execution \<noteq> None
     then andthen (hub_getTask (t_id task)) (\<lambda>t. ret (or_else (t_runtime t) ''unknown''))
     else ret (or_else (map_option ra_runtime agent) ''unknown''))"

definition record_usage :: "task_row \<Rightarrow> usage_event \<Rightarrow> unit act" where
  "record_usage task u =
     andthen (gets (state_agent (t_agentId task))) (\<lambda>agent.
     andthen (usage_runtime task) (\<lambda>runtime.
     let model = or_else (ue_model u) (or_else (Option.bind agent ra_model) (runtime @ '' default''));
         row = \<lparr>uk_taskId = t_id task, uk_agentId = t_agentId task, uk_runtime = runtime, uk_model = model\<rparr>
     in andthen (on_db (recordUsage row None (usage_counts u) (ue_cumulative u = Some True))) (\<lambda>_. ret ())))"

definition record_event :: "task_row \<Rightarrow> runtime_event \<Rightarrow> unit act" where
  "record_event task event =
     andthen (case event of Ev_usage u \<Rightarrow> record_usage task u | _ \<Rightarrow> ret ()) (\<lambda>_.
     andthen (case event of
                Ev_text_delta t \<Rightarrow> ret None
              | _ \<Rightarrow> andthen (on_db (appendEvent (t_id task) event)) (\<lambda>seq. ret (Some seq))) (\<lambda>seq.
     emit (Out_event (t_id task) (t_agentId task) seq event)))"

definition notice :: "string \<Rightarrow> string \<Rightarrow> unit act" where
  "notice i txt =
     andthen (on_db (getTask i)) (\<lambda>t.
     case t of None \<Rightarrow> ret () | Some task \<Rightarrow> record_event task (Ev_notice (take 2000 txt)))"

text \<open>The arrow that opens a delegation notice (UTF-8), and \<open>finish\<close>.\<close>

definition child_mark :: string where
  "child_mark = [CHR 0xE2, CHR 0x86, CHR 0xB3] @ '' ''"

definition outcome_text :: "task_row \<Rightarrow> string" where
  "outcome_text row =
     (case t_links row of
        l # _ \<Rightarrow> l
      | [] \<Rightarrow> take 120 (collapse_spaces (or_else (t_result row) [])))"

definition notify_parent :: "task_row \<Rightarrow> task_status \<Rightarrow> unit act" where
  "notify_parent row status =
     (case t_parentId row of
        None \<Rightarrow> ret ()
      | Some p \<Rightarrow>
          andthen (on_db (getTask p)) (\<lambda>parent.
          case parent of
            None \<Rightarrow> ret ()
          | Some pr \<Rightarrow>
              record_event pr (Ev_notice (child_mark @ t_id row @ '' (@'' @ t_agentId row @ '') '' @
                status_str status @ '': '' @ outcome_text row))))"

definition finish :: "string \<Rightarrow> task_status \<Rightarrow> string option \<Rightarrow> unit act" where
  "finish i status result =
     andthen (case result of None \<Rightarrow> ret () | Some r \<Rightarrow> on_db (setResult i r)) (\<lambda>_.
     andthen (on_db (setStatus i status)) (\<lambda>row.
     andthen (emit (Out_task row)) (\<lambda>_.
     andthen (when_do (status = Done) (emit (Out_turnEnded row (or_else result [])))) (\<lambda>_.
     andthen (notify_parent row status) (\<lambda>_.
     andthen (gets (\<lambda>w. or_else (mget (h_waiters (hub w)) i) [])) (\<lambda>waiting.
     andthen (each (\<lambda>k. emit (Out_resolved k row)) waiting) (\<lambda>_.
     on_hub (\<lambda>h. h\<lparr>h_waiters := mdelete i (h_waiters h)\<rparr>))))))))"

text \<open>\<open>wait(taskId)\<close>, for the waiter \<open>k\<close>.\<close>

definition wait :: "string \<Rightarrow> nat \<Rightarrow> unit act" where
  "wait i k =
     andthen (hub_getTask i) (\<lambda>task.
     if \<not> in_flight (t_status task) then emit (Out_resolved k task)
     else on_hub (\<lambda>h. h\<lparr>h_waiters := mset_key i (or_else (mget (h_waiters h) i) [] @ [k]) (h_waiters h)\<rparr>))"

definition enqueue :: "string \<Rightarrow> job \<Rightarrow> unit act" where
  "enqueue i jb =
     andthen (update_state i (\<lambda>st. st\<lparr>as_queue := as_queue st @ [jb]\<rparr>)) (\<lambda>_.
     andthen emitAgents (\<lambda>_.
     on_hub (\<lambda>h. h\<lparr>h_microtasks := h_microtasks h @ [i]\<rparr>)))"

definition hub_children :: "string \<Rightarrow> task_row list act" where
  "hub_children i = on_db (children i)"

section \<open>Receipts of a team's tool calls (\<open>Store.teamEffect\<close>)\<close>

definition teamEffect :: "string option \<Rightarrow> hashed \<Rightarrow> task_row act \<Rightarrow> task_row act" where
  "teamEffect key input run =
     (if key = None \<or> key = Some [] then run
      else transaction (
        let path = ''effect/'' @ the key in
        andthen (gets (\<lambda>w. s_sha (db w) input)) (\<lambda>digest.
        andthen (on_db (teamGet path as_effect)) (\<lambda>receipt.
        case receipt of
          Some (d, t) \<Rightarrow>
            if d \<noteq> digest then throw ''TEAM_REQUEST_CONFLICT''
            else andthen (on_db (getTask t)) (\<lambda>task.
              case task of None \<Rightarrow> throw ''TEAM_TASK_REMOVED'' | Some row \<Rightarrow> ret row)
        | None \<Rightarrow>
            andthen run (\<lambda>task.
            andthen (on_db (teamPut path (Tv_effect digest (t_id task)))) (\<lambda>_.
            ret task))))))"

end
