(* ===== verification/PeerBase.thy ===== *)
theory PeerBase
  imports World
begin

text \<open>
  \<^verbatim>\<open>packages/daemon/src/peer-tasks.ts\<close>, the operations the hub calls: starting work on another
  machine (\<open>create\<close>, \<open>delegate\<close>), the identity and turn budget of local tasks (\<open>root\<close>,
  \<open>localChild\<close>, \<open>consume\<close>), \<open>send\<close> and \<open>cancel\<close>.  A task's turns come from the range its
  budget holds; a child's range is cut off the parent's end.
\<close>

record agent_summary =
  sm_id :: string
  sm_name :: string
  sm_description :: "string option"
  sm_connectors :: "string list"
  sm_status :: string
  sm_running :: nat
  sm_queued :: nat
  sm_maxTasks :: nat
  sm_error :: "string option"

definition ref_of :: "string \<Rightarrow> peer_agent \<Rightarrow> string" where
  "ref_of node a = node @ ''/'' @ pa_id a @ ''/'' @ pa_generation a"

definition ref_node_of :: "string \<Rightarrow> string" where
  "ref_node_of target = hd (split_on (CHR ''/'') target)"

text \<open>A middle dot (UTF-8) between spaces.\<close>

definition name_dot :: string where
  "name_dot = '' '' @ [CHR 0xC2, CHR 0xB7] @ '' ''"

definition node_agents :: "peer_node \<Rightarrow> agent_summary list" where
  "node_agents n =
     map (\<lambda>a. \<lparr>sm_id = ref_of (pn_node n) a, sm_name = pa_name a @ name_dot @ pn_label n,
                 sm_description = pa_description a, sm_connectors = pa_connectors a,
                 sm_status = (if pn_online n then ''idle'' else ''error''),
                 sm_running = 0, sm_queued = 0, sm_maxTasks = 1,
                 sm_error = (if pn_online n then None else Some ''Machine offline; last known directory'')\<rparr>)
         (pn_agents n)"

definition peer_agents :: "network \<Rightarrow> agent_summary list" where
  "peer_agents net =
     concat (map node_agents (List.filter (\<lambda>n. pn_node n \<noteq> net_self net) (net_nodes net)))"

definition check_target :: "string \<Rightarrow> unit act" where
  "check_target target =
     andthen (require (peerAgentRefSchema target) ''ZodError'') (\<lambda>_.
     andthen (gets (\<lambda>w. target \<in> set (map sm_id (peer_agents (network w))))) (\<lambda>known.
     require known ''PEER_AGENT_UNAVAILABLE''))"

definition out_key :: "string \<Rightarrow> string" where "out_key i = ''peer/out/'' @ i"

definition budget_key :: "string \<Rightarrow> string" where "budget_key i = ''peer/budget/'' @ i"

definition new_mirror :: "string \<Rightarrow> task_ref \<Rightarrow> peer_info" where
  "new_mirror target rt =
     Peer_mirror \<lparr>pm_node = ref_node_of target, pm_agent = target, pm_remoteTask = None,
                  pm_observed = False, pm_root = rt\<rparr>"

definition put_outgoing :: "string \<Rightarrow> peer_dispatch \<Rightarrow> unit act" where
  "put_outgoing i d =
     on_db (teamPut (out_key i) (Tv_outgoing
       \<lparr>out_task = i, out_dispatch = d, out_cursor = 0, out_cancelled = False, out_settled = False,
        out_error = None\<rparr>))"

definition emit_task :: "string \<Rightarrow> task_row act" where
  "emit_task i = andthen (hub_getTask i) (\<lambda>row. andthen (emit (Out_task row)) (\<lambda>_. ret row))"

definition peer_create :: "string \<Rightarrow> string \<Rightarrow> task_row act" where
  "peer_create target txt =
     andthen (check_target target) (\<lambda>_.
     transaction (
       andthen (on_db (createTask target ''user'' txt None)) (\<lambda>task.
       andthen (gets (\<lambda>w. \<lparr>ref_node = net_self (network w), ref_task = t_id task\<rparr>)) (\<lambda>rt.
       andthen (on_db (setPeer (t_id task) (new_mirror target rt))) (\<lambda>_.
       andthen (put_outgoing (t_id task)
         \<lparr>dp_request = t_id task, dp_parent = None, dp_root = rt, dp_target = target,
          dp_lineage = [target], dp_budget = \<lparr>b_start = 0, b_end = 60\<rparr>, dp_turn = 1, dp_text = txt\<rparr>) (\<lambda>_.
       emit_task (t_id task)))))))"

definition localRef :: "string \<Rightarrow> string act" where
  "localRef i =
     andthen (gets (\<lambda>w. List.find (\<lambda>a. pa_id a = i) (net_own (network w)))) (\<lambda>agent.
     case agent of
       None \<Rightarrow> throw ''PEER_AGENT_UNAVAILABLE''
     | Some a \<Rightarrow> gets (\<lambda>w. ref_of (net_self (network w)) a))"

definition peer_root :: "task_row \<Rightarrow> task_row act" where
  "peer_root task =
     andthen (gets (\<lambda>w. net_configured (network w))) (\<lambda>configured.
     if \<not> configured \<or> t_execution task \<noteq> None \<or> t_agentId task = ''builder'' then ret task
     else
       andthen (gets (\<lambda>w. net_self (network w))) (\<lambda>node.
       andthen (localRef (t_agentId task)) (\<lambda>ref.
       andthen (on_db (setPeer (t_id task) (Peer_execution
         \<lparr>pe_root = \<lparr>ref_node = node, ref_task = t_id task\<rparr>, pe_parent = None, pe_lineage = [ref]\<rparr>))) (\<lambda>_.
       andthen (on_db (teamPut (budget_key (t_id task)) (Tv_budget \<lparr>b_start = 0, b_end = 60\<rparr>))) (\<lambda>_.
       hub_getTask (t_id task))))))"

definition execution_of :: "task_row \<Rightarrow> peer_execution option" where
  "execution_of t = (case t_peer t of Some (Peer_execution e) \<Rightarrow> Some e | _ \<Rightarrow> None)"

definition mirror_of :: "task_row \<Rightarrow> peer_mirror option" where
  "mirror_of t = (case t_peer t of Some (Peer_mirror m) \<Rightarrow> Some m | _ \<Rightarrow> None)"

definition consume :: "task_row \<Rightarrow> unit act" where
  "consume task =
     (if execution_of task = None then ret ()
      else
        andthen (on_db (teamGet (budget_key (t_id task)) as_budget)) (\<lambda>budget.
        case budget of
          None \<Rightarrow> throw ''PEER_TURN_BUDGET_EXHAUSTED''
        | Some b \<Rightarrow>
            andthen (require (b_start b < b_end b) ''PEER_TURN_BUDGET_EXHAUSTED'') (\<lambda>_.
            on_db (teamPut (budget_key (t_id task)) (Tv_budget (b\<lparr>b_start := b_start b + 1\<rparr>))))))"

definition allocate :: "task_row \<Rightarrow> string \<Rightarrow> (peer_budget \<times> string list) act" where
  "allocate parent target =
     (case execution_of parent of
        None \<Rightarrow> throw ''Start a new task after enabling peer networking to delegate across machines.''
      | Some info \<Rightarrow>
          andthen (require (length (pe_lineage info) < 4) ''delegation is limited to 3 levels'') (\<lambda>_.
          andthen (require (target \<notin> set (pe_lineage info)) ''PEER_DELEGATION_CYCLE'') (\<lambda>_.
          andthen (on_db (teamGet (budget_key (t_id parent)) as_budget)) (\<lambda>remaining.
          case remaining of
            None \<Rightarrow> throw ''PEER_TURN_BUDGET_EXHAUSTED''
          | Some b \<Rightarrow>
              andthen (require (b_start b < b_end b) ''PEER_TURN_BUDGET_EXHAUSTED'') (\<lambda>_.
              let size = min 10 (max 1 ((b_end b - b_start b) div 2));
                  start = b_end b - size
              in andthen (on_db (teamPut (budget_key (t_id parent))
                     (Tv_budget \<lparr>b_start = b_start b, b_end = start\<rparr>))) (\<lambda>_.
                 ret (\<lparr>b_start = start, b_end = b_end b\<rparr>, pe_lineage info @ [target])))))))"

definition localChild :: "task_row \<Rightarrow> task_row \<Rightarrow> task_row act" where
  "localChild parent child =
     (if t_peer parent = None then ret child
      else
        andthen (require (t_execution child = None) ''PEER_LEGACY_EXECUTION_DENIED'') (\<lambda>_.
        andthen (localRef (t_agentId child)) (\<lambda>ref.
        andthen (allocate parent ref) (\<lambda>(budget, lineage).
        case execution_of parent of
          None \<Rightarrow> throw ''PEER_ORIGIN_DENIED''
        | Some info \<Rightarrow>
            andthen (gets (\<lambda>w. net_self (network w))) (\<lambda>node.
            andthen (on_db (setPeer (t_id child) (Peer_execution
              \<lparr>pe_root = pe_root info,
               pe_parent = Some \<lparr>ref_node = node, ref_task = t_id parent\<rparr>, pe_lineage = lineage\<rparr>))) (\<lambda>_.
            andthen (on_db (teamPut (budget_key (t_id child)) (Tv_budget budget))) (\<lambda>_.
            hub_getTask (t_id child))))))))"

definition peer_delegate :: "task_row \<Rightarrow> string \<Rightarrow> string \<Rightarrow> task_row act" where
  "peer_delegate parent target txt =
     andthen (check_target target) (\<lambda>_.
     transaction (
       andthen (allocate parent target) (\<lambda>(budget, lineage).
       case execution_of parent of
         None \<Rightarrow> throw ''PEER_ORIGIN_DENIED''
       | Some info \<Rightarrow>
           andthen (on_db (createTask target ''delegation'' txt (Some parent))) (\<lambda>task.
           andthen (on_db (setPeer (t_id task) (new_mirror target (pe_root info)))) (\<lambda>_.
           andthen (gets (\<lambda>w. net_self (network w))) (\<lambda>node.
           andthen (put_outgoing (t_id task)
             \<lparr>dp_request = t_id task, dp_parent = Some \<lparr>ref_node = node, ref_task = t_id parent\<rparr>,
              dp_root = pe_root info, dp_target = target, dp_lineage = lineage, dp_budget = budget,
              dp_turn = 1, dp_text = txt\<rparr>) (\<lambda>_.
           andthen (notice (t_id parent) (''Delegated to '' @ target @ '' as '' @ t_id task)) (\<lambda>_.
           emit_task (t_id task))))))))) "

definition peer_send :: "task_row \<Rightarrow> string \<Rightarrow> task_row act" where
  "peer_send task txt =
     andthen (on_db (teamGet (out_key (t_id task)) as_outgoing)) (\<lambda>jb.
     case jb of
       None \<Rightarrow> throw ''PEER_TASK_READ_ONLY''
     | Some x \<Rightarrow>
         andthen (require (is_mirror (t_peer task) \<and> \<not> is_observed (t_peer task)) ''PEER_TASK_READ_ONLY'') (\<lambda>_.
         andthen (require (\<not> in_flight (t_status task) \<and> out_settled x)
           ''this task already has a turn in progress'') (\<lambda>_.
         let d = (out_dispatch x)\<lparr>dp_turn := dp_turn (out_dispatch x) + 1, dp_text := txt\<rparr>
         in andthen (require (peerDispatchSchema d) ''ZodError'') (\<lambda>_.
            andthen (on_db (teamPut (out_key (t_id task))
              (Tv_outgoing (x\<lparr>out_dispatch := d, out_cancelled := False, out_settled := False\<rparr>)))) (\<lambda>_.
            andthen (on_db (setStatus (t_id task) Queued)) (\<lambda>row.
            andthen (emit (Out_task row)) (\<lambda>_.
            ret row)))))))"

definition peer_cancel :: "task_row \<Rightarrow> unit act" where
  "peer_cancel task =
     andthen (on_db (teamGet (out_key (t_id task)) as_outgoing)) (\<lambda>jb.
     case jb of
       None \<Rightarrow> ret ()
     | Some x \<Rightarrow>
         andthen (on_db (teamPut (out_key (t_id task))
           (Tv_outgoing (x\<lparr>out_cancelled := True, out_settled := False\<rparr>)))) (\<lambda>_.
         notice (t_id task) ''Cancellation requested; waiting for the execution machine.''))"

end
