(* ===== verification/CoordinatorBase.thy ===== *)
theory CoordinatorBase
  imports World
begin

text \<open>
  \<^verbatim>\<open>packages/daemon/src/team-coordinator.ts\<close>, what the hub calls: whether a task has an
  execution under way (\<open>active\<close>), asking for its cancellation, the text to resume after a
  restart, and the start of an execution up to its first request.  \<open>originChain\<close> is the hub's.

  \<open>op_target\<close> is the saved server's address, as \<open>resolveServer\<close> reads it (\<^verbatim>\<open>remote.ts\<close>).
\<close>

section \<open>Where a task came from (\<^verbatim>\<open>hub.ts\<close>)\<close>

text \<open>The task and the tasks above it, root first, ten at most.\<close>

fun ancestry :: "nat \<Rightarrow> store \<Rightarrow> task_row option \<Rightarrow> task_row list \<Rightarrow> task_row list" where
  "ancestry n s None chain = chain"
| "ancestry n s (Some t) chain =
     (case n of
        0 \<Rightarrow> chain
      | Suc m \<Rightarrow>
          ancestry m s (case t_parentId t of None \<Rightarrow> None | Some p \<Rightarrow> find_task p (s_tasks s)) (t # chain))"

definition chain_part :: "task_row \<Rightarrow> string" where
  "chain_part t = ''@'' @ t_agentId t @ '' ('' @ t_id t @ '')''"

definition originChain :: "string \<Rightarrow> string list act" where
  "originChain i =
     gets (\<lambda>w.
       case ancestry 10 (db w) (find_task i (s_tasks (db w))) [] of
         [] \<Rightarrow> []
       | t0 # ts \<Rightarrow>
           (let rootName = (if t_trigger t0 = ''user'' then ''you'' else t_trigger t0);
                imported = (case t_peer t0 of
                    Some (Peer_execution e) \<Rightarrow>
                      (if pe_parent e \<noteq> None then map (\<lambda>r. ''@'' @ r) (butlast (pe_lineage e))
                       else (case t_teamOrigin t0 of None \<Rightarrow> [rootName] | Some og \<Rightarrow> og_chain og))
                  | _ \<Rightarrow> (case t_teamOrigin t0 of None \<Rightarrow> [rootName] | Some og \<Rightarrow> og_chain og))
            in imported @ map chain_part (t0 # ts)))"

section \<open>The coordinator's side of a remote execution\<close>

definition outbound_key :: "string \<Rightarrow> string" where "outbound_key i = ''outbound/'' @ i"

definition get_outbound :: "string \<Rightarrow> outbound option act" where
  "get_outbound i = on_db (teamGet (outbound_key i) as_outbound)"

definition coord_active :: "string \<Rightarrow> bool act" where
  "coord_active i =
     andthen (get_outbound i) (\<lambda>jb. ret (case jb of None \<Rightarrow> False | Some x \<Rightarrow> ob_active x))"

definition coord_cancel :: "string \<Rightarrow> unit act" where
  "coord_cancel i =
     andthen (get_outbound i) (\<lambda>jb.
     case jb of
       None \<Rightarrow> ret ()
     | Some x \<Rightarrow> when_do (ob_active x) (on_db (teamPut (outbound_key i) (Tv_outbound (x\<lparr>ob_cancel := True\<rparr>)))))"

definition resumeText :: "string \<Rightarrow> string option act" where
  "resumeText i =
     andthen (get_outbound i) (\<lambda>jb.
     ret (case jb of None \<Rightarrow> None | Some x \<Rightarrow> if ob_active x then Some (ob_text x) else None))"

definition new_outbound ::
  "task_row \<Rightarrow> execution \<Rightarrow> string \<Rightarrow> outbound option \<Rightarrow> outbound act" where
  "new_outbound task execution txt previous =
     andthen (case previous of
                Some p \<Rightarrow> ret (ob_target p)
              | None \<Rightarrow> (\<lambda>w. lift_result (op_target (opts w) (ex_server execution)) w)) (\<lambda>target.
     andthen (on_db nodeId) (\<lambda>node.
     andthen (originChain (t_id task)) (\<lambda>chain.
     ret \<lparr>ob_task = t_id task, ob_execution = execution, ob_target = target,
          ob_node = (case previous of None \<Rightarrow> [] | Some p \<Rightarrow> ob_node p),
          ob_origin = \<lparr>og_coordinator = node, og_task = t_id task, og_agent = t_agentId task,
                       og_chain = map (take 200) chain\<rparr>,
          ob_turn = (case previous of None \<Rightarrow> 0 | Some p \<Rightarrow> ob_turn p) + 1, ob_text = txt,
          ob_afterSeq = (case previous of None \<Rightarrow> 0 | Some p \<Rightarrow> ob_afterSeq p),
          ob_cancel = False, ob_active = True\<rparr>)))"

definition turn_prefix :: "string \<Rightarrow> string \<Rightarrow> nat \<Rightarrow> string" where
  "turn_prefix kind i turn = kind @ ''/'' @ i @ ''/'' @ nat_str turn @ ''/''"

definition coord_begin :: "task_row \<Rightarrow> resolved_agent \<Rightarrow> string \<Rightarrow> outbound act" where
  "coord_begin task agent txt =
     (case (case t_execution task of Some e \<Rightarrow> Some e | None \<Rightarrow> ra_execution agent) of
        None \<Rightarrow> throw ''TEAM_EXECUTION_MISSING''
      | Some execution \<Rightarrow>
          andthen (get_outbound (t_id task)) (\<lambda>previous.
          if (case previous of Some p \<Rightarrow> ob_active p | None \<Rightarrow> False) then ret (the previous)
          else
            andthen (new_outbound task execution txt previous) (\<lambda>jb.
            andthen (gets (\<lambda>w. case previous of None \<Rightarrow> True | Some p \<Rightarrow>
              s_sha (db w) (Dg_execution (ob_execution p)) = s_sha (db w) (Dg_execution execution))) (\<lambda>same.
            andthen (require same ''TEAM_TARGET_CHANGED'') (\<lambda>_.
            andthen (transaction (
              andthen (on_db (teamPut (outbound_key (t_id task)) (Tv_outbound jb))) (\<lambda>_.
              andthen (on_db (setExecution (t_id task) execution)) (\<lambda>_.
              case previous of
                None \<Rightarrow> ret ()
              | Some p \<Rightarrow>
                  andthen (on_db (teamDeletePrefix (turn_prefix ''answer'' (t_id task) (ob_turn p)))) (\<lambda>_.
                  on_db (teamDeletePrefix (turn_prefix ''effect'' (t_id task) (ob_turn p)))))))) (\<lambda>_.
            ret jb))))))"

end
