(* ===== verification/Room.thy ===== *)
theory Room
  imports World
begin

text \<open>
  \<^verbatim>\<open>packages/daemon/src/hub.ts\<close>, who may have a cell: the cells alive and working, the line of
  tasks that wait for one, and the turns that hold a cell while they wait for a task they delegated.
\<close>

definition CELL_CEILING :: nat where "CELL_CEILING = 16"

definition DEFAULT_MAX_CELLS :: nat where "DEFAULT_MAX_CELLS = 4"

text \<open>Wakes every task that waits for a cell; a waiter not listed checks again.\<close>

definition roomChanged :: "unit act" where
  "roomChanged = on_hub (\<lambda>h. h\<lparr>h_roomWaiters := []\<rparr>)"

text \<open>Cells the guest counts: live ones, and closing ones not live again.\<close>

definition occupied :: "hub \<Rightarrow> nat" where
  "occupied h =
     length (h_cells h) + length (List.filter (\<lambda>i. \<not> mhas (h_cells h) i) (mkeys (h_closingTasks h)))"

definition busy :: "hub \<Rightarrow> nat" where
  "busy h = occupied h - length (List.filter (mhas (h_cells h)) (mkeys (h_blocked h)))"

definition maxCells :: "options \<Rightarrow> nat" where
  "maxCells os = min (or_else (op_maxCells os) DEFAULT_MAX_CELLS) CELL_CEILING"

text \<open>Tasks in line that go first: deeper delegations, then those that came earlier.\<close>

fun ahead_in :: "string \<Rightarrow> nat \<Rightarrow> bool \<Rightarrow> (string, nat) jsmap \<Rightarrow> nat" where
  "ahead_in i depth before [] = 0"
| "ahead_in i depth before ((k, d) # rest) =
     (if k = i then ahead_in i depth False rest
      else (if d > depth \<or> before \<and> d = depth then 1 else 0) + ahead_in i depth before rest)"

definition ahead :: "hub \<Rightarrow> task_row \<Rightarrow> nat" where
  "ahead h task = ahead_in (t_id task) (t_depth task) True (h_roomQueue h)"

text \<open>
  Free places, plus the idle cells that can be closed.  The difference may be negative: a turn
  that stops waiting makes its cell work again, whatever the limit.
\<close>

definition places :: "options \<Rightarrow> hub \<Rightarrow> int" where
  "places os h =
     min (int (maxCells os) - int (busy h)) (int CELL_CEILING - int (occupied h)) +
     int (length (List.filter lc_idle (mvalues (h_cells h))))"

definition outranked :: "options \<Rightarrow> hub \<Rightarrow> task_row \<Rightarrow> bool" where
  "outranked os h task \<longleftrightarrow> int (ahead h task) \<ge> places os h"

definition hasRoom :: "options \<Rightarrow> hub \<Rightarrow> task_row \<Rightarrow> bool" where
  "hasRoom os h task \<longleftrightarrow>
     busy h < maxCells os \<and> occupied h < CELL_CEILING \<and> \<not> outranked os h task"

text \<open>\<open>block(taskId)\<close> and the function it returns, called once.\<close>

definition block :: "string \<Rightarrow> unit act" where
  "block i =
     andthen (on_hub (\<lambda>h. h\<lparr>h_blocked := mset_key i (or_else (mget (h_blocked h) i) 0 + 1) (h_blocked h)\<rparr>))
       (\<lambda>_. roomChanged)"

definition unblock :: "string \<Rightarrow> unit act" where
  "unblock i =
     andthen (on_hub (\<lambda>h.
       let n = or_else (mget (h_blocked h) i) 1 - 1
       in h\<lparr>h_blocked := (if n > 0 then mset_key i n (h_blocked h) else mdelete i (h_blocked h))\<rparr>))
       (\<lambda>_. roomChanged)"

text \<open>
  \<open>closeCell\<close> up to its scan: the cell is no longer live and counts as closing.  A call for a task
  without a cell starts nothing.  \<open>cell_closed\<close> is the end of the closing \<open>k\<close>.
\<close>

definition closeCell :: "string \<Rightarrow> unit act" where
  "closeCell i = on_hub (\<lambda>h.
     if \<not> mhas (h_cells h) i then h
     else h\<lparr>h_cells := mdelete i (h_cells h),
            h_closingTasks := mset_key i (h_closeSeq h) (h_closingTasks h),
            h_closing := h_closing h @ [h_closeSeq h],
            h_closeSeq := h_closeSeq h + 1\<rparr>)"

definition cell_closed :: "string \<Rightarrow> nat \<Rightarrow> unit act" where
  "cell_closed i k =
     andthen (on_hub (\<lambda>h. h\<lparr>h_closing := List.filter (\<lambda>j. j \<noteq> k) (h_closing h),
        h_closingTasks := (if mget (h_closingTasks h) i = Some k then mdelete i (h_closingTasks h)
                           else h_closingTasks h)\<rparr>))
       (\<lambda>_. roomChanged)"

text \<open>\<open>armIdle\<close>, and a cell's \<open>exit\<close> event.\<close>

definition armIdle :: "string \<Rightarrow> unit act" where
  "armIdle i =
     andthen (gets (\<lambda>w. mget (h_cells (hub w)) i)) (\<lambda>cell.
     case cell of
       None \<Rightarrow> ret ()
     | Some c \<Rightarrow>
         andthen (on_hub (\<lambda>h. h\<lparr>h_cells := mset_key i (c\<lparr>lc_idle := True\<rparr>) (h_cells h)\<rparr>)) (\<lambda>_. roomChanged))"

text \<open>A cell ended; \<open>own\<close> is whether it is the one in the table, which a later cell of the task may be.\<close>

definition cell_exit :: "bool \<Rightarrow> string \<Rightarrow> string \<Rightarrow> unit act" where
  "cell_exit own i reason =
     andthen (when_do own (on_hub (\<lambda>h. h\<lparr>h_cells := mdelete i (h_cells h)\<rparr>))) (\<lambda>_.
     andthen roomChanged (\<lambda>_.
     emit (Out_log (''cell '' @ i @ '' ended: '' @ reason))))"

text \<open>A new live cell: \<open>this.cells.set(task.id, cell)\<close>.\<close>

definition add_cell :: "string \<Rightarrow> live_cell \<Rightarrow> unit act" where
  "add_cell i c = on_hub (\<lambda>h. h\<lparr>h_cells := mset_key i c (h_cells h)\<rparr>)"

text \<open>The idle cell that was used longest ago.\<close>

definition longest_idle :: "hub \<Rightarrow> string option" where
  "longest_idle h =
     (case sort_key (\<lambda>kv. lc_lastUsed (snd kv)) (List.filter (\<lambda>kv. lc_idle (snd kv)) (h_cells h)) of
        [] \<Rightarrow> None
      | (i, _) # _ \<Rightarrow> Some i)"

end
