(* ===== verification/Hub.thy ===== *)
theory Hub
  imports PeerBase CoordinatorBase Room
begin

text \<open>
  \<^verbatim>\<open>packages/daemon/src/hub.ts\<close>: the synchronous operations of the hub and the start of a turn.
\<close>

definition maxDepth :: nat where "maxDepth = 3"
definition maxChildren :: nat where "maxChildren = 10"
definition maxTreeTurns :: nat where "maxTreeTurns = 60"

section \<open>Starting a turn\<close>

definition set_stage :: "string \<Rightarrow> string \<Rightarrow> stage \<Rightarrow> unit act" where
  "set_stage a i stg =
     update_state a (\<lambda>st. st\<lparr>as_running :=
       (case mget (as_running st) i of
          None \<Rightarrow> as_running st
        | Some r \<Rightarrow> mset_key i (r\<lparr>rn_stage := stg\<rparr>) (as_running st))\<rparr>)"

definition record_input :: "task_row \<Rightarrow> string \<Rightarrow> unit act" where
  "record_input task txt =
     record_event task (Ev_input (take 64000 txt) (Some (if t_trigger task = ''user'' then From_user else From_task)))"

definition tree_spent :: "task_row \<Rightarrow> bool act" where
  "tree_spent task =
     (if t_depth task = 0 then ret False
      else andthen (on_db (treeTurns (t_rootId task))) (\<lambda>n. ret (n \<ge> maxTreeTurns)))"

definition fail_turn :: "task_row \<Rightarrow> string \<Rightarrow> unit act" where
  "fail_turn task msg =
     andthen (record_event task (Ev_error (take 2000 msg) True)) (\<lambda>_. finish (t_id task) Failed (Some msg))"

text \<open>A task with an execution node, up to the coordinator's first request.\<close>

definition execute_remote :: "string \<Rightarrow> task_row \<Rightarrow> resolved_agent \<Rightarrow> string \<Rightarrow> unit act" where
  "execute_remote a task agent txt =
     andthen (gets (\<lambda>w. op_team (opts w))) (\<lambda>team.
     if \<not> team
     then andthen (finish (t_id task) Failed (Some ''remote execution is not configured''))
            (\<lambda>_. set_stage a (t_id task) Ended)
     else catch_error
       (andthen (coord_active (t_id task)) (\<lambda>active.
        andthen (when_do (\<not> active)
          (andthen (tree_spent task) (\<lambda>spent.
           andthen (require (\<not> spent) ''delegation tree turn limit reached'') (\<lambda>_.
           andthen (on_db (countTurn (t_id task))) (\<lambda>_.
           record_input task txt))))) (\<lambda>_.
        andthen (on_db (setStatus (t_id task) Running)) (\<lambda>row.
        andthen (emit (Out_task row)) (\<lambda>_.
        andthen (coord_begin row agent txt) (\<lambda>jb.
        set_stage a (t_id task) (Remote jb)))))))
       (\<lambda>e. andthen (fail_turn task (message e)) (\<lambda>_. set_stage a (t_id task) Ended)))"

definition end_failed :: "string \<Rightarrow> task_row \<Rightarrow> string \<Rightarrow> unit act" where
  "end_failed a task msg =
     andthen (finish (t_id task) Failed (Some msg)) (\<lambda>_. set_stage a (t_id task) Ended)"

definition set_queued :: "string \<Rightarrow> string \<Rightarrow> bool \<Rightarrow> unit act" where
  "set_queued a i b =
     update_state a (\<lambda>st. st\<lparr>as_running :=
       (case mget (as_running st) i of
          None \<Rightarrow> as_running st
        | Some r \<Rightarrow> mset_key i (r\<lparr>rn_queued := b\<rparr>) (as_running st))\<rparr>)"

text \<open>
  A task that runs here, up to its image checks.  A task without a live cell joins the line.
\<close>

definition start_local :: "string \<Rightarrow> task_row \<Rightarrow> string \<Rightarrow> unit act" where
  "start_local a task txt =
     andthen (on_db (countTurn (t_id task))) (\<lambda>_.
     andthen (on_db (setStatus (t_id task) Running)) (\<lambda>row.
     andthen (emit (Out_task row)) (\<lambda>_.
     andthen (record_input row txt) (\<lambda>_.
     andthen (gets (\<lambda>w. \<not> mhas (h_cells (hub w)) (t_id task))) (\<lambda>queued.
     andthen (when_do queued (on_hub (\<lambda>h.
       h\<lparr>h_roomQueue := mset_key (t_id task) (t_depth task) (h_roomQueue h)\<rparr>))) (\<lambda>_.
     andthen (set_queued a (t_id task) queued) (\<lambda>_.
     set_stage a (t_id task) Preparing)))))))"

definition execute_local :: "string \<Rightarrow> task_row \<Rightarrow> resolved_agent \<Rightarrow> string \<Rightarrow> unit act" where
  "execute_local a task agent txt =
     (if ra_execution agent \<noteq> None
      then end_failed a task ''The member moved to a remote node; start a new task there.''
      else case runtimeMismatch task agent of
          Some m \<Rightarrow>
            andthen (record_event task (Ev_error m True)) (\<lambda>_. end_failed a task m)
        | None \<Rightarrow>
            andthen (when_do (t_runtime task \<noteq> Some (ra_runtime agent))
              (on_db (setRuntime (t_id task) (ra_runtime agent)))) (\<lambda>_.
            andthen (tree_spent task) (\<lambda>spent.
            if spent then end_failed a task ''this task tree used its 60 turns''
            else
              andthen (gets (\<lambda>w. op_peers (opts w))) (\<lambda>peers.
              andthen (catch_error
                (andthen (when_do peers (consume task)) (\<lambda>_. ret None))
                (\<lambda>e. ret (Some (message e)))) (\<lambda>refused.
              case refused of
                Some m \<Rightarrow> end_failed a task m
              | None \<Rightarrow> start_local a task txt)))))"

definition execute_begin :: "string \<Rightarrow> job \<Rightarrow> unit act" where
  "execute_begin a jb =
     andthen (hub_getTask (j_task jb)) (\<lambda>task.
     andthen (agentFor task) (\<lambda>agent.
     andthen (update_state a (\<lambda>st. st\<lparr>as_agent := Some agent\<rparr>)) (\<lambda>_.
     if t_execution task \<noteq> None then execute_remote a task agent (j_text jb)
     else execute_local a task agent (j_text jb))))"

text \<open>\<open>run\<close>: what \<open>execute\<close> throws is only logged.\<close>

definition run_start :: "string \<Rightarrow> job \<Rightarrow> unit act" where
  "run_start a jb =
     andthen (update_state a (\<lambda>st. st\<lparr>as_running := mset_key (j_task jb)
        \<lparr>rn_job = jb, rn_aborted = False, rn_queued = False, rn_stage = Preparing\<rparr> (as_running st)\<rparr>)) (\<lambda>_.
     andthen emitAgents (\<lambda>_.
     catch_error (execute_begin a jb)
       (\<lambda>e. andthen (emit (Out_log (''task '' @ j_task jb @ '': '' @ message e))) (\<lambda>_.
             set_stage a (j_task jb) Ended))))"

section \<open>The queue\<close>

definition maxTasks :: "agent_state \<Rightarrow> nat" where
  "maxTasks st = (case as_agent st of None \<Rightarrow> DEFAULT_MAX_TASKS | Some ag \<Rightarrow> ra_maxTasks ag)"

definition free_slot :: "agent_state \<Rightarrow> bool" where
  "free_slot st \<longleftrightarrow> length (as_running st) < maxTasks st"

text \<open>One round of \<open>pump\<close>'s loop takes one job; \<open>n\<close> rounds empty a queue of \<open>n\<close> jobs.\<close>

fun pump_rounds :: "nat \<Rightarrow> string \<Rightarrow> unit act" where
  "pump_rounds 0 a = ret ()"
| "pump_rounds (Suc n) a =
     andthen (gets (agent_state_of a)) (\<lambda>st.
     case st of
       None \<Rightarrow> ret ()
     | Some x \<Rightarrow>
         (case (free_slot x, as_queue x) of
            (True, jb # rest) \<Rightarrow>
              andthen (update_state a (\<lambda>y. y\<lparr>as_queue := rest\<rparr>)) (\<lambda>_.
              andthen (on_db (getTask (j_task jb))) (\<lambda>task.
              andthen (when_do (map_option t_status task = Some Queued) (run_start a jb)) (\<lambda>_.
              pump_rounds n a)))
          | _ \<Rightarrow> ret ()))"

definition pump :: "string \<Rightarrow> unit act" where
  "pump a =
     andthen (gets (\<lambda>w. h_stopping (hub w))) (\<lambda>stopping.
     if stopping then ret ()
     else andthen (gets (\<lambda>w. case agent_state_of a w of None \<Rightarrow> 0 | Some st \<Rightarrow> length (as_queue st)))
            (\<lambda>n. pump_rounds n a))"

text \<open>The microtask that was queued first runs; \<open>execute\<close> of a turn has returned.\<close>

definition run_microtask :: "unit act" where
  "run_microtask =
     andthen (gets (\<lambda>w. h_microtasks (hub w))) (\<lambda>q.
     case q of
       [] \<Rightarrow> ret ()
     | a # rest \<Rightarrow> andthen (on_hub (\<lambda>h. h\<lparr>h_microtasks := rest\<rparr>)) (\<lambda>_. pump a))"

definition run_done :: "string \<Rightarrow> string \<Rightarrow> unit act" where
  "run_done a i =
     andthen (update_state a (\<lambda>st. st\<lparr>as_running := mdelete i (as_running st)\<rparr>)) (\<lambda>_.
     andthen emitAgents (\<lambda>_.
     pump a))"

section \<open>Agents\<close>

definition reload_agent :: "string \<Rightarrow> unit act" where
  "reload_agent i =
     andthen (gets (\<lambda>w. or_else (agent_state_of i w)
       \<lparr>as_id = i, as_agent = None, as_error = None, as_queue = [], as_running = []\<rparr>)) (\<lambda>st.
     andthen (catch_error
       (andthen (resolve i) (\<lambda>ag. ret (st\<lparr>as_agent := Some ag, as_error := None\<rparr>)))
       (\<lambda>e. ret (st\<lparr>as_agent := None, as_error := Some (message e)\<rparr>))) (\<lambda>st'.
     andthen (set_state i st') (\<lambda>_.
     pump i)))"

definition reload :: "unit act" where
  "reload =
     andthen (gets (\<lambda>w. dedup (map fst (op_builtins (opts w)) @ listAgentIds (layout w)))) (\<lambda>ids.
     andthen (on_hub (\<lambda>h. h\<lparr>h_states := List.filter
        (\<lambda>kv. fst kv \<in> set ids \<or> as_running (snd kv) \<noteq> [] \<or> as_queue (snd kv) \<noteq> []) (h_states h)\<rparr>)) (\<lambda>_.
     andthen (each reload_agent ids) (\<lambda>_.
     emitAgents)))"

definition beginDeleting :: "string \<Rightarrow> unit act" where
  "beginDeleting i = on_hub (\<lambda>h. h\<lparr>h_deleting := List.insert i (h_deleting h)\<rparr>)"

definition endDeleting :: "string \<Rightarrow> unit act" where
  "endDeleting i = on_hub (\<lambda>h. h\<lparr>h_deleting := removeAll i (h_deleting h)\<rparr>)"

text \<open>\<open>state(agentId)\<close>, and with a configuration that loaded.\<close>

definition get_state :: "string \<Rightarrow> agent_state act" where
  "get_state i =
     andthen (gets (\<lambda>w. i \<in> set (h_deleting (hub w)))) (\<lambda>deleting.
     andthen (require (\<not> deleting) (''@'' @ i @ '' is being deleted'')) (\<lambda>_.
     andthen (gets (agent_state_of i)) (\<lambda>found.
     andthen (when_do (found = None) reload) (\<lambda>_.
     andthen (gets (agent_state_of i)) (\<lambda>s.
     case s of None \<Rightarrow> throw (''unknown agent \"'' @ i @ ''\"'') | Some st \<Rightarrow> ret st)))))"

definition configured :: "string \<Rightarrow> agent_state \<Rightarrow> resolved_agent act" where
  "configured i st =
     (case as_agent st of
        None \<Rightarrow> throw (''agent \"'' @ i @ ''\" has a config error: '' @ or_else (as_error st) [])
      | Some ag \<Rightarrow> ret ag)"

definition summaries :: "world \<Rightarrow> agent_summary list" where
  "summaries w =
     map (\<lambda>(i, st).
       \<lparr>sm_id = i,
        sm_name = (case as_agent st of None \<Rightarrow> i | Some ag \<Rightarrow> ra_name ag),
        sm_description = Option.bind (as_agent st) ra_description,
        sm_connectors = (case as_agent st of None \<Rightarrow> [] | Some ag \<Rightarrow> ra_connectors ag),
        sm_status = (if as_running st \<noteq> [] then ''working'' else if as_error st \<noteq> None then ''error'' else ''idle''),
        sm_running = length (as_running st), sm_queued = length (as_queue st),
        sm_maxTasks = maxTasks st, sm_error = as_error st\<rparr>)
       (sort_key fst (h_states (hub w)))"

section \<open>Tasks\<close>

definition with_execution :: "task_row \<Rightarrow> resolved_agent \<Rightarrow> task_row act" where
  "with_execution task ag =
     (case ra_execution ag of
        None \<Rightarrow> ret task
      | Some e \<Rightarrow> andthen (on_db (setExecution (t_id task) e)) (\<lambda>_. hub_getTask (t_id task)))"

definition hub_createTask :: "string \<Rightarrow> string \<Rightarrow> string \<Rightarrow> task_row act" where
  "hub_createTask agentId txt trigger =
     (if CHR ''/'' \<in> set agentId
      then andthen (gets (\<lambda>w. op_peers (opts w))) (\<lambda>peers.
           andthen (require peers ''TypeError'') (\<lambda>_. peer_create agentId txt))
      else
        andthen (get_state agentId) (\<lambda>st.
        andthen (configured agentId st) (\<lambda>ag.
        andthen (require (js_trim txt \<noteq> []) ''empty task'') (\<lambda>_.
        andthen (on_db (createTask agentId trigger txt None)) (\<lambda>task0.
        andthen (with_execution task0 ag) (\<lambda>task1.
        andthen (gets (\<lambda>w. op_peers (opts w))) (\<lambda>peers.
        andthen (if peers then peer_root task1 else ret task1) (\<lambda>task.
        andthen (emit (Out_task task)) (\<lambda>_.
        andthen (enqueue agentId \<lparr>j_task = t_id task, j_text = txt\<rparr>) (\<lambda>_.
        ret task))))))))))"

definition in_progress :: "agent_state \<Rightarrow> string \<Rightarrow> bool" where
  "in_progress st i \<longleftrightarrow> mhas (as_running st) i \<or> (\<exists>jb \<in> set (as_queue st). j_task jb = i)"

definition send_now :: "string \<Rightarrow> string \<Rightarrow> task_row act" where
  "send_now i txt =
     andthen (require (js_trim txt \<noteq> []) ''empty task'') (\<lambda>_.
     andthen (hub_getTask i) (\<lambda>task.
     if is_mirror (t_peer task)
     then andthen (gets (\<lambda>w. op_peers (opts w))) (\<lambda>peers.
          andthen (require peers ''TypeError'') (\<lambda>_. peer_send task txt))
     else
       andthen (get_state (t_agentId task)) (\<lambda>st.
       andthen (configured (t_agentId task) st) (\<lambda>ag.
       andthen (require (t_execution task \<noteq> None \<or> ra_execution ag = None)
         ''This task ran locally; start a new task to use the new execution node.'') (\<lambda>_.
       andthen (if t_execution task \<noteq> None then ret None
                else andthen (agentFor task) (\<lambda>own. ret (runtimeMismatch task own))) (\<lambda>mismatch.
       andthen (require (mismatch = None) (or_else mismatch [])) (\<lambda>_.
       andthen (gets (\<lambda>w. case agent_state_of (t_agentId task) w of
                  None \<Rightarrow> False | Some now \<Rightarrow> in_progress now i)) (\<lambda>taken.
       andthen (require (\<not> taken) ''this task already has a turn in progress'') (\<lambda>_.
       andthen (on_db (setStatus i Queued)) (\<lambda>row.
       andthen (emit (Out_task row)) (\<lambda>_.
       andthen (enqueue (t_agentId task) \<lparr>j_task = i, j_text = txt\<rparr>) (\<lambda>_.
       ret row))))))))))))"

definition sendTask :: "string \<Rightarrow> string \<Rightarrow> string option \<Rightarrow> task_row act" where
  "sendTask i txt key =
     andthen (require (js_trim txt \<noteq> []) ''empty task'') (\<lambda>_.
     teamEffect key (Dg_send i txt) (send_now i txt))"

text \<open>The agents of the task and of the tasks above it; \<open>n\<close> bounds the steps.\<close>

fun agents_above :: "nat \<Rightarrow> store \<Rightarrow> task_row option \<Rightarrow> string list" where
  "agents_above n s None = []"
| "agents_above n s (Some t) =
     t_agentId t #
     (case n of
        0 \<Rightarrow> []
      | Suc m \<Rightarrow> agents_above m s (case t_parentId t of None \<Rightarrow> None | Some p \<Rightarrow> find_task p (s_tasks s)))"

definition delegate_local :: "task_row \<Rightarrow> string \<Rightarrow> string \<Rightarrow> task_row act" where
  "delegate_local parent target txt =
     andthen (get_state target) (\<lambda>st.
     andthen (configured target st) (\<lambda>ag.
     andthen (require (js_trim txt \<noteq> []) ''empty task'') (\<lambda>_.
     transaction (
       andthen (on_db (createTask target ''delegation'' txt (Some parent))) (\<lambda>task0.
       andthen (with_execution task0 ag) (\<lambda>task1.
       andthen (gets (\<lambda>w. op_peers (opts w))) (\<lambda>peers.
       andthen (if peers then localChild parent task1 else ret task1) (\<lambda>task.
       andthen (emit (Out_task task)) (\<lambda>_.
       andthen (record_event parent
         (Ev_notice (child_mark @ ''delegated to @'' @ target @ '' as '' @ t_id task))) (\<lambda>_.
       andthen (enqueue target \<lparr>j_task = t_id task, j_text = txt\<rparr>) (\<lambda>_.
       ret task)))))))))))"

definition delegate_now :: "task_row \<Rightarrow> string \<Rightarrow> string \<Rightarrow> task_row act" where
  "delegate_now parent target txt =
     andthen (require (t_depth parent + 1 \<le> maxDepth) ''delegation is limited to 3 levels'') (\<lambda>_.
     andthen (on_db (children (t_id parent))) (\<lambda>cs.
     andthen (require (length cs < maxChildren) ''a task may start at most 10 delegated tasks'') (\<lambda>_.
     andthen (on_db (treeTurns (t_rootId parent))) (\<lambda>n.
     andthen (require (n < maxTreeTurns) ''this task tree used its 60 turns'') (\<lambda>_.
     andthen (gets (\<lambda>w. agents_above (length (s_tasks (db w))) (db w) (Some parent))) (\<lambda>above.
     andthen (require (target \<notin> set above)
       (''@'' @ target @ '' is already working on a task above this one'')) (\<lambda>_.
     if CHR ''/'' \<in> set target
     then andthen (gets (\<lambda>w. op_peers (opts w))) (\<lambda>peers.
          andthen (require peers ''TypeError'') (\<lambda>_. peer_delegate parent target txt))
     else delegate_local parent target txt)))))))"

definition delegate ::
  "task_row \<Rightarrow> resolved_agent \<Rightarrow> string \<Rightarrow> string \<Rightarrow> string option \<Rightarrow> task_row act" where
  "delegate parent parentAgent target txt key =
     andthen (require (target \<in> set (ra_delegates parentAgent))
       (''@'' @ ra_id parentAgent @ '' may not delegate to @'' @ target @ ''; see list_agents'')) (\<lambda>_.
     teamEffect key (Dg_delegate (t_id parent) target txt) (delegate_now parent target txt))"

end
