(* ===== verification/HubTasks.thy ===== *)
theory HubTasks
  imports Hub
begin

text \<open>
  \<^verbatim>\<open>packages/daemon/src/hub.ts\<close>: cancelling, deleting, retrying and recovering tasks.

  A walk down the tree of delegated tasks takes fuel, the number of levels it may descend; out of
  fuel is the stack overflow that a cycle of parents would be.  An operation that waits in the
  middle is one definition per piece.
\<close>

section \<open>Cancelling\<close>

definition abort_turn :: "string \<Rightarrow> string \<Rightarrow> unit act" where
  "abort_turn a i =
     andthen (gets (\<lambda>w. Option.bind (agent_state_of a w) (\<lambda>st. mget (as_running st) i))) (\<lambda>turn.
     case turn of
       None \<Rightarrow> ret ()
     | Some r \<Rightarrow>
         andthen (update_state a (\<lambda>st. st\<lparr>as_running := mset_key i (r\<lparr>rn_aborted := True\<rparr>) (as_running st)\<rparr>)) (\<lambda>_.
         case rn_stage r of
           Waiting_room _ _ \<Rightarrow> roomChanged
         | Closing_cell _ _ _ \<Rightarrow> roomChanged
         | _ \<Rightarrow> ret ()))"

definition drop_queued :: "string \<Rightarrow> string \<Rightarrow> unit act" where
  "drop_queued a i =
     update_state a (\<lambda>st. st\<lparr>as_queue := List.filter (\<lambda>jb. j_task jb \<noteq> i) (as_queue st)\<rparr>)"

definition is_running :: "string \<Rightarrow> string \<Rightarrow> world \<Rightarrow> bool" where
  "is_running a i w = (case agent_state_of a w of None \<Rightarrow> False | Some st \<Rightarrow> mhas (as_running st) i)"

definition cancel_own :: "task_row \<Rightarrow> unit act" where
  "cancel_own task =
     andthen (gets (\<lambda>w. op_team (opts w))) (\<lambda>team.
     andthen (when_do (t_execution task \<noteq> None \<and> team) (coord_cancel (t_id task))) (\<lambda>_.
     andthen (drop_queued (t_agentId task) (t_id task)) (\<lambda>_.
     andthen (abort_turn (t_agentId task) (t_id task)) (\<lambda>_.
     andthen (closeCell (t_id task)) (\<lambda>_.
     andthen (gets (is_running (t_agentId task) (t_id task))) (\<lambda>running.
     when_do (\<not> running) (finish (t_id task) Cancelled (Some ''cancelled''))))))))"

definition cancel_mirror :: "task_row \<Rightarrow> unit act" where
  "cancel_mirror task =
     andthen (require (\<not> is_observed (t_peer task)) ''PEER_TASK_READ_ONLY'') (\<lambda>_.
     andthen (gets (\<lambda>w. op_peers (opts w))) (\<lambda>peers.
     andthen (require peers ''TypeError'') (\<lambda>_.
     peer_cancel task)))"

fun cancelTask :: "nat \<Rightarrow> string \<Rightarrow> unit act" where
  "cancelTask 0 i = throw ''RangeError''"
| "cancelTask (Suc n) i =
     andthen (hub_getTask i) (\<lambda>task.
     if is_mirror (t_peer task) then cancel_mirror task
     else
       andthen (on_db (children i)) (\<lambda>cs.
       andthen (each (\<lambda>c. when_do (\<not> is_observed (t_peer c) \<and> in_flight (t_status c))
                            (cancelTask n (t_id c))) cs) (\<lambda>_.
       when_do (in_flight (t_status task)) (cancel_own task))))"

text \<open>The levels a tree of the stored tasks can have.\<close>

definition levels :: "world \<Rightarrow> nat" where
  "levels w = Suc (length (s_tasks (db w)))"

definition hub_cancelTask :: "string \<Rightarrow> unit act" where
  "hub_cancelTask i = (\<lambda>w. cancelTask (levels w) i w)"

section \<open>Deleting\<close>

definition child_rows :: "store \<Rightarrow> string \<Rightarrow> task_row list" where
  "child_rows s i = sort_key t_createdAt (List.filter (\<lambda>t. t_parentId t = Some i) (s_tasks s))"

fun collect :: "('a \<Rightarrow> 'b list result) \<Rightarrow> 'a list \<Rightarrow> 'b list result" where
  "collect f [] = Inr []"
| "collect f (x # xs) = rbind (f x) (\<lambda>a. rbind (collect f xs) (\<lambda>b. Inr (a @ b)))"

fun delete_walk :: "nat \<Rightarrow> store \<Rightarrow> task_row \<Rightarrow> string list result" where
  "delete_walk 0 s t = Inl (Error ''RangeError'')"
| "delete_walk (Suc n) s t =
     (if in_flight (t_status t)
      then Inl (Error (t_id t @ '' is still '' @ status_str (t_status t) @ ''; cancel it first''))
      else rbind (collect (delete_walk n s) (child_rows s (t_id t))) (\<lambda>ids. Inr (t_id t # ids)))"

text \<open>\<open>deleteTask\<close>: the ids, their cells closing; then, once the cells are closed, the rows.\<close>

definition deleteTask_begin :: "string \<Rightarrow> string list act" where
  "deleteTask_begin i =
     andthen (hub_getTask i) (\<lambda>task.
     andthen (\<lambda>w. lift_result (delete_walk (levels w) (db w) task) w) (\<lambda>ids.
     andthen (each closeCell ids) (\<lambda>_.
     ret ids)))"

definition deleteTask_end :: "string list \<Rightarrow> nat act" where
  "deleteTask_end ids = on_db (deleteTasks ids)"

definition purge :: "nat \<Rightarrow> nat act" where
  "purge days =
     andthen (gets (\<lambda>w. s_now (db w))) (\<lambda>now.
     andthen (on_db (finishedBefore (now - int days * 86400000))) (\<lambda>ids.
     on_db (deleteTasks ids)))"

fun tree_walk :: "nat \<Rightarrow> store \<Rightarrow> task_row list \<Rightarrow> task_row \<Rightarrow> task_row list" where
  "tree_walk 0 s out t = out"
| "tree_walk (Suc n) s out t =
     (if t_id t \<in> t_id ` set out then out
      else foldl (tree_walk n s) (out @ [t]) (child_rows s (t_id t)))"

definition agentTaskTree :: "string \<Rightarrow> task_row list act" where
  "agentTaskTree agentId =
     andthen (on_db (taskIdsOfAgent agentId)) (\<lambda>ids.
     gets (\<lambda>w. foldl (tree_walk (levels w) (db w)) []
       (List.map_filter (\<lambda>i. find_task i (s_tasks (db w))) ids)))"

definition deleteAgentTasks_begin :: "string \<Rightarrow> task_row list act" where
  "deleteAgentTasks_begin agentId =
     andthen (agentTaskTree agentId) (\<lambda>tasks.
     andthen (each (\<lambda>t. when_do (in_flight (t_status t) \<and> \<not> is_observed (t_peer t)) (hub_cancelTask (t_id t)))
       tasks) (\<lambda>_.
     ret tasks))"

definition still_pending :: "task_row \<Rightarrow> bool act" where
  "still_pending t =
     (if is_mirror (t_peer t)
      then andthen (hub_getTask (t_id t)) (\<lambda>now. ret (in_flight (t_status now)))
      else ret False)"

fun any_act :: "('a \<Rightarrow> bool act) \<Rightarrow> 'a list \<Rightarrow> bool act" where
  "any_act f [] = ret False"
| "any_act f (x # xs) = andthen (f x) (\<lambda>b. if b then ret True else any_act f xs)"

definition deleteAgentTasks_settled :: "task_row list \<Rightarrow> unit act" where
  "deleteAgentTasks_settled tasks =
     andthen (any_act still_pending (List.filter active_task tasks)) (\<lambda>pending.
     andthen (require (\<not> pending) ''Peer cancellation is still pending.'') (\<lambda>_.
     each (\<lambda>t. closeCell (t_id t)) tasks))"

definition deleteAgentTasks_end :: "string \<Rightarrow> task_row list \<Rightarrow> nat act" where
  "deleteAgentTasks_end agentId tasks =
     (let ids = map t_id tasks
      in andthen (each (\<lambda>t. case t_parentId t of
             None \<Rightarrow> ret ()
           | Some p \<Rightarrow> when_do (p \<notin> set ids)
               (notice p (''delegated task '' @ t_id t @ '' (@'' @ t_agentId t @
                          '') was deleted with @'' @ agentId))) tasks) (\<lambda>_.
         on_db (deleteTasks ids)))"

section \<open>Running again\<close>

definition is_input :: "stored_event \<Rightarrow> string option" where
  "is_input e = (case se_event e of Ev_input t _ \<Rightarrow> Some t | _ \<Rightarrow> None)"

definition is_error :: "stored_event \<Rightarrow> string option" where
  "is_error e = (case se_event e of Ev_error m _ \<Rightarrow> Some m | _ \<Rightarrow> None)"

fun first_some :: "('a \<Rightarrow> 'b option) \<Rightarrow> 'a list \<Rightarrow> 'b option" where
  "first_some f [] = None"
| "first_some f (x # xs) = (case f x of Some b \<Rightarrow> Some b | None \<Rightarrow> first_some f xs)"

definition retry_mark :: string where
  "retry_mark = [CHR 0xE2, CHR 0x86, CHR 0xBB] @ '' ''"

definition retry_fresh :: "task_row \<Rightarrow> stored_event list \<Rightarrow> task_row act" where
  "retry_fresh task es =
     (let first = or_else (first_some is_input es) [];
          txt = (if first = [] then t_title task else first)
      in andthen (hub_createTask (t_agentId task) txt ''user'') (\<lambda>again.
         andthen (notice (t_id task) (retry_mark @ ''started again as '' @ t_id again)) (\<lambda>_.
         andthen (case t_parentId task of
                    None \<Rightarrow> ret []
                  | Some p \<Rightarrow>
                      andthen (on_db (getTask p)) (\<lambda>pr.
                      ret ('' (which @'' @ (case pr of None \<Rightarrow> ''?'' | Some x \<Rightarrow> t_agentId x) @
                           '' had delegated as '' @ p @ '')''))) (\<lambda>by_whom.
         andthen (notice (t_id again) (retry_mark @ ''a fresh start of '' @ t_id task @ by_whom)) (\<lambda>_.
         ret again)))))"

definition retry_text :: "task_row \<Rightarrow> stored_event list \<Rightarrow> string" where
  "retry_text task es =
     (let why = (if t_status task = Cancelled then ''it was cancelled''
                 else take 300 (or_else (first_some is_error (rev es)) ''it failed''))
      in ''Your previous turn ended before it finished ('' @ why @ ''). Continue where you stopped: check the '' @
         ''state of your work first, since some of it may already be done.'')"

definition retryTask :: "string \<Rightarrow> bool \<Rightarrow> task_row act" where
  "retryTask i fresh =
     andthen (hub_getTask i) (\<lambda>task.
     andthen (require (\<not> is_observed (t_peer task)) ''PEER_TASK_READ_ONLY'') (\<lambda>_.
     andthen (require (t_status task = Failed \<or> t_status task = Cancelled)
       (t_id task @ '' is '' @ status_str (t_status task) @ ''; only failed or cancelled tasks are run again'')) (\<lambda>_.
     andthen (on_db (events i 0 (-1))) (\<lambda>es.
     if fresh then retry_fresh task es else sendTask i (retry_text task es) None))))"

section \<open>After a restart\<close>

definition RESTART_TEXT :: string where
  "RESTART_TEXT = ''The daemon stopped while this task was running; send a follow-up to continue.''"

definition recover_task :: "task_row \<Rightarrow> unit act" where
  "recover_task task =
     (if is_mirror (t_peer task) then ret ()
      else
        andthen (gets (\<lambda>w. op_team (opts w))) (\<lambda>team.
        andthen (if team then resumeText (t_id task) else ret None) (\<lambda>txt.
        case txt of
          Some x \<Rightarrow>
            andthen (on_db (setStatus (t_id task) Queued)) (\<lambda>_.
            andthen (get_state (t_agentId task)) (\<lambda>_.
            enqueue (t_agentId task) \<lparr>j_task = t_id task, j_text = x\<rparr>))
        | None \<Rightarrow>
            andthen (record_event task (Ev_error RESTART_TEXT True)) (\<lambda>_.
            finish (t_id task) Failed (Some ''interrupted by a daemon restart'')))))"

definition recoverInterrupted :: "unit act" where
  "recoverInterrupted = andthen (on_db interrupted) (\<lambda>ts. each recover_task ts)"

definition suspend :: "unit act" where
  "suspend = on_hub (\<lambda>h. h\<lparr>h_stopping := True\<rparr>)"

definition shutdown_begin :: "unit act" where
  "shutdown_begin =
     andthen suspend (\<lambda>_.
     andthen (gets (\<lambda>w. mkeys (h_cells (hub w)))) (\<lambda>ids.
     each closeCell ids))"

end
