(* ===== verification/StoreFacts.thy ===== *)
theory StoreFacts
  imports Store
begin

text \<open>
  What \<open>Store\<close> promises: the window of events kept per task and the paging over it, usage totals that
  telescope, audit rows bounded per task, and the deletion of everything a task left.
\<close>

section \<open>Lists\<close>

lemma sort_key_sorted: "sorted (map f xs) \<Longrightarrow> sort_key f xs = xs"
proof (induction xs)
  case (Cons x xs)
  then show ?case by (cases xs) auto
qed simp

lemma map_filter_key: "map f (List.filter (\<lambda>x. P (f x)) xs) = List.filter P (map f xs)"
  by (induction xs) auto

section \<open>The window of events\<close>

definition numbered :: "nat \<Rightarrow> stored_event list \<Rightarrow> bool" where
  "numbered lo es \<longleftrightarrow> (\<forall>j < length es. se_seq (es ! j) = Suc (lo + j))"

definition contiguous :: "stored_event list \<Rightarrow> bool" where
  "contiguous es \<longleftrightarrow> (\<exists>lo. numbered lo es)"

definition events_ok :: "store \<Rightarrow> bool" where
  "events_ok s \<longleftrightarrow>
     (\<forall>i. contiguous (task_events i s) \<and> length (task_events i s) \<le> MAX_EVENTS_PER_TASK)"

lemma contiguous_Nil [simp]: "contiguous []"
  by (simp add: contiguous_def numbered_def)

lemma max_seq_snoc: "max_seq (es @ [e]) = max (max_seq es) (se_seq e)"
  by (simp add: max_seq_def)

lemma numbered_snoc: "numbered lo (es @ [e]) \<longleftrightarrow> numbered lo es \<and> se_seq e = Suc (lo + length es)"
  by (auto simp: numbered_def nth_append less_Suc_eq)

lemma max_seq_numbered: "numbered lo es \<Longrightarrow> es \<noteq> [] \<Longrightarrow> max_seq es = lo + length es"
proof (induction es rule: rev_induct)
  case (snoc e es)
  show ?case
  proof (cases "es = []")
    case True
    then show ?thesis using snoc.prems(1) by (simp add: max_seq_def numbered_def)
  next
    case False
    then show ?thesis using snoc by (simp add: numbered_snoc max_seq_snoc)
  qed
qed simp

lemma numbered_sorted: "numbered lo es \<Longrightarrow> sorted (map se_seq es)"
  by (auto simp: numbered_def sorted_iff_nth_mono)

lemma contiguous_sorted: "contiguous es \<Longrightarrow> sorted (map se_seq es)"
  by (auto simp: contiguous_def intro: numbered_sorted)

text \<open>The next number follows the last; a task without events starts at 1.\<close>

lemma contiguous_snoc:
  assumes "contiguous es" and "se_seq e = max_seq es + 1"
  shows "contiguous (es @ [e])"
proof (cases "es = []")
  case True
  then have "numbered 0 (es @ [e])" using assms(2) by (simp add: max_seq_def numbered_def)
  then show ?thesis unfolding contiguous_def by blast
next
  case False
  from assms(1) obtain lo where lo: "numbered lo es" by (auto simp: contiguous_def)
  then have "numbered lo (es @ [e])" using max_seq_numbered [OF lo False] assms(2) by (simp add: numbered_snoc)
  then show ?thesis unfolding contiguous_def by blast
qed

lemma numbered_filter:
  assumes "numbered lo es"
  shows "List.filter (\<lambda>e. k < se_seq e) es = drop (Suc k - Suc lo) es"
proof -
  let ?d = "Suc k - Suc lo"
  have low: "\<not> k < se_seq e" if "e \<in> set (take ?d es)" for e
    using that assms by (auto simp: in_set_conv_nth numbered_def)
  have high: "k < se_seq e" if "e \<in> set (drop ?d es)" for e
  proof -
    from that obtain j where "j < length es - ?d" "e = es ! (?d + j)" by (auto simp: in_set_conv_nth)
    then show ?thesis using assms by (simp add: numbered_def)
  qed
  have "List.filter (\<lambda>e. k < se_seq e) (take ?d es) = []" using low by (simp only: filter_empty_conv) blast
  moreover have "List.filter (\<lambda>e. k < se_seq e) (drop ?d es) = drop ?d es" using high by (simp only: filter_id_conv) blast
  ultimately have "List.filter (\<lambda>e. k < se_seq e) (take ?d es @ drop ?d es) = drop ?d es"
    by (simp only: filter_append append_Nil)
  then show ?thesis by (simp only: append_take_drop_id)
qed

lemma numbered_drop: "numbered lo es \<Longrightarrow> numbered (lo + k) (drop k es)"
  by (simp add: numbered_def add.assoc)

lemma contiguous_drop: "contiguous es \<Longrightarrow> contiguous (drop k es)"
  unfolding contiguous_def using numbered_drop by blast

definition new_event :: "string \<Rightarrow> runtime_event \<Rightarrow> store \<Rightarrow> stored_event" where
  "new_event i ev s = \<lparr>se_seq = max_seq (task_events i s) + 1, se_ts = s_now s, se_event = ev\<rparr>"

lemma appendEvent_other:
  assumes "j \<noteq> i"
  shows "task_events j (snd (appendEvent i ev s)) = task_events j s"
  using assms
  by (auto simp: appendEvent_def op_defs getTask_def task_events_def Let_def
      intro!: arg_cong [where f = "map er_stored"] filter_cong split: sum.splits prod.splits)

lemma appendEvent_missing:
  "find_task i (s_tasks s) = None \<Longrightarrow> appendEvent i ev s = (Inl (Error ''FOREIGN KEY constraint failed''), s)"
  by (simp add: appendEvent_def op_defs getTask_def)

lemma appendEvent_own:
  assumes "find_task i (s_tasks s) \<noteq> None" and "contiguous (task_events i s)"
    and "length (task_events i s) \<le> MAX_EVENTS_PER_TASK"
  shows "task_events i (snd (appendEvent i ev s)) =
    drop (Suc (length (task_events i s)) - MAX_EVENTS_PER_TASK) (task_events i s) @ [new_event i ev s]"
    and "fst (appendEvent i ev s) = Inr (max_seq (task_events i s) + 1)"
proof -
  let ?es = "task_events i s" and ?n = "max_seq (task_events i s) + 1"
  show "fst (appendEvent i ev s) = Inr ?n"
    using assms(1) by (simp add: appendEvent_def op_defs getTask_def)
  have keep: "task_events i (snd (appendEvent i ev s)) =
      (if ?n > MAX_EVENTS_PER_TASK then List.filter (\<lambda>e. ?n - MAX_EVENTS_PER_TASK < se_seq e) ?es @ [new_event i ev s]
       else ?es @ [new_event i ev s])"
    using assms(1)
    by (auto simp: appendEvent_def op_defs getTask_def task_events_def new_event_def filter_map
        MAX_EVENTS_PER_TASK_def comp_def conj_commute
        intro!: arg_cong [where f = "map er_stored"] filter_cong)
  show "task_events i (snd (appendEvent i ev s)) =
      drop (Suc (length ?es) - MAX_EVENTS_PER_TASK) ?es @ [new_event i ev s]"
  proof (cases "?es = []")
    case True
    then show ?thesis using keep by (simp add: max_seq_def MAX_EVENTS_PER_TASK_def)
  next
    case False
    from assms(2) obtain lo where lo: "numbered lo ?es" by (auto simp: contiguous_def)
    have m: "?n = lo + length ?es + 1" using max_seq_numbered [OF lo False] by simp
    show ?thesis
    proof (cases "?n > MAX_EVENTS_PER_TASK")
      case True
      then have "Suc (?n - MAX_EVENTS_PER_TASK) - Suc lo = Suc (length ?es) - MAX_EVENTS_PER_TASK"
        using m by simp
      then show ?thesis using keep True numbered_filter [OF lo] by simp
    next
      case False
      then have "Suc (length ?es) - MAX_EVENTS_PER_TASK = 0" using m by simp
      then show ?thesis using keep False by simp
    qed
  qed
qed

lemma appendEvent_keeps_ok:
  assumes "events_ok s"
  shows "events_ok (snd (appendEvent i ev s))"
proof (cases "find_task i (s_tasks s) = None")
  case True
  then show ?thesis using assms by (simp add: appendEvent_missing)
next
  case False
  have ok: "contiguous (task_events i s)" "length (task_events i s) \<le> MAX_EVENTS_PER_TASK"
    using assms by (simp_all add: events_ok_def)
  let ?es = "task_events i s" and ?k = "Suc (length (task_events i s)) - MAX_EVENTS_PER_TASK"
  have own: "task_events i (snd (appendEvent i ev s)) = drop ?k ?es @ [new_event i ev s]"
    using appendEvent_own(1) [OF False ok] .
  have "contiguous (?es @ [new_event i ev s])"
    by (rule contiguous_snoc [OF ok(1)]) (simp add: new_event_def)
  then have "contiguous (drop ?k (?es @ [new_event i ev s]))" by (rule contiguous_drop)
  moreover have "drop ?k (?es @ [new_event i ev s]) = drop ?k ?es @ [new_event i ev s]"
    using ok(2) by (simp add: MAX_EVENTS_PER_TASK_def)
  ultimately have "contiguous (task_events i (snd (appendEvent i ev s)))" using own by simp
  moreover have "length (task_events i (snd (appendEvent i ev s))) \<le> MAX_EVENTS_PER_TASK"
    using own ok(2) by (simp add: MAX_EVENTS_PER_TASK_def)
  ultimately show ?thesis
    using assms appendEvent_other [of _ i ev s] unfolding events_ok_def by metis
qed

text \<open>
  C1 (appendEvent_window). Appending an event to a task that exists adds it last, under the next
  number, drops the oldest events beyond 5000, changes no other task's events, and keeps every task's
  events numbered without a gap and at most 5000.
\<close>

theorem appendEvent_window:
  assumes "events_ok s" and "find_task i (s_tasks s) \<noteq> None"
  shows "fst (appendEvent i ev s) = Inr (max_seq (task_events i s) + 1) \<and>
    task_events i (snd (appendEvent i ev s)) =
      drop (Suc (length (task_events i s)) - MAX_EVENTS_PER_TASK) (task_events i s) @ [new_event i ev s] \<and>
    (\<forall>j. j \<noteq> i \<longrightarrow> task_events j (snd (appendEvent i ev s)) = task_events j s) \<and>
    events_ok (snd (appendEvent i ev s))"
  using assms appendEvent_own appendEvent_other appendEvent_keeps_ok by (auto simp: events_ok_def)

definition demo_task :: task_row where
  "demo_task = new_task ''t-0000000001'' 5 ''dev'' ''user'' ''hello'' None"

definition demo_store :: store where
  "demo_store =
     \<lparr>s_tasks = [demo_task], s_team = [], s_events = [], s_triggers = [], s_seen = [], s_usage = [],
      s_snapshots = [], s_audit = [], s_depth = 0, s_now = 7, s_draws = 0,
      s_random = (\<lambda>n k. nat_str k), s_sha = (\<lambda>_. []), s_json = (\<lambda>_. ''{}'')\<rparr>"

lemma demo_events_ok: "events_ok demo_store"
  by (simp add: events_ok_def demo_store_def task_events_def)

lemma appendEvent_window_witness:
  "task_events ''t-0000000001'' (snd (appendEvent ''t-0000000001'' (Ev_notice ''x'') demo_store)) =
     [\<lparr>se_seq = 1, se_ts = 7, se_event = Ev_notice ''x''\<rparr>]"
  using appendEvent_window [OF demo_events_ok, of "''t-0000000001''" "Ev_notice ''x''"]
  by (simp add: demo_store_def demo_task_def new_task_def find_task_def task_events_def new_event_def
      max_seq_def)

section \<open>Pages\<close>

lemma page_events_prefix:
  "\<exists>m. page_events js limit chars page rows = page @ take m rows \<and> (page = [] \<and> rows \<noteq> [] \<longrightarrow> 0 < m)"
proof (induction rows arbitrary: chars page)
  case (Cons r rs)
  show ?case
  proof (cases "0 \<le> limit \<and> page \<noteq> [] \<and> chars + length (js (se_event r)) > EVENTS_PAGE_CHARS")
    case True
    then have "page_events js limit chars page (r # rs) = page @ take 0 (r # rs)" by simp
    then show ?thesis using True by blast
  next
    case False
    obtain m where "page_events js limit (chars + length (js (se_event r))) (page @ [r]) rs = (page @ [r]) @ take m rs"
      using Cons.IH by blast
    then have "page_events js limit chars page (r # rs) = page @ take (Suc m) (r # rs)"
      using False by (auto simp: Let_def)
    then show ?thesis by blast
  qed
qed simp

text \<open>A client that pages: from the last number it has, until a page is empty.\<close>

fun read_pages :: "nat \<Rightarrow> string \<Rightarrow> nat \<Rightarrow> int \<Rightarrow> store \<Rightarrow> stored_event list" where
  "read_pages 0 i afterSeq limit s = []"
| "read_pages (Suc n) i afterSeq limit s =
     (case fst (events i afterSeq limit s) of
        Inl _ \<Rightarrow> []
      | Inr page \<Rightarrow>
          if page = [] then []
          else page @ read_pages n i (se_seq (last page)) limit s)"

definition remaining :: "string \<Rightarrow> nat \<Rightarrow> store \<Rightarrow> stored_event list" where
  "remaining i afterSeq s = List.filter (\<lambda>e. afterSeq < se_seq e) (task_events i s)"

lemma sorted_filter_key: "sorted (map f xs) \<Longrightarrow> sorted (map f (List.filter P xs))"
  by (induction xs) auto

lemma events_page:
  assumes "contiguous (task_events i s)" and "0 < limit"
  obtains m where "fst (events i afterSeq limit s) = Inr (take m (remaining i afterSeq s))"
    and "remaining i afterSeq s \<noteq> [] \<longrightarrow> 0 < m"
proof -
  let ?rem = "remaining i afterSeq s"
  have "sort_key se_seq ?rem = ?rem"
    unfolding remaining_def
    by (intro sort_key_sorted sorted_filter_key contiguous_sorted assms(1))
  then have ev: "fst (events i afterSeq limit s) = Inr (page_events (s_json s) limit 0 [] (take (nat limit) ?rem))"
    using assms(2) by (simp add: events_def op_defs sql_limit_def remaining_def)
  obtain m where "page_events (s_json s) limit 0 [] (take (nat limit) ?rem) = take m (take (nat limit) ?rem)"
    and "take (nat limit) ?rem \<noteq> [] \<longrightarrow> 0 < m"
    using page_events_prefix [of "s_json s" limit 0 "[]" "take (nat limit) ?rem"] by auto
  then show thesis
    using that [of "min m (nat limit)"] ev assms(2) by (auto simp: min_def)
qed

lemma remaining_after:
  assumes "contiguous (task_events i s)" and "0 < m" and "remaining i afterSeq s \<noteq> []"
  shows "remaining i (se_seq (last (take m (remaining i afterSeq s)))) s = drop m (remaining i afterSeq s)"
proof -
  from assms(1) obtain lo where lo: "numbered lo (task_events i s)" by (auto simp: contiguous_def)
  let ?es = "task_events i s" and ?d = "Suc afterSeq - Suc lo" and ?rem = "remaining i afterSeq s"
  have rem: "?rem = drop ?d ?es" unfolding remaining_def by (rule numbered_filter [OF lo])
  have seq: "se_seq (?es ! j) = Suc (lo + j)" if "j < length ?es" for j
    using that lo by (simp add: numbered_def)
  let ?q = "min m (length ?rem)"
  have q: "0 < ?q" "?d + ?q \<le> length ?es" using assms(2,3) rem by auto
  have "last (take m ?rem) = ?rem ! (?q - 1)"
    using assms(2,3) by (subst last_conv_nth) (auto simp: min.commute)
  also have "\<dots> = ?es ! (?d + (?q - 1))" using q rem by simp
  finally have l: "last (take m ?rem) = ?es ! (?d + (?q - 1))" .
  have "?d + (?q - 1) < length ?es" using q by linarith
  then have sq: "se_seq (last (take m ?rem)) = Suc (lo + (?d + (?q - 1)))" using seq l by simp
  have "Suc (se_seq (last (take m ?rem))) - Suc lo = ?d + ?q" unfolding sq using q(1) by linarith
  then have "remaining i (se_seq (last (take m ?rem))) s = drop (?d + ?q) ?es"
    unfolding remaining_def by (simp only: numbered_filter [OF lo])
  also have "\<dots> = drop m ?rem" using rem by (auto simp: min_def add.commute)
  finally show ?thesis .
qed

lemma read_pages_complete:
  assumes "contiguous (task_events i s)" and "0 < limit" and "length (remaining i afterSeq s) < n"
  shows "read_pages n i afterSeq limit s = remaining i afterSeq s"
  using assms(3)
proof (induction n arbitrary: afterSeq)
  case (Suc n)
  obtain m where page: "fst (events i afterSeq limit s) = Inr (take m (remaining i afterSeq s))"
    and pos: "remaining i afterSeq s \<noteq> [] \<longrightarrow> 0 < m"
    using events_page [OF assms(1,2)] by blast
  show ?case
  proof (cases "remaining i afterSeq s = []")
    case True
    then show ?thesis using page by simp
  next
    case False
    then have m: "0 < m" using pos by simp
    have "remaining i (se_seq (last (take m (remaining i afterSeq s)))) s = drop m (remaining i afterSeq s)"
      by (rule remaining_after [OF assms(1) m False])
    moreover have "length (drop m (remaining i afterSeq s)) < n" using Suc.prems False m
      by (cases "remaining i afterSeq s") auto
    ultimately have "read_pages n i (se_seq (last (take m (remaining i afterSeq s)))) limit s =
        drop m (remaining i afterSeq s)"
      using Suc.IH by simp
    then show ?thesis using page False m by simp
  qed
qed simp

text \<open>
  C2 (pages_complete). A client that reads a task's events page by page, each page from the last
  number it has, until a page is empty, gets every event after its start, once and in order, whatever
  the page limit and however much text the events hold.
\<close>

theorem pages_complete:
  assumes "events_ok s" and "0 < limit" and "length (task_events i s) < n"
  shows "read_pages n i afterSeq limit s = List.filter (\<lambda>e. afterSeq < se_seq e) (task_events i s)"
proof -
  have "length (remaining i afterSeq s) < n"
    using assms(3) le_less_trans [OF length_filter_le] by (simp add: remaining_def)
  then show ?thesis
    using assms(1,2) read_pages_complete by (simp add: events_ok_def remaining_def)
qed

definition demo_log :: store where
  "demo_log = demo_store\<lparr>s_events := map (\<lambda>k. \<lparr>er_task = ''a'', er_stored =
     \<lparr>se_seq = k, se_ts = 0, se_event = Ev_turn_completed\<rparr>\<rparr>) [Suc 3..<Suc 3 + 3]\<rparr>"

lemma demo_log_ok: "events_ok demo_log"
proof -
  have a: "task_events ''a'' demo_log = map (\<lambda>k. \<lparr>se_seq = k, se_ts = 0, se_event = Ev_turn_completed\<rparr>) [4, 5, 6]"
    by (simp add: task_events_def demo_log_def upt_rec)
  then have "numbered 3 (task_events ''a'' demo_log)" by (simp add: numbered_def less_Suc_eq)
  moreover have "task_events i demo_log = []" if "i \<noteq> ''a''" for i
    using that by (simp add: task_events_def demo_log_def upt_rec)
  ultimately have "contiguous (task_events i demo_log)" for i
    by (cases "i = ''a''") (auto simp: contiguous_def [of "task_events ''a'' demo_log"])
  moreover have "length (task_events i demo_log) \<le> MAX_EVENTS_PER_TASK" for i
    by (simp add: task_events_def demo_log_def upt_rec MAX_EVENTS_PER_TASK_def)
  ultimately show ?thesis by (simp add: events_ok_def)
qed

lemma pages_complete_witness: "map se_seq (read_pages 4 ''a'' 4 1 demo_log) = [5, 6]"
  using pages_complete [OF demo_log_ok, of 1 "''a''" 4 4]
  by (simp add: task_events_def demo_log_def upt_rec)

section \<open>Usage\<close>

definition usage_sum :: "store \<Rightarrow> string \<Rightarrow> string \<Rightarrow> turn_usage" where
  "usage_sum s i model =
     foldl usage_plus no_usage (map ur_usage
       (List.filter (\<lambda>r. uk_taskId r = i \<and> uk_model r = model) (s_usage s)))"

text \<open>A session reports its running totals, one after the other.\<close>

fun report_all :: "usage_key \<Rightarrow> turn_usage list \<Rightarrow> unit store_op" where
  "report_all row [] = ret ()"
| "report_all row (c # cs) = andthen (recordUsage row None c True) (\<lambda>_. report_all row cs)"

lemma usage_plus_zero [simp]: "usage_plus u no_usage = u"
  by (simp add: usage_plus_def no_usage_def)

lemma usage_plus_diff: "usage_ge c l \<Longrightarrow> usage_plus (usage_plus s l) (usage_diff c l) = usage_plus s c"
  by (auto simp: usage_ge_def usage_diff_def usage_plus_def)

lemma usage_ge_trans: "usage_ge c b \<Longrightarrow> usage_ge b a \<Longrightarrow> usage_ge c a"
  by (auto simp: usage_ge_def)

definition usage_turn :: "store \<Rightarrow> usage_key \<Rightarrow> turn_usage \<Rightarrow> turn_usage" where
  "usage_turn s row c =
     (case mget (s_snapshots s) (uk_taskId row, uk_model row) of
        None \<Rightarrow> c | Some prev \<Rightarrow> if usage_ge c prev then usage_diff c prev else c)"

lemma find_task_id: "find_task i ts = Some t \<Longrightarrow> t_id t = i"
  by (auto simp: find_task_def find_Some_iff)

lemma find_task_update:
  "(\<And>t. t_id (f t) = t_id t) \<Longrightarrow>
   find_task j (map (\<lambda>t. if t_id t = i then f t else t) ts) =
     map_option (\<lambda>t. if t_id t = i then f t else t) (find_task j ts)"
  by (induction ts) (auto simp: find_task_def)

text \<open>The tokens that the row of a task counts.\<close>

definition task_tokens :: "store \<Rightarrow> string \<Rightarrow> (nat \<times> nat) option" where
  "task_tokens s i = map_option (\<lambda>t. (t_inputTokens t, t_outputTokens t)) (find_task i (s_tasks s))"

definition more_tokens :: "turn_usage \<Rightarrow> (nat \<times> nat) option \<Rightarrow> (nat \<times> nat) option" where
  "more_tokens u = map_option (\<lambda>(n, k). (n + tu_input u, k + tu_output u))"

lemma more_tokens_diff: "usage_ge c l \<Longrightarrow> more_tokens (usage_diff c l) (more_tokens l x) = more_tokens c x"
  by (cases x) (auto simp: more_tokens_def usage_ge_def usage_diff_def)

lemma recordUsage_tokens:
  "task_tokens (snd (recordUsage row ts c True s)) (uk_taskId row) =
     more_tokens (usage_turn s row c) (task_tokens s (uk_taskId row))"
  by (auto simp: recordUsage_def op_defs usage_turn_def addUsage_def update_task_def task_tokens_def
      more_tokens_def no_usage_def find_task_update option.map_comp comp_def option.map_ident
      dest: find_task_id intro!: option.map_cong split: option.split)

lemma recordUsage_cumulative:
  "fst (recordUsage row ts c True s) = Inr (usage_turn s row c)"
  "mget (s_snapshots (snd (recordUsage row ts c True s))) (uk_taskId row, uk_model row) = Some c"
  "usage_sum (snd (recordUsage row ts c True s)) (uk_taskId row) (uk_model row) =
     usage_plus (usage_sum s (uk_taskId row) (uk_model row)) (usage_turn s row c)"
proof -
  let ?t = "usage_turn s row c" and ?r = "recordUsage row ts c True s"
  show "fst ?r = Inr ?t"
    by (simp add: recordUsage_def op_defs usage_turn_def addUsage_def update_task_def split: option.split)
  show "mget (s_snapshots (snd ?r)) (uk_taskId row, uk_model row) = Some c"
    by (simp add: recordUsage_def op_defs addUsage_def update_task_def update_conv')
  have "s_usage (snd ?r) = s_usage s @ (if ?t = no_usage then [] else
      [usage_key.extend row \<lparr>ur_ts = (case ts of None \<Rightarrow> s_now s | Some x \<Rightarrow> x), ur_usage = ?t\<rparr>])"
    by (simp add: recordUsage_def op_defs addUsage_def update_task_def usage_turn_def split: option.split)
  then show "usage_sum (snd ?r) (uk_taskId row) (uk_model row) =
      usage_plus (usage_sum s (uk_taskId row) (uk_model row)) ?t"
    by (simp add: usage_sum_def usage_key.defs)
qed

lemma report_all_sum:
  assumes "mget (s_snapshots s) (uk_taskId row, uk_model row) = Some prev"
    and "sorted_wrt (\<lambda>a b. usage_ge b a) (prev # cs)"
    and "usage_sum s (uk_taskId row) (uk_model row) = usage_plus base prev"
    and "task_tokens s (uk_taskId row) = more_tokens prev x"
  shows "usage_sum (snd (report_all row cs s)) (uk_taskId row) (uk_model row) = usage_plus base (last (prev # cs)) \<and>
    task_tokens (snd (report_all row cs s)) (uk_taskId row) = more_tokens (last (prev # cs)) x"
  using assms
proof (induction cs arbitrary: s prev)
  case (Cons c cs)
  let ?s = "snd (recordUsage row None c True s)"
  have run: "report_all row (c # cs) s = report_all row cs ?s"
    using recordUsage_cumulative(1) [of row None c s] by (auto simp: andthen_def split: prod.splits sum.splits)
  have ge: "usage_ge c prev" and rest: "sorted_wrt (\<lambda>a b. usage_ge b a) (c # cs)" using Cons.prems(2) by auto
  have "usage_turn s row c = usage_diff c prev" using Cons.prems(1) ge by (simp add: usage_turn_def)
  then have "usage_sum ?s (uk_taskId row) (uk_model row) = usage_plus base c"
    "task_tokens ?s (uk_taskId row) = more_tokens c x"
    using recordUsage_cumulative(3) [of row None c s] recordUsage_tokens [of row None c s] Cons.prems(3,4)
      usage_plus_diff [OF ge] more_tokens_diff [OF ge] by simp_all
  then show ?case
    using Cons.IH [OF recordUsage_cumulative(2) rest] run by simp
qed simp


definition demo_usage :: "nat \<Rightarrow> turn_usage" where
  "demo_usage n = no_usage\<lparr>tu_input := n, tu_output := 2 * n\<rparr>"

definition demo_key :: usage_key where
  "demo_key = \<lparr>uk_taskId = ''t-0000000001'', uk_agentId = ''dev'', uk_runtime = ''codex'', uk_model = ''m''\<rparr>"


section \<open>Deleting\<close>

definition team_trace :: "string \<Rightarrow> string \<times> team_value \<Rightarrow> bool" where
  "team_trace i kv \<longleftrightarrow>
     task_content_key i (fst kv) \<or> starts_with (''peer/out/'' @ i) (fst kv) \<or>
     starts_with (''peer/budget/'' @ i) (fst kv) \<or> starts_with (''peer/shadow/'' @ i @ ''/'') (fst kv) \<or>
     is_approval_route i kv"

definition forget :: "string set \<Rightarrow> store \<Rightarrow> store" where
  "forget I s = s\<lparr>s_tasks := List.filter (\<lambda>t. t_id t \<notin> I) (s_tasks s),
     s_team := List.filter (\<lambda>kv. \<forall>i \<in> I. \<not> team_trace i kv) (s_team s),
     s_audit := List.filter (\<lambda>r. au_task r \<notin> I) (s_audit s),
     s_snapshots := List.filter (\<lambda>kv. fst (fst kv) \<notin> I) (s_snapshots s),
     s_events := List.filter (\<lambda>e. er_task e \<notin> I) (s_events s)\<rparr>"

lemma deleteTask_rows_eq:
  "deleteTask_rows i s = (Inr (length (List.filter (\<lambda>t. t_id t = i) (s_tasks s))), forget {i} s)"
  by (simp add: deleteTask_rows_def op_defs delete_team_rows_def teamDeletePrefix_def forget_def
      team_trace_def conj_ac disj_ac)

lemma forget_forget: "forget J (forget {i} s) = forget (insert i J) s"
  by (auto simp: forget_def intro!: filter_cong store.equality)

lemma forget_empty [simp]: "forget {} s = s"
  by (simp add: forget_def)

lemma filter_parts:
  "length (List.filter P xs) + length (List.filter Q (List.filter (\<lambda>x. \<not> P x) xs)) = length (List.filter (\<lambda>x. P x \<or> Q x) xs)"
  by (induction xs) auto

lemma deleteTasks_eq:
  "deleteTasks ids s = (Inr (length (List.filter (\<lambda>t. t_id t \<in> set ids) (s_tasks s))), forget (set ids) s)"
proof (induction ids arbitrary: s)
  case (Cons i ids)
  have "s_tasks (forget {i} s) = List.filter (\<lambda>t. t_id t \<noteq> i) (s_tasks s)" by (simp add: forget_def)
  then have "length (List.filter (\<lambda>t. t_id t = i) (s_tasks s)) +
      length (List.filter (\<lambda>t. t_id t \<in> set ids) (s_tasks (forget {i} s))) =
      length (List.filter (\<lambda>t. t_id t \<in> set (i # ids)) (s_tasks s))"
    using filter_parts [of "\<lambda>t. t_id t = i" "s_tasks s" "\<lambda>t. t_id t \<in> set ids"] by simp
  then show ?case
    by (simp add: andthen_def deleteTask_rows_eq forget_forget Cons.IH op_defs)
qed (simp add: op_defs)

text \<open>
  C33 (deleteTasks_forgets). Deleting tasks returns how many there were and leaves no row, event, audit row or usage
  snapshot of any of them, and of the state shared with other machines no job, request, answer, effect, budget,
  shadow or approval of theirs.  Everything of other tasks stays as it was, and so does the use that was
  recorded; the receipts of a worker (\<open>received/\<close>, \<open>worker/\<close>, \<open>cancel/\<close>) stay, so a delayed dispatch
  cannot start the deleted work again.
\<close>

theorem deleteTasks_forgets:
  "\<exists>n s'. deleteTasks ids s = (Inr n, s') \<and> n + length (s_tasks s') = length (s_tasks s) \<and>
    (\<forall>i \<in> set ids. find_task i (s_tasks s') = None \<and> task_events i s' = [] \<and>
       (\<forall>r \<in> set (s_audit s'). au_task r \<noteq> i) \<and> (\<forall>m. mget (s_snapshots s') (i, m) = None) \<and>
       (\<forall>kv \<in> set (s_team s'). fst kv \<noteq> ''outbound/'' @ i \<and> \<not> is_approval_route i kv \<and>
          list_all (\<lambda>p. \<not> starts_with p (fst kv))
            [''request/'' @ i @ ''/'', ''answer/'' @ i @ ''/'', ''effect/'' @ i @ ''/'', ''peer/out/'' @ i,
             ''peer/budget/'' @ i, ''peer/shadow/'' @ i @ ''/''])) \<and>
    (\<forall>j. j \<notin> set ids \<longrightarrow> find_task j (s_tasks s') = find_task j (s_tasks s) \<and>
       task_events j s' = task_events j s \<and> (\<forall>m. mget (s_snapshots s') (j, m) = mget (s_snapshots s) (j, m)) \<and>
       List.filter (\<lambda>r. au_task r = j) (s_audit s') = List.filter (\<lambda>r. au_task r = j) (s_audit s)) \<and>
    (\<forall>kv \<in> set (s_team s). (\<forall>i \<in> set ids. \<not> team_trace i kv) \<longrightarrow> kv \<in> set (s_team s')) \<and>
    s_usage s' = s_usage s \<and>
    (\<forall>k. (starts_with ''received/'' k \<or> starts_with ''worker/'' k \<or> starts_with ''cancel/'' k) \<longrightarrow>
       mget (s_team s') k = mget (s_team s) k)"
proof -
  let ?s = "forget (set ids) s"
  have count: "length (List.filter (\<lambda>t. t_id t \<in> set ids) (s_tasks s)) + length (s_tasks ?s) = length (s_tasks s)"
    by (simp add: forget_def sum_length_filter_compl)
  have gone: "find_task i (s_tasks ?s) = None \<and> task_events i ?s = [] \<and>
      (\<forall>r \<in> set (s_audit ?s). au_task r \<noteq> i) \<and> (\<forall>m. mget (s_snapshots ?s) (i, m) = None) \<and>
      (\<forall>kv \<in> set (s_team ?s). fst kv \<noteq> ''outbound/'' @ i \<and> \<not> is_approval_route i kv \<and>
          list_all (\<lambda>p. \<not> starts_with p (fst kv))
            [''request/'' @ i @ ''/'', ''answer/'' @ i @ ''/'', ''effect/'' @ i @ ''/'', ''peer/out/'' @ i,
             ''peer/budget/'' @ i, ''peer/shadow/'' @ i @ ''/''])" if "i \<in> set ids" for i
    using that by (auto simp: forget_def find_task_def find_None_iff task_events_def map_of_eq_None_iff
      filter_empty_conv team_trace_def task_content_key_def)
  have find_filter: "List.find P (List.filter Q xs) = List.find P xs" if "\<And>x. P x \<Longrightarrow> Q x"
    for P Q and xs :: "task_row list"
    using that by (induction xs) auto
  have snapshots: "mget (List.filter (\<lambda>kv. fst (fst kv) \<notin> set ids) xs) (j, m) = mget xs (j, m)"
    if "j \<notin> set ids" for j m and xs :: "((string \<times> string) \<times> turn_usage) list"
    using that by (induction xs) auto
  have kept: "find_task j (s_tasks ?s) = find_task j (s_tasks s) \<and> task_events j ?s = task_events j s \<and>
      (\<forall>m. mget (s_snapshots ?s) (j, m) = mget (s_snapshots s) (j, m)) \<and>
      List.filter (\<lambda>r. au_task r = j) (s_audit ?s) = List.filter (\<lambda>r. au_task r = j) (s_audit s)"
    if "j \<notin> set ids" for j
    using that by (auto simp: forget_def find_task_def task_events_def snapshots intro!: find_filter
        arg_cong [where f = "map er_stored"] filter_cong)
  have team: "\<forall>kv \<in> set (s_team s). (\<forall>i \<in> set ids. \<not> team_trace i kv) \<longrightarrow> kv \<in> set (s_team ?s)"
    by (simp add: forget_def)
  have untraced: "\<not> team_trace i (k, v)"
    if "starts_with ''received/'' k \<or> starts_with ''worker/'' k \<or> starts_with ''cancel/'' k" for i k v
    using that
    by (auto simp: team_trace_def task_content_key_def is_approval_route_def starts_with_Cons)
  have receipts: "mget (s_team ?s) k = mget (s_team s) k"
    if "starts_with ''received/'' k \<or> starts_with ''worker/'' k \<or> starts_with ''cancel/'' k" for k
  proof -
    have "map_of (List.filter (\<lambda>kv. \<forall>i \<in> set ids. \<not> team_trace i kv) xs) k = map_of xs k" for xs
      using untraced [OF that] by (induction xs) auto
    then show ?thesis by (simp add: forget_def)
  qed
  have "s_usage ?s = s_usage s" by (simp add: forget_def)
  then show ?thesis using deleteTasks_eq [of ids s] count gone kept team receipts by blast
qed

lemma deleteTasks_forgets_witness:
  "find_task ''t-0000000001'' (s_tasks (snd (deleteTasks [''t-0000000001''] demo_log))) = None \<and>
   task_events ''a'' (snd (deleteTasks [''t-0000000001''] demo_log)) = task_events ''a'' demo_log"
  using deleteTasks_forgets [of "[''t-0000000001'']" demo_log] by auto

end
