(* ===== verification/Frames.thy ===== *)
theory Frames
  imports HubTasks StoreFacts
begin

text \<open>
  What an operation leaves alone.  A property of the world that does not look at the database, the
  trace, the waiters, the line for cells or the stage of one task's turn survives everything that the
  start of a turn of this task does (\<open>turn_frame\<close>).
\<close>

section \<open>Rules for control structures\<close>

lemma keeps_let [keeps]: "(\<And>x. x = a \<Longrightarrow> keeps_inv P (f x)) \<Longrightarrow> keeps_inv P (let x = a in f x)"
  by (simp add: Let_def)

lemma keeps_case_sum [keeps]:
  "(\<And>a. x = Inl a \<Longrightarrow> keeps_inv P (f a)) \<Longrightarrow> (\<And>b. x = Inr b \<Longrightarrow> keeps_inv P (g b)) \<Longrightarrow>
   keeps_inv P (case x of Inl a \<Rightarrow> f a | Inr b \<Rightarrow> g b)"
  by (cases x) auto

lemma keeps_case_prod [keeps]:
  "(\<And>a b. x = (a, b) \<Longrightarrow> keeps_inv P (f a b)) \<Longrightarrow> keeps_inv P (case x of (a, b) \<Rightarrow> f a b)"
  by (cases x) auto

lemma keeps_case_list [keeps]:
  "(x = [] \<Longrightarrow> keeps_inv P m) \<Longrightarrow> (\<And>y ys. x = y # ys \<Longrightarrow> keeps_inv P (f y ys)) \<Longrightarrow>
   keeps_inv P (case x of [] \<Rightarrow> m | y # ys \<Rightarrow> f y ys)"
  by (cases x) auto

lemma keeps_case_bool [keeps]:
  "(b \<Longrightarrow> keeps_inv P m) \<Longrightarrow> (\<not> b \<Longrightarrow> keeps_inv P m') \<Longrightarrow>
   keeps_inv P (case b of True \<Rightarrow> m | False \<Rightarrow> m')"
  by (cases b) auto

lemma keeps_require_then [keeps]:
  "(b \<Longrightarrow> keeps_inv P (f ())) \<Longrightarrow> keeps_inv P (andthen (require b m) f)"
  by (cases b) (auto intro: keeps)

lemma keeps_lifted [keeps]: "keeps_inv P (\<lambda>w. lift_result (g w) w)"
  by (simp add: keeps_inv_def lift_result_def)

lemma keeps_at: "(\<And>v. keeps_inv P (f v)) \<Longrightarrow> keeps_inv P (\<lambda>w. f (g w) w)"
  by (simp add: keeps_inv_def)

lemma keeps_on_db_of [keeps]: "keeps_inv Q m \<Longrightarrow> keeps_inv (\<lambda>w. Q (db w)) (on_db m)"
  by (simp add: keeps_inv_def on_db_def prod.case_eq_if)

section \<open>What an operation that returns has done\<close>

text \<open>\<open>valid P m Q\<close>: from a state with \<open>P\<close>, if \<open>m\<close> returns \<open>a\<close> then \<open>Q a\<close> holds of the state left.\<close>

definition valid :: "('s \<Rightarrow> bool) \<Rightarrow> ('s, 'a) op \<Rightarrow> ('a \<Rightarrow> 's \<Rightarrow> bool) \<Rightarrow> bool" where
  "valid P m Q \<longleftrightarrow> (\<forall>s a s'. P s \<and> m s = (Inr a, s') \<longrightarrow> Q a s')"

named_theorems valids "rules for what an operation that returns has done"

lemma validD: "valid P m Q \<Longrightarrow> m s = (Inr a, s') \<Longrightarrow> P s \<Longrightarrow> Q a s'"
  unfolding valid_def by blast

lemma valid_andthen [valids]:
  "valid P m R \<Longrightarrow> (\<And>a. valid (R a) (f a) Q) \<Longrightarrow> valid P (andthen m f) Q"
  unfolding valid_def by (metis andthen_InrE)

lemma valid_ret [valids]: "(\<And>s. P s \<Longrightarrow> Q a s) \<Longrightarrow> valid P (ret a) Q"
  by (simp add: valid_def)

lemma valid_throw [valids]: "valid P (throw m) Q"
  by (simp add: valid_def)

lemma valid_require: "(\<And>s. P s \<Longrightarrow> b \<Longrightarrow> Q () s) \<Longrightarrow> valid P (require b m) Q"
  by (cases b) (auto simp: valid_def)

lemma valid_gets: "(\<And>s. P s \<Longrightarrow> Q (f s) s) \<Longrightarrow> valid P (gets f) Q"
  by (auto simp: valid_def gets_def)

lemma valid_keeps: "keeps_inv P m \<Longrightarrow> valid P m (\<lambda>_. P)"
  by (fastforce simp: valid_def keeps_inv_def)

lemma valid_pre: "(\<And>s. P s \<Longrightarrow> P' s) \<Longrightarrow> valid P' m Q \<Longrightarrow> valid P m Q"
  unfolding valid_def by blast

lemma valid_post: "valid P m Q' \<Longrightarrow> (\<And>a s. Q' a s \<Longrightarrow> Q a s) \<Longrightarrow> valid P m Q"
  unfolding valid_def by blast

lemma valid_conj: "valid P m Q \<Longrightarrow> valid P' m Q' \<Longrightarrow> valid (\<lambda>s. P s \<and> P' s) m (\<lambda>a s. Q a s \<and> Q' a s)"
  unfolding valid_def by blast

lemma mkeys_update_present: "mget m k = Some v \<Longrightarrow> mkeys (mset_key k u m) = mkeys m"
  by (induction m) auto

section \<open>Properties of the turns and queues\<close>

lemma mget_update_other: "j \<noteq> i \<Longrightarrow> mget (mset_key i u m) j = mget m j"
  by (simp add: update_conv')

locale turn_frame =
  fixes P :: "world \<Rightarrow> bool" and own :: string
  assumes frame_db: "P w \<Longrightarrow> P (w\<lparr>db := s\<rparr>)"
    and frame_outs: "P w \<Longrightarrow> P (w\<lparr>outs := xs\<rparr>)"
    and frame_waiters: "P w \<Longrightarrow> P (w\<lparr>hub := (hub w)\<lparr>h_waiters := x\<rparr>\<rparr>)"
    and frame_line: "P w \<Longrightarrow> P (w\<lparr>hub := (hub w)\<lparr>h_roomQueue := q\<rparr>\<rparr>)"
    and frame_state: "(\<And>st. as_queue (f st) = as_queue st \<and> mkeys (as_running (f st)) = mkeys (as_running st) \<and>
        (\<forall>j. j \<noteq> own \<longrightarrow> mget (as_running (f st)) j = mget (as_running st) j)) \<Longrightarrow>
      P w \<Longrightarrow> P (snd (update_state a f w))"
begin

lemma keeps_on_db [keeps]: "keeps_inv P (on_db m)"
  by (auto simp: keeps_inv_def on_db_def frame_db split: prod.split)

lemma keeps_emit [keeps]: "keeps_inv P (emit x)"
  by (simp add: keeps_inv_def emit_def modify_def frame_outs)

lemma keeps_transaction [keeps]:
  assumes "keeps_inv P m"
  shows "keeps_inv P (transaction m)"
proof (rule keeps_invI)
  fix w
  assume "P w"
  then have "P (snd (m w))" "P (snd (m (w\<lparr>db := (db w)\<lparr>s_depth := 1\<rparr>\<rparr>)))"
    using assms frame_db by (auto simp: keeps_inv_def)
  then show "P (snd (transaction m w))"
    by (auto simp: transaction_def intro: frame_db split: prod.split sum.split)
qed

lemma keeps_update_state:
  "(\<And>st. as_queue (f st) = as_queue st \<and> mkeys (as_running (f st)) = mkeys (as_running st) \<and>
     (\<forall>j. j \<noteq> own \<longrightarrow> mget (as_running (f st)) j = mget (as_running st) j)) \<Longrightarrow>
   keeps_inv P (update_state a f)"
  by (simp add: keeps_inv_def frame_state)

lemma keeps_on_stage [keeps]: "keeps_inv P (set_stage a own x)"
  unfolding set_stage_def
  by (rule keeps_update_state) (simp add: mkeys_update_present mget_update_other split: option.split)

lemma keeps_set_queued [keeps]: "keeps_inv P (set_queued a own b)"
  unfolding set_queued_def
  by (rule keeps_update_state) (simp add: mkeys_update_present mget_update_other split: option.split)

lemma keeps_waiters: "keeps_inv P (on_hub (\<lambda>h. h\<lparr>h_waiters := g h\<rparr>))"
  by (simp add: keeps_inv_def on_hub_def modify_def frame_waiters)

lemma keeps_line: "keeps_inv P (on_hub (\<lambda>h. h\<lparr>h_roomQueue := g h\<rparr>))"
  by (simp add: keeps_inv_def on_hub_def modify_def frame_line)

lemma keeps_hub_getTask [keeps]: "keeps_inv P (hub_getTask i)"
  unfolding hub_getTask_def by (intro keeps)

lemma keeps_resolving [keeps]: "keeps_inv P (resolve i)" "keeps_inv P (agentFor t)"
  by (auto simp: keeps_inv_def resolve_def agentFor_def Let_def split: option.split)

lemma keeps_record_usage [keeps]: "keeps_inv P (record_usage t u)"
  unfolding record_usage_def usage_runtime_def by (intro keeps)

lemma keeps_record_event [keeps]: "keeps_inv P (record_event t e)"
  unfolding record_event_def by (cases e) (auto intro: keeps)

lemma keeps_finish [keeps]: "keeps_inv P (finish i st r)"
  unfolding finish_def notify_parent_def by (intro keeps keeps_waiters)

lemma keeps_fail_turn [keeps]: "keeps_inv P (fail_turn t m)"
  unfolding fail_turn_def by (intro keeps)

lemma keeps_end_failed: "t_id t = own \<Longrightarrow> keeps_inv P (end_failed a t m)"
  unfolding end_failed_def by (simp only:) (intro keeps)

lemma keeps_coord_begin [keeps]: "keeps_inv P (coord_begin t ag x)"
  unfolding coord_begin_def new_outbound_def get_outbound_def originChain_def by (intro keeps)

lemma keeps_execute_remote: "t_id t = own \<Longrightarrow> keeps_inv P (execute_remote a t ag x)"
  unfolding execute_remote_def tree_spent_def record_input_def coord_active_def get_outbound_def
  by (simp only:) (intro keeps)

lemma keeps_execute_local:
  assumes "t_id t = own"
  shows "keeps_inv P (execute_local a t ag x)"
  unfolding execute_local_def start_local_def tree_spent_def record_input_def consume_def assms
  by (intro keeps keeps_line keeps_end_failed assms)

lemma keeps_execute_begin:
  assumes "j_task jb = own"
  shows "keeps_inv P (execute_begin a jb)"
proof (rule keeps_invI)
  fix w :: world
  assume w: "P w"
  show "P (snd (execute_begin a jb w))"
  proof (cases "find_task (j_task jb) (s_tasks (db w))")
    case None
    then show ?thesis
      using w by (simp add: execute_begin_def hub_getTask_def getTask_def gets_def on_db_def andthen_def)
  next
    case (Some t)
    let ?rest = "andthen (agentFor t) (\<lambda>agent.
      andthen (update_state a (\<lambda>st. st\<lparr>as_agent := Some agent\<rparr>)) (\<lambda>_.
      if t_execution t \<noteq> None then execute_remote a t agent (j_text jb) else execute_local a t agent (j_text jb)))"
    have "execute_begin a jb w = ?rest w"
      using Some by (simp add: execute_begin_def hub_getTask_def getTask_def gets_def on_db_def andthen_def)
    moreover have "keeps_inv P ?rest"
      using find_task_id [OF Some] assms
      by (intro keeps keeps_update_state keeps_execute_remote keeps_execute_local) auto
    ultimately show ?thesis using w by (simp add: keeps_inv_def)
  qed
qed

end

end
