(* ===== verification/HubFacts.thy ===== *)
theory HubFacts
  imports HubTasks StoreFacts
begin

text \<open>
  What the hub promises: receipts make a repeated tool call return its first task, transactions undo
  the database, jobs start in order and no slot stays free while one waits, delegation stays within
  its limits.
\<close>

section \<open>Lifted operations\<close>

lemma on_db_apply: "on_db m w = (fst (m (db w)), w\<lparr>db := snd (m (db w))\<rparr>)"
  by (simp add: on_db_def split: prod.split)

lemma on_db_Inr: "on_db m w = (Inr a, w') \<Longrightarrow> m (db w) = (Inr a, db w') \<and> w' = w\<lparr>db := db w'\<rparr>"
  by (auto simp: on_db_def split: prod.splits)

lemma on_hub_apply: "on_hub f w = (Inr (), w\<lparr>hub := f (hub w)\<rparr>)"
  by (simp add: on_hub_def modify_def)

lemma emit_apply: "emit x w = (Inr (), w\<lparr>outs := outs w @ [x]\<rparr>)"
  by (simp add: emit_def modify_def)

lemma teamGet_state [simp]: "snd (teamGet k f s) = s"
  by (simp add: teamGet_def op_defs split: option.split)

lemma getTask_apply [simp]: "getTask i s = (Inr (find_task i (s_tasks s)), s)"
  by (simp add: getTask_def gets_def)

lemma teamPut_apply: "teamPut k v s = (Inr (), s\<lparr>s_team := mset_key k v (s_team s)\<rparr>)"
  by (simp add: teamPut_def modify_def)

lemma teamGet_cases:
  "teamGet k f s = (Inr r, s') \<Longrightarrow>
   s' = s \<and> r = Option.bind (mget (s_team s) k) f \<and> (mget (s_team s) k \<noteq> None \<longrightarrow> r \<noteq> None)"
  by (auto simp: teamGet_def op_defs dest!: sym [of "Some _"] split: option.splits)

lemmas effect_simps = teamEffect_def transaction_def on_db_apply teamGet_def Let_def op_defs rollback_def

lemma teamGet_put: "f v = Some a \<Longrightarrow> mget (s_team s) k = Some v \<Longrightarrow> teamGet k f s = (Inr (Some a), s)"
  by (simp add: teamGet_def op_defs)

section \<open>Transactions\<close>

text \<open>
  A transaction that throws at the outermost level leaves every table as it
  was; one that returns leaves what its body wrote; inside another transaction it only runs its body.
  The state outside the database is the body's in every case.
\<close>

lemma transaction_atomic:
  "(case transaction m w of
      (Inl e, w') \<Rightarrow>
        s_depth (db w) = 0 \<longrightarrow> db w' = (db w)\<lparr>s_now := s_now (db w'), s_draws := s_draws (db w')\<rparr>
    | (Inr a, w') \<Rightarrow>
        s_depth (db w) = 0 \<longrightarrow> fst (m (w\<lparr>db := (db w)\<lparr>s_depth := 1\<rparr>\<rparr>)) = Inr a \<and>
          db w' = (db (snd (m (w\<lparr>db := (db w)\<lparr>s_depth := 1\<rparr>\<rparr>))))\<lparr>s_depth := 0\<rparr>) \<and>
   (s_depth (db w) \<noteq> 0 \<longrightarrow> transaction m w = m w) \<and>
   (s_depth (db w) = 0 \<longrightarrow> hub (snd (transaction m w)) = hub (snd (m (w\<lparr>db := (db w)\<lparr>s_depth := 1\<rparr>\<rparr>))) \<and>
      outs (snd (transaction m w)) = outs (snd (m (w\<lparr>db := (db w)\<lparr>s_depth := 1\<rparr>\<rparr>))))"
  by (auto simp: transaction_def rollback_def split: prod.splits sum.splits)

lemma transaction_Inr:
  assumes "transaction m w = (Inr a, w')" and "s_depth (db w) = 0"
  obtains v where "m (w\<lparr>db := (db w)\<lparr>s_depth := 1\<rparr>\<rparr>) = (Inr a, v)" and "w' = v\<lparr>db := (db v)\<lparr>s_depth := 0\<rparr>\<rparr>"
  using assms by (auto simp: transaction_def split: prod.splits sum.splits)

section \<open>Receipts\<close>

definition effect_row :: "string \<Rightarrow> world \<Rightarrow> (string \<times> string) option" where
  "effect_row k w = Option.bind (mget (s_team (db w)) (''effect/'' @ k)) as_effect"

lemma as_effect_Some: "as_effect v = Some (d, t) \<Longrightarrow> v = Tv_effect d t"
  by (cases v) auto

lemma teamEffect_replay:
  assumes "k \<noteq> []" and "mget (s_team (db w)) (''effect/'' @ k) = Some (Tv_effect d t)"
  shows "teamEffect (Some k) input run w =
    (if d \<noteq> s_sha (db w) input then (Inl (Error ''TEAM_REQUEST_CONFLICT''), w)
     else case find_task t (s_tasks (db w)) of
         None \<Rightarrow> (Inl (Error ''TEAM_TASK_REMOVED''), w)
       | Some row \<Rightarrow> (Inr row, w))"
  using assms by (cases "s_depth (db w) = 0") (auto simp: effect_simps split: option.split)

text \<open>
  C4 (teamEffect_once). A tool call with a receipt key runs at most once: after it returned a task, the
  same call returns that task's row of then, and another call under the key is refused, in any later
  state that still holds the receipt; neither changes anything.
\<close>

theorem teamEffect_once:
  assumes "teamEffect (Some k) input run w = (Inr row, w')" and "k \<noteq> []"
    and "s_sha (db w') = s_sha (db w)"
    and "mget (s_team (db v)) (''effect/'' @ k) = mget (s_team (db w')) (''effect/'' @ k)"
    and "s_sha (db v) = s_sha (db w)"
  shows "teamEffect (Some k) input run v =
      (case find_task (t_id row) (s_tasks (db v)) of
         None \<Rightarrow> (Inl (Error ''TEAM_TASK_REMOVED''), v) | Some now \<Rightarrow> (Inr now, v)) \<and>
    (s_sha (db w) other \<noteq> s_sha (db w) input \<longrightarrow>
      teamEffect (Some k) other run' v = (Inl (Error ''TEAM_REQUEST_CONFLICT''), v))"
proof -
  let ?p = "''effect/'' @ k" and ?d = "s_sha (db w) input"
  define u where "u = (if s_depth (db w) = 0 then w\<lparr>db := (db w)\<lparr>s_depth := 1\<rparr>\<rparr> else w)"
  have ud: "s_team (db u) = s_team (db w)" "s_sha (db u) = s_sha (db w)" "s_tasks (db u) = s_tasks (db w)"
    by (simp_all add: u_def)
  have "\<exists>u'. (case Option.bind (mget (s_team (db u)) ?p) as_effect of
        Some (d, t) \<Rightarrow> d = ?d \<and> find_task t (s_tasks (db u)) = Some row \<and> u' = u
      | None \<Rightarrow> mget (s_team (db u)) ?p = None \<and> (\<exists>x. run u = (Inr row, x) \<and>
          u' = x\<lparr>db := (db x)\<lparr>s_team := mset_key ?p (Tv_effect ?d (t_id row)) (s_team (db x))\<rparr>\<rparr>)) \<and>
      s_team (db w') = s_team (db u')"
    using assms(1,2) ud
    by (fastforce simp: teamEffect_def transaction_def u_def on_db_apply teamGet_def op_defs teamPut_apply Let_def
        split: option.splits prod.splits sum.splits if_splits)
  then have "mget (s_team (db w')) ?p = Some (Tv_effect ?d (t_id row))"
    by (auto simp: update_conv' find_task_def find_Some_iff bind_eq_Some_conv
        dest!: as_effect_Some split: option.splits)
  then have "mget (s_team (db v)) ?p = Some (Tv_effect ?d (t_id row))" using assms(4) by simp
  from teamEffect_replay [OF assms(2) this] show ?thesis using assms(5) by auto
qed

section \<open>A small world\<close>

definition demo_agent :: "string \<Rightarrow> resolved_agent" where
  "demo_agent i =
     \<lparr>ra_execution = None, ra_id = i, ra_name = i, ra_description = None, ra_runtime = ''codex'',
      ra_model = None, ra_effort = None, ra_prompt_mode = ''append'', ra_prompt_text = [],
      ra_connectors = [], ra_image = ''base'', ra_sandbox = ''none'', ra_delegates = [''ops''],
      ra_triggers = [], ra_skills = [], ra_approvals = [], ra_accounts = [], ra_highRisk = [],
      ra_workspaces = [], ra_maxTasks = 1, ra_egress = None, ra_sourceFiles = []\<rparr>"

definition demo_state :: "string \<Rightarrow> agent_state" where
  "demo_state i = \<lparr>as_id = i, as_agent = Some (demo_agent i), as_error = None, as_queue = [], as_running = []\<rparr>"

definition demo_hub :: hub where
  "demo_hub =
     \<lparr>h_stopping = False, h_states = [(''dev'', demo_state ''dev''), (''ops'', demo_state ''ops'')],
      h_cells = [], h_waiters = [], h_deleting = [], h_roomQueue = [], h_blocked = [],
      h_roomWaiters = [], h_closingTasks = [], h_closing = [], h_closeSeq = 0, h_microtasks = []\<rparr>"

definition demo_options :: options where
  "demo_options =
     \<lparr>op_peers = False, op_team = False, op_builtins = [(''dev'', \<lambda>_. demo_agent ''dev''), (''ops'', \<lambda>_. demo_agent ''ops'')],
      op_target = (\<lambda>_. Inr []), op_maxCells = None, op_roomWaitMs = None\<rparr>"

definition demo_world :: world where
  "demo_world =
     \<lparr>db = demo_store, hub = demo_hub, outs = [], layout = demo_layout,
      network = \<lparr>net_configured = False, net_self = [], net_nodes = [], net_own = []\<rparr>,
      opts = demo_options\<rparr>"

lemmas demo_defs =
  demo_world_def demo_options_def demo_hub_def demo_state_def demo_agent_def demo_store_def
  demo_task_def new_task_def

lemma teamEffect_once_witness:
  "fst (teamEffect (Some ''k'') (Dg_send ''x'' ''y'') (hub_getTask ''t-0000000001'')
     (snd (teamEffect (Some ''k'') (Dg_send ''x'' ''y'') (hub_getTask ''t-0000000001'') demo_world))) = Inr demo_task"
proof -
  let ?m = "teamEffect (Some ''k'') (Dg_send ''x'' ''y'') (hub_getTask ''t-0000000001'')"
  define w where "w = snd (?m demo_world)"
  have run: "?m demo_world = (Inr demo_task, w)"
    and st: "s_tasks (db w) = [demo_task]" and sha: "s_sha (db w) = (\<lambda>_. [])"
    by (simp_all add: w_def effect_simps hub_getTask_def demo_defs find_task_def teamPut_def)
  have "?m w = (case find_task (t_id demo_task) (s_tasks (db w)) of
         None \<Rightarrow> (Inl (Error ''TEAM_TASK_REMOVED''), w) | Some now \<Rightarrow> (Inr now, w))"
    using teamEffect_once [OF run, of w] sha by (simp add: demo_defs)
  then show ?thesis unfolding w_def [symmetric] using st by (simp add: find_task_def)
qed

end
