(* ===== verification/QueueFacts.thy ===== *)
theory QueueFacts
  imports Frames HubFacts
begin

text \<open>
  The queue of an agent: \<open>pump\<close> takes jobs in order, starts the turn of each whose task is queued, and
  stops only at an empty queue or without a free slot; starting a turn touches no queue and the status
  of no other task; an error before the turn proper is only logged.
\<close>

section \<open>Queues and running turns\<close>

definition shape :: "world \<Rightarrow> string \<Rightarrow> (job list \<times> string list) option" where
  "shape w b = map_option (\<lambda>st. (as_queue st, mkeys (as_running st))) (agent_state_of b w)"

lemma update_state_eq:
  "update_state a f w = (Inr (), w\<lparr>hub := (hub w)\<lparr>h_states :=
     (case agent_state_of a w of None \<Rightarrow> h_states (hub w) | Some st \<Rightarrow> mset_key a (f st) (h_states (hub w)))\<rparr>\<rparr>)"
  by (simp add: update_state_def on_hub_def modify_def agent_state_of_def)

lemma agent_state_update:
  "agent_state_of b (snd (update_state a f w)) =
     (if b = a then map_option f (agent_state_of a w) else agent_state_of b w)"
  by (auto simp: update_state_eq agent_state_of_def update_conv' split: option.split)

lemma shape_update_state:
  "shape (snd (update_state a f w)) b =
     (if b = a then map_option (\<lambda>st. (as_queue (f st), mkeys (as_running (f st)))) (agent_state_of a w)
      else shape w b)"
  by (simp add: shape_def agent_state_update option.map_comp comp_def)

lemma shape_hub: "h_states h = h_states (hub w) \<Longrightarrow> shape (w\<lparr>hub := h\<rparr>) = shape w"
  by (simp add: shape_def agent_state_of_def fun_eq_iff)

interpretation queues: turn_frame "\<lambda>w. shape w = S" own for S own
proof
  fix w and f :: "agent_state \<Rightarrow> agent_state" and a
  assume f: "\<And>st. as_queue (f st) = as_queue st \<and> mkeys (as_running (f st)) = mkeys (as_running st) \<and>
      (\<forall>j. j \<noteq> own \<longrightarrow> mget (as_running (f st)) j = mget (as_running st) j)"
    and S: "shape w = S"
  have "shape (snd (update_state a f w)) b = shape w b" for b
    unfolding shape_update_state using f by (auto simp: shape_def)
  then show "shape (snd (update_state a f w)) = S" using S by auto
qed (auto simp: shape_def agent_state_of_def fun_eq_iff)

definition with_turn :: "string \<Rightarrow> string \<Rightarrow> (string \<Rightarrow> (job list \<times> string list) option) \<Rightarrow>
    string \<Rightarrow> (job list \<times> string list) option" where
  "with_turn a i S = S(a := map_option (\<lambda>(q, r). (q, if i \<in> set r then r else r @ [i])) (S a))"

lemma run_start_shape:
  "fst (run_start a jb w) = Inr () \<and> shape (snd (run_start a jb w)) = with_turn a (j_task jb) (shape w)"
proof -
  define f where "f st = st\<lparr>as_running := mset_key (j_task jb)
    \<lparr>rn_job = jb, rn_aborted = False, rn_queued = False, rn_stage = Preparing\<rparr> (as_running st)\<rparr>" for st :: agent_state
  define v where "v = snd (emitAgents (snd (update_state a f w)))"
  have eq: "run_start a jb w = catch_error (execute_begin a jb)
     (\<lambda>e. andthen (emit (Out_log (''task '' @ j_task jb @ '': '' @ message e))) (\<lambda>_. set_stage a (j_task jb) Ended)) v"
    by (simp add: run_start_def v_def f_def [abs_def] andthen_def update_state_eq emitAgents_def gets_def emit_apply)
  have "shape v = shape (snd (update_state a f w))"
    by (simp add: v_def emitAgents_def emit_apply shape_def agent_state_of_def fun_eq_iff)
  also have "\<dots> = with_turn a (j_task jb) (shape w)"
    by (auto simp: fun_eq_iff with_turn_def shape_def agent_state_update f_def update_keys option.map_comp
        comp_def)
  finally have v: "shape v = with_turn a (j_task jb) (shape w)" .
  let ?rest = "\<lambda>e. andthen (emit (Out_log (''task '' @ j_task jb @ '': '' @ message e))) (\<lambda>_. set_stage a (j_task jb) Ended)"
  have "keeps_inv (\<lambda>w. shape w = shape v) (catch_error (execute_begin a jb) ?rest)"
    by (intro keeps queues.keeps_execute_begin [OF refl])
  then have "shape (snd (run_start a jb w)) = shape v" unfolding eq by (rule keeps_invD) simp
  moreover have "fst (run_start a jb w) = Inr ()"
    unfolding eq by (auto simp: catch_error_def andthen_def emit_apply set_stage_def update_state_eq
        split: prod.split sum.split)
  ultimately show ?thesis using v by simp
qed

section \<open>The status of the other tasks\<close>

text \<open>The start of a turn of task \<open>i\<close> leaves the status of every other task as it is (\<open>S\<close>).\<close>

definition status_in :: "store \<Rightarrow> string \<Rightarrow> task_status option" where
  "status_in s j = map_option t_status (find_task j (s_tasks s))"

definition others_are :: "string \<Rightarrow> (string \<Rightarrow> task_status option) \<Rightarrow> store \<Rightarrow> bool" where
  "others_are i S s \<longleftrightarrow> (\<forall>j. j \<noteq> i \<longrightarrow> status_in s j = S j)"

lemma others_same: "(\<And>s. s_tasks (snd (m s)) = s_tasks s) \<Longrightarrow> keeps_inv (others_are i S) m"
  by (simp add: keeps_inv_def others_are_def status_in_def)

lemma others_modify: "(\<And>s. s_tasks (f s) = s_tasks s) \<Longrightarrow> keeps_inv (others_are i S) (modify f)"
  by (rule others_same) (simp add: modify_def)

lemma others_update:
  assumes "\<And>t. t_id (f t) = t_id t" and "k \<noteq> i \<Longrightarrow> (\<And>t. t_status (f t) = t_status t)"
  shows "keeps_inv (others_are i S) (update_task k f)"
proof (rule keeps_invI)
  fix s
  assume "others_are i S s"
  moreover have "status_in (snd (update_task k f s)) j = status_in s j" if "j \<noteq> i" for j
    using assms that
    by (auto simp: status_in_def update_task_def modify_def find_task_update option.map_comp comp_def
        dest: find_task_id intro!: option.map_cong)
  ultimately show "others_are i S (snd (update_task k f s))" by (simp add: others_are_def)
qed

lemma status_change_id: "t_id (status_change st now t) = t_id t"
  by (cases st) simp_all

lemma others_rows:
  "keeps_inv (others_are i S) (setExecution k e)" "keeps_inv (others_are i S) (setPeer k p)"
  "keeps_inv (others_are i S) (setResult k r)" "keeps_inv (others_are i S) (setRuntime k r)"
  "keeps_inv (others_are i S) (countTurn k)" "keeps_inv (others_are i S) (addUsage k n m)"
  unfolding setExecution_def setPeer_def setResult_def setRuntime_def countTurn_def addUsage_def Let_def
  by (rule others_update; simp)+

lemma others_read:
  "keeps_inv (others_are i S) (teamPut k v)" "keeps_inv (others_are i S) (teamGet k f)"
  "keeps_inv (others_are i S) (teamDeletePrefix k)" "keeps_inv (others_are i S) (getTask k)"
  "keeps_inv (others_are i S) (appendEvent k ev)" "keeps_inv (others_are i S) (treeTurns k)"
  by (auto intro!: others_same simp: teamPut_apply appendEvent_def teamDeletePrefix_def treeTurns_def op_defs getTask_def)

lemma others_nodeId: "keeps_inv (others_are i S) nodeId"
  unfolding nodeId_def by (intro keeps others_read) (auto intro!: others_same simp: draw_def)

lemma others_setStatus: "keeps_inv (others_are i S) (setStatus i st)"
  unfolding setStatus_def getTask_existing_def
  by (intro keeps others_read others_update) (simp_all add: status_change_id)

lemma others_recordUsage: "keeps_inv (others_are i S) (recordUsage row ts c b)"
  unfolding recordUsage_def by (intro keeps others_rows others_modify) auto

lemma others_outside:
  "keeps_inv (\<lambda>w. others_are i S (db w)) (on_hub g)" "keeps_inv (\<lambda>w. others_are i S (db w)) (emit x)"
  "keeps_inv (\<lambda>w. others_are i S (db w)) (update_state a h)"
  by (simp_all add: keeps_inv_def on_hub_apply emit_apply update_state_eq)

lemma others_resolve: "keeps_inv (\<lambda>w. others_are i S (db w)) (resolve k)" "keeps_inv (\<lambda>w. others_are i S (db w)) (agentFor t)"
  by (auto simp: keeps_inv_def resolve_def agentFor_def Let_def split: option.split)

lemma others_transaction:
  assumes "keeps_inv (\<lambda>w. others_are i S (db w)) m"
  shows "keeps_inv (\<lambda>w. others_are i S (db w)) (transaction m)"
proof (rule keeps_invI)
  fix w :: world
  assume "others_are i S (db w)"
  moreover from this have "others_are i S (db (snd (m w)))" "others_are i S (db (snd (m (w\<lparr>db := (db w)\<lparr>s_depth := 1\<rparr>\<rparr>))))"
    using assms by (auto simp: keeps_inv_def others_are_def status_in_def)
  ultimately show "others_are i S (db (snd (transaction m w)))"
    by (auto simp: transaction_def others_are_def status_in_def rollback_def split: prod.split sum.split)
qed

lemmas others_frame = others_rows others_read others_nodeId others_setStatus others_recordUsage others_outside
  others_resolve others_transaction

lemma others_getTask: "keeps_inv (\<lambda>w. others_are i S (db w)) (hub_getTask k)"
  unfolding hub_getTask_def by (intro keeps others_frame)

lemma others_record_event: "keeps_inv (\<lambda>w. others_are i S (db w)) (record_event t e)"
  unfolding record_event_def record_usage_def usage_runtime_def
  by (cases e) (auto intro!: keeps others_frame others_getTask)

lemma others_finish: "keeps_inv (\<lambda>w. others_are i S (db w)) (finish i st r)"
  unfolding finish_def notify_parent_def by (intro keeps others_frame others_record_event)

lemma others_failed:
  "t_id t = i \<Longrightarrow> keeps_inv (\<lambda>w. others_are i S (db w)) (fail_turn t m)"
  "t_id t = i \<Longrightarrow> keeps_inv (\<lambda>w. others_are i S (db w)) (end_failed a t m)"
  unfolding fail_turn_def end_failed_def set_stage_def
  by (auto intro!: keeps others_frame others_record_event others_finish)

lemma others_coord_begin: "keeps_inv (\<lambda>w. others_are i S (db w)) (coord_begin t ag x)"
  unfolding coord_begin_def new_outbound_def get_outbound_def originChain_def by (intro keeps others_frame)

lemma others_execute:
  assumes "t_id t = i"
  shows "keeps_inv (\<lambda>w. others_are i S (db w)) (execute_remote a t ag x)"
    and "keeps_inv (\<lambda>w. others_are i S (db w)) (execute_local a t ag x)"
  unfolding execute_remote_def execute_local_def start_local_def tree_spent_def record_input_def coord_active_def
    get_outbound_def consume_def set_stage_def set_queued_def assms
  by (intro keeps others_frame others_record_event others_finish others_failed others_coord_begin assms)+

lemma others_execute_begin: "keeps_inv (\<lambda>w. others_are (j_task jb) S (db w)) (execute_begin a jb)"
proof (rule keeps_invI)
  fix w :: world
  assume w: "others_are (j_task jb) S (db w)"
  show "others_are (j_task jb) S (db (snd (execute_begin a jb w)))"
  proof (cases "find_task (j_task jb) (s_tasks (db w))")
    case None
    then show ?thesis using w by (simp add: execute_begin_def hub_getTask_def andthen_def on_db_apply)
  next
    case (Some t)
    let ?rest = "andthen (agentFor t) (\<lambda>agent.
      andthen (update_state a (\<lambda>st. st\<lparr>as_agent := Some agent\<rparr>)) (\<lambda>_.
      if t_execution t \<noteq> None then execute_remote a t agent (j_text jb) else execute_local a t agent (j_text jb)))"
    have "execute_begin a jb w = ?rest w"
      using Some by (simp add: execute_begin_def hub_getTask_def andthen_def on_db_apply)
    moreover have "keeps_inv (\<lambda>w. others_are (j_task jb) S (db w)) ?rest"
      using find_task_id [OF Some] by (intro keeps others_frame others_execute)
    ultimately show ?thesis using w by (simp add: keeps_inv_def)
  qed
qed

lemma run_start_others: "j \<noteq> j_task jb \<Longrightarrow> status_in (db (snd (run_start a jb w))) j = status_in (db w) j"
proof -
  assume "j \<noteq> j_task jb"
  moreover have "keeps_inv (\<lambda>w'. others_are (j_task jb) (status_in (db w)) (db w')) (run_start a jb)"
    unfolding run_start_def emitAgents_def set_stage_def by (intro keeps others_frame others_execute_begin)
  then have "others_are (j_task jb) (status_in (db w)) (db (snd (run_start a jb w)))"
    by (rule keeps_invD) (simp add: others_are_def)
  ultimately show ?thesis by (simp add: others_are_def)
qed

section \<open>A turn that starts\<close>

text \<open>
  When the start of a turn has returned, its task is no longer queued, or the turn has ended because the
  start threw; later starts of other turns keep this.
\<close>

definition turn_ended :: "string \<Rightarrow> string \<Rightarrow> world \<Rightarrow> bool" where
  "turn_ended a i w \<longleftrightarrow>
     (\<exists>st r. agent_state_of a w = Some st \<and> mget (as_running st) i = Some r \<and> rn_stage r = Ended)"

definition begun :: "string \<Rightarrow> string \<Rightarrow> world \<Rightarrow> bool" where
  "begun a i w \<longleftrightarrow> status_in (db w) i \<noteq> Some Queued \<or> turn_ended a i w"

definition unqueued :: "string \<Rightarrow> world \<Rightarrow> bool" where
  "unqueued i w \<longleftrightarrow> status_in (db w) i \<noteq> Some Queued"

lemma unqueued_kept:
  assumes "\<And>k S. keeps_inv (\<lambda>w. others_are k S (db w)) m"
  shows "keeps_inv (unqueued i) m"
proof (rule keeps_invI)
  fix w
  assume w: "unqueued i w"
  have "others_are (i @ ''x'') (status_in (db w)) (db (snd (m w)))"
    by (rule keeps_invD [OF assms]) (simp add: others_are_def)
  then show "unqueued i (snd (m w))" using w by (simp add: others_are_def unqueued_def)
qed

abbreviation unqueues :: "string \<Rightarrow> 'a act \<Rightarrow> bool" where
  "unqueues i m \<equiv> valid (\<lambda>_. True) m (\<lambda>_. unqueued i)"

lemma unqueues_skip: "(\<And>x. unqueues i (f x)) \<Longrightarrow> unqueues i (andthen m f)"
  by (rule valid_andthen [of _ _ "\<lambda>_ _. True"]) (simp_all add: valid_def)

lemma unqueues_then: "unqueues i m \<Longrightarrow> (\<And>x. keeps_inv (unqueued i) (f x)) \<Longrightarrow> unqueues i (andthen m f)"
  by (rule valid_andthen [of _ _ "\<lambda>_. unqueued i"]) (simp_all add: valid_keeps)

lemma unqueues_catch: "unqueues i m \<Longrightarrow> (\<And>e. unqueues i (h e)) \<Longrightarrow> unqueues i (catch_error m h)"
  by (fastforce simp: valid_def catch_error_def split: prod.splits sum.splits)

lemma unqueues_setStatus: "st \<noteq> Queued \<Longrightarrow> unqueues i (on_db (setStatus i st))"
  by (cases st) (auto simp: valid_def unqueued_def status_in_def setStatus_def getTask_existing_def update_task_def
      op_defs on_db_apply find_task_update dest: find_task_id split: option.splits)

lemma unqueues_finish: "st \<noteq> Queued \<Longrightarrow> unqueues i (finish i st r)"
  unfolding finish_def notify_parent_def
  by (rule unqueues_skip, rule unqueues_then [OF unqueues_setStatus])
    (assumption, rule unqueued_kept, intro keeps others_frame others_record_event)

lemma unqueues_failed:
  "t_id t = i \<Longrightarrow> unqueues i (fail_turn t m)" "t_id t = i \<Longrightarrow> unqueues i (end_failed a t m)"
  unfolding fail_turn_def end_failed_def set_stage_def
  by (simp_all add: unqueues_skip unqueues_finish unqueues_then unqueued_kept others_outside)

lemma unqueues_if: "unqueues i m \<Longrightarrow> unqueues i n \<Longrightarrow> unqueues i (if b then m else n)"
  by simp

lemma unqueues_remote:
  assumes "t_id t = i"
  shows "unqueues i (execute_remote a t ag x)"
proof -
  have run: "unqueues i (andthen (on_db (setStatus i Running)) (\<lambda>row. andthen (emit (Out_task row)) (\<lambda>_.
      andthen (coord_begin row ag x) (\<lambda>jb. set_stage a i (Remote jb)))))"
    unfolding set_stage_def
    by (rule unqueues_then [OF unqueues_setStatus], simp, rule unqueued_kept)
      (intro keeps others_frame others_coord_begin)
  have ends: "unqueues i (andthen (finish i Failed r) (\<lambda>_. set_stage a i Ended))"
    "unqueues i (andthen (fail_turn t m) (\<lambda>_. set_stage a i Ended))" for r m
    unfolding set_stage_def
    by (simp_all add: unqueues_then unqueues_finish unqueues_failed unqueued_kept others_outside assms)
  show ?thesis
    unfolding execute_remote_def assms
    by (rule unqueues_skip, rule unqueues_if, rule ends, rule unqueues_catch, rule unqueues_skip, rule unqueues_skip)
      (rule run, rule ends)
qed

lemma unqueues_local:
  assumes "t_id t = i"
  shows "unqueues i (execute_local a t ag x)"
proof -
  have "unqueues i (start_local a t x)"
    unfolding start_local_def record_input_def set_stage_def set_queued_def assms
    by (rule unqueues_skip, rule unqueues_then [OF unqueues_setStatus], simp, rule unqueued_kept)
      (intro keeps others_frame others_record_event)
  then show ?thesis
    unfolding execute_local_def
    by (auto intro!: unqueues_skip unqueues_failed(2) assms split: option.split)
qed

lemma unqueues_execute_begin: "unqueues (j_task jb) (execute_begin a jb)"
proof -
  let ?rest = "\<lambda>t. andthen (agentFor t) (\<lambda>agent. andthen (update_state a (\<lambda>st. st\<lparr>as_agent := Some agent\<rparr>)) (\<lambda>_.
    if t_execution t \<noteq> None then execute_remote a t agent (j_text jb) else execute_local a t agent (j_text jb)))"
  have "unqueues (j_task jb) (?rest t)" if "t_id t = j_task jb" for t
    using that by (auto intro!: unqueues_skip unqueues_remote unqueues_local)
  then have "valid (\<lambda>_. t_id t = j_task jb) (?rest t) (\<lambda>_. unqueued (j_task jb))" for t
    by (auto simp: valid_def)
  moreover have "valid (\<lambda>_. True) (hub_getTask (j_task jb)) (\<lambda>t _. t_id t = j_task jb)"
    by (auto simp: valid_def hub_getTask_def andthen_def on_db_apply dest: find_task_id split: option.splits)
  ultimately show ?thesis unfolding execute_begin_def by (rule valid_andthen [rotated])
qed

interpretation ended: turn_frame "\<lambda>w. i \<noteq> own \<longrightarrow> turn_ended a i w" own for a i own
proof
  fix w and f :: "agent_state \<Rightarrow> agent_state" and b
  assume "\<And>st. as_queue (f st) = as_queue st \<and> mkeys (as_running (f st)) = mkeys (as_running st) \<and>
      (\<forall>j. j \<noteq> own \<longrightarrow> mget (as_running (f st)) j = mget (as_running st) j)"
    and "i \<noteq> own \<longrightarrow> turn_ended a i w"
  then show "i \<noteq> own \<longrightarrow> turn_ended a i (snd (update_state b f w))"
    by (auto simp: turn_ended_def agent_state_update)
qed (auto simp: turn_ended_def agent_state_of_def)

lemma stage_ended:
  "agent_state_of a w = Some st \<Longrightarrow> mget (as_running st) i = Some r \<Longrightarrow>
   turn_ended a i (snd (set_stage a i Ended w))"
  by (simp add: turn_ended_def set_stage_def agent_state_update update_conv')

lemma run_start_begun:
  assumes "agent_state_of a w = Some st"
  shows "begun a (j_task jb) (snd (run_start a jb w)) \<and> (begun a i w \<longrightarrow> begun a i (snd (run_start a jb w)))"
proof -
  define f where "f st = st\<lparr>as_running := mset_key (j_task jb)
    \<lparr>rn_job = jb, rn_aborted = False, rn_queued = False, rn_stage = Preparing\<rparr> (as_running st)\<rparr>" for st :: agent_state
  define v where "v = snd (emitAgents (snd (update_state a f w)))"
  define h where "h = (\<lambda>e. andthen (emit (Out_log (''task '' @ j_task jb @ '': '' @ message e)))
    (\<lambda>_. set_stage a (j_task jb) Ended))"
  have eq: "run_start a jb w = catch_error (execute_begin a jb) h v"
    by (simp add: run_start_def v_def f_def [abs_def] h_def andthen_def update_state_eq emitAgents_def gets_def emit_apply)
  have v: "agent_state_of b v = (if b = a then Some (f st) else agent_state_of b w)" "db v = db w" for b
    using assms by (simp_all add: v_def emitAgents_def emit_apply agent_state_of_def update_state_eq update_conv')
  obtain r u where x: "execute_begin a jb v = (r, u)" by (cases "execute_begin a jb v")
  have "shape u = shape v"
  proof -
    have "keeps_inv (\<lambda>w. shape w = shape v) (execute_begin a jb)" by (rule queues.keeps_execute_begin [OF refl])
    from keeps_invD [OF this, of v] show ?thesis by (simp add: x)
  qed
  then have "map_option (\<lambda>st. mkeys (as_running st)) (agent_state_of a u) = Some (mkeys (as_running (f st)))"
    using v(1) [of a] by (auto simp: shape_def dest!: fun_cong [of _ _ a])
  then obtain su where su: "agent_state_of a u = Some su" "mkeys (as_running su) = mkeys (as_running (f st))" by auto
  from su(2) have "j_task jb \<in> set (mkeys (as_running su))" by (simp add: f_def update_keys)
  then obtain turn where turn: "mget (as_running su) (j_task jb) = Some turn"
    by (cases "mget (as_running su) (j_task jb)") (simp_all add: map_of_eq_None_iff)
  have own: "begun a (j_task jb) (snd (run_start a jb w))"
  proof (cases r)
    case (Inl e)
    then show ?thesis
      using stage_ended su(1) turn
      by (simp add: eq x h_def catch_error_def begun_def andthen_def emit_apply agent_state_of_def)
  next
    case (Inr y)
    then show ?thesis
      using unqueues_execute_begin [of a jb] x by (auto simp: eq catch_error_def begun_def valid_def unqueued_def)
  qed
  have "begun a i (snd (run_start a jb w))" if "begun a i w" "i \<noteq> j_task jb"
  proof (cases "turn_ended a i w")
    case True
    then have "turn_ended a i v" using v assms that(2) by (auto simp: turn_ended_def f_def update_conv')
    moreover have "keeps_inv (\<lambda>w. i \<noteq> j_task jb \<longrightarrow> turn_ended a i w) (catch_error (execute_begin a jb) h)"
      unfolding h_def by (intro keeps ended.keeps_execute_begin [OF refl])
    ultimately show ?thesis using that(2) keeps_invD by (fastforce simp: eq begun_def)
  next
    case False
    then show ?thesis using that run_start_others [OF that(2)] by (simp add: begun_def)
  qed
  then show ?thesis using own by blast
qed

section \<open>\<open>pump\<close>\<close>

text \<open>The tasks among those of some jobs that were queued when the loop began.\<close>

definition due :: "store \<Rightarrow> job list \<Rightarrow> string set" where
  "due s jobs = {i \<in> j_task ` set jobs. status_in s i = Some Queued}"

definition pumped :: "string \<Rightarrow> agent_state \<Rightarrow> world \<Rightarrow> world \<Rightarrow> bool" where
  "pumped a st w w' \<longleftrightarrow> (\<exists>st' k. agent_state_of a w' = Some st' \<and> as_queue st' = drop k (as_queue st) \<and>
     (as_queue st' = [] \<or> \<not> free_slot st') \<and>
     set (mkeys (as_running st')) = set (mkeys (as_running st)) \<union> due (db w) (take k (as_queue st)) \<and>
     (\<forall>i \<in> due (db w) (take k (as_queue st)). begun a i w') \<and> (\<forall>i. begun a i w \<longrightarrow> begun a i w') \<and>
     (\<forall>b. b = a \<or> shape w' b = shape w b))"

text \<open>One round: the job leaves the queue and, when its task is queued, its turn starts.\<close>

definition pump_round :: "string \<Rightarrow> job \<Rightarrow> job list \<Rightarrow> unit act" where
  "pump_round a jb rest =
     andthen (update_state a (\<lambda>y. y\<lparr>as_queue := rest\<rparr>)) (\<lambda>_.
     andthen (on_db (getTask (j_task jb))) (\<lambda>task.
     when_do (map_option t_status task = Some Queued) (run_start a jb)))"

lemma pump_round_shape:
  assumes "agent_state_of a w = Some st"
  shows "\<exists>r w'. pump_round a jb rest w = (Inr (), w') \<and> shape w' a = Some (rest, r) \<and>
    set r = set (mkeys (as_running st)) \<union> due (db w) [jb] \<and>
    (\<forall>b. b = a \<or> shape w' b = shape w b) \<and> (\<forall>j. j \<in> due (db w) [jb] \<or> status_in (db w') j = status_in (db w) j) \<and>
    (\<forall>i. i \<in> due (db w) [jb] \<or> begun a i w \<longrightarrow> begun a i w')"
proof -
  define v where "v = snd (update_state a (\<lambda>y. y\<lparr>as_queue := rest\<rparr>) w)"
  have v: "shape v b = (if b = a then Some (rest, mkeys (as_running st)) else shape w b)" for b
    using assms by (simp add: v_def shape_update_state)
  have db: "db v = db w" by (simp add: v_def update_state_eq)
  obtain sv where sv: "agent_state_of a v = Some sv" "as_running sv = as_running st"
    using assms by (simp add: v_def agent_state_update)
  have bv: "begun a i v = begun a i w" for i using sv assms by (simp add: begun_def turn_ended_def db)
  define m where "m = (if status_in (db w) (j_task jb) = Some Queued then run_start a jb else ret ())"
  have run: "pump_round a jb rest w = m v"
    by (simp add: pump_round_def v_def m_def andthen_def update_state_eq on_db_apply when_do_def status_in_def)
  have others: "\<forall>j. j \<in> due (db w) [jb] \<or> status_in (db (snd (m v))) j = status_in (db w) j"
  proof
    fix j
    show "j \<in> due (db w) [jb] \<or> status_in (db (snd (m v))) j = status_in (db w) j"
      using run_start_others [of j jb a v] db by (cases "j = j_task jb") (simp_all add: m_def due_def)
  qed
  show ?thesis
  proof (cases "status_in (db w) (j_task jb) = Some Queued")
    case True
    then have "m = run_start a jb" "due (db w) [jb] = {j_task jb}" by (auto simp: m_def due_def)
    then show ?thesis
      using run v others run_start_shape [of a jb v] run_start_begun [OF sv(1), of jb] bv
      by (cases "m v") (auto simp: with_turn_def)
  next
    case False
    then have "m = ret ()" "due (db w) [jb] = {}" by (auto simp: m_def due_def)
    then show ?thesis using run v others bv by (cases "m v") (auto)
  qed
qed

lemma due_later:
  "\<forall>j. j \<in> due s [jb] \<or> status_in s' j = status_in s j \<Longrightarrow> due s [jb] \<union> due s' jobs = due s (jb # jobs)"
  by (auto simp: due_def)

lemma pump_rounds_pumped:
  "agent_state_of a w = Some st \<Longrightarrow> length (as_queue st) \<le> n \<Longrightarrow>
   \<exists>w'. pump_rounds n a w = (Inr (), w') \<and> pumped a st w w'"
proof (induction n arbitrary: w st)
  case 0
  then show ?case by (auto simp: pumped_def due_def intro!: exI [of _ st] exI [of _ "0::nat"])
next
  case (Suc n)
  show ?case
  proof (cases "free_slot st \<and> as_queue st \<noteq> []")
    case False
    then have "pump_rounds (Suc n) a w = (Inr (), w)"
      using Suc.prems(1) by (auto split: list.split bool.split)
    then show ?thesis
      using Suc.prems(1) False by (auto simp: pumped_def due_def intro!: exI [of _ st] exI [of _ "0::nat"])
  next
    case True
    then obtain jb rest where q: "as_queue st = jb # rest" by (cases "as_queue st") auto
    obtain r u where u: "pump_round a jb rest w = (Inr (), u)" "shape u a = Some (rest, r)"
      and r: "set r = set (mkeys (as_running st)) \<union> due (db w) [jb]"
      and other: "\<forall>b. b = a \<or> shape u b = shape w b" "\<forall>j. j \<in> due (db w) [jb] \<or> status_in (db u) j = status_in (db w) j"
      and begins: "\<And>i. i \<in> due (db w) [jb] \<or> begun a i w \<Longrightarrow> begun a i u"
      using pump_round_shape [OF Suc.prems(1)] by blast
    have step: "pump_rounds (Suc n) a w = pump_rounds n a u"
      using True q u(1) Suc.prems(1)
      by (simp add: pump_round_def andthen_assoc [symmetric])
        (simp add: andthen_def [of _ "\<lambda>_. pump_rounds n a"] andthen_assoc)
    from u(2) obtain su where su: "agent_state_of a u = Some su" "as_queue su = rest" "mkeys (as_running su) = r"
      by (auto simp: shape_def)
    obtain w' where w': "pump_rounds n a u = (Inr (), w')" "pumped a su u w'"
      using Suc.IH [OF su(1)] su(2) q Suc.prems(2) by auto
    then obtain st' k where st': "agent_state_of a w' = Some st'" "as_queue st' = drop k rest"
      and rest: "as_queue st' = [] \<or> \<not> free_slot st'"
        "set (mkeys (as_running st')) = set r \<union> due (db u) (take k rest)"
        "\<forall>b. b = a \<or> shape w' b = shape u b"
        "\<forall>i \<in> due (db u) (take k rest). begun a i w'" "\<forall>i. begun a i u \<longrightarrow> begun a i w'"
      unfolding pumped_def su(2,3) by blast
    have all: "\<forall>b. b = a \<or> shape w' b = shape w b" using rest(3) other(1) by metis
    have "set (mkeys (as_running st')) = set (mkeys (as_running st)) \<union> due (db w) (jb # take k rest)"
      unfolding rest(2) r Un_assoc due_later [OF other(2)] ..
    moreover have "\<forall>i. begun a i w \<longrightarrow> begun a i w'" using begins rest(5) by blast
    moreover have "\<forall>i \<in> due (db w) (jb # take k rest). begun a i w'"
      using begins rest(4,5) due_later [OF other(2), of "take k rest"] by blast
    ultimately have "pumped a st w w'"
      unfolding pumped_def
      by (intro exI [of _ st'] exI [of _ "Suc k"]) (use st' rest(1) q all in auto)
    then show ?thesis using step w' by auto
  qed
qed

text \<open>
  C6 (pump_fills). Unless the hub is stopping, \<open>pump\<close> returns, with the agent's queue empty or every
  slot of the agent taken.  The jobs it took are the first ones of the queue, and the turns that run
  afterwards are the ones that ran before and one for each task of these jobs that was queued: no
  queued job that leaves the queue is passed over, and a job whose task is not queued starts nothing.  Each of
  these turns really began: its task is no longer queued, or the start threw and the turn has ended.  No other
  agent's queue or turns changed.
\<close>

theorem pump_fills:
  assumes "\<not> h_stopping (hub w)" and "agent_state_of a w = Some st"
  shows "\<exists>w' st' k. pump a w = (Inr (), w') \<and> agent_state_of a w' = Some st' \<and>
    as_queue st' = drop k (as_queue st) \<and> (as_queue st' = [] \<or> maxTasks st' \<le> length (as_running st')) \<and>
    set (mkeys (as_running st')) = set (mkeys (as_running st)) \<union>
      {i \<in> j_task ` set (take k (as_queue st)). map_option t_status (find_task i (s_tasks (db w))) = Some Queued} \<and>
    (\<forall>i \<in> j_task ` set (take k (as_queue st)). map_option t_status (find_task i (s_tasks (db w))) = Some Queued \<longrightarrow>
       map_option t_status (find_task i (s_tasks (db w'))) \<noteq> Some Queued \<or>
       (\<exists>r. mget (as_running st') i = Some r \<and> rn_stage r = Ended)) \<and>
    (\<forall>b. b = a \<or> map_option (\<lambda>x. (as_queue x, mkeys (as_running x))) (agent_state_of b w') =
                  map_option (\<lambda>x. (as_queue x, mkeys (as_running x))) (agent_state_of b w))"
proof -
  obtain w' where "pump_rounds (length (as_queue st)) a w = (Inr (), w')" and p: "pumped a st w w'"
    using pump_rounds_pumped [OF assms(2) order_refl] by blast
  then have "pump a w = (Inr (), w')" using assms by (simp add: pump_def)
  moreover from p obtain st' k where w': "agent_state_of a w' = Some st'" "as_queue st' = drop k (as_queue st)"
      "as_queue st' = [] \<or> maxTasks st' \<le> length (as_running st')"
      "set (mkeys (as_running st')) = set (mkeys (as_running st)) \<union> due (db w) (take k (as_queue st))"
    and began: "\<forall>i \<in> due (db w) (take k (as_queue st)). begun a i w'"
    and others: "\<forall>b. b = a \<or> shape w' b = shape w b"
    unfolding pumped_def free_slot_def not_less by blast
  moreover have "\<forall>i \<in> j_task ` set (take k (as_queue st)). status_in (db w) i = Some Queued \<longrightarrow>
      status_in (db w') i \<noteq> Some Queued \<or> (\<exists>r. mget (as_running st') i = Some r \<and> rn_stage r = Ended)"
    using began w'(1) by (auto simp: begun_def turn_ended_def due_def)
  ultimately show ?thesis unfolding shape_def due_def status_in_def by blast
qed

definition queued_world :: world where
  "queued_world = demo_world\<lparr>hub := demo_hub\<lparr>h_states := [(''dev'', (demo_state ''dev'')
     \<lparr>as_queue := [\<lparr>j_task = ''gone'', j_text = ''x''\<rparr>, \<lparr>j_task = ''t-0000000001'', j_text = ''y''\<rparr>]\<rparr>)]\<rparr>\<rparr>"

text \<open>The job of the deleted task starts nothing; the other one does, or waits for a slot.\<close>

lemma pump_fills_witness:
  "\<exists>w' st'. pump ''dev'' queued_world = (Inr (), w') \<and> agent_state_of ''dev'' w' = Some st' \<and>
     (if as_queue st' = [] then set (mkeys (as_running st')) = {''t-0000000001''}
      else maxTasks st' \<le> length (as_running st'))"
proof -
  let ?q = "[\<lparr>j_task = ''gone'', j_text = ''x''\<rparr>, \<lparr>j_task = ''t-0000000001'', j_text = ''y''\<rparr>]"
  have "\<not> h_stopping (hub queued_world)" by (simp add: queued_world_def demo_defs)
  moreover have st: "agent_state_of ''dev'' queued_world = Some ((demo_state ''dev'')\<lparr>as_queue := ?q\<rparr>)"
    by (simp add: queued_world_def agent_state_of_def)
  ultimately obtain w' st' k where w': "pump ''dev'' queued_world = (Inr (), w')" "agent_state_of ''dev'' w' = Some st'"
    and q: "as_queue st' = drop k ?q" "as_queue st' = [] \<or> maxTasks st' \<le> length (as_running st')"
    and r: "set (mkeys (as_running st')) = set (mkeys (as_running (demo_state ''dev''))) \<union>
      {i \<in> j_task ` set (take k ?q). map_option t_status (find_task i (s_tasks (db queued_world))) = Some Queued}"
    using pump_fills [of queued_world "''dev''"] by auto
  have "set (mkeys (as_running st')) = {''t-0000000001''}" if "as_queue st' = []"
  proof -
    have "take k ?q = ?q" using q(1) that by simp
    then show ?thesis
      using r by (auto simp: queued_world_def demo_defs find_task_def demo_state_def)
  qed
  then show ?thesis using w' q(2) by auto
qed

section \<open>A job whose agent does not load\<close>

lemma agentFor_config:
  "layout v = layout w \<Longrightarrow> opts v = opts w \<Longrightarrow> fst (agentFor t v) = fst (agentFor t w) \<and> snd (agentFor t v) = v"
  by (simp add: agentFor_def resolve_def builtin_def Let_def split: option.split)

text \<open>
  When the agent's configuration no longer loads by the time its
  job is taken, the job has left the queue and its turn ends at once, but the database is as it was:
  the task is still queued, nobody is told, and no turn of it will start.
\<close>

theorem unloadable_agent_strands_task:
  assumes "agent_state_of a w = Some st" and "find_task (j_task jb) (s_tasks (db w)) = Some t"
    and "t_status t = Queued" and "fst (agentFor t w) = Inl e"
  shows "\<exists>w'. pump_round a jb rest w = (Inr (), w') \<and> db w' = db w \<and> turn_ended a (j_task jb) w' \<and>
    (\<exists>st'. agent_state_of a w' = Some st' \<and> as_queue st' = rest) \<and>
    (\<forall>x \<in> set (outs w'). x \<in> set (outs w) \<or> (\<exists>is. x = Out_agents is) \<or> (\<exists>m. x = Out_log m))"
proof -
  define v where "v = snd (update_state a (\<lambda>y. y\<lparr>as_queue := rest\<rparr>) w)"
  define u where "u = snd (update_state a (\<lambda>st. st\<lparr>as_running := mset_key (j_task jb)
    \<lparr>rn_job = jb, rn_aborted = False, rn_queued = False, rn_stage = Preparing\<rparr> (as_running st)\<rparr>) v)"
  let ?x = "u\<lparr>outs := outs u @ [Out_agents (sort (mkeys (h_states (hub u))))]\<rparr>"
  let ?y = "?x\<lparr>outs := outs ?x @ [Out_log (''task '' @ j_task jb @ '': '' @ message e)]\<rparr>"
  have u: "db u = db w" "outs u = outs w" "layout u = layout w" "opts u = opts w"
    by (simp_all add: u_def v_def update_state_eq)
  have ag: "agentFor t ?x = (Inl e, ?x)"
    using agentFor_config [of ?x w t] u assms(4) by (simp add: prod_eq_iff)
  have steps: "update_state a (\<lambda>y. y\<lparr>as_queue := rest\<rparr>) w = (Inr (), v)"
    "update_state a (\<lambda>st. st\<lparr>as_running := mset_key (j_task jb)
      \<lparr>rn_job = jb, rn_aborted = False, rn_queued = False, rn_stage = Preparing\<rparr> (as_running st)\<rparr>) v = (Inr (), u)"
    by (simp_all add: v_def u_def prod_eq_iff update_state_eq)
  have dbv: "db v = db w" by (simp add: v_def update_state_eq)
  have "execute_begin a jb ?x = (Inl e, ?x)"
    using assms(2) u(1) ag by (simp add: execute_begin_def hub_getTask_def andthen_def on_db_apply)
  then have "run_start a jb v = set_stage a (j_task jb) Ended ?y"
    by (simp add: run_start_def andthen_def steps emitAgents_def gets_def emit_apply catch_error_def)
  moreover have "set_stage a (j_task jb) Ended ?y = (Inr (), snd (set_stage a (j_task jb) Ended ?y))"
    by (simp add: set_stage_def prod_eq_iff update_state_eq)
  ultimately have run: "pump_round a jb rest w = (Inr (), snd (set_stage a (j_task jb) Ended ?y))"
    using assms(2,3) dbv by (simp add: pump_round_def andthen_def steps on_db_apply when_do_def)
  have "agent_state_of a u = Some (st\<lparr>as_queue := rest, as_running := mset_key (j_task jb)
    \<lparr>rn_job = jb, rn_aborted = False, rn_queued = False, rn_stage = Preparing\<rparr> (as_running st)\<rparr>)"
    using assms(1) by (simp add: u_def v_def agent_state_update)
  then have y: "agent_state_of a ?y = Some (st\<lparr>as_queue := rest, as_running := mset_key (j_task jb)
    \<lparr>rn_job = jb, rn_aborted = False, rn_queued = False, rn_stage = Preparing\<rparr> (as_running st)\<rparr>)"
    by (simp add: agent_state_of_def)
  show ?thesis
    unfolding run turn_ended_def using y u
    by (auto simp: set_stage_def agent_state_update update_conv') (auto simp: update_state_eq)
qed

definition broken_world :: world where
  "broken_world = queued_world\<lparr>opts := demo_options\<lparr>op_builtins := []\<rparr>,
     layout := demo_layout\<lparr>ly_files := []\<rparr>\<rparr>"

lemma unloadable_agent_strands_task_witness:
  "\<exists>w'. pump_round ''dev'' \<lparr>j_task = ''t-0000000001'', j_text = ''y''\<rparr> [] broken_world = (Inr (), w') \<and>
     map_option t_status (find_task ''t-0000000001'' (s_tasks (db w'))) = Some Queued"
proof -
  have task: "find_task ''t-0000000001'' (s_tasks (db broken_world)) = Some demo_task" "t_status demo_task = Queued"
    by (simp_all add: broken_world_def queued_world_def demo_defs find_task_def)
  have "\<exists>st. agent_state_of ''dev'' broken_world = Some st"
    by (simp add: broken_world_def queued_world_def agent_state_of_def)
  moreover have "\<exists>e. fst (agentFor demo_task broken_world) = Inl e"
    by (simp add: broken_world_def queued_world_def demo_defs demo_layout_def agentFor_def resolve_def builtin_def
        resolveAgent_def findYaml_def existsFile_def)
  ultimately show ?thesis
    using unloadable_agent_strands_task [of "''dev''" broken_world _ "\<lparr>j_task = ''t-0000000001'', j_text = ''y''\<rparr>"
        demo_task _ "[]"] task by fastforce
qed

end
