(* ===== verification/DelegateFacts.thy ===== *)
theory DelegateFacts
  imports QueueFacts
begin

text \<open>
  Delegation: what is checked before a task is created under another one, and the row and the job
  the new task gets.
\<close>

section \<open>Facts about one row\<close>

text \<open>
  A fact about the row of task \<open>i\<close> that its execution node, its peer information and its counts of
  tokens do not change.
\<close>

locale row_frame =
  fixes i :: string and C :: "task_row \<Rightarrow> bool"
  assumes row_execution: "C t \<Longrightarrow> C (t\<lparr>t_execution := e\<rparr>)"
    and row_peer: "C t \<Longrightarrow> C (t\<lparr>t_peer := p\<rparr>)"
    and row_tokens: "C t \<Longrightarrow> C (t\<lparr>t_inputTokens := n, t_outputTokens := m\<rparr>)"
begin

definition row_in :: "store \<Rightarrow> bool" where
  "row_in s \<longleftrightarrow> (\<exists>t. find_task i (s_tasks s) = Some t \<and> C t)"

abbreviation has_row :: "world \<Rightarrow> bool" where
  "has_row \<equiv> \<lambda>w. row_in (db w)"

lemma keeps_tasks_same: "(\<And>s. s_tasks (snd (m s)) = s_tasks s) \<Longrightarrow> keeps_inv row_in m"
  by (simp add: keeps_inv_def row_in_def)

lemma keeps_tasks_modify: "(\<And>s. s_tasks (f s) = s_tasks s) \<Longrightarrow> keeps_inv row_in (modify f)"
  by (rule keeps_tasks_same) (simp add: modify_def)

lemma keeps_update_row:
  assumes "\<And>t. t_id (f t) = t_id t" and "\<And>t. C t \<Longrightarrow> C (f t)"
  shows "keeps_inv row_in (update_task j f)"
proof (rule keeps_invI)
  fix s
  assume "row_in s"
  then obtain t where "find_task i (s_tasks s) = Some t" "C t" by (auto simp: row_in_def)
  then have "find_task i (s_tasks (snd (update_task j f s))) = Some (if t_id t = j then f t else t)"
    using assms(1) by (simp add: update_task_def modify_def find_task_update)
  then show "row_in (snd (update_task j f s))" using assms(2) \<open>C t\<close> by (auto simp: row_in_def)
qed

lemma keeps_rows [keeps]:
  "keeps_inv row_in (setExecution j e)" "keeps_inv row_in (setPeer j p)" "keeps_inv row_in (addUsage j n k)"
  unfolding setExecution_def setPeer_def addUsage_def
  by (rule keeps_update_row; simp add: row_execution row_peer row_tokens)+

lemma keeps_no_rows [keeps]:
  "keeps_inv row_in (teamPut k v)" "keeps_inv row_in (teamGet k f)" "keeps_inv row_in (getTask j)"
  "keeps_inv row_in (appendEvent j ev)"
  by (auto intro!: keeps_tasks_same simp: teamPut_apply appendEvent_def op_defs getTask_def)

lemma keeps_recordUsage [keeps]: "keeps_inv row_in (recordUsage row ts c b)"
  unfolding recordUsage_def by (intro keeps keeps_tasks_modify) auto

lemma keeps_outside [keeps]:
  "keeps_inv has_row (on_hub g)" "keeps_inv has_row (emit x)" "keeps_inv has_row (update_state a h)"
  by (simp_all add: keeps_inv_def on_hub_apply emit_apply update_state_eq)

lemma keeps_hub_getTask [keeps]: "keeps_inv has_row (hub_getTask j)"
  unfolding hub_getTask_def by (intro keeps)

lemma keeps_record_event [keeps]: "keeps_inv has_row (record_event t e)"
  unfolding record_event_def record_usage_def usage_runtime_def by (cases e) (auto intro!: keeps)

lemma keeps_enqueue [keeps]: "keeps_inv has_row (enqueue a jb)"
  unfolding enqueue_def emitAgents_def by (intro keeps)

lemma keeps_localChild [keeps]: "keeps_inv has_row (localChild parent child)"
  unfolding localChild_def localRef_def allocate_def by (intro keeps)

lemma keeps_with_execution [keeps]: "keeps_inv has_row (with_execution t ag)"
  unfolding with_execution_def by (intro keeps)

definition returns_row :: "task_row act \<Rightarrow> bool" where
  "returns_row m \<longleftrightarrow> valid has_row m (\<lambda>r w. has_row w \<and> t_id r = i \<and> C r)"

lemma returns_hub_getTask: "returns_row (hub_getTask i)"
  by (auto simp: returns_row_def valid_def hub_getTask_def andthen_def on_db_apply row_in_def find_task_id
      split: option.splits)

lemma returns_ret: "t_id t = i \<Longrightarrow> C t \<Longrightarrow> returns_row (ret t)"
  by (auto simp: returns_row_def valid_def)

lemma returns_andthen: "keeps_inv has_row m \<Longrightarrow> (\<And>a. returns_row (f a)) \<Longrightarrow> returns_row (andthen m f)"
  unfolding returns_row_def by (rule valid_andthen [OF valid_keeps])

lemma returns_case_option:
  "(x = None \<Longrightarrow> returns_row m) \<Longrightarrow> (\<And>a. x = Some a \<Longrightarrow> returns_row (f a)) \<Longrightarrow>
   returns_row (case x of None \<Rightarrow> m | Some a \<Rightarrow> f a)"
  by (cases x) auto

lemma returns_throw: "returns_row (throw m)"
  by (simp add: returns_row_def valid_def)

lemma returns_case_prod: "(\<And>a b. returns_row (f a b)) \<Longrightarrow> returns_row (case x of (a, b) \<Rightarrow> f a b)"
  by (cases x) auto

lemmas returns_intros = returns_andthen returns_case_option returns_case_prod returns_throw

lemma returns_with_execution:
  assumes "t_id t = i" and "C t"
  shows "returns_row (with_execution t ag)"
  unfolding with_execution_def assms(1)
  by (intro returns_intros returns_ret returns_hub_getTask keeps assms)

lemma returns_localChild:
  assumes "t_id t = i" and "C t"
  shows "returns_row (localChild parent t)"
proof (cases "t_peer parent = None")
  case True
  then show ?thesis by (simp add: localChild_def returns_ret assms)
next
  case False
  then show ?thesis
    unfolding localChild_def localRef_def allocate_def assms(1) if_not_P [OF False]
    by (intro returns_intros returns_hub_getTask keeps)
qed

end

section \<open>A new row\<close>

lemma find_task_append: "find_task i (xs @ ys) = (case find_task i xs of None \<Rightarrow> find_task i ys | Some t \<Rightarrow> Some t)"
  by (induction xs) (auto simp: find_task_def)

lemma find_task_single: "find_task i [t] = (if t_id t = i then Some t else None)"
  by (simp add: find_task_def)

lemma new_task_id [simp]: "t_id (new_task i now a tr ti parent) = i"
  by (simp add: new_task_def)

lemma createTask_Inr:
  assumes "createTask a tr ti parent s = (Inr row, s')"
  shows "row = new_task (t_id row) (s_now s) a tr ti parent" and "find_task (t_id row) (s_tasks s) = None"
    and "s_tasks s' = s_tasks s @ [row]" and "find_task (t_id row) (s_tasks s') = Some row"
  using assms
  by (auto simp: createTask_def draw_def op_defs Let_def getTask_existing_def getTask_def find_task_append
      find_task_single split: if_splits option.splits)

definition child_of :: "task_row \<Rightarrow> string \<Rightarrow> task_row \<Rightarrow> bool" where
  "child_of parent target t \<longleftrightarrow>
     t_parentId t = Some (t_id parent) \<and> t_rootId t = t_rootId parent \<and> t_depth t = t_depth parent + 1 \<and>
     t_agentId t = target \<and> t_trigger t = ''delegation'' \<and> t_status t = Queued"

interpretation child: row_frame i "child_of parent target" for i parent target
  by unfold_locales (simp_all add: child_of_def)

lemma createTask_child:
  "valid (\<lambda>_. True) (on_db (createTask target ''delegation'' txt (Some parent)))
     (\<lambda>r w. child_of parent target r \<and> child.row_in (t_id r) parent target (db w))"
proof -
  have new: "child_of parent target (new_task x n target ''delegation'' txt (Some parent))" for x n
    by (simp add: child_of_def new_task_def)
  have "child_of parent target row \<and> find_task (t_id row) (s_tasks s') = Some row"
    if "createTask target ''delegation'' txt (Some parent) s = (Inr row, s')" for s row s'
    using createTask_Inr(4) [OF that] new [of "t_id row" "s_now s"] createTask_Inr(1) [OF that] by simp
  then show ?thesis
    by (auto simp: valid_def on_db_apply child.row_in_def prod_eq_iff)
qed

section \<open>Delegating\<close>

lemma valid_transaction:
  assumes "valid P m Q" and "\<And>w d. P w \<Longrightarrow> P (w\<lparr>db := (db w)\<lparr>s_depth := d\<rparr>\<rparr>)"
    and "\<And>a w d. Q a w \<Longrightarrow> Q a (w\<lparr>db := (db w)\<lparr>s_depth := d\<rparr>\<rparr>)"
  shows "valid P (transaction m) Q"
  unfolding valid_def
proof (intro allI impI, elim conjE)
  fix w a w'
  assume P: "P w" and run: "transaction m w = (Inr a, w')"
  show "Q a w'"
  proof (cases "s_depth (db w) = 0")
    case True
    obtain v where "m (w\<lparr>db := (db w)\<lparr>s_depth := 1\<rparr>\<rparr>) = (Inr a, v)" "w' = v\<lparr>db := (db v)\<lparr>s_depth := 0\<rparr>\<rparr>"
      by (rule transaction_Inr [OF run True])
    then show ?thesis using validD [OF assms(1)] assms(2) [OF P, of 1] assms(3) by blast
  next
    case False
    then show ?thesis using run P validD [OF assms(1)] by (simp add: transaction_def)
  qed
qed

text \<open>A new child of \<open>parent\<close>: what the row says, and that the table holds one for it.\<close>

definition delegated :: "task_row \<Rightarrow> string \<Rightarrow> task_row \<Rightarrow> world \<Rightarrow> bool" where
  "delegated parent target r w \<longleftrightarrow> child_of parent target r \<and> child.row_in (t_id r) parent target (db w)"

lemma delegated_depth: "delegated parent target r w \<Longrightarrow> delegated parent target r (w\<lparr>db := (db w)\<lparr>s_depth := d\<rparr>\<rparr>)"
  by (simp add: delegated_def child.row_in_def)

lemma valid_row_step:
  assumes "\<And>i. t_id t = i \<Longrightarrow> child_of parent target t \<Longrightarrow> child.returns_row i parent target m"
  shows "valid (delegated parent target t) m (delegated parent target)"
  using assms [of "t_id t"] unfolding child.returns_row_def valid_def delegated_def by metis

lemma valid_row_keep:
  assumes "keeps_inv (\<lambda>w. child.row_in (t_id t) parent target (db w)) m"
  shows "valid (delegated parent target t) m (\<lambda>_. delegated parent target t)"
  using assms unfolding valid_def delegated_def keeps_inv_def by (metis snd_conv)

lemma valid_created:
  "valid (\<lambda>_. True) (on_db (createTask target ''delegation'' txt (Some parent))) (delegated parent target)"
  using createTask_child unfolding delegated_def .

lemma valid_any: "valid (\<lambda>_. True) m (\<lambda>_ _. True)"
  by (simp add: valid_def)

lemma valid_read: "valid (delegated parent target t) (gets f) (\<lambda>_. delegated parent target t)"
  by (simp add: valid_def gets_def)

lemmas delegated_intros =
  valid_andthen [OF valid_created] valid_andthen [OF valid_row_step] valid_andthen [OF valid_read]
  valid_andthen [OF valid_row_keep] valid_ret

lemma delegate_local_row: "valid (\<lambda>_. True) (delegate_local parent target txt) (delegated parent target)"
  unfolding delegate_local_def
  by (rule valid_andthen [OF valid_any], rule valid_andthen [OF valid_any], rule valid_andthen [OF valid_any],
      rule valid_transaction, intro delegated_intros child.returns_with_execution child.keeps_outside
        child.keeps_record_event child.keeps_enqueue)
    (auto intro: child.returns_localChild child.returns_ret delegated_depth)

lemma keeps_row_notice: "keeps_inv (\<lambda>w. child.row_in i parent target (db w)) (notice j txt)"
  unfolding notice_def by (intro keeps child.keeps_record_event)

lemma returns_emit_task: "child.returns_row i parent target (emit_task i)"
  unfolding emit_task_def child.returns_row_def
  by (rule valid_andthen [OF child.returns_hub_getTask [unfolded child.returns_row_def]])
    (auto simp: valid_def andthen_def emit_apply)

lemma peer_delegate_row: "valid (\<lambda>_. True) (peer_delegate parent target txt) (delegated parent target)"
proof -
  have "valid (\<lambda>_. True) (case execution_of parent of
         None \<Rightarrow> throw ''PEER_ORIGIN_DENIED''
       | Some info \<Rightarrow>
           andthen (on_db (createTask target ''delegation'' txt (Some parent))) (\<lambda>task.
           andthen (on_db (setPeer (t_id task) (new_mirror target (pe_root info)))) (\<lambda>_.
           andthen (gets (\<lambda>w. net_self (network w))) (\<lambda>node.
           andthen (put_outgoing (t_id task) (d info task node)) (\<lambda>_.
           andthen (notice (t_id parent) (n task)) (\<lambda>_.
           emit_task (t_id task))))))) (delegated parent target)" for d n
    unfolding put_outgoing_def
    by (cases "execution_of parent")
      (auto simp: valid_throw intro!: valid_andthen [OF valid_created] valid_row_step child.returns_andthen
        keeps child.keeps_rows child.keeps_no_rows keeps_row_notice returns_emit_task)
  then have "valid (\<lambda>_. True) (transaction (andthen (allocate parent target) (\<lambda>(budget, lineage).
       case execution_of parent of
         None \<Rightarrow> throw ''PEER_ORIGIN_DENIED''
       | Some info \<Rightarrow>
           andthen (on_db (createTask target ''delegation'' txt (Some parent))) (\<lambda>task.
           andthen (on_db (setPeer (t_id task) (new_mirror target (pe_root info)))) (\<lambda>_.
           andthen (gets (\<lambda>w. net_self (network w))) (\<lambda>node.
           andthen (put_outgoing (t_id task) (d budget lineage info task node)) (\<lambda>_.
           andthen (notice (t_id parent) (n task)) (\<lambda>_.
           emit_task (t_id task))))))))) (delegated parent target)" for d n
    by (intro valid_transaction valid_andthen [OF valid_any]) (auto intro: delegated_depth)
  then show ?thesis
    unfolding peer_delegate_def by (intro valid_andthen [OF valid_any])
qed

section \<open>The job of a delegated task\<close>

lemma keeps_hub_part [keeps]:
  "keeps_inv (\<lambda>w. Q (hub w)) (on_db m)" "keeps_inv (\<lambda>w. Q (hub w)) (emit x)"
  by (simp_all add: keeps_inv_def on_db_apply emit_apply)

lemma keeps_hub_record_event [keeps]: "keeps_inv (\<lambda>w. Q (hub w)) (record_event t e)"
  unfolding record_event_def record_usage_def usage_runtime_def hub_getTask_def
  by (cases e) (auto intro!: keeps)

definition known :: "string \<Rightarrow> hub \<Rightarrow> bool" where
  "known a h \<longleftrightarrow> mget (h_states h) a \<noteq> None"

definition has_job :: "string \<Rightarrow> job \<Rightarrow> hub \<Rightarrow> bool" where
  "has_job a jb h \<longleftrightarrow> (\<exists>st. mget (h_states h) a = Some st \<and> jb \<in> set (as_queue st)) \<and> a \<in> set (h_microtasks h)"

lemma valid_get_state: "valid (\<lambda>_. True) (get_state a) (\<lambda>_ w. known a (hub w))"
proof -
  have found: "valid (\<lambda>_. True) (andthen (gets (agent_state_of a)) (\<lambda>s.
     case s of None \<Rightarrow> throw m | Some st \<Rightarrow> ret st)) (\<lambda>_ w. known a (hub w))" for m
    by (auto simp: valid_def known_def agent_state_of_def op_defs split: option.splits)
  show ?thesis
    unfolding get_state_def
    by (rule valid_andthen [OF valid_any], rule valid_andthen [OF valid_any], rule valid_andthen [OF valid_any],
        rule valid_andthen [OF valid_any], rule found)
qed

lemma valid_enqueue: "valid (\<lambda>w. known a (hub w)) (enqueue a jb) (\<lambda>_ w. has_job a jb (hub w))"
  by (auto simp: valid_def enqueue_def andthen_def update_state_eq emitAgents_def gets_def emit_apply on_hub_apply
      known_def has_job_def agent_state_of_def update_conv' split: option.splits)

lemma delegate_local_job:
  "valid (\<lambda>_. True) (delegate_local parent target txt)
     (\<lambda>r w. has_job target \<lparr>j_task = t_id r, j_text = txt\<rparr> (hub w))"
proof -
  have keep: "valid (\<lambda>w. known target (hub w)) m (\<lambda>_ w. known target (hub w))"
    if "keeps_inv (\<lambda>w. known target (hub w)) m" for m :: "'a act"
    by (rule valid_keeps [OF that])
  have child: "keeps_inv (\<lambda>w. Q (hub w)) (localChild p t)" "keeps_inv (\<lambda>w. Q (hub w)) (with_execution t ag)" for Q p t ag
    unfolding localChild_def localRef_def allocate_def with_execution_def hub_getTask_def by (intro keeps)+
  have tail: "valid (\<lambda>w. known target (hub w)) (andthen (emit (Out_task task)) (\<lambda>_.
       andthen (record_event parent (ev task)) (\<lambda>_.
       andthen (enqueue target \<lparr>j_task = t_id task, j_text = txt\<rparr>) (\<lambda>_. ret task))))
     (\<lambda>r w. has_job target \<lparr>j_task = t_id r, j_text = txt\<rparr> (hub w))" for ev task
    by (rule valid_andthen [OF keep], rule keeps, rule valid_andthen [OF keep], rule keeps,
        rule valid_andthen [OF valid_enqueue]) (simp add: valid_ret)
  show ?thesis
    unfolding delegate_local_def configured_def
    by (rule valid_andthen [OF valid_get_state], rule valid_andthen [OF keep], intro keeps,
        rule valid_andthen [OF keep], intro keeps, rule valid_transaction,
        rule valid_andthen [OF keep], intro keeps, rule valid_andthen [OF keep], intro child,
        rule valid_andthen [OF keep], intro keeps, rule valid_andthen [OF keep], intro keeps child,
        rule tail) simp_all
qed

section \<open>The whole operation\<close>

lemma teamEffect_fresh:
  assumes "teamEffect key input run w = (Inr row, w')"
    and "key \<noteq> None \<Longrightarrow> the key \<noteq> [] \<Longrightarrow> mget (s_team (db w)) (''effect/'' @ the key) = None"
  obtains d u where "run (w\<lparr>db := (db w)\<lparr>s_depth := d\<rparr>\<rparr>) = (Inr row, u)" and "hub w' = hub u"
    and "s_tasks (db w') = s_tasks (db u)"
proof (cases "key = None \<or> key = Some []")
  case True
  then have "run (w\<lparr>db := (db w)\<lparr>s_depth := s_depth (db w)\<rparr>\<rparr>) = (Inr row, w')"
    using assms(1) by (auto simp: teamEffect_def)
  then show thesis using that by blast
next
  case False
  then have none: "mget (s_team (db w)) (''effect/'' @ the key) = None" by (intro assms(2)) auto
  show thesis
  proof (cases "s_depth (db w) = 0")
    case True
    then obtain u where "run (w\<lparr>db := (db w)\<lparr>s_depth := 1\<rparr>\<rparr>) = (Inr row, u)" "hub w' = hub u"
      "s_tasks (db w') = s_tasks (db u)"
      using assms(1) False none
      by (auto simp: effect_simps teamPut_apply split: prod.splits sum.splits)
    then show thesis using that by blast
  next
    case nested: False
    then obtain u where "run w = (Inr row, u)" "hub w' = hub u" "s_tasks (db w') = s_tasks (db u)"
      using assms(1) False none
      by (auto simp: effect_simps teamPut_apply split: prod.splits sum.splits)
    then show thesis using that [of "s_depth (db w)" u] by simp
  qed
qed

lemma delegate_now_checks:
  assumes "delegate_now parent target txt w = (Inr row, w')"
  shows "t_depth parent + 1 \<le> maxDepth \<and> length (child_rows (db w) (t_id parent)) < maxChildren \<and>
    sum_list (map t_turns (List.filter (\<lambda>t. t_rootId t = t_rootId parent \<or> t_id t = t_rootId parent) (s_tasks (db w)))) < maxTreeTurns \<and>
    target \<notin> set (agents_above (length (s_tasks (db w))) (db w) (Some parent)) \<and>
    (if CHR ''/'' \<in> set target then peer_delegate parent target txt w = (Inr row, w')
     else delegate_local parent target txt w = (Inr row, w'))"
  using assms
  by (auto simp: delegate_now_def on_db_apply children_def treeTurns_def child_rows_def gets_def andthen_def
      require_def split: if_splits)

text \<open>
  C5 (delegate_within_limits). A delegation that is not the repeat of an earlier call and returns a task
  went to an agent the caller's agent may delegate to and that works on no task above; the tree is at
  most 3 levels deep, the caller had fewer than 10 delegated tasks and the tree fewer than 60 turns.
  The task is queued, hangs under the caller and is in the table; for an agent of this machine its job
  is in the agent's queue and the queue will be looked at.
\<close>

theorem delegate_within_limits:
  assumes "delegate parent ag target txt key w = (Inr row, w')"
    and "key \<noteq> None \<Longrightarrow> the key \<noteq> [] \<Longrightarrow> mget (s_team (db w)) (''effect/'' @ the key) = None"
  shows "target \<in> set (ra_delegates ag) \<and> t_depth row \<le> maxDepth \<and>
    length (child_rows (db w) (t_id parent)) < maxChildren \<and>
    sum_list (map t_turns (List.filter (\<lambda>t. t_rootId t = t_rootId parent \<or> t_id t = t_rootId parent) (s_tasks (db w)))) < maxTreeTurns \<and>
    target \<notin> set (agents_above (length (s_tasks (db w))) (db w) (Some parent)) \<and>
    child_of parent target row \<and> (\<exists>t. find_task (t_id row) (s_tasks (db w')) = Some t \<and> child_of parent target t) \<and>
    (CHR ''/'' \<in> set target \<or> has_job target \<lparr>j_task = t_id row, j_text = txt\<rparr> (hub w'))"
proof -
  have granted: "target \<in> set (ra_delegates ag)"
    and eff: "teamEffect key (Dg_delegate (t_id parent) target txt) (delegate_now parent target txt) w = (Inr row, w')"
    using assms(1) by (auto simp: delegate_def elim: require_InrE)
  obtain d u where run: "delegate_now parent target txt (w\<lparr>db := (db w)\<lparr>s_depth := d\<rparr>\<rparr>) = (Inr row, u)"
    and u: "hub w' = hub u" "s_tasks (db w') = s_tasks (db u)"
    by (rule teamEffect_fresh [OF eff assms(2)])
  note checks = delegate_now_checks [OF run]
  have above: "agents_above n (s\<lparr>s_depth := d\<rparr>) t = agents_above n s t" for n s t
    by (induction n s t rule: agents_above.induct) (auto split: nat.split option.split)
  have row: "delegated parent target row u"
    using checks validD [OF delegate_local_row] validD [OF peer_delegate_row] by (auto split: if_splits)
  have job: "CHR ''/'' \<in> set target \<or> has_job target \<lparr>j_task = t_id row, j_text = txt\<rparr> (hub u)"
    using checks validD [OF delegate_local_job] by (auto split: if_splits)
  show ?thesis
    using granted checks row job u above
    by (auto simp: delegated_def child.row_in_def child_of_def child_rows_def simp del: agents_above.simps)
qed

lemma delegate_within_limits_witness:
  "case delegate demo_task (demo_agent ''dev'') ''ops'' ''help'' None demo_world of
     (Inl e, w) \<Rightarrow> False
   | (Inr row, w) \<Rightarrow> child_of demo_task ''ops'' row \<and> has_job ''ops'' \<lparr>j_task = t_id row, j_text = ''help''\<rparr> (hub w)"
proof -
  have "\<not> isl (fst (delegate demo_task (demo_agent ''dev'') ''ops'' ''help'' None demo_world))"
    by code_simp
  then obtain row w where "delegate demo_task (demo_agent ''dev'') ''ops'' ''help'' None demo_world = (Inr row, w)"
    by (cases "delegate demo_task (demo_agent ''dev'') ''ops'' ''help'' None demo_world"; cases "fst (delegate demo_task (demo_agent ''dev'') ''ops'' ''help'' None demo_world)") auto
  then show ?thesis
    using delegate_within_limits [of demo_task "demo_agent ''dev''" "''ops''" "''help''" None demo_world] by fastforce
qed

end
