(* ===== verification/Turn.thy ===== *)
theory Turn
  imports Hub
begin

text \<open>
  \<^verbatim>\<open>packages/daemon/src/hub.ts\<close>: the rest of a turn that runs here, in the pieces between its
  waits: image ready, a cell found or waited for, the cell ready, the session's events, the end.
\<close>

definition ROOM_WAIT_MS :: int where "ROOM_WAIT_MS = 600000"

definition cellKey :: "resolved_agent \<Rightarrow> string \<Rightarrow> cell_key" where
  "cellKey ag hash =
     \<lparr>ck_runtime = ra_runtime ag, ck_image = ra_image ag, ck_hash = hash,
      ck_connectors = ra_connectors ag, ck_sandbox = ra_sandbox ag, ck_workspaces = ra_workspaces ag,
      ck_egress = ra_egress ag\<rparr>"

definition turn_of :: "string \<Rightarrow> string \<Rightarrow> world \<Rightarrow> turn_state option" where
  "turn_of a i w = Option.bind (agent_state_of a w) (\<lambda>st. mget (as_running st) i)"

definition aborted :: "string \<Rightarrow> string \<Rightarrow> world \<Rightarrow> bool" where
  "aborted a i w = (case turn_of a i w of None \<Rightarrow> False | Some r \<Rightarrow> rn_aborted r)"

section \<open>The end of a turn\<close>

text \<open>
  What follows the turn's \<open>try\<close>: the reply so far, why it failed, whether it timed out after \<open>minutes\<close>.
\<close>

definition end_turn ::
  "string \<Rightarrow> task_row \<Rightarrow> string \<Rightarrow> string option \<Rightarrow> bool \<Rightarrow> string \<Rightarrow> unit act" where
  "end_turn a task reply failure timedOut minutes =
     andthen (gets (aborted a (t_id task))) (\<lambda>stopped.
     andthen (
       if stopped then
         andthen (closeCell (t_id task)) (\<lambda>_.
         finish (t_id task) Cancelled (Some (if reply = [] then ''cancelled'' else reply)))
       else if timedOut then
         (let msg = ''turn timed out after '' @ minutes @ '' min''
          in andthen (record_event task (Ev_error msg True)) (\<lambda>_.
             finish (t_id task) Failed
               (Some (if reply = [] then msg else reply @ [CHR 0x0A, CHR 0x0A] @ ''('' @ msg @ '')''))))
       else case failure of
           Some f \<Rightarrow> finish (t_id task) Failed (Some (if reply = [] then f else reply))
         | None \<Rightarrow> finish (t_id task) Done (Some reply)) (\<lambda>_.
     set_stage a (t_id task) Ended))"

text \<open>The \<open>catch\<close> of the turn: the error is recorded, then the turn ends.\<close>

definition turn_error :: "string \<Rightarrow> task_row \<Rightarrow> string \<Rightarrow> bool \<Rightarrow> string \<Rightarrow> string \<Rightarrow> unit act" where
  "turn_error a task reply timedOut minutes msg =
     andthen (gets (aborted a (t_id task))) (\<lambda>stopped.
     let failure = (if stopped then ''cancelled'' else msg)
     in andthen (record_event task (Ev_error (take 60000 failure) True)) (\<lambda>_.
        end_turn a task reply (Some failure) timedOut minutes))"

section \<open>A cell for the turn\<close>

definition leave_line :: "string \<Rightarrow> unit act" where
  "leave_line i =
     andthen (on_hub (\<lambda>h. h\<lparr>h_roomQueue := mdelete i (h_roomQueue h)\<rparr>)) (\<lambda>_. roomChanged)"

text \<open>The \<open>finally\<close> of the cell's part of \<open>execute\<close>, for a turn that joined the line.\<close>

definition leave_if_queued :: "string \<Rightarrow> string \<Rightarrow> unit act" where
  "leave_if_queued a i =
     andthen (gets (\<lambda>w. case turn_of a i w of None \<Rightarrow> False | Some r \<Rightarrow> rn_queued r)) (\<lambda>queued.
     when_do queued (leave_line i))"

definition prepare_error :: "string \<Rightarrow> task_row \<Rightarrow> string \<Rightarrow> unit act" where
  "prepare_error a task msg =
     andthen (leave_if_queued a (t_id task)) (\<lambda>_. turn_error a task [] False [] msg)"

text \<open>\<open>cellFor\<close> throws: out of line, and the turn's \<open>catch\<close>.\<close>

definition give_up :: "string \<Rightarrow> task_row \<Rightarrow> string \<Rightarrow> unit act" where
  "give_up a task msg =
     andthen (leave_line (t_id task)) (\<lambda>_. turn_error a task [] False [] msg)"

definition waiting_text :: "options \<Rightarrow> hub \<Rightarrow> string" where
  "waiting_text os h =
     (if busy h < maxCells os \<and> occupied h < CELL_CEILING
      then ''waiting for a free cell: delegated tasks and earlier tasks go first''
      else ''waiting for a free cell: '' @ nat_str (busy h) @ '' of '' @ nat_str (maxCells os) @ '' are working'')"

text \<open>The start of the cell: out of line first, and no pause before the cell is live.\<close>

definition start_cell :: "string \<Rightarrow> task_row \<Rightarrow> resolved_agent \<Rightarrow> string \<Rightarrow> unit act" where
  "start_cell a task agent hash =
     andthen (leave_line (t_id task)) (\<lambda>_.
     andthen (gets (\<lambda>w. s_now (db w))) (\<lambda>now.
     andthen (add_cell (t_id task)
       \<lparr>lc_agentId = ra_id agent, lc_key = cellKey agent hash, lc_idle = False, lc_lastUsed = now,
        lc_closed = False\<rparr>) (\<lambda>_.
     set_stage a (t_id task) Cell_starting)))"

text \<open>
  One round of \<open>cellFor\<close>'s loop: room, or a cell closed for it, or the notice and the wait.
  \<open>since\<close> is \<open>waitingSince\<close>.
\<close>

definition room_round :: "string \<Rightarrow> task_row \<Rightarrow> resolved_agent \<Rightarrow> string \<Rightarrow> int option \<Rightarrow> unit act" where
  "room_round a task agent hash since =
     andthen (gets (\<lambda>w. hasRoom (opts w) (hub w) task)) (\<lambda>room.
     if room then start_cell a task agent hash
     else
       andthen (gets (aborted a (t_id task))) (\<lambda>stopped.
       if stopped then give_up a task ''cancelled''
       else
         andthen (gets (\<lambda>w. if outranked (opts w) (hub w) task then None else longest_idle (hub w))) (\<lambda>idle.
         case idle of
           Some j \<Rightarrow>
             andthen (gets (\<lambda>w. h_closeSeq (hub w))) (\<lambda>k.
             andthen (closeCell j) (\<lambda>_.
             set_stage a (t_id task) (Closing_cell hash k since)))
         | None \<Rightarrow>
             andthen (gets (\<lambda>w. s_now (db w))) (\<lambda>now.
             andthen (gets (\<lambda>w. waiting_text (opts w) (hub w))) (\<lambda>txt.
             andthen (when_do (since = None) (notice (t_id task) txt)) (\<lambda>_.
             andthen (gets (\<lambda>w. or_else (op_roomWaitMs (opts w)) ROOM_WAIT_MS)) (\<lambda>limit.
             let start = or_else since now
             in if start + limit - now \<le> 0
                then give_up a task ''TOO_MANY_CELLS: no cell became free; try again when a task finishes''
                else
                  andthen (on_hub (\<lambda>h. h\<lparr>h_roomWaiters := h_roomWaiters h @ [t_id task]\<rparr>)) (\<lambda>_.
                  set_stage a (t_id task) (Waiting_room hash (Some start)))))))))) "

text \<open>
  The image and the skills are ready: \<open>cellFor\<close> up to its first wait.  A cell started with other
  settings is closed first; the line is joined before that.
\<close>

definition turn_prepared :: "string \<Rightarrow> task_row \<Rightarrow> resolved_agent \<Rightarrow> string \<Rightarrow> string \<Rightarrow> unit act" where
  "turn_prepared a task agent hash turnId =
     andthen (gets (aborted a (t_id task))) (\<lambda>stopped.
     if stopped then prepare_error a task ''cancelled''
     else
       andthen (gets (\<lambda>w. mget (h_cells (hub w)) (t_id task))) (\<lambda>existing.
       case existing of
         Some c \<Rightarrow>
           if \<not> lc_closed c \<and> lc_key c = cellKey agent hash
           then andthen (add_cell (t_id task) (c\<lparr>lc_idle := False\<rparr>)) (\<lambda>_.
                andthen (leave_if_queued a (t_id task)) (\<lambda>_.
                set_stage a (t_id task) (In_turn turnId [] None False)))
           else
             andthen (gets (\<lambda>w. h_closeSeq (hub w))) (\<lambda>k.
             andthen (closeCell (t_id task)) (\<lambda>_.
             set_stage a (t_id task) (Closing_cell hash k None)))
       | None \<Rightarrow>
           andthen (on_hub (\<lambda>h. if mhas (h_roomQueue h) (t_id task) then h
              else h\<lparr>h_roomQueue := mset_key (t_id task) (t_depth task) (h_roomQueue h)\<rparr>)) (\<lambda>_.
           room_round a task agent hash None)))"

text \<open>
  A waiting turn goes on: its closing is over, or it was woken, or its timer ran out (\<open>timer\<close>).
\<close>

definition turn_room :: "string \<Rightarrow> task_row \<Rightarrow> resolved_agent \<Rightarrow> bool \<Rightarrow> unit act" where
  "turn_room a task agent timer =
     andthen (gets (turn_of a (t_id task))) (\<lambda>turn.
     case map_option rn_stage turn of
       Some (Closing_cell hash k since) \<Rightarrow>
         andthen (gets (\<lambda>w. k \<in> set (h_closing (hub w)))) (\<lambda>pending.
         if pending then ret ()
         else
           andthen (on_hub (\<lambda>h. if mhas (h_roomQueue h) (t_id task) then h
              else h\<lparr>h_roomQueue := mset_key (t_id task) (t_depth task) (h_roomQueue h)\<rparr>)) (\<lambda>_.
           room_round a task agent hash since))
     | Some (Waiting_room hash since) \<Rightarrow>
         andthen (gets (\<lambda>w. t_id task \<in> set (h_roomWaiters (hub w)))) (\<lambda>asleep.
         if asleep \<and> \<not> timer then ret ()
         else
           andthen (on_hub (\<lambda>h. h\<lparr>h_roomWaiters := removeAll (t_id task) (h_roomWaiters h)\<rparr>)) (\<lambda>_.
           room_round a task agent hash since))
     | _ \<Rightarrow> ret ())"

section \<open>The session\<close>

text \<open>The cell is ready (one that failed to start is a \<open>prepare_error\<close>).\<close>

definition cell_ready :: "string \<Rightarrow> task_row \<Rightarrow> string \<Rightarrow> unit act" where
  "cell_ready a task turnId =
     andthen (leave_if_queued a (t_id task)) (\<lambda>_.
     andthen (gets (aborted a (t_id task))) (\<lambda>stopped.
     if stopped then turn_error a task [] False [] ''cancelled''
     else set_stage a (t_id task) (In_turn turnId [] None False)))"

definition turn_event :: "string \<Rightarrow> task_row \<Rightarrow> runtime_event \<Rightarrow> unit act" where
  "turn_event a task event =
     andthen (gets (turn_of a (t_id task))) (\<lambda>turn.
     case map_option rn_stage turn of
       Some (In_turn turnId reply failure timedOut) \<Rightarrow>
         andthen (case event of
                    Ev_session_started rid \<Rightarrow> on_db (setResumeId (t_id task) rid)
                  | _ \<Rightarrow> ret ()) (\<lambda>_.
         andthen (set_stage a (t_id task) (In_turn turnId
           (case event of Ev_message t \<Rightarrow> t | _ \<Rightarrow> reply)
           (case event of Ev_error m True \<Rightarrow> Some m | _ \<Rightarrow> failure) timedOut)) (\<lambda>_.
         record_event task event))
     | _ \<Rightarrow> ret ())"

text \<open>The turn ran longer than \<open>turnTimeoutMs\<close>.\<close>

definition turn_timeout :: "string \<Rightarrow> task_row \<Rightarrow> unit act" where
  "turn_timeout a task =
     andthen (gets (turn_of a (t_id task))) (\<lambda>turn.
     case map_option rn_stage turn of
       Some (In_turn turnId reply failure timedOut) \<Rightarrow>
         set_stage a (t_id task) (In_turn turnId reply failure True)
     | _ \<Rightarrow> ret ())"

text \<open>
  The session's events are over (\<open>err\<close> when it threw): the findings of the workspace audit, the
  idle timer, the end.
\<close>

definition session_over ::
  "string \<Rightarrow> task_row \<Rightarrow> (string \<times> string) list \<Rightarrow> string option \<Rightarrow> string \<Rightarrow> unit act" where
  "session_over a task findings err minutes =
     andthen (gets (turn_of a (t_id task))) (\<lambda>turn.
     case map_option rn_stage turn of
       Some (In_turn turnId reply failure timedOut) \<Rightarrow>
         andthen (each (\<lambda>(name, f). record_event task
           (Ev_notice (''workspace '' @ name @ '': '' @ f))) findings) (\<lambda>_.
         andthen (gets (\<lambda>w. s_now (db w))) (\<lambda>now.
         andthen (on_hub (\<lambda>h. case mget (h_cells h) (t_id task) of
             None \<Rightarrow> h
           | Some c \<Rightarrow> h\<lparr>h_cells := mset_key (t_id task) (c\<lparr>lc_lastUsed := now\<rparr>) (h_cells h)\<rparr>)) (\<lambda>_.
         andthen (armIdle (t_id task)) (\<lambda>_.
         case err of
           None \<Rightarrow> end_turn a task reply failure timedOut minutes
         | Some e \<Rightarrow> turn_error a task reply timedOut minutes e))))
     | _ \<Rightarrow> ret ())"

end
