(* ===== verification/Preserve.thy ===== *)
theory Preserve
  imports DelegateFacts HubTasks Turn
begin

text \<open>
  What the operations of the store, the hub, its turns and its peers keep.  A property of the world that
  the few writes of the store and the hub keep is kept by every operation that is built from them,
  whether it returns or throws, inside a transaction or outside: \<open>hub_frame\<close> has the operations
  that neither create nor delete a task, \<open>hub_kept\<close> all of them.
\<close>

section \<open>Writes of the store\<close>

definition row_ok :: "task_row \<Rightarrow> bool" where
  "row_ok t \<longleftrightarrow> t_depth t \<le> maxDepth \<and> length (t_title t) \<le> 120 \<and>
     length (or_else (t_result t) []) \<le> MAX_RESULT_CHARS \<and> length (t_links t) \<le> 10"

text \<open>What the updates of a row never change, and the bounds they keep.\<close>

definition row_update :: "(task_row \<Rightarrow> task_row) \<Rightarrow> bool" where
  "row_update f \<longleftrightarrow> (\<forall>t. t_id (f t) = t_id t \<and> t_parentId (f t) = t_parentId t \<and> t_rootId (f t) = t_rootId t \<and>
     t_depth (f t) = t_depth t \<and> t_agentId (f t) = t_agentId t \<and> t_createdAt (f t) = t_createdAt t \<and>
     (row_ok t \<longrightarrow> row_ok (f t)))"

lemma row_updates:
  "row_update (status_change st now)"
  "row_update (\<lambda>t. t\<lparr>t_execution := ex\<rparr>)" "row_update (\<lambda>t. t\<lparr>t_peer := p\<rparr>)" "row_update (\<lambda>t. t\<lparr>t_turns := g t\<rparr>)"
  "row_update (\<lambda>t. t\<lparr>t_teamOrigin := og\<rparr>)" "row_update (\<lambda>t. t\<lparr>t_inputTokens := ti t, t_outputTokens := tn t\<rparr>)"
  "row_update (\<lambda>t. t\<lparr>t_resumeId := r\<rparr>)" "row_update (\<lambda>t. t\<lparr>t_runtime := r\<rparr>)"
  "row_update (\<lambda>t. t\<lparr>t_result := Some (take MAX_RESULT_CHARS x), t_links := extractLinks (take MAX_RESULT_CHARS x)\<rparr>)"
  by (cases st; simp add: row_update_def row_ok_def) (simp_all add: row_update_def row_ok_def or_else_def extractLinks_def)

text \<open>A transaction of the store is one of the world.\<close>

lemma on_db_ops:
  "on_db (andthen m f) = andthen (on_db m) (\<lambda>a. on_db (f a))" "on_db (ret a) = ret a" "on_db (throw e) = throw e"
  "on_db (gets g) = gets (\<lambda>w. g (db w))" "on_db (require b e) = require b e" "on_db (when_do b m') = when_do b (on_db m')"
  by (auto simp: fun_eq_iff on_db_def op_defs split: prod.split sum.split)

lemma keeps_reading: "(\<And>s. snd (m s) = s) \<Longrightarrow> keeps_inv P (on_db m)"
  by (simp add: keeps_inv_def on_db_apply)

lemma keeps_on_db_reads [keeps]:
  "keeps_inv P (on_db (getTask i))" "keeps_inv P (on_db (teamGet k f))" "keeps_inv P (on_db (teamEntries k g))"
  "keeps_inv P (on_db (children i))" "keeps_inv P (on_db (treeTurns i))" "keeps_inv P (on_db (tree i))"
  "keeps_inv P (on_db (taskIdsOfAgent a))" "keeps_inv P (on_db (finishedBefore n))" "keeps_inv P (on_db interrupted)"
  "keeps_inv P (on_db (events i aft l))" "keeps_inv P (on_db (triggerState k))" "keeps_inv P (on_db (getTask_existing i))"
  by (rule keeps_reading; simp add: op_defs teamEntries_def children_def treeTurns_def tree_def taskIdsOfAgent_def
      finishedBefore_def interrupted_def events_def triggerState_def getTask_existing_def Let_def split: option.split)+

lemma keeps_any_act [keeps]: "(\<And>x. keeps_inv P (f x)) \<Longrightarrow> keeps_inv P (any_act f xs)"
  by (induction xs) (auto intro!: keeps)

lemma keeps_gets_if:
  "(\<And>w. P w \<Longrightarrow> b w \<Longrightarrow> P (snd (m w))) \<Longrightarrow> keeps_inv P m' \<Longrightarrow>
   keeps_inv P (andthen (gets b) (\<lambda>r. if r then m else m'))"
  by (simp add: keeps_inv_def)

lemma keeps_gets_option:
  "(\<And>w x. P w \<Longrightarrow> f w = Some x \<Longrightarrow> P (snd (g x w))) \<Longrightarrow> keeps_inv P m \<Longrightarrow>
   keeps_inv P (andthen (gets f) (\<lambda>r. case r of Some x \<Rightarrow> g x | None \<Rightarrow> m))"
  by (auto simp: keeps_inv_def split: option.split)

section \<open>Operations that create and delete no task\<close>

text \<open>
  \<open>d\<close> is the depth of the transaction.  The hub's cells change in six ways only.
\<close>

locale hub_frame =
  fixes I :: "nat \<Rightarrow> world \<Rightarrow> bool"
  assumes keeps_row: "row_update f \<Longrightarrow> keeps_inv (I d) (on_db (update_task i f))"
    and keeps_appendEvent [keeps]: "keeps_inv (I d) (on_db (appendEvent i ev))"
    and keeps_recordUsage [keeps]: "keeps_inv (I d) (on_db (recordUsage row ts cs b))"
    and keeps_teamPut [keeps]: "keeps_inv (I d) (on_db (teamPut k v))"
    and keeps_teamDelete [keeps]: "keeps_inv (I d) (on_db (teamDeletePrefix k))"
    and keeps_draw [keeps]: "keeps_inv (I d) (on_db (draw n))"
    and keeps_emit [keeps]: "keeps_inv (I d) (emit x)"
    and keeps_hub: "(\<And>h. h_cells (g h) = h_cells h \<and> h_closingTasks (g h) = h_closingTasks h) \<Longrightarrow>
      keeps_inv (I d) (on_hub g)"
    and keeps_closeCell [keeps]: "keeps_inv (I d) (closeCell i)"
    and keeps_cell_closed [keeps]: "keeps_inv (I d) (cell_closed i n)"
    and keeps_cell_exit [keeps]: "keeps_inv (I d) (cell_exit own i why)"
    and kept_cell: "I d w \<Longrightarrow> mget (h_cells (hub w)) i = Some c \<Longrightarrow> I d (snd (add_cell i c' w))"
    and kept_start: "I d w \<Longrightarrow> occupied (hub w) < CELL_CEILING \<Longrightarrow> I d (snd (add_cell i c' w))"
    and kept_depth: "I d w \<Longrightarrow> s_depth (db w) = d"
    and kept_enter: "I d w \<Longrightarrow> I d' (w\<lparr>db := (db w)\<lparr>s_depth := d'\<rparr>\<rparr>)"
    and kept_rollback: "I 0 w \<Longrightarrow> I 1 u \<Longrightarrow> I 0 (u\<lparr>db := rollback (db w) (db u)\<rparr>)"
begin

lemma keeps_transaction [keeps]:
  assumes "\<And>d. keeps_inv (I d) m"
  shows "keeps_inv (I d) (transaction m)"
proof (rule keeps_invI)
  fix w
  assume w: "I d w"
  show "I d (snd (transaction m w))"
  proof (cases "d = 0")
    case True
    let ?u = "snd (m (w\<lparr>db := (db w)\<lparr>s_depth := 1\<rparr>\<rparr>))"
    have "I 1 ?u" by (rule keeps_invD [OF assms kept_enter [OF w]])
    then show ?thesis
      using w True kept_rollback [of w ?u] kept_enter [of 1 ?u 0] kept_depth [OF w]
      by (auto simp: transaction_def split: prod.split sum.split)
  next
    case False
    then have "transaction m w = m w" using kept_depth [OF w] by (simp add: transaction_def)
    then show ?thesis using keeps_invD [OF assms w] by simp
  qed
qed

lemma keeps_hub_fields [keeps]:
  "keeps_inv (I d) (on_hub (\<lambda>h. h\<lparr>h_stopping := b h\<rparr>))" "keeps_inv (I d) (on_hub (\<lambda>h. h\<lparr>h_states := s h\<rparr>))"
  "keeps_inv (I d) (on_hub (\<lambda>h. h\<lparr>h_waiters := x h\<rparr>))" "keeps_inv (I d) (on_hub (\<lambda>h. h\<lparr>h_deleting := y h\<rparr>))"
  "keeps_inv (I d) (on_hub (\<lambda>h. h\<lparr>h_roomQueue := q h\<rparr>))" "keeps_inv (I d) (on_hub (\<lambda>h. h\<lparr>h_blocked := q h\<rparr>))"
  "keeps_inv (I d) (on_hub (\<lambda>h. h\<lparr>h_roomWaiters := v h\<rparr>))" "keeps_inv (I d) (on_hub (\<lambda>h. h\<lparr>h_microtasks := v h\<rparr>))"
  by (rule keeps_hub; simp)+

lemma keeps_states [keeps]:
  "keeps_inv (I d) (update_state a f)" "keeps_inv (I d) (set_state a st)"
  unfolding update_state_def set_state_def by (intro keeps)+

lemma keeps_row_updates [keeps]:
  "keeps_inv (I d) (on_db (setExecution i e))" "keeps_inv (I d) (on_db (setPeer i p))"
  "keeps_inv (I d) (on_db (setPeerTurns i n))" "keeps_inv (I d) (on_db (setTeamOrigin i og))"
  "keeps_inv (I d) (on_db (countTurn i))" "keeps_inv (I d) (on_db (addUsage i n k))"
  "keeps_inv (I d) (on_db (setResumeId i r))" "keeps_inv (I d) (on_db (setRuntime i r))"
  "keeps_inv (I d) (on_db (setResult i r))"
  unfolding setExecution_def setPeer_def setPeerTurns_def setTeamOrigin_def countTurn_def addUsage_def setResumeId_def
    setRuntime_def setResult_def Let_def
  by (rule keeps_row, rule row_updates)+

lemma keeps_setStatus [keeps]: "keeps_inv (I d) (on_db (setStatus i st))"
  unfolding setStatus_def on_db_ops by (intro keeps keeps_row row_updates)

lemma keeps_nodeId [keeps]: "keeps_inv (I d) (on_db nodeId)"
proof -
  have "on_db (case x of None \<Rightarrow> m | Some a \<Rightarrow> f a) = (case x of None \<Rightarrow> on_db m | Some a \<Rightarrow> on_db (f a))"
    for x :: "string option" and m :: "string store_op" and f
    by (cases x) auto
  then show ?thesis unfolding nodeId_def by (simp only: on_db_ops) (intro keeps)
qed

lemma keeps_hub_getTask [keeps]: "keeps_inv (I d) (hub_getTask i)"
  unfolding hub_getTask_def by (intro keeps)

lemma keeps_resolving [keeps]: "keeps_inv (I d) (resolve i)" "keeps_inv (I d) (agentFor t)"
  by (auto simp: keeps_inv_def resolve_def agentFor_def Let_def split: option.split)

lemma keeps_emitAgents [keeps]: "keeps_inv (I d) emitAgents"
  unfolding emitAgents_def by (intro keeps)

lemma keeps_record_event [keeps]: "keeps_inv (I d) (record_event t e)"
  unfolding record_event_def record_usage_def usage_runtime_def by (cases e) (auto intro!: keeps)

lemma keeps_notice [keeps]: "keeps_inv (I d) (notice i x)"
  unfolding notice_def by (intro keeps)

lemma keeps_finish [keeps]: "keeps_inv (I d) (finish i st r)"
  unfolding finish_def notify_parent_def by (intro keeps)

lemma keeps_wait [keeps]: "keeps_inv (I d) (wait i k)"
  unfolding wait_def by (intro keeps)

lemma keeps_enqueue [keeps]: "keeps_inv (I d) (enqueue a jb)"
  unfolding enqueue_def by (intro keeps)

lemma keeps_teamEffect [keeps]: "(\<And>d. keeps_inv (I d) m) \<Longrightarrow> keeps_inv (I d) (teamEffect k input m)"
  unfolding teamEffect_def by (intro keeps)

subsection \<open>Cells\<close>

lemma keeps_roomChanged [keeps]: "keeps_inv (I d) roomChanged"
  unfolding roomChanged_def by (intro keeps)

lemma keeps_block [keeps]: "keeps_inv (I d) (block i)" "keeps_inv (I d) (unblock i)"
  unfolding block_def unblock_def Let_def by (intro keeps)+

lemma replace_cell_then:
  assumes "I d w" and "mget (h_cells (hub w)) i = Some c" and "keeps_inv (I d) m"
  shows "I d (snd (andthen (add_cell i c') (\<lambda>_. m) w))"
  using kept_cell [OF assms(1,2), of c'] keeps_invD [OF assms(3)]
  by (simp add: andthen_def add_cell_def on_hub_apply)

lemma keeps_armIdle [keeps]: "keeps_inv (I d) (armIdle i)"
  unfolding armIdle_def add_cell_def [symmetric]
  by (intro keeps_gets_option replace_cell_then keeps)

lemma keeps_set_stage [keeps]: "keeps_inv (I d) (set_stage a i stg)" "keeps_inv (I d) (set_queued a i b)"
  unfolding set_stage_def set_queued_def by (intro keeps)+

lemma start_cell_kept:
  assumes "I d w" and "occupied (hub w) < CELL_CEILING"
  shows "I d (snd (start_cell a task ag hash w))"
proof -
  let ?h = "(hub w)\<lparr>h_roomQueue := mdelete (t_id task) (h_roomQueue (hub w)), h_roomWaiters := []\<rparr>"
  have "I d (snd (leave_line (t_id task) w))"
    unfolding leave_line_def by (rule keeps_invD [where P = "I d"], intro keeps, rule assms(1))
  then have "I d (w\<lparr>hub := ?h\<rparr>)" by (simp add: leave_line_def roomChanged_def andthen_def on_hub_apply)
  moreover have "occupied ?h < CELL_CEILING" using assms(2) by (simp add: occupied_def)
  ultimately have "I d (snd (add_cell (t_id task) c (w\<lparr>hub := ?h\<rparr>)))" for c
    by (intro kept_start) simp_all
  from keeps_invD [OF keeps_set_stage(1) this] show ?thesis
    by (simp add: start_cell_def leave_line_def roomChanged_def add_cell_def andthen_def on_hub_apply gets_def)
qed

subsection \<open>Turns\<close>

lemma keeps_end_turn [keeps]: "keeps_inv (I d) (end_turn a t r f b m)"
  unfolding end_turn_def Let_def by (intro keeps)

lemma keeps_turn_error [keeps]: "keeps_inv (I d) (turn_error a t r b m e)"
  unfolding turn_error_def by (intro keeps)

lemma keeps_leave_line [keeps]: "keeps_inv (I d) (leave_line i)" "keeps_inv (I d) (leave_if_queued a i)"
  unfolding leave_line_def leave_if_queued_def by (intro keeps)+

lemma keeps_give_up [keeps]: "keeps_inv (I d) (give_up a t m)" "keeps_inv (I d) (prepare_error a t m)"
  unfolding give_up_def prepare_error_def by (intro keeps)+
lemma keeps_join [keeps]:
  "keeps_inv (I d) (on_hub (\<lambda>h. if mhas (h_roomQueue h) i then h
     else h\<lparr>h_roomQueue := mset_key i n (h_roomQueue h)\<rparr>))"
  by (rule keeps_hub) simp

lemma keeps_room_round [keeps]: "keeps_inv (I d) (room_round a task ag hash since)"
  unfolding room_round_def
proof (rule keeps_gets_if, goal_cases)
  case (1 w)
  then show ?case by (simp add: start_cell_kept hasRoom_def)
qed (intro keeps)

lemma keeps_turn_prepared [keeps]: "keeps_inv (I d) (turn_prepared a task ag hash turn)"
proof -
  have cell: "keeps_inv (I d) (andthen (gets (\<lambda>w. mget (h_cells (hub w)) (t_id task))) (\<lambda>existing.
       case existing of
         Some c \<Rightarrow> if live c then andthen (add_cell (t_id task) (c\<lparr>lc_idle := False\<rparr>)) (\<lambda>_. m) else m'
       | None \<Rightarrow> m''))"
    if "keeps_inv (I d) m" "keeps_inv (I d) m'" "keeps_inv (I d) m''" for m m' m'' live
    using that by (intro keeps_gets_option) (auto simp: replace_cell_then dest: keeps_invD)
  show ?thesis
    unfolding turn_prepared_def
    by (rule keeps_andthen [OF keeps_gets], rule keeps_if, intro keeps, rule cell) (intro keeps)+
qed

lemma keeps_turn_room [keeps]: "keeps_inv (I d) (turn_room a task ag timer)"
  unfolding turn_room_def by (auto intro!: keeps split: option.split stage.split)

lemma keeps_cell_ready [keeps]: "keeps_inv (I d) (cell_ready a t x)"
  unfolding cell_ready_def by (intro keeps)

lemma keeps_turn_event [keeps]: "keeps_inv (I d) (turn_event a t e)"
  unfolding turn_event_def by (cases e) (auto intro!: keeps split: option.split stage.split)

lemma keeps_turn_timeout [keeps]: "keeps_inv (I d) (turn_timeout a t)"
  unfolding turn_timeout_def by (auto intro!: keeps split: option.split stage.split)

lemma keeps_session_over [keeps]: "keeps_inv (I d) (session_over a t fs e m)"
proof -
  have used: "keeps_inv (I d) (on_hub (\<lambda>h. case mget (h_cells h) i of
             None \<Rightarrow> h | Some c \<Rightarrow> h\<lparr>h_cells := mset_key i (c\<lparr>lc_lastUsed := now\<rparr>) (h_cells h)\<rparr>))" for i now
  proof (rule keeps_invI)
    fix w
    assume w: "I d w"
    show "I d (snd (on_hub (\<lambda>h. case mget (h_cells h) i of
             None \<Rightarrow> h | Some c \<Rightarrow> h\<lparr>h_cells := mset_key i (c\<lparr>lc_lastUsed := now\<rparr>) (h_cells h)\<rparr>) w))"
    proof (cases "mget (h_cells (hub w)) i")
      case (Some c)
      then show ?thesis using kept_cell [OF w Some] by (simp add: on_hub_apply add_cell_def)
    qed (use w in \<open>simp add: on_hub_apply\<close>)
  qed
  show ?thesis
    unfolding session_over_def by (auto intro!: keeps used split: option.split stage.split)
qed

subsection \<open>The hub\<close>

lemma keeps_coord_base [keeps]:
  "keeps_inv (I d) (get_outbound i)" "keeps_inv (I d) (coord_active i)" "keeps_inv (I d) (coord_cancel i)"
  "keeps_inv (I d) (resumeText i)" "keeps_inv (I d) (originChain i)"
  unfolding coord_active_def coord_cancel_def resumeText_def get_outbound_def originChain_def by (intro keeps)+

lemma keeps_coord_begin [keeps]: "keeps_inv (I d) (coord_begin t ag x)"
  unfolding coord_begin_def new_outbound_def by (intro keeps)

lemma keeps_consume [keeps]: "keeps_inv (I d) (consume t)"
  unfolding consume_def by (intro keeps)

lemma keeps_execute_begin [keeps]: "keeps_inv (I d) (execute_begin a jb)"
  unfolding execute_begin_def execute_remote_def execute_local_def start_local_def tree_spent_def record_input_def
    fail_turn_def end_failed_def
  by (intro keeps)

lemma keeps_run_start [keeps]: "keeps_inv (I d) (run_start a jb)"
  unfolding run_start_def by (intro keeps)

lemma keeps_pump_rounds [keeps]: "keeps_inv (I d) (pump_rounds n a)"
proof (induction n)
  case (Suc n)
  then show ?case unfolding pump_rounds.simps by (intro keeps)
qed (unfold pump_rounds.simps, intro keeps)

lemma keeps_pump [keeps]: "keeps_inv (I d) (pump a)"
  unfolding pump_def by (intro keeps)

lemma keeps_run_done [keeps]: "keeps_inv (I d) (run_done a i)" "keeps_inv (I d) run_microtask"
  unfolding run_done_def run_microtask_def by (intro keeps)+

lemma keeps_reload [keeps]: "keeps_inv (I d) reload"
  unfolding reload_def reload_agent_def by (intro keeps)

lemma keeps_get_state [keeps]: "keeps_inv (I d) (get_state a)"
  unfolding get_state_def by (intro keeps)

lemma keeps_configured [keeps]: "keeps_inv (I d) (configured a st)"
  unfolding configured_def by (intro keeps)

lemma keeps_deleting [keeps]: "keeps_inv (I d) (beginDeleting a)" "keeps_inv (I d) (endDeleting a)"
  "keeps_inv (I d) suspend"
  unfolding beginDeleting_def endDeleting_def suspend_def by (intro keeps)+

lemma keeps_with_execution [keeps]: "keeps_inv (I d) (with_execution t ag)"
  unfolding with_execution_def by (intro keeps)

lemma keeps_peer_base [keeps]:
  "keeps_inv (I d) (check_target x)" "keeps_inv (I d) (put_outgoing i dp)" "keeps_inv (I d) (emit_task i)"
  "keeps_inv (I d) (localRef i)" "keeps_inv (I d) (peer_root t)" "keeps_inv (I d) (allocate t x)"
  "keeps_inv (I d) (peer_send t x)" "keeps_inv (I d) (peer_cancel t)"
  unfolding check_target_def put_outgoing_def emit_task_def localRef_def peer_root_def allocate_def peer_send_def
    peer_cancel_def
  by (intro keeps)+

lemma keeps_localChild [keeps]: "keeps_inv (I d) (localChild t c)"
  unfolding localChild_def by (intro keeps)

lemma keeps_sendTask [keeps]: "keeps_inv (I d) (sendTask i x k)"
  unfolding sendTask_def send_now_def by (intro keeps)

lemma keeps_cancelTask [keeps]: "keeps_inv (I d) (cancelTask n i)"
proof (induction n arbitrary: i)
  case (Suc n)
  show ?case
    unfolding cancelTask.simps cancel_mirror_def cancel_own_def drop_queued_def abort_turn_def
    by (intro keeps Suc.IH) (auto intro!: keeps split: stage.split)
qed (simp, intro keeps)

lemma keeps_hub_cancelTask [keeps]: "keeps_inv (I d) (hub_cancelTask i)"
  unfolding hub_cancelTask_def by (rule keeps_at, rule keeps)

lemma keeps_delete_begin [keeps]:
  "keeps_inv (I d) (deleteTask_begin i)" "keeps_inv (I d) (agentTaskTree a)" "keeps_inv (I d) (deleteAgentTasks_settled ts)"
  unfolding deleteTask_begin_def agentTaskTree_def deleteAgentTasks_settled_def still_pending_def
  by (intro keeps)+

lemma keeps_deleteAgentTasks_begin [keeps]: "keeps_inv (I d) (deleteAgentTasks_begin a)"
  unfolding deleteAgentTasks_begin_def by (intro keeps)

lemma keeps_recover [keeps]: "keeps_inv (I d) recoverInterrupted" "keeps_inv (I d) shutdown_begin"
  unfolding recoverInterrupted_def recover_task_def shutdown_begin_def by (intro keeps)+

end

section \<open>All operations\<close>

locale hub_kept = hub_frame +
  assumes keeps_new_task [keeps]: "keeps_inv (I d) (on_db (createTask a tr x None))"
    and keeps_new_child [keeps]: "t_depth p + 1 \<le> maxDepth \<Longrightarrow> keeps_inv (I d) (on_db (createTask a tr x (Some p)))"
    and keeps_deleteTasks [keeps]: "keeps_inv (I d) (on_db (deleteTasks ids))"
    and keeps_trigger_rows [keeps]: "keeps_inv (I d) (on_db (saveTriggerState ts))" "keeps_inv (I d) (on_db (markSeen k y z))"
      "keeps_inv (I d) (on_db (setSeenTask k y z'))"
begin

lemma keeps_peer_create [keeps]: "keeps_inv (I d) (peer_create x y)"
  unfolding peer_create_def by (intro keeps)

lemma keeps_peer_delegate [keeps]:
  "t_depth p + 1 \<le> maxDepth \<Longrightarrow> keeps_inv (I d) (peer_delegate p x y)"
  unfolding peer_delegate_def by (intro keeps)

lemma keeps_hub_createTask [keeps]: "keeps_inv (I d) (hub_createTask a x tr)"
  unfolding hub_createTask_def by (intro keeps)

lemma keeps_delegate [keeps]: "keeps_inv (I d) (delegate p ag x y k)"
  unfolding delegate_def delegate_now_def delegate_local_def
  by (rule keeps_require_then, rule keeps_teamEffect, rule keeps_require_then) (intro keeps)

lemma keeps_retry [keeps]: "keeps_inv (I d) (retryTask i fresh)"
  unfolding retryTask_def retry_fresh_def by (intro keeps)

lemma keeps_delete [keeps]:
  "keeps_inv (I d) (deleteTask_end ids)" "keeps_inv (I d) (purge n)" "keeps_inv (I d) (deleteAgentTasks_end a ts)"
  unfolding deleteTask_end_def purge_def deleteAgentTasks_end_def
  by (intro keeps)+

end

section \<open>Properties of the database alone\<close>

locale store_frame =
  fixes Q :: "nat \<Rightarrow> store \<Rightarrow> bool"
  assumes row: "row_update f \<Longrightarrow> keeps_inv (Q d) (update_task i f)"
    and event: "keeps_inv (Q d) (appendEvent i ev)"
    and usage: "keeps_inv (Q d) (recordUsage key ts cs b)"
    and team: "keeps_inv (Q d) (teamPut k v)" "keeps_inv (Q d) (teamDeletePrefix k)"
    and drawn: "keeps_inv (Q d) (draw n)"
    and depth: "Q d s \<Longrightarrow> s_depth s = d"
    and enter: "Q d s \<Longrightarrow> Q d' (s\<lparr>s_depth := d'\<rparr>)"
    and undone: "Q 0 s \<Longrightarrow> Q 1 u \<Longrightarrow> Q 0 (rollback s u)"

sublocale store_frame \<subseteq> on_store: hub_frame "\<lambda>d w. Q d (db w)"
proof
  fix d w
  assume "Q d (db w)"
  then show "s_depth (db w) = d" by (rule depth)
qed (rule keeps_on_db_of row event usage team drawn, assumption?
    | simp add: enter undone keeps_inv_def emit_apply on_hub_apply closeCell_def cell_closed_def cell_exit_def roomChanged_def
      andthen_def add_cell_def when_do_def ret_def)+

end
