(* ===== verification/Invariant.thy ===== *)
theory Invariant
  imports Preserve
begin

text \<open>
  The invariant of the daemon's state: task ids are unique, no task is deeper than three levels,
  titles, results and links are bounded, every transcript is numbered without a gap and bounded, and
  the guest never counts more than 16 cells.  Its interpretation of \<open>hub_kept\<close> gives that every
  operation keeps it.
\<close>

section \<open>The invariant\<close>

definition db_ok :: "store \<Rightarrow> bool" where
  "db_ok s \<longleftrightarrow> distinct (map t_id (s_tasks s)) \<and> (\<forall>t \<in> set (s_tasks s). row_ok t) \<and> events_ok s"

definition cells_ok :: "hub \<Rightarrow> bool" where
  "cells_ok h \<longleftrightarrow> distinct (mkeys (h_cells h)) \<and> distinct (mkeys (h_closingTasks h)) \<and> occupied h \<le> CELL_CEILING"

definition db_at :: "nat \<Rightarrow> store \<Rightarrow> bool" where
  "db_at d s \<longleftrightarrow> db_ok s \<and> s_depth s = d"

definition ok :: "nat \<Rightarrow> world \<Rightarrow> bool" where
  "ok d w \<longleftrightarrow> db_at d (db w) \<and> cells_ok (hub w)"

section \<open>Writes of the store\<close>

lemma keeps_db_frame:
  "(\<And>s. s_tasks (snd (m s)) = s_tasks s \<and> s_events (snd (m s)) = s_events s \<and> s_depth (snd (m s)) = s_depth s) \<Longrightarrow>
   keeps_inv (db_at d) m"
  by (simp add: keeps_inv_def db_at_def db_ok_def events_ok_def task_events_def)

lemma keeps_update_task:
  assumes "row_update f"
  shows "keeps_inv (db_at d) (update_task i f)"
  using assms
  by (auto simp: keeps_inv_def db_at_def db_ok_def update_task_def modify_def events_ok_def task_events_def
      comp_def if_distrib row_update_def cong: if_cong)

lemma keeps_tables:
  "keeps_inv (db_at d) (teamPut k v)" "keeps_inv (db_at d) (teamDeletePrefix k)" "keeps_inv (db_at d) (draw n)"
  "keeps_inv (db_at d) (saveTriggerState ts)" "keeps_inv (db_at d) (markSeen k x y)"
  "keeps_inv (db_at d) (setSeenTask k x z)"
  by (rule keeps_db_frame; simp add: op_defs teamPut_def teamDeletePrefix_def draw_def saveTriggerState_def
      markSeen_def setSeenTask_def Let_def)+

lemma keeps_appendEvent: "keeps_inv (db_at d) (appendEvent i ev)"
proof (rule keeps_invI)
  fix s
  assume s: "db_at d s"
  have "s_tasks (snd (appendEvent i ev s)) = s_tasks s \<and> s_depth (snd (appendEvent i ev s)) = s_depth s"
    by (simp add: appendEvent_def op_defs getTask_def)
  then show "db_at d (snd (appendEvent i ev s))"
    using s appendEvent_keeps_ok by (simp add: db_at_def db_ok_def)
qed

lemma db_recordUsage: "keeps_inv (db_at d) (recordUsage row ts c b)"
  unfolding recordUsage_def addUsage_def
  by (intro keeps keeps_update_task row_updates) (auto intro!: keeps_db_frame simp: modify_def)

lemma keeps_createTask:
  assumes "case parent of None \<Rightarrow> True | Some p \<Rightarrow> t_depth p + 1 \<le> maxDepth"
  shows "keeps_inv (db_at d) (createTask a tr ti parent)"
proof (rule keeps_invI)
  fix s
  assume s: "db_at d s"
  let ?i = "''t-'' @ s_random s 5 (s_draws s)"
  let ?t = "new_task ?i (s_now s) a tr ti parent"
  have "row_ok ?t" using assms by (auto simp: row_ok_def new_task_def or_else_def split: option.splits)
  moreover have "?i \<notin> set (map t_id (s_tasks s))" if "find_task ?i (s_tasks s) = None"
    using that by (auto simp: find_task_def find_None_iff)
  ultimately show "db_at d (snd (createTask a tr ti parent s))"
    using s
    by (auto simp: createTask_def draw_def op_defs Let_def getTask_existing_def getTask_def db_at_def db_ok_def
        events_ok_def task_events_def split: option.split)
qed

lemma events_ok_forget: "events_ok s \<Longrightarrow> events_ok (forget I s)"
proof -
  assume s: "events_ok s"
  have "task_events i (forget I s) = (if i \<in> I then [] else task_events i s)" for i
    by (auto simp: forget_def task_events_def filter_empty_conv intro!: arg_cong [where f = "map er_stored"] filter_cong)
  then show ?thesis using s by (simp add: events_ok_def)
qed

lemma keeps_deleteTasks: "keeps_inv (db_at d) (deleteTasks ids)"
proof (rule keeps_invI)
  fix s
  assume s: "db_at d s"
  obtain n where "deleteTasks ids s = (Inr n, forget (set ids) s)" using deleteTasks_eq by blast
  moreover have "distinct (map t_id (List.filter P (s_tasks s)))" for P
    using s by (simp add: db_at_def db_ok_def distinct_map_filter)
  ultimately show "db_at d (snd (deleteTasks ids s))"
    using s events_ok_forget by (auto simp: db_at_def db_ok_def) (auto simp: forget_def)
qed

section \<open>Writes of the hub\<close>

lemma keeps_store: "keeps_inv (db_at d) m \<Longrightarrow> keeps_inv (ok d) (on_db m)"
  by (simp add: keeps_inv_def ok_def on_db_apply)

lemma ok_emit: "keeps_inv (ok d) (emit x)"
  by (simp add: keeps_inv_def ok_def emit_apply)

lemma keeps_on_hub: "(\<And>h. cells_ok h \<Longrightarrow> cells_ok (f h)) \<Longrightarrow> keeps_inv (ok d) (on_hub f)"
  by (simp add: keeps_inv_def ok_def on_hub_apply)

lemma cells_ok_frame:
  "h_cells h' = h_cells h \<Longrightarrow> h_closingTasks h' = h_closingTasks h \<Longrightarrow> cells_ok h \<Longrightarrow> cells_ok h'"
  by (simp only: cells_ok_def occupied_def)

lemma ok_depth: "ok d w \<Longrightarrow> ok d' (w\<lparr>db := (db w)\<lparr>s_depth := d'\<rparr>\<rparr>)"
  by (simp add: ok_def db_at_def db_ok_def events_ok_def task_events_def)

lemma db_at_rollback: "db_at 0 s \<Longrightarrow> db_at 0 (rollback s s')"
  by (simp add: db_at_def db_ok_def rollback_def events_ok_def task_events_def)

lemma distinct_mkeys_update: "distinct (mkeys m) \<Longrightarrow> distinct (mkeys (mset_key k v m))"
  by (rule distinct_update)

lemma distinct_mkeys_delete: "distinct (mkeys m) \<Longrightarrow> distinct (mkeys (mdelete k m))"
  by (rule distinct_delete)

text \<open>For keys that occur once, \<open>occupied\<close> counts the tasks with a cell that is live or closing.\<close>

lemma occupied_card:
  assumes "distinct (mkeys (h_cells h))" and "distinct (mkeys (h_closingTasks h))"
  shows "occupied h = card (set (mkeys (h_cells h)) \<union> set (mkeys (h_closingTasks h)))"
proof -
  let ?c = "mkeys (h_cells h)" and ?k = "List.filter (\<lambda>i. \<not> mhas (h_cells h) i) (mkeys (h_closingTasks h))"
  have "distinct (?c @ ?k)" using assms by (auto simp: map_of_eq_None_iff)
  then have "length (?c @ ?k) = card (set (?c @ ?k))" by (simp only: distinct_card)
  moreover have "set (?c @ ?k) = set ?c \<union> set (mkeys (h_closingTasks h))" by (auto simp: map_of_eq_None_iff)
  ultimately show ?thesis by (simp add: occupied_def)
qed

lemma keys_delete: "fst ` set (mdelete k m) = fst ` set m - {k}"
  by (induction m) auto

lemma keys_update: "fst ` set (mset_key k v m) = insert k (fst ` set m)"
  by (simp add: dom_map_of_conv_image_fst [symmetric] update_conv')

lemma cells_okI:
  assumes "cells_ok h" and "distinct (mkeys (h_cells h'))" and "distinct (mkeys (h_closingTasks h'))"
    and "fst ` set (h_cells h') \<union> fst ` set (h_closingTasks h') \<subseteq>
      fst ` set (h_cells h) \<union> fst ` set (h_closingTasks h)"
  shows "cells_ok h'"
proof -
  have "occupied h' \<le> occupied h"
    using assms occupied_card [of h] occupied_card [of h'] card_mono [OF _ assms(4)] by (simp add: cells_ok_def)
  then show ?thesis using assms by (simp add: cells_ok_def)
qed

lemma keeps_closeCell: "keeps_inv (ok d) (closeCell i)"
  unfolding closeCell_def
proof (rule keeps_on_hub)
  fix h
  assume h: "cells_ok h"
  let ?h = "h\<lparr>h_cells := mdelete i (h_cells h), h_closingTasks := mset_key i (h_closeSeq h) (h_closingTasks h),
            h_closing := h_closing h @ [h_closeSeq h], h_closeSeq := h_closeSeq h + 1\<rparr>"
  have "cells_ok ?h" if "mhas (h_cells h) i"
  proof (rule cells_okI [OF h])
    have "i \<in> fst ` set (h_cells h)" using that by (metis map_of_eq_None_iff)
    then show "fst ` set (h_cells ?h) \<union> fst ` set (h_closingTasks ?h) \<subseteq>
        fst ` set (h_cells h) \<union> fst ` set (h_closingTasks h)"
      by (simp add: keys_delete keys_update) blast
  qed (use h in \<open>simp_all add: cells_ok_def distinct_mkeys_update distinct_mkeys_delete\<close>)
  then show "cells_ok (if \<not> mhas (h_cells h) i then h else ?h)" using h by simp
qed

lemma ok_roomChanged: "keeps_inv (ok d) roomChanged"
  unfolding roomChanged_def by (rule keeps_on_hub, erule cells_ok_frame [rotated 2]) simp_all

lemma keeps_cell_closed: "keeps_inv (ok d) (cell_closed i k)"
proof -
  have "cells_ok (h\<lparr>h_closing := List.filter (\<lambda>j. j \<noteq> k) (h_closing h),
      h_closingTasks := (if mget (h_closingTasks h) i = Some k then mdelete i (h_closingTasks h) else h_closingTasks h)\<rparr>)"
    if "cells_ok h" for h
    by (rule cells_okI [OF that]) (use that in \<open>auto simp: cells_ok_def distinct_mkeys_delete keys_delete\<close>)
  then show ?thesis
    unfolding cell_closed_def by (intro keeps keeps_on_hub ok_roomChanged ok_emit)
qed

lemma keeps_cell_exit: "keeps_inv (ok d) (cell_exit own i r)"
proof -
  have "cells_ok (h\<lparr>h_cells := mdelete i (h_cells h)\<rparr>)" if "cells_ok h" for h
    by (rule cells_okI [OF that]) (use that in \<open>auto simp: cells_ok_def distinct_mkeys_delete keys_delete\<close>)
  then show ?thesis
    unfolding cell_exit_def by (intro keeps keeps_on_hub ok_roomChanged ok_emit)
qed

text \<open>A cell that is live already is only changed.\<close>

lemma cells_ok_replace:
  assumes "cells_ok h" and "mget (h_cells h) i = Some c"
  shows "cells_ok (h\<lparr>h_cells := mset_key i c' (h_cells h)\<rparr>)"
proof (rule cells_okI [OF assms(1)])
  have "i \<in> fst ` set (h_cells h)" using assms(2) by (metis map_of_eq_None_iff option.distinct(1))
  then show "fst ` set (h_cells (h\<lparr>h_cells := mset_key i c' (h_cells h)\<rparr>)) \<union>
      fst ` set (h_closingTasks (h\<lparr>h_cells := mset_key i c' (h_cells h)\<rparr>)) \<subseteq>
      fst ` set (h_cells h) \<union> fst ` set (h_closingTasks h)"
    by (auto simp: keys_update)
qed (use assms in \<open>simp_all add: cells_ok_def distinct_mkeys_update\<close>)

text \<open>A new cell starts only below the ceiling.\<close>

lemma cells_ok_add:
  assumes "cells_ok h" and "occupied h < CELL_CEILING"
  shows "cells_ok (h\<lparr>h_cells := mset_key i c (h_cells h)\<rparr>)"
proof -
  let ?h = "h\<lparr>h_cells := mset_key i c (h_cells h)\<rparr>"
  have d: "distinct (mkeys (h_cells ?h))" "distinct (mkeys (h_closingTasks ?h))"
    using assms(1) by (simp_all add: cells_ok_def distinct_mkeys_update)
  have "occupied ?h = card (insert i (fst ` set (h_cells h) \<union> fst ` set (h_closingTasks h)))"
    using occupied_card [OF d] by (simp add: keys_update)
  also have "\<dots> \<le> Suc (occupied h)"
    using occupied_card [of h] assms(1) by (simp add: cells_ok_def card_insert_le_m1 card_insert_if)
  finally show ?thesis using d assms(2) by (simp add: cells_ok_def)
qed

section \<open>Every operation keeps it\<close>

interpretation ok: hub_kept ok
proof
  fix d w i c c'
  assume "ok d w" and "mget (h_cells (hub w)) i = Some c"
  then show "ok d (snd (add_cell i c' w))" by (simp add: ok_def add_cell_def on_hub_apply cells_ok_replace)
next
  fix d w i c'
  assume "ok d w" and "occupied (hub w) < CELL_CEILING"
  then show "ok d (snd (add_cell i c' w))" by (simp add: ok_def add_cell_def on_hub_apply cells_ok_add)
next
  fix d and g :: "hub \<Rightarrow> hub"
  assume same: "\<And>h. h_cells (g h) = h_cells h \<and> h_closingTasks (g h) = h_closingTasks h"
  show "keeps_inv (ok d) (on_hub g)"
    by (rule keeps_on_hub, erule cells_ok_frame [rotated 2]) (simp_all add: same)
next
  fix d w d'
  assume "ok d w"
  then show "ok d' (w\<lparr>db := (db w)\<lparr>s_depth := d'\<rparr>\<rparr>)" by (rule ok_depth)
next
  fix w u
  assume "ok 0 w" and "ok 1 u"
  then show "ok 0 (u\<lparr>db := rollback (db w) (db u)\<rparr>)" by (simp add: ok_def db_at_rollback)
qed (auto intro!: keeps_store keeps_update_task keeps_tables keeps_appendEvent db_recordUsage keeps_createTask
    keeps_deleteTasks ok_emit keeps_closeCell keeps_cell_closed keeps_cell_exit simp: ok_def db_at_def)

end
