(* ===== verification/Tools.thy ===== *)
theory Tools
  imports HubTasks
begin

text \<open>
  \<^verbatim>\<open>packages/daemon/src/tools.ts\<close>: the Anchi tools that cells call.  A call that waits for a
  delegated task answers \<open>Waits\<close>; the turn is blocked meanwhile, and \<open>wait_over\<close> is the answer.
\<close>

record tool_context =
  cx_task :: task_row
  cx_agent :: resolved_agent
  cx_requestKey :: "string option"
  cx_aborted :: bool

datatype tool_reply =
  Replied json
| Waits string int
| Policy_pending string string

definition APPROVAL_PENDING :: string where "APPROVAL_PENDING = ''anchi.approval_pending''"
definition LIST_TOOLS :: string where "LIST_TOOLS = ''anchi.tools''"
definition MAX_WAIT_MINUTES :: int where "MAX_WAIT_MINUTES = 55"

datatype anchi_tool = Whoami | List_agents | Delegate_task | Task_status | Send_to_task | List_tasks

fun tool_name :: "anchi_tool \<Rightarrow> string" where
  "tool_name Whoami = ''anchi_whoami''"
| "tool_name List_agents = ''anchi_list_agents''"
| "tool_name Delegate_task = ''anchi_delegate_task''"
| "tool_name Task_status = ''anchi_task_status''"
| "tool_name Send_to_task = ''anchi_send_to_task''"
| "tool_name List_tasks = ''anchi_list_tasks''"

definition BASE_TOOLS :: "anchi_tool list" where "BASE_TOOLS = [Whoami, List_agents]"

definition DELEGATION_TOOLS :: "anchi_tool list" where
  "DELEGATION_TOOLS = [Delegate_task, Task_status, Send_to_task, List_tasks]"

fun available :: "anchi_tool \<Rightarrow> resolved_agent \<Rightarrow> bool" where
  "available Whoami ag = True"
| "available List_agents ag = True"
| "available t ag = (ra_delegates ag \<noteq> [])"

section \<open>Arguments\<close>

fun p_bool :: "bool parser" where
  "p_bool (JBool b) = Some b" | "p_bool _ = None"

datatype tool_args =
  No_args
| Delegate_args string string bool int
| Task_arg string
| Send_args string string bool int

definition message_arg :: "string parser" where
  "message_arg = str_where (\<lambda>s. 1 \<le> length s \<and> length s \<le> 20000)"

definition wait_args :: "fields \<Rightarrow> (bool \<times> int) option" where
  "wait_args kvs = do {
     wt \<leftarrow> default_to True kvs ''wait'' p_bool;
     mins \<leftarrow> default_to 30 kvs ''timeout_minutes'' (int_between 1 MAX_WAIT_MINUTES);
     Some (wt, mins) }"

definition no_args :: "tool_args parser" where
  "no_args j = do { _ \<leftarrow> strictObject [] j; Some No_args }"

fun parse_args :: "anchi_tool \<Rightarrow> tool_args parser" where
  "parse_args Delegate_task j = do {
     kvs \<leftarrow> strictObject [''agent'', ''task'', ''wait'', ''timeout_minutes''] j;
     target \<leftarrow> needed kvs ''agent'' (str_where delegateRefSchema);
     txt \<leftarrow> needed kvs ''task'' message_arg;
     wm \<leftarrow> wait_args kvs;
     Some (Delegate_args target txt (fst wm) (snd wm)) }"
| "parse_args Task_status j = do {
     kvs \<leftarrow> strictObject [''task''] j;
     i \<leftarrow> needed kvs ''task'' (str_where taskIdSchema);
     Some (Task_arg i) }"
| "parse_args Send_to_task j = do {
     kvs \<leftarrow> strictObject [''task'', ''message'', ''wait'', ''timeout_minutes''] j;
     i \<leftarrow> needed kvs ''task'' (str_where taskIdSchema);
     txt \<leftarrow> needed kvs ''message'' message_arg;
     wm \<leftarrow> wait_args kvs;
     Some (Send_args i txt (fst wm) (snd wm)) }"
| "parse_args t j = no_args j"

section \<open>Replies\<close>

definition opt_json :: "string option \<Rightarrow> json" where
  "opt_json x = (case x of None \<Rightarrow> JNull | Some s \<Rightarrow> JStr s)"

definition summary_fields :: "task_row \<Rightarrow> fields" where
  "summary_fields t =
     [(''task'', JStr (t_id t)), (''agent'', JStr (t_agentId t)), (''status'', JStr (status_str (t_status t))),
      (''result'', opt_json (t_result t)), (''links'', JArr (map JStr (t_links t)))]"

definition summary :: "task_row \<Rightarrow> json" where
  "summary t = JObj (summary_fields t)"

definition summary_note :: "task_row \<Rightarrow> string \<Rightarrow> json" where
  "summary_note t note = JObj (summary_fields t @ [(''note'', JStr note)])"

definition agent_entry :: "agent_summary \<Rightarrow> json" where
  "agent_entry a =
     JObj [(''id'', JStr (sm_id a)), (''name'', JStr (sm_name a)),
           (''description'', JStr (or_else (sm_description a) [])),
           (''connectors'', JArr (map JStr (sm_connectors a))), (''status'', JStr (sm_status a))]"

text \<open>The task, if the caller's task delegated it; tools never reach other tasks.\<close>

definition ownChild :: "tool_context \<Rightarrow> string \<Rightarrow> task_row act" where
  "ownChild ctx i =
     andthen (hub_getTask i) (\<lambda>t.
     andthen (require (t_parentId t = Some (t_id (cx_task ctx))) (i @ '' was not delegated by this task'')) (\<lambda>_.
     ret t))"

definition waitFor :: "tool_context \<Rightarrow> nat \<Rightarrow> task_row \<Rightarrow> bool \<Rightarrow> int \<Rightarrow> tool_reply act" where
  "waitFor ctx k t wt minutes =
     andthen (require (\<not> cx_aborted ctx) ''AbortError'') (\<lambda>_.
     if \<not> wt then ret (Replied (summary_note t ''started; use anchi_task_status to follow it''))
     else
       andthen (block (t_id (cx_task ctx))) (\<lambda>_.
       andthen (wait (t_id t) k) (\<lambda>_.
       ret (Waits (t_id t) minutes))))"

text \<open>The wait is over: the task ended, or the time ran out (\<open>None\<close>).\<close>

definition wait_over :: "tool_context \<Rightarrow> string \<Rightarrow> task_row option \<Rightarrow> json act" where
  "wait_over ctx i result =
     andthen (unblock (t_id (cx_task ctx))) (\<lambda>_.
     case result of
       Some row \<Rightarrow> ret (summary row)
     | None \<Rightarrow>
         andthen (hub_getTask i) (\<lambda>t. ret (summary_note t ''still running; use anchi_task_status later'')))"

definition all_agents :: "agent_summary list act" where
  "all_agents = gets (\<lambda>w. summaries w @ (if op_peers (opts w) then peer_agents (network w) else []))"

section \<open>Running a tool\<close>

fun run_tool :: "anchi_tool \<Rightarrow> tool_context \<Rightarrow> nat \<Rightarrow> tool_args \<Rightarrow> tool_reply act" where
  "run_tool Whoami ctx k ta =
     ret (Replied (JObj [(''agent'', JStr (ra_id (cx_agent ctx))), (''task'', JStr (t_id (cx_task ctx)))]))"
| "run_tool List_agents ctx k ta =
     andthen all_agents (\<lambda>as.
     ret (Replied (JObj [(''agents'', JArr (map agent_entry
       (List.filter (\<lambda>a. sm_id a \<in> set (ra_delegates (cx_agent ctx))) as)))])))"
| "run_tool Delegate_task ctx k (Delegate_args target txt wt mins) =
     andthen (delegate (cx_task ctx) (cx_agent ctx) target txt (cx_requestKey ctx)) (\<lambda>t.
     waitFor ctx k t wt mins)"
| "run_tool Task_status ctx k (Task_arg i) =
     andthen (ownChild ctx i) (\<lambda>t. ret (Replied (summary t)))"
| "run_tool Send_to_task ctx k (Send_args i txt wt mins) =
     andthen (ownChild ctx i) (\<lambda>_.
     andthen (sendTask i txt (cx_requestKey ctx)) (\<lambda>t.
     waitFor ctx k t wt mins))"
| "run_tool List_tasks ctx k ta =
     andthen (on_db (children (t_id (cx_task ctx)))) (\<lambda>cs.
     ret (Replied (JObj [(''tasks'', JArr (map summary cs))])))"
| "run_tool t ctx k ta = throw ''TypeError''"

definition dispatcher_tools :: "anchi_tool list" where
  "dispatcher_tools = BASE_TOOLS @ DELEGATION_TOOLS"

definition find_tool :: "string \<Rightarrow> anchi_tool option" where
  "find_tool name = List.find (\<lambda>t. tool_name t = name) dispatcher_tools"

text \<open>\<open>ToolDispatcher.list\<close>: the tools offered (each with its description and schema).\<close>

definition tool_list :: "resolved_agent \<Rightarrow> anchi_tool list" where
  "tool_list ag = List.filter (\<lambda>t. available t ag) dispatcher_tools"

definition field_string :: "fields \<Rightarrow> string \<Rightarrow> string" where
  "field_string kvs k =
     (case map_of kvs k of
        None \<Rightarrow> [] | Some JNull \<Rightarrow> [] | Some (JStr s) \<Rightarrow> s | Some j \<Rightarrow> json_text j)"

definition call :: "tool_context \<Rightarrow> nat \<Rightarrow> string \<Rightarrow> fields \<Rightarrow> tool_reply act" where
  "call ctx k name args =
     (if name = LIST_TOOLS
      then ret (Replied (JObj [(''tools'',
             JArr (map (\<lambda>t. JObj [(''name'', JStr (tool_name t))]) (tool_list (cx_agent ctx))))]))
      else if name = APPROVAL_PENDING
      then
        (let connector = field_string args ''connector''; i = field_string args ''approval_id''
         in andthen (require (connector \<in> set SERVICE_CONNECTORS \<and>
                              connector \<in> set (ra_connectors (cx_agent ctx)))
                      ''not a connector of this agent'') (\<lambda>_.
            andthen (require (requestIdSchema i) ''invalid approval id'') (\<lambda>_.
            ret (Policy_pending connector i))))
      else
        case find_tool name of
          None \<Rightarrow> throw (''unknown tool '' @ name)
        | Some t \<Rightarrow>
            if \<not> available t (cx_agent ctx) then throw (''unknown tool '' @ name)
            else case parse_args t (JObj args) of
                None \<Rightarrow> throw ''invalid arguments''
              | Some ta \<Rightarrow> run_tool t ctx k ta)"

end
