(* ===== verification/Team.thy ===== *)
theory Team
  imports Tools
begin

text \<open>
  \<^verbatim>\<open>packages/daemon/src/team.ts\<close>: the execution node's half of a team.  \<open>worker/\<close> rows hold the
  turn a coordinator's task is at, \<open>received/\<close> rows the digests of the dispatches taken,
  \<open>cancel/\<close> rows the last turn cancelled and \<open>request/\<close> rows the tool calls a cell made.

  The approvals waiting in the VM are an argument, and deciding one is a request to it
  (\<open>approve\<close> answers whether it may be sent).
\<close>

definition keyOf :: "team_key \<Rightarrow> string" where
  "keyOf k = tk_coordinator k @ ''/'' @ tk_task k"

definition worker_key :: "string \<Rightarrow> string" where "worker_key n = ''worker/'' @ n"
definition cancel_key :: "string \<Rightarrow> string" where "cancel_key n = ''cancel/'' @ n"
definition received_key :: "string \<Rightarrow> nat \<Rightarrow> string" where
  "received_key n turn = ''received/'' @ n @ ''/'' @ nat_str turn"
definition worker_task_key :: "string \<Rightarrow> string" where "worker_task_key i = ''worker-task/'' @ i"
definition request_key :: "string \<Rightarrow> string \<Rightarrow> string" where
  "request_key i r = ''request/'' @ i @ ''/'' @ r"

definition team_digest :: "hashed \<Rightarrow> string act" where
  "team_digest v = gets (\<lambda>w. s_sha (db w) v)"

text \<open>The fixed tool surface, and the execution node's own delegation grant.\<close>

definition validateTeamTool :: "resolved_agent \<Rightarrow> string \<Rightarrow> json \<Rightarrow> unit result" where
  "validateTeamTool agent name args =
     (case find_tool name of
        None \<Rightarrow> Inl (Error ''TEAM_TOOL_DENIED'')
      | Some t \<Rightarrow>
          if \<not> available t agent then Inl (Error ''TEAM_TOOL_DENIED'')
          else case parse_args t args of
              None \<Rightarrow> Inl (Error ''ZodError'')
            | Some (Delegate_args target _ _ _) \<Rightarrow>
                if target \<in> set (ra_delegates agent) then Inr () else Inl (Error ''TEAM_DELEGATE_DENIED'')
            | Some _ \<Rightarrow> Inr ())"

definition describe :: "string \<Rightarrow> resolved_agent act" where
  "describe i =
     andthen (require (workerIdSchema i) ''ZodError'') (\<lambda>_.
     andthen (gets (\<lambda>w. resolveAgent (layout w) i None)) (\<lambda>r.
     case r of
       Inl _ \<Rightarrow> throw (''TEAM_AGENT_UNAVAILABLE: agent '' @ i @ '' is missing or invalid on the execution node'')
     | Inr agent \<Rightarrow>
         andthen (require (ra_execution agent = None)
           ''TEAM_NESTED_EXECUTION: select an agent that executes on this node'') (\<lambda>_.
         andthen (on_db nodeId) (\<lambda>_.
         ret agent))))"

definition worker_job :: "string \<Rightarrow> team_job option act" where
  "worker_job n = on_db (teamGet (worker_key n) as_job)"

definition cancelled_turn :: "string \<Rightarrow> nat act" where
  "cancelled_turn n = andthen (on_db (teamGet (cancel_key n) as_nat)) (\<lambda>c. ret (or_else c 0))"

text \<open>The task of a dispatch: a new one, or the one there is with another turn.\<close>

definition dispatch_task :: "team_run \<Rightarrow> team_job option \<Rightarrow> bool \<Rightarrow> task_row act" where
  "dispatch_task p existing cancelled =
     (case (cancelled, existing) of
        (True, Some jb) \<Rightarrow> hub_getTask (tj_task jb)
      | (True, None) \<Rightarrow> on_db (createTask (tr_agent p) ''delegation'' (tr_text p) None)
      | (False, Some jb) \<Rightarrow> sendTask (tj_task jb) (tr_text p) None
      | (False, None) \<Rightarrow> hub_createTask (tr_agent p) (tr_text p) ''delegation'')"

definition mark_cancelled :: "string \<Rightarrow> unit act" where
  "mark_cancelled i =
     andthen (hub_cancelTask i) (\<lambda>_.
     andthen (on_db (setStatus i Cancelled)) (\<lambda>_.
     on_db (setResult i ''cancelled before dispatch'')))"

definition take_turn :: "team_run \<Rightarrow> team_key \<Rightarrow> string \<Rightarrow> unit act" where
  "take_turn p key digest =
     andthen (worker_job (keyOf key)) (\<lambda>existing.
     andthen (require (case existing of None \<Rightarrow> True | Some jb \<Rightarrow> tj_agent jb = tr_agent p)
       ''TEAM_TARGET_CHANGED'') (\<lambda>_.
     andthen (require (tr_turn p = (case existing of None \<Rightarrow> 0 | Some jb \<Rightarrow> tj_turn jb) + 1)
       ''TEAM_TURN_OUT_OF_ORDER'') (\<lambda>_.
     andthen (cancelled_turn (keyOf key)) (\<lambda>last.
     let cancelled = last \<ge> tr_turn p
     in andthen (dispatch_task p existing cancelled) (\<lambda>task.
        andthen (when_do cancelled (mark_cancelled (t_id task))) (\<lambda>_.
        andthen (on_db (setTeamOrigin (t_id task) (tr_origin p))) (\<lambda>_.
        andthen (when_do (existing \<noteq> None) (on_db (teamDeletePrefix (''request/'' @ t_id task @ ''/'')))) (\<lambda>_.
        andthen (on_db (teamPut (worker_key (keyOf key))
          (Tv_job \<lparr>tj_key = key, tj_task = t_id task, tj_agent = tr_agent p, tj_turn = tr_turn p\<rparr>))) (\<lambda>_.
        andthen (on_db (teamPut (worker_task_key (t_id task)) (Tv_key key))) (\<lambda>_.
        on_db (teamPut (received_key (keyOf key) (tr_turn p)) (Tv_receipt digest))))))))))))"

definition run :: "team_run \<Rightarrow> unit act" where
  "run p =
     andthen (require (teamRunSchema p) ''ZodError'') (\<lambda>_.
     andthen (on_db nodeId) (\<lambda>node.
     andthen (require (og_coordinator (tr_origin p) \<noteq> node) ''TEAM_SELF_EXECUTION'') (\<lambda>_.
     andthen (describe (tr_agent p)) (\<lambda>_.
     let key = \<lparr>tk_coordinator = og_coordinator (tr_origin p), tk_task = og_task (tr_origin p)\<rparr>
     in andthen (team_digest (Dg_run p)) (\<lambda>digest.
        transaction (
          andthen (on_db (teamGet (received_key (keyOf key) (tr_turn p)) as_receipt)) (\<lambda>receipt.
          case receipt of
            Some d \<Rightarrow> require (d = digest) ''TEAM_REQUEST_CONFLICT''
          | None \<Rightarrow> take_turn p key digest)))))))"

definition get_job :: "team_key \<Rightarrow> team_job act" where
  "get_job key =
     andthen (require (teamKeySchema key) ''ZodError'') (\<lambda>_.
     andthen (worker_job (keyOf key)) (\<lambda>jb.
     case jb of
       None \<Rightarrow> throw ''TEAM_UNKNOWN_EXECUTION''
     | Some x \<Rightarrow>
         andthen (on_db (getTask (tj_task x))) (\<lambda>t.
         andthen (require (t \<noteq> None) ''TEAM_UNKNOWN_EXECUTION'') (\<lambda>_.
         ret x))))"

record task_info =
  ti_id :: string
  ti_status :: task_status
  ti_runtime :: "string option"
  ti_result :: "string option"
  ti_turns :: nat

definition info_of :: "task_row \<Rightarrow> task_info" where
  "info_of t = \<lparr>ti_id = t_id t, ti_status = t_status t, ti_runtime = t_runtime t, ti_result = t_result t,
                ti_turns = t_turns t\<rparr>"

record team_snapshot =
  sn_task :: task_info
  sn_events :: "stored_event list"
  sn_requests :: "team_tool list"
  sn_approvals :: "approval list"

definition poll :: "approval list \<Rightarrow> team_key \<Rightarrow> nat \<Rightarrow> team_snapshot act" where
  "poll waiting key afterSeq =
     andthen (get_job key) (\<lambda>jb.
     andthen (hub_getTask (tj_task jb)) (\<lambda>task.
     andthen (on_db (events (t_id task) afterSeq (int EVENTS_PAGE_LIMIT))) (\<lambda>es.
     andthen (on_db (teamEntries (''request/'' @ t_id task @ ''/'') as_request)) (\<lambda>rs.
     ret \<lparr>sn_task = info_of task, sn_events = es,
          sn_requests = take 16 (map rq_tool (List.filter
            (\<lambda>r. in_flight (t_status task) \<and> rq_outcome r = None \<and> tt_turn (rq_tool r) = tj_turn jb) rs)),
          sn_approvals = take 16 (List.filter (\<lambda>a. ap_task a = t_id task) waiting)\<rparr>))))"

definition reply :: "team_key \<Rightarrow> string \<Rightarrow> outcome \<Rightarrow> unit act" where
  "reply key r out =
     andthen (require (requestIdSchema r \<and> outcomeSchema out) ''ZodError'') (\<lambda>_.
     andthen (require (length (json_text (outcome_json out)) \<le> 200000) ''TEAM_REPLY_TOO_LARGE'') (\<lambda>_.
     andthen (get_job key) (\<lambda>jb.
     andthen (on_db (teamGet (request_key (tj_task jb) r) as_request)) (\<lambda>request.
     case request of
       None \<Rightarrow> throw ''TEAM_UNKNOWN_REQUEST''
     | Some q \<Rightarrow>
         andthen (require (tt_turn (rq_tool q) = tj_turn jb) ''TEAM_UNKNOWN_REQUEST'') (\<lambda>_.
         andthen (gets (\<lambda>w. case rq_outcome q of
             None \<Rightarrow> True | Some old \<Rightarrow> s_sha (db w) (Dg_outcome old) = s_sha (db w) (Dg_outcome out))) (\<lambda>same.
         andthen (require same ''TEAM_REPLY_CONFLICT'') (\<lambda>_.
         on_db (teamPut (request_key (tj_task jb) r) (Tv_request (q\<lparr>rq_outcome := Some out\<rparr>)))))))))) "

definition cancel :: "team_key \<Rightarrow> nat \<Rightarrow> unit act" where
  "cancel key turn =
     andthen (require (teamKeySchema key \<and> 1 \<le> turn \<and> turn \<le> 100000) ''ZodError'') (\<lambda>_.
     transaction (
       andthen (cancelled_turn (keyOf key)) (\<lambda>previous.
       andthen (on_db (teamPut (cancel_key (keyOf key)) (Tv_nat (max turn previous)))) (\<lambda>_.
       andthen (worker_job (keyOf key)) (\<lambda>jb.
       case jb of
         None \<Rightarrow> ret ()
       | Some x \<Rightarrow>
           andthen (on_db (getTask (tj_task x))) (\<lambda>t.
           when_do (tj_turn x \<le> turn \<and> t \<noteq> None) (hub_cancelTask (tj_task x)))))))) "

definition approve :: "approval list \<Rightarrow> team_key \<Rightarrow> string \<Rightarrow> unit act" where
  "approve waiting key i =
     andthen (get_job key) (\<lambda>jb.
     require (\<exists>a \<in> set waiting. ap_id a = i \<and> ap_task a = tj_task jb) ''TEAM_APPROVAL_DENIED'')"

section \<open>Calls of a cell\<close>

text \<open>
  \<open>relay\<close>: \<open>None\<close> leaves the call to the local tools, else the row that will hold the answer.
\<close>

definition relay ::
  "task_row \<Rightarrow> resolved_agent \<Rightarrow> string \<Rightarrow> string \<Rightarrow> string \<Rightarrow> json \<Rightarrow> string option act" where
  "relay task agent i turn name args =
     andthen (on_db (teamGet (worker_task_key (t_id task)) as_key)) (\<lambda>key.
     case key of
       None \<Rightarrow> ret None
     | Some k \<Rightarrow>
         if name = APPROVAL_PENDING \<or> name = LIST_TOOLS then ret None
         else
           andthen (lift_result (validateTeamTool agent name args)) (\<lambda>_.
           andthen (get_job k) (\<lambda>jb.
           andthen (team_digest (Dg_call (t_id task) turn i)) (\<lambda>d.
           let r = take 32 d; path = request_key (t_id task) r;
               tl = \<lparr>tt_id = r, tt_turn = tj_turn jb, tt_tool = name, tt_args = args\<rparr>
           in andthen (on_db (teamGet path as_request)) (\<lambda>existing.
              andthen (if existing = None
                then andthen (require (teamToolSchema tl) ''ZodError'') (\<lambda>_.
                  on_db (teamPut path (Tv_request \<lparr>rq_tool = tl, rq_task = t_id task, rq_outcome = None\<rparr>)))
                else ret ()) (\<lambda>_.
              ret (Some path)))))))"

text \<open>The answer to a listing keeps the agents both nodes grant.\<close>

definition granted_entry :: "resolved_agent \<Rightarrow> json \<Rightarrow> bool" where
  "granted_entry agent j =
     (case map_of (obj_fields j) ''id'' of Some (JStr i) \<Rightarrow> i \<in> set (ra_delegates agent) | _ \<Rightarrow> False)"

definition filter_reply :: "resolved_agent \<Rightarrow> string \<Rightarrow> json \<Rightarrow> json" where
  "filter_reply agent name v =
     (case map_of (obj_fields v) ''agents'' of
        Some (JArr xs) \<Rightarrow>
          if name = ''anchi_list_agents''
          then JObj (mset_key ''agents'' (JArr (List.filter (granted_entry agent) xs)) (obj_fields v))
          else v
      | _ \<Rightarrow> v)"

text \<open>One look of \<open>awaitReply\<close>: \<open>None\<close> sleeps and looks again.\<close>

definition await_step :: "bool \<Rightarrow> string \<Rightarrow> string \<Rightarrow> json option act" where
  "await_step stopped i path =
     andthen (require (\<not> stopped) ''TEAM_NODE_STOPPED'') (\<lambda>_.
     andthen (on_db (teamGet path as_request)) (\<lambda>request.
     case request of
       None \<Rightarrow> throw ''TEAM_TURN_ENDED''
     | Some q \<Rightarrow>
         (case rq_outcome q of
            Some (Outcome_error m) \<Rightarrow> throw m
          | Some (Outcome_result v) \<Rightarrow> ret (Some v)
          | None \<Rightarrow>
              andthen (on_db (getTask i)) (\<lambda>task.
              andthen (require (case task of None \<Rightarrow> False | Some t \<Rightarrow> in_flight (t_status t)) ''TEAM_TURN_ENDED'') (\<lambda>_.
              ret None)))))"

end
