(* ===== verification/PeerTasks.thy ===== *)
theory PeerTasks
  imports Team
begin

text \<open>
  \<^verbatim>\<open>packages/daemon/src/peer-tasks.ts\<close>: both ends of a task that runs on another machine.  The
  executor's end is \<open>peer_handle\<close> (\<open>task.run\<close>, \<open>task.cancel\<close>, \<open>task.poll\<close>, \<open>task.approve\<close>); the
  other end sends what \<open>peer/out/\<close> rows hold (\<open>sync_requests\<close>) and takes in the snapshot it
  polls (\<open>sync_apply\<close>, \<open>sync_failed\<close>), the delegated tasks of the snapshot as mirrored rows.

  The approvals waiting in the VM, and the bytes of an approval's JSON text, are arguments.
\<close>

section \<open>Snapshots\<close>

record descendant =
  ds_id :: string
  ds_parent :: string
  ds_agent :: string
  ds_title :: string
  ds_status :: task_status
  ds_result :: "string option"
  ds_turns :: nat

record peer_snapshot =
  ps_task :: task_info
  ps_events :: "stored_event list"
  ps_nextSeq :: nat
  ps_hasMore :: bool
  ps_approvals :: "approval list"
  ps_descendants :: "descendant list"

definition max_len :: "nat \<Rightarrow> string option \<Rightarrow> bool" where
  "max_len n x \<longleftrightarrow> (case x of None \<Rightarrow> True | Some s \<Rightarrow> length s \<le> n)"

definition infoSchema :: "task_info \<Rightarrow> bool" where
  "infoSchema t \<longleftrightarrow> taskIdSchema (ti_id t) \<and> max_len 100 (ti_runtime t) \<and> max_len 8000 (ti_result t)"

definition peerApprovalSchema :: "approval \<Rightarrow> bool" where
  "peerApprovalSchema a \<longleftrightarrow>
     1 \<le> length (ap_id a) \<and> length (ap_id a) \<le> 40 \<and> taskIdSchema (ap_task a) \<and>
     delegateRefSchema (ap_agent a) \<and> length (ap_connector a) \<le> 100 \<and> length (ap_operation a) \<le> 1000 \<and>
     length (ap_host a) \<le> 1000 \<and> length (ap_summary a) \<le> 200000 \<and> 0 \<le> ap_timeout a \<and>
     ap_timeout a \<le> 43200 \<and> length (ap_reason a) \<le> 2000 \<and> length (ap_origin a) \<le> 2000"

definition descendantSchema :: "descendant \<Rightarrow> bool" where
  "descendantSchema d \<longleftrightarrow>
     taskIdSchema (ds_id d) \<and> taskIdSchema (ds_parent d) \<and> peerAgentRefSchema (ds_agent d) \<and>
     length (ds_title d) \<le> 120 \<and> max_len 8000 (ds_result d) \<and> ds_turns d \<le> 60"

definition peerSnapshotSchema :: "peer_snapshot \<Rightarrow> bool" where
  "peerSnapshotSchema p \<longleftrightarrow>
     infoSchema (ps_task p) \<and> length (ps_events p) \<le> 500 \<and>
     list_all (\<lambda>e. 1 \<le> se_seq e \<and> runtimeEventSchema (se_event e)) (ps_events p) \<and>
     length (ps_approvals p) \<le> 100 \<and> list_all peerApprovalSchema (ps_approvals p) \<and>
     length (ps_descendants p) \<le> 59 \<and> list_all descendantSchema (ps_descendants p)"

section \<open>The executor\<close>

definition in_key :: "string \<Rightarrow> string" where "in_key k = ''peer/in/'' @ k"
definition peer_cancel_key :: "string \<Rightarrow> string" where "peer_cancel_key k = ''peer/cancel/'' @ k"
definition peer_receipt_key :: "string \<Rightarrow> nat \<Rightarrow> string" where
  "peer_receipt_key k turn = ''peer/receipt/'' @ k @ ''/'' @ nat_str turn"
definition route_key :: "string \<Rightarrow> string" where "route_key i = ''peer/approval/'' @ i"
definition shadow_key :: "string \<Rightarrow> string \<Rightarrow> string" where
  "shadow_key p i = ''peer/shadow/'' @ p @ ''/'' @ i"

definition node_task :: "string \<Rightarrow> string \<Rightarrow> string" where "node_task node i = node @ ''/'' @ i"

definition originValid :: "string \<Rightarrow> peer_dispatch \<Rightarrow> bool" where
  "originValid node p \<longleftrightarrow>
     (case dp_parent p of
        Some r \<Rightarrow> ref_node r = node \<and> 2 \<le> length (dp_lineage p) \<and>
                  ref_node_of (dp_lineage p ! (length (dp_lineage p) - 2)) = node
      | None \<Rightarrow> length (dp_lineage p) = 1 \<and> ref_node (dp_root p) = node \<and>
                ref_task (dp_root p) = dp_request p)"

definition target_agent :: "string \<Rightarrow> string" where
  "target_agent target = (case split_on (CHR ''/'') target of _ # a # _ \<Rightarrow> a | _ \<Rightarrow> [])"

definition check_dispatch :: "string \<Rightarrow> peer_dispatch \<Rightarrow> unit act" where
  "check_dispatch node p =
     andthen (require (peerDispatchSchema p) ''ZodError'') (\<lambda>_.
     andthen (gets (\<lambda>w. net_self (network w))) (\<lambda>self.
     andthen (require (originValid node p \<and> last (dp_lineage p) = dp_target p \<and>
                       distinct (dp_lineage p) \<and> ref_node_of (dp_target p) = self) ''PEER_ORIGIN_DENIED'') (\<lambda>_.
     andthen (localRef (target_agent (dp_target p))) (\<lambda>own.
     andthen (require (own = dp_target p) ''PEER_AGENT_GENERATION_CHANGED'') (\<lambda>_.
     andthen (\<lambda>w. lift_result (resolveAgent (layout w) (target_agent (dp_target p)) None) w) (\<lambda>agent.
     andthen (require (ra_execution agent = None) ''PEER_LEGACY_EXECUTION_DENIED'') (\<lambda>_.
     require (b_start (dp_budget p) < b_end (dp_budget p)) ''PEER_TURN_BUDGET_EXHAUSTED'')))))))"

definition get_incoming :: "string \<Rightarrow> incoming option act" where
  "get_incoming k = on_db (teamGet (in_key k) as_incoming)"

definition get_cancelled :: "string \<Rightarrow> nat act" where
  "get_cancelled k = andthen (on_db (teamGet (peer_cancel_key k) as_nat)) (\<lambda>c. ret (or_else c 0))"

definition peer_dispatch_task :: "peer_dispatch \<Rightarrow> incoming option \<Rightarrow> bool \<Rightarrow> task_row act" where
  "peer_dispatch_task p jb cancelled =
     (case (cancelled, jb) of
        (True, Some x) \<Rightarrow> hub_getTask (in_task x)
      | (True, None) \<Rightarrow> on_db (createTask (target_agent (dp_target p)) ''delegation'' (dp_text p) None)
      | (False, Some x) \<Rightarrow> sendTask (in_task x) (dp_text p) None
      | (False, None) \<Rightarrow> hub_createTask (target_agent (dp_target p)) (dp_text p) ''delegation'')"

definition peer_take_turn :: "string \<Rightarrow> peer_dispatch \<Rightarrow> string \<Rightarrow> string \<Rightarrow> unit act" where
  "peer_take_turn k p identity digest =
     andthen (get_incoming k) (\<lambda>jb.
     andthen (require (case jb of None \<Rightarrow> True | Some x \<Rightarrow> in_identity x = identity) ''PEER_REQUEST_CONFLICT'') (\<lambda>_.
     andthen (require (dp_turn p = (case jb of None \<Rightarrow> 0 | Some x \<Rightarrow> in_turn x) + 1) ''PEER_TURN_OUT_OF_ORDER'') (\<lambda>_.
     andthen (get_cancelled k) (\<lambda>last_cancelled.
     let cancelled = last_cancelled \<ge> dp_turn p
     in andthen (peer_dispatch_task p jb cancelled) (\<lambda>task.
        andthen (when_do (jb = None)
          (andthen (on_db (setPeer (t_id task) (Peer_execution
             \<lparr>pe_root = dp_root p, pe_parent = dp_parent p, pe_lineage = dp_lineage p\<rparr>))) (\<lambda>_.
           on_db (teamPut (budget_key (t_id task)) (Tv_budget (dp_budget p)))))) (\<lambda>_.
        andthen (when_do cancelled (mark_cancelled (t_id task))) (\<lambda>_.
        andthen (on_db (teamPut (in_key k)
          (Tv_incoming \<lparr>in_task = t_id task, in_turn = dp_turn p, in_identity = identity\<rparr>))) (\<lambda>_.
        on_db (teamPut (peer_receipt_key k (dp_turn p)) (Tv_string digest))))))))))"

definition peer_run :: "string \<Rightarrow> peer_dispatch \<Rightarrow> unit act" where
  "peer_run node p =
     andthen (check_dispatch node p) (\<lambda>_.
     let k = node_task node (dp_request p)
     in andthen (team_digest (Dg_dispatch (p\<lparr>dp_turn := 0, dp_text := []\<rparr>))) (\<lambda>identity.
        andthen (team_digest (Dg_dispatch p)) (\<lambda>digest.
        transaction (
          andthen (on_db (teamGet (peer_receipt_key k (dp_turn p)) as_string)) (\<lambda>receipt.
          case (case receipt of Some [] \<Rightarrow> None | r \<Rightarrow> r) of
            Some d \<Rightarrow> require (d = digest) ''PEER_REQUEST_CONFLICT''
          | None \<Rightarrow> peer_take_turn k p identity digest)))))"

definition peer_task_cancel :: "string \<Rightarrow> string \<Rightarrow> nat \<Rightarrow> unit act" where
  "peer_task_cancel node request turn =
     andthen (require (taskIdSchema request \<and> 1 \<le> turn \<and> turn \<le> 60) ''ZodError'') (\<lambda>_.
     let k = node_task node request
     in transaction (
       andthen (get_cancelled k) (\<lambda>previous.
       andthen (on_db (teamPut (peer_cancel_key k) (Tv_nat (max previous turn)))) (\<lambda>_.
       andthen (get_incoming k) (\<lambda>jb.
       case jb of
         None \<Rightarrow> ret ()
       | Some x \<Rightarrow>
           andthen (on_db (getTask (in_task x))) (\<lambda>t.
           when_do (in_turn x \<le> turn \<and> t \<noteq> None) (hub_cancelTask (in_task x))))))))"

definition peer_job :: "string \<Rightarrow> string \<Rightarrow> task_row act" where
  "peer_job node request =
     andthen (require (taskIdSchema request) ''ZodError'') (\<lambda>_.
     andthen (get_incoming (node_task node request)) (\<lambda>jb.
     andthen (case jb of None \<Rightarrow> ret None | Some x \<Rightarrow> on_db (getTask (in_task x))) (\<lambda>task.
     case task of None \<Rightarrow> throw ''PEER_UNKNOWN_EXECUTION'' | Some t \<Rightarrow> ret t)))"

definition listApprovals :: "approval list act" where
  "listApprovals = andthen (on_db (teamEntries ''peer/approval/'' as_route)) (\<lambda>rs. ret (map ar_approval rs))"

fun approvals_within :: "(approval \<Rightarrow> nat) \<Rightarrow> nat \<Rightarrow> approval list \<Rightarrow> approval list" where
  "approvals_within bytes used [] = []"
| "approvals_within bytes used (a # as) =
     (if used + bytes a > 2000000 then approvals_within bytes used as
      else a # approvals_within bytes (used + bytes a) as)"

fun map_act :: "('a \<Rightarrow> 'b act) \<Rightarrow> 'a list \<Rightarrow> 'b list act" where
  "map_act f [] = ret []"
| "map_act f (x # xs) = andthen (f x) (\<lambda>y. andthen (map_act f xs) (\<lambda>ys. ret (y # ys)))"

definition descendant_of :: "task_row \<Rightarrow> descendant act" where
  "descendant_of t =
     andthen (case mirror_of t of Some m \<Rightarrow> ret (pm_agent m) | None \<Rightarrow> localRef (t_agentId t)) (\<lambda>ref.
     ret \<lparr>ds_id = t_id t, ds_parent = or_else (t_parentId t) [], ds_agent = ref, ds_title = t_title t,
          ds_status = t_status t, ds_result = t_result t, ds_turns = t_turns t\<rparr>)"

definition last_seq :: "nat \<Rightarrow> stored_event list \<Rightarrow> nat" where
  "last_seq afterSeq page = (if page = [] then afterSeq else se_seq (last page))"

definition is_session_started :: "runtime_event \<Rightarrow> bool" where
  "is_session_started ev = (case ev of Ev_session_started _ \<Rightarrow> True | _ \<Rightarrow> False)"

definition peer_poll :: "(approval \<Rightarrow> nat) \<Rightarrow> approval list \<Rightarrow> string \<Rightarrow> string \<Rightarrow> nat \<Rightarrow> peer_snapshot act" where
  "peer_poll bytes waiting node request afterSeq =
     andthen (peer_job node request) (\<lambda>task.
     andthen (on_db (tree (t_id task))) (\<lambda>ts.
     andthen (on_db (events (t_id task) afterSeq 100)) (\<lambda>page.
     andthen listApprovals (\<lambda>own.
     andthen (map_act descendant_of (List.filter (\<lambda>t. t_id t \<noteq> t_id task) ts)) (\<lambda>ds.
     let snap = \<lparr>ps_task = info_of task,
           ps_events = List.filter (\<lambda>e. \<not> is_session_started (se_event e)) page,
           ps_nextSeq = last_seq afterSeq page, ps_hasMore = (length page = 100),
           ps_approvals = take 100 (approvals_within bytes 0
             (List.filter (\<lambda>a. ap_task a \<in> t_id ` set ts) (waiting @ own))),
           ps_descendants = ds\<rparr>
     in andthen (require (peerSnapshotSchema snap) ''ZodError'') (\<lambda>_. ret snap))))))"

text \<open>
  \<open>task.approve\<close>: whether the decision may be taken, and whether it belongs to another machine
  (then the node, its request and its approval) or to this one.
\<close>

datatype decision = Decide_here string | Decide_there string string string

definition peer_decide :: "string \<Rightarrow> (string \<times> string \<times> string) option act" where
  "peer_decide i =
     andthen (on_db (teamGet (route_key i) as_route)) (\<lambda>route.
     case route of
       None \<Rightarrow> ret None
     | Some r \<Rightarrow>
         andthen (hub_getTask (ar_task r)) (\<lambda>task.
         case mirror_of task of
           None \<Rightarrow> throw ''PEER_APPROVAL_DENIED''
         | Some m \<Rightarrow>
             andthen (require (\<not> pm_observed m) ''PEER_APPROVAL_DENIED'') (\<lambda>_.
             ret (Some (pm_node m, t_id task, ar_remote r)))))"

definition peer_decided :: "string \<Rightarrow> unit act" where
  "peer_decided i = on_db (teamDeletePrefix (route_key i))"

definition peer_approve :: "approval list \<Rightarrow> string \<Rightarrow> string \<Rightarrow> string \<Rightarrow> decision act" where
  "peer_approve waiting node request i =
     andthen (require (1 \<le> length i \<and> length i \<le> 40) ''ZodError'') (\<lambda>_.
     andthen (peer_job node request) (\<lambda>task.
     andthen (on_db (tree (t_id task))) (\<lambda>ts.
     andthen listApprovals (\<lambda>own.
     andthen (require (\<exists>a \<in> set (waiting @ own). ap_id a = i \<and> ap_task a \<in> t_id ` set ts) ''PEER_APPROVAL_DENIED'') (\<lambda>_.
     andthen (peer_decide i) (\<lambda>there.
     ret (case there of None \<Rightarrow> Decide_here i | Some (n, t, r) \<Rightarrow> Decide_there n t r)))))))"

section \<open>The other end\<close>

definition get_outgoing :: "string \<Rightarrow> outgoing option act" where
  "get_outgoing i = on_db (teamGet (out_key i) as_outgoing)"

text \<open>What a round of \<open>tick\<close> works on, and the requests of one \<open>sync\<close>, in order.\<close>

definition tick_jobs :: "string list \<Rightarrow> string list act" where
  "tick_jobs active =
     andthen (on_db (teamEntries ''peer/out/'' as_outgoing)) (\<lambda>jobs.
     gets (\<lambda>w. map out_task (List.filter (\<lambda>jb. \<not> out_settled jb \<and> out_task jb \<notin> set active \<and>
       find_task (out_task jb) (s_tasks (db w)) \<noteq> None) jobs)))"

datatype peer_request =
  Request_cancel string nat
| Request_run peer_dispatch
| Request_poll string nat

definition sync_requests :: "outgoing \<Rightarrow> peer_request list" where
  "sync_requests jb =
     (if out_cancelled jb then [Request_cancel (out_task jb) (dp_turn (out_dispatch jb))] else []) @
     [Request_run (out_dispatch jb), Request_poll (out_task jb) (out_cursor jb)]"

text \<open>The snapshot's tasks as a tree of at most three levels below the parent.\<close>

function tree_depths :: "(string, nat) jsmap \<Rightarrow> descendant list \<Rightarrow> (string, nat) jsmap result" where
  "tree_depths depths rest =
     (if rest = [] then Inr depths
      else case List.extract (\<lambda>t. mhas depths (ds_parent t)) rest of
          None \<Rightarrow> Inl (Error ''PEER_TASK_TREE_INVALID'')
        | Some (xs, t, ys) \<Rightarrow>
            (let depth = the (mget depths (ds_parent t)) + 1
             in if depth > 3 then Inl (Error ''PEER_TASK_TREE_INVALID'')
                else tree_depths (mset_key (ds_id t) depth depths) (xs @ ys)))"
  by pat_completeness auto
termination by (relation "measure (length \<circ> snd)") (auto simp: extract_Some_iff)

declare tree_depths.simps [simp del]

definition check_tree :: "task_row \<Rightarrow> peer_snapshot \<Rightarrow> unit result" where
  "check_tree parent snap =
     (let root_id = ti_id (ps_task snap); ds = ps_descendants snap
      in if \<not> distinct (root_id # map ds_id ds) then Inl (Error ''PEER_TASK_TREE_INVALID'')
         else rbind (tree_depths [(root_id, t_depth parent)] ds) (\<lambda>depths.
           if \<exists>a \<in> set (ps_approvals snap). \<not> mhas depths (ap_task a)
           then Inl (Error ''PEER_SNAPSHOT_INVALID'') else Inr ()))"

text \<open>The local row of a descendant: the one known as its shadow, or a new one.\<close>

definition shadow_task :: "task_row \<Rightarrow> (string, string) jsmap \<Rightarrow> descendant \<Rightarrow> string act" where
  "shadow_task parent mapping t =
     andthen (on_db (teamGet (shadow_key (t_id parent) (ds_id t)) as_string)) (\<lambda>known.
     case (case known of Some [] \<Rightarrow> None | k \<Rightarrow> k) of
       Some i \<Rightarrow> ret i
     | None \<Rightarrow>
         andthen (hub_getTask (the (mget mapping (ds_parent t)))) (\<lambda>above.
         andthen (on_db (createTask (ds_agent t) ''delegation'' (ds_title t) (Some above))) (\<lambda>child.
         andthen (require (t_depth child \<le> 3) ''PEER_TASK_TREE_INVALID'') (\<lambda>_.
         case mirror_of parent of
           None \<Rightarrow> throw ''PEER_TASK_INVALID''
         | Some m \<Rightarrow>
             andthen (on_db (setPeer (t_id child) (Peer_mirror
               (m\<lparr>pm_agent := ds_agent t, pm_remoteTask := Some (ds_id t), pm_observed := True\<rparr>)))) (\<lambda>_.
             andthen (on_db (teamPut (shadow_key (t_id parent) (ds_id t)) (Tv_string (t_id child)))) (\<lambda>_.
             ret (t_id child)))))))"

definition mirror_row :: "task_row \<Rightarrow> (string, string) jsmap \<Rightarrow> descendant \<Rightarrow> string act" where
  "mirror_row parent mapping t =
     andthen (shadow_task parent mapping t) (\<lambda>i.
     andthen (on_db (setPeerTurns i (ds_turns t))) (\<lambda>_.
     andthen (case ds_result t of None \<Rightarrow> ret () | Some r \<Rightarrow> on_db (setResult i r)) (\<lambda>_.
     andthen (on_db (setStatus i (ds_status t))) (\<lambda>row.
     andthen (emit (Out_task row)) (\<lambda>_.
     ret i)))))"

fun mirror_rows ::
  "nat \<Rightarrow> task_row \<Rightarrow> (string, string) jsmap \<Rightarrow> descendant list \<Rightarrow> (string, string) jsmap act" where
  "mirror_rows n parent mapping [] = ret mapping"
| "mirror_rows 0 parent mapping (d # ds) = ret mapping"
| "mirror_rows (Suc n) parent mapping (d # ds) =
     (case List.extract (\<lambda>t. mhas mapping (ds_parent t)) (d # ds) of
        None \<Rightarrow> throw ''PEER_TASK_TREE_INVALID''
      | Some (xs, t, ys) \<Rightarrow>
          andthen (mirror_row parent mapping t) (\<lambda>i.
          mirror_rows n parent (mset_key (ds_id t) i mapping) (xs @ ys)))"

definition mirrorTree :: "task_row \<Rightarrow> peer_snapshot \<Rightarrow> (string, string) jsmap act" where
  "mirrorTree parent snap =
     andthen (lift_result (check_tree parent snap)) (\<lambda>_.
     mirror_rows (length (ps_descendants snap)) parent [(ti_id (ps_task snap), t_id parent)]
       (ps_descendants snap))"

text \<open>The events after the cursor, in the order of the snapshot; the cursor ends on the last.\<close>

fun take_events :: "task_row \<Rightarrow> nat \<Rightarrow> stored_event list \<Rightarrow> nat act" where
  "take_events task cursor [] = ret cursor"
| "take_events task cursor (e # es) =
     (if se_seq e \<le> cursor then take_events task cursor es
      else
        andthen (when_do (\<not> is_session_started (se_event e)) (record_event task (se_event e))) (\<lambda>_.
        take_events task (se_seq e) es))"

definition put_route :: "string \<Rightarrow> string \<Rightarrow> (string, string) jsmap \<Rightarrow> approval \<Rightarrow> unit act" where
  "put_route node i mapped a =
     andthen (team_digest (Dg_route node i (ap_id a))) (\<lambda>d.
     let approvalId = take 32 d
     in case mget mapped (ap_task a) of
          None \<Rightarrow> throw ''PEER_APPROVAL_DENIED''
        | Some localTask \<Rightarrow>
            andthen (hub_getTask localTask) (\<lambda>row.
            on_db (teamPut (route_key approvalId) (Tv_route
              \<lparr>ar_task = i, ar_remote = ap_id a,
               ar_approval = a\<lparr>ap_id := approvalId, ap_task := localTask, ap_agent := t_agentId row\<rparr>\<rparr>))))"

definition drop_routes :: "string \<Rightarrow> unit act" where
  "drop_routes i =
     andthen (on_db (teamEntries ''peer/approval/'' as_route)) (\<lambda>rs.
     each (\<lambda>r. when_do (ar_task r = i) (on_db (teamDeletePrefix (route_key (ap_id (ar_approval r)))))) rs)"

definition sync_end :: "task_row \<Rightarrow> outgoing \<Rightarrow> outgoing \<Rightarrow> peer_snapshot \<Rightarrow> unit act" where
  "sync_end task jb current snap =
     (let status = ti_status (ps_task snap);
          complete = (\<not> in_flight status \<and> \<not> ps_hasMore snap);
          acked = (\<not> out_cancelled current \<or> out_cancelled jb);
          settled = (complete \<and> list_all (\<lambda>d. \<not> in_flight (ds_status d)) (ps_descendants snap) \<and> acked)
      in andthen (on_db (teamPut (out_key (t_id task)) (Tv_outgoing (current\<lparr>out_settled := settled\<rparr>)))) (\<lambda>_.
         if complete \<and> acked \<and> (in_flight (t_status task) \<or> t_result task \<noteq> ti_result (ps_task snap))
         then finish (t_id task) status (Some (or_else (ti_result (ps_task snap)) []))
         else if t_status task = Queued
         then andthen (on_db (setStatus (t_id task) Running)) (\<lambda>row. emit (Out_task row))
         else ret ()))"

text \<open>The body of the transaction, for the outgoing row \<open>now\<close> of the mirrored \<open>task\<close>.\<close>

definition apply_snapshot ::
  "outgoing \<Rightarrow> peer_snapshot \<Rightarrow> outgoing \<Rightarrow> task_row \<Rightarrow> peer_mirror \<Rightarrow> unit act" where
  "apply_snapshot jb snap now task m =
     (let i = out_task jb
      in andthen (on_db (setPeer i (Peer_mirror (m\<lparr>pm_remoteTask := Some (ti_id (ps_task snap))\<rparr>)))) (\<lambda>_.
         andthen (case ti_runtime (ps_task snap) of
                    Some r \<Rightarrow> when_do (r \<noteq> []) (on_db (setRuntime i r)) | None \<Rightarrow> ret ()) (\<lambda>_.
         andthen (mirrorTree task snap) (\<lambda>mapped.
         andthen (when_do (out_error now \<noteq> None \<and> out_error now \<noteq> Some [])
           (notice i ''Peer connection restored; synchronized the existing task.'')) (\<lambda>_.
         andthen (take_events task (out_cursor now) (ps_events snap)) (\<lambda>cursor.
         andthen (require (cursor \<le> ps_nextSeq snap \<and>
             list_all (\<lambda>e. se_seq e \<le> ps_nextSeq snap) (ps_events snap)) ''PEER_SNAPSHOT_INVALID'') (\<lambda>_.
         andthen (drop_routes i) (\<lambda>_.
         andthen (each (put_route (ref_node_of (dp_target (out_dispatch jb))) i mapped) (ps_approvals snap)) (\<lambda>_.
         andthen (on_db (setPeerTurns i (ti_turns (ps_task snap)))) (\<lambda>_.
         sync_end task jb (now\<lparr>out_cursor := ps_nextSeq snap, out_error := None\<rparr>) snap))))))))))"

definition sync_body :: "outgoing \<Rightarrow> peer_snapshot \<Rightarrow> unit act" where
  "sync_body jb snap =
     andthen (get_outgoing (out_task jb)) (\<lambda>now.
     case now of
       None \<Rightarrow> ret ()
     | Some x \<Rightarrow>
         if dp_turn (out_dispatch x) \<noteq> dp_turn (out_dispatch jb) then ret ()
         else
           andthen (hub_getTask (out_task jb)) (\<lambda>task.
           case mirror_of task of
             None \<Rightarrow> throw ''PEER_TASK_INVALID''
           | Some m \<Rightarrow> apply_snapshot jb snap x task m))"

definition sync_apply :: "outgoing \<Rightarrow> peer_snapshot \<Rightarrow> unit act" where
  "sync_apply jb snap =
     andthen (require (peerSnapshotSchema snap) ''ZodError'') (\<lambda>_. transaction (sync_body jb snap))"

text \<open>Errors after which the work cannot go on.\<close>

definition fatal_marks :: "string list" where
  "fatal_marks =
     map (\<lambda>s. ''PEER_'' @ s)
       [''AGENT_'', ''ORIGIN_'', ''REQUEST_CONFLICT'', ''TURN_'', ''LEGACY_'', ''UNKNOWN_EXECUTION'',
        ''REVOKED'', ''NOT_PAIRED'', ''TASK_TREE_INVALID'', ''SNAPSHOT_INVALID'']"

definition is_fatal :: "string \<Rightarrow> bool" where
  "is_fatal e \<longleftrightarrow> list_ex (\<lambda>m. js_includes m e) fatal_marks"

text \<open>\<open>txt\<close> is \<open>String(error)\<close>.\<close>

definition sync_failed :: "bool \<Rightarrow> string \<Rightarrow> string \<Rightarrow> unit act" where
  "sync_failed stopped i txt =
     (if stopped then ret ()
      else
        andthen (get_outgoing i) (\<lambda>now.
        case now of
          None \<Rightarrow> ret ()
        | Some x \<Rightarrow>
            andthen (when_do (out_error x \<noteq> Some (take 2000 txt))
              (andthen (on_db (teamPut (out_key i) (Tv_outgoing (x\<lparr>out_error := Some (take 2000 txt)\<rparr>)))) (\<lambda>_.
               notice i (''Peer request could not complete: '' @ take 2000 txt)))) (\<lambda>_.
            when_do (is_fatal txt)
              (andthen (get_outgoing i) (\<lambda>again.
               case again of
                 None \<Rightarrow> ret ()
               | Some y \<Rightarrow>
                   andthen (on_db (teamPut (out_key i) (Tv_outgoing (y\<lparr>out_settled := True\<rparr>)))) (\<lambda>_.
                   finish i Failed (Some (take 2000 txt))))))))"

end
