(* ===== verification/Coordinator.thy ===== *)
theory Coordinator
  imports Team Turn
begin

text \<open>
  \<^verbatim>\<open>packages/daemon/src/team-coordinator.ts\<close>: the coordinator's loop for a task that runs on an
  execution node, in the pieces between its requests.  The execution's own record (the variable
  \<open>job\<close> of \<open>execute\<close>) is in the stage of the turn; the row \<open>outbound/<task>\<close> is what a restart
  resumes from.  \<open>started\<close> and \<open>disconnected\<close> are arguments, and the answers to requests.
\<close>

record team_description =
  td_node :: string
  td_agent :: string
  td_runtime :: string

definition live_job :: "string \<Rightarrow> string \<Rightarrow> world \<Rightarrow> outbound option" where
  "live_job a i w = (case map_option rn_stage (turn_of a i w) of Some (Remote jb) \<Rightarrow> Some jb | _ \<Rightarrow> None)"

definition the_job :: "string \<Rightarrow> string \<Rightarrow> outbound act" where
  "the_job a i =
     andthen (gets (live_job a i)) (\<lambda>jb. case jb of None \<Rightarrow> throw ''TypeError'' | Some x \<Rightarrow> ret x)"

definition set_job :: "string \<Rightarrow> string \<Rightarrow> outbound \<Rightarrow> unit act" where
  "set_job a i jb = set_stage a i (Remote jb)"

text \<open>\<open>save\<close>: a cancellation that was persisted meanwhile is kept.\<close>

definition save_job :: "string \<Rightarrow> string \<Rightarrow> unit act" where
  "save_job a i =
     andthen (get_outbound i) (\<lambda>persisted.
     andthen (the_job a i) (\<lambda>jb.
     let jb' = (case persisted of
                  Some p \<Rightarrow> if ob_turn p = ob_turn jb \<and> ob_cancel p then jb\<lparr>ob_cancel := True\<rparr> else jb
                | None \<Rightarrow> jb)
     in andthen (set_job a i jb') (\<lambda>_.
        on_db (teamPut (outbound_key i) (Tv_outbound jb')))))"

definition cancel_job :: "string \<Rightarrow> string \<Rightarrow> unit act" where
  "cancel_job a i =
     andthen (the_job a i) (\<lambda>jb.
     andthen (set_job a i (jb\<lparr>ob_cancel := True\<rparr>)) (\<lambda>_.
     save_job a i))"

definition note_abort :: "string \<Rightarrow> string \<Rightarrow> unit act" where
  "note_abort a i =
     andthen (gets (aborted a i)) (\<lambda>stopped.
     andthen (the_job a i) (\<lambda>jb.
     when_do (stopped \<and> \<not> ob_cancel jb) (cancel_job a i)))"

section \<open>Requests\<close>

datatype team_request =
  Team_describe string
| Team_cancel team_key nat
| Team_run team_run
| Team_poll team_key nat

definition job_key :: "outbound \<Rightarrow> team_key" where
  "job_key jb = \<lparr>tk_coordinator = og_coordinator (ob_origin jb), tk_task = og_task (ob_origin jb)\<rparr>"

definition job_run :: "outbound \<Rightarrow> team_run" where
  "job_run jb = \<lparr>tr_origin = ob_origin jb, tr_agent = ex_agent (ob_execution jb), tr_turn = ob_turn jb,
                 tr_text = ob_text jb\<rparr>"

text \<open>
  The top of the loop: the first request of a round.  Once \<open>team.run\<close> was answered the round goes on
  as a started one.
\<close>

definition round_begin :: "string \<Rightarrow> string \<Rightarrow> bool \<Rightarrow> team_request list act" where
  "round_begin a i started =
     andthen (note_abort a i) (\<lambda>_.
     andthen (the_job a i) (\<lambda>jb.
     if \<not> started then ret [Team_describe (ex_agent (ob_execution jb))]
     else if ob_cancel jb
     then andthen (cancel_job a i) (\<lambda>_. ret [Team_cancel (job_key jb) (ob_turn jb), Team_poll (job_key jb) (ob_afterSeq jb)])
     else ret [Team_poll (job_key jb) (ob_afterSeq jb)]))"

text \<open>The node described itself: it must be the one the task is on.  Then the dispatch is sent.\<close>

definition described :: "string \<Rightarrow> task_row \<Rightarrow> team_description \<Rightarrow> team_request list act" where
  "described a task d =
     andthen (require (peerNodeSchema (td_node d) \<and> workerIdSchema (td_agent d) \<and> td_runtime d \<in> set RUNTIMES) ''ZodError'') (\<lambda>_.
     andthen (on_db nodeId) (\<lambda>self.
     andthen (require (td_node d \<noteq> self) ''TEAM_SELF_EXECUTION'') (\<lambda>_.
     andthen (the_job a (t_id task)) (\<lambda>jb.
     andthen (require (ob_node jb = [] \<or> ob_node jb = td_node d) ''TEAM_NODE_CHANGED'') (\<lambda>_.
     andthen (set_job a (t_id task) (jb\<lparr>ob_node := td_node d\<rparr>)) (\<lambda>_.
     andthen (save_job a (t_id task)) (\<lambda>_.
     andthen (on_db (getTask (t_id task))) (\<lambda>now.
     andthen (require (case Option.bind now t_runtime of None \<Rightarrow> True | Some r \<Rightarrow> r = [] \<or> r = td_runtime d)
       ''TEAM_RUNTIME_CHANGED'') (\<lambda>_.
     andthen (on_db (setRuntime (t_id task) (td_runtime d))) (\<lambda>_.
     andthen (note_abort a (t_id task)) (\<lambda>_.
     andthen (the_job a (t_id task)) (\<lambda>ready.
     andthen (require (teamRunSchema (job_run ready)) ''ZodError'') (\<lambda>_.
     ret ((if ob_cancel ready then [Team_cancel (job_key ready) (ob_turn ready)] else []) @
          [Team_run (job_run ready)]))))))))))))))"

section \<open>Approvals of the node\<close>

record coord_item =
  ci_job :: outbound
  ci_remoteId :: string
  ci_approval :: approval

type_synonym coord_items = "(string, coord_item) jsmap"

definition arrow_join :: "string list \<Rightarrow> string" where
  "arrow_join = join ('' '' @ [CHR 0xE2, CHR 0x86, CHR 0x92] @ '' '')"

definition item_of :: "(hashed \<Rightarrow> string) \<Rightarrow> outbound \<Rightarrow> approval \<Rightarrow> string \<times> coord_item" where
  "item_of sha jb ap =
     (let i = ''r-'' @ take 32 (sha (Dg_remote_approval (ob_node jb) (ap_id ap)))
      in (i, \<lparr>ci_job = jb, ci_remoteId = ap_id ap,
              ci_approval = ap\<lparr>ap_id := i, ap_task := ob_task jb, ap_agent := og_agent (ob_origin jb),
                ap_origin := arrow_join (og_chain (ob_origin jb) @
                  [ex_server (ob_execution jb) @ ''/'' @ ex_agent (ob_execution jb)])\<rparr>\<rparr>))"

definition updateApprovals :: "(hashed \<Rightarrow> string) \<Rightarrow> coord_items \<Rightarrow> outbound \<Rightarrow> approval list \<Rightarrow> coord_items" where
  "updateApprovals sha items jb aps =
     foldl (\<lambda>m ap. case item_of sha jb ap of (i, x) \<Rightarrow> mset_key i x m)
       (List.filter (\<lambda>(i, x). ob_task (ci_job x) \<noteq> ob_task jb) items) aps"

section \<open>A snapshot arrives\<close>

text \<open>An event of the node: recorded, and the cursor saved, in one transaction.\<close>

definition foreign_event :: "runtime_event \<Rightarrow> bool" where
  "foreign_event ev =
     (case ev of Ev_input _ _ \<Rightarrow> True | Ev_session_started _ \<Rightarrow> True | _ \<Rightarrow> False)"

definition take_remote_event :: "string \<Rightarrow> task_row \<Rightarrow> stored_event \<Rightarrow> unit act" where
  "take_remote_event a task e =
     andthen (the_job a (t_id task)) (\<lambda>jb.
     if se_seq e \<le> ob_afterSeq jb then ret ()
     else catch_error
       (transaction (
          andthen (when_do (\<not> foreign_event (se_event e)) (record_event task (se_event e))) (\<lambda>_.
          andthen (the_job a (t_id task)) (\<lambda>now.
          andthen (set_job a (t_id task) (now\<lparr>ob_afterSeq := se_seq e\<rparr>)) (\<lambda>_.
          save_job a (t_id task))))))
       (\<lambda>err. andthen (the_job a (t_id task)) (\<lambda>now.
              andthen (set_job a (t_id task) (now\<lparr>ob_afterSeq := ob_afterSeq jb\<rparr>)) (\<lambda>_.
              throw (message err)))))"

definition snapshotSchema :: "team_snapshot \<Rightarrow> bool" where
  "snapshotSchema s \<longleftrightarrow>
     taskIdSchema (ti_id (sn_task s)) \<and> length (or_else (ti_runtime (sn_task s)) []) \<le> 100 \<and>
     length (or_else (ti_result (sn_task s)) []) \<le> 8000 \<and> length (sn_events s) \<le> 500 \<and>
     list_all (\<lambda>e. 1 \<le> se_seq e \<and> runtimeEventSchema (se_event e)) (sn_events s) \<and>
     length (sn_requests s) \<le> 200 \<and> list_all teamToolSchema (sn_requests s) \<and>
     length (sn_approvals s) \<le> 100"

definition RECONNECTED :: "string \<Rightarrow> string" where
  "RECONNECTED server = ''Reconnected to '' @ server @ ''; following the same remote task.''"

definition EXPIRED :: string where
  "EXPIRED = ''Earlier events expired on the execution node; this transcript and its usage totals may be incomplete.''"

definition call_key :: "task_row \<Rightarrow> team_tool \<Rightarrow> string" where
  "call_key task r = t_id task @ ''/'' @ nat_str (tt_turn r) @ ''/'' @ tt_id r"

text \<open>What the round ends with: the calls to answer, and the outcome once the node is drained.\<close>

record round_result =
  rr_calls :: "team_tool list"
  rr_finished :: "(task_status \<times> string) option"

definition polled ::
  "string \<Rightarrow> task_row \<Rightarrow> string \<Rightarrow> bool \<Rightarrow> string list \<Rightarrow> team_snapshot \<Rightarrow> round_result act" where
  "polled a task server disconnected calls s =
     andthen (require (snapshotSchema s) ''ZodError'') (\<lambda>_.
     andthen (when_do disconnected (record_event task (Ev_notice (RECONNECTED server)))) (\<lambda>_.
     andthen (the_job a (t_id task)) (\<lambda>jb.
     andthen (when_do (case sn_events s of [] \<Rightarrow> False | e # _ \<Rightarrow> se_seq e > ob_afterSeq jb + 1)
       (record_event task (Ev_notice EXPIRED))) (\<lambda>_.
     andthen (each (take_remote_event a task) (sn_events s)) (\<lambda>_.
     andthen (the_job a (t_id task)) (\<lambda>now.
     let status = ti_status (sn_task s);
         new_calls = (if \<not> ob_cancel now \<and> in_flight status
           then List.filter (\<lambda>r. tt_turn r = ob_turn now \<and> call_key task r \<notin> set calls) (sn_requests s)
           else [])
     in if \<not> in_flight status \<and> sn_events s = []
        then
          andthen (set_job a (t_id task) (now\<lparr>ob_active := False\<rparr>)) (\<lambda>_.
          andthen (save_job a (t_id task)) (\<lambda>_.
          ret \<lparr>rr_calls = new_calls, rr_finished = Some (status, or_else (ti_result (sn_task s)) [])\<rparr>))
        else ret \<lparr>rr_calls = new_calls, rr_finished = None\<rparr>))))))"

definition fatal_team :: "string list" where
  "fatal_team =
     map (\<lambda>x. ''TEAM_'' @ x)
       [''AGENT_UNAVAILABLE'', ''NODE_CHANGED'', ''SELF_EXECUTION'', ''RUNTIME_CHANGED'', ''TARGET_CHANGED'',
        ''NESTED_EXECUTION'', ''REQUEST_CONFLICT'', ''TURN_OUT_OF_ORDER'', ''UNKNOWN_EXECUTION'']"

definition is_fatal_team :: "string \<Rightarrow> bool" where
  "is_fatal_team m \<longleftrightarrow>
     list_ex (\<lambda>x. js_includes x m) fatal_team \<or> m = ''ZodError'' \<or>
     (js_includes ''unknown method'' m \<and> js_includes ''team.'' m)"

definition waiting_note :: "string \<Rightarrow> bool \<Rightarrow> string" where
  "waiting_note server cancelling =
     ''Waiting for execution node '' @ server @ (if cancelling then '' to confirm cancellation'' else []) @
     ''. The same task will be reattached when it reconnects.''"

text \<open>The \<open>catch\<close> of a round: it ends the execution, or the next round starts over.\<close>

definition round_failed ::
  "string \<Rightarrow> task_row \<Rightarrow> string \<Rightarrow> bool \<Rightarrow> string \<Rightarrow> (task_status \<times> string) option act" where
  "round_failed a task server disconnected msg =
     andthen (the_job a (t_id task)) (\<lambda>jb.
     if is_fatal_team msg
     then
       andthen (set_job a (t_id task) (jb\<lparr>ob_active := False\<rparr>)) (\<lambda>_.
       andthen (save_job a (t_id task)) (\<lambda>_.
       ret (Some (Failed, take 2000 msg))))
     else
       andthen (when_do (\<not> disconnected)
         (record_event task (Ev_notice (waiting_note server (ob_cancel jb))))) (\<lambda>_.
       ret None))"

text \<open>\<open>execute\<close> of the hub goes on with the outcome.\<close>

definition remote_finished :: "string \<Rightarrow> task_row \<Rightarrow> (task_status \<times> string) option \<Rightarrow> unit act" where
  "remote_finished a task out =
     andthen (case out of None \<Rightarrow> ret () | Some (st, r) \<Rightarrow> finish (t_id task) st (Some r)) (\<lambda>_.
     set_stage a (t_id task) Ended)"

section \<open>Answering a cell's call\<close>

datatype answer_state =
  Answered outcome
| Answer_waits tool_context string int

definition bounded_reply :: "json \<Rightarrow> outcome" where
  "bounded_reply v =
     (if length (json_text v) > 200000 then Outcome_error ''TEAM_REPLY_TOO_LARGE'' else Outcome_result v)"

definition answer_call :: "string \<Rightarrow> outbound \<Rightarrow> task_row \<Rightarrow> nat \<Rightarrow> team_tool \<Rightarrow> string \<Rightarrow> bool \<Rightarrow> answer_state act" where
  "answer_call a jb task k request key stopped =
     catch_error
       (andthen (gets (\<lambda>w. resolveAgent (layout w) (t_agentId task) None)) (\<lambda>r.
        andthen (lift_result r) (\<lambda>agent.
        andthen (on_db (getTask (t_id task))) (\<lambda>current.
        andthen (get_outbound (t_id task)) (\<lambda>persisted.
        case current of
          None \<Rightarrow> throw ''TEAM_TURN_ENDED''
        | Some now \<Rightarrow>
            andthen (require (t_status now = Running \<and> \<not> ob_cancel jb \<and>
                (case persisted of None \<Rightarrow> True | Some p \<Rightarrow> \<not> ob_cancel p)) ''TEAM_TURN_ENDED'') (\<lambda>_.
            andthen (lift_result (validateTeamTool agent (tt_tool request) (tt_args request))) (\<lambda>_.
            let ctx = \<lparr>cx_task = now, cx_agent = agent, cx_requestKey = Some key, cx_aborted = stopped\<rparr>
            in andthen (call ctx k (tt_tool request) (obj_fields (tt_args request))) (\<lambda>rep.
               case rep of
                 Replied v \<Rightarrow> ret (Answered (bounded_reply v))
               | Waits i mins \<Rightarrow> ret (Answer_waits ctx i mins)
               | Policy_pending c i \<Rightarrow> ret (Answered (Outcome_result (JObj [])))))))))))
       (\<lambda>e. ret (Answered (Outcome_error (take 2000 (message e)))))"

definition put_answer :: "string \<Rightarrow> team_tool \<Rightarrow> outcome \<Rightarrow> unit act" where
  "put_answer key request out =
     andthen (team_digest (Dg_tool request)) (\<lambda>d.
     on_db (teamPut (''answer/'' @ key) (Tv_answer d out)))"

text \<open>A call answered before is answered the same; else the tool runs, with the call's key as receipt.\<close>

definition answer_begin :: "string \<Rightarrow> outbound \<Rightarrow> task_row \<Rightarrow> nat \<Rightarrow> team_tool \<Rightarrow> bool \<Rightarrow> answer_state act" where
  "answer_begin a jb task k request stopped =
     (let key = call_key task request
      in andthen (team_digest (Dg_tool request)) (\<lambda>digest.
         andthen (on_db (teamGet (''answer/'' @ key) as_answer)) (\<lambda>receipt.
         case receipt of
           Some (d, out) \<Rightarrow>
             ret (Answered (if d \<noteq> digest then Outcome_error ''TEAM_REQUEST_CONFLICT'' else out))
         | None \<Rightarrow>
             andthen (answer_call a jb task k request key stopped) (\<lambda>st.
             andthen (case st of Answered out \<Rightarrow> when_do (\<not> stopped) (put_answer key request out)
                               | Answer_waits _ _ _ \<Rightarrow> ret ()) (\<lambda>_.
             ret st)))))"

definition answer_end :: "tool_context \<Rightarrow> string \<Rightarrow> task_row option \<Rightarrow> team_tool \<Rightarrow> string \<Rightarrow> outcome act" where
  "answer_end ctx i result request key =
     andthen (catch_error
       (andthen (wait_over ctx i result) (\<lambda>v. ret (bounded_reply v)))
       (\<lambda>e. ret (Outcome_error (take 2000 (message e))))) (\<lambda>out.
     andthen (put_answer key request out) (\<lambda>_.
     ret out))"

end
