(* ===== verification/Triggers.thy ===== *)
theory Triggers
  imports Hub
begin

text \<open>
  \<^verbatim>\<open>packages/daemon/src/triggers.ts\<close>: tasks started on a schedule or for the new items of a poll.
  \<open>start\<close>, the host's way to start a task, is the hub's \<open>createTask\<close>; the answer of a poll of the
  egress service is an argument, as is the digest of a trigger.

  The clock is in milliseconds of the local calendar (\<open>Calendar\<close>), so the times of cron runs are
  those of \<open>nextRun\<close>.
\<close>

record poll_item =
  it_id :: string
  it_title :: string
  it_url :: string

definition triggerKey :: "(string \<Rightarrow> trigger \<Rightarrow> string) \<Rightarrow> string \<Rightarrow> trigger \<Rightarrow> string" where
  "triggerKey sha agentId t = take 16 (sha agentId t)"

text \<open>\<open>{title}\<close>, \<open>{url}\<close> and \<open>{id}\<close> replaced in one pass: what an item holds is not read again.\<close>

function fill :: "string \<Rightarrow> poll_item \<Rightarrow> string" where
  "fill template item =
     (if template = [] then []
      else if starts_with ''{title}'' template then it_title item @ fill (drop 7 template) item
      else if starts_with ''{url}'' template then it_url item @ fill (drop 5 template) item
      else if starts_with ''{id}'' template then it_id item @ fill (drop 4 template) item
      else hd template # fill (tl template) item)"
  by pat_completeness auto
termination by (relation "measure (length \<circ> fst)") (auto simp: neq_Nil_conv)

declare fill.simps [simp del]

definition empty_state :: "string \<Rightarrow> string \<Rightarrow> trigger_state" where
  "empty_state key agentId =
     \<lparr>ts_key = key, ts_agentId = agentId, ts_nextRun = None, ts_lastRun = None, ts_lastResult = None,
      ts_baseline = False\<rparr>"

definition load_state :: "string \<Rightarrow> string \<Rightarrow> trigger_state act" where
  "load_state key agentId =
     andthen (on_db (triggerState key)) (\<lambda>s. ret (or_else s (empty_state key agentId)))"

definition cron_next :: "cron \<Rightarrow> nat \<Rightarrow> int option" where
  "cron_next c now = map_option int (nextRun c now)"

text \<open>The state a scheduled run ends with; it is saved whatever happened.\<close>

definition schedule_step :: "string \<Rightarrow> string \<Rightarrow> string \<Rightarrow> nat \<Rightarrow> trigger_state \<Rightarrow> trigger_state act" where
  "schedule_step agentId expr txt now st =
     (case parseCron expr of
        Inl e \<Rightarrow> ret (st\<lparr>ts_lastResult := Some (''error: '' @ message e)\<rparr>)
      | Inr cron \<Rightarrow>
          (case ts_nextRun st of
             None \<Rightarrow> ret (st\<lparr>ts_nextRun := cron_next cron now\<rparr>)
           | Some next \<Rightarrow>
               if int now < next then ret st
               else
                 (let st1 = st\<lparr>ts_nextRun := cron_next cron now\<rparr>
                  in catch_error
                       (andthen (hub_createTask agentId txt ''schedule'') (\<lambda>task.
                        ret (st1\<lparr>ts_lastRun := Some (int now), ts_lastResult := Some (''started '' @ t_id task)\<rparr>)))
                       (\<lambda>e. ret (st1\<lparr>ts_lastResult := Some (''error: '' @ message e)\<rparr>)))))"

definition run_schedule :: "string \<Rightarrow> string \<Rightarrow> string \<Rightarrow> string \<Rightarrow> nat \<Rightarrow> unit act" where
  "run_schedule agentId key expr txt now =
     andthen (load_state key agentId) (\<lambda>st.
     andthen (schedule_step agentId expr txt now st) (\<lambda>st'.
     on_db (saveTriggerState st')))"

text \<open>A poll: whether it is due (the state it works on), then what came back.\<close>

definition poll_due :: "string \<Rightarrow> string \<Rightarrow> int \<Rightarrow> nat \<Rightarrow> trigger_state option act" where
  "poll_due agentId key every now =
     andthen (load_state key agentId) (\<lambda>st.
     ret (if (case ts_nextRun st of None \<Rightarrow> False | Some n \<Rightarrow> int now < n) then None
          else Some (st\<lparr>ts_nextRun := Some (int now + every * 60000)\<rparr>)))"

definition mark_item :: "string \<Rightarrow> poll_item \<Rightarrow> unit act" where
  "mark_item key item = andthen (on_db (markSeen key (it_id item) None)) (\<lambda>_. ret ())"

definition start_item :: "string \<Rightarrow> string \<Rightarrow> string \<Rightarrow> poll_item \<Rightarrow> unit act" where
  "start_item agentId key txt item =
     andthen (on_db (markSeen key (it_id item) None)) (\<lambda>first.
     if \<not> first then ret ()
     else
       andthen (hub_createTask agentId (fill txt item) ''poll'') (\<lambda>task.
       on_db (setSeenTask key (it_id item) (t_id task))))"

definition unseen :: "string \<Rightarrow> poll_item list \<Rightarrow> poll_item list act" where
  "unseen key items = gets (\<lambda>w. List.filter (\<lambda>i. \<not> mhas (s_seen (db w)) (key, it_id i)) items)"

definition poll_items ::
  "string \<Rightarrow> string \<Rightarrow> string \<Rightarrow> nat \<Rightarrow> poll_item list \<Rightarrow> trigger_state \<Rightarrow> trigger_state act" where
  "poll_items agentId key txt now items st =
     (let st1 = st\<lparr>ts_lastRun := Some (int now)\<rparr>
      in if \<not> ts_baseline st
         then
           andthen (each (mark_item key) items) (\<lambda>_.
           ret (st1\<lparr>ts_baseline := True, ts_lastResult :=
             Some (''watching; '' @ nat_str (length items) @ '' existing items ignored'')\<rparr>))
         else
           andthen (unseen key items) (\<lambda>fresh.
           catch_error
             (andthen (each (start_item agentId key txt) (rev fresh)) (\<lambda>_.
              ret (st1\<lparr>ts_lastResult := Some (if fresh = [] then ''nothing new''
                    else ''started '' @ nat_str (length fresh) @ '' task(s)'')\<rparr>)))
             (\<lambda>e. ret (st1\<lparr>ts_lastResult := Some (''error: '' @ message e)\<rparr>))))"

definition run_poll ::
  "string \<Rightarrow> string \<Rightarrow> string \<Rightarrow> nat \<Rightarrow> poll_item list result \<Rightarrow> trigger_state \<Rightarrow> unit act" where
  "run_poll agentId key txt now answer st =
     andthen (case answer of
         Inl e \<Rightarrow> ret (st\<lparr>ts_lastResult := Some (''error: '' @ message e)\<rparr>)
       | Inr items \<Rightarrow> poll_items agentId key txt now items st) (\<lambda>st'.
     on_db (saveTriggerState st'))"

end
