(* ===== verification/System.thy ===== *)
theory System
  imports Invariant PeerTasks Coordinator Triggers
begin

text \<open>
  The daemon as one system: the operations of its interface as steps, the reachable states, and the
  invariant in all of them.
\<close>

section \<open>Tools, teams, peers, triggers\<close>

lemma keeps_case_outcome [keeps]:
  "(\<And>v. keeps_inv P (f v)) \<Longrightarrow> (\<And>e. keeps_inv P (g e)) \<Longrightarrow>
   keeps_inv P (case x of Outcome_result v \<Rightarrow> f v | Outcome_error e \<Rightarrow> g e)"
  by (cases x) auto

lemma keeps_map_act [keeps]:
  assumes "\<And>x. keeps_inv P (f x)"
  shows "keeps_inv P (map_act f xs)"
proof (induction xs)
  case (Cons x xs)
  show ?case unfolding map_act.simps by (intro keeps assms Cons.IH)
qed (unfold map_act.simps, intro keeps)

context hub_kept
begin

lemma keeps_wait_for [keeps]: "keeps_inv (I d) (waitFor ctx k t wt m)"
  unfolding waitFor_def by (intro keeps)

lemma keeps_ownChild [keeps]: "keeps_inv (I d) (ownChild ctx i)"
  unfolding ownChild_def by (intro keeps)

lemma keeps_run_tool [keeps]: "keeps_inv (I d) (run_tool t ctx k ta)"
  by (induction t ctx k ta rule: run_tool.induct; unfold run_tool.simps all_agents_def; intro keeps)

lemma keeps_call [keeps]: "keeps_inv (I d) (call ctx k name args)"
  unfolding call_def by (intro keeps)

lemma keeps_wait_over [keeps]: "keeps_inv (I d) (wait_over ctx i r)"
  unfolding wait_over_def by (intro keeps)

lemma keeps_team_base [keeps]:
  "keeps_inv (I d) (team_digest x)" "keeps_inv (I d) (describe a)" "keeps_inv (I d) (worker_job n)"
  "keeps_inv (I d) (cancelled_turn n)" "keeps_inv (I d) (mark_cancelled i)"
  unfolding team_digest_def describe_def worker_job_def cancelled_turn_def mark_cancelled_def by (intro keeps)+

lemma keeps_dispatch_task [keeps]: "keeps_inv (I d) (dispatch_task p ex c)"
  unfolding dispatch_task_def by (intro keeps)

lemma keeps_get_job [keeps]: "keeps_inv (I d) (get_job key)"
  unfolding get_job_def by (intro keeps)

lemma keeps_team [keeps]:
  "keeps_inv (I d) (Team.run p)" "keeps_inv (I d) (Team.poll ws key aft)" "keeps_inv (I d) (Team.reply key r out)"
  "keeps_inv (I d) (Team.cancel key n)" "keeps_inv (I d) (Team.approve ws key i)"
  "keeps_inv (I d) (relay t ag i turn name args)" "keeps_inv (I d) (await_step b i path)"
  unfolding Team.run_def take_turn_def Team.poll_def Team.reply_def Team.cancel_def Team.approve_def relay_def
    await_step_def
  by (intro keeps)+

lemma keeps_job [keeps]:
  "keeps_inv (I d) (the_job a i)" "keeps_inv (I d) (set_job a i jb)" "keeps_inv (I d) (save_job a i)"
  unfolding the_job_def set_job_def save_job_def by (intro keeps)+

lemma keeps_note_abort [keeps]: "keeps_inv (I d) (note_abort a i)" "keeps_inv (I d) (cancel_job a i)"
  unfolding note_abort_def cancel_job_def by (intro keeps)+

lemma keeps_take_remote_event [keeps]: "keeps_inv (I d) (take_remote_event a t e)"
  unfolding take_remote_event_def by (intro keeps)

lemma keeps_coordinator [keeps]:
  "keeps_inv (I d) (round_begin a i b)" "keeps_inv (I d) (described a t td)"
  "keeps_inv (I d) (polled a t sv b cs sn)" "keeps_inv (I d) (round_failed a t sv b m)"
  "keeps_inv (I d) (remote_finished a t out)"
  unfolding round_begin_def described_def polled_def round_failed_def remote_finished_def by (intro keeps)+

lemma keeps_put_answer [keeps]: "keeps_inv (I d) (put_answer k r out)"
  unfolding put_answer_def by (intro keeps)

lemma keeps_answer_call [keeps]: "keeps_inv (I d) (answer_call a jb t k r key b)"
  unfolding answer_call_def by (auto intro!: keeps split: tool_reply.split)

lemma keeps_answers [keeps]:
  "keeps_inv (I d) (answer_begin a jb t k r b)" "keeps_inv (I d) (answer_end ctx i res r key)"
  unfolding answer_begin_def answer_end_def by (auto intro!: keeps split: answer_state.split)

lemma keeps_triggers [keeps]:
  "keeps_inv (I d) (run_schedule a k x y n)" "keeps_inv (I d) (poll_due a k e n)"
  "keeps_inv (I d) (run_poll a k x n ans st)"
  unfolding run_schedule_def schedule_step_def load_state_def poll_due_def run_poll_def poll_items_def mark_item_def
    start_item_def unseen_def
  by (intro keeps)+

subsection \<open>Peers\<close>

lemma keeps_take_events [keeps]: "keeps_inv (I d) (take_events t c es)"
proof (induction es arbitrary: c)
  case (Cons e es)
  show ?case unfolding take_events.simps by (intro keeps Cons.IH)
qed (unfold take_events.simps, intro keeps)

lemma keeps_peer_keys [keeps]:
  "keeps_inv (I d) (get_incoming k)" "keeps_inv (I d) (get_cancelled k)" "keeps_inv (I d) (get_outgoing i)"
  "keeps_inv (I d) (check_dispatch n p)" "keeps_inv (I d) (peer_job n r)" "keeps_inv (I d) listApprovals"
  "keeps_inv (I d) (descendant_of t)" "keeps_inv (I d) (peer_decide i)" "keeps_inv (I d) (peer_decided i)"
  "keeps_inv (I d) (drop_routes i)" "keeps_inv (I d) (put_route n i mp ap)"
  unfolding get_incoming_def get_cancelled_def get_outgoing_def check_dispatch_def peer_job_def listApprovals_def
    descendant_of_def peer_decide_def peer_decided_def drop_routes_def put_route_def
  by (intro keeps)+

lemma keeps_peer_dispatch [keeps]: "keeps_inv (I d) (peer_dispatch_task p jb c)"
  unfolding peer_dispatch_task_def by (intro keeps)

lemma keeps_peers [keeps]:
  "keeps_inv (I d) (peer_run n p)" "keeps_inv (I d) (peer_task_cancel n r k)"
  "keeps_inv (I d) (peer_poll b ws n r aft)" "keeps_inv (I d) (peer_approve ws n r i)"
  "keeps_inv (I d) (tick_jobs act)" "keeps_inv (I d) (sync_failed st i x)"
  unfolding peer_run_def peer_take_turn_def peer_task_cancel_def peer_poll_def peer_approve_def tick_jobs_def
    sync_failed_def
  by (intro keeps)+

end

section \<open>Taking in a peer's snapshot\<close>

text \<open>
  A mirrored row may break the bound on depth for a moment: its creation throws then, and the
  transaction takes it back.  Within it the invariant holds after what returns.
\<close>

definition safe :: "('s \<Rightarrow> bool) \<Rightarrow> ('s, 'a) op \<Rightarrow> bool" where
  "safe P m \<longleftrightarrow> valid P m (\<lambda>_. P)"

named_theorems safes "operations that keep an invariant when they return"

lemma safe_keeps: "keeps_inv P m \<Longrightarrow> safe P m"
  unfolding safe_def by (rule valid_keeps)

lemma safe_andthen [safes]: "safe P m \<Longrightarrow> (\<And>a. safe P (f a)) \<Longrightarrow> safe P (andthen m f)"
  unfolding safe_def by (rule valid_andthen)

lemma safe_if [safes]: "(b \<Longrightarrow> safe P m) \<Longrightarrow> (\<not> b \<Longrightarrow> safe P m') \<Longrightarrow> safe P (if b then m else m')"
  by simp

lemma safe_case_option [safes]:
  "(x = None \<Longrightarrow> safe P m) \<Longrightarrow> (\<And>a. x = Some a \<Longrightarrow> safe P (f a)) \<Longrightarrow>
   safe P (case x of None \<Rightarrow> m | Some a \<Rightarrow> f a)"
  by (cases x) auto

lemma safe_case_triple [safes]: "(\<And>a b c. safe P (f a b c)) \<Longrightarrow> safe P (case x of (a, b, c) \<Rightarrow> f a b c)"
  by (cases x) auto

lemma create_checked:
  assumes "\<And>c. safe (ok d) (f c)"
  shows "safe (ok d) (andthen (on_db (createTask a tr x (Some upper))) (\<lambda>child.
    andthen (require (t_depth child \<le> 3) msg) (\<lambda>_. f child)))"
proof (cases "t_depth upper + 1 \<le> maxDepth")
  case True
  then show ?thesis
    by (intro safe_andthen safe_keeps keeps_require assms ok.keeps_new_child)
next
  case False
  have "t_depth child = t_depth upper + 1" if "createTask a tr x (Some upper) s = (Inr child, s')" for s child s'
    using createTask_Inr(1) [OF that] by (metis new_task_def option.case(2) task_row.select_convs(15))
  then show ?thesis
    using False by (auto simp: safe_def valid_def andthen_def on_db_apply maxDepth_def prod_eq_iff
        split: prod.splits sum.splits)
qed

lemma safe_shadow_task: "safe (ok d) (shadow_task parent mp t)"
  unfolding shadow_task_def
  by (rule safe_andthen, rule safe_keeps, intro keeps, rule safe_case_option, rule safe_andthen, rule safe_keeps,
      intro keeps, rule create_checked) (intro safe_keeps keeps)+

lemma mirror_rows_none: "mirror_rows 0 parent mp ds = ret mp"
  by (cases ds) (simp_all add: fun_eq_iff)

lemma safe_mirror_rows: "safe (ok d) (mirror_rows n parent mp ds)"
proof (induction n arbitrary: mp ds)
  case 0
  show ?case unfolding mirror_rows_none by (intro safe_keeps keeps)
next
  case (Suc n)
  have row: "safe (ok d) (mirror_row parent mp x)" for mp x
    unfolding mirror_row_def by (rule safe_andthen [OF safe_shadow_task]) (intro safe_keeps keeps)
  have none: "safe (ok d) (throw m)" for m :: string
    by (intro safe_keeps keeps)
  show ?case
  proof (cases ds)
    case Nil
    then show ?thesis by (simp only: mirror_rows.simps) (intro safe_keeps keeps)
  next
    case (Cons e es)
    show ?thesis
      unfolding Cons mirror_rows.simps by (intro safe_case_option safe_case_triple safe_andthen none row Suc.IH)
  qed
qed

lemma safe_mirrorTree: "safe (ok d) (mirrorTree parent snap)"
  unfolding mirrorTree_def by (rule safe_andthen [OF safe_keeps [OF keeps_lift_result] safe_mirror_rows])

text \<open>Nothing of a snapshot touches the cells.\<close>

abbreviation cells :: "world \<Rightarrow> bool" where
  "cells w \<equiv> cells_ok (hub w)"

lemma cells_parts [keeps]:
  "keeps_inv cells (on_db m)" "keeps_inv cells (emit x)" "keeps_inv cells (record_event t e)"
  "keeps_inv cells (on_hub (\<lambda>h. h\<lparr>h_waiters := g h\<rparr>))"
  by (rule keeps_hub_part keeps_hub_record_event | simp add: keeps_inv_def on_hub_apply cells_ok_def occupied_def)+

lemma cells_ops [keeps]: "keeps_inv cells (hub_getTask i)" "keeps_inv cells (notice i x)" "keeps_inv cells (finish i st r)"
  unfolding hub_getTask_def notice_def finish_def notify_parent_def by (intro keeps)+

lemma cells_mirrorTree [keeps]: "keeps_inv cells (mirrorTree parent snap)"
proof -
  have row: "keeps_inv cells (mirror_row parent mp x)" for mp x
    unfolding mirror_row_def shadow_task_def by (intro keeps)
  have "keeps_inv cells (mirror_rows n parent mp ds)" for n mp ds
  proof (induction n arbitrary: mp ds)
    case 0
    show ?case unfolding mirror_rows_none by (intro keeps)
  next
    case (Suc n)
    then show ?case by (cases ds) (simp_all only: mirror_rows.simps, (intro keeps row)+)
  qed
  then show ?thesis unfolding mirrorTree_def by (intro keeps)
qed

lemma cells_take_events [keeps]: "keeps_inv cells (take_events t c es)"
proof (induction es arbitrary: c)
  case (Cons e es)
  show ?case unfolding take_events.simps by (intro keeps Cons.IH)
qed (unfold take_events.simps, intro keeps)

lemma transaction_safe:
  assumes "safe (ok 1) m" and "keeps_inv cells m" and "ok 0 w"
  shows "ok 0 (snd (transaction m w))"
proof -
  let ?v = "w\<lparr>db := (db w)\<lparr>s_depth := 1\<rparr>\<rparr>"
  have v: "ok 1 ?v" by (rule ok_depth [OF assms(3)])
  have d: "s_depth (db w) = 0" using assms(3) by (simp add: ok_def db_at_def)
  have cells: "cells (snd (m ?v))" using keeps_invD [OF assms(2)] v by (simp add: ok_def)
  show ?thesis
  proof (cases "fst (m ?v)")
    case (Inl e)
    then show ?thesis
      using d cells assms(3) db_at_rollback by (simp add: transaction_def ok_def prod.case_eq_if)
  next
    case (Inr a)
    then have "ok 1 (snd (m ?v))"
      using assms(1) v unfolding safe_def valid_def by (metis prod.collapse)
    then have "ok 0 (snd (m ?v)\<lparr>db := (db (snd (m ?v)))\<lparr>s_depth := 0\<rparr>\<rparr>)" by (rule ok_depth)
    then show ?thesis using d Inr by (simp add: transaction_def prod.case_eq_if)
  qed
qed

lemma sync_body_safe: "safe (ok d) (sync_body jb snap)"
proof -
  have "safe (ok d) (apply_snapshot jb snap now task m)" for now task m
    unfolding apply_snapshot_def Let_def sync_end_def
    by (rule safe_andthen, intro safe_keeps keeps, rule safe_andthen, intro safe_keeps keeps,
        rule safe_andthen [OF safe_mirrorTree]) (intro safe_keeps keeps)
  then show ?thesis
    unfolding sync_body_def by (intro safe_andthen safe_case_option safe_if safe_keeps [OF keeps_throw]
        safe_keeps [OF keeps_ret] safe_keeps [OF ok.keeps_hub_getTask] safe_keeps [OF ok.keeps_peer_keys(3)])
qed

lemma sync_body_cells: "keeps_inv cells (sync_body jb snap)"
  unfolding sync_body_def apply_snapshot_def sync_end_def get_outgoing_def drop_routes_def put_route_def team_digest_def
  by (intro keeps)

lemma sync_apply_ok: "ok 0 w \<Longrightarrow> ok 0 (snd (sync_apply jb snap w))"
  using transaction_safe [OF sync_body_safe sync_body_cells]
  by (cases "peerSnapshotSchema snap") (simp_all add: sync_apply_def)

end
