(* ===== verification/Daemon.thy ===== *)
theory Daemon
  imports System
begin

text \<open>
  The running daemon: its operations as steps, in any order and with any answers from outside, the
  worlds they lead to, and what holds in all of them.  Steps do not insist that an answer was asked
  for, so that every schedule of the real daemon is among them.
\<close>

section \<open>Steps\<close>

text \<open>The fields of a new \<open>Hub\<close>, before its constructor reads the agents, and an empty database.\<close>

definition new_hub :: hub where
  "new_hub =
     \<lparr>h_stopping = False, h_states = [], h_cells = [], h_waiters = [], h_deleting = [], h_roomQueue = [],
      h_blocked = [], h_roomWaiters = [], h_closingTasks = [], h_closing = [], h_closeSeq = 0, h_microtasks = []\<rparr>"

definition start_hub :: "world \<Rightarrow> world" where
  "start_hub w = snd (reload (w\<lparr>hub := new_hub\<rparr>))"

definition empty_db :: "store \<Rightarrow> bool" where
  "empty_db s \<longleftrightarrow> s_tasks s = [] \<and> s_team s = [] \<and> s_events s = [] \<and> s_triggers s = [] \<and> s_seen s = [] \<and>
     s_usage s = [] \<and> s_snapshots s = [] \<and> s_audit s = [] \<and> s_depth s = 0"

inductive hub_step :: "world \<Rightarrow> world \<Rightarrow> bool" where
  create: "hub_step w (snd (hub_createTask a x trigger w))"
| send_task: "hub_step w (snd (sendTask i x k w))"
| cancel_task: "hub_step w (snd (hub_cancelTask i w))"
| retry: "hub_step w (snd (retryTask i fresh w))"
| delete_begin: "hub_step w (snd (deleteTask_begin i w))"
| delete_end: "hub_step w (snd (deleteTask_end ids w))"
| purge_old: "hub_step w (snd (purge before w))"
| delete_agent_begin: "hub_step w (snd (deleteAgentTasks_begin a w))"
| delete_agent_settled: "hub_step w (snd (deleteAgentTasks_settled ts w))"
| delete_agent_end: "hub_step w (snd (deleteAgentTasks_end a ts w))"
| deleting_on: "hub_step w (snd (beginDeleting a w))"
| deleting_off: "hub_step w (snd (endDeleting a w))"
| reload_agents: "hub_step w (snd (reload w))"
| wait_for: "hub_step w (snd (wait i k w))"
| recover: "hub_step w (snd (recoverInterrupted w))"
| noted: "hub_step w (snd (notice i x w))"
| triggers_forgotten: "hub_step w (snd (on_db (deleteTriggerState a) w))"
| cells_closed: "hub_step w (snd (each closeCell is w))"
| stop_starting: "hub_step w (snd (suspend w))"
| shut_down: "hub_step w (snd (shutdown_begin w))"

inductive turn_step :: "world \<Rightarrow> world \<Rightarrow> bool" where
  microtask: "turn_step w (snd (run_microtask w))"
| turn_done: "turn_step w (snd (run_done a i w))"
| prepared: "turn_step w (snd (turn_prepared a t ag hash turn w))"
| not_prepared: "turn_step w (snd (prepare_error a t m w))"
| room_again: "turn_step w (snd (turn_room a t ag timer w))"
| cell_started: "turn_step w (snd (cell_ready a t turn w))"
| session_event: "turn_step w (snd (turn_event a t e w))"
| too_long: "turn_step w (snd (turn_timeout a t w))"
| session_ends: "turn_step w (snd (session_over a t findings err minutes w))"
| closing_ends: "turn_step w (snd (cell_closed i n w))"
| cell_ends: "turn_step w (snd (cell_exit own i reason w))"
| tool_called: "turn_step w (snd (call ctx k name args w))"
| tool_waited: "turn_step w (snd (wait_over ctx i r w))"

inductive team_step :: "world \<Rightarrow> world \<Rightarrow> bool" where
  executor_run: "team_step w (snd (Team.run p w))"
| executor_poll: "team_step w (snd (Team.poll ws key aft w))"
| executor_reply: "team_step w (snd (Team.reply key r out w))"
| executor_cancel: "team_step w (snd (Team.cancel key n w))"
| executor_approve: "team_step w (snd (Team.approve ws key i w))"
| executor_relay: "team_step w (snd (relay t ag i turn name args w))"
| executor_await: "team_step w (snd (await_step b i path w))"
| coordinator_round: "team_step w (snd (round_begin a i b w))"
| coordinator_described: "team_step w (snd (described a t td w))"
| coordinator_polled: "team_step w (snd (polled a t sv started cs snap w))"
| coordinator_failed: "team_step w (snd (round_failed a t sv disconnected m w))"
| coordinator_over: "team_step w (snd (remote_finished a t res w))"
| coordinator_abort: "team_step w (snd (note_abort a i w))"
| coordinator_cancel: "team_step w (snd (cancel_job a i w))"
| coordinator_answers: "team_step w (snd (answer_begin a jb t n req b w))"
| coordinator_answered: "team_step w (snd (answer_end ctx i res req key w))"

inductive peer_step :: "world \<Rightarrow> world \<Rightarrow> bool" where
  peer_runs: "peer_step w (snd (peer_run n p w))"
| peer_cancels: "peer_step w (snd (peer_task_cancel n r k w))"
| peer_polls: "peer_step w (snd (peer_poll expiry ws n r aft w))"
| peer_approves: "peer_step w (snd (peer_approve ws n r i w))"
| peer_decides: "peer_step w (snd (peer_decide i w))"
| peer_has_decided: "peer_step w (snd (peer_decided i w))"
| peer_tick: "peer_step w (snd (tick_jobs active w))"
| peer_snapshot_taken: "peer_step w (snd (sync_apply jb snap w))"
| peer_sync_fails: "peer_step w (snd (sync_failed started i m w))"

inductive trigger_step :: "world \<Rightarrow> world \<Rightarrow> bool" where
  schedule_runs: "trigger_step w (snd (run_schedule a key expr x now w))"
| poll_is_due: "trigger_step w (snd (poll_due a key every now w))"
| poll_runs: "trigger_step w (snd (run_poll a key x now answer st w))"

text \<open>
  What happens around the daemon: time passes, configuration files, the peers' directory and the
  settings change, and the daemon stops and starts again on the database it left.
\<close>

inductive environment_step :: "world \<Rightarrow> world \<Rightarrow> bool" where
  clock: "environment_step w (w\<lparr>db := (db w)\<lparr>s_now := now\<rparr>\<rparr>)"
| files: "environment_step w (w\<lparr>layout := ly\<rparr>)"
| directory: "environment_step w (w\<lparr>network := nw\<rparr>)"
| settings: "environment_step w (w\<lparr>opts := os\<rparr>)"
| restart: "environment_step w (start_hub w)"

inductive daemon_step :: "world \<Rightarrow> world \<Rightarrow> bool" where
  by_hub: "hub_step w w' \<Longrightarrow> daemon_step w w'"
| by_turn: "turn_step w w' \<Longrightarrow> daemon_step w w'"
| by_team: "team_step w w' \<Longrightarrow> daemon_step w w'"
| by_peer: "peer_step w w' \<Longrightarrow> daemon_step w w'"
| by_trigger: "trigger_step w w' \<Longrightarrow> daemon_step w w'"
| by_environment: "environment_step w w' \<Longrightarrow> daemon_step w w'"

inductive reachable :: "world \<Rightarrow> bool" where
  first_start: "empty_db (db w) \<Longrightarrow> reachable (start_hub w)"
| goes_on: "reachable w \<Longrightarrow> daemon_step w w' \<Longrightarrow> reachable w'"

section \<open>The invariant\<close>

lemma start_ok: "db_at 0 (db w) \<Longrightarrow> ok 0 (start_hub w)"
  unfolding start_hub_def
  by (rule keeps_invD [OF ok.keeps_reload])
    (simp add: ok_def cells_ok_def occupied_def new_hub_def CELL_CEILING_def)

lemma empty_db_ok: "empty_db s \<Longrightarrow> db_at 0 s"
  by (simp add: empty_db_def db_at_def db_ok_def events_ok_def task_events_def)

lemma keeps_step: "keeps_inv (ok 0) m \<Longrightarrow> ok 0 w \<Longrightarrow> ok 0 (snd (m w))"
  by (rule keeps_invD)

lemma keeps_forget_triggers [keeps]: "keeps_inv (ok d) (on_db (deleteTriggerState a))"
  by (rule keeps_store, rule keeps_db_frame) (simp add: deleteTriggerState_def modify_def Let_def)

lemma hub_step_ok: "hub_step w w' \<Longrightarrow> ok 0 w \<Longrightarrow> ok 0 w'"
  by (induction rule: hub_step.induct; erule keeps_step [rotated]; intro keeps)

lemma turn_step_ok: "turn_step w w' \<Longrightarrow> ok 0 w \<Longrightarrow> ok 0 w'"
  by (induction rule: turn_step.induct; erule keeps_step [rotated]; intro keeps)

lemma team_step_ok: "team_step w w' \<Longrightarrow> ok 0 w \<Longrightarrow> ok 0 w'"
  by (induction rule: team_step.induct; erule keeps_step [rotated]; intro keeps)

lemma peer_step_ok: "peer_step w w' \<Longrightarrow> ok 0 w \<Longrightarrow> ok 0 w'"
  by (induction rule: peer_step.induct; (erule sync_apply_ok | erule keeps_step [rotated], intro keeps))

lemma trigger_step_ok: "trigger_step w w' \<Longrightarrow> ok 0 w \<Longrightarrow> ok 0 w'"
  by (induction rule: trigger_step.induct; erule keeps_step [rotated]; intro keeps)

lemma environment_step_ok: "environment_step w w' \<Longrightarrow> ok 0 w \<Longrightarrow> ok 0 w'"
proof (induction rule: environment_step.induct)
  case (clock w now)
  then show ?case by (simp add: ok_def db_at_def db_ok_def events_ok_def task_events_def)
next
  case (restart w)
  then have "db_at 0 (db w)" by (simp add: ok_def)
  then show ?case by (rule start_ok)
qed (simp_all add: ok_def)

lemma daemon_step_ok: "daemon_step w w' \<Longrightarrow> ok 0 w \<Longrightarrow> ok 0 w'"
  by (induction rule: daemon_step.induct)
    (blast intro: hub_step_ok turn_step_ok team_step_ok peer_step_ok trigger_step_ok environment_step_ok)+

lemma reachable_invariant: "reachable w \<Longrightarrow> ok 0 w"
  by (induction rule: reachable.induct) (auto intro: start_ok empty_db_ok daemon_step_ok)

text \<open>
  C3 (reachable_within_bounds). Whatever the daemon is asked and answered, in whatever order, after any
  number of restarts: task ids are unique, no task is deeper than three levels, titles, results and links
  are bounded, every transcript is numbered without a gap and holds at most 5000 events, the guest
  counts at most 16 cells, and no transaction is left open.
\<close>

theorem reachable_within_bounds:
  assumes "reachable w"
  shows "distinct (map t_id (s_tasks (db w))) \<and>
    (\<forall>t \<in> set (s_tasks (db w)). t_depth t \<le> 3 \<and> length (t_title t) \<le> 120 \<and>
       length (or_else (t_result t) []) \<le> MAX_RESULT_CHARS \<and> length (t_links t) \<le> 10) \<and>
    (\<forall>i. contiguous (task_events i (db w)) \<and> length (task_events i (db w)) \<le> 5000) \<and>
    occupied (hub w) \<le> 16 \<and> s_depth (db w) = 0"
  using reachable_invariant [OF assms]
  by (auto simp: ok_def db_at_def db_ok_def row_ok_def events_ok_def cells_ok_def maxDepth_def CELL_CEILING_def
      MAX_EVENTS_PER_TASK_def)

definition demo_start :: world where
  "demo_start = demo_world\<lparr>db := (db demo_world)\<lparr>s_tasks := []\<rparr>\<rparr>"

lemma reachable_within_bounds_witness:
  "occupied (hub (snd (hub_createTask ''dev'' ''fix it'' ''user'' (start_hub demo_start)))) \<le> 16"
proof -
  have "empty_db (db demo_start)" by (simp add: empty_db_def demo_start_def demo_defs)
  then have "reachable (start_hub demo_start)" by (rule first_start)
  then have "reachable (snd (hub_createTask ''dev'' ''fix it'' ''user'' (start_hub demo_start)))"
    by (rule goes_on) (rule by_hub, rule hub_step.create)
  then show ?thesis using reachable_within_bounds by blast
qed

end
