(* ===== verification/Codec.thy ===== *)
theory Codec
  imports Prelude
begin

text \<open>
  \<^verbatim>\<open>packages/protocol/src/codec.ts\<close>: newline-delimited JSON frames with a size limit.

  A decoder keeps the chunks of an unfinished line.  \<open>push\<close> returns what it hands to its
  callbacks, in order: \<open>Frame v\<close> for \<open>onFrame(v)\<close>, \<open>Failure m\<close> for \<open>onError\<close>.  The parameter
  \<open>parse\<close> is \<open>JSON.parse\<close> on the bytes of a line (\<open>None\<close> where it throws), and \<open>reject\<close> is what
  the \<open>onFrame\<close> callback does to the decoder: \<open>Some m\<close> when it calls \<open>decoder.fail(m)\<close>, as the
  RPC peer does for a frame that is not an object.
\<close>

type_synonym bytes = "char list"

definition newline :: char where
  "newline = CHR 0x0A"

definition CLIENT_MAX_FRAME_BYTES :: nat where
  "CLIENT_MAX_FRAME_BYTES = 8 * 1024 * 1024"

definition CELL_MAX_FRAME_BYTES :: nat where
  "CELL_MAX_FRAME_BYTES = 256 * 1024"

record decoder =
  parts :: "bytes list"
  d_size :: nat
  failed :: bool

datatype 'v callback = Frame 'v | Failure string

definition new_decoder :: decoder where
  "new_decoder = \<lparr>parts = [], d_size = 0, failed = False\<rparr>"

definition encodeFrame :: "('v \<Rightarrow> bytes) \<Rightarrow> 'v \<Rightarrow> bytes" where
  "encodeFrame stringify v = stringify v @ [newline]"

text \<open>\<open>fail\<close>: the first failure stops the decoder and is reported; later ones do nothing.\<close>

definition decoder_fail :: "string \<Rightarrow> decoder \<Rightarrow> 'v callback list \<times> decoder" where
  "decoder_fail m d =
     (if failed d then ([], d) else ([Failure m], d\<lparr>failed := True, parts := []\<rparr>))"

definition too_large :: "nat \<Rightarrow> string" where
  "too_large maxBytes = ''frame exceeds '' @ nat_str maxBytes @ '' bytes''"

definition blank_line :: "bytes \<Rightarrow> bool" where
  "blank_line line \<longleftrightarrow> js_trim line = []"

lemma after_newline_shorter:
  "newline \<in> set buf \<Longrightarrow> length (dropWhile (\<lambda>b. b \<noteq> newline) buf) - Suc 0 < length buf"
  using length_dropWhile_le [of "\<lambda>b. b \<noteq> newline" buf]
  by (cases buf) (auto simp: le_imp_less_Suc intro: le_less_trans [OF diff_le_self])

text \<open>The loop of \<open>push\<close>: one round per newline of the chunk.\<close>

function push_loop ::
  "(bytes \<Rightarrow> 'v option) \<Rightarrow> ('v \<Rightarrow> string option) \<Rightarrow> nat \<Rightarrow> bytes \<Rightarrow> decoder \<Rightarrow>
   'v callback list \<times> decoder" where
  "push_loop parse reject maxBytes buf d =
     (let line = takeWhile (\<lambda>b. b \<noteq> newline) buf; rest = dropWhile (\<lambda>b. b \<noteq> newline) buf
      in if rest = []
         then (let d1 = d\<lparr>d_size := d_size d + length buf\<rparr>
               in if d_size d1 > maxBytes then decoder_fail (too_large maxBytes) d1
                  else ([], if buf \<noteq> [] then d1\<lparr>parts := parts d1 @ [buf]\<rparr> else d1))
         else (let d1 = d\<lparr>d_size := d_size d + length line\<rparr>
               in if d_size d1 > maxBytes then decoder_fail (too_large maxBytes) d1
                  else (let text = concat (parts d1 @ [line]);
                            d2 = d1\<lparr>parts := [], d_size := 0\<rparr>
                        in if blank_line text then push_loop parse reject maxBytes (tl rest) d2
                           else case parse text of
                               None \<Rightarrow> decoder_fail ''frame is not valid JSON'' d2
                             | Some v \<Rightarrow>
                                 (case reject v of
                                    Some m \<Rightarrow> (let (os, d3) = decoder_fail m d2 in (Frame v # os, d3))
                                  | None \<Rightarrow>
                                      (let (os, d3) = push_loop parse reject maxBytes (tl rest) d2
                                       in (Frame v # os, d3))))))"
  by pat_completeness auto
termination
  by (relation "measure (\<lambda>(p, r, m, buf, d). length buf)")
     (auto simp: after_newline_shorter)

declare push_loop.simps [simp del]

definition push ::
  "(bytes \<Rightarrow> 'v option) \<Rightarrow> ('v \<Rightarrow> string option) \<Rightarrow> nat \<Rightarrow> bytes \<Rightarrow> decoder \<Rightarrow>
   'v callback list \<times> decoder" where
  "push parse reject maxBytes chunk d =
     (if failed d then ([], d) else push_loop parse reject maxBytes chunk d)"

text \<open>A stream of chunks, as the socket or pipe delivers them.\<close>

fun push_all ::
  "(bytes \<Rightarrow> 'v option) \<Rightarrow> ('v \<Rightarrow> string option) \<Rightarrow> nat \<Rightarrow> bytes list \<Rightarrow> decoder \<Rightarrow>
   'v callback list \<times> decoder" where
  "push_all parse reject maxBytes [] d = ([], d)"
| "push_all parse reject maxBytes (c # cs) d =
     (let (os, d1) = push parse reject maxBytes c d;
          (os', d2) = push_all parse reject maxBytes cs d1
      in (os @ os', d2))"


section \<open>The abstract decoder\<close>

text \<open>
  What a decoder promises, byte by byte: it collects the bytes of a line, hands over the parsed
  line at its newline, and stops at the first failure.  \<open>None\<close> is the stopped decoder.
\<close>

definition line_done ::
  "(bytes \<Rightarrow> 'v option) \<Rightarrow> ('v \<Rightarrow> string option) \<Rightarrow> bytes \<Rightarrow> 'v callback list \<times> bytes option" where
  "line_done parse reject line =
     (if blank_line line then ([], Some [])
      else case parse line of
          None \<Rightarrow> ([Failure ''frame is not valid JSON''], None)
        | Some v \<Rightarrow> (case reject v of None \<Rightarrow> ([Frame v], Some [])
                                    | Some m \<Rightarrow> ([Frame v, Failure m], None)))"

fun feed ::
  "(bytes \<Rightarrow> 'v option) \<Rightarrow> ('v \<Rightarrow> string option) \<Rightarrow> nat \<Rightarrow> bytes \<Rightarrow> bytes option \<Rightarrow>
   'v callback list \<times> bytes option" where
  "feed parse reject maxBytes [] st = ([], st)"
| "feed parse reject maxBytes (b # bs) None = ([], None)"
| "feed parse reject maxBytes (b # bs) (Some acc) =
     (if b = newline
      then (let (os, st) = line_done parse reject acc; (os', st') = feed parse reject maxBytes bs st
            in (os @ os', st'))
      else if maxBytes < length acc + 1 then ([Failure (too_large maxBytes)], None)
      else feed parse reject maxBytes bs (Some (acc @ [b])))"

definition decoder_abs :: "decoder \<Rightarrow> bytes option" where
  "decoder_abs d = (if failed d then None else Some (concat (parts d)))"

definition decoder_inv :: "nat \<Rightarrow> decoder \<Rightarrow> bool" where
  "decoder_inv maxBytes d \<longleftrightarrow>
     (if failed d then parts d = []
      else d_size d = length (concat (parts d)) \<and> d_size d \<le> maxBytes)"

lemma feed_None [simp]: "feed parse reject maxBytes bs None = ([], None)"
  by (cases bs) auto

lemma feed_append:
  "feed parse reject maxBytes (xs @ ys) st =
     (let (os, st') = feed parse reject maxBytes xs st;
          (os', st'') = feed parse reject maxBytes ys st'
      in (os @ os', st''))"
proof (induction xs arbitrary: st)
  case Nil
  then show ?case by (auto split: prod.splits)
next
  case (Cons b xs)
  then show ?case by (cases st) (auto simp: Let_def split: prod.splits)
qed

lemma feed_line:
  assumes "newline \<notin> set line" and "length acc \<le> maxBytes"
  shows "feed parse reject maxBytes (line @ bs) (Some acc) =
    (if maxBytes < length acc + length line then ([Failure (too_large maxBytes)], None)
     else feed parse reject maxBytes bs (Some (acc @ line)))"
  using assms
proof (induction line arbitrary: acc)
  case Nil
  then show ?case by simp
next
  case (Cons b line)
  show ?case
  proof (cases "maxBytes < length acc + 1")
    case True
    with Cons.prems show ?thesis by auto
  next
    case False
    with Cons.prems Cons.IH [of "acc @ [b]"] show ?thesis by auto
  qed
qed

lemma feed_whole_line:
  assumes "newline \<notin> set line" and "length acc \<le> maxBytes"
  shows "feed parse reject maxBytes (line @ newline # bs) (Some acc) =
    (if maxBytes < length acc + length line then ([Failure (too_large maxBytes)], None)
     else let (os, st) = line_done parse reject (acc @ line);
              (os', st') = feed parse reject maxBytes bs st in (os @ os', st'))"
  by (simp add: feed_line [OF assms] Let_def)

section \<open>The decoder refines it\<close>

lemma split_at_newline:
  assumes "newline \<in> set buf"
  obtains line bs where "buf = line @ newline # bs" and "newline \<notin> set line"
    and "takeWhile (\<lambda>b. b \<noteq> newline) buf = line" and "dropWhile (\<lambda>b. b \<noteq> newline) buf = newline # bs"
proof -
  from split_list_first [OF assms] obtain line bs
    where "buf = line @ newline # bs" and "newline \<notin> set line" by blast
  then show thesis by (intro that) (auto simp: takeWhile_append dropWhile_append)
qed

lemma push_loop_no_newline:
  assumes "newline \<notin> set buf"
  shows "push_loop parse reject maxBytes buf d =
    (let d1 = d\<lparr>d_size := d_size d + length buf\<rparr>
     in if d_size d1 > maxBytes then decoder_fail (too_large maxBytes) d1
        else ([], if buf \<noteq> [] then d1\<lparr>parts := parts d1 @ [buf]\<rparr> else d1))"
proof -
  have "dropWhile (\<lambda>b. b \<noteq> newline) buf = []" using assms by auto
  then show ?thesis by (subst push_loop.simps) (simp only: Let_def if_True refl)
qed

lemma push_loop_newline:
  assumes "newline \<notin> set line"
  shows "push_loop parse reject maxBytes (line @ newline # bs) d =
    (let d1 = d\<lparr>d_size := d_size d + length line\<rparr>
     in if d_size d1 > maxBytes then decoder_fail (too_large maxBytes) d1
        else (let txt = concat (parts d1 @ [line]); d2 = d1\<lparr>parts := [], d_size := 0\<rparr>
              in if blank_line txt then push_loop parse reject maxBytes bs d2
                 else case parse txt of
                     None \<Rightarrow> decoder_fail ''frame is not valid JSON'' d2
                   | Some v \<Rightarrow>
                       (case reject v of
                          Some m \<Rightarrow> (let (os, d3) = decoder_fail m d2 in (Frame v # os, d3))
                        | None \<Rightarrow> (let (os, d3) = push_loop parse reject maxBytes bs d2
                                   in (Frame v # os, d3)))))"
proof -
  have t: "takeWhile (\<lambda>b. b \<noteq> newline) (line @ newline # bs) = line"
    and r: "dropWhile (\<lambda>b. b \<noteq> newline) (line @ newline # bs) = newline # bs"
    using assms by (auto simp: takeWhile_append dropWhile_append)
  show ?thesis
    by (subst push_loop.simps) (simp only: t r Let_def list.simps if_False list.sel)
qed

lemma push_loop_refines:
  assumes "\<not> failed d" and "decoder_inv maxBytes d"
    and "push_loop parse reject maxBytes buf d = (os, d')"
  shows "feed parse reject maxBytes buf (decoder_abs d) = (os, decoder_abs d') \<and> decoder_inv maxBytes d'"
  using assms
proof (induction "length buf" arbitrary: buf d os d' rule: less_induct)
  case less
  from less.prems(1,2) have d: "decoder_abs d = Some (concat (parts d))"
    "d_size d = length (concat (parts d))" "d_size d \<le> maxBytes"
    by (simp_all add: decoder_abs_def decoder_inv_def)
  show ?case
  proof (cases "newline \<in> set buf")
    case False
    with less.prems d show ?thesis
      using feed_line [OF False, where bs = "[]" and acc = "concat (parts d)" and maxBytes = maxBytes
          and parse = parse and reject = reject]
      by (auto simp: push_loop_no_newline Let_def decoder_fail_def decoder_abs_def decoder_inv_def
          split: if_splits)
  next
    case True
    then obtain line bs where buf: "buf = line @ newline # bs" and line: "newline \<notin> set line"
      by (rule split_at_newline)
    define d2 where "d2 = d\<lparr>parts := [], d_size := 0\<rparr>"
    have d2: "\<not> failed d2" "decoder_inv maxBytes d2" "decoder_abs d2 = Some []"
      using less.prems(1) by (simp_all add: d2_def decoder_inv_def decoder_abs_def)
    have IH: "feed parse reject maxBytes bs (Some []) = (os, decoder_abs d') \<and> decoder_inv maxBytes d'"
      if "push_loop parse reject maxBytes bs d2 = (os, d')" for os d'
      using less.hyps [OF _ d2(1,2) that] by (simp add: buf d2(3))
    from d(2,3) have len: "length (concat (parts d)) \<le> maxBytes" by simp
    show ?thesis
      using less.prems(1,3) d IH unfolding buf
      by (auto simp: push_loop_newline [OF line] feed_whole_line [OF line len] Let_def
          decoder_fail_def decoder_abs_def decoder_inv_def line_done_def d2_def
          split: if_splits option.splits prod.splits)
  qed
qed

lemma push_refines:
  assumes "decoder_inv maxBytes d" and "push parse reject maxBytes chunk d = (os, d')"
  shows "feed parse reject maxBytes chunk (decoder_abs d) = (os, decoder_abs d')"
    and "decoder_inv maxBytes d'"
proof -
  have "feed parse reject maxBytes chunk (decoder_abs d) = (os, decoder_abs d') \<and> decoder_inv maxBytes d'"
  proof (cases "failed d")
    case True
    with assms show ?thesis by (auto simp: push_def decoder_abs_def)
  next
    case False
    with assms show ?thesis by (simp add: push_def push_loop_refines)
  qed
  then show "feed parse reject maxBytes chunk (decoder_abs d) = (os, decoder_abs d')"
    and "decoder_inv maxBytes d'" by simp_all
qed

section \<open>The interface a connection uses\<close>

text \<open>
  A connection reads chunks whose borders it does not choose.  What it relies on: each step of the
  decoder is a step of an abstract decoder that only depends on the bytes.
\<close>

locale chunk_decoder =
  fixes step :: "bytes \<Rightarrow> 'd \<Rightarrow> 'o list \<times> 'd"
    and run :: "bytes list \<Rightarrow> 'd \<Rightarrow> 'o list \<times> 'd"
    and spec :: "bytes \<Rightarrow> 's \<Rightarrow> 'o list \<times> 's"
    and absd :: "'d \<Rightarrow> 's"
    and inv :: "'d \<Rightarrow> bool"
  assumes refines: "inv d \<Longrightarrow> step c d = (os, d') \<Longrightarrow> spec c (absd d) = (os, absd d')"
    and keeps_invariant: "inv d \<Longrightarrow> step c d = (os, d') \<Longrightarrow> inv d'"
    and spec_Nil: "spec [] st = ([], st)"
    and spec_append: "spec (xs @ ys) st =
      (let (os, st') = spec xs st; (os', st'') = spec ys st' in (os @ os', st''))"
    and run_Nil: "run [] d = ([], d)"
    and run_Cons: "run (c # cs) d = (let (os, d1) = step c d; (os', d2) = run cs d1 in (os @ os', d2))"
begin

lemma run_refines:
  assumes "inv d" and "run cs d = (os, d')"
  shows "spec (concat cs) (absd d) = (os, absd d')" and "inv d'"
proof -
  have "spec (concat cs) (absd d) = (os, absd d') \<and> inv d'"
    using assms
  proof (induction cs arbitrary: d os)
    case Nil
    then show ?case by (simp add: run_Nil spec_Nil)
  next
    case (Cons c cs)
    obtain o1 d1 o2 d2 where s: "step c d = (o1, d1)" and r: "run cs d1 = (o2, d2)"
      by (metis surj_pair)
    with Cons.prems(2) have eq: "os = o1 @ o2" "d' = d2" by (simp_all add: run_Cons)
    from Cons.prems(1) s have "spec c (absd d) = (o1, absd d1)" "inv d1"
      by (blast intro: refines keeps_invariant)+
    with Cons.IH [OF \<open>inv d1\<close>, of o2] r eq show ?case by (simp add: spec_append)
  qed
  then show "spec (concat cs) (absd d) = (os, absd d')" and "inv d'" by simp_all
qed

lemma run_outputs: "inv d \<Longrightarrow> fst (run cs d) = fst (spec (concat cs) (absd d))"
  using run_refines(1) by (metis fst_conv surj_pair)

lemma run_inv: "inv d \<Longrightarrow> inv (snd (run cs d))"
  using run_refines(2) by (metis snd_conv surj_pair)

end

interpretation frames: chunk_decoder "push parse reject maxBytes" "push_all parse reject maxBytes"
    "feed parse reject maxBytes" decoder_abs "decoder_inv maxBytes" for parse reject maxBytes
  by unfold_locales (auto simp: push_refines feed_append)

lemma new_decoder_inv [simp]: "decoder_inv maxBytes new_decoder"
  by (simp add: decoder_inv_def new_decoder_def)

lemma new_decoder_abs [simp]: "decoder_abs new_decoder = Some []"
  by (simp add: decoder_abs_def new_decoder_def)

section \<open>Properties\<close>

text \<open>
  C21 (push_all_refines). Whatever the chunks a stream arrives in, the callbacks of the decoder are those of
  the abstract decoder fed the bytes one by one: chunk borders never show.
\<close>

theorem push_all_refines:
  "fst (push_all parse reject maxBytes chunks new_decoder) =
   fst (feed parse reject maxBytes (concat chunks) (Some []))"
  using frames.run_outputs [OF new_decoder_inv] by simp

lemma feed_frames:
  assumes "\<forall>v\<in>set vs. parse (stringify v) = Some v \<and> newline \<notin> set (stringify v) \<and>
      \<not> blank_line (stringify v) \<and> length (stringify v) \<le> maxBytes \<and> reject v = None"
  shows "feed parse reject maxBytes (concat (map (encodeFrame stringify) vs)) (Some []) =
    (map Frame vs, Some [])"
  using assms
proof (induction vs)
  case Nil
  then show ?case by simp
next
  case (Cons v vs)
  then show ?case
    by (simp add: encodeFrame_def feed_whole_line line_done_def)
qed

text \<open>
  C22 (frames_roundtrip). Frames that \<open>encodeFrame\<close> wrote, within the size limit, come out of the decoder as
  they went in, in order and none lost, in whatever chunks the stream delivers them.  The
  hypotheses on \<open>JSON.stringify\<close> and \<open>JSON.parse\<close> are what their documentation says: parsing gives
  the value back, and the text has no raw newline and is not blank.
\<close>

theorem frames_roundtrip:
  assumes "\<forall>v\<in>set vs. parse (stringify v) = Some v \<and> newline \<notin> set (stringify v) \<and>
      \<not> blank_line (stringify v) \<and> length (stringify v) \<le> maxBytes \<and> reject v = None"
    and "concat chunks = concat (map (encodeFrame stringify) vs)"
  shows "fst (push_all parse reject maxBytes chunks new_decoder) = map Frame vs"
  using frames.run_outputs [OF new_decoder_inv, of parse reject maxBytes chunks]
  by (simp add: assms(2) feed_frames [OF assms(1)])

lemma frames_roundtrip_witness:
  "fst (push_all (\<lambda>t. if t = ''{}'' then Some True else if t = ''[]'' then Some False else None)
      (\<lambda>_. None) 8 [''{'', ''}'' @ [newline], ''[]'', [newline]] new_decoder) = [Frame True, Frame False]"
proof -
  let ?parse = "\<lambda>t. if t = ''{}'' then Some True else if t = ''[]'' then Some False else None"
  let ?str = "\<lambda>v. if v then ''{}'' else ''[]''"
  have "\<forall>v\<in>set [True, False]. ?parse (?str v) = Some v \<and> newline \<notin> set (?str v) \<and>
      \<not> blank_line (?str v) \<and> length (?str v) \<le> 8 \<and> (\<lambda>_. None :: string option) v = None"
    by (simp add: newline_def blank_line_def js_trim_def is_space_def)
  from frames_roundtrip [OF this, of "[''{'', ''}'' @ [newline], ''[]'', [newline]]"] show ?thesis
    by (simp add: encodeFrame_def)
qed

fun stops_at_failure :: "'v callback list \<Rightarrow> bool" where
  "stops_at_failure [] = True"
| "stops_at_failure (Frame v # os) = stops_at_failure os"
| "stops_at_failure (Failure m # os) = (os = [])"

lemma feed_stops: "stops_at_failure (fst (feed parse reject maxBytes bs st))"
proof (induction bs arbitrary: st)
  case Nil
  show ?case by simp
next
  case (Cons b bs)
  have *: "stops_at_failure os" if "feed parse reject maxBytes bs st' = (os, st'')" for os st' st''
    using Cons.IH [of st'] that by simp
  show ?case
    by (cases st) (auto simp: line_done_def Let_def * Cons.IH split: option.splits prod.splits)
qed

text \<open>
  A decoder reports at most one failure, as the last thing it does, and never
  holds more than the frame limit of unfinished line, whatever it is sent.
\<close>

theorem decoder_stops_and_bounds:
  "stops_at_failure (fst (push_all parse reject maxBytes chunks new_decoder)) \<and>
   length (concat (parts (snd (push_all parse reject maxBytes chunks new_decoder)))) \<le> maxBytes"
proof
  show "stops_at_failure (fst (push_all parse reject maxBytes chunks new_decoder))"
    by (simp add: frames.run_outputs feed_stops)
  show "length (concat (parts (snd (push_all parse reject maxBytes chunks new_decoder)))) \<le> maxBytes"
    using frames.run_inv [OF new_decoder_inv, of maxBytes parse reject chunks]
    by (auto simp: decoder_inv_def split: if_splits)
qed

end
