(* ===== verification/Rpc.thy ===== *)
theory Rpc
  imports Codec Schema
begin

text \<open>
  \<^verbatim>\<open>packages/daemon/src/rpc.ts\<close>: one end of a JSON-RPC connection.  A request that waits for its
  answer is an entry of \<open>pending\<close>; \<open>rp_settled\<close> lists the answers given, in order, and \<open>rp_lost\<close> the
  requests whose entry was deleted before their answer threw.  The handler's answer to a request
  arrives as \<open>handled\<close>.
\<close>

datatype rpc_frame =
  Rq nat string json
| Rs nat json
| Rs_error nat string
| Nt string json

datatype peer_output =
  Sent rpc_frame
| Notification string json
| Calls json string json
| Destroyed string
| Closed_event

record rpc_peer =
  rp_nextId :: nat
  rp_pending :: "nat list"
  rp_decoder :: decoder
  rp_closed :: bool
  rp_settled :: "(nat \<times> json result) list"
  rp_lost :: "nat list"
  rp_out :: "peer_output list"

definition new_peer :: rpc_peer where
  "new_peer = \<lparr>rp_nextId = 1, rp_pending = [], rp_decoder = new_decoder, rp_closed = False,
               rp_settled = [], rp_lost = [], rp_out = []\<rparr>"

definition isFrame :: "json \<Rightarrow> bool" where
  "isFrame v = is_object v"

definition rp_emit :: "peer_output \<Rightarrow> rpc_peer \<Rightarrow> rpc_peer" where
  "rp_emit x p = p\<lparr>rp_out := rp_out p @ [x]\<rparr>"

definition rpc_send :: "rpc_frame \<Rightarrow> rpc_peer \<Rightarrow> rpc_peer" where
  "rpc_send f p = (if rp_closed p then p else rp_emit (Sent f) p)"

definition settle :: "nat \<Rightarrow> json result \<Rightarrow> rpc_peer \<Rightarrow> rpc_peer" where
  "settle i r p =
     (if i \<in> set (rp_pending p)
      then p\<lparr>rp_pending := removeAll i (rp_pending p), rp_settled := rp_settled p @ [(i, r)]\<rparr>
      else p)"

definition id_of :: "json \<Rightarrow> nat option" where
  "id_of j = (case j of JInt n \<Rightarrow> if 0 \<le> n then Some (nat n) else None | _ \<Rightarrow> None)"

text \<open>
  The message of the error an answer carries, \<open>new Error(frame.error.message)\<close>; \<open>None\<close> when reading it
  throws: \<^verbatim>\<open>null\<close> has no fields, and an object with a field \<^verbatim>\<open>toString\<close> of its own does not become a
  string.  The entry of the request is deleted already then, so \<open>lose\<close> leaves it without an answer.
\<close>

fun stringless :: "json \<Rightarrow> bool" where
  "stringless (JObj kvs) = (map_of kvs ''toString'' \<noteq> None)"
| "stringless (JArr xs) = list_ex stringless xs"
| "stringless _ = False"

definition error_message :: "json \<Rightarrow> string option" where
  "error_message e =
     (case e of
        JNull \<Rightarrow> None
      | JObj kvs \<Rightarrow>
          (case map_of kvs ''message'' of
             None \<Rightarrow> Some []
           | Some m \<Rightarrow> if stringless m then None else Some (js_String m))
      | _ \<Rightarrow> Some [])"

definition lose :: "nat \<Rightarrow> rpc_peer \<Rightarrow> rpc_peer" where
  "lose i p =
     (if i \<in> set (rp_pending p)
      then p\<lparr>rp_pending := removeAll i (rp_pending p), rp_lost := rp_lost p @ [i]\<rparr>
      else p)"

definition rpc_onFrame :: "json \<Rightarrow> rpc_peer \<Rightarrow> rpc_peer" where
  "rpc_onFrame v p =
     (let kvs = (case v of JObj o1 \<Rightarrow> o1 | _ \<Rightarrow> [])
      in case (map_of kvs ''id'', map_of kvs ''method'') of
           (Some i, Some m) \<Rightarrow>
             rp_emit (Calls i (case m of JStr s \<Rightarrow> s | _ \<Rightarrow> json_text m)
               (case map_of kvs ''params'' of None \<Rightarrow> JObj [] | Some JNull \<Rightarrow> JObj [] | Some ps \<Rightarrow> ps)) p
         | (Some i, None) \<Rightarrow>
             (case id_of i of
                None \<Rightarrow> p
              | Some n \<Rightarrow>
                  (case map_of kvs ''error'' of
                     Some e \<Rightarrow>
                       (case error_message e of
                          Some t \<Rightarrow> settle n (Inl (Error t)) p
                        | None \<Rightarrow> lose n p)
                   | None \<Rightarrow> settle n (Inr (case map_of kvs ''result'' of None \<Rightarrow> JNull | Some r \<Rightarrow> r)) p))
         | (None, Some m) \<Rightarrow>
             rp_emit (Notification (case m of JStr s \<Rightarrow> s | _ \<Rightarrow> json_text m)
               (case map_of kvs ''params'' of None \<Rightarrow> JNull | Some ps \<Rightarrow> ps)) p
         | (None, None) \<Rightarrow> p)"

text \<open>The callbacks of the decoder; a frame that is not an object fails it.\<close>

fun rpc_callback :: "json callback \<Rightarrow> rpc_peer \<Rightarrow> rpc_peer" where
  "rpc_callback (Frame v) p = (if isFrame v then rpc_onFrame v p else p)"
| "rpc_callback (Failure m) p = rp_emit (Destroyed m) p"

definition rpc_reject :: "json \<Rightarrow> string option" where
  "rpc_reject v = (if isFrame v then None else Some ''frame is not an object'')"

definition rpc_data :: "(bytes \<Rightarrow> json option) \<Rightarrow> nat \<Rightarrow> bytes \<Rightarrow> rpc_peer \<Rightarrow> rpc_peer" where
  "rpc_data parse maxBytes chunk p =
     (case push parse rpc_reject maxBytes chunk (rp_decoder p) of
        (cbs, d) \<Rightarrow> fold rpc_callback cbs (p\<lparr>rp_decoder := d\<rparr>))"

text \<open>The connection closed: every request that still waits is rejected.\<close>

definition on_socket_close :: "rpc_peer \<Rightarrow> rpc_peer" where
  "on_socket_close p =
     rp_emit Closed_event
       (p\<lparr>rp_closed := True, rp_pending := [],
          rp_settled := rp_settled p @ map (\<lambda>i. (i, Inl (Error ''connection closed''))) (rp_pending p)\<rparr>)"

definition rpc_request :: "string \<Rightarrow> json \<Rightarrow> rpc_peer \<Rightarrow> nat \<times> rpc_peer" where
  "rpc_request method ps p =
     (let i = rp_nextId p; p1 = p\<lparr>rp_nextId := i + 1\<rparr>
      in if rp_closed p1
         then (i, p1\<lparr>rp_settled := rp_settled p1 @ [(i, Inl (Error ''connection closed''))]\<rparr>)
         else (i, rpc_send (Rq i method ps) (p1\<lparr>rp_pending := rp_pending p1 @ [i]\<rparr>)))"

definition rpc_notify :: "string \<Rightarrow> json \<Rightarrow> rpc_peer \<Rightarrow> rpc_peer" where
  "rpc_notify method ps p = rpc_send (Nt method ps) p"

definition handled :: "nat \<Rightarrow> json result \<Rightarrow> rpc_peer \<Rightarrow> rpc_peer" where
  "handled i r p =
     (case r of Inr v \<Rightarrow> rpc_send (Rs i v) p | Inl e \<Rightarrow> rpc_send (Rs_error i (message e)) p)"

end
