(* ===== verification/Cell.thy ===== *)
theory Cell
  imports Codec Schema
begin

text \<open>
  \<^verbatim>\<open>packages/daemon/src/cell.ts\<close> with the messages of \<^verbatim>\<open>packages/protocol/src/cell.ts\<close>: the
  daemon's side of one cell.  The runner is untrusted: its output is bounded per turn, and every
  frame must be a message of the turn in progress.

  \<open>cl_sent\<close> holds the commands written to the runner, \<open>cl_calls\<close> the tool calls handed to the
  hub.  Parameters: \<open>parse\<close> is \<open>JSON.parse\<close>, \<open>num\<close> the value of a number's text.
\<close>

definition TURN_MAX_BYTES :: nat where "TURN_MAX_BYTES = 64 * 1024 * 1024"
definition TURN_MAX_TOOL_CALLS :: nat where "TURN_MAX_TOOL_CALLS = 200"

section \<open>Messages\<close>

definition event_text :: "string parser" where "event_text = str_max MAX_EVENT_TEXT"
definition event_id :: "string parser" where "event_id = str_where event_id_ok"

fun p_flag :: "bool parser" where
  "p_flag (JBool b) = Some b" | "p_flag _ = None"

fun p_nat :: "nat parser" where
  "p_nat (JInt n) = (if 0 \<le> n then Some (nat n) else None)" | "p_nat _ = None"

fun p_cost :: "(string \<Rightarrow> rat) \<Rightarrow> rat parser" where
  "p_cost num (JInt n) = (if 0 \<le> n then Some (of_int n) else None)"
| "p_cost num (JReal t) = (if 0 \<le> num t then Some (num t) else None)"
| "p_cost num _ = None"

definition usage_fields :: "string list" where
  "usage_fields =
     [''type'', ''model'', ''inputTokens'', ''outputTokens'', ''cachedInputTokens'', ''cacheWriteTokens'',
      ''reasoningTokens'', ''costUsd'', ''cumulative'']"

definition usage_of_json :: "(string \<Rightarrow> rat) \<Rightarrow> runtime_event parser" where
  "usage_of_json num j = do {
     kvs \<leftarrow> strictObject usage_fields j;
     model \<leftarrow> optional kvs ''model'' (str_max 100);
     inp \<leftarrow> optional kvs ''inputTokens'' p_nat;
     out \<leftarrow> optional kvs ''outputTokens'' p_nat;
     cached \<leftarrow> optional kvs ''cachedInputTokens'' p_nat;
     written \<leftarrow> optional kvs ''cacheWriteTokens'' p_nat;
     reasoning \<leftarrow> optional kvs ''reasoningTokens'' p_nat;
     cost \<leftarrow> optional kvs ''costUsd'' (p_cost num);
     cumulative \<leftarrow> optional kvs ''cumulative'' p_flag;
     Some (Ev_usage \<lparr>ue_model = model, ue_input = inp, ue_output = out, ue_cached = cached,
       ue_cacheWrite = written, ue_reasoning = reasoning, ue_cost = cost, ue_cumulative = cumulative\<rparr>) }"

definition text_event :: "(string \<Rightarrow> runtime_event) \<Rightarrow> runtime_event parser" where
  "text_event c j = do {
     kvs \<leftarrow> strictObject [''type'', ''text''] j;
     t \<leftarrow> needed kvs ''text'' event_text;
     Some (c t) }"

definition input_of_json :: "runtime_event parser" where
  "input_of_json j = do {
     kvs \<leftarrow> strictObject [''type'', ''text'', ''source''] j;
     t \<leftarrow> needed kvs ''text'' event_text;
     src \<leftarrow> optional kvs ''source'' (p_enum [''user'', ''task'']);
     Some (Ev_input t (map_option (\<lambda>s. if s = ''user'' then From_user else From_task) src)) }"

definition call_of_json :: "runtime_event parser" where
  "call_of_json j = do {
     kvs \<leftarrow> strictObject [''type'', ''id'', ''name'', ''input''] j;
     i \<leftarrow> needed kvs ''id'' event_id;
     name \<leftarrow> needed kvs ''name'' (str_max 200);
     inp \<leftarrow> needed kvs ''input'' event_text;
     Some (Ev_tool_call i name inp) }"

definition result_of_json :: "runtime_event parser" where
  "result_of_json j = do {
     kvs \<leftarrow> strictObject [''type'', ''id'', ''output'', ''isError''] j;
     i \<leftarrow> needed kvs ''id'' event_id;
     out \<leftarrow> needed kvs ''output'' (str_max MAX_TOOL_OUTPUT);
     e \<leftarrow> needed kvs ''isError'' p_flag;
     Some (Ev_tool_result i out e) }"

definition error_of_json :: "runtime_event parser" where
  "error_of_json j = do {
     kvs \<leftarrow> strictObject [''type'', ''message'', ''fatal''] j;
     m \<leftarrow> needed kvs ''message'' event_text;
     f \<leftarrow> needed kvs ''fatal'' p_flag;
     Some (Ev_error m f) }"

definition session_of_json :: "runtime_event parser" where
  "session_of_json j = do {
     kvs \<leftarrow> strictObject [''type'', ''resumeId''] j;
     r \<leftarrow> needed kvs ''resumeId'' event_id;
     Some (Ev_session_started r) }"

definition json_type :: "json \<Rightarrow> string option" where
  "json_type j = (case j of JObj kvs \<Rightarrow> Option.bind (map_of kvs ''type'') p_string | _ \<Rightarrow> None)"

definition event_of_json :: "(string \<Rightarrow> rat) \<Rightarrow> runtime_event parser" where
  "event_of_json num j =
     (case json_type j of
        None \<Rightarrow> None
      | Some ty \<Rightarrow>
          if ty = ''input'' then input_of_json j
          else if ty = ''session.started'' then session_of_json j
          else if ty = ''text.delta'' then text_event Ev_text_delta j
          else if ty = ''message'' then text_event Ev_message j
          else if ty = ''progress'' then text_event Ev_progress j
          else if ty = ''tool.call'' then call_of_json j
          else if ty = ''tool.result'' then result_of_json j
          else if ty = ''usage'' then usage_of_json num j
          else if ty = ''error'' then error_of_json j
          else if ty = ''notice'' then text_event Ev_notice j
          else if ty = ''turn.completed''
               then map_option (\<lambda>_. Ev_turn_completed) (strictObject [''type''] j)
          else None)"

record tool_call =
  tc_id :: string
  tc_turn :: string
  tc_tool :: string
  tc_args :: json

datatype cell_message =
  Msg_ready string string
| Msg_event string runtime_event
| Msg_turn_end string bool
| Msg_tool_request tool_call

definition turnId :: "string \<Rightarrow> bool" where
  "turnId s \<longleftrightarrow> 1 \<le> length s \<and> length s \<le> 64 \<and> list_all is_slug_char s"

definition callId :: "string \<Rightarrow> bool" where
  "callId s \<longleftrightarrow> 1 \<le> length s \<and> length s \<le> 64 \<and>
     list_all (\<lambda>c. is_upper c \<or> is_slug_char c \<or> c = CHR ''_'') s"

definition toolName :: "string \<Rightarrow> bool" where
  "toolName s \<longleftrightarrow> 1 \<le> length s \<and> length s \<le> 64 \<and> is_lower (hd s) \<and>
     list_all (\<lambda>c. is_lower c \<or> is_digit c \<or> c = CHR ''_'' \<or> c = CHR ''.'') s"

definition cellMessageSchema :: "(string \<Rightarrow> rat) \<Rightarrow> cell_message parser" where
  "cellMessageSchema num j =
     (case json_type j of
        None \<Rightarrow> None
      | Some ty \<Rightarrow>
          if ty = ''ready'' then do {
            kvs \<leftarrow> strictObject [''type'', ''protocol'', ''runtime'', ''version''] j;
            _ \<leftarrow> needed kvs ''protocol'' (int_between 2 2);
            r \<leftarrow> needed kvs ''runtime'' (p_enum RUNTIMES);
            v \<leftarrow> needed kvs ''version'' (str_max 100);
            Some (Msg_ready r v) }
          else if ty = ''event'' then do {
            kvs \<leftarrow> strictObject [''type'', ''turn'', ''event''] j;
            t \<leftarrow> needed kvs ''turn'' (str_where turnId);
            ev \<leftarrow> needed kvs ''event'' (event_of_json num);
            Some (Msg_event t ev) }
          else if ty = ''turn.end'' then do {
            kvs \<leftarrow> strictObject [''type'', ''turn'', ''ok''] j;
            t \<leftarrow> needed kvs ''turn'' (str_where turnId);
            ok \<leftarrow> needed kvs ''ok'' p_flag;
            Some (Msg_turn_end t ok) }
          else if ty = ''tool.request'' then do {
            kvs \<leftarrow> strictObject [''type'', ''turn'', ''id'', ''tool'', ''args''] j;
            t \<leftarrow> needed kvs ''turn'' (str_where turnId);
            i \<leftarrow> needed kvs ''id'' (str_where callId);
            name \<leftarrow> needed kvs ''tool'' (str_where toolName);
            args \<leftarrow> needed kvs ''args'' (\<lambda>v. if is_object v then Some v else None);
            Some (Msg_tool_request \<lparr>tc_id = i, tc_turn = t, tc_tool = name, tc_args = args\<rparr>) }
          else None)"

section \<open>The session\<close>

datatype command =
  Cmd_run string string "string option"
| Cmd_cancel string
| Cmd_tool_response string bool "json option" "string option"

datatype ready_state = Starting | Ready string | Not_ready string

text \<open>A turn: its events not yet taken, and how it ended (\<open>ok\<close>, and a reason when it failed).\<close>

record cell_turn =
  ct_turn :: string
  ct_queue :: "runtime_event list"
  ct_done :: "(bool \<times> string option) option"

record session =
  cl_decoder :: decoder
  cl_current :: "cell_turn option"
  cl_turnBytes :: nat
  cl_toolCalls :: nat
  cl_handler :: bool
  cl_ready :: ready_state
  cl_closed :: bool
  cl_exitReason :: string
  cl_killed :: bool
  cl_sent :: "command list"
  cl_calls :: "tool_call list"

definition new_session :: "bool \<Rightarrow> session" where
  "new_session handler =
     \<lparr>cl_decoder = new_decoder, cl_current = None, cl_turnBytes = 0, cl_toolCalls = 0,
      cl_handler = handler, cl_ready = Starting, cl_closed = False, cl_exitReason = [],
      cl_killed = False, cl_sent = [], cl_calls = []\<rparr>"

definition turn_push :: "runtime_event \<Rightarrow> session \<Rightarrow> session" where
  "turn_push ev s =
     s\<lparr>cl_current := map_option (\<lambda>t. t\<lparr>ct_queue := ct_queue t @ [ev]\<rparr>) (cl_current s)\<rparr>"

definition turn_end :: "bool \<Rightarrow> string option \<Rightarrow> session \<Rightarrow> session" where
  "turn_end ok reason s =
     s\<lparr>cl_current := map_option (\<lambda>t. t\<lparr>ct_done := Some (ok, reason)\<rparr>) (cl_current s)\<rparr>"

definition settle_ready :: "ready_state \<Rightarrow> session \<Rightarrow> session" where
  "settle_ready r s = s\<lparr>cl_ready := (if cl_ready s = Starting then r else cl_ready s)\<rparr>"

definition send :: "command \<Rightarrow> session \<Rightarrow> session" where
  "send c s = (if cl_closed s then s else s\<lparr>cl_sent := cl_sent s @ [c]\<rparr>)"

definition fail :: "string \<Rightarrow> session \<Rightarrow> session" where
  "fail reason s =
     (if cl_closed s then s
      else (turn_end False (Some reason) (settle_ready (Not_ready reason) (s\<lparr>cl_exitReason := reason\<rparr>)))
             \<lparr>cl_killed := True\<rparr>)"

text \<open>A tool call: counted, then handed to the hub when one answers calls.\<close>

definition onTool :: "tool_call \<Rightarrow> session \<Rightarrow> session" where
  "onTool m s =
     (let s1 = s\<lparr>cl_toolCalls := cl_toolCalls s + 1\<rparr>
      in if cl_toolCalls s1 > TURN_MAX_TOOL_CALLS
         then send (Cmd_tool_response (tc_id m) False None
                (Some ''more than 200 Anchi tool calls in one turn'')) s1
         else if \<not> cl_handler s1
         then send (Cmd_tool_response (tc_id m) False None (Some ''no Anchi tools in this cell'')) s1
         else s1\<lparr>cl_calls := cl_calls s1 @ [m]\<rparr>)"

text \<open>The hub's answer to a call.\<close>

definition tool_answer :: "string \<Rightarrow> json result \<Rightarrow> session \<Rightarrow> session" where
  "tool_answer i r s =
     (case r of
        Inr v \<Rightarrow> send (Cmd_tool_response i True (Some v) None) s
      | Inl e \<Rightarrow> send (Cmd_tool_response i False None (Some (take 2000 (message e)))) s)"

text \<open>The error the guest manager prints before the runner starts; \<open>hint\<close> says what to do about it.\<close>

definition start_error :: "json \<Rightarrow> string option" where
  "start_error v =
     (case v of
        JObj kvs \<Rightarrow>
          (case (map_of kvs ''error'', map_of kvs ''type'') of
             (Some e, None) \<Rightarrow> Some (case e of JStr t \<Rightarrow> t | _ \<Rightarrow> json_text e)
           | _ \<Rightarrow> None)
      | _ \<Rightarrow> None)"

definition start_failure :: "(string \<Rightarrow> string option) \<Rightarrow> string \<Rightarrow> string" where
  "start_failure hint code =
     ''cell start failed: '' @ code @
     (case hint (hd (split_on (CHR '':'') code)) of None \<Rightarrow> [] | Some h \<Rightarrow> '' - '' @ h)"

definition onFrame :: "(string \<Rightarrow> rat) \<Rightarrow> (string \<Rightarrow> string option) \<Rightarrow> json \<Rightarrow> session \<Rightarrow> session" where
  "onFrame num hint v s =
     (case (if cl_closed s then None else start_error v) of
        Some code \<Rightarrow> fail (start_failure hint code) s
      | None \<Rightarrow>
          (case cellMessageSchema num v of
             None \<Rightarrow> fail ''runner sent an invalid message'' s
           | Some (Msg_ready r version) \<Rightarrow> settle_ready (Ready version) s
           | Some m \<Rightarrow>
               (let t = (case m of Msg_event t _ \<Rightarrow> t | Msg_turn_end t _ \<Rightarrow> t | Msg_tool_request c \<Rightarrow> tc_turn c
                                 | Msg_ready _ _ \<Rightarrow> [])
                in if map_option ct_turn (cl_current s) \<noteq> Some t
                   then fail ''runner sent a message for a turn that is not running'' s
                   else (case m of
                       Msg_event _ ev \<Rightarrow> turn_push ev s
                     | Msg_turn_end _ ok \<Rightarrow> turn_end ok None s
                     | Msg_tool_request c \<Rightarrow> onTool c s
                     | Msg_ready _ _ \<Rightarrow> s))))"

fun on_callback :: "(string \<Rightarrow> rat) \<Rightarrow> (string \<Rightarrow> string option) \<Rightarrow> json callback \<Rightarrow> session \<Rightarrow> session" where
  "on_callback num hint (Frame v) s = onFrame num hint v s"
| "on_callback num hint (Failure m) s = fail (''runner protocol error: '' @ m) s"

text \<open>A chunk of the runner's output.\<close>

definition on_data ::
  "(bytes \<Rightarrow> json option) \<Rightarrow> (string \<Rightarrow> rat) \<Rightarrow> (string \<Rightarrow> string option) \<Rightarrow> bytes \<Rightarrow> session \<Rightarrow> session" where
  "on_data parse num hint chunk s =
     (let s1 = s\<lparr>cl_turnBytes := cl_turnBytes s + length chunk\<rparr>
      in if cl_current s1 \<noteq> None \<and> cl_turnBytes s1 > TURN_MAX_BYTES
         then fail ''runner exceeded the per-turn output limit'' s1
         else (case push parse (\<lambda>_. None) CELL_MAX_FRAME_BYTES chunk (cl_decoder s1) of
             (cbs, d) \<Rightarrow> fold (on_callback num hint) cbs (s1\<lparr>cl_decoder := d\<rparr>)))"

section \<open>Turns\<close>

text \<open>\<open>run\<close> once the runner is ready, the next event it yields, and its end.\<close>

definition run_turn :: "string \<Rightarrow> string \<Rightarrow> string option \<Rightarrow> (session, unit) op" where
  "run_turn turn input resumeId =
     andthen (gets cl_current) (\<lambda>cur.
     andthen (require (cur = None) ''a turn is already running in this cell'') (\<lambda>_.
     andthen (gets cl_closed) (\<lambda>closed.
     andthen (gets cl_exitReason) (\<lambda>why.
     andthen (require (\<not> closed) (''cell is closed: '' @ why)) (\<lambda>_.
     modify (\<lambda>s. send (Cmd_run turn input resumeId)
       (s\<lparr>cl_turnBytes := 0, cl_toolCalls := 0,
          cl_current := Some \<lparr>ct_turn = turn, ct_queue = [], ct_done = None\<rparr>\<rparr>)))))))"

definition next_event :: "session \<Rightarrow> (runtime_event \<times> session) option" where
  "next_event s =
     (case cl_current s of
        Some t \<Rightarrow> (case ct_queue t of
            e # es \<Rightarrow> Some (e, s\<lparr>cl_current := Some (t\<lparr>ct_queue := es\<rparr>)\<rparr>) | [] \<Rightarrow> None)
      | None \<Rightarrow> None)"

text \<open>The turn is over when its events are taken and it ended; \<open>Inl\<close> is the error \<open>run\<close> throws.\<close>

definition turn_over :: "session \<Rightarrow> (unit result \<times> session) option" where
  "turn_over s =
     (case cl_current s of
        Some t \<Rightarrow>
          (case (ct_queue t, ct_done t) of
             ([], Some (ok, reason)) \<Rightarrow>
               Some (case reason of
                   Some r \<Rightarrow> if r = [] then Inr () else Inl (Error r)
                 | None \<Rightarrow> Inr (), s\<lparr>cl_current := None\<rparr>)
           | _ \<Rightarrow> None)
      | None \<Rightarrow> None)"

definition cancel_turn :: "string \<Rightarrow> session \<Rightarrow> session" where
  "cancel_turn turn s = send (Cmd_cancel turn) s"

definition turn_timer :: "string \<Rightarrow> session \<Rightarrow> session" where
  "turn_timer turn s = turn_end False (Some ''turn timed out'') (cancel_turn turn s)"

definition close_session :: "string \<Rightarrow> session \<Rightarrow> session" where
  "close_session reason s = (if cl_closed s then s else s\<lparr>cl_exitReason := reason\<rparr>)"

text \<open>The runner exited; \<open>what\<close> is the exit code and the last lines of its error output.\<close>

definition onExit :: "string \<Rightarrow> session \<Rightarrow> session" where
  "onExit what s =
     (if cl_closed s then s
      else (let reason = (if cl_exitReason s = [] then ''cell exited ('' @ what @ '')'' else cl_exitReason s)
            in turn_end False (Some reason)
                 (settle_ready (Not_ready reason) (s\<lparr>cl_closed := True, cl_exitReason := reason\<rparr>))))"

end
