(* ===== verification/ConnectionFacts.thy ===== *)
theory ConnectionFacts
  imports Rpc Cell "HOL-Library.Multiset"
begin

text \<open>
  Facts about the two connections of the daemon: a client's or server's RPC connection settles every
  request once, and the session with an untrusted runner bounds what a turn may do.
\<close>

section \<open>Requests of an RPC connection\<close>

text \<open>
  \<open>sends\<close> says which values the other end may send.  An answer is broken when its error cannot be made
  into an \<open>Error\<close>.
\<close>

inductive rpc_step :: "(json \<Rightarrow> bool) \<Rightarrow> rpc_peer \<Rightarrow> rpc_peer \<Rightarrow> bool" for sends where
  rpc_receives: "(\<And>s v. parse s = Some v \<Longrightarrow> sends v) \<Longrightarrow> rpc_step sends p (rpc_data parse maxBytes chunk p)"
| rpc_requests: "rpc_step sends p (snd (rpc_request method ps p))"
| rpc_notifies: "rpc_step sends p (rpc_notify method ps p)"
| rpc_answers: "rpc_step sends p (handled i r p)"
| rpc_closes: "rpc_step sends p (on_socket_close p)"

inductive rpc_reachable :: "(json \<Rightarrow> bool) \<Rightarrow> rpc_peer \<Rightarrow> bool" for sends where
  rpc_new: "rpc_reachable sends new_peer"
| rpc_next: "rpc_reachable sends p \<Longrightarrow> rpc_step sends p p' \<Longrightarrow> rpc_reachable sends p'"

definition broken_answer :: "json \<Rightarrow> bool" where
  "broken_answer v =
     (case v of
        JObj kvs \<Rightarrow> (case map_of kvs ''error'' of Some e \<Rightarrow> error_message e = None | None \<Rightarrow> False)
      | _ \<Rightarrow> False)"

definition requests_ok :: "rpc_peer \<Rightarrow> bool" where
  "requests_ok p \<longleftrightarrow> 1 \<le> rp_nextId p \<and>
     mset (rp_pending p) + mset (map fst (rp_settled p)) + mset (rp_lost p) = mset [1..<rp_nextId p] \<and>
     (rp_closed p \<longrightarrow> rp_pending p = [])"

lemma requests_ok_distinct:
  "requests_ok p \<Longrightarrow> distinct (rp_pending p @ map fst (rp_settled p) @ rp_lost p)"
  by (metis distinct_upt mset_append mset_eq_imp_distinct_iff requests_ok_def add.assoc)

lemma requests_ok_emit [simp]: "requests_ok (rp_emit x p) = requests_ok p"
  by (simp add: requests_ok_def rp_emit_def)

lemma requests_ok_send [simp]: "requests_ok (rpc_send f p) = requests_ok p"
  by (simp add: rpc_send_def)

lemma pending_taken:
  assumes "requests_ok p" "i \<in> set (rp_pending p)"
  shows "mset (rp_pending p) = add_mset i (mset (removeAll i (rp_pending p)))"
proof -
  have "distinct (rp_pending p)" using requests_ok_distinct [OF assms(1)] by simp
  then show ?thesis using assms(2) by (simp add: distinct_remove1_removeAll [symmetric])
qed

lemma requests_ok_taken:
  assumes "requests_ok p"
  shows "requests_ok (settle i r p)" and "requests_ok (lose i p)"
proof -
  have "requests_ok (settle i r p) \<and> requests_ok (lose i p)"
  proof (cases "i \<in> set (rp_pending p)")
    case True
    then show ?thesis
      using pending_taken [OF assms True] assms by (simp add: requests_ok_def settle_def lose_def)
  qed (use assms in \<open>simp add: settle_def lose_def\<close>)
  then show "requests_ok (settle i r p)" "requests_ok (lose i p)" by simp_all
qed

text \<open>What a frame does to the requests: it answers one, loses one, or leaves them.\<close>

lemma onFrame_cases:
  obtains x where "rpc_onFrame v p = rp_emit x p" | "rpc_onFrame v p = p"
  | n r where "rpc_onFrame v p = settle n r p" | n where "broken_answer v" "rpc_onFrame v p = lose n p"
proof -
  define kvs where "kvs = (case v of JObj o1 \<Rightarrow> o1 | _ \<Rightarrow> [])"
  note frame = rpc_onFrame_def Let_def kvs_def [symmetric]
  show ?thesis
  proof (cases "map_of kvs ''id''")
    case None
    then show ?thesis using that(1, 2) by (cases "map_of kvs ''method''") (simp_all add: frame)
  next
    case (Some i)
    note i = this
    show ?thesis
    proof (cases "map_of kvs ''method''")
      case (Some m)
      then show ?thesis using i that(1) by (simp add: frame)
    next
      case None
      note answer = i None
      show ?thesis
      proof (cases "id_of i")
        case None
        then show ?thesis using answer that(2) by (simp add: frame)
      next
        case (Some n)
        show ?thesis
        proof (cases "map_of kvs ''error''")
          case None
          then show ?thesis using answer Some that(3) by (simp add: frame)
        next
          case (Some e)
          then have "broken_answer v" if "error_message e = None"
            using that by (cases v) (auto simp: broken_answer_def kvs_def)
          then show ?thesis using answer \<open>id_of i = Some n\<close> Some that(3, 4)
            by (cases "error_message e") (simp_all add: frame)
        qed
      qed
    qed
  qed
qed

lemma requests_ok_onFrame: "requests_ok p \<Longrightarrow> requests_ok (rpc_onFrame v p)"
  by (rule onFrame_cases [of v p]) (simp_all add: requests_ok_taken)

lemma lost_emit [simp]: "rp_lost (rp_emit x p) = rp_lost p"
  by (simp add: rp_emit_def)

lemma lost_send [simp]: "rp_lost (rpc_send f p) = rp_lost p"
  by (simp add: rpc_send_def)

lemma lost_onFrame: "\<not> broken_answer v \<Longrightarrow> rp_lost (rpc_onFrame v p) = rp_lost p"
  by (rule onFrame_cases [of v p]) (simp_all add: settle_def)

lemma requests_ok_callback: "requests_ok p \<Longrightarrow> requests_ok (rpc_callback c p)"
  by (cases c) (simp_all add: requests_ok_onFrame)

lemma fold_keeps: "(\<And>x s. P s \<Longrightarrow> P (f x s)) \<Longrightarrow> P s \<Longrightarrow> P (fold f xs s)"
  by (induction xs arbitrary: s) auto

lemma requests_ok_data: "requests_ok p \<Longrightarrow> requests_ok (rpc_data parse maxBytes chunk p)"
  unfolding rpc_data_def prod.case_eq_if
  by (rule fold_keeps [of requests_ok], erule requests_ok_callback) (simp add: requests_ok_def)

lemma push_loop_frames:
  "Frame v \<in> set (fst (push_loop parse reject maxBytes buf d)) \<Longrightarrow> \<exists>s. parse s = Some v"
proof (induction "length buf" arbitrary: buf d rule: less_induct)
  case less
  let ?line = "takeWhile (\<lambda>b. b \<noteq> newline) buf"
  let ?rest = "dropWhile (\<lambda>b. b \<noteq> newline) buf"
  have IH: "\<exists>s. parse s = Some v"
    if "Frame v \<in> set (fst (push_loop parse reject maxBytes (tl ?rest) e))" "?rest \<noteq> []" for e
  proof -
    have "length (tl ?rest) < length buf"
      using that(2) length_dropWhile_le [of "\<lambda>b. b \<noteq> newline" buf] by (cases ?rest) auto
    then show ?thesis by (rule less.hyps) (rule that(1))
  qed
  have failing: "Frame v \<notin> set (fst (decoder_fail m e))" for m and e
    by (simp add: decoder_fail_def)
  let ?text = "concat (parts d @ [?line])"
  show ?case
  proof (cases "parse ?text")
    case None
    then show ?thesis
      using less.prems IH failing unfolding push_loop.simps [of parse reject maxBytes buf d]
      by (simp add: Let_def split: if_splits)
  next
    case (Some u)
    then show ?thesis
      using less.prems IH failing unfolding push_loop.simps [of parse reject maxBytes buf d]
      by (simp add: Let_def prod.case_eq_if split: if_splits option.splits) blast+
  qed
qed

lemma push_frames: "Frame v \<in> set (fst (push parse reject maxBytes chunk d)) \<Longrightarrow> \<exists>s. parse s = Some v"
  by (auto simp: push_def dest: push_loop_frames split: if_splits)

lemma lost_data:
  assumes "\<And>s v. parse s = Some v \<Longrightarrow> \<not> broken_answer v"
  shows "rp_lost (rpc_data parse maxBytes chunk p) = rp_lost p"
proof -
  have kept: "rp_lost (fold rpc_callback cbs q) = rp_lost q"
    if "\<forall>v. Frame v \<in> set cbs \<longrightarrow> \<not> broken_answer v" for cbs q
    using that
  proof (induction cbs arbitrary: q)
    case (Cons c cbs)
    then have "rp_lost (rpc_callback c q) = rp_lost q" by (cases c) (simp_all add: lost_onFrame)
    then show ?case using Cons by simp
  qed simp
  have "\<forall>v. Frame v \<in> set (fst (push parse rpc_reject maxBytes chunk (rp_decoder p))) \<longrightarrow> \<not> broken_answer v"
  proof (intro allI impI)
    fix v
    assume "Frame v \<in> set (fst (push parse rpc_reject maxBytes chunk (rp_decoder p)))"
    then obtain s where "parse s = Some v" using push_frames by metis
    then show "\<not> broken_answer v" by (rule assms)
  qed
  from kept [OF this, of "p\<lparr>rp_decoder := snd (push parse rpc_reject maxBytes chunk (rp_decoder p))\<rparr>"]
  show ?thesis unfolding rpc_data_def prod.case_eq_if by (rule trans) simp
qed

lemma requests_ok_close: "requests_ok p \<Longrightarrow> requests_ok (on_socket_close p)"
  by (simp add: on_socket_close_def) (simp add: requests_ok_def comp_def ac_simps)

lemma requests_ok_request: "requests_ok p \<Longrightarrow> requests_ok (snd (rpc_request method ps p))"
  by (auto simp: rpc_request_def Let_def) (auto simp: requests_ok_def)

lemma rpc_step_ok: "rpc_step sends p p' \<Longrightarrow> requests_ok p \<Longrightarrow> requests_ok p'"
  by (induction rule: rpc_step.induct)
    (auto intro: requests_ok_data requests_ok_request requests_ok_close simp: rpc_notify_def handled_def split: sum.split)

lemma rpc_reachable_ok: "rpc_reachable sends p \<Longrightarrow> requests_ok p"
  by (induction rule: rpc_reachable.induct) (blast intro: rpc_step_ok | simp add: requests_ok_def new_peer_def)+

lemma rpc_step_lost:
  assumes "rpc_step sends p p'" "\<forall>v. sends v \<longrightarrow> \<not> broken_answer v"
  shows "rp_lost p' = rp_lost p"
  using assms
proof (induction rule: rpc_step.induct)
  case (rpc_receives parse p maxBytes chunk)
  then show ?case by (intro lost_data) blast
qed (auto simp: rpc_request_def rpc_notify_def handled_def on_socket_close_def Let_def split: sum.split)

lemma rpc_reachable_lost:
  "rpc_reachable sends p \<Longrightarrow> \<forall>v. sends v \<longrightarrow> \<not> broken_answer v \<Longrightarrow> rp_lost p = []"
  by (induction rule: rpc_reachable.induct) (auto simp: rpc_step_lost, simp add: new_peer_def)

text \<open>
  C10 (rpc_requests_settle_once). On a connection, whatever the other end sends and in whatever order
  requests, answers and the close come, every request issued is still waiting, or has been answered, or
  was lost to a broken answer, and only one of these, once; after the close none waits.  No request is
  lost when the other end sends no broken answer: then after the close every request has its answer.
\<close>

theorem rpc_requests_settle_once:
  assumes "rpc_reachable sends p"
  shows "mset (rp_pending p) + mset (map fst (rp_settled p)) + mset (rp_lost p) = mset [1..<rp_nextId p] \<and>
    distinct (map fst (rp_settled p)) \<and>
    (rp_closed p \<longrightarrow> set (map fst (rp_settled p)) \<union> set (rp_lost p) = {1..<rp_nextId p}) \<and>
    ((\<forall>v. sends v \<longrightarrow> \<not> broken_answer v) \<longrightarrow> rp_lost p = [])"
proof (intro conjI impI)
  have p: "requests_ok p" by (rule rpc_reachable_ok [OF assms])
  then show eq: "mset (rp_pending p) + mset (map fst (rp_settled p)) + mset (rp_lost p) =
      mset [1..<rp_nextId p]"
    by (simp add: requests_ok_def)
  show "distinct (map fst (rp_settled p))" using requests_ok_distinct [OF p] by simp
  show "set (map fst (rp_settled p)) \<union> set (rp_lost p) = {1..<rp_nextId p}" if "rp_closed p"
  proof -
    have "mset (map fst (rp_settled p) @ rp_lost p) = mset [1..<rp_nextId p]"
      using that p eq by (simp add: requests_ok_def)
    then show ?thesis by (metis set_append set_mset_mset set_upt)
  qed
  show "rp_lost p = []" if "\<forall>v. sends v \<longrightarrow> \<not> broken_answer v"
    using rpc_reachable_lost [OF assms that] .
qed

text \<open>A request whose answer has the error \<^verbatim>\<open>null\<close> is lost; one that the close finds waiting is answered.\<close>

definition null_answer :: json where
  "null_answer = JObj [(''id'', JInt 1), (''error'', JNull)]"

definition null_parse :: "bytes \<Rightarrow> json option" where
  "null_parse s = (if s = ''0'' then Some null_answer else None)"

definition lossy_peer :: rpc_peer where
  "lossy_peer = on_socket_close (rpc_data null_parse 8 (''0'' @ [newline])
     (snd (rpc_request ''tasks.list'' JNull (snd (rpc_request ''agents.list'' JNull new_peer)))))"

lemma null_answer_loses: "rp_lost lossy_peer = [1] \<and> map fst (rp_settled lossy_peer) = [2] \<and> rp_closed lossy_peer"
  by code_simp

lemma rpc_requests_settle_once_witness:
  "mset (rp_pending lossy_peer) + mset (map fst (rp_settled lossy_peer)) + mset (rp_lost lossy_peer) =
    mset [1..<rp_nextId lossy_peer] \<and>
   rp_lost (on_socket_close (snd (rpc_request ''tasks.list'' JNull new_peer))) = []"
proof -
  have "rpc_reachable (\<lambda>v. v = null_answer) lossy_peer"
    unfolding lossy_peer_def
    by (intro rpc_next [OF rpc_next [OF rpc_next [OF rpc_next [OF rpc_new rpc_requests] rpc_requests]
        rpc_receives] rpc_closes])
      (simp add: null_parse_def split: if_splits)
  moreover have "rpc_reachable (\<lambda>_. False) (on_socket_close (snd (rpc_request ''tasks.list'' JNull new_peer)))"
    by (intro rpc_next [OF rpc_next [OF rpc_new rpc_requests] rpc_closes])
  ultimately show ?thesis using rpc_requests_settle_once by blast
qed

section \<open>A turn of an untrusted runner\<close>

text \<open>What happens to a session between two turns it is asked to run.\<close>

inductive session_step :: "session \<Rightarrow> session \<Rightarrow> bool" where
  output_arrives: "session_step s (on_data parse num hint chunk s)"
| call_answered: "session_step s (tool_answer i r s)"
| event_taken: "next_event s = Some (e, s') \<Longrightarrow> session_step s s'"
| turn_ends: "turn_over s = Some (r, s') \<Longrightarrow> session_step s s'"
| turn_cancelled: "session_step s (cancel_turn turn s)"
| turn_too_long: "session_step s (turn_timer turn s)"
| session_closes: "session_step s (close_session why s)"
| runner_exits: "session_step s (onExit what s)"

text \<open>
  The calls handed to the hub since \<open>base\<close>: as many as were counted, all of them of the turn \<open>t\<close>, and
  the turn under way is \<open>t\<close>.
\<close>

definition calls_since :: "tool_call list \<Rightarrow> string \<Rightarrow> session \<Rightarrow> bool" where
  "calls_since base t s \<longleftrightarrow>
     (\<exists>ms. cl_calls s = base @ ms \<and> length ms \<le> min (cl_toolCalls s) TURN_MAX_TOOL_CALLS \<and>
        (\<forall>m \<in> set ms. tc_turn m = t)) \<and>
     (case cl_current s of None \<Rightarrow> True | Some c \<Rightarrow> ct_turn c = t)"

lemma calls_since_frame:
  "cl_calls s' = cl_calls s \<Longrightarrow> cl_toolCalls s' = cl_toolCalls s \<Longrightarrow>
   map_option ct_turn (cl_current s') = map_option ct_turn (cl_current s) \<or> cl_current s' = None \<Longrightarrow>
   calls_since base t s \<Longrightarrow> calls_since base t s'"
  by (auto simp: calls_since_def split: option.splits)

lemma session_frames [simp]:
  "cl_calls (turn_push e s) = cl_calls s" "cl_calls (turn_end ok r s) = cl_calls s"
  "cl_calls (settle_ready x s) = cl_calls s" "cl_calls (send c s) = cl_calls s" "cl_calls (fail m s) = cl_calls s"
  "cl_toolCalls (turn_push e s) = cl_toolCalls s" "cl_toolCalls (turn_end ok r s) = cl_toolCalls s"
  "cl_toolCalls (settle_ready x s) = cl_toolCalls s" "cl_toolCalls (send c s) = cl_toolCalls s"
  "cl_toolCalls (fail m s) = cl_toolCalls s"
  by (simp_all add: turn_push_def turn_end_def settle_ready_def send_def fail_def)

lemma session_current [simp]:
  "map_option ct_turn (cl_current (turn_push e s)) = map_option ct_turn (cl_current s)"
  "map_option ct_turn (cl_current (turn_end ok r s)) = map_option ct_turn (cl_current s)"
  "cl_current (settle_ready x s) = cl_current s" "cl_current (send c s) = cl_current s"
  "map_option ct_turn (cl_current (fail m s)) = map_option ct_turn (cl_current s)"
  by (simp_all add: turn_push_def turn_end_def settle_ready_def send_def fail_def option.map_comp comp_def)

lemma calls_since_parts [intro]:
  assumes "calls_since base t s"
  shows "calls_since base t (fail m s)" "calls_since base t (turn_push e s)" "calls_since base t (turn_end ok r s)"
    "calls_since base t (settle_ready x s)" "calls_since base t (send c s)"
  by (rule calls_since_frame [OF _ _ _ assms]; simp)+

lemma calls_since_onTool:
  assumes "calls_since base t s" and "tc_turn m = t"
  shows "calls_since base t (onTool m s)"
  using assms
  by (auto simp: onTool_def Let_def send_def calls_since_def split: option.splits)

lemma calls_since_onFrame:
  assumes "calls_since base t s"
  shows "calls_since base t (onFrame num hint v s)"
proof -
  have turn: "tc_turn m = t" if "map_option ct_turn (cl_current s) = Some (tc_turn m)" for m
    using that assms by (auto simp: calls_since_def)
  show ?thesis
    unfolding onFrame_def Let_def
    by (auto split: option.split cell_message.split intro: calls_since_onTool assms turn)
qed

lemma calls_since_callback: "calls_since base t s \<Longrightarrow> calls_since base t (on_callback num hint c s)"
  by (cases c) (auto intro: calls_since_onFrame)

lemma calls_since_data:
  assumes "calls_since base t s"
  shows "calls_since base t (on_data parse num hint chunk s)"
proof -
  have same: "calls_since base t (s\<lparr>cl_turnBytes := n\<rparr>)" "calls_since base t (s\<lparr>cl_turnBytes := n, cl_decoder := d\<rparr>)" for n d
    by (rule calls_since_frame [OF _ _ _ assms]; simp)+
  show ?thesis
    unfolding on_data_def Let_def prod.case_eq_if
    by (auto intro!: calls_since_parts same fold_keeps [of "calls_since base t"] calls_since_callback)
qed

lemma session_step_calls: "session_step s s' \<Longrightarrow> calls_since base t s \<Longrightarrow> calls_since base t s'"
proof (induction rule: session_step.induct)
  case (event_taken s e s')
  then show ?case
    by (auto simp: next_event_def calls_since_def split: option.splits list.splits)
next
  case (turn_ends s r s')
  then show ?case
    by (auto simp: turn_over_def calls_since_def split: option.splits list.splits)
next
  case (session_closes s why)
  then show ?case by (auto simp: close_session_def calls_since_def)
next
  case (runner_exits s what)
  have "calls_since base t (s\<lparr>cl_closed := True, cl_exitReason := x\<rparr>)" "calls_since base t (s\<lparr>cl_closed := True\<rparr>)" for x
    using runner_exits by (simp_all add: calls_since_def)
  then show ?case using runner_exits by (auto simp: onExit_def Let_def)
qed (auto intro: calls_since_data simp: tool_answer_def cancel_turn_def turn_timer_def split: sum.split)

text \<open>
  C9 (turn_calls_bounded). Once a session has been asked to run a turn, whatever the runner sends,
  however its output is cut and whatever else happens before the next turn is asked for, at most 200
  tool calls are handed to the hub, every one of them names that turn, and earlier calls are as they
  were.
\<close>

theorem turn_calls_bounded:
  assumes "run_turn turn input resume s = (Inr (), s0)" and "session_step\<^sup>*\<^sup>* s0 s'"
  shows "\<exists>ms. cl_calls s' = cl_calls s @ ms \<and> length ms \<le> 200 \<and> (\<forall>m \<in> set ms. tc_turn m = turn)"
proof -
  have "calls_since (cl_calls s) turn s0"
    using assms(1) by (auto simp: run_turn_def op_defs send_def calls_since_def split: if_splits)
  with assms(2) have "calls_since (cl_calls s) turn s'"
    by (induction rule: rtranclp_induct) (auto intro: session_step_calls)
  then show ?thesis by (auto simp: calls_since_def TURN_MAX_TOOL_CALLS_def)
qed

definition demo_call :: "string \<Rightarrow> json" where
  "demo_call turn = JObj [(''type'', JStr ''tool.request''), (''turn'', JStr turn), (''id'', JStr ''c1''),
     (''tool'', JStr ''anchi_whoami''), (''args'', JObj [])]"

lemma demo_turn: "fst (run_turn ''turn-1'' ''hello'' None (new_session True)) = Inr ()"
  by (simp add: run_turn_def op_defs new_session_def)

lemma turn_calls_bounded_witness:
  "length (cl_calls (on_data (\<lambda>_. Some (demo_call ''turn-1'')) (\<lambda>_. 0) (\<lambda>_. None) [CHR ''x'', newline]
     (snd (run_turn ''turn-1'' ''hello'' None (new_session True))))) \<le> 200"
proof -
  let ?s = "new_session True"
  let ?run = "snd (run_turn ''turn-1'' ''hello'' None ?s)"
  let ?s' = "on_data (\<lambda>_. Some (demo_call ''turn-1'')) (\<lambda>_. 0) (\<lambda>_. None) [CHR ''x'', newline] ?run"
  have run: "run_turn ''turn-1'' ''hello'' None ?s = (Inr (), ?run)" by (simp add: prod_eq_iff demo_turn)
  have "session_step\<^sup>*\<^sup>* ?run ?s'"
    by (rule r_into_rtranclp) (rule output_arrives)
  then obtain ms where "cl_calls ?s' = cl_calls ?s @ ms" and "length ms \<le> 200"
    using turn_calls_bounded [OF run] by blast
  moreover have "cl_calls ?s = []" by (simp add: new_session_def)
  ultimately show ?thesis by simp
qed

definition end_message :: "string \<Rightarrow> json" where
  "end_message turn = JObj [(''type'', JStr ''turn.end''), (''turn'', JStr turn), (''ok'', JBool True)]"

lemma end_message_parses:
  "turnId turn \<Longrightarrow> cellMessageSchema num (end_message turn) = Some (Msg_turn_end turn True)"
  by (simp add: end_message_def cellMessageSchema_def json_type_def needed_def str_where_def)

text \<open>
  C14 (failed_turn_reported_done). A runner that breaks the protocol fails the session, but a frame that
  follows in the same chunk is still taken: when it ends the turn, the turn returns as if nothing had
  happened, although the session was killed for the violation.
\<close>

theorem failed_turn_reported_done:
  assumes "cl_current s = Some \<lparr>ct_turn = turn, ct_queue = [], ct_done = None\<rparr>" and "\<not> cl_closed s"
    and "turnId turn"
  shows "let s' = fold (on_callback num hint) [Frame (JStr ''junk''), Frame (end_message turn)] s
    in cl_killed s' \<and> cl_exitReason s' = ''runner sent an invalid message'' \<and>
       map_option fst (turn_over s') = Some (Inr ())"
proof -
  let ?s1 = "fail ''runner sent an invalid message'' s"
  have first: "onFrame num hint (JStr ''junk'') s = ?s1"
    by (simp add: onFrame_def start_error_def cellMessageSchema_def json_type_def)
  have "start_error (end_message turn) = None" by (simp add: end_message_def start_error_def)
  then have "onFrame num hint (end_message turn) ?s1 = turn_end True None ?s1"
    using assms(1,2)
    by (simp add: onFrame_def end_message_parses [OF assms(3)] fail_def turn_end_def settle_ready_def)
  then show ?thesis
    using assms(1,2) first by (simp add: Let_def turn_over_def fail_def turn_end_def settle_ready_def)
qed

lemma failed_turn_reported_done_witness:
  "map_option fst (turn_over (fold (on_callback (\<lambda>_. 0) (\<lambda>_. None)) [Frame (JStr ''junk''), Frame (end_message ''turn-1'')]
     (snd (run_turn ''turn-1'' ''hello'' None (new_session True))))) = Some (Inr ())"
proof -
  let ?run = "snd (run_turn ''turn-1'' ''hello'' None (new_session True))"
  have "cl_current ?run = Some \<lparr>ct_turn = ''turn-1'', ct_queue = [], ct_done = None\<rparr>" and "\<not> cl_closed ?run"
    by (simp_all add: run_turn_def op_defs new_session_def send_def)
  moreover have "turnId ''turn-1''" by code_simp
  ultimately show ?thesis using failed_turn_reported_done unfolding Let_def by blast
qed

end
