(* ===== verification/Approvals.thy ===== *)
theory Approvals
  imports Schema
begin

text \<open>
  \<^verbatim>\<open>packages/daemon/src/approvals.ts\<close>: the queue of writes that wait for the user, as the egress
  proxy streams it, and the writes the policy service holds.  Frames of the stream and answers of the
  VM are arguments; \<open>num\<close> is the value of a number's text and \<open>now\<close> the clock.
\<close>

datatype watch_event =
  W_changed "approval list"
| W_added approval
| W_resolved approval bool
| W_credential string string string string string
| W_notice string string

record policy_entry =
  po_approval :: approval
  po_digest :: string

record watcher =
  w_pending :: "(string, approval) jsmap"
  w_policy :: "(string, policy_entry) jsmap"
  w_decided :: "string list"
  w_retry :: nat
  w_stopped :: bool
  w_events :: "watch_event list"

definition RETRY_MIN_MS :: nat where "RETRY_MIN_MS = 2000"
definition RETRY_MAX_MS :: nat where "RETRY_MAX_MS = 60000"

definition approvalId :: "string \<Rightarrow> bool" where
  "approvalId s \<longleftrightarrow> length s = 16 \<and> list_all is_hex s"

definition w_emit :: "watch_event \<Rightarrow> (watcher, unit) op" where
  "w_emit e = modify (\<lambda>w. w\<lparr>w_events := w_events w @ [e]\<rparr>)"

definition list_approvals :: "watcher \<Rightarrow> approval list" where
  "list_approvals w = sort_key ap_createdAt (mvalues (w_pending w) @ map po_approval (mvalues (w_policy w)))"

definition w_changed :: "(watcher, unit) op" where
  "w_changed = andthen (gets list_approvals) (\<lambda>as. w_emit (W_changed as))"

section \<open>Lines of the proxy\<close>

fun json_num :: "(string \<Rightarrow> rat) \<Rightarrow> json \<Rightarrow> rat option" where
  "json_num num (JInt n) = Some (of_int n)"
| "json_num num (JReal t) = Some (num t)"
| "json_num num _ = None"

definition str_field :: "fields \<Rightarrow> string \<Rightarrow> nat \<Rightarrow> string" where
  "str_field kvs k n = (case Option.bind (map_of kvs k) p_string of None \<Rightarrow> [] | Some s \<Rightarrow> take n s)"

definition parse_approval :: "(string \<Rightarrow> rat) \<Rightarrow> rat \<Rightarrow> fields \<Rightarrow> approval option" where
  "parse_approval num now v =
     (case Option.bind (map_of v ''id'') p_string of
        None \<Rightarrow> None
      | Some i \<Rightarrow>
          if \<not> approvalId i then None
          else Some \<lparr>ap_id = i, ap_kind = Proxy_approval, ap_task = str_field v ''task'' 40,
            ap_agent = str_field v ''agent'' 40, ap_connector = str_field v ''connector'' 20,
            ap_operation = str_field v ''operation'' 300, ap_host = str_field v ''host'' 200,
            ap_summary = str_field v ''summary'' 4000,
            ap_createdAt = (case Option.bind (map_of v ''created_at'') (json_num num) of
                              Some t \<Rightarrow> t * 1000 | None \<Rightarrow> now),
            ap_timeout = (case Option.bind (map_of v ''timeout'') (json_num num) of Some t \<Rightarrow> t | None \<Rightarrow> 300),
            ap_reason = str_field v ''reason'' 200, ap_origin = []\<rparr>)"

definition on_pending :: "approval \<Rightarrow> string \<Rightarrow> (watcher, unit) op" where
  "on_pending a origin =
     (let a' = a\<lparr>ap_origin := origin\<rparr>
      in andthen (modify (\<lambda>w. w\<lparr>w_pending := mset_key (ap_id a) a' (w_pending w)\<rparr>)) (\<lambda>_.
         andthen (w_emit (W_added a')) (\<lambda>_. w_changed)))"

definition on_resolved :: "string \<Rightarrow> (watcher, unit) op" where
  "on_resolved i =
     andthen (gets (\<lambda>w. mget (w_pending w) i)) (\<lambda>found.
     case found of
       None \<Rightarrow> ret ()
     | Some a \<Rightarrow>
         andthen (modify (\<lambda>w. w\<lparr>w_pending := mdelete i (w_pending w)\<rparr>)) (\<lambda>_.
         andthen (gets (\<lambda>w. i \<in> set (w_decided w))) (\<lambda>decided.
         andthen (modify (\<lambda>w. w\<lparr>w_decided := removeAll i (w_decided w)\<rparr>)) (\<lambda>_.
         andthen (w_emit (W_resolved a decided)) (\<lambda>_.
         w_changed)))))"

definition on_line :: "(string \<Rightarrow> rat) \<Rightarrow> rat \<Rightarrow> (string \<Rightarrow> string) \<Rightarrow> fields \<Rightarrow> (watcher, unit) op" where
  "on_line num now origin ev =
     (let ty = str_field ev ''type'' 40
      in if ty = ''pending'' \<and> map_of ev ''approval'' \<noteq> None
         then (case map_of ev ''approval'' of
             Some (JObj v) \<Rightarrow>
               (case parse_approval num now v of
                  None \<Rightarrow> ret ()
                | Some a \<Rightarrow> on_pending a (origin (ap_task a)))
           | _ \<Rightarrow> ret ())
         else if ty = ''credential''
         then w_emit (W_credential (str_field ev ''task'' 40) (str_field ev ''agent'' 40)
                (str_field ev ''method'' 10) (str_field ev ''host'' 200) (str_field ev ''path'' 200))
         else if ty = ''notice''
         then (case (Option.bind (map_of ev ''task'') p_string, Option.bind (map_of ev ''text'') p_string) of
             (Some t, Some x) \<Rightarrow> w_emit (W_notice (take 40 t) (take 500 x))
           | _ \<Rightarrow> ret ())
         else if ty = ''resolved''
         then (case Option.bind (map_of ev ''id'') p_string of Some i \<Rightarrow> on_resolved i | None \<Rightarrow> ret ())
         else ret ())"

text \<open>The stream ended: what it held is gone.  The answer is the wait before the next try.\<close>

definition on_close :: "(watcher, nat) op" where
  "on_close =
     andthen (gets w_pending) (\<lambda>p.
     andthen (when_do (p \<noteq> [])
       (andthen (modify (\<lambda>w. w\<lparr>w_pending := []\<rparr>)) (\<lambda>_. w_emit (W_changed [])))) (\<lambda>_.
     andthen (gets w_retry) (\<lambda>r.
     andthen (gets w_stopped) (\<lambda>stopped.
     andthen (when_do (\<not> stopped) (modify (\<lambda>w. w\<lparr>w_retry := min (r * 2) RETRY_MAX_MS\<rparr>))) (\<lambda>_.
     ret r)))))"

section \<open>Policy approvals\<close>

record policy_info =
  pi_state :: string
  pi_principal :: string
  pi_operation :: string
  pi_summary :: string
  pi_created :: rat
  pi_expires :: rat
  pi_digest :: string

definition policy_approval :: "string \<Rightarrow> string \<Rightarrow> string \<Rightarrow> string \<Rightarrow> string \<Rightarrow> policy_info \<Rightarrow> approval" where
  "policy_approval i task agentId connector origin g =
     \<lparr>ap_id = i, ap_kind = Policy_approval, ap_task = task, ap_agent = agentId, ap_connector = connector,
      ap_operation = take 300 (pi_operation g), ap_host = connector, ap_summary = pi_summary g,
      ap_createdAt = pi_created g * 1000,
      ap_timeout = max 0 (of_int (round (pi_expires g - pi_created g))),
      ap_reason = connector @ '' writes ask for approval'', ap_origin = origin\<rparr>"

text \<open>\<open>addPolicy\<close> once the policy service answered; an id already held asks nothing.\<close>

definition addPolicy ::
  "string \<Rightarrow> string \<Rightarrow> string \<Rightarrow> string \<Rightarrow> string \<Rightarrow> policy_info result \<Rightarrow> (watcher, unit) op" where
  "addPolicy task agentId connector i origin answer =
     andthen (gets (\<lambda>w. mhas (w_policy w) i)) (\<lambda>held.
     if held then ret ()
     else
       andthen (lift_result answer) (\<lambda>g.
       andthen (require (pi_state g = ''PENDING'' \<and> pi_principal g = connector @ '':'' @ agentId)
         ''no such pending approval'') (\<lambda>_.
       andthen (require (length (pi_summary g) \<le> 65536) ''approval content too large to review'') (\<lambda>_.
       let a = policy_approval i task agentId connector origin g
       in andthen (modify (\<lambda>w. w\<lparr>w_policy := mset_key i \<lparr>po_approval = a, po_digest = pi_digest g\<rparr> (w_policy w)\<rparr>)) (\<lambda>_.
          andthen (w_emit (W_added a)) (\<lambda>_. w_changed))))))"

definition dropPolicy :: "string \<Rightarrow> bool \<Rightarrow> (watcher, unit) op" where
  "dropPolicy i decided =
     andthen (gets (\<lambda>w. mget (w_policy w) i)) (\<lambda>found.
     case found of
       None \<Rightarrow> ret ()
     | Some p \<Rightarrow>
         andthen (modify (\<lambda>w. w\<lparr>w_policy := mdelete i (w_policy w)\<rparr>)) (\<lambda>_.
         andthen (w_emit (W_resolved (po_approval p) decided)) (\<lambda>_. w_changed)))"

section \<open>Decisions\<close>

text \<open>What a decision asks the VM: the policy service with its digest, or the proxy.\<close>

datatype decide_request = Ask_policy string | Ask_proxy approval

definition decide_begin :: "string \<Rightarrow> bool \<Rightarrow> (watcher, decide_request) op" where
  "decide_begin i guest =
     andthen (gets (\<lambda>w. mget (w_policy w) i)) (\<lambda>p.
     case (p, guest) of
       (Some e, True) \<Rightarrow> ret (Ask_policy (po_digest e))
     | _ \<Rightarrow>
         andthen (gets (\<lambda>w. if approvalId i then mget (w_pending w) i else None)) (\<lambda>found.
         case found of
           None \<Rightarrow> throw ''unknown or expired approval''
         | Some a \<Rightarrow>
             andthen (modify (\<lambda>w. w\<lparr>w_decided := List.insert i (w_decided w)\<rparr>)) (\<lambda>_.
             ret (Ask_proxy a))))"

text \<open>The proxy's answer (its exit code).\<close>

definition decide_answer :: "approval \<Rightarrow> int \<Rightarrow> (watcher, unit) op" where
  "decide_answer a code =
     (if code = 0 then ret ()
      else
        andthen (gets (\<lambda>w. ap_id a \<in> set (w_decided w))) (\<lambda>marked.
        andthen (modify (\<lambda>w. w\<lparr>w_decided := removeAll (ap_id a) (w_decided w)\<rparr>)) (\<lambda>_.
        andthen (gets (\<lambda>w. mhas (w_pending w) (ap_id a))) (\<lambda>still.
        andthen (when_do (\<not> marked \<and> \<not> still) (w_emit (W_resolved a False))) (\<lambda>_.
        throw ''the approval expired before it was decided'')))))"

end
