(* ===== verification/Quota.thy ===== *)
theory Quota
  imports Protocol
begin

text \<open>
  \<^verbatim>\<open>packages/daemon/src/quota.ts\<close>: notifications about subscription windows.  \<open>show_time\<close> is
  \<open>toLocaleString\<close>; the limits read are an argument, and \<open>qa_notified\<close> lists what was sent.
\<close>

record quota_window =
  qw_name :: string
  qw_usedPercent :: "nat option"
  qw_windowMinutes :: "nat option"
  qw_resetAt :: "nat option"

record quota_info =
  qi_runtime :: string
  qi_ts :: nat
  qi_status :: nat
  qi_limited :: bool
  qi_windows :: "quota_window list"

record quota_alerts =
  qa_sent :: "string list"
  qa_last :: "int option"
  qa_notified :: "(string \<times> string) list"

definition QUOTA_THRESHOLDS :: "nat list" where "QUOTA_THRESHOLDS = [80, 95]"
definition CHECK_INTERVAL_MS :: int where "CHECK_INTERVAL_MS = 60000"

definition windowLabel :: "quota_window \<Rightarrow> string" where
  "windowLabel w =
     (case qw_windowMinutes w of
        None \<Rightarrow> qw_name w
      | Some m \<Rightarrow>
          if m = 10080 then ''weekly''
          else if m mod 1440 = 0 then nat_str (m div 1440) @ ''-day''
          else if m mod 60 = 0 then nat_str (m div 60) @ ''-hour''
          else nat_str m @ ''-minute'')"

definition runtime_name :: "string \<Rightarrow> string" where
  "runtime_name r =
     (if r = ''codex'' then ''Codex'' else if r = ''claude-code'' then ''Claude Code''
      else if r = ''hermes'' then ''Hermes'' else r)"

definition threshold_of :: "nat \<Rightarrow> nat option" where
  "threshold_of used = List.find (\<lambda>t. used \<ge> t) (rev QUOTA_THRESHOLDS)"

definition reset_text :: "nat option \<Rightarrow> string" where
  "reset_text r = (case r of None \<Rightarrow> ''null'' | Some n \<Rightarrow> nat_str n)"

text \<open>The alerts the limits call for, each with its key: first the windows, then the limit.\<close>

record quota_alert =
  al_key :: string
  al_title :: string
  al_message :: string

definition window_alert :: "(nat \<Rightarrow> string) \<Rightarrow> quota_info \<Rightarrow> quota_window \<Rightarrow> quota_alert option" where
  "window_alert show_time q w =
     (case qw_usedPercent w of
        None \<Rightarrow> None
      | Some used \<Rightarrow>
          (case threshold_of used of
             None \<Rightarrow> None
           | Some t \<Rightarrow>
               (let label = windowLabel w;
                    resets = (case qw_resetAt w of
                      None \<Rightarrow> [] | Some r \<Rightarrow> if r = 0 then [] else ''; it resets '' @ show_time r)
                in Some \<lparr>al_key = qi_runtime q @ '':'' @ qw_name w @ '':'' @ reset_text (qw_resetAt w) @ '':'' @ nat_str t,
                     al_title = ''Anchi: '' @ runtime_name (qi_runtime q) @ '' '' @ label @ '' window '' @ nat_str used @ ''% used'',
                     al_message = ''Past '' @ nat_str t @ ''% of the '' @ label @ '' window'' @ resets @
                       ''. Scheduled and polling agents use it too.''\<rparr>)))"

definition reset_max :: "quota_info \<Rightarrow> nat" where
  "reset_max q = foldl max 0 (map (\<lambda>w. case qw_resetAt w of None \<Rightarrow> 0 | Some r \<Rightarrow> r) (qi_windows q))"

definition limit_alert :: "(nat \<Rightarrow> string) \<Rightarrow> quota_info \<Rightarrow> quota_alert option" where
  "limit_alert show_time q =
     (if \<not> qi_limited q \<and> qi_status q \<noteq> 429 then None
      else (let r = reset_max q; name = runtime_name (qi_runtime q)
            in Some \<lparr>al_key = qi_runtime q @ '':limited:'' @ nat_str (if r = 0 then qi_ts q div 3600000 else r),
                 al_title = ''Anchi: '' @ name @ '' limit reached'',
                 al_message = name @ '' refuses new turns until a window resets'' @
                   (if r = 0 then [] else '' ('' @ show_time r @ '')'') @ ''.''\<rparr>))"

definition alerts_of :: "(nat \<Rightarrow> string) \<Rightarrow> quota_info \<Rightarrow> quota_alert list" where
  "alerts_of show_time q =
     List.map_filter (window_alert show_time q) (qi_windows q) @
     (case limit_alert show_time q of None \<Rightarrow> [] | Some a \<Rightarrow> [a])"

definition send_alert :: "quota_alert \<Rightarrow> string list \<times> quota_alerts \<Rightarrow> string list \<times> quota_alerts" where
  "send_alert a acc =
     (case acc of (titles, st) \<Rightarrow>
        if al_key a \<in> set (qa_sent st) then (titles, st)
        else (titles @ [al_title a],
              st\<lparr>qa_sent := qa_sent st @ [al_key a],
                 qa_notified := qa_notified st @ [(al_title a, al_message a)]\<rparr>))"

definition check ::
  "(nat \<Rightarrow> string) \<Rightarrow> int \<Rightarrow> quota_info list \<Rightarrow> quota_alerts \<Rightarrow> string list \<times> quota_alerts" where
  "check show_time now infos st =
     (if (case qa_last st of None \<Rightarrow> False | Some l \<Rightarrow> now - l < CHECK_INTERVAL_MS) then ([], st)
      else fold send_alert (concat (map (alerts_of show_time) infos)) ([], st\<lparr>qa_last := Some now\<rparr>))"

end
