(* ===== verification/Welcome.thy ===== *)
theory Welcome
  imports Protocol
begin

text \<open>
  \<^verbatim>\<open>packages/core/src/welcome.ts\<close>: where a new user stands, from the daemon's setup status.
  A field a client may not have is an option; \<open>now\<close> is the clock.
\<close>

record account_status =
  ac_connected :: bool
  ac_expiresAt :: "int option"

record setup_status =
  st_preparedRuntimes :: "string list option"
  st_codexLogin :: "string option"
  st_claudeLogin :: "string option"
  st_vaultKeyPresent :: "bool option"
  st_missing :: "string list option"
  st_vm :: string
  st_vaultUnlocked :: bool
  st_installed :: bool
  st_codex :: account_status
  st_claude :: "account_status option"
  st_hermes :: "bool option"
  st_guestOutdated :: bool

record agent_entry =
  ae_id :: string
  ae_runtime :: "string option"

datatype welcome_step = Environment | Vault | Runtime | Agent_step | Task_step | Done_step

definition account_ready :: "int \<Rightarrow> account_status \<Rightarrow> bool" where
  "account_ready now a \<longleftrightarrow>
     ac_connected a \<and> (case ac_expiresAt a of None \<Rightarrow> True | Some e \<Rightarrow> e > now)"

definition runtimeReady :: "int \<Rightarrow> setup_status \<Rightarrow> string option \<Rightarrow> bool" where
  "runtimeReady now s runtime =
     (let codex = account_ready now (st_codex s);
          claude = (case st_claude s of None \<Rightarrow> False | Some a \<Rightarrow> account_ready now a);
          hermes = (st_hermes s = Some True)
      in if runtime = Some ''codex'' then codex
         else if runtime = Some ''claude-code'' then claude
         else if runtime = Some ''hermes'' then hermes
         else codex \<or> claude \<or> hermes)"

definition suggestedRuntime :: "int \<Rightarrow> setup_status \<Rightarrow> string" where
  "suggestedRuntime now s =
     (case List.find (\<lambda>r. runtimeReady now s (Some r)) [''codex'', ''claude-code'', ''hermes''] of
        Some r \<Rightarrow> r
      | None \<Rightarrow>
          if st_codexLogin s = Some ''ready'' then ''codex''
          else if st_claudeLogin s = Some ''ready'' then ''claude-code''
          else (case st_preparedRuntimes s of Some (r # _) \<Rightarrow> r | _ \<Rightarrow> ''codex''))"

definition host_missing :: "setup_status \<Rightarrow> bool" where
  "host_missing s \<longleftrightarrow> (case st_missing s of None \<Rightarrow> False | Some ms \<Rightarrow> ms \<noteq> [])"

definition welcomeStep :: "int \<Rightarrow> setup_status \<Rightarrow> agent_entry list \<Rightarrow> task_row list \<Rightarrow> welcome_step" where
  "welcomeStep now s agents tasks =
     (if st_vm s \<noteq> ''running'' \<or> \<not> st_installed s \<or> st_guestOutdated s \<or> host_missing s then Environment
      else if \<not> st_vaultUnlocked s then Vault
      else (let own = List.filter (\<lambda>a. ae_id a \<noteq> ''builder'') agents
            in if (if own \<noteq> [] then \<not> list_ex (\<lambda>a. runtimeReady now s (ae_runtime a)) own
                   else \<not> runtimeReady now s None) then Runtime
               else if own = [] then Agent_step
               else if list_ex (\<lambda>t. t_agentId t \<noteq> ''builder'' \<and> t_status t = Done) tasks then Done_step
               else Task_step))"

datatype setup_action = Vm_start | Install | Vault_init | Vault_unlock

definition nextSetupAction :: "setup_status \<Rightarrow> setup_action option" where
  "nextSetupAction s =
     (if host_missing s then None
      else if st_vm s = ''stopped'' then Some Vm_start
      else if st_vm s \<noteq> ''running'' \<or> \<not> st_installed s \<or> st_guestOutdated s then Some Install
      else if \<not> st_vaultUnlocked s
           then Some (if st_vaultKeyPresent s = Some False then Vault_init else Vault_unlock)
      else None)"

end
