(* ===== verification/WatchFacts.thy ===== *)
theory WatchFacts
  imports Approvals Quota Welcome "HOL-Library.Multiset"
begin

text \<open>
  Facts about what the daemon watches: subscription windows, writes that wait for the user, and the
  steps of the first run.
\<close>

section \<open>Quota alerts\<close>

fun run_checks :: "(nat \<Rightarrow> string) \<Rightarrow> (int \<times> quota_info list) list \<Rightarrow> quota_alerts \<Rightarrow> quota_alerts" where
  "run_checks f [] st = st"
| "run_checks f ((now, infos) # rest) st = run_checks f rest (snd (check f now infos st))"

definition no_alerts :: quota_alerts where
  "no_alerts = \<lparr>qa_sent = [], qa_last = None, qa_notified = []\<rparr>"

definition alerts_ok :: "quota_alerts \<Rightarrow> bool" where
  "alerts_ok st \<longleftrightarrow> distinct (qa_sent st) \<and> length (qa_notified st) = length (qa_sent st)"

text \<open>What sending a list of alerts does: the first of every new key, in order.\<close>

lemma send_alert_apply:
  "send_alert a (titles, st) =
     (if al_key a \<in> set (qa_sent st) then (titles, st)
      else (titles @ [al_title a], st\<lparr>qa_sent := qa_sent st @ [al_key a],
              qa_notified := qa_notified st @ [(al_title a, al_message a)]\<rparr>))"
  by (simp add: send_alert_def)

lemma send_alerts:
  assumes "fold send_alert as (titles, st) = (titles', st')" and "alerts_ok st"
  shows "alerts_ok st' \<and> set (qa_sent st') = set (qa_sent st) \<union> al_key ` set as \<and>
    (\<exists>new. titles' = titles @ new \<and> map fst (qa_notified st') = map fst (qa_notified st) @ new \<and>
       length (qa_sent st') = length (qa_sent st) + length new) \<and> qa_last st' = qa_last st"
  using assms
proof (induction as arbitrary: titles st)
  case (Cons a as)
  show ?case
  proof (cases "al_key a \<in> set (qa_sent st)")
    case True
    then have "fold send_alert as (titles, st) = (titles', st')" using Cons.prems(1) by (simp add: send_alert_apply)
    with Cons.IH Cons.prems(2) True show ?thesis by fastforce
  next
    case False
    let ?st = "st\<lparr>qa_sent := qa_sent st @ [al_key a], qa_notified := qa_notified st @ [(al_title a, al_message a)]\<rparr>"
    have "fold send_alert as (titles @ [al_title a], ?st) = (titles', st')" and "alerts_ok ?st"
      using Cons.prems False by (simp_all add: send_alert_apply alerts_ok_def)
    from Cons.IH [OF this] show ?thesis by auto
  qed
qed simp

definition throttled :: "int \<Rightarrow> quota_alerts \<Rightarrow> bool" where
  "throttled now st \<longleftrightarrow> (case qa_last st of None \<Rightarrow> False | Some l \<Rightarrow> now - l < CHECK_INTERVAL_MS)"

lemma check_eq:
  "check f now infos st =
     (if throttled now st then ([], st)
      else fold send_alert (concat (map (alerts_of f) infos)) ([], st\<lparr>qa_last := Some now\<rparr>))"
  by (simp add: check_def throttled_def)

lemma check_ok: "alerts_ok st \<Longrightarrow> alerts_ok (snd (check f now infos st))"
  using send_alerts [of "concat (map (alerts_of f) infos)" "[]" "st\<lparr>qa_last := Some now\<rparr>"]
  by (cases "fold send_alert (concat (map (alerts_of f) infos)) ([], st\<lparr>qa_last := Some now\<rparr>)")
    (auto simp: check_eq alerts_ok_def)

lemma run_checks_ok: "alerts_ok st \<Longrightarrow> alerts_ok (run_checks f cs st)"
  by (induction f cs st rule: run_checks.induct) (simp_all add: check_ok)

text \<open>
  After any checks, no alert has been sent twice. A further check within a
  minute of the last does nothing; any other sends exactly the alerts that the limits call for and
  that were not sent before, and reports their titles.
\<close>

theorem quota_alerts_once:
  "let st = run_checks f cs no_alerts; (titles, st') = check f now infos st
   in distinct (qa_sent st') \<and> length (qa_notified st') = length (qa_sent st') \<and>
      map fst (qa_notified st') = map fst (qa_notified st) @ titles \<and>
      (if throttled now st then st' = st
       else set (qa_sent st') = set (qa_sent st) \<union> al_key ` set (concat (map (alerts_of f) infos)))"
proof -
  define st where "st = run_checks f cs no_alerts"
  have ok: "alerts_ok st" unfolding st_def by (rule run_checks_ok) (simp add: no_alerts_def alerts_ok_def)
  obtain titles st' where r: "check f now infos st = (titles, st')" by fastforce
  show ?thesis
  proof (cases "throttled now st")
    case True
    then show ?thesis using ok r by (simp add: st_def [symmetric] check_eq alerts_ok_def)
  next
    case False
    then have "fold send_alert (concat (map (alerts_of f) infos)) ([], st\<lparr>qa_last := Some now\<rparr>) = (titles, st')"
      using r by (simp add: check_eq)
    from send_alerts [OF this] have "alerts_ok st' \<and>
        set (qa_sent st') = set (qa_sent st) \<union> al_key ` set (concat (map (alerts_of f) infos)) \<and>
        map fst (qa_notified st') = map fst (qa_notified st) @ titles"
      using ok by (auto simp: alerts_ok_def)
    then show ?thesis using False r by (simp add: st_def [symmetric] alerts_ok_def)
  qed
qed

section \<open>The first run\<close>

lemma find_ready:
  "runtimeReady now s None \<Longrightarrow>
   \<exists>r. List.find (\<lambda>r. runtimeReady now s (Some r)) [''codex'', ''claude-code'', ''hermes''] = Some r \<and>
       runtimeReady now s (Some r)"
  by (auto simp: runtimeReady_def Let_def split: option.splits)

text \<open>
  The step the first run shows and the setup action the daemon takes
  next agree: it is at the environment or the vault exactly while something is missing on the host or an
  action remains, and with nothing missing the vault step is shown exactly when the action concerns the
  vault. The suggested runtime is one that is ready whenever any is.
\<close>

theorem welcome_agrees_with_setup:
  "(welcomeStep now s agents tasks \<in> {Environment, Vault} \<longleftrightarrow> host_missing s \<or> nextSetupAction s \<noteq> None) \<and>
   (welcomeStep now s agents tasks = Vault \<longleftrightarrow> nextSetupAction s \<in> {Some Vault_init, Some Vault_unlock}) \<and>
   (runtimeReady now s None \<longrightarrow> runtimeReady now s (Some (suggestedRuntime now s)))"
proof (intro conjI impI)
  show "welcomeStep now s agents tasks \<in> {Environment, Vault} \<longleftrightarrow> host_missing s \<or> nextSetupAction s \<noteq> None"
    by (simp add: welcomeStep_def nextSetupAction_def Let_def)
  show "welcomeStep now s agents tasks = Vault \<longleftrightarrow> nextSetupAction s \<in> {Some Vault_init, Some Vault_unlock}"
    by (simp add: welcomeStep_def nextSetupAction_def Let_def)
  assume "runtimeReady now s None"
  from find_ready [OF this] show "runtimeReady now s (Some (suggestedRuntime now s))"
    by (auto simp only: suggestedRuntime_def option.case)
qed

definition demo_setup :: setup_status where
  "demo_setup =
     \<lparr>st_preparedRuntimes = None, st_codexLogin = None, st_claudeLogin = None, st_vaultKeyPresent = Some False,
      st_missing = None, st_vm = ''running'', st_vaultUnlocked = False, st_installed = True,
      st_codex = \<lparr>ac_connected = False, ac_expiresAt = None\<rparr>,
      st_claude = Some \<lparr>ac_connected = True, ac_expiresAt = None\<rparr>, st_hermes = None, st_guestOutdated = False\<rparr>"

lemma welcome_agrees_with_setup_witness:
  "welcomeStep 0 demo_setup [] [] = Vault \<and> suggestedRuntime 0 demo_setup = ''claude-code'' \<and>
   runtimeReady 0 demo_setup (Some (suggestedRuntime 0 demo_setup))"
proof (intro conjI)
  have "nextSetupAction demo_setup = Some Vault_init" by code_simp
  then show "welcomeStep 0 demo_setup [] [] = Vault" using welcome_agrees_with_setup by simp
  show "suggestedRuntime 0 demo_setup = ''claude-code''" by code_simp
  have "runtimeReady 0 demo_setup None" by code_simp
  then show "runtimeReady 0 demo_setup (Some (suggestedRuntime 0 demo_setup))"
    using welcome_agrees_with_setup by blast
qed

section \<open>Writes that wait for the user\<close>

text \<open>
  The watcher with the ids the user decided so far: every decision that reached the proxy or the policy
  service, however it was answered.
\<close>

inductive watched :: "watcher \<Rightarrow> string set \<Rightarrow> bool" where
  watch_starts: "watched \<lparr>w_pending = [], w_policy = [], w_decided = [], w_retry = RETRY_MIN_MS, w_stopped = False,
     w_events = []\<rparr> {}"
| line: "watched w A \<Longrightarrow> watched (snd (on_line num now origin ev (w\<lparr>w_retry := RETRY_MIN_MS\<rparr>))) A"
| stream_ends: "watched w A \<Longrightarrow> watched (snd (on_close w)) A"
| policy_asks: "watched w A \<Longrightarrow> watched (snd (addPolicy task agentId connector i origin answer w)) A"
| policy_expires: "watched w A \<Longrightarrow> watched (snd (dropPolicy i False w)) A"
| policy_decided: "watched w A \<Longrightarrow> watched (snd (dropPolicy i True w)) (insert i A)"
| user_decides: "watched w A \<Longrightarrow> watched (snd (decide_begin i guest w)) (insert i A)"
| proxy_answers: "watched w A \<Longrightarrow> watched (snd (decide_answer a code w)) A"
| watch_stops: "watched w A \<Longrightarrow> watched (w\<lparr>w_stopped := True\<rparr>) A"

definition watch_ok :: "string set \<Rightarrow> watcher \<Rightarrow> bool" where
  "watch_ok A w \<longleftrightarrow>
     (\<forall>(i, a) \<in> set (w_pending w). ap_id a = i \<and> approvalId i) \<and>
     (\<forall>(i, p) \<in> set (w_policy w). ap_id (po_approval p) = i) \<and>
     distinct (mkeys (w_pending w)) \<and> distinct (mkeys (w_policy w)) \<and>
     set (w_decided w) \<subseteq> A \<and> RETRY_MIN_MS \<le> w_retry w \<and> w_retry w \<le> RETRY_MAX_MS \<and>
     (\<forall>a. W_resolved a True \<in> set (w_events w) \<longrightarrow> ap_id a \<in> A)"

lemma watch_ok_mono: "watch_ok A w \<Longrightarrow> A \<subseteq> B \<Longrightarrow> watch_ok B w"
  by (auto simp: watch_ok_def)

lemma update_pairs: "set (AList.update k v m) \<subseteq> insert (k, v) (set m)"
  by (induction m) auto

lemma delete_pairs: "set (AList.delete k m) \<subseteq> set m"
  by (auto simp: AList.delete_eq)

lemma keeps_w_emit: "(\<And>a. e = W_resolved a True \<Longrightarrow> ap_id a \<in> A) \<Longrightarrow> keeps_inv (watch_ok A) (w_emit e)"
  unfolding w_emit_def by (rule keeps_modify) (auto simp: watch_ok_def)

lemma keeps_w_changed [keeps]: "keeps_inv (watch_ok A) w_changed"
  unfolding w_changed_def by (intro keeps keeps_w_emit) simp

lemma keeps_w_parts [keeps]:
  "ap_id a = i \<Longrightarrow> approvalId i \<Longrightarrow> keeps_inv (watch_ok A) (modify (\<lambda>w. w\<lparr>w_pending := mset_key i a (w_pending w)\<rparr>))"
  "ap_id (po_approval p) = i \<Longrightarrow> keeps_inv (watch_ok A) (modify (\<lambda>w. w\<lparr>w_policy := mset_key i p (w_policy w)\<rparr>))"
  "keeps_inv (watch_ok A) (modify (\<lambda>w. w\<lparr>w_pending := mdelete i (w_pending w)\<rparr>))"
  "keeps_inv (watch_ok A) (modify (\<lambda>w. w\<lparr>w_policy := mdelete i (w_policy w)\<rparr>))"
  "keeps_inv (watch_ok A) (modify (\<lambda>w. w\<lparr>w_decided := removeAll i (w_decided w)\<rparr>))"
  "keeps_inv (watch_ok A) (modify (\<lambda>w. w\<lparr>w_pending := []\<rparr>))"
  "i \<in> A \<Longrightarrow> keeps_inv (watch_ok A) (modify (\<lambda>w. w\<lparr>w_decided := List.insert i (w_decided w)\<rparr>))"
  using update_pairs delete_pairs
  by (rule_tac [!] keeps_modify) (fastforce simp: watch_ok_def distinct_update distinct_delete)+
text \<open>A value read from a state with the invariant: what the invariant says of it may be used.\<close>

lemma keeps_read: "(\<And>s. P s \<Longrightarrow> keeps_inv P (g (f s))) \<Longrightarrow> keeps_inv P (andthen (gets f) g)"
  by (simp add: keeps_inv_def)

lemma watch_pending: "watch_ok A w \<Longrightarrow> mget (w_pending w) i = Some a \<Longrightarrow> ap_id a = i \<and> approvalId i"
  by (drule map_of_SomeD) (auto simp: watch_ok_def)

lemma watch_policy: "watch_ok A w \<Longrightarrow> mget (w_policy w) i = Some p \<Longrightarrow> ap_id (po_approval p) = i"
  by (drule map_of_SomeD) (auto simp: watch_ok_def)

lemma watch_decided: "watch_ok A w \<Longrightarrow> i \<in> set (w_decided w) \<Longrightarrow> i \<in> A"
  by (auto simp: watch_ok_def)

lemma keeps_on_pending [keeps]: "approvalId (ap_id a) \<Longrightarrow> keeps_inv (watch_ok A) (on_pending a org)"
  unfolding on_pending_def Let_def by (intro keeps keeps_w_emit) simp_all

lemma keeps_on_resolved [keeps]: "keeps_inv (watch_ok A) (on_resolved i)"
  unfolding on_resolved_def
  by (rule keeps_read, rule keeps_case_option, intro keeps, rule keeps_andthen, intro keeps, rule keeps_read)
    (intro keeps keeps_w_emit, auto dest: watch_pending watch_decided)

lemma parse_approval_id: "parse_approval num now v = Some a \<Longrightarrow> approvalId (ap_id a)"
  by (auto simp: parse_approval_def split: option.splits if_splits)

lemma keeps_on_line [keeps]: "keeps_inv (watch_ok A) (on_line num now org ev)"
proof -
  have pending: "keeps_inv (watch_ok A) (case j of Some (JObj v) \<Rightarrow> (case parse_approval num now v of
      None \<Rightarrow> ret () | Some a \<Rightarrow> on_pending a (org (ap_task a))) | _ \<Rightarrow> ret ())" for j
    by (auto intro!: keeps dest: parse_approval_id split: option.split json.split)
  show ?thesis
    unfolding on_line_def Let_def
    by (rule keeps_if pending keeps_on_resolved keeps_ret keeps_case_option keeps_w_emit | simp)+
qed

lemma keeps_retry_wait: "RETRY_MIN_MS \<le> r \<Longrightarrow> keeps_inv (watch_ok A) (modify (\<lambda>w. w\<lparr>w_retry := min (r * 2) RETRY_MAX_MS\<rparr>))"
  by (rule keeps_modify) (auto simp: watch_ok_def RETRY_MIN_MS_def RETRY_MAX_MS_def)

lemma keeps_on_close [keeps]: "keeps_inv (watch_ok A) on_close"
  unfolding on_close_def
  by (rule keeps_andthen, intro keeps, rule keeps_andthen, intro keeps keeps_w_emit, simp, rule keeps_read)
    (intro keeps keeps_retry_wait, simp add: watch_ok_def)

lemma keeps_addPolicy [keeps]: "keeps_inv (watch_ok A) (addPolicy task agentId connector i org answer)"
  unfolding addPolicy_def Let_def by (intro keeps keeps_w_emit) (simp_all add: policy_approval_def)

lemma keeps_dropPolicy: "(b \<Longrightarrow> i \<in> A) \<Longrightarrow> keeps_inv (watch_ok A) (dropPolicy i b)"
  unfolding dropPolicy_def
  by (rule keeps_read, rule keeps_case_option, intro keeps) (intro keeps keeps_w_emit, auto dest: watch_policy)

lemma keeps_decide_begin: "i \<in> A \<Longrightarrow> keeps_inv (watch_ok A) (decide_begin i guest)"
  unfolding decide_begin_def by (auto intro!: keeps split: option.split bool.split)

lemma keeps_decide_answer [keeps]: "keeps_inv (watch_ok A) (decide_answer a code)"
  unfolding decide_answer_def by (intro keeps keeps_w_emit) simp

lemma watched_ok: "watched w A \<Longrightarrow> watch_ok A w"
proof (induction rule: watched.induct)
  case watch_starts
  then show ?case by (simp add: watch_ok_def RETRY_MIN_MS_def RETRY_MAX_MS_def)
next
  case (line w A num now org ev)
  then have "watch_ok A (w\<lparr>w_retry := RETRY_MIN_MS\<rparr>)" by (simp add: watch_ok_def RETRY_MIN_MS_def RETRY_MAX_MS_def)
  then show ?case by (rule keeps_invD [OF keeps_on_line])
next
  case (policy_decided w A i)
  then show ?case by (intro keeps_invD [OF keeps_dropPolicy]) (auto intro: watch_ok_mono)
next
  case (user_decides w A i guest)
  then show ?case by (intro keeps_invD [OF keeps_decide_begin]) (auto intro: watch_ok_mono)
next
  case (watch_stops w A)
  then show ?case by (simp add: watch_ok_def)
qed (auto intro: keeps_invD keeps keeps_dropPolicy)

text \<open>
  C11 (approvals_faithful). Whatever the proxy streams and however decisions, expiries and reconnections
  interleave, every waiting write is listed once, under its own id, the wait before a reconnection stays
  between two seconds and a minute, and a write is reported as decided only if the user decided it.
\<close>

theorem approvals_faithful:
  assumes "watched w A"
  shows "distinct (mkeys (w_pending w)) \<and> map ap_id (mvalues (w_pending w)) = mkeys (w_pending w) \<and>
    map (ap_id \<circ> po_approval) (mvalues (w_policy w)) = mkeys (w_policy w) \<and>
    mset (list_approvals w) = mset (mvalues (w_pending w)) + mset (map po_approval (mvalues (w_policy w))) \<and>
    sorted (map ap_createdAt (list_approvals w)) \<and> 2000 \<le> w_retry w \<and> w_retry w \<le> 60000 \<and>
    (W_resolved a True \<in> set (w_events w) \<longrightarrow> ap_id a \<in> A)"
  using watched_ok [OF assms]
  by (auto simp: watch_ok_def list_approvals_def RETRY_MIN_MS_def RETRY_MAX_MS_def)

definition demo_line :: fields where
  "demo_line = [(''type'', JStr ''pending''), (''approval'', JObj [(''id'', JStr ''0123456789abcdef'')])]"

definition demo_watch :: watcher where
  "demo_watch = snd (on_line (\<lambda>_. 0) 0 (\<lambda>_. []) demo_line
     (\<lparr>w_pending = [], w_policy = [], w_decided = [], w_retry = RETRY_MIN_MS, w_stopped = False,
       w_events = []\<rparr>\<lparr>w_retry := RETRY_MIN_MS\<rparr>))"

lemma approvals_faithful_witness:
  "watched demo_watch {} \<and> map ap_id (mvalues (w_pending demo_watch)) = [''0123456789abcdef'']"
proof -
  have w: "watched demo_watch {}" unfolding demo_watch_def by (rule line) (rule watch_starts)
  have "mkeys (w_pending demo_watch) = [''0123456789abcdef'']"
    by (simp add: demo_watch_def demo_line_def on_line_def str_field_def parse_approval_def on_pending_def op_defs
        w_emit_def w_changed_def approvalId_def is_hex_def is_digit_def Let_def)
  moreover have "map ap_id (mvalues (w_pending demo_watch)) = mkeys (w_pending demo_watch)"
    using approvals_faithful [OF w] by blast
  ultimately show ?thesis using w by (simp only: simp_thms)
qed

end
