(* ===== verification/TriggerFacts.thy ===== *)
theory TriggerFacts
  imports Preserve HubFacts Triggers Cron
begin

text \<open>
  Facts about triggers: a poll starts at most one task for an item, ever, and a schedule fires once
  for the time it waits for.
\<close>

section \<open>A new task, and only one\<close>

text \<open>The tasks have grown by at most \<open>n\<close>, and the triggers' rows are as they were.\<close>

definition grown :: "string list \<Rightarrow> nat \<Rightarrow> (string \<times> string, string option) jsmap \<Rightarrow>
    (string, trigger_state) jsmap \<Rightarrow> nat \<Rightarrow> store \<Rightarrow> bool" where
  "grown ids n S T d s \<longleftrightarrow> s_depth s = d \<and> s_seen s = S \<and> s_triggers s = T \<and>
     (\<exists>k. length k \<le> n \<and> map t_id (s_tasks s) = ids @ k)"

interpretation grown: store_frame "grown ids n S T" for ids n S T
proof
  fix f :: "task_row \<Rightarrow> task_row" and d i
  assume "row_update f"
  then have same: "map t_id (s_tasks (snd (update_task i f s))) = map t_id (s_tasks s)" for s
    by (auto simp: update_task_def modify_def row_update_def)
  show "keeps_inv (grown ids n S T d) (update_task i f)"
    using same by (simp add: keeps_inv_def grown_def) (simp add: update_task_def modify_def)
next
  fix d key ts cs b
  have same: "map t_id (s_tasks (snd (recordUsage key ts cs b s))) = map t_id (s_tasks s)" for s
    by (simp add: recordUsage_def op_defs addUsage_def update_task_def comp_def if_distrib cong: if_cong split: option.split)
  show "keeps_inv (grown ids n S T d) (recordUsage key ts cs b)"
    using same by (simp add: keeps_inv_def grown_def)
      (simp add: recordUsage_def op_defs addUsage_def update_task_def split: option.split)
qed (auto simp: keeps_inv_def grown_def appendEvent_def op_defs teamPut_def teamDeletePrefix_def draw_def rollback_def)

text \<open>From \<open>P\<close>, whether it returns or throws, \<open>m\<close> leaves \<open>Q\<close>.\<close>

definition leads :: "('s \<Rightarrow> bool) \<Rightarrow> ('s, 'a) op \<Rightarrow> ('s \<Rightarrow> bool) \<Rightarrow> bool" where
  "leads P m Q \<longleftrightarrow> (\<forall>s. P s \<longrightarrow> Q (snd (m s)))"

lemma leads_first: "keeps_inv P m \<Longrightarrow> (\<And>s. P s \<Longrightarrow> Q s) \<Longrightarrow> (\<And>a. leads P (f a) Q) \<Longrightarrow> leads P (andthen m f) Q"
  unfolding leads_def keeps_inv_def andthen_def by (auto split: prod.split sum.split)

lemma leads_last: "leads P m Q \<Longrightarrow> (\<And>a. keeps_inv Q (f a)) \<Longrightarrow> leads P (andthen m f) Q"
  unfolding leads_def keeps_inv_def andthen_def by (auto split: prod.split sum.split)

lemma grown_mono: "grown ids 0 S T d s \<Longrightarrow> grown ids 1 S T d s"
  by (auto simp: grown_def)

lemma leads_createTask:
  "leads (\<lambda>w. grown ids 0 S T d (db w)) (on_db (createTask a tr x p)) (\<lambda>w. grown ids 1 S T d (db w))"
  by (auto simp: leads_def grown_def on_db_apply createTask_def draw_def op_defs Let_def getTask_existing_def getTask_def
      split: option.split)

lemma leads_transaction:
  assumes "leads (\<lambda>w. grown ids 0 S T 1 (db w)) m (\<lambda>w. grown ids 1 S T 1 (db w))"
  shows "leads (\<lambda>w. grown ids 0 S T 0 (db w)) (transaction m) (\<lambda>w. grown ids 1 S T 0 (db w))"
  unfolding leads_def
proof (intro allI impI)
  fix w :: world
  assume w: "grown ids 0 S T 0 (db w)"
  let ?u = "snd (m (w\<lparr>db := (db w)\<lparr>s_depth := 1\<rparr>\<rparr>))"
  have "grown ids 1 S T 1 (db ?u)" using assms w by (simp add: leads_def grown_def)
  then show "grown ids 1 S T 0 (db (snd (transaction m w)))"
    using w by (auto simp: transaction_def grown_def rollback_def split: prod.split sum.split)
qed

lemma leads_peer_create:
  "leads (\<lambda>w. grown ids 0 S T 0 (db w)) (peer_create target y) (\<lambda>w. grown ids 1 S T 0 (db w))"
  unfolding peer_create_def
  by (rule leads_first, intro keeps, erule grown_mono, rule leads_transaction, rule leads_last [OF leads_createTask])
    (intro keeps)

lemma leads_hub_createTask:
  "leads (\<lambda>w. grown ids 0 S T 0 (db w)) (hub_createTask a x tr) (\<lambda>w. grown ids 1 S T 0 (db w))"
proof (cases "CHR ''/'' \<in> set a")
  case True
  show ?thesis
    unfolding hub_createTask_def
    by (subst if_P [OF True], rule leads_first, intro keeps, erule grown_mono, rule leads_first, intro keeps,
        erule grown_mono, rule leads_peer_create)
next
  case False
  show ?thesis
    unfolding hub_createTask_def
    by (subst if_not_P [OF False], rule leads_first, intro keeps, erule grown_mono, rule leads_first, intro keeps,
        erule grown_mono, rule leads_first, intro keeps, erule grown_mono, rule leads_last [OF leads_createTask],
        intro keeps)
qed

section \<open>Polls\<close>

text \<open>
  Since \<open>D\<close> was the set of items seen and \<open>ids\<close> the tasks: the tasks started since are no
  more than the items marked since, with \<open>n\<close> to spare.
\<close>

definition polled_ok :: "string list \<Rightarrow> (string \<times> string) set \<Rightarrow> nat \<Rightarrow> store \<Rightarrow> bool" where
  "polled_ok ids D n s \<longleftrightarrow> s_depth s = 0 \<and> D \<subseteq> set (mkeys (s_seen s)) \<and>
     (\<exists>k. map t_id (s_tasks s) = ids @ k \<and> length k + n \<le> card (set (mkeys (s_seen s)) - D))"

lemma seen_keys_update: "set (mkeys (mset_key k v m)) = insert k (set (mkeys m))"
  by (simp add: dom_map_of_conv_image_fst [symmetric] update_conv')

lemma polled_markSeen:
  assumes "polled_ok ids D n s"
  shows "polled_ok ids D (if fst (markSeen key i v s) = Inr True \<and> (key, i) \<notin> D then Suc n else n) (snd (markSeen key i v s))"
proof (cases "mhas (s_seen s) (key, i)")
  case True
  then show ?thesis using assms by (simp add: markSeen_def)
next
  case False
  then have new: "(key, i) \<notin> set (mkeys (s_seen s))" by (metis (no_types, lifting) map_of_eq_None_iff list.set_map)
  let ?M = "set (mkeys (s_seen s))"
  have fin: "finite (?M - D)" by simp
  have "(key, i) \<notin> D" using new assms by (auto simp: polled_ok_def)
  then have "card (insert (key, i) ?M - D) = Suc (card (?M - D))"
    using new fin by (simp add: insert_Diff_if)
  then show ?thesis
    using assms False \<open>(key, i) \<notin> D\<close>
    by (auto simp: markSeen_def polled_ok_def seen_keys_update simp del: set_map)
qed

lemma polled_create: "polled_ok ids D (Suc n) (db w) \<Longrightarrow> polled_ok ids D n (db (snd (hub_createTask a x tr w)))"
proof -
  assume w: "polled_ok ids D (Suc n) (db w)"
  then obtain k where k: "map t_id (s_tasks (db w)) = ids @ k" "length k + Suc n \<le> card (set (mkeys (s_seen (db w))) - D)"
    by (auto simp: polled_ok_def)
  have "grown (ids @ k) 0 (s_seen (db w)) (s_triggers (db w)) 0 (db w)"
    using w k by (simp add: grown_def polled_ok_def)
  then have "grown (ids @ k) 1 (s_seen (db w)) (s_triggers (db w)) 0 (db (snd (hub_createTask a x tr w)))"
    using leads_hub_createTask unfolding leads_def by blast
  then show ?thesis using w k by (auto simp: grown_def polled_ok_def)
qed

lemma polled_weaken: "polled_ok ids D (Suc n) s \<Longrightarrow> polled_ok ids D n s"
  by (auto simp: polled_ok_def)

lemma keeps_polled_rows [keeps]:
  "keeps_inv (polled_ok ids D n) (setSeenTask key i t)" "keeps_inv (polled_ok ids D n) (saveTriggerState st)"
  "keeps_inv (polled_ok ids D n) (triggerState key)"
  by (auto simp: keeps_inv_def polled_ok_def setSeenTask_def saveTriggerState_def triggerState_def op_defs Let_def
      mkeys_update_present simp del: set_map)

lemma keeps_polled_mark [keeps]: "keeps_inv (polled_ok ids D n) (markSeen key i v)"
proof (rule keeps_invI)
  fix s
  assume "polled_ok ids D n s"
  from polled_markSeen [OF this, of key i v] show "polled_ok ids D n (snd (markSeen key i v s))"
    by (auto split: if_splits intro: polled_weaken)
qed

lemma andthen_Inr: "m s = (Inr a, s') \<Longrightarrow> andthen m f s = f a s'"
  by (simp add: andthen_def)

lemma keeps_start_item: "keeps_inv (\<lambda>w. polled_ok ids D n (db w)) (start_item a key x item)"
proof (rule keeps_invI)
  fix w :: world
  assume w: "polled_ok ids D n (db w)"
  let ?m = "markSeen key (it_id item) None (db w)"
  let ?v = "w\<lparr>db := snd ?m\<rparr>"
  have start: "start_item a key x item w =
      (if fst ?m = Inr True
       then andthen (hub_createTask a (fill x item) ''poll'') (\<lambda>task. on_db (setSeenTask key (it_id item) (t_id task))) ?v
       else (Inr (), ?v))"
  proof -
    have mark: "on_db (markSeen key (it_id item) None) w = (Inr (\<not> mhas (s_seen (db w)) (key, it_id item)), ?v)"
      by (simp add: on_db_apply markSeen_def)
    show ?thesis
      unfolding start_item_def
      by (subst andthen_Inr [where m = "on_db (markSeen key (it_id item) None)", OF mark]) (simp add: markSeen_def)
  qed
  have "(key, it_id item) \<notin> D" if "fst ?m = Inr True"
    using that w by (auto simp: markSeen_def polled_ok_def map_of_eq_None_iff split: if_splits)
  then have marked: "polled_ok ids D (if fst ?m = Inr True then Suc n else n) (db ?v)"
    using polled_markSeen [OF w, of key "it_id item" None] by (auto split: if_splits)
  show "polled_ok ids D n (db (snd (start_item a key x item w)))"
  proof (cases "fst ?m = Inr True")
    case True
    let ?c = "hub_createTask a (fill x item) ''poll'' ?v"
    have c: "polled_ok ids D n (db (snd ?c))" using polled_create marked True by simp
    have "polled_ok ids D n (snd (setSeenTask key (it_id item) i (db (snd ?c))))" for i
      by (rule keeps_invD [OF keeps_polled_rows(1) c])
    then show ?thesis
      using c by (simp add: start True andthen_def on_db_apply split: prod.split sum.split) (metis snd_conv)
  qed (use marked start in simp)
qed

lemma keeps_run_poll: "keeps_inv (\<lambda>w. polled_ok ids D n (db w)) (run_poll a key x now answer st)"
  unfolding run_poll_def poll_items_def mark_item_def unseen_def
  by (auto intro!: keeps keeps_start_item split: sum.split)

lemma keeps_first_poll:
  "\<not> ts_baseline st \<Longrightarrow> keeps_inv (\<lambda>w. map t_id (s_tasks (db w)) = ids) (run_poll a key x now answer st)"
proof -
  assume st: "\<not> ts_baseline st"
  have "keeps_inv (\<lambda>s. map t_id (s_tasks s) = ids) (markSeen key i v)"
    "keeps_inv (\<lambda>s. map t_id (s_tasks s) = ids) (saveTriggerState st')" for i v st'
    by (auto simp: keeps_inv_def markSeen_def saveTriggerState_def op_defs Let_def)
  then show ?thesis
    using st unfolding run_poll_def poll_items_def mark_item_def
    by (auto intro!: keeps split: sum.split)
qed

text \<open>
  C12 (poll_starts_once). A poll, whatever it answers and whatever fails, starts no more tasks than it
  marks items as seen for the first time, and never forgets an item: however often an item comes back,
  at most one task is started for it.  The first poll of a trigger starts none.
\<close>

theorem poll_starts_once:
  assumes "s_depth (db w) = 0"
  shows "let w' = snd (run_poll a key x now answer st w); old = set (mkeys (s_seen (db w))); new = set (mkeys (s_seen (db w')))
    in old \<subseteq> new \<and>
       (\<exists>k. map t_id (s_tasks (db w')) = map t_id (s_tasks (db w)) @ k \<and> length k \<le> card (new - old) \<and>
            (ts_baseline st \<or> k = []))"
proof -
  let ?w' = "snd (run_poll a key x now answer st w)" and ?ids = "map t_id (s_tasks (db w))"
  have "polled_ok ?ids (set (mkeys (s_seen (db w)))) 0 (db w)" using assms by (simp add: polled_ok_def)
  from keeps_invD [OF keeps_run_poll, OF this] have p: "polled_ok ?ids (set (mkeys (s_seen (db w)))) 0 (db ?w')" .
  show ?thesis
  proof (cases "ts_baseline st")
    case True
    then show ?thesis using p by (auto simp: Let_def polled_ok_def)
  next
    case False
    have "map t_id (s_tasks (db ?w')) = ?ids" using keeps_invD [OF keeps_first_poll [OF False]] by simp
    then show ?thesis using p by (auto simp: Let_def polled_ok_def)
  qed
qed

definition demo_items :: "poll_item list" where
  "demo_items = [\<lparr>it_id = ''i1'', it_title = ''A'', it_url = []\<rparr>, \<lparr>it_id = ''i2'', it_title = ''B'', it_url = []\<rparr>]"

lemma poll_starts_once_witness:
  "let w' = snd (run_poll ''dev'' ''key'' ''look at {title}'' 5 (Inr demo_items) (empty_state ''key'' ''dev'') demo_world)
   in map t_id (s_tasks (db w')) = map t_id (s_tasks (db demo_world))"
proof -
  have "s_depth (db demo_world) = 0" by (simp add: demo_defs)
  from poll_starts_once [OF this, of "''dev''" "''key''" "''look at {title}''" 5 "Inr demo_items" "empty_state ''key'' ''dev''"]
  show ?thesis by (auto simp: Let_def empty_state_def)
qed

section \<open>Schedules\<close>

lemma nextRun_later: "nextRun c now = Some u \<Longrightarrow> now < u"
proof -
  assume "nextRun c now = Some u"
  then have "next_minute now \<le> u"
    unfolding nextRun_def cron.search_least by (auto split: if_splits intro: LeastI2_ex)
  moreover have "now < next_minute now"  by (rule less_next_minute)
  ultimately show ?thesis by simp
qed

definition due :: "nat \<Rightarrow> trigger_state \<Rightarrow> bool" where
  "due now st \<longleftrightarrow> (case ts_nextRun st of None \<Rightarrow> False | Some n \<Rightarrow> n \<le> int now)"

lemma schedule_step_result:
  assumes "parseCron expr = Inr c" and "grown ids 0 S T 0 (db w)"
  obtains st' w' where "schedule_step a expr x now st w = (Inr st', w')" and "ts_key st' = ts_key st"
    and "\<And>n. ts_nextRun st' = Some n \<Longrightarrow> int now < n"
    and "grown ids (if due now st then 1 else 0) S T 0 (db w')"
proof -
  have later: "int now < n" if "cron_next c now = Some n" for n
    using that nextRun_later by (auto simp: cron_next_def)
  show thesis
  proof (cases "due now st")
    case False
    show thesis
    proof (cases "ts_nextRun st")
      case None
      then show thesis using assms later by (intro that [of "st\<lparr>ts_nextRun := cron_next c now\<rparr>" w])
          (simp_all add: schedule_step_def due_def)
    next
      case (Some n)
      then show thesis using assms False by (intro that [of st w]) (simp_all add: schedule_step_def due_def)
    qed
  next
    case True
    let ?r = "hub_createTask a x ''schedule'' w"
    have g: "grown ids 1 S T 0 (db (snd ?r))" using leads_hub_createTask assms(2) unfolding leads_def by blast
    have "\<exists>st' w'. schedule_step a expr x now st w = (Inr st', w') \<and> ts_key st' = ts_key st \<and>
        ts_nextRun st' = cron_next c now \<and> w' = snd ?r"
      using True assms(1)
      by (auto simp: schedule_step_def due_def Let_def catch_error_def andthen_def split: option.splits prod.splits sum.splits)
    then show thesis using that g later True by auto
  qed
qed

text \<open>
  C13 (schedule_fires_once). A tick of a schedule starts at most one task, and only when the time it was
  waiting for has come; it leaves the schedule waiting for a later time, so that no time fires twice,
  even when starting the task failed.
\<close>

theorem schedule_fires_once:
  assumes "s_depth (db w) = 0" and "parseCron expr = Inr c"
    and "\<And>st. mget (s_triggers (db w)) key = Some st \<Longrightarrow> ts_key st = key"
  shows "let w' = snd (run_schedule a key expr x now w); waiting = or_else (mget (s_triggers (db w)) key) (empty_state key a)
    in (\<exists>k. map t_id (s_tasks (db w')) = map t_id (s_tasks (db w)) @ k \<and> length k \<le> (if due now waiting then 1 else 0)) \<and>
       (\<exists>st'. mget (s_triggers (db w')) key = Some st' \<and> \<not> due now st')"
proof -
  let ?st = "or_else (mget (s_triggers (db w)) key) (empty_state key a)"
  have "grown (map t_id (s_tasks (db w))) 0 (s_seen (db w)) (s_triggers (db w)) 0 (db w)"
    using assms(1) by (simp add: grown_def)
  then obtain st' w1 where step: "schedule_step a expr x now ?st w = (Inr st', w1)" "ts_key st' = ts_key ?st"
    and next_run: "\<And>n. ts_nextRun st' = Some n \<Longrightarrow> int now < n"
    and grown: "grown (map t_id (s_tasks (db w))) (if due now ?st then 1 else 0) (s_seen (db w)) (s_triggers (db w)) 0 (db w1)"
    using schedule_step_result [OF assms(2)] by metis
  have "ts_key ?st = key" using assms(3) by (cases "mget (s_triggers (db w)) key") (simp_all add: or_else_def empty_state_def)
  moreover have "run_schedule a key expr x now w = on_db (saveTriggerState st') w1"
    using step(1) by (simp add: run_schedule_def load_state_def andthen_def on_db_apply triggerState_def gets_def)
  ultimately show ?thesis
    using step(2) next_run grown
    by (auto simp: Let_def on_db_apply saveTriggerState_def modify_def grown_def due_def update_conv' split: option.split)
qed

lemma schedule_fires_once_witness:
  "\<exists>st'. mget (s_triggers (db (snd (run_schedule ''dev'' ''key'' ''0 9 * * *'' ''report'' 5 demo_world)))) ''key'' = Some st' \<and>
     \<not> due 5 st'"
proof -
  have "isl (parseCron ''0 9 * * *'') = False" by code_simp
  then obtain c where c: "parseCron ''0 9 * * *'' = Inr c" by (cases "parseCron ''0 9 * * *''") auto
  have "s_depth (db demo_world) = 0" and none: "mget (s_triggers (db demo_world)) ''key'' = None"
    by (simp_all add: demo_defs)
  from schedule_fires_once [OF this(1) c, of "''key''" "''dev''" "''report''" 5] none
  show ?thesis by (simp add: Let_def)
qed

end
