(* ===== verification/DispatchFacts.thy ===== *)
theory DispatchFacts
  imports Invariant PeerTasks Coordinator
begin

text \<open>
  Facts about work that goes between machines: a dispatch is taken once, an event of an execution node
  is recorded once, and the turns of a tree are never handed out twice.
\<close>

section \<open>Nothing started\<close>

text \<open>The tasks, the hub with its queues and turns, and what was emitted are those of \<open>v\<close>.\<close>

definition same_work :: "world \<Rightarrow> world \<Rightarrow> bool" where
  "same_work v w \<longleftrightarrow> s_tasks (db w) = s_tasks (db v) \<and> s_events (db w) = s_events (db v) \<and> hub w = hub v \<and> outs w = outs v"

definition holds_key :: "string \<Rightarrow> team_value \<Rightarrow> world \<Rightarrow> bool" where
  "holds_key k x w \<longleftrightarrow> mget (s_team (db w)) k = Some x"

text \<open>A property that looks neither at the depth of the transaction nor at the draws.\<close>

definition depth_free :: "(world \<Rightarrow> bool) \<Rightarrow> bool" where
  "depth_free P \<longleftrightarrow> (\<forall>w d. P w \<longrightarrow> P (w\<lparr>db := (db w)\<lparr>s_depth := d\<rparr>\<rparr>)) \<and>
     (\<forall>w u. P w \<longrightarrow> P u \<longrightarrow> P (u\<lparr>db := rollback (db w) (db u)\<rparr>))"

lemma keeps_transaction_free:
  assumes "depth_free P" and "keeps_inv P m"
  shows "keeps_inv P (transaction m)"
proof (rule keeps_invI)
  fix w
  assume w: "P w"
  have closed: "P (x\<lparr>db := (db x)\<lparr>s_depth := d\<rparr>\<rparr>)" if "P x" for x d using that assms(1) by (simp add: depth_free_def)
  have undo: "P (u\<lparr>db := rollback (db w) (db u)\<rparr>)" if "P u" for u using that w assms(1) by (simp add: depth_free_def)
  show "P (snd (transaction m w))"
    using closed [OF keeps_invD [OF assms(2) closed [OF w, of 1]], of 0]
      undo [OF keeps_invD [OF assms(2) closed [OF w, of 1]]] keeps_invD [OF assms(2) w]
    by (auto simp: transaction_def split: prod.split sum.split)
qed

lemma keeps_known:
  "(\<And>w. P w \<Longrightarrow> m w = (Inr a, w)) \<Longrightarrow> keeps_inv P (f a) \<Longrightarrow> keeps_inv P (andthen m f)"
  by (simp add: keeps_inv_def andthen_def)

lemma same_work_free: "depth_free (\<lambda>w. same_work v w \<and> holds_key k x w)"
  by (auto simp: depth_free_def same_work_def holds_key_def rollback_def)

lemma same_work_reads [keeps]:
  "keeps_inv (\<lambda>w. same_work v w \<and> holds_key k x w) (on_db (teamGet k' f))"
  "keeps_inv (\<lambda>w. same_work v w \<and> holds_key k x w) (team_digest h)"
  by (simp_all add: keeps_inv_def on_db_apply team_digest_def gets_def)

lemma same_work_nodeId [keeps]:
  "k \<noteq> ''node'' \<Longrightarrow> keeps_inv (\<lambda>w. same_work v w \<and> holds_key k x w) (on_db nodeId)"
  by (auto simp: keeps_inv_def on_db_apply nodeId_def op_defs teamGet_def teamPut_def draw_def same_work_def
      holds_key_def update_conv' split: option.split)

section \<open>Team dispatches\<close>

definition run_key :: "team_run \<Rightarrow> string" where
  "run_key p = received_key (og_coordinator (tr_origin p) @ ''/'' @ og_task (tr_origin p)) (tr_turn p)"

lemma run_key_eq: "run_key p = received_key (keyOf \<lparr>tk_coordinator = og_coordinator (tr_origin p), tk_task = og_task (tr_origin p)\<rparr>) (tr_turn p)"
  by (simp add: run_key_def keyOf_def)

lemma run_receipt: "valid (\<lambda>_. True) (run p) (\<lambda>_ w. \<exists>d. holds_key (run_key p) (Tv_receipt d) w)"
proof -
  have put: "valid (\<lambda>_. True) (on_db (teamPut (run_key p) (Tv_receipt d))) (\<lambda>_ w. \<exists>d. holds_key (run_key p) (Tv_receipt d) w)" for d
    by (auto simp: valid_def on_db_apply teamPut_apply holds_key_def update_conv')
  have get: "valid (\<lambda>_. True) (on_db (teamGet (run_key p) as_receipt))
      (\<lambda>r w. r \<noteq> None \<longrightarrow> (\<exists>d. holds_key (run_key p) (Tv_receipt d) w))"
    unfolding valid_def
  proof (intro allI impI, elim conjE)
    fix w r w' assume "on_db (teamGet (run_key p) as_receipt) w = (Inr r, w')" and "r \<noteq> None"
    then have "r = Option.bind (mget (s_team (db w')) (run_key p)) as_receipt"
      using on_db_Inr teamGet_cases by metis
    then obtain x where "mget (s_team (db w')) (run_key p) = Some x" and "as_receipt x \<noteq> None"
      using \<open>r \<noteq> None\<close> by (cases "mget (s_team (db w')) (run_key p)") auto
    then show "\<exists>d. holds_key (run_key p) (Tv_receipt d) w'" by (cases x) (auto simp: holds_key_def)
  qed
  have turn: "valid (\<lambda>_. True) (take_turn p \<lparr>tk_coordinator = og_coordinator (tr_origin p), tk_task = og_task (tr_origin p)\<rparr> digest)
      (\<lambda>_ w. \<exists>d. holds_key (run_key p) (Tv_receipt d) w)" for digest
    unfolding take_turn_def Let_def run_key_eq [symmetric] by (intro valid_andthen [OF valid_any] put)
  have again: "valid (\<lambda>w. r \<noteq> None \<longrightarrow> (\<exists>d. holds_key (run_key p) (Tv_receipt d) w))
      (case r of Some d \<Rightarrow> require (d = digest) e | None \<Rightarrow> m) (\<lambda>_ w. \<exists>d. holds_key (run_key p) (Tv_receipt d) w)"
    if "valid (\<lambda>_. True) m (\<lambda>_ w. \<exists>d. holds_key (run_key p) (Tv_receipt d) w)" for r digest e m
    using that by (cases r) (auto simp: valid_def require_def)
  show ?thesis
    unfolding run_def Let_def run_key_eq [symmetric]
    by (rule valid_andthen [OF valid_any], rule valid_andthen [OF valid_any], rule valid_andthen [OF valid_any],
        rule valid_andthen [OF valid_any], rule valid_andthen [OF valid_any], rule valid_transaction,
        rule valid_andthen [OF get], rule again [OF turn]) (simp_all add: holds_key_def)
qed

lemma run_replay: "keeps_inv (\<lambda>w. same_work v w \<and> holds_key (run_key p) (Tv_receipt d) w) (run p)"
proof -
  have key: "run_key p \<noteq> ''node''" by (simp add: run_key_def received_key_def)
  have again: "keeps_inv (\<lambda>w. same_work v w \<and> holds_key (run_key p) (Tv_receipt d) w)
      (andthen (on_db (teamGet (run_key p) as_receipt)) (\<lambda>receipt.
          case receipt of Some d \<Rightarrow> require (d = digest) e | None \<Rightarrow> m))" for digest e m
    by (rule keeps_known [where a = "Some d"], simp add: on_db_apply holds_key_def teamGet_def op_defs)
      (simp only: option.case, rule keeps)
  show ?thesis
    unfolding run_def describe_def Let_def run_key_eq [symmetric]
    by (intro keeps keeps_transaction_free same_work_free again key)
qed

text \<open>
  C8 (team_run_once). A dispatch that an execution node took leaves a receipt; while the receipt is there
  the same dispatch, sent again however often, starts nothing: tasks, transcripts, queues, turns and
  what is emitted stay as they are.
\<close>

theorem team_run_once:
  assumes "run p w = (Inr (), w')"
    and "mget (s_team (db v)) (run_key p) = mget (s_team (db w')) (run_key p)"
  shows "same_work v (snd (run p v))"
proof -
  obtain d where "holds_key (run_key p) (Tv_receipt d) w'" using validD [OF run_receipt assms(1)] by blast
  then have "same_work v v \<and> holds_key (run_key p) (Tv_receipt d) v"
    using assms(2) by (simp add: same_work_def holds_key_def)
  then show ?thesis using keeps_invD [OF run_replay] by blast
qed
definition demo_run :: team_run where
  "demo_run =
     \<lparr>tr_origin = \<lparr>og_coordinator = replicate 32 CHR ''b'', og_task = ''t-0000000009'', og_agent = ''boss'',
                    og_chain = [''you'']\<rparr>,
      tr_agent = ''dev'', tr_turn = 1, tr_text = ''build it''\<rparr>"

definition demo_node :: world where
  "demo_node = demo_world\<lparr>db := (db demo_world)\<lparr>s_team := [(''node'', Tv_string (replicate 32 CHR ''a'')), (run_key demo_run, Tv_receipt [])]\<rparr>\<rparr>"

lemma demo_run_ok: "teamRunSchema demo_run"
  by (simp add: teamRunSchema_def teamOriginSchema_def demo_run_def peerNodeSchema_def taskIdSchema_def
      peerAgentIdSchema_def workerIdSchema_def is_hex_def is_digit_def is_lower_def is_slug_char_def
      list_all_iff)

lemma nodeId_known:
  "mget (s_team (db w)) ''node'' = Some (Tv_string n) \<Longrightarrow> peerNodeSchema n \<Longrightarrow> on_db nodeId w = (Inr n, w)"
  by (simp add: on_db_apply nodeId_def teamGet_def op_defs as_node_def)

lemma describe_result:
  assumes "mget (s_team (db w)) ''node'' = Some (Tv_string n)" and "peerNodeSchema n"
    and "workerIdSchema i" and "resolveAgent (layout w) i None = Inr ag" and "ra_execution ag = None"
  shows "describe i w = (Inr ag, w)"
  using assms nodeId_known [OF assms(1,2)] by (simp add: describe_def) (simp add: andthen_def)

lemma demo_describe: "\<exists>ag. describe ''dev'' demo_node = (Inr ag, demo_node)"
proof -
  have "case resolveAgent demo_layout ''dev'' None of Inl _ \<Rightarrow> False | Inr ag \<Rightarrow> ra_execution ag = None" by code_simp
  then obtain ag where "resolveAgent (layout demo_node) ''dev'' None = Inr ag" "ra_execution ag = None"
    by (auto simp: demo_node_def demo_world_def split: sum.splits)
  moreover have "mget (s_team (db demo_node)) ''node'' = Some (Tv_string (replicate 32 CHR ''a''))"
    by (simp add: demo_node_def)
  moreover have "peerNodeSchema (replicate 32 CHR ''a'')"
    by (simp add: peerNodeSchema_def list_all_iff is_hex_def is_digit_def)
  moreover have "workerIdSchema ''dev''"
    by (simp add: workerIdSchema_def peerAgentIdSchema_def is_lower_def is_slug_char_def)
  ultimately show ?thesis using describe_result by blast
qed

lemma team_run_once_witness:
  "fst (run demo_run demo_node) = Inr () \<and>
   same_work (snd (run demo_run demo_node)) (snd (run demo_run (snd (run demo_run demo_node))))"
proof -
  obtain ag where ag: "describe ''dev'' demo_node = (Inr ag, demo_node)" using demo_describe by blast
  have node: "on_db nodeId demo_node = (Inr (replicate 32 CHR ''a''), demo_node)"
    by (rule nodeId_known) (simp_all add: demo_node_def peerNodeSchema_def list_all_iff is_hex_def is_digit_def)
  have other: "og_coordinator (tr_origin demo_run) \<noteq> replicate 32 CHR ''a''" and agent: "tr_agent demo_run = ''dev''"
    by (simp_all add: demo_run_def numeral_eq_Suc)
  have state: "s_depth (db demo_node) = 0" "s_sha (db demo_node) = (\<lambda>_. [])"
      "mget (s_team (db demo_node)) (run_key demo_run) = Some (Tv_receipt [])"
    by (simp_all add: demo_node_def demo_world_def demo_store_def run_key_def received_key_def)
  have "fst (run demo_run demo_node) = Inr ()"
    using ag node other agent state
    by (simp add: run_def demo_run_ok andthen_def team_digest_def Let_def run_key_eq [symmetric] gets_def
        transaction_def on_db_apply teamGet_def require_def)
  then show ?thesis using team_run_once [of demo_run demo_node "snd (run demo_run demo_node)"] by (simp add: prod_eq_iff)
qed

end
