(* ===== verification/RoomFacts.thy ===== *)
theory RoomFacts
  imports HubFacts
begin

text \<open>
  The line for cells: every place goes to exactly one task in line, the deepest delegations first and
  the earlier of two at the same depth.
\<close>

section \<open>Ranks in a finite order\<close>

text \<open>
  Numbers below \<open>n\<close>, ordered by \<open>before\<close>: how many come before one is its rank, and the ranks are
  the numbers below \<open>n\<close>.
\<close>

locale ranking =
  fixes n :: nat and before :: "nat \<Rightarrow> nat \<Rightarrow> bool"
  assumes irrefl: "\<not> before i i"
    and trans: "before i j \<Longrightarrow> before j k \<Longrightarrow> before i k"
    and total: "i < n \<Longrightarrow> j < n \<Longrightarrow> i \<noteq> j \<Longrightarrow> before i j \<or> before j i"
begin

definition rank :: "nat \<Rightarrow> nat" where
  "rank j = card {i. i < n \<and> before i j}"

lemma rank_mono:
  assumes "i < n" and "before i j"
  shows "rank i < rank j"
  unfolding rank_def
proof (rule psubset_card_mono)
  show "{k. k < n \<and> before k i} \<subset> {k. k < n \<and> before k j}"
    using assms trans irrefl by blast
qed simp

lemma rank_less: "j < n \<Longrightarrow> rank j < n"
proof -
  assume "j < n"
  then have "{i. i < n \<and> before i j} \<subset> {..<n}" using irrefl by blast
  then have "rank j < card {..<n}" unfolding rank_def by (rule psubset_card_mono [rotated]) simp
  then show ?thesis by simp
qed

lemma rank_inj: "inj_on rank {..<n}"
  by (rule inj_onI) (metis lessThan_iff nat_neq_iff rank_mono total)

lemma ranks: "rank ` {..<n} = {..<n}"
  by (rule endo_inj_surj) (auto simp: rank_less rank_inj)

lemma card_rank_less: "card {j. j < n \<and> rank j < p} = min p n"
proof -
  have inj: "inj_on rank {j. j < n \<and> rank j < p}" using rank_inj by (auto simp: inj_on_def)
  have "rank ` {j. j < n \<and> rank j < p} = {..<min p n}"
  proof (rule set_eqI)
    fix x
    have "x < n \<Longrightarrow> \<exists>j < n. rank j = x" using ranks by (metis imageE lessThan_iff)
    then show "x \<in> rank ` {j. j < n \<and> rank j < p} \<longleftrightarrow> x \<in> {..<min p n}" using rank_less by auto
  qed
  then show ?thesis using card_image [OF inj] by simp
qed

end

section \<open>The order of the line\<close>

definition goes_first :: "nat list \<Rightarrow> nat \<Rightarrow> nat \<Rightarrow> bool" where
  "goes_first ds i j \<longleftrightarrow> ds ! i > ds ! j \<or> ds ! i = ds ! j \<and> i < j"

interpretation line: ranking "length ds" "goes_first ds" for ds
  by unfold_locales (auto simp: goes_first_def)

lemma ahead_in_absent:
  "i \<notin> set (mkeys q) \<Longrightarrow>
   ahead_in i d b q = length (List.filter (\<lambda>e. e > d \<or> b \<and> e = d) (mvalues q))"
  by (induction q arbitrary: b) auto

lemma ahead_in_at:
  "i \<notin> set (mkeys xs) \<Longrightarrow> i \<notin> set (mkeys ys) \<Longrightarrow>
   ahead_in i d True (xs @ (i, e) # ys) =
     length (List.filter (\<lambda>x. x \<ge> d) (mvalues xs)) + length (List.filter (\<lambda>x. x > d) (mvalues ys))"
  by (induction xs) (auto simp: ahead_in_absent)

lemma ahead_rank:
  assumes "distinct (mkeys q)" and "j < length q"
  shows "ahead_in (fst (q ! j)) (snd (q ! j)) True q = line.rank (mvalues q) j"
proof -
  let ?ds = "mvalues q" and ?d = "snd (q ! j)"
  have split: "q = take j q @ (fst (q ! j), ?d) # drop (Suc j) q"
    using assms(2) by (simp add: id_take_nth_drop)
  have "distinct (mkeys (take j q @ (fst (q ! j), ?d) # drop (Suc j) q))"
    using assms(1) split by (metis (no_types))
  then have fresh: "fst (q ! j) \<notin> set (mkeys (take j q))" "fst (q ! j) \<notin> set (mkeys (drop (Suc j) q))"
    by auto
  have "ahead_in (fst (q ! j)) ?d True q =
      length (List.filter (\<lambda>x. x \<ge> ?d) (take j ?ds)) + length (List.filter (\<lambda>x. x > ?d) (drop (Suc j) ?ds))"
    using ahead_in_at [OF fresh, of ?d ?d] split by (metis (no_types) drop_map take_map)
  also have "length (List.filter (\<lambda>x. x \<ge> ?d) (take j ?ds)) = card {i. i < length ?ds \<and> i < j \<and> ?ds ! i \<ge> ?ds ! j}"
    using assms(2) by (auto simp: length_filter_conv_card intro!: arg_cong [where f = card])
  also have "length (List.filter (\<lambda>x. x > ?d) (drop (Suc j) ?ds)) = card {i. i < length ?ds \<and> j < i \<and> ?ds ! i > ?ds ! j}"
  proof -
    have "{i. i < length ?ds \<and> j < i \<and> ?ds ! i > ?ds ! j} = (\<lambda>i. Suc j + i) ` {i. i < length (drop (Suc j) ?ds) \<and> drop (Suc j) ?ds ! i > ?d}"
    proof (intro set_eqI iffI)
      fix i
      assume "i \<in> {i. i < length ?ds \<and> j < i \<and> ?ds ! i > ?ds ! j}"
      then show "i \<in> (\<lambda>i. Suc j + i) ` {i. i < length (drop (Suc j) ?ds) \<and> drop (Suc j) ?ds ! i > ?d}"
        by (intro image_eqI [of _ _ "i - Suc j"]) (auto simp: less_diff_conv)
    qed auto
    moreover have "inj_on (\<lambda>i. Suc j + i) S" for S by (rule inj_onI) simp
    ultimately show ?thesis by (simp only: length_filter_conv_card card_image)
  qed
  also have "card {i. i < length ?ds \<and> i < j \<and> ?ds ! i \<ge> ?ds ! j} + card {i. i < length ?ds \<and> j < i \<and> ?ds ! i > ?ds ! j} =
      card ({i. i < length ?ds \<and> i < j \<and> ?ds ! i \<ge> ?ds ! j} \<union> {i. i < length ?ds \<and> j < i \<and> ?ds ! i > ?ds ! j})"
    by (rule card_Un_disjoint [symmetric]) auto
  also have "{i. i < length ?ds \<and> i < j \<and> ?ds ! i \<ge> ?ds ! j} \<union> {i. i < length ?ds \<and> j < i \<and> ?ds ! i > ?ds ! j} =
      {i. i < length ?ds \<and> goes_first ?ds i j}"
    using assms(2) by (auto simp: goes_first_def le_less) (metis linorder_neqE_nat less_irrefl)
  finally show ?thesis unfolding line.rank_def .
qed

text \<open>
  C19 (room_for_exactly_the_places). Of the tasks in line, exactly as many are not outranked as there are
  places (all, when there are more places than tasks, none, when there is no place), and a task never
  goes while one that is deeper, or as deep and earlier in line, is told to wait.
\<close>

theorem room_for_exactly_the_places:
  assumes "map (\<lambda>t. (t_id t, t_depth t)) ts = h_roomQueue h" and "distinct (map t_id ts)"
  shows "card {j. j < length ts \<and> \<not> outranked os h (ts ! j)} = min (nat (places os h)) (length ts) \<and>
    (\<forall>i j. i < length ts \<and> j < length ts \<and>
       (t_depth (ts ! i) > t_depth (ts ! j) \<or> t_depth (ts ! i) = t_depth (ts ! j) \<and> i < j) \<longrightarrow>
       \<not> outranked os h (ts ! j) \<longrightarrow> \<not> outranked os h (ts ! i))"
proof -
  let ?q = "h_roomQueue h" and ?ds = "map t_depth ts"
  have q: "distinct (mkeys ?q)" "mvalues ?q = ?ds" "length ?q = length ts"
    using assms by (auto simp: assms(1) [symmetric] comp_def)
  have rank: "ahead h (ts ! j) = line.rank ?ds j" if "j < length ts" for j
  proof -
    have "?q ! j = (t_id (ts ! j), t_depth (ts ! j))" using that assms(1) by (metis (mono_tags, lifting) nth_map)
    then show ?thesis using ahead_rank [OF q(1), of j] that q by (simp add: ahead_def)
  qed
  have free: "\<not> outranked os h (ts ! j) \<longleftrightarrow> line.rank ?ds j < nat (places os h)" if "j < length ts" for j
    using rank [OF that] by (simp add: outranked_def not_le zless_nat_eq_int_zless)
  have "{j. j < length ts \<and> \<not> outranked os h (ts ! j)} = {j. j < length ?ds \<and> line.rank ?ds j < nat (places os h)}"
    using free by auto
  then have "card {j. j < length ts \<and> \<not> outranked os h (ts ! j)} = min (nat (places os h)) (length ts)"
    using line.card_rank_less [of ?ds] by simp
  moreover have "\<not> outranked os h (ts ! i)"
    if "i < length ts" "j < length ts"
      "t_depth (ts ! i) > t_depth (ts ! j) \<or> t_depth (ts ! i) = t_depth (ts ! j) \<and> i < j"
      "\<not> outranked os h (ts ! j)" for i j
  proof -
    have "line.rank ?ds i < line.rank ?ds j"
      using that(1-3) by (intro line.rank_mono) (auto simp: goes_first_def)
    then show ?thesis using free [OF that(1)] free [OF that(2)] that(4) by simp
  qed
  ultimately show ?thesis by blast
qed

definition line_tasks :: "task_row list" where
  "line_tasks = [demo_task\<lparr>t_id := ''a''\<rparr>, demo_task\<lparr>t_id := ''b'', t_depth := 2\<rparr>, demo_task\<lparr>t_id := ''c'', t_depth := 2\<rparr>]"

lemma room_for_exactly_the_places_witness:
  "card {j. j < 3 \<and> \<not> outranked (demo_options\<lparr>op_maxCells := Some 2\<rparr>)
     (demo_hub\<lparr>h_roomQueue := [(''a'', 0), (''b'', 2), (''c'', 2)]\<rparr>) (line_tasks ! j)} = 2"
proof -
  let ?h = "demo_hub\<lparr>h_roomQueue := [(''a'', 0), (''b'', 2), (''c'', 2)]\<rparr>"
  have "map (\<lambda>t. (t_id t, t_depth t)) line_tasks = h_roomQueue ?h" "distinct (map t_id line_tasks)"
    "length line_tasks = 3"
    by (simp_all add: line_tasks_def demo_defs)
  moreover have "places (demo_options\<lparr>op_maxCells := Some 2\<rparr>) ?h = 2"
    by (simp add: places_def maxCells_def busy_def occupied_def or_else_def CELL_CEILING_def demo_defs)
  ultimately show ?thesis
    using room_for_exactly_the_places [of line_tasks ?h "demo_options\<lparr>op_maxCells := Some 2\<rparr>"] by simp
qed

end
