(* ===== verification/TreeFacts.thy ===== *)
theory TreeFacts
  imports HubTasks
begin

text \<open>
  The tasks that go with an agent: the walk of \<open>agentTaskTree\<close> ends for every database, cycles of
  parents included, and finds exactly the agent's tasks and everything delegated from them.
\<close>

section \<open>The family of an agent\<close>

inductive_set family :: "task_row list \<Rightarrow> string \<Rightarrow> string set" for ts :: "task_row list" and a :: string where
  own: "t \<in> set ts \<Longrightarrow> t_agentId t = a \<Longrightarrow> t_id t \<in> family ts a"
| child: "t \<in> set ts \<Longrightarrow> t_parentId t = Some p \<Longrightarrow> p \<in> family ts a \<Longrightarrow> t_id t \<in> family ts a"

definition ids_of :: "task_row list \<Rightarrow> string set" where
  "ids_of ts = t_id ` set ts"

definition unseen :: "store \<Rightarrow> task_row list \<Rightarrow> nat" where
  "unseen s out = card (ids_of (s_tasks s) - ids_of out)"

lemma ids_of_simps [simp]:
  "ids_of [] = {}" "ids_of (xs @ ys) = ids_of xs \<union> ids_of ys" "ids_of (x # xs) = insert (t_id x) (ids_of xs)"
  by (auto simp: ids_of_def)

lemma finite_ids [simp]: "finite (ids_of ts)"
  by (simp add: ids_of_def)

lemma set_child_rows: "set (child_rows s i) = {t \<in> set (s_tasks s). t_parentId t = Some i}"
  by (simp add: child_rows_def)

lemma unseen_less: "t \<in> set (s_tasks s) \<Longrightarrow> t_id t \<notin> ids_of out \<Longrightarrow> unseen s (out @ [t]) < unseen s out"
  unfolding unseen_def by (rule psubset_card_mono) (auto simp: ids_of_def)

lemma unseen_mono: "unseen s (out @ ys) \<le> unseen s out"
  unfolding unseen_def by (rule card_mono) auto

section \<open>What a walk adds\<close>

text \<open>
  \<open>walked s ts out out'\<close>: a walk from the rows \<open>ts\<close> leads from \<open>out\<close> to \<open>out'\<close>.  It keeps what was
  there, names no task twice, reaches the rows, and whatever it added has its children there.
\<close>

definition walked :: "store \<Rightarrow> task_row list \<Rightarrow> task_row list \<Rightarrow> task_row list \<Rightarrow> bool" where
  "walked s ts out out' \<longleftrightarrow>
     (\<exists>ys. out' = out @ ys \<and> set ys \<subseteq> set (s_tasks s) \<and> (distinct (map t_id out) \<longrightarrow> distinct (map t_id out')) \<and>
        ids_of ts \<subseteq> ids_of out' \<and> (\<forall>y\<in>set ys. ids_of (child_rows s (t_id y)) \<subseteq> ids_of out') \<and>
        (\<forall>a. ids_of ts \<subseteq> family (s_tasks s) a \<longrightarrow> ids_of ys \<subseteq> family (s_tasks s) a))"

lemma walked_nil: "walked s [] out out"
  by (simp add: walked_def)

lemma walked_there: "t_id t \<in> ids_of out \<Longrightarrow> walked s [t] out out"
  by (simp add: walked_def)

lemma walked_unseen: "walked s ts out out' \<Longrightarrow> unseen s out' \<le> unseen s out"
  unfolding walked_def by (elim exE conjE) (simp add: unseen_mono)

lemma walked_then:
  assumes "walked s [t] out mid" and "walked s ts mid out'"
  shows "walked s (t # ts) out out'"
proof -
  obtain ys where 1: "mid = out @ ys" "set ys \<subseteq> set (s_tasks s)" "distinct (map t_id out) \<longrightarrow> distinct (map t_id mid)"
      "t_id t \<in> ids_of mid" "\<forall>y\<in>set ys. ids_of (child_rows s (t_id y)) \<subseteq> ids_of mid"
      "\<forall>a. t_id t \<in> family (s_tasks s) a \<longrightarrow> ids_of ys \<subseteq> family (s_tasks s) a"
    using assms(1) by (auto simp: walked_def)
  obtain zs where 2: "out' = mid @ zs" "set zs \<subseteq> set (s_tasks s)" "distinct (map t_id mid) \<longrightarrow> distinct (map t_id out')"
      "ids_of ts \<subseteq> ids_of out'" "\<forall>y\<in>set zs. ids_of (child_rows s (t_id y)) \<subseteq> ids_of out'"
      "\<forall>a. ids_of ts \<subseteq> family (s_tasks s) a \<longrightarrow> ids_of zs \<subseteq> family (s_tasks s) a"
    using assms(2) by (auto simp: walked_def)
  have sub: "ids_of mid \<subseteq> ids_of out'" using 2(1) by simp
  show ?thesis unfolding walked_def
  proof (intro exI [of _ "ys @ zs"] conjI)
    show "\<forall>y\<in>set (ys @ zs). ids_of (child_rows s (t_id y)) \<subseteq> ids_of out'"
      using 1(5) 2(5) sub by (metis UnE set_append subset_trans)
    show "\<forall>a. ids_of (t # ts) \<subseteq> family (s_tasks s) a \<longrightarrow> ids_of (ys @ zs) \<subseteq> family (s_tasks s) a"
      using 1(6) 2(6) by simp
  qed (use 1 2 sub in auto)
qed

text \<open>A row whose children have been walked.\<close>

lemma walked_row:
  assumes t: "t \<in> set (s_tasks s)" "t_id t \<notin> ids_of out"
    and cs: "walked s (child_rows s (t_id t)) (out @ [t]) out'"
  shows "walked s [t] out out'"
proof -
  obtain ys where 1: "out' = (out @ [t]) @ ys" "set ys \<subseteq> set (s_tasks s)"
      "distinct (map t_id (out @ [t])) \<longrightarrow> distinct (map t_id out')"
      "ids_of (child_rows s (t_id t)) \<subseteq> ids_of out'" "\<forall>y\<in>set ys. ids_of (child_rows s (t_id y)) \<subseteq> ids_of out'"
      "\<forall>a. ids_of (child_rows s (t_id t)) \<subseteq> family (s_tasks s) a \<longrightarrow> ids_of ys \<subseteq> family (s_tasks s) a"
    using cs unfolding walked_def by blast
  have fam: "ids_of (child_rows s (t_id t)) \<subseteq> family (s_tasks s) a" if "t_id t \<in> family (s_tasks s) a" for a
    using that by (auto simp: ids_of_def set_child_rows intro: family.child)
  show ?thesis unfolding walked_def
  proof (intro exI [of _ "t # ys"] conjI)
    show "\<forall>a. ids_of [t] \<subseteq> family (s_tasks s) a \<longrightarrow> ids_of (t # ys) \<subseteq> family (s_tasks s) a"
      using 1(6) fam by auto
    show "distinct (map t_id out) \<longrightarrow> distinct (map t_id out')"
      using 1(3) t(2) by (auto simp: ids_of_def)
  qed (use 1 t in auto)
qed

section \<open>Fuel\<close>

text \<open>
  With more fuel than there are tasks unseen a walk is complete, and more of it changes nothing:
  the recursion of the code ends.
\<close>

definition ends :: "nat \<Rightarrow> store \<Rightarrow> bool" where
  "ends n s \<longleftrightarrow>
     (\<forall>out t k. t \<in> set (s_tasks s) \<longrightarrow> unseen s out < n \<longrightarrow>
        walked s [t] out (tree_walk n s out t) \<and> tree_walk (n + k) s out t = tree_walk n s out t)"

lemma foldl_ends:
  assumes "ends n s"
  shows "set ts \<subseteq> set (s_tasks s) \<Longrightarrow> unseen s out < n \<Longrightarrow>
    walked s ts out (foldl (tree_walk n s) out ts) \<and> foldl (tree_walk (n + k) s) out ts = foldl (tree_walk n s) out ts"
proof (induction ts arbitrary: out)
  case Nil
  then show ?case by (simp add: walked_nil)
next
  case (Cons t ts)
  let ?mid = "tree_walk n s out t"
  have t: "walked s [t] out ?mid" "tree_walk (n + k) s out t = ?mid"
    using assms Cons.prems by (simp_all add: ends_def)
  then have "unseen s ?mid < n" using walked_unseen Cons.prems(2) by (meson le_less_trans)
  then have "walked s ts ?mid (foldl (tree_walk n s) ?mid ts)" "foldl (tree_walk (n + k) s) ?mid ts = foldl (tree_walk n s) ?mid ts"
    using Cons.IH Cons.prems(1) by simp_all
  then show ?case using t walked_then by simp
qed

lemma walks_end: "ends n s"
proof (induction n)
  case 0
  then show ?case by (simp add: ends_def)
next
  case (Suc n)
  show ?case unfolding ends_def
  proof (intro allI impI)
    fix out t k
    assume t: "t \<in> set (s_tasks s)" and u: "unseen s out < Suc n"
    show "walked s [t] out (tree_walk (Suc n) s out t) \<and> tree_walk (Suc n + k) s out t = tree_walk (Suc n) s out t"
    proof (cases "t_id t \<in> ids_of out")
      case True
      then show ?thesis by (simp add: walked_there) (simp add: ids_of_def)
    next
      case False
      have "set (child_rows s (t_id t)) \<subseteq> set (s_tasks s)" by (auto simp: set_child_rows)
      moreover have "unseen s (out @ [t]) < n" using unseen_less [OF t False] u by simp
      ultimately show ?thesis
        using foldl_ends [OF Suc, of "child_rows s (t_id t)" "out @ [t]" k] walked_row [OF t False] False
        by (simp add: ids_of_def)
    qed
  qed
qed

section \<open>The tasks of an agent\<close>

definition agent_roots :: "store \<Rightarrow> string \<Rightarrow> task_row list" where
  "agent_roots s a =
     List.map_filter (\<lambda>i. find_task i (s_tasks s))
       (map t_id (sort_key t_createdAt (List.filter (\<lambda>t. t_agentId t = a) (s_tasks s))))"

lemma found_row: "t \<in> set ts \<Longrightarrow> \<exists>x. find_task (t_id t) ts = Some x"
  by (metis (mono_tags, lifting) find_None_iff find_task_def option.exhaust)

lemma found_id: "find_task i ts = Some x \<Longrightarrow> x \<in> set ts \<and> t_id x = i"
  by (auto simp: find_task_def find_Some_iff)

lemma agent_roots_set:
  "set (agent_roots s a) \<subseteq> set (s_tasks s)"
  "ids_of (agent_roots s a) = t_id ` {t \<in> set (s_tasks s). t_agentId t = a}"
proof -
  show "set (agent_roots s a) \<subseteq> set (s_tasks s)"
    by (auto simp: agent_roots_def List.map_filter_def dest: found_id)
  show "ids_of (agent_roots s a) = t_id ` {t \<in> set (s_tasks s). t_agentId t = a}"
  proof (intro equalityI subsetI)
    fix i assume "i \<in> ids_of (agent_roots s a)"
    then show "i \<in> t_id ` {t \<in> set (s_tasks s). t_agentId t = a}"
      by (auto simp: agent_roots_def List.map_filter_def ids_of_def) (metis (mono_tags, lifting) found_id image_eqI mem_Collect_eq)
  next
    fix i assume "i \<in> t_id ` {t \<in> set (s_tasks s). t_agentId t = a}"
    then obtain t where t: "t \<in> set (s_tasks s)" "t_agentId t = a" "i = t_id t" by auto
    obtain x where x: "find_task (t_id t) (s_tasks s) = Some x" using found_row [OF t(1)] by auto
    have "x \<in> set (agent_roots s a)"
      unfolding agent_roots_def List.map_filter_def
      by (simp add: image_iff) (use t x in \<open>intro exI [of _ "t_id t"], auto\<close>)
    then show "i \<in> ids_of (agent_roots s a)" using found_id [OF x] t(3) unfolding ids_of_def
      by (intro image_eqI [of _ _ x]) simp_all
  qed
qed

lemma agentTaskTree_eq:
  "agentTaskTree a w = (Inr (foldl (tree_walk (levels w) (db w)) [] (agent_roots (db w) a)), w)"
  by (simp add: agentTaskTree_def taskIdsOfAgent_def agent_roots_def on_db_def andthen_def gets_def)

text \<open>
  C7 (agent_tree_ends). The walk over the tasks of an agent ends for every database, also where parents form a cycle: no
  bound above the number of tasks changes it.  It returns exactly the agent's tasks and all tasks
  delegated from them, at any depth and to any agent, each once.
\<close>

theorem agent_tree_ends:
  "case agentTaskTree a w of
     (Inr out, w') \<Rightarrow>
       w' = w \<and> distinct (map t_id out) \<and> set out \<subseteq> set (s_tasks (db w)) \<and>
       t_id ` set out = family (s_tasks (db w)) a \<and>
       foldl (tree_walk (levels w + k) (db w)) [] (agent_roots (db w) a) = out
   | _ \<Rightarrow> False"
proof -
  let ?s = "db w"
  let ?out = "foldl (tree_walk (levels w) ?s) [] (agent_roots ?s a)"
  have "unseen ?s [] < levels w"
    using card_image_le [of "set (s_tasks ?s)" t_id] card_length [of "s_tasks ?s"] by (simp add: unseen_def levels_def ids_of_def)
  from foldl_ends [OF walks_end agent_roots_set(1) this, of a k]
  have w: "walked ?s (agent_roots ?s a) [] ?out" and k: "foldl (tree_walk (levels w + k) ?s) [] (agent_roots ?s a) = ?out"
    by auto
  from w have sub: "set ?out \<subseteq> set (s_tasks ?s)" and d: "distinct (map t_id ?out)"
    and roots: "ids_of (agent_roots ?s a) \<subseteq> ids_of ?out"
    and cs: "\<forall>y\<in>set ?out. ids_of (child_rows ?s (t_id y)) \<subseteq> ids_of ?out"
    and fam: "ids_of (agent_roots ?s a) \<subseteq> family (s_tasks ?s) a \<longrightarrow> ids_of ?out \<subseteq> family (s_tasks ?s) a"
    by (auto simp: walked_def)
  have "ids_of ?out \<subseteq> family (s_tasks ?s) a"
    using fam agent_roots_set(2) [of ?s a] by (auto intro: family.own)
  moreover have "i \<in> ids_of ?out" if "i \<in> family (s_tasks ?s) a" for i
    using that
  proof induction
    case (own t)
    then show ?case using roots agent_roots_set(2) [of ?s a] by auto
  next
    case (child t p)
    then obtain y where "y \<in> set ?out" "t_id y = p" by (auto simp: ids_of_def)
    then have "ids_of (child_rows ?s p) \<subseteq> ids_of ?out" using cs by auto
    moreover have "t_id t \<in> ids_of (child_rows ?s p)" using child by (auto simp: ids_of_def set_child_rows)
    ultimately show ?case by auto
  qed
  ultimately have "ids_of ?out = family (s_tasks ?s) a" by auto
  then show ?thesis using sub d k by (simp add: agentTaskTree_eq ids_of_def)
qed

end
