(* ===== verification/Runner.thy ===== *)
theory Runner
  imports Cell
begin

text \<open>
  \<^verbatim>\<open>packages/cell-runner/src/runner.ts\<close> and the choice of the runtime in \<^verbatim>\<open>main.ts\<close>: the program
  inside a cell.  It takes commands from the daemon, runs one turn at a time, sends its events, and
  relays the tool calls that programs of the cell make over a socket.

  An asynchronous piece is one operation: a frame of the daemon, a chunk of a tool connection, an
  event of the running turn, its error, its end.  \<open>rn_sent\<close> holds the messages written to the daemon,
  \<open>rn_runs\<close> the turns handed to the runtime, \<open>rn_answers\<close> what the callers of tools got.
  An exception that nothing catches is the error of an operation: it ends the process.
\<close>

section \<open>Commands and messages as JSON\<close>

record turn_options =
  to_model :: "string option"
  to_effort :: "string option"
  to_instructions :: "string option"
  to_mode :: string
  to_sandbox :: string
  to_workdir :: string

datatype cell_command =
  Cell_run string string "string option" turn_options
| Cell_cancel string
| Cell_response string bool "json option" "string option"

definition turnOptionsSchema :: "turn_options parser" where
  "turnOptionsSchema j = do {
     kvs \<leftarrow> strictObject [''model'', ''effort'', ''instructions'', ''instructionsMode'', ''sandbox'', ''workdir''] j;
     model \<leftarrow> optional kvs ''model'' (str_max 100);
     effort \<leftarrow> optional kvs ''effort'' (p_enum [''low'', ''medium'', ''high'', ''xhigh'']);
     instructions \<leftarrow> optional kvs ''instructions'' (str_max 200000);
     mode \<leftarrow> default_to ''append'' kvs ''instructionsMode'' (p_enum [''replace'', ''append'']);
     sandbox \<leftarrow> default_to ''cell'' kvs ''sandbox'' (p_enum [''cell'', ''codex-workspace-write'']);
     workdir \<leftarrow> needed kvs ''workdir'' (str_where (\<lambda>s. starts_with ''/'' s \<and> length s \<le> 1000));
     Some \<lparr>to_model = model, to_effort = effort, to_instructions = instructions, to_mode = mode,
       to_sandbox = sandbox, to_workdir = workdir\<rparr> }"

definition toolPayload :: "json parser" where
  "toolPayload v = (if is_object v then Some v else None)"

definition cellCommandSchema :: "cell_command parser" where
  "cellCommandSchema j =
     (case json_type j of
        None \<Rightarrow> None
      | Some ty \<Rightarrow>
          if ty = ''run'' then do {
            kvs \<leftarrow> strictObject [''type'', ''turn'', ''input'', ''resumeId'', ''options''] j;
            t \<leftarrow> needed kvs ''turn'' (str_where turnId);
            inp \<leftarrow> needed kvs ''input'' (str_where (\<lambda>s. 1 \<le> length s \<and> length s \<le> 200000));
            r \<leftarrow> optional kvs ''resumeId'' (str_max 200);
            opts \<leftarrow> needed kvs ''options'' turnOptionsSchema;
            Some (Cell_run t inp r opts) }
          else if ty = ''cancel'' then do {
            kvs \<leftarrow> strictObject [''type'', ''turn''] j;
            t \<leftarrow> needed kvs ''turn'' (str_where turnId);
            Some (Cell_cancel t) }
          else if ty = ''tool.response'' then do {
            kvs \<leftarrow> strictObject [''type'', ''id'', ''ok'', ''result'', ''error''] j;
            i \<leftarrow> needed kvs ''id'' (str_where callId);
            ok \<leftarrow> needed kvs ''ok'' p_flag;
            r \<leftarrow> optional kvs ''result'' toolPayload;
            e \<leftarrow> optional kvs ''error'' (str_max 2000);
            Some (Cell_response i ok r e) }
          else None)"

text \<open>What \<open>JSON.stringify\<close> makes of the objects sent; a field that is \<open>undefined\<close> is left out.\<close>

definition opt_field :: "string \<Rightarrow> ('a \<Rightarrow> json) \<Rightarrow> 'a option \<Rightarrow> fields" where
  "opt_field k f x = (case x of None \<Rightarrow> [] | Some v \<Rightarrow> [(k, f v)])"

definition j_nat :: "nat \<Rightarrow> json" where "j_nat n = JInt (int n)"

definition usage_json :: "(rat \<Rightarrow> json) \<Rightarrow> usage_event \<Rightarrow> json" where
  "usage_json cost u = JObj
     ((''type'', JStr ''usage'') # opt_field ''model'' JStr (ue_model u) @
      opt_field ''inputTokens'' j_nat (ue_input u) @ opt_field ''outputTokens'' j_nat (ue_output u) @
      opt_field ''cachedInputTokens'' j_nat (ue_cached u) @
      opt_field ''cacheWriteTokens'' j_nat (ue_cacheWrite u) @
      opt_field ''reasoningTokens'' j_nat (ue_reasoning u) @
      opt_field ''costUsd'' cost (ue_cost u) @ opt_field ''cumulative'' JBool (ue_cumulative u))"

fun event_json :: "(rat \<Rightarrow> json) \<Rightarrow> runtime_event \<Rightarrow> json" where
  "event_json cost (Ev_input t src) = JObj ([(''type'', JStr ''input''), (''text'', JStr t)] @
     opt_field ''source'' (\<lambda>s. JStr (case s of From_user \<Rightarrow> ''user'' | From_task \<Rightarrow> ''task'')) src)"
| "event_json cost (Ev_session_started r) = JObj [(''type'', JStr ''session.started''), (''resumeId'', JStr r)]"
| "event_json cost (Ev_text_delta t) = JObj [(''type'', JStr ''text.delta''), (''text'', JStr t)]"
| "event_json cost (Ev_message t) = JObj [(''type'', JStr ''message''), (''text'', JStr t)]"
| "event_json cost (Ev_progress t) = JObj [(''type'', JStr ''progress''), (''text'', JStr t)]"
| "event_json cost (Ev_tool_call i n t) =
     JObj [(''type'', JStr ''tool.call''), (''id'', JStr i), (''name'', JStr n), (''input'', JStr t)]"
| "event_json cost (Ev_tool_result i out e) =
     JObj [(''type'', JStr ''tool.result''), (''id'', JStr i), (''output'', JStr out), (''isError'', JBool e)]"
| "event_json cost (Ev_usage u) = usage_json cost u"
| "event_json cost (Ev_error m f) = JObj [(''type'', JStr ''error''), (''message'', JStr m), (''fatal'', JBool f)]"
| "event_json cost (Ev_notice t) = JObj [(''type'', JStr ''notice''), (''text'', JStr t)]"
| "event_json cost Ev_turn_completed = JObj [(''type'', JStr ''turn.completed'')]"

fun message_json :: "(rat \<Rightarrow> json) \<Rightarrow> cell_message \<Rightarrow> json" where
  "message_json cost (Msg_ready r v) =
     JObj [(''type'', JStr ''ready''), (''protocol'', JInt 2), (''runtime'', JStr r), (''version'', JStr v)]"
| "message_json cost (Msg_event t ev) =
     JObj [(''type'', JStr ''event''), (''turn'', JStr t), (''event'', event_json cost ev)]"
| "message_json cost (Msg_turn_end t ok) =
     JObj [(''type'', JStr ''turn.end''), (''turn'', JStr t), (''ok'', JBool ok)]"
| "message_json cost (Msg_tool_request c) =
     JObj [(''type'', JStr ''tool.request''), (''turn'', JStr (tc_turn c)), (''id'', JStr (tc_id c)),
           (''tool'', JStr (tc_tool c)), (''args'', tc_args c)]"

section \<open>The runner\<close>

text \<open>The turn in progress: whether it was aborted, and the local \<open>ok\<close> of \<open>execute\<close>.\<close>

record running =
  ru_turn :: string
  ru_aborted :: bool
  ru_ok :: bool

record call_answer =
  an_ok :: bool
  an_result :: "json option"
  an_error :: "string option"

record runner =
  rn_decoder :: decoder
  rn_current :: "running option"
  rn_pending :: "(string, nat) jsmap"
  rn_nextCall :: nat
  rn_sent :: "cell_message list"
  rn_runs :: "cell_command list"
  rn_answers :: "(nat \<times> call_answer) list"
  rn_exits :: "nat list"

definition MAX_PENDING_TOOLS :: nat where "MAX_PENDING_TOOLS = 8"

definition runner_send :: "cell_message \<Rightarrow> runner \<Rightarrow> runner" where
  "runner_send m r = r\<lparr>rn_sent := rn_sent r @ [m]\<rparr>"

definition runner_exit :: "nat \<Rightarrow> runner \<Rightarrow> runner" where
  "runner_exit code r = r\<lparr>rn_exits := rn_exits r @ [code]\<rparr>"

definition refusal :: "string \<Rightarrow> call_answer" where
  "refusal why = \<lparr>an_ok = False, an_result = None, an_error = Some why\<rparr>"

definition answer_call :: "nat \<Rightarrow> call_answer \<Rightarrow> runner \<Rightarrow> runner" where
  "answer_call k a r = r\<lparr>rn_answers := rn_answers r @ [(k, a)]\<rparr>"

text \<open>\<open>k\<close> is the caller whose promise the call resolves.\<close>

definition call_id :: "nat \<Rightarrow> string" where "call_id n = CHR ''c'' # nat_str n"

definition callTool :: "nat \<Rightarrow> string \<Rightarrow> json \<Rightarrow> runner \<Rightarrow> runner" where
  "callTool k tool args r =
     (case rn_current r of
        None \<Rightarrow> answer_call k (refusal ''no turn is running'') r
      | Some cur \<Rightarrow>
          if \<not> toolName tool then answer_call k (refusal ''unknown tool'') r
          else if (case args of JArr _ \<Rightarrow> True | _ \<Rightarrow> False)
               then answer_call k (refusal ''arguments must be an object'') r
          else if MAX_PENDING_TOOLS \<le> length (rn_pending r)
               then answer_call k (refusal ''too many tool calls at once'') r
          else (let n = rn_nextCall r + 1
                in runner_send (Msg_tool_request
                     \<lparr>tc_id = call_id n, tc_turn = ru_turn cur, tc_tool = tool, tc_args = args\<rparr>)
                     (r\<lparr>rn_nextCall := n, rn_pending := mset_key (call_id n) k (rn_pending r)\<rparr>)))"

text \<open>\<open>execute\<close>: its beginning, an event of the runtime, an error it throws, and its end.\<close>

definition exec_begin :: "cell_command \<Rightarrow> string \<Rightarrow> runner \<Rightarrow> runner" where
  "exec_begin cmd turn r =
     r\<lparr>rn_current := Some \<lparr>ru_turn = turn, ru_aborted = False, ru_ok = True\<rparr>, rn_runs := rn_runs r @ [cmd]\<rparr>"

definition fatal_event :: "runtime_event \<Rightarrow> bool" where
  "fatal_event ev \<longleftrightarrow> (case ev of Ev_error _ f \<Rightarrow> f | _ \<Rightarrow> False)"

definition exec_event :: "runtime_event \<Rightarrow> runner \<Rightarrow> runner" where
  "exec_event ev r =
     (case rn_current r of
        None \<Rightarrow> r
      | Some cur \<Rightarrow>
          runner_send (Msg_event (ru_turn cur) ev)
            (r\<lparr>rn_current := Some (cur\<lparr>ru_ok := ru_ok cur \<and> \<not> fatal_event ev\<rparr>)\<rparr>))"

definition exec_throw :: "string \<Rightarrow> runner \<Rightarrow> runner" where
  "exec_throw why r =
     (case rn_current r of
        None \<Rightarrow> r
      | Some cur \<Rightarrow>
          (let m = (if ru_aborted cur then ''interrupted'' else why)
           in runner_send (Msg_event (ru_turn cur) (Ev_error (truncate_text m MAX_EVENT_TEXT) True))
                (r\<lparr>rn_current := Some (cur\<lparr>ru_ok := False\<rparr>)\<rparr>)))"

definition exec_end :: "runner \<Rightarrow> runner" where
  "exec_end r =
     (case rn_current r of
        None \<Rightarrow> r
      | Some cur \<Rightarrow>
          runner_send (Msg_turn_end (ru_turn cur) (ru_ok cur \<and> \<not> ru_aborted cur))
            (r\<lparr>rn_current := None, rn_pending := [],
               rn_answers := rn_answers r @ map (\<lambda>k. (k, refusal ''the turn ended'')) (mvalues (rn_pending r))\<rparr>))"

text \<open>A frame of the daemon.\<close>

definition runner_command :: "cell_command \<Rightarrow> runner \<Rightarrow> runner" where
  "runner_command cmd r =
     (case cmd of
        Cell_response i ok res err \<Rightarrow>
          (case mget (rn_pending r) i of
             None \<Rightarrow> r\<lparr>rn_pending := mdelete i (rn_pending r)\<rparr>
           | Some k \<Rightarrow> answer_call k \<lparr>an_ok = ok, an_result = res, an_error = err\<rparr>
                         (r\<lparr>rn_pending := mdelete i (rn_pending r)\<rparr>))
      | Cell_cancel t \<Rightarrow>
          (case rn_current r of
             Some cur \<Rightarrow> if ru_turn cur = t then r\<lparr>rn_current := Some (cur\<lparr>ru_aborted := True\<rparr>)\<rparr> else r
           | None \<Rightarrow> r)
      | Cell_run t _ _ _ \<Rightarrow>
          if rn_current r \<noteq> None
          then runner_send (Msg_turn_end t False)
                 (runner_send (Msg_event t (Ev_error ''a turn is already running'' True)) r)
          else exec_begin cmd t r)"

definition runner_frame :: "json \<Rightarrow> runner \<Rightarrow> runner" where
  "runner_frame v r =
     (case cellCommandSchema v of
        None \<Rightarrow> runner_exit 2 r
      | Some cmd \<Rightarrow> runner_command cmd r)"

fun runner_callback :: "json callback \<Rightarrow> runner \<Rightarrow> runner" where
  "runner_callback (Frame v) r = runner_frame v r"
| "runner_callback (Failure m) r = runner_exit 2 r"

definition runner_data :: "(bytes \<Rightarrow> json option) \<Rightarrow> bytes \<Rightarrow> runner \<Rightarrow> runner" where
  "runner_data parse chunk r =
     (case push parse (\<lambda>_. None) (1024 * 1024) chunk (rn_decoder r) of
        (cbs, d) \<Rightarrow> fold runner_callback cbs (r\<lparr>rn_decoder := d\<rparr>))"

definition runner_end :: "runner \<Rightarrow> runner" where
  "runner_end r = runner_exit 0 (r\<lparr>rn_current := map_option (ru_aborted_update (\<lambda>_. True)) (rn_current r)\<rparr>)"

definition startRunner :: "string \<Rightarrow> string \<Rightarrow> runner" where
  "startRunner version runtime =
     \<lparr>rn_decoder = new_decoder, rn_current = None, rn_pending = [], rn_nextCall = 0,
      rn_sent = [Msg_ready runtime version], rn_runs = [], rn_answers = [], rn_exits = []\<rparr>"

text \<open>\<^verbatim>\<open>main.ts\<close>: the runtime the cell manager names, and the version its program prints.\<close>

definition runtime_of_env :: "string option \<Rightarrow> string" where
  "runtime_of_env name =
     (if name = Some ''claude-code'' \<or> name = Some ''hermes'' then the name else ''codex'')"

definition version_of :: "string option \<Rightarrow> string" where
  "version_of printed = (case printed of None \<Rightarrow> ''unknown'' | Some s \<Rightarrow> take 100 (js_trim s))"

section \<open>The tool socket\<close>

definition js_field :: "json \<Rightarrow> string \<Rightarrow> json option" where
  "js_field j k = (case j of JObj kvs \<Rightarrow> map_of kvs k | _ \<Rightarrow> None)"

definition js_String_field :: "json \<Rightarrow> string \<Rightarrow> string" where
  "js_String_field j k = (case js_field j k of None \<Rightarrow> ''undefined'' | Some v \<Rightarrow> js_String v)"

text \<open>A connection: \<open>cn_id\<close> names the caller, \<open>cn_written\<close> what was written besides answers.\<close>

record tool_conn =
  cn_id :: nat
  cn_buffer :: string
  cn_destroyed :: bool
  cn_written :: "string list"

definition TOOL_BUFFER :: nat where "TOOL_BUFFER = 256 * 1024"

definition tool_args :: "json \<Rightarrow> json" where
  "tool_args req =
     (case js_field req ''args'' of
        Some (JObj kvs) \<Rightarrow> JObj kvs | Some (JArr xs) \<Rightarrow> JArr xs | _ \<Rightarrow> JObj [])"

definition tools_line :: "(string \<Rightarrow> json option) \<Rightarrow> string \<Rightarrow> (runner \<times> tool_conn, unit) op" where
  "tools_line parse line =
     (case parse line of
        None \<Rightarrow> modify (apsnd (\<lambda>c. c\<lparr>cn_written := cn_written c @
          [json_text (JObj [(''ok'', JBool False), (''error'', JStr ''bad request'')]) @ [newline]]\<rparr>))
      | Some JNull \<Rightarrow> throw ''TypeError: Cannot read properties of null''
      | Some req \<Rightarrow> modify (\<lambda>(r, c). (callTool (cn_id c) (js_String_field req ''tool'') (tool_args req) r, c)))"

text \<open>The complete lines of the buffer, one after the other; the rest stays in it.\<close>

fun tools_lines :: "(string \<Rightarrow> json option) \<Rightarrow> string list \<Rightarrow> (runner \<times> tool_conn, unit) op" where
  "tools_lines parse [] = ret ()"
| "tools_lines parse [rest] = modify (apsnd (\<lambda>c. c\<lparr>cn_buffer := rest\<rparr>))"
| "tools_lines parse (line # ls) = andthen (tools_line parse line) (\<lambda>_. tools_lines parse ls)"

definition tools_data :: "(string \<Rightarrow> json option) \<Rightarrow> string \<Rightarrow> (runner \<times> tool_conn, unit) op" where
  "tools_data parse chunk =
     andthen (modify (apsnd (\<lambda>c. c\<lparr>cn_buffer := cn_buffer c @ chunk\<rparr>))) (\<lambda>_.
     andthen (gets (\<lambda>(r, c). cn_buffer c)) (\<lambda>buffer.
     if length buffer > TOOL_BUFFER then modify (apsnd (\<lambda>c. c\<lparr>cn_destroyed := True\<rparr>))
     else tools_lines parse (split_on newline buffer)))"

end
