(* ===== verification/ClaudeRuntime.thy ===== *)
theory ClaudeRuntime
  imports Runner
begin

text \<open>
  \<^verbatim>\<open>packages/cell-runner/src/claude.ts\<close>: the messages of the Agent SDK as runtime events.  The fields the
  code reads of a message are a datatype; the blocks of its content stay JSON, as the code reads them.
  The iteration over a query is the list of its messages and the error it ends with, if any.
\<close>

section \<open>Options of a query\<close>

definition CLAUDE_PATH :: string where "CLAUDE_PATH = ''/opt/claude/bin/claude''"
definition SKILLS_PLUGIN :: string where "SKILLS_PLUGIN = ''/opt/anchi-skills''"
definition ANCHI_MCP :: "string \<times> string list" where
  "ANCHI_MCP = (''/opt/node/bin/node'', [''/opt/anchi/mcp.mjs''])"

datatype system_prompt = Prompt_text string | Preset "string option"

record claude_options =
  co_executable :: string
  co_cwd :: string
  co_env :: "(string \<times> string) list"
  co_model :: "string option"
  co_resume :: "string option"
  co_permissionMode :: string
  co_skipPermissions :: bool
  co_settingSources :: "string list"
  co_mcpServers :: "(string \<times> string \<times> string list) list"
  co_plugins :: "string list"
  co_systemPrompt :: system_prompt

text \<open>\<open>options.instructions?.trim()\<close>, absent when nothing is left.\<close>

definition instructions_of :: "turn_options \<Rightarrow> string option" where
  "instructions_of opts =
     (case map_option js_trim (to_instructions opts) of Some (c # cs) \<Rightarrow> Some (c # cs) | _ \<Rightarrow> None)"

definition claudeOptions ::
  "bool \<Rightarrow> turn_options \<Rightarrow> (string \<times> string) list \<Rightarrow> string option \<Rightarrow> claude_options" where
  "claudeOptions skills opts env resumeId =
     (let instructions = instructions_of opts
      in \<lparr>co_executable = CLAUDE_PATH, co_cwd = to_workdir opts, co_env = env, co_model = to_model opts,
          co_resume = resumeId, co_permissionMode = ''bypassPermissions'', co_skipPermissions = True,
          co_settingSources = [], co_mcpServers = [(''anchi'', ANCHI_MCP)],
          co_plugins = (if skills then [SKILLS_PLUGIN] else []),
          co_systemPrompt = (case instructions of
              Some t \<Rightarrow> if to_mode opts = ''replace'' then Prompt_text t else Preset (Some t)
            | None \<Rightarrow> Preset None)\<rparr>)"

section \<open>Messages\<close>

record model_usage =
  mu_input :: nat
  mu_output :: nat
  mu_cacheRead :: nat
  mu_cacheWrite :: nat
  mu_thinking :: "nat option"
  mu_cost :: rat

record claude_result =
  cr_subtype :: string
  cr_isError :: bool
  cr_modelUsage :: "(string \<times> model_usage) list"
  cr_input :: nat
  cr_output :: nat
  cr_errors :: "string list option"

datatype sdk_message =
  Sdk_system string string
| Sdk_assistant "json list" "string option"
| Sdk_user json
| Sdk_result claude_result
| Sdk_other

definition event_text_of :: "string \<Rightarrow> string" where
  "event_text_of s = truncate_text s MAX_EVENT_TEXT"

definition block_type :: "json \<Rightarrow> string \<Rightarrow> bool" where
  "block_type b ty \<longleftrightarrow> js_field b ''type'' = Some (JStr ty)"

definition contentText :: "json option \<Rightarrow> string" where
  "contentText content =
     (case content of
        Some (JStr s) \<Rightarrow> s
      | Some (JArr bs) \<Rightarrow> join [newline] (map (\<lambda>b.
          case js_field b ''text'' of
            Some (JStr t) \<Rightarrow> if block_type b ''text'' then t else ''['' @ js_String_field b ''type'' @ '']''
          | _ \<Rightarrow> ''['' @ js_String_field b ''type'' @ '']'') bs)
      | _ \<Rightarrow> [])"

definition spoken :: "json \<Rightarrow> string \<Rightarrow> string option" where
  "spoken b k = (case js_field b k of Some (JStr t) \<Rightarrow> if js_trim t \<noteq> [] then Some t else None | _ \<Rightarrow> None)"

definition assistant_block :: "json \<Rightarrow> runtime_event list" where
  "assistant_block b =
     (if block_type b ''text'' \<and> spoken b ''text'' \<noteq> None
      then [Ev_message (event_text_of (the (spoken b ''text'')))]
      else if block_type b ''thinking'' \<and> spoken b ''thinking'' \<noteq> None
      then [Ev_progress (event_text_of (the (spoken b ''thinking'')))]
      else if block_type b ''tool_use''
      then [Ev_tool_call (take 200 (js_String_field b ''id'')) (take 200 (js_String_field b ''name''))
              (event_text_of (json_text (case js_field b ''input'' of
                 None \<Rightarrow> JObj [] | Some JNull \<Rightarrow> JObj [] | Some v \<Rightarrow> v)))]
      else [])"

definition user_block :: "json \<Rightarrow> runtime_event list" where
  "user_block b =
     (if block_type b ''tool_result''
      then [Ev_tool_result (take 200 (js_String_field b ''tool_use_id''))
              (truncate_text (contentText (js_field b ''content'')) MAX_TOOL_OUTPUT)
              (js_field b ''is_error'' = Some (JBool True))]
      else [])"

definition model_usage_event :: "string \<times> model_usage \<Rightarrow> runtime_event" where
  "model_usage_event mu =
     (case mu of (model, u) \<Rightarrow> Ev_usage
        \<lparr>ue_model = Some (take 100 model), ue_input = Some (mu_input u), ue_output = Some (mu_output u),
         ue_cached = Some (mu_cacheRead u), ue_cacheWrite = Some (mu_cacheWrite u),
         ue_reasoning = mu_thinking u, ue_cost = Some (mu_cost u), ue_cumulative = Some True\<rparr>)"

definition result_events :: "claude_result \<Rightarrow> runtime_event list" where
  "result_events r =
     (if cr_modelUsage r \<noteq> [] then map model_usage_event (cr_modelUsage r)
      else [Ev_usage \<lparr>ue_model = None, ue_input = Some (cr_input r), ue_output = Some (cr_output r),
              ue_cached = None, ue_cacheWrite = None, ue_reasoning = None, ue_cost = None,
              ue_cumulative = None\<rparr>]) @
     (if cr_subtype r \<noteq> ''success'' \<or> cr_isError r
      then (let errors = (case cr_errors r of None \<Rightarrow> [] | Some es \<Rightarrow> join ''; '' es)
            in [Ev_error (event_text_of (''Claude stopped: '' @ cr_subtype r @
                  (if errors = [] then [] else '' ('' @ errors @ '')''))) True])
      else []) @
     [Ev_turn_completed]"

fun mapClaudeMessage :: "sdk_message \<Rightarrow> runtime_event list" where
  "mapClaudeMessage (Sdk_system subtype session) =
     (if subtype = ''init'' then [Ev_session_started (take 200 session)] else [])"
| "mapClaudeMessage (Sdk_assistant content err) =
     concat (map assistant_block content) @
     (case err of None \<Rightarrow> [] | Some [] \<Rightarrow> [] | Some e \<Rightarrow> [Ev_error (''Claude: '' @ e) False])"
| "mapClaudeMessage (Sdk_user content) =
     (case content of JArr bs \<Rightarrow> concat (map user_block bs) | _ \<Rightarrow> [])"
| "mapClaudeMessage (Sdk_result r) = result_events r"
| "mapClaudeMessage Sdk_other = []"

text \<open>The events of a query that ends with the error \<open>thrown\<close>; \<open>aborted\<close> is the signal at that point.\<close>

definition claudeEvents :: "sdk_message list \<Rightarrow> string option \<Rightarrow> bool \<Rightarrow> runtime_event list" where
  "claudeEvents messages thrown aborted =
     (let evs = concat (map mapClaudeMessage messages); fatal = list_ex fatal_event evs
      in evs @ (case thrown of
          None \<Rightarrow> []
        | Some m \<Rightarrow> if \<not> aborted \<and> \<not> fatal then [Ev_error (event_text_of m) True] else []))"

end
