(* ===== verification/CodexRuntime.thy ===== *)
theory CodexRuntime
  imports ClaudeRuntime
begin

text \<open>
  \<^verbatim>\<open>packages/cell-runner/src/codex.ts\<close>: the events of a Codex thread as runtime events.  A stream is
  the list of its events and the error it ends with, if any.  Check marks of a plan are UTF-8 bytes.
\<close>

section \<open>Options of a thread\<close>

definition CODEX_PATH :: string where "CODEX_PATH = ''/opt/codex/bin/codex''"

record codex_options =
  xo_path :: string
  xo_env :: "(string \<times> string) list"
  xo_features :: "(string \<times> bool) list"
  xo_instructions :: "(string \<times> string) list"
  xo_model :: "string option"
  xo_effort :: "string option"
  xo_workdir :: string
  xo_skipGitCheck :: bool
  xo_sandboxMode :: string
  xo_network :: bool
  xo_approvalPolicy :: string

definition codexOptions :: "turn_options \<Rightarrow> (string \<times> string) list \<Rightarrow> codex_options" where
  "codexOptions opts env =
     \<lparr>xo_path = CODEX_PATH, xo_env = env, xo_features = [(''apps'', False), (''plugins'', False)],
      xo_instructions = (case instructions_of opts of
          None \<Rightarrow> []
        | Some t \<Rightarrow> [(if to_mode opts = ''replace'' then ''instructions'' else ''developer_instructions'', t)]),
      xo_model = to_model opts, xo_effort = to_effort opts, xo_workdir = to_workdir opts,
      xo_skipGitCheck = True,
      xo_sandboxMode = (if to_sandbox opts = ''cell'' then ''danger-full-access'' else ''workspace-write''),
      xo_network = True, xo_approvalPolicy = ''never''\<rparr>"

section \<open>Items\<close>

datatype thread_item =
  It_command string string string string "int option"
| It_mcp string string string json "string option" "json list option" string
| It_files string "json list" string
| It_search string string
| It_message string string
| It_reasoning string string
| It_todo string "(string \<times> bool) list"
| It_error string string

fun item_id :: "thread_item \<Rightarrow> string" where
  "item_id (It_command i _ _ _ _) = i"
| "item_id (It_mcp i _ _ _ _ _ _) = i"
| "item_id (It_files i _ _) = i"
| "item_id (It_search i _) = i"
| "item_id (It_message i _) = i"
| "item_id (It_reasoning i _) = i"
| "item_id (It_todo i _) = i"
| "item_id (It_error i _) = i"

definition event_json_text :: "json \<Rightarrow> string" where
  "event_json_text v = event_text_of (json_text v)"

fun toolCall :: "thread_item \<Rightarrow> runtime_event option" where
  "toolCall (It_command i cmd out status code) =
     Some (Ev_tool_call i ''shell'' (event_json_text (JObj [(''command'', JStr cmd)])))"
| "toolCall (It_mcp i server tool args err res status) =
     Some (Ev_tool_call i (take 200 (''mcp__'' @ server @ ''__'' @ tool)) (event_json_text args))"
| "toolCall (It_files i changes status) =
     Some (Ev_tool_call i ''apply_patch'' (event_json_text (JObj [(''changes'', JArr changes)])))"
| "toolCall (It_search i query) =
     Some (Ev_tool_call i ''web_search'' (event_json_text (JObj [(''query'', JStr query)])))"
| "toolCall _ = None"

definition result_text :: "json \<Rightarrow> string" where
  "result_text c =
     (case js_field c ''text'' of Some v \<Rightarrow> js_String v
      | None \<Rightarrow> ''['' @ js_String_field c ''type'' @ '']'')"

fun toolResult :: "thread_item \<Rightarrow> runtime_event option" where
  "toolResult (It_command i cmd out status code) =
     Some (Ev_tool_result i (truncate_text out MAX_TOOL_OUTPUT)
       (status = ''failed'' \<or> code \<noteq> None \<and> code \<noteq> Some 0))"
| "toolResult (It_mcp i server tool args err res status) =
     Some (Ev_tool_result i (truncate_text
       (case err of Some m \<Rightarrow> m
        | None \<Rightarrow> join [newline] (map result_text (case res of None \<Rightarrow> [] | Some cs \<Rightarrow> cs)))
       MAX_TOOL_OUTPUT) (status = ''failed''))"
| "toolResult (It_files i changes status) =
     Some (Ev_tool_result i (truncate_text (join [newline]
       (map (\<lambda>c. js_String_field c ''kind'' @ '' '' @ js_String_field c ''path'') changes)) MAX_TOOL_OUTPUT)
       (status = ''failed''))"
| "toolResult (It_search i query) = Some (Ev_tool_result i [] False)"
| "toolResult _ = None"

section \<open>Events\<close>

record map_state =
  ms_calls :: "string list"
  ms_warnings :: "string list"
  ms_plan :: "string option"

record codex_usage =
  cu_input :: nat
  cu_output :: nat
  cu_cached :: nat
  cu_cacheWrite :: "nat option"
  cu_reasoning :: "nat option"

datatype thread_event =
  Th_started string
| Th_item_started thread_item
| Th_item_updated thread_item
| Th_item_completed thread_item
| Th_turn_completed codex_usage
| Th_turn_failed string
| Th_error string
| Th_other

definition new_map_state :: map_state where
  "new_map_state = \<lparr>ms_calls = [], ms_warnings = [], ms_plan = None\<rparr>"

definition planText :: "(string \<times> bool) list \<Rightarrow> string" where
  "planText items =
     ''Plan: '' @ join [CHR '' '', CHR 0xC2, CHR 0xB7, CHR '' '']
       (map (\<lambda>(t, finished). (if finished then [CHR 0xE2, CHR 0x9C, CHR 0x93] else [CHR 0xE2, CHR 0x97, CHR 0x8B])
          @ '' '' @ t) items)"

definition add_once :: "'a \<Rightarrow> 'a list \<Rightarrow> 'a list" where
  "add_once x xs = (if x \<in> set xs then xs else xs @ [x])"

definition plan_event :: "(string \<times> bool) list \<Rightarrow> map_state \<Rightarrow> runtime_event list \<times> map_state" where
  "plan_event items st =
     (let plan = planText items
      in if items \<noteq> [] \<and> Some plan \<noteq> ms_plan st
         then ([Ev_progress (event_text_of plan)], st\<lparr>ms_plan := Some plan\<rparr>) else ([], st))"

definition item_started :: "thread_item \<Rightarrow> map_state \<Rightarrow> runtime_event list \<times> map_state" where
  "item_started item st =
     (case item of
        It_todo i items \<Rightarrow> plan_event items st
      | _ \<Rightarrow> (case toolCall item of
            None \<Rightarrow> ([], st)
          | Some call \<Rightarrow> ([call], st\<lparr>ms_calls := add_once (item_id item) (ms_calls st)\<rparr>)))"

definition item_updated :: "thread_item \<Rightarrow> map_state \<Rightarrow> runtime_event list \<times> map_state" where
  "item_updated item st = (case item of It_todo i items \<Rightarrow> plan_event items st | _ \<Rightarrow> ([], st))"

definition tool_completed :: "thread_item \<Rightarrow> map_state \<Rightarrow> runtime_event list \<times> map_state" where
  "tool_completed item st =
     ((if item_id item \<in> set (ms_calls st) then [] else case toolCall item of None \<Rightarrow> [] | Some c \<Rightarrow> [c]) @
      (case toolResult item of None \<Rightarrow> [] | Some r \<Rightarrow> [r]),
      st\<lparr>ms_calls := removeAll (item_id item) (ms_calls st)\<rparr>)"

fun item_completed :: "thread_item \<Rightarrow> map_state \<Rightarrow> runtime_event list \<times> map_state" where
  "item_completed (It_message i t) st = ([Ev_message (event_text_of t)], st)"
| "item_completed (It_reasoning i t) st =
     ((if js_trim t \<noteq> [] then [Ev_progress (event_text_of t)] else []), st)"
| "item_completed (It_todo i items) st = ([], st)"
| "item_completed (It_error i m) st =
     (if m \<in> set (ms_warnings st) then ([], st)
      else ([Ev_error (event_text_of m) False], st\<lparr>ms_warnings := ms_warnings st @ [m]\<rparr>))"
| "item_completed item st = tool_completed item st"

definition codex_usage_event :: "codex_usage \<Rightarrow> runtime_event" where
  "codex_usage_event u = Ev_usage
     \<lparr>ue_model = None, ue_input = Some (cu_input u), ue_output = Some (cu_output u),
      ue_cached = Some (cu_cached u), ue_cacheWrite = cu_cacheWrite u, ue_reasoning = cu_reasoning u,
      ue_cost = None, ue_cumulative = None\<rparr>"

fun mapCodexEvent :: "thread_event \<Rightarrow> map_state \<Rightarrow> runtime_event list \<times> map_state" where
  "mapCodexEvent (Th_started i) st = ([Ev_session_started (take 200 i)], st)"
| "mapCodexEvent (Th_item_started item) st = item_started item st"
| "mapCodexEvent (Th_item_updated item) st = item_updated item st"
| "mapCodexEvent (Th_item_completed item) st = item_completed item st"
| "mapCodexEvent (Th_turn_completed u) st = ([codex_usage_event u, Ev_turn_completed], st)"
| "mapCodexEvent (Th_turn_failed m) st = ([Ev_error (event_text_of m) True, Ev_turn_completed], st)"
| "mapCodexEvent (Th_error m) st = ([Ev_error (event_text_of m) False], st)"
| "mapCodexEvent Th_other st = ([], st)"

fun map_codex :: "thread_event list \<Rightarrow> map_state \<Rightarrow> runtime_event list \<times> map_state" where
  "map_codex [] st = ([], st)"
| "map_codex (e # es) st =
     (let (out, st1) = mapCodexEvent e st; (outs, st2) = map_codex es st1 in (out @ outs, st2))"

section \<open>A turn\<close>

definition NEW_SESSION_WARNING :: string where
  "NEW_SESSION_WARNING =
     ''Codex no longer has this task'' @ [CHR 0x27] @ ''s session (the agent'' @ [CHR 0x27] @
     ''s files in the VM were deleted, for example by `anchi setup reset`); '' @
     ''continuing in a new session without the earlier conversation.''"

definition missing_session :: "string \<Rightarrow> bool" where
  "missing_session e = js_includes ''no rollout found for thread id'' e"

text \<open>
  A stream: its events, the text of the error its iteration ends with, and the signal then.  \<open>runCodex\<close>
  yields events and throws what is left of an error.
\<close>

record codex_stream =
  st_events :: "thread_event list"
  st_error :: "string option"
  st_aborted :: bool

definition turn_began :: "thread_event list \<Rightarrow> bool" where
  "turn_began evs \<longleftrightarrow> list_ex (\<lambda>e. case e of Th_started _ \<Rightarrow> False | _ \<Rightarrow> True) evs"

definition runCodex ::
  "string option \<Rightarrow> codex_stream \<Rightarrow> codex_stream \<Rightarrow> runtime_event list \<times> string option" where
  "runCodex resumeId resumed fresh =
     (if resumeId = None \<or> resumeId = Some []
      then (fst (map_codex (st_events fresh) new_map_state), st_error fresh)
      else (let (out, st) = map_codex (st_events resumed) new_map_state
            in case st_error resumed of
                 None \<Rightarrow> (out, None)
               | Some e \<Rightarrow>
                   if turn_began (st_events resumed) \<or> st_aborted resumed \<or> \<not> missing_session e
                   then (out, Some e)
                   else (out @ [Ev_error NEW_SESSION_WARNING False] @ fst (map_codex (st_events fresh) st),
                         st_error fresh)))"

end
