(* ===== verification/Hermes.thy ===== *)
theory Hermes
  imports ClaudeRuntime
begin

text \<open>
  \<^verbatim>\<open>packages/cell-runner/src/hermes.ts\<close>: Hermes Agent, driven over ACP (JSON-RPC on the stdio of a child
  process).  \<open>HermesTurnState\<close> turns the updates of a prompt into events; \<open>acp\<close> is the client of the
  child; \<open>runHermes\<close> is a turn, for the outcomes of what it awaits.
\<close>

definition PLACEHOLDER_KEY :: string where
  "PLACEHOLDER_KEY = ''sk-anchi-placeholder-'' @ replicate 40 (CHR ''0'')"

definition MAX_LINE :: nat where "MAX_LINE = 8 * 1024 * 1024"

section \<open>Hermes's configuration\<close>

definition hermesConfig :: "string \<Rightarrow> string \<Rightarrow> bool \<Rightarrow> string" where
  "hermesConfig baseUrl model skills =
     join [newline]
       ([''# Written by Anchi at each start; changes here do not last.'', ''model:'',
         ''  provider: custom'',
         ''  base_url: '' @ json_string baseUrl,
         ''  default: '' @ json_string model,
         ''  api_key: '' @ json_string PLACEHOLDER_KEY,
         ''updates:'', ''  check: false'', ''model_catalog:'', ''  enabled: false'', ''security:'',
         ''  allow_lazy_installs: false'', ''approvals:'', ''  mode: '' @ json_string ''off'',
         ''telemetry:'', ''  shared_metrics:'', ''    enabled: false'', ''    send: false''] @
        (if skills
         then [''skills:'', ''  external_dirs:'', ''    - '' @ json_string (SKILLS_PLUGIN @ ''/skills'')]
         else []) @
        [[]])"

section \<open>Updates of a prompt\<close>

text \<open>\<open>obj\<close> and \<open>str\<close>: what is not an object counts as empty, what is not a string as the empty string.\<close>

definition h_str :: "json option \<Rightarrow> string" where
  "h_str v = (case v of Some (JStr s) \<Rightarrow> s | _ \<Rightarrow> [])"

definition h_field :: "json option \<Rightarrow> string \<Rightarrow> json option" where
  "h_field v k = Option.bind v (\<lambda>j. js_field j k)"

definition acp_text :: "json \<Rightarrow> string" where
  "acp_text c =
     (let content = js_field c ''content''
      in if h_field content ''type'' = Some (JStr ''text'') then h_str (h_field content ''text'') else [])"

definition acp_contentText :: "json option \<Rightarrow> string" where
  "acp_contentText content =
     (case content of
        Some (JArr cs) \<Rightarrow> join [newline] (List.filter (\<lambda>s. s \<noteq> []) (map acp_text cs)) | _ \<Rightarrow> [])"

record hermes_turn_state =
  hm_message :: string
  hm_thought :: string

definition new_turn_state :: hermes_turn_state where
  "new_turn_state = \<lparr>hm_message = [], hm_thought = []\<rparr>"

type_synonym hermes_step = "runtime_event list \<times> hermes_turn_state"

definition flushThought :: "hermes_turn_state \<Rightarrow> hermes_step" where
  "flushThought s =
     (let t = js_trim (hm_thought s)
      in (if t \<noteq> [] then [Ev_progress (event_text_of t)] else [], s\<lparr>hm_thought := []\<rparr>))"

definition flushMessage :: "hermes_turn_state \<Rightarrow> hermes_step" where
  "flushMessage s =
     (let t = js_trim (hm_message s)
      in (if t \<noteq> [] then [Ev_message (event_text_of t)] else [], s\<lparr>hm_message := []\<rparr>))"

definition flush :: "hermes_turn_state \<Rightarrow> hermes_step" where
  "flush s = (let (a, s1) = flushThought s; (b, s2) = flushMessage s1 in (a @ b, s2))"

definition or_empty :: "string \<Rightarrow> string \<Rightarrow> string" where
  "or_empty s d = (if s = [] then d else s)"

definition tool_id :: "json \<Rightarrow> string" where
  "tool_id u = or_empty (take 200 (h_str (js_field u ''toolCallId''))) ''tool''"

definition raw_text :: "json option \<Rightarrow> string" where
  "raw_text v = (case v of None \<Rightarrow> [] | Some j \<Rightarrow> json_text j)"

definition hermes_result :: "json \<Rightarrow> runtime_event" where
  "hermes_result u = Ev_tool_result (tool_id u)
     (truncate_text (or_empty (acp_contentText (js_field u ''content'')) (raw_text (js_field u ''rawOutput'')))
        MAX_TOOL_OUTPUT)
     (js_field u ''status'' = Some (JStr ''failed''))"

definition tool_over :: "json \<Rightarrow> bool" where
  "tool_over u \<longleftrightarrow> js_field u ''status'' \<in> {Some (JStr ''completed''), Some (JStr ''failed'')}"

definition hermes_call :: "json \<Rightarrow> runtime_event" where
  "hermes_call u = Ev_tool_call (tool_id u)
     (take 200 (or_empty (h_str (js_field u ''title'')) (or_empty (h_str (js_field u ''kind'')) ''tool'')))
     (event_text_of (case js_field u ''rawInput'' of
        Some v \<Rightarrow> json_text v | None \<Rightarrow> acp_contentText (js_field u ''content'')))"

definition plan_line :: "json \<Rightarrow> string" where
  "plan_line e =
     (if js_field e ''status'' = Some (JStr ''completed'') then ''[x]''
      else if js_field e ''status'' = Some (JStr ''in_progress'') then ''[~]'' else ''[ ]'') @
     '' '' @ h_str (js_field e ''content'')"

definition plan_entries :: "json \<Rightarrow> json list" where
  "plan_entries u = (case js_field u ''entries'' of Some (JArr es) \<Rightarrow> es | _ \<Rightarrow> [])"

definition is_text :: "json option \<Rightarrow> bool" where
  "is_text c \<longleftrightarrow> h_field c ''type'' = Some (JStr ''text'')"

definition hermes_update :: "json \<Rightarrow> hermes_turn_state \<Rightarrow> hermes_step" where
  "hermes_update u s =
     (let kind = h_str (js_field u ''sessionUpdate''); c = js_field u ''content''
      in if kind = ''agent_message_chunk''
         then (if is_text c
               then (let (out, s1) = flushThought s
                     in (out, s1\<lparr>hm_message := hm_message s1 @ h_str (h_field c ''text'')\<rparr>))
               else ([], s))
         else if kind = ''agent_thought_chunk''
         then (if is_text c
               then (let (out, s1) = flushMessage s
                     in (out, s1\<lparr>hm_thought := hm_thought s1 @ h_str (h_field c ''text'')\<rparr>))
               else ([], s))
         else if kind = ''plan''
         then ((if plan_entries u \<noteq> []
                then [Ev_progress (event_text_of (join [newline] (map plan_line (plan_entries u))))] else []), s)
         else if kind = ''tool_call''
         then (let (out, s1) = flush s
               in (out @ [hermes_call u] @ (if tool_over u then [hermes_result u] else []), s1))
         else if kind = ''tool_call_update''
         then ((if tool_over u then [hermes_result u] else []), s)
         else ([], s))"

fun hermes_updates :: "json list \<Rightarrow> hermes_turn_state \<Rightarrow> hermes_step" where
  "hermes_updates [] s = ([], s)"
| "hermes_updates (u # us) s =
     (let (out, s1) = hermes_update u s; (outs, s2) = hermes_updates us s1 in (out @ outs, s2))"

text \<open>The events that end a turn; \<open>floor\<close> is the integer part of a number's text.\<close>

definition h_count :: "(string \<Rightarrow> int) \<Rightarrow> json option \<Rightarrow> nat option" where
  "h_count fl v =
     (case v of
        Some (JInt n) \<Rightarrow> if 0 \<le> n then Some (nat n) else None
      | Some (JReal t) \<Rightarrow> if 0 \<le> fl t then Some (nat (fl t)) else None
      | _ \<Rightarrow> None)"

definition promptResult :: "(string \<Rightarrow> int) \<Rightarrow> json \<Rightarrow> string \<Rightarrow> runtime_event list" where
  "promptResult fl r model =
     (let usage = js_field r ''usage''; count = (\<lambda>k. h_count fl (h_field usage k));
          stop = h_str (js_field r ''stopReason'')
      in (case usage of
            Some (JObj (kv # kvs)) \<Rightarrow>
              [Ev_usage \<lparr>ue_model = Some (take 100 model), ue_input = count ''inputTokens'',
                 ue_output = count ''outputTokens'', ue_cached = count ''cachedReadTokens'',
                 ue_cacheWrite = count ''cachedWriteTokens'', ue_reasoning = count ''thoughtTokens'',
                 ue_cost = None, ue_cumulative = None\<rparr>]
          | _ \<Rightarrow> []) @
         (if stop \<noteq> [] \<and> stop \<noteq> ''end_turn'' \<and> stop \<noteq> ''cancelled''
          then [Ev_error (event_text_of (''Hermes stopped: '' @ stop)) False] else []) @
         [Ev_turn_completed])"

section \<open>The ACP client\<close>

text \<open>
  \<open>ac_settled\<close> holds the requests whose promise was settled, \<open>ac_updates\<close> the session updates handed to
  \<open>onUpdate\<close>, \<open>ac_written\<close> the messages written to the child.
\<close>

record acp =
  ac_next :: nat
  ac_pending :: "nat list"
  ac_buffer :: string
  ac_settled :: "(nat \<times> json result) list"
  ac_updates :: "json list"
  ac_written :: "json list"
  ac_killed :: bool

definition new_acp :: acp where
  "new_acp = \<lparr>ac_next = 1, ac_pending = [], ac_buffer = [], ac_settled = [], ac_updates = [],
     ac_written = [], ac_killed = False\<rparr>"

definition acp_write :: "json \<Rightarrow> acp \<Rightarrow> acp" where
  "acp_write m a = a\<lparr>ac_written := ac_written a @ [m]\<rparr>"

definition acp_request :: "string \<Rightarrow> json \<Rightarrow> acp \<Rightarrow> acp" where
  "acp_request meth params a =
     acp_write (JObj [(''jsonrpc'', JStr ''2.0''), (''id'', j_nat (ac_next a)), (''method'', JStr meth),
                      (''params'', params)])
       (a\<lparr>ac_next := ac_next a + 1, ac_pending := ac_pending a @ [ac_next a]\<rparr>)"

definition acp_notify :: "string \<Rightarrow> json \<Rightarrow> acp \<Rightarrow> acp" where
  "acp_notify meth params a =
     acp_write (JObj [(''jsonrpc'', JStr ''2.0''), (''method'', JStr meth), (''params'', params)]) a"

definition acp_obj :: "json option \<Rightarrow> json" where
  "acp_obj v = (case v of Some (JObj kvs) \<Rightarrow> JObj kvs | _ \<Rightarrow> JObj [])"

text \<open>A request of the agent: permissions are granted, nothing else is offered.\<close>

definition permission_options :: "json \<Rightarrow> json list" where
  "permission_options params =
     (case js_field params ''options'' of Some (JArr os) \<Rightarrow> map (\<lambda>x. acp_obj (Some x)) os | _ \<Rightarrow> [])"

definition allow_option :: "json list \<Rightarrow> json option" where
  "allow_option os =
     (case find (\<lambda>x. js_field x ''kind'' = Some (JStr ''allow_always'')) os of
        Some x \<Rightarrow> Some x | None \<Rightarrow> find (\<lambda>x. js_field x ''kind'' = Some (JStr ''allow_once'')) os)"

definition acp_answer :: "json \<Rightarrow> string \<Rightarrow> json \<Rightarrow> acp \<Rightarrow> acp" where
  "acp_answer i meth params a =
     (if meth = ''session/request_permission''
      then acp_write (JObj [(''jsonrpc'', JStr ''2.0''), (''id'', i), (''result'', JObj [(''outcome'',
             case allow_option (permission_options params) of
               Some x \<Rightarrow> JObj [(''outcome'', JStr ''selected''), (''optionId'', JStr (h_str (js_field x ''optionId'')))]
             | None \<Rightarrow> JObj [(''outcome'', JStr ''cancelled'')])])]) a
      else acp_write (JObj [(''jsonrpc'', JStr ''2.0''), (''id'', i), (''error'',
             JObj [(''code'', JInt (- 32601)), (''message'', JStr (meth @ '' not supported''))])]) a)"

definition acp_settle :: "nat \<Rightarrow> json result \<Rightarrow> acp \<Rightarrow> acp" where
  "acp_settle n r a = a\<lparr>ac_pending := removeAll n (ac_pending a), ac_settled := ac_settled a @ [(n, r)]\<rparr>"

definition acp_id :: "json option \<Rightarrow> nat option" where
  "acp_id v = (case v of Some (JInt n) \<Rightarrow> if 0 \<le> n then Some (nat n) else None | _ \<Rightarrow> None)"

definition acp_message :: "(string \<Rightarrow> json option) \<Rightarrow> string \<Rightarrow> acp \<Rightarrow> acp" where
  "acp_message parse line a =
     (case parse line of
        None \<Rightarrow> a
      | Some v \<Rightarrow>
          (let m = acp_obj (Some v)
           in case js_field m ''method'' of
                Some (JStr meth) \<Rightarrow>
                  (case js_field m ''id'' of
                     Some i \<Rightarrow> acp_answer i meth (acp_obj (js_field m ''params'')) a
                   | None \<Rightarrow>
                       if meth = ''session/update''
                       then a\<lparr>ac_updates := ac_updates a @ [acp_obj (js_field m ''params'')]\<rparr> else a)
              | _ \<Rightarrow>
                  (case acp_id (js_field m ''id'') of
                     Some n \<Rightarrow>
                       if n \<in> set (ac_pending a)
                       then acp_settle n (case js_field m ''error'' of
                            Some e \<Rightarrow> Inl (Error (or_empty (h_str (js_field e ''message'')) ''ACP error''))
                          | None \<Rightarrow> Inr (case js_field m ''result'' of None \<Rightarrow> JNull | Some r \<Rightarrow> r)) a
                       else a
                   | None \<Rightarrow> a)))"

fun acp_lines :: "(string \<Rightarrow> json option) \<Rightarrow> string list \<Rightarrow> acp \<Rightarrow> acp" where
  "acp_lines parse [] a = a"
| "acp_lines parse [rest] a = a\<lparr>ac_buffer := rest\<rparr>"
| "acp_lines parse (line # ls) a =
     acp_lines parse ls (if js_trim line = [] then a else acp_message parse (js_trim line) a)"

definition acp_data :: "(string \<Rightarrow> json option) \<Rightarrow> string \<Rightarrow> acp \<Rightarrow> acp" where
  "acp_data parse chunk a =
     (let buffer = ac_buffer a @ chunk
      in if length buffer > MAX_LINE \<and> newline \<notin> set buffer
         then a\<lparr>ac_buffer := buffer, ac_killed := True\<rparr>
         else acp_lines parse (split_on newline buffer) a)"

text \<open>The child exited: every request still waiting fails.\<close>

definition acp_exited :: "string \<Rightarrow> acp \<Rightarrow> acp" where
  "acp_exited reason a =
     a\<lparr>ac_pending := [], ac_settled := ac_settled a @ map (\<lambda>n. (n, Inl (Error reason))) (ac_pending a)\<rparr>"

section \<open>A turn\<close>

text \<open>
  The files \<open>start\<close> writes before it starts Hermes: the configuration and the persona; without
  instructions the persona is removed.
\<close>

record hermes_files =
  hf_home :: string
  hf_config :: string
  hf_soul :: "string option"

definition env_get :: "(string \<times> string) list \<Rightarrow> string \<Rightarrow> string \<Rightarrow> string" where
  "env_get env k d = (case map_of env k of None \<Rightarrow> d | Some v \<Rightarrow> v)"

definition hermes_model :: "turn_options \<Rightarrow> (string \<times> string) list \<Rightarrow> string" where
  "hermes_model opts env =
     or_empty (case to_model opts of None \<Rightarrow> [] | Some m \<Rightarrow> m) (env_get env ''ANCHI_HERMES_MODEL'' [])"

definition hermes_start :: "bool \<Rightarrow> turn_options \<Rightarrow> (string \<times> string) list \<Rightarrow> hermes_files result" where
  "hermes_start skills opts env =
     (let home = env_get env ''HERMES_HOME'' (env_get env ''HOME'' ''/home/agent'' @ ''/.hermes'');
          baseUrl = env_get env ''ANCHI_HERMES_BASE_URL'' [];
          model = hermes_model opts env
      in if baseUrl = [] \<or> model = [] then Inl (Error ''Hermes has no endpoint; run `anchi setup hermes`'')
         else Inr \<lparr>hf_home = home, hf_config = hermesConfig baseUrl model skills,
                   hf_soul = map_option (\<lambda>t. t @ [newline]) (instructions_of opts)\<rparr>)"

definition initialize_params :: json where
  "initialize_params = JObj [(''protocolVersion'', JInt 1),
     (''clientCapabilities'', JObj [(''fs'', JObj [(''readTextFile'', JBool False), (''writeTextFile'', JBool False)]),
        (''terminal'', JBool False)]),
     (''clientInfo'', JObj [(''name'', JStr ''anchi''), (''version'', JStr ''1'')])]"

definition MCP_SERVERS :: json where
  "MCP_SERVERS = JArr [JObj [(''name'', JStr ''anchi''), (''command'', JStr (fst ANCHI_MCP)),
     (''args'', JArr (map JStr (snd ANCHI_MCP))), (''env'', JArr [])]]"

text \<open>The request that opens a session, and the session id for its answer.\<close>

definition open_request :: "string option \<Rightarrow> string \<Rightarrow> string \<times> json" where
  "open_request resumeId cwd =
     (case resumeId of
        Some (c # cs) \<Rightarrow> (''session/resume'',
          JObj [(''sessionId'', JStr (c # cs)), (''cwd'', JStr cwd), (''mcpServers'', MCP_SERVERS)])
      | _ \<Rightarrow> (''session/new'', JObj [(''cwd'', JStr cwd), (''mcpServers'', MCP_SERVERS)]))"

definition opened_session :: "string option \<Rightarrow> json \<Rightarrow> string result" where
  "opened_session resumeId r =
     (case resumeId of
        Some (c # cs) \<Rightarrow>
          Inr (or_empty (h_str (h_field (h_field (h_field (js_field r ''_meta'') ''hermes'') ''sessionProvenance'')
            ''acpSessionId'')) (c # cs))
      | _ \<Rightarrow>
          (let i = h_str (js_field r ''sessionId'')
           in if i = [] then Inl (Error ''Hermes did not start a session'') else Inr i))"

definition set_mode_request :: "string \<Rightarrow> string \<times> json" where
  "set_mode_request i = (''session/set_mode'', JObj [(''sessionId'', JStr i), (''modeId'', JStr ''dont_ask'')])"

text \<open>
  What a turn awaits, in order, with the signal where the code checks it: the start of Hermes (when no
  process runs), the session (when none is open), the updates while the prompt runs, its answer.
\<close>

record hermes_script =
  hx_aborted_first :: bool
  hx_start :: "unit result"
  hx_aborted_started :: bool
  hx_session :: "string option"
  hx_open :: "string result"
  hx_aborted_open :: bool
  hx_updates :: "json list"
  hx_answer :: "json result"
  hx_aborted_end :: bool

text \<open>The events of a turn, the session it leaves, and whether the prompt ran.\<close>

type_synonym hermes_outcome = "runtime_event list \<times> string option \<times> bool"

definition hermes_error :: "bool \<Rightarrow> js_error \<Rightarrow> runtime_event list" where
  "hermes_error aborted e =
     (if aborted then [] else [Ev_error (event_text_of (''Hermes: '' @ message e)) True])"

definition session_updates :: "string \<Rightarrow> json list \<Rightarrow> json list" where
  "session_updates sid ps =
     map (\<lambda>p. acp_obj (js_field p ''update''))
       (List.filter (\<lambda>p. js_field p ''sessionId'' = Some (JStr sid)) ps)"

definition hermes_prompt :: "(string \<Rightarrow> int) \<Rightarrow> string \<Rightarrow> string \<Rightarrow> hermes_script \<Rightarrow> runtime_event list" where
  "hermes_prompt fl model sid x =
     (let (out, s1) = hermes_updates (session_updates sid (hx_updates x)) new_turn_state;
          (rest, s2) = flush s1
      in out @ rest @ (case hx_answer x of
          Inr r \<Rightarrow> promptResult fl r model
        | Inl e \<Rightarrow> fst (flush s2) @ hermes_error (hx_aborted_end x) e))"

definition runHermes :: "(string \<Rightarrow> int) \<Rightarrow> string \<Rightarrow> hermes_script \<Rightarrow> hermes_outcome" where
  "runHermes fl model x =
     (if hx_aborted_first x then ([], hx_session x, False)
      else case hx_start x of
        Inl e \<Rightarrow> (hermes_error (hx_aborted_end x) e, hx_session x, False)
      | Inr _ \<Rightarrow>
          if hx_aborted_started x then ([], hx_session x, False)
          else (case hx_session x of
              Some (c # cs) \<Rightarrow> (hermes_prompt fl model (c # cs) x, hx_session x, True)
            | _ \<Rightarrow>
                (case hx_open x of
                   Inl e \<Rightarrow> (hermes_error (hx_aborted_end x) e, hx_session x, False)
                 | Inr sid \<Rightarrow>
                     if hx_aborted_open x then ([], Some sid, False)
                     else ([Ev_session_started (take 200 sid)] @ hermes_prompt fl model sid x, Some sid, True))))"

end
