(* ===== verification/RuntimeFacts.thy ===== *)
theory RuntimeFacts
  imports CodexRuntime Hermes
begin

text \<open>
  Facts about the three runtimes of a cell: every event they produce is one the daemon accepts, a turn
  is reported once, tool results follow their calls.
\<close>

named_theorems valid_events "events that the daemon's schema accepts"

section \<open>Cut texts\<close>

text \<open>A text of a JavaScript program: V8 refuses longer ones.\<close>

definition js_sized :: "string \<Rightarrow> bool" where
  "js_sized s \<longleftrightarrow> length s < 2 ^ 31"

lemma length_nat_str: "n < 10 ^ Suc k \<Longrightarrow> length (nat_str n) \<le> Suc k"
proof (induction k arbitrary: n)
  case 0
  then show ?case by (simp add: nat_str.simps [of n])
next
  case (Suc k)
  then have "n div 10 < 10 ^ Suc k" by (simp add: less_mult_imp_div_less mult.commute)
  from Suc.IH [OF this] show ?case by (subst nat_str.simps) simp
qed

lemma truncate_marker_length: "n < 2 ^ 31 \<Longrightarrow> length (truncate_marker n) \<le> 38"
  using length_nat_str [of n 9] by (simp add: truncate_marker_def)

lemma truncate_text_le: "js_sized s \<Longrightarrow> 38 \<le> m \<Longrightarrow> length (truncate_text s m) \<le> m"
proof -
  assume "js_sized s" and "38 \<le> m"
  moreover have "length s - m < 2 ^ 31" if "length s < 2 ^ 31" using that by (rule less_imp_diff_less)
  ultimately have "length (truncate_marker (length s - m)) \<le> m"
    using truncate_marker_length [of "length s - m"] unfolding js_sized_def by linarith
  then show ?thesis by (simp add: truncate_text_def Let_def)
qed

lemma event_text_le: "js_sized s \<Longrightarrow> length (event_text_of s) \<le> MAX_EVENT_TEXT"
  unfolding event_text_of_def by (rule truncate_text_le) (simp_all add: MAX_EVENT_TEXT_def)

lemma tool_output_le: "js_sized s \<Longrightarrow> length (truncate_text s MAX_TOOL_OUTPUT) \<le> MAX_TOOL_OUTPUT"
  by (rule truncate_text_le) (simp_all add: MAX_TOOL_OUTPUT_def)

lemma valid_text [valid_events]:
  "js_sized s \<Longrightarrow> runtimeEventSchema (Ev_message (event_text_of s))"
  "js_sized s \<Longrightarrow> runtimeEventSchema (Ev_progress (event_text_of s))"
  "js_sized s \<Longrightarrow> runtimeEventSchema (Ev_error (event_text_of s) f)"
  by (simp_all add: event_text_le)

lemma valid_call [valid_events]:
  "event_id_ok i \<Longrightarrow> js_sized s \<Longrightarrow> length n \<le> 200 \<Longrightarrow> runtimeEventSchema (Ev_tool_call i n (event_text_of s))"
  by (simp add: event_text_le)

lemma valid_result [valid_events]:
  "event_id_ok i \<Longrightarrow> js_sized s \<Longrightarrow> runtimeEventSchema (Ev_tool_result i (truncate_text s MAX_TOOL_OUTPUT) e)"
  by (simp add: tool_output_le)

lemma cut_id: "s \<noteq> [] \<Longrightarrow> event_id_ok (take 200 s)"
  by (cases s) (auto simp: event_id_ok_def)

lemma js_sized_trim: "js_sized s \<Longrightarrow> js_sized (js_trim s)"
proof -
  have "length (js_trim s) \<le> length s"
    unfolding js_trim_def by (metis length_dropWhile_le length_rev order_trans)
  then show "js_sized s \<Longrightarrow> js_sized (js_trim s)" by (simp add: js_sized_def)
qed

section \<open>Claude\<close>

text \<open>
  What is asked of the SDK: texts have the size of a JavaScript text, calls and sessions have ids,
  errors of a message are one of its short names, costs are not negative.
\<close>

definition block_ok :: "json \<Rightarrow> bool" where
  "block_ok b \<longleftrightarrow>
     (\<forall>k \<in> {''text'', ''thinking''}. \<forall>t. js_field b k = Some (JStr t) \<longrightarrow> js_sized t) \<and>
     js_sized (json_text (case js_field b ''input'' of None \<Rightarrow> JObj [] | Some JNull \<Rightarrow> JObj [] | Some v \<Rightarrow> v)) \<and>
     js_sized (contentText (js_field b ''content'')) \<and>
     js_String_field b ''id'' \<noteq> [] \<and> js_String_field b ''tool_use_id'' \<noteq> []"

fun sdk_ok :: "sdk_message \<Rightarrow> bool" where
  "sdk_ok (Sdk_system subtype session) = (session \<noteq> [])"
| "sdk_ok (Sdk_assistant content err) =
     (list_all block_ok content \<and> (case err of None \<Rightarrow> True | Some e \<Rightarrow> length e \<le> 100))"
| "sdk_ok (Sdk_user content) = (case content of JArr bs \<Rightarrow> list_all block_ok bs | _ \<Rightarrow> True)"
| "sdk_ok (Sdk_result r) =
     (list_all (\<lambda>(m, u). 0 \<le> mu_cost u) (cr_modelUsage r) \<and> length (cr_subtype r) \<le> 100 \<and>
      (case cr_errors r of None \<Rightarrow> True | Some es \<Rightarrow> length (join ''; '' es) < 2 ^ 30))"
| "sdk_ok Sdk_other = True"

lemma spoken_sized: "block_ok b \<Longrightarrow> spoken b k = Some t \<Longrightarrow> k \<in> {''text'', ''thinking''} \<Longrightarrow> js_sized t"
  by (auto simp: block_ok_def spoken_def split: option.splits json.splits if_splits)

lemma list_all_if: "(b \<Longrightarrow> list_all P xs) \<Longrightarrow> (\<not> b \<Longrightarrow> list_all P ys) \<Longrightarrow> list_all P (if b then xs else ys)"
  by simp

lemma list_all_one: "P x \<Longrightarrow> list_all P [x]"
  by simp

lemma assistant_block_valid:
  assumes "block_ok b"
  shows "list_all runtimeEventSchema (assistant_block b)"
proof -
  have "js_sized (the (spoken b k))" if "spoken b k \<noteq> None" and "k \<in> {''text'', ''thinking''}" for k
    using that spoken_sized [OF assms] by (metis option.collapse)
  moreover have "js_String_field b ''id'' \<noteq> []"
    and "js_sized (json_text (case js_field b ''input'' of None \<Rightarrow> JObj [] | Some JNull \<Rightarrow> JObj [] | Some v \<Rightarrow> v))"
    using assms unfolding block_ok_def by blast+
  ultimately show ?thesis unfolding assistant_block_def
    by (intro list_all_if list_all_one valid_events cut_id) (simp_all del: runtimeEventSchema.simps)
qed

lemma user_block_valid:
  assumes "block_ok b"
  shows "list_all runtimeEventSchema (user_block b)"
proof -
  have "js_String_field b ''tool_use_id'' \<noteq> []" and "js_sized (contentText (js_field b ''content''))"
    using assms unfolding block_ok_def by blast+
  then show ?thesis unfolding user_block_def by (intro list_all_if list_all_one valid_events cut_id) simp_all
qed

lemma stopped_sized:
  "length a \<le> 100 \<Longrightarrow> length b < 2 ^ 30 \<Longrightarrow> js_sized (''Claude stopped: '' @ a @ (if b = [] then [] else '' ('' @ b @ '')''))"
  by (simp add: js_sized_def)

lemma result_events_valid:
  assumes "sdk_ok (Sdk_result r)"
  shows "list_all runtimeEventSchema (result_events r)"
proof -
  have "runtimeEventSchema (model_usage_event mu)" if "mu \<in> set (cr_modelUsage r)" for mu
    using assms that by (auto simp: model_usage_event_def list_all_iff split: prod.splits)
  moreover have "js_sized (''Claude stopped: '' @ cr_subtype r @ (if errors = [] then [] else '' ('' @ errors @ '')''))"
    if "errors = (case cr_errors r of None \<Rightarrow> [] | Some es \<Rightarrow> join ''; '' es)" for errors
    by (rule stopped_sized) (use assms that in \<open>auto split: option.splits\<close>)
  ultimately show ?thesis
    by (auto simp: result_events_def Let_def list_all_iff simp del: runtimeEventSchema.simps(9) append_Cons
        intro!: valid_events)
qed

lemma mapClaudeMessage_valid: "sdk_ok m \<Longrightarrow> list_all runtimeEventSchema (mapClaudeMessage m)"
proof (cases m)
  case (Sdk_assistant content err)
  assume "sdk_ok m"
  then have "\<forall>b \<in> set content. list_all runtimeEventSchema (assistant_block b)"
    and "\<forall>e. err = Some e \<longrightarrow> length e \<le> 100"
    using Sdk_assistant assistant_block_valid by (auto simp: list_all_iff split: option.splits)
  then show ?thesis using Sdk_assistant
    by (auto simp: list_all_iff MAX_EVENT_TEXT_def split: option.splits list.splits)
next
  case (Sdk_user content)
  assume "sdk_ok m"
  then have "\<forall>b \<in> set bs. list_all runtimeEventSchema (user_block b)" if "content = JArr bs" for bs
    using that Sdk_user user_block_valid by (auto simp: list_all_iff)
  then show ?thesis using Sdk_user by (auto simp: list_all_iff split: json.split)
next
  case (Sdk_result r)
  assume "sdk_ok m"
  with Sdk_result show ?thesis using result_events_valid by simp
qed (simp_all add: cut_id)

lemma claudeEvents_valid:
  assumes "list_all sdk_ok ms" and "\<forall>m. thrown = Some m \<longrightarrow> js_sized m"
  shows "list_all runtimeEventSchema (claudeEvents ms thrown aborted)"
proof -
  have "list_all runtimeEventSchema (concat (map mapClaudeMessage ms))"
    using assms(1) mapClaudeMessage_valid unfolding list_all_iff by fastforce
  then show ?thesis using assms(2) unfolding claudeEvents_def Let_def
    by (auto simp: simp del: runtimeEventSchema.simps split: option.splits intro!: valid_events)
qed

section \<open>Codex\<close>

text \<open>Codex's items have ids of at most 200 characters, and texts of a JavaScript program.\<close>

fun call_text :: "thread_item \<Rightarrow> string" where
  "call_text (It_command i cmd out status code) = json_text (JObj [(''command'', JStr cmd)])"
| "call_text (It_mcp i server tool args err res status) = json_text args"
| "call_text (It_files i changes status) = json_text (JObj [(''changes'', JArr changes)])"
| "call_text (It_search i query) = json_text (JObj [(''query'', JStr query)])"
| "call_text (It_message i t) = t"
| "call_text (It_reasoning i t) = t"
| "call_text (It_todo i items) = planText items"
| "call_text (It_error i m) = m"

fun result_output :: "thread_item \<Rightarrow> string" where
  "result_output (It_command i cmd out status code) = out"
| "result_output (It_mcp i server tool args err res status) =
     (case err of Some m \<Rightarrow> m | None \<Rightarrow> join [newline] (map result_text (case res of None \<Rightarrow> [] | Some cs \<Rightarrow> cs)))"
| "result_output (It_files i changes status) =
     join [newline] (map (\<lambda>c. js_String_field c ''kind'' @ '' '' @ js_String_field c ''path'') changes)"
| "result_output _ = []"

definition item_ok :: "thread_item \<Rightarrow> bool" where
  "item_ok item \<longleftrightarrow> event_id_ok (item_id item) \<and> js_sized (call_text item) \<and> js_sized (result_output item)"

fun thread_ok :: "thread_event \<Rightarrow> bool" where
  "thread_ok (Th_started i) = (i \<noteq> [])"
| "thread_ok (Th_item_started item) = item_ok item"
| "thread_ok (Th_item_updated item) = item_ok item"
| "thread_ok (Th_item_completed item) = item_ok item"
| "thread_ok (Th_turn_completed u) = True"
| "thread_ok (Th_turn_failed m) = js_sized m"
| "thread_ok (Th_error m) = js_sized m"
| "thread_ok Th_other = True"

lemma toolCall_valid: "item_ok item \<Longrightarrow> toolCall item = Some c \<Longrightarrow> runtimeEventSchema c"
  by (cases item; simp only: toolCall.simps option.inject option.distinct event_json_text_def item_ok_def
      call_text.simps item_id.simps; elim conjE; hypsubst; rule valid_call; simp)

lemma toolResult_valid: "item_ok item \<Longrightarrow> toolResult item = Some r \<Longrightarrow> runtimeEventSchema r"
proof (cases item)
  case (It_search i query)
  moreover assume "item_ok item" "toolResult item = Some r"
  ultimately show ?thesis by (auto simp: item_ok_def)
qed (simp only: toolResult.simps option.inject option.distinct item_ok_def result_output.simps item_id.simps;
     elim conjE; hypsubst; rule valid_result; simp)+

lemma plan_event_valid: "js_sized (planText items) \<Longrightarrow> list_all runtimeEventSchema (fst (plan_event items st))"
  unfolding plan_event_def Let_def by (simp add: event_text_le)

lemma mapCodexEvent_valid:
  assumes "thread_ok e"
  shows "list_all runtimeEventSchema (fst (mapCodexEvent e st))"
proof -
  have started: "list_all runtimeEventSchema (fst (item_started item st))" if "item_ok item" for item
    using that toolCall_valid [OF that] plan_event_valid
    by (cases item) (auto simp: item_started_def item_ok_def simp del: toolCall.simps split: option.split)
  have updated: "list_all runtimeEventSchema (fst (item_updated item st))" if "item_ok item" for item
    using that plan_event_valid by (cases item) (auto simp: item_updated_def item_ok_def)
  have tool: "list_all runtimeEventSchema (fst (tool_completed item st))" if "item_ok item" for item
    using toolCall_valid [OF that] toolResult_valid [OF that] by (auto simp: tool_completed_def split: option.split)
  have completed: "list_all runtimeEventSchema (fst (item_completed item st))" if "item_ok item" for item
    using that tool [OF that] by (cases item) (auto simp: item_ok_def event_text_le)
  show ?thesis
    using assms started updated completed
    by (cases e) (auto simp: cut_id event_text_le codex_usage_event_def)
qed

lemma map_codex_valid: "list_all thread_ok es \<Longrightarrow> list_all runtimeEventSchema (fst (map_codex es st))"
proof (induction es arbitrary: st)
  case (Cons e es)
  then show ?case using mapCodexEvent_valid [of e st] by (simp add: split_beta Let_def)
qed simp

lemma runCodex_valid:
  assumes "list_all thread_ok (st_events resumed)" and "list_all thread_ok (st_events fresh)"
  shows "list_all runtimeEventSchema (fst (runCodex resumeId resumed fresh))"
proof -
  have "runtimeEventSchema (Ev_error NEW_SESSION_WARNING False)"
    by (simp add: NEW_SESSION_WARNING_def MAX_EVENT_TEXT_def)
  then show ?thesis
    using assms map_codex_valid
    by (simp add: runCodex_def Let_def split_beta split: option.split)
qed

section \<open>Hermes\<close>

text \<open>The chunks of a prompt together, and every call and result, have the size of a text.\<close>

definition chunk_length :: "json \<Rightarrow> nat" where
  "chunk_length u = length (h_str (h_field (js_field u ''content'') ''text''))"

definition update_ok :: "json \<Rightarrow> bool" where
  "update_ok u \<longleftrightarrow>
     js_sized (join [newline] (map plan_line (plan_entries u))) \<and>
     js_sized (case js_field u ''rawInput'' of Some v \<Rightarrow> json_text v | None \<Rightarrow> acp_contentText (js_field u ''content'')) \<and>
     js_sized (or_empty (acp_contentText (js_field u ''content'')) (raw_text (js_field u ''rawOutput'')))"

definition buffered :: "hermes_turn_state \<Rightarrow> nat" where
  "buffered s = length (hm_message s) + length (hm_thought s)"

lemma tool_id_ok: "event_id_ok (tool_id u)"
  by (auto simp: tool_id_def or_empty_def event_id_ok_def Suc_le_eq)

lemma hermes_tool_valid:
  assumes "update_ok u"
  shows "runtimeEventSchema (hermes_call u)" and "runtimeEventSchema (hermes_result u)"
proof -
  show "runtimeEventSchema (hermes_call u)"
    unfolding hermes_call_def by (rule valid_call [OF tool_id_ok]) (use assms in \<open>simp_all add: update_ok_def\<close>)
  show "runtimeEventSchema (hermes_result u)"
    unfolding hermes_result_def by (rule valid_result [OF tool_id_ok]) (use assms in \<open>simp add: update_ok_def\<close>)
qed

lemma flush_parts:
  "buffered s < 2 ^ 31 \<Longrightarrow> list_all runtimeEventSchema (fst (flushThought s)) \<and> buffered (snd (flushThought s)) \<le> buffered s"
  "buffered s < 2 ^ 31 \<Longrightarrow> list_all runtimeEventSchema (fst (flushMessage s)) \<and> buffered (snd (flushMessage s)) \<le> buffered s"
  using event_text_le [OF js_sized_trim, of "hm_thought s"] event_text_le [OF js_sized_trim, of "hm_message s"]
  by (auto simp: flushThought_def flushMessage_def Let_def buffered_def js_sized_def)

lemma flush_valid:
  assumes "buffered s < 2 ^ 31"
  shows "list_all runtimeEventSchema (fst (flush s))" and "buffered (snd (flush s)) \<le> buffered s"
  using flush_parts(1) [OF assms] flush_parts(2) [of "snd (flushThought s)"] assms
  by (auto simp: flush_def split_beta Let_def)

lemma hermes_update_valid:
  assumes "update_ok u" and "buffered s + chunk_length u < 2 ^ 31"
  shows "list_all runtimeEventSchema (fst (hermes_update u s)) \<and>
    buffered (snd (hermes_update u s)) \<le> buffered s + chunk_length u"
proof -
  have s: "buffered s < 2 ^ 31" using assms(2) by simp
  have plan: "runtimeEventSchema (Ev_progress (event_text_of (join [newline] (map plan_line (plan_entries u)))))"
    by (rule valid_text(2)) (use assms(1) in \<open>simp add: update_ok_def\<close>)
  have grow: "buffered (s1\<lparr>hm_message := hm_message s1 @ x\<rparr>) = buffered s1 + length x"
    "buffered (s1\<lparr>hm_thought := hm_thought s1 @ x\<rparr>) = buffered s1 + length x" for s1 x
    by (simp_all add: buffered_def)
  show ?thesis
    using flush_parts [OF s] flush_valid [OF s] hermes_tool_valid [OF assms(1)] plan
    by (auto simp: hermes_update_def Let_def split_beta grow chunk_length_def simp del: runtimeEventSchema.simps)
qed

lemma hermes_updates_valid:
  assumes "list_all update_ok us" and "buffered s + sum_list (map chunk_length us) < 2 ^ 31"
  shows "list_all runtimeEventSchema (fst (hermes_updates us s)) \<and>
    buffered (snd (hermes_updates us s)) \<le> buffered s + sum_list (map chunk_length us)"
  using assms
proof (induction us arbitrary: s)
  case (Cons u us)
  then have step: "list_all runtimeEventSchema (fst (hermes_update u s))"
    "buffered (snd (hermes_update u s)) \<le> buffered s + chunk_length u"
    using hermes_update_valid [of u s] by auto
  then show ?case using Cons.IH [of "snd (hermes_update u s)"] Cons.prems
    by (auto simp: split_beta Let_def)
qed simp

text \<open>A script whose answers have the size of texts; the session ids are those \<open>opened_session\<close> gives.\<close>

definition script_ok :: "hermes_script \<Rightarrow> bool" where
  "script_ok x \<longleftrightarrow>
     (\<forall>sid. hx_open x = Inr sid \<longrightarrow> sid \<noteq> []) \<and>
     list_all (\<lambda>p. update_ok (acp_obj (js_field p ''update''))) (hx_updates x) \<and>
     sum_list (map (\<lambda>p. chunk_length (acp_obj (js_field p ''update''))) (hx_updates x)) < 2 ^ 31 \<and>
     (\<forall>e. hx_start x = Inl e \<longrightarrow> length (message e) < 2 ^ 30) \<and>
     (\<forall>e. hx_open x = Inl e \<longrightarrow> length (message e) < 2 ^ 30) \<and>
     (\<forall>e. hx_answer x = Inl e \<longrightarrow> length (message e) < 2 ^ 30) \<and>
     (\<forall>r. hx_answer x = Inr r \<longrightarrow> length (h_str (js_field r ''stopReason'')) < 2 ^ 30)"

lemma hermes_error_valid: "length (message e) < 2 ^ 30 \<Longrightarrow> list_all runtimeEventSchema (hermes_error aborted e)"
  by (simp add: hermes_error_def event_text_le js_sized_def)

lemma promptResult_valid:
  "length (h_str (js_field r ''stopReason'')) < 2 ^ 30 \<Longrightarrow> list_all runtimeEventSchema (promptResult fl r model)"
  by (auto simp: promptResult_def Let_def event_text_le js_sized_def split: option.split json.split list.split)

lemma session_updates_length:
  "sum_list (map chunk_length (session_updates sid ps)) \<le> sum_list (map (\<lambda>p. chunk_length (acp_obj (js_field p ''update''))) ps)"
  by (induction ps) (auto simp: session_updates_def)

lemma hermes_prompt_valid:
  assumes "script_ok x"
  shows "list_all runtimeEventSchema (hermes_prompt fl model sid x)"
proof -
  let ?us = "session_updates sid (hx_updates x)"
  have "list_all update_ok ?us" and total: "buffered new_turn_state + sum_list (map chunk_length ?us) < 2 ^ 31"
    using assms session_updates_length [of sid "hx_updates x"]
    by (auto simp: script_ok_def session_updates_def list_all_iff buffered_def new_turn_state_def)
  then have ups: "list_all runtimeEventSchema (fst (hermes_updates ?us new_turn_state))"
    and small: "buffered (snd (hermes_updates ?us new_turn_state)) < 2 ^ 31"
    using hermes_updates_valid by (blast, metis le_less_trans)
  have fl: "list_all runtimeEventSchema (fst (flush (snd (hermes_updates ?us new_turn_state))))"
    and small2: "buffered (snd (flush (snd (hermes_updates ?us new_turn_state)))) < 2 ^ 31"
    using flush_valid [OF small] small by (blast, metis le_less_trans)
  have "length (message e) < 2 ^ 30" if "hx_answer x = Inl e" for e
    using assms that unfolding script_ok_def by blast
  then show ?thesis
    using ups fl flush_valid(1) [OF small2] assms promptResult_valid hermes_error_valid
    by (auto simp: hermes_prompt_def split_beta Let_def script_ok_def simp del: runtimeEventSchema.simps split: sum.split)
qed

lemma runHermes_valid:
  assumes "script_ok x"
  shows "list_all runtimeEventSchema (fst (runHermes fl model x))"
proof -
  have "length (message e) < 2 ^ 30" if "hx_start x = Inl e \<or> hx_open x = Inl e" for e
    using assms that unfolding script_ok_def by blast
  moreover have "runtimeEventSchema (Ev_session_started (take 200 sid))" if "hx_open x = Inr sid" for sid
    using assms that by (simp add: script_ok_def cut_id)
  ultimately show ?thesis
    unfolding runHermes_def
    by (cases "hx_start x"; cases "hx_open x"; cases "hx_session x"; cases "the (hx_session x)")
      (simp_all add: hermes_prompt_valid [OF assms] hermes_error_valid del: runtimeEventSchema.simps)
qed

section \<open>What the runtimes report\<close>

text \<open>
  What the three runtimes produce is accepted by the daemon when the fields they pass on as they are
  keep its limits: the ids of Codex's items, which no runtime cuts, the text of an error Claude's program
  reports, and the numbers of tokens (\<open>sdk_ok\<close>, \<open>thread_ok\<close>, \<open>script_ok\<close>).  All other texts are cut to size.
\<close>

theorem runtime_events_valid:
  assumes "list_all sdk_ok ms" and "\<forall>m. thrown = Some m \<longrightarrow> js_sized m"
    and "list_all thread_ok (st_events resumed)" and "list_all thread_ok (st_events fresh)"
    and "script_ok x"
  shows "list_all runtimeEventSchema (claudeEvents ms thrown aborted) \<and>
    list_all runtimeEventSchema (fst (runCodex resumeId resumed fresh)) \<and>
    list_all runtimeEventSchema (fst (runHermes fl model x))"
  using claudeEvents_valid [OF assms(1,2)] runCodex_valid [OF assms(3,4)] runHermes_valid [OF assms(5)] by blast+

definition demo_script :: hermes_script where
  "demo_script =
     \<lparr>hx_aborted_first = False, hx_start = Inr (), hx_aborted_started = False, hx_session = None,
      hx_open = Inr ''s1'', hx_aborted_open = False,
      hx_updates = [JObj [(''sessionId'', JStr ''s1''), (''update'',
        JObj [(''sessionUpdate'', JStr ''agent_message_chunk''),
              (''content'', JObj [(''type'', JStr ''text''), (''text'', JStr ''hi'')])])]],
      hx_answer = Inr (JObj [(''stopReason'', JStr ''end_turn'')]), hx_aborted_end = False\<rparr>"

lemma demo_script_ok: "script_ok demo_script"
  by (simp add: script_ok_def demo_script_def js_field_def acp_obj_def update_ok_def js_sized_def chunk_length_def
      h_field_def h_str_def plan_entries_def acp_contentText_def raw_text_def or_empty_def)

lemma runtime_events_valid_witness:
  "list_all runtimeEventSchema (claudeEvents [Sdk_system ''init'' ''s1''] (Some ''stopped'') False) \<and>
   list_all runtimeEventSchema (fst (runCodex None \<lparr>st_events = [], st_error = None, st_aborted = False\<rparr>
     \<lparr>st_events = [Th_started ''s1'', Th_error ''again''], st_error = None, st_aborted = False\<rparr>)) \<and>
   list_all runtimeEventSchema (fst (runHermes (\<lambda>_. 0) ''m'' demo_script))"
  by (rule runtime_events_valid) (simp_all add: js_sized_def demo_script_ok)

end
