(* ===== verification/RunnerFacts.thy ===== *)
theory RunnerFacts
  imports Runner ConnectionFacts RuntimeFacts
begin

text \<open>
  Facts about the runner of a cell: what it writes is what the daemon's schema reads, the order
  of its messages is the one the daemon expects, and what a program of the cell can do to both
  through the tool socket.
\<close>

section \<open>Messages read back\<close>

lemma map_of_opt_field [simp]:
  "map_of (opt_field k f x @ rest) k' =
     (if k' = k then (case x of None \<Rightarrow> map_of rest k' | Some v \<Rightarrow> Some (f v)) else map_of rest k')"
  "map_of (opt_field k f x) k' = (if k' = k then map_option f x else None)"
  by (simp_all add: opt_field_def split: option.split)

lemma keys_opt_field:
  "k \<in> A \<Longrightarrow> set (map fst rest) \<subseteq> A \<Longrightarrow> set (map fst (opt_field k f x @ rest)) \<subseteq> A"
  "k \<in> A \<Longrightarrow> set (map fst (opt_field k f x)) \<subseteq> A"
  by (cases x; simp add: opt_field_def)+

lemma keys_field: "k \<in> A \<Longrightarrow> set (map fst rest) \<subseteq> A \<Longrightarrow> set (map fst ((k, v) # rest)) \<subseteq> A"
  by simp

lemma optional_field:
  "map_of kvs k = map_option f x \<Longrightarrow> (\<And>v. x = Some v \<Longrightarrow> p (f v) = Some v) \<Longrightarrow> optional kvs k p = Some x"
  by (simp add: optional_def split: option.split)

lemma case_option_map: "(case x of None \<Rightarrow> None | Some v \<Rightarrow> Some (f v)) = map_option f x"
  by (simp split: option.split)

lemma p_nat_j [simp]: "p_nat (j_nat n) = Some n"
  by (simp add: j_nat_def)

lemma usage_read_back:
  assumes "runtimeEventSchema (Ev_usage u)" and "\<forall>c. ue_cost u = Some c \<longrightarrow> p_cost num (cost c) = Some c"
  shows "usage_of_json num (usage_json cost u) = Some (Ev_usage u)"
proof -
  let ?kvs = "(''type'', JStr ''usage'') # opt_field ''model'' JStr (ue_model u) @
      opt_field ''inputTokens'' j_nat (ue_input u) @ opt_field ''outputTokens'' j_nat (ue_output u) @
      opt_field ''cachedInputTokens'' j_nat (ue_cached u) @
      opt_field ''cacheWriteTokens'' j_nat (ue_cacheWrite u) @
      opt_field ''reasoningTokens'' j_nat (ue_reasoning u) @
      opt_field ''costUsd'' cost (ue_cost u) @ opt_field ''cumulative'' JBool (ue_cumulative u)"
  have keys: "set (map fst ?kvs) \<subseteq> set usage_fields"
    by (intro keys_opt_field keys_field) (simp_all add: usage_fields_def)
  have "optional ?kvs ''model'' (str_max 100) = Some (ue_model u)"
    by (rule optional_field [where f = JStr])
      (use assms(1) in \<open>auto simp: case_option_map str_max_def str_where_def simp del: map_of_append split: option.splits\<close>)
  moreover have "optional ?kvs ''inputTokens'' p_nat = Some (ue_input u)"
    "optional ?kvs ''outputTokens'' p_nat = Some (ue_output u)"
    "optional ?kvs ''cachedInputTokens'' p_nat = Some (ue_cached u)"
    "optional ?kvs ''cacheWriteTokens'' p_nat = Some (ue_cacheWrite u)"
    "optional ?kvs ''reasoningTokens'' p_nat = Some (ue_reasoning u)"
    by (rule optional_field [where f = j_nat]; simp add: case_option_map del: map_of_append cong: option.case_cong)+
  moreover have "optional ?kvs ''costUsd'' (p_cost num) = Some (ue_cost u)"
    by (rule optional_field [where f = cost])
      (use assms in \<open>auto simp: case_option_map simp del: map_of_append split: option.splits\<close>)
  moreover have "optional ?kvs ''cumulative'' p_flag = Some (ue_cumulative u)"
    by (rule optional_field [where f = JBool]; simp add: case_option_map del: map_of_append cong: option.case_cong)
  ultimately show ?thesis
    using keys unfolding usage_of_json_def usage_json_def by (simp del: map_of.simps)
qed

text \<open>A cost that the JSON of a number can hold.\<close>

fun cost_written :: "(string \<Rightarrow> rat) \<Rightarrow> (rat \<Rightarrow> json) \<Rightarrow> runtime_event \<Rightarrow> bool" where
  "cost_written num cost (Ev_usage u) = (case ue_cost u of None \<Rightarrow> True | Some c \<Rightarrow> p_cost num (cost c) = Some c)"
| "cost_written num cost ev = True"

lemma event_read_back:
  assumes "runtimeEventSchema ev" and "cost_written num cost ev"
  shows "event_of_json num (event_json cost ev) = Some ev"
proof (cases ev)
  case (Ev_usage u)
  then have "usage_of_json num (usage_json cost u) = Some (Ev_usage u)"
    using assms by (intro usage_read_back) (auto split: option.splits)
  then show ?thesis using Ev_usage
    by (simp add: event_of_json_def json_type_def usage_json_def)
next
  case (Ev_input t src)
  then show ?thesis using assms(1)
    by (cases src) (auto simp: event_of_json_def json_type_def input_of_json_def needed_def optional_def
        opt_field_def event_text_def str_max_def str_where_def p_enum_def split: input_source.split)
qed (use assms(1) in \<open>simp_all add: event_of_json_def json_type_def needed_def text_event_def event_text_def event_id_def
        str_max_def str_where_def call_of_json_def result_of_json_def error_of_json_def session_of_json_def\<close>)

text \<open>A message within the limits of its schema.\<close>

fun message_ok :: "(string \<Rightarrow> rat) \<Rightarrow> (rat \<Rightarrow> json) \<Rightarrow> cell_message \<Rightarrow> bool" where
  "message_ok num cost (Msg_ready r v) = (r \<in> set RUNTIMES \<and> length v \<le> 100)"
| "message_ok num cost (Msg_event t ev) = (turnId t \<and> runtimeEventSchema ev \<and> cost_written num cost ev)"
| "message_ok num cost (Msg_turn_end t ok) = turnId t"
| "message_ok num cost (Msg_tool_request c) =
     (turnId (tc_turn c) \<and> callId (tc_id c) \<and> toolName (tc_tool c) \<and> is_object (tc_args c))"

lemma message_read_back:
  assumes "message_ok num cost m"
  shows "cellMessageSchema num (message_json cost m) = Some m"
proof (cases m)
  case (Msg_event t ev)
  then show ?thesis using assms event_read_back [of ev num cost]
    by (simp add: cellMessageSchema_def json_type_def needed_def str_where_def)
qed (use assms(1) in \<open>simp_all add: cellMessageSchema_def json_type_def needed_def str_where_def str_max_def p_enum_def\<close>)

text \<open>
  What the runner writes is what the daemon reads: every message within the
  limits passes the daemon's schema unchanged, each kind of event and each optional field included.
\<close>

theorem messages_read_back:
  assumes "message_ok num cost m"
  shows "cellMessageSchema num (message_json cost m) = Some m"
  using assms by (rule message_read_back)

lemma messages_read_back_witness:
  "cellMessageSchema (\<lambda>_. 1 / 2) (message_json (\<lambda>_. JReal ''0.5'')
     (Msg_event ''t1'' (Ev_usage \<lparr>ue_model = Some ''m'', ue_input = Some 3, ue_output = None, ue_cached = None,
        ue_cacheWrite = None, ue_reasoning = None, ue_cost = Some (1 / 2), ue_cumulative = Some True\<rparr>))) =
   Some (Msg_event ''t1'' (Ev_usage \<lparr>ue_model = Some ''m'', ue_input = Some 3, ue_output = None, ue_cached = None,
        ue_cacheWrite = None, ue_reasoning = None, ue_cost = Some (1 / 2), ue_cumulative = Some True\<rparr>))"
  by (rule messages_read_back) (simp add: turnId_def is_slug_char_def is_lower_def is_digit_def)

section \<open>A daemon and a runner that follow the code\<close>

text \<open>
  The exchange of messages between the two ends of a cell: the daemon has read the first \<open>lk_up\<close> messages of
  the runner, the runner the first \<open>lk_down\<close> commands of the daemon.  Messages are the values they hold: the
  codec with the size of its frames, the schema of the commands and the timer of a turn, each of which
  ends a session too, are not part of it (\<open>SocketFacts.limits_do_not_add_up\<close> has a message no frame holds).
\<close>

record link =
  lk_session :: session
  lk_runner :: runner
  lk_down :: nat
  lk_up :: nat

fun to_runner :: "turn_options \<Rightarrow> command \<Rightarrow> cell_command" where
  "to_runner opts (Cmd_run t i r) = Cell_run t i r opts"
| "to_runner opts (Cmd_cancel t) = Cell_cancel t"
| "to_runner opts (Cmd_tool_response i ok r e) = Cell_response i ok r e"

inductive link_step ::
  "(string \<Rightarrow> rat) \<Rightarrow> (rat \<Rightarrow> json) \<Rightarrow> (string \<Rightarrow> string option) \<Rightarrow> turn_options \<Rightarrow> link \<Rightarrow> link \<Rightarrow> bool"
  for num cost hint opts where
  daemon_runs: "turnId t \<Longrightarrow> link_step num cost hint opts l
    (l\<lparr>lk_session := snd (run_turn t inp resume (lk_session l))\<rparr>)"
| daemon_cancels: "link_step num cost hint opts l (l\<lparr>lk_session := cancel_turn t (lk_session l)\<rparr>)"
| daemon_answers: "link_step num cost hint opts l (l\<lparr>lk_session := tool_answer i r (lk_session l)\<rparr>)"
| daemon_reads: "lk_up l < length (rn_sent (lk_runner l)) \<Longrightarrow> link_step num cost hint opts l
    (l\<lparr>lk_session := onFrame num hint (message_json cost (rn_sent (lk_runner l) ! lk_up l)) (lk_session l),
       lk_up := lk_up l + 1\<rparr>)"
| daemon_yields: "next_event (lk_session l) = Some (ev, s) \<Longrightarrow> link_step num cost hint opts l (l\<lparr>lk_session := s\<rparr>)"
| turn_returns: "turn_over (lk_session l) = Some (r, s) \<Longrightarrow> link_step num cost hint opts l (l\<lparr>lk_session := s\<rparr>)"
| runner_reads: "lk_down l < length (cl_sent (lk_session l)) \<Longrightarrow> link_step num cost hint opts l
    (l\<lparr>lk_runner := runner_command (to_runner opts (cl_sent (lk_session l) ! lk_down l)) (lk_runner l),
       lk_down := lk_down l + 1\<rparr>)"
| runtime_yields: "runtimeEventSchema ev \<Longrightarrow> cost_written num cost ev \<Longrightarrow> link_step num cost hint opts l
    (l\<lparr>lk_runner := exec_event ev (lk_runner l)\<rparr>)"
| runtime_throws: "length why < 2 ^ 31 \<Longrightarrow> link_step num cost hint opts l
    (l\<lparr>lk_runner := exec_throw why (lk_runner l)\<rparr>)"
| runtime_ends: "link_step num cost hint opts l (l\<lparr>lk_runner := exec_end (lk_runner l)\<rparr>)"
| cell_calls: "rn_nextCall (lk_runner l) < 10 ^ 9 \<Longrightarrow> link_step num cost hint opts l
    (l\<lparr>lk_runner := callTool k tool (tool_args req) (lk_runner l)\<rparr>)"

definition start_link :: "string option \<Rightarrow> string option \<Rightarrow> bool \<Rightarrow> link" where
  "start_link printed name handler =
     \<lparr>lk_session = new_session handler, lk_runner = startRunner (version_of printed) (runtime_of_env name),
      lk_down = 0, lk_up = 0\<rparr>"

inductive linked ::
  "(string \<Rightarrow> rat) \<Rightarrow> (rat \<Rightarrow> json) \<Rightarrow> (string \<Rightarrow> string option) \<Rightarrow> turn_options \<Rightarrow> link \<Rightarrow> bool"
  for num cost hint opts where
  linked_start: "linked num cost hint opts (start_link printed name handler)"
| linked_step: "linked num cost hint opts l \<Longrightarrow> link_step num cost hint opts l l' \<Longrightarrow> linked num cost hint opts l'"

inductive_cases link_stepE: "link_step num cost hint opts l l'"

text \<open>What is under way: the messages not read yet but for \<open>ready\<close>, and the turns asked for.\<close>

definition is_ready :: "cell_message \<Rightarrow> bool" where
  "is_ready m \<longleftrightarrow> (case m of Msg_ready _ _ \<Rightarrow> True | _ \<Rightarrow> False)"

definition is_run :: "command \<Rightarrow> bool" where
  "is_run c \<longleftrightarrow> (case c of Cmd_run _ _ _ \<Rightarrow> True | _ \<Rightarrow> False)"

definition ups :: "link \<Rightarrow> cell_message list" where
  "ups l = List.filter (\<lambda>m. \<not> is_ready m) (drop (lk_up l) (rn_sent (lk_runner l)))"

definition runs :: "link \<Rightarrow> command list" where
  "runs l = List.filter is_run (drop (lk_down l) (cl_sent (lk_session l)))"

fun in_turn :: "string \<Rightarrow> cell_message \<Rightarrow> bool" where
  "in_turn t (Msg_event u _) = (u = t)"
| "in_turn t (Msg_tool_request c) = (tc_turn c = t)"
| "in_turn t _ = False"

definition phase_ok :: "cell_turn option \<Rightarrow> running option \<Rightarrow> cell_message list \<Rightarrow> command list \<Rightarrow> bool" where
  "phase_ok cur ru up rs \<longleftrightarrow>
     (case cur of
        None \<Rightarrow> ru = None \<and> up = [] \<and> rs = []
      | Some ct \<Rightarrow> turnId (ct_turn ct) \<and>
          (case ct_done ct of
             Some d \<Rightarrow> snd d = None \<and> ru = None \<and> up = [] \<and> rs = []
           | None \<Rightarrow>
               (case ru of
                  Some r \<Rightarrow> ru_turn r = ct_turn ct \<and> rs = [] \<and> list_all (in_turn (ct_turn ct)) up
                | None \<Rightarrow>
                    up = [] \<and> (\<exists>i q. rs = [Cmd_run (ct_turn ct) i q]) \<or>
                    rs = [] \<and> (\<exists>xs ok. up = xs @ [Msg_turn_end (ct_turn ct) ok] \<and> list_all (in_turn (ct_turn ct)) xs))))"

definition link_ok :: "(string \<Rightarrow> rat) \<Rightarrow> (rat \<Rightarrow> json) \<Rightarrow> link \<Rightarrow> bool" where
  "link_ok num cost l \<longleftrightarrow>
     \<not> cl_killed (lk_session l) \<and> \<not> cl_closed (lk_session l) \<and> rn_exits (lk_runner l) = [] \<and>
     list_all (message_ok num cost) (rn_sent (lk_runner l)) \<and>
     lk_up l \<le> length (rn_sent (lk_runner l)) \<and> lk_down l \<le> length (cl_sent (lk_session l)) \<and>
     phase_ok (cl_current (lk_session l)) (rn_current (lk_runner l)) (ups l) (runs l)"

text \<open>A step of one end: what it adds to what the other has not read, and the phase it leaves.\<close>

lemma daemon_step:
  assumes "link_ok num cost l" and "cl_sent s = cl_sent (lk_session l) @ cs"
    and "\<not> cl_killed s" and "\<not> cl_closed s"
    and "phase_ok (cl_current s) (rn_current (lk_runner l)) (ups l) (runs l @ List.filter is_run cs)"
  shows "link_ok num cost (l\<lparr>lk_session := s\<rparr>)"
  using assms by (auto simp: link_ok_def ups_def runs_def)

lemma runner_step:
  assumes "link_ok num cost l" and "rn_sent r = rn_sent (lk_runner l) @ ms" and "list_all (message_ok num cost) ms"
    and "rn_exits r = []"
    and "phase_ok (cl_current (lk_session l)) (rn_current r) (ups l @ List.filter (\<lambda>m. \<not> is_ready m) ms) (runs l)"
  shows "link_ok num cost (l\<lparr>lk_runner := r\<rparr>)"
  using assms by (auto simp: link_ok_def ups_def runs_def)

lemma session_frame:
  "cl_killed (send c s) = cl_killed s" "cl_closed (send c s) = cl_closed s" "cl_current (send c s) = cl_current s"
  "cl_sent (send c s) = cl_sent s @ (if cl_closed s then [] else [c])"
  "cl_killed (turn_push ev s) = cl_killed s" "cl_closed (turn_push ev s) = cl_closed s" "cl_sent (turn_push ev s) = cl_sent s"
  "cl_killed (turn_end ok why s) = cl_killed s" "cl_closed (turn_end ok why s) = cl_closed s" "cl_sent (turn_end ok why s) = cl_sent s"
  "cl_killed (settle_ready st s) = cl_killed s" "cl_closed (settle_ready st s) = cl_closed s"
  "cl_sent (settle_ready st s) = cl_sent s" "cl_current (settle_ready st s) = cl_current s"
  by (simp_all add: send_def turn_push_def turn_end_def settle_ready_def)

lemma onTool_frame:
  "cl_killed (onTool c s) = cl_killed s \<and> cl_closed (onTool c s) = cl_closed s \<and> cl_current (onTool c s) = cl_current s \<and>
   (\<exists>cs. cl_sent (onTool c s) = cl_sent s @ cs \<and> List.filter is_run cs = [])"
  by (auto simp: onTool_def Let_def send_def is_run_def)

lemma start_error_message: "start_error (message_json cost m) = None"
  by (cases m) (simp_all add: start_error_def)

lemma onFrame_message:
  assumes "message_ok num cost m"
  shows "onFrame num hint (message_json cost m) s =
    (case m of
       Msg_ready r v \<Rightarrow> settle_ready (Ready v) s
     | Msg_event t ev \<Rightarrow> if map_option ct_turn (cl_current s) = Some t then turn_push ev s
         else fail ''runner sent a message for a turn that is not running'' s
     | Msg_turn_end t ok \<Rightarrow> if map_option ct_turn (cl_current s) = Some t then turn_end ok None s
         else fail ''runner sent a message for a turn that is not running'' s
     | Msg_tool_request c \<Rightarrow> if map_option ct_turn (cl_current s) = Some (tc_turn c) then onTool c s
         else fail ''runner sent a message for a turn that is not running'' s)"
  using message_read_back [OF assms]
  by (cases m) (auto simp: onFrame_def start_error_message Let_def simp del: message_json.simps)

lemma phase_reads:
  assumes "phase_ok (cl_current s) ru (m # up) rs" and "message_ok num cost m" and "\<not> cl_killed s" and "\<not> cl_closed s"
    and "\<not> is_ready m"
  shows "let s' = onFrame num hint (message_json cost m) s
    in \<not> cl_killed s' \<and> \<not> cl_closed s' \<and> phase_ok (cl_current s') ru up rs \<and>
       (\<exists>cs. cl_sent s' = cl_sent s @ cs \<and> List.filter is_run cs = [])"
proof -
  obtain ct where cur: "cl_current s = Some ct" and tid: "turnId (ct_turn ct)" and going: "ct_done ct = None"
    using assms(1) by (auto simp: phase_ok_def split: option.splits)
  show ?thesis
  proof (cases "in_turn (ct_turn ct) m")
    case True
    have rest: "phase_ok (Some (ct\<lparr>ct_queue := q\<rparr>)) ru up rs" for q
      using assms(1) cur going tid True by (auto simp: phase_ok_def Cons_eq_append_conv split: option.splits)
    then have "phase_ok (Some ct) ru up rs" using rest [of "ct_queue ct"] by simp
    then show ?thesis
      using True rest assms(3,4) cur onTool_frame [of _ s] onFrame_message [OF assms(2), of hint s]
      by (cases m) (auto simp: Let_def session_frame turn_push_def)
  next
    case False
    then obtain ok where m: "m = Msg_turn_end (ct_turn ct) ok" and rest: "ru = None" "up = []" "rs = []"
      using assms(1) cur going by (auto simp: phase_ok_def Cons_eq_append_conv split: option.splits)
    then show ?thesis
      using assms(3,4) cur tid onFrame_message [OF assms(2), of hint s]
      by (simp add: Let_def session_frame) (simp add: turn_end_def phase_ok_def)
  qed
qed

lemma ups_read:
  "lk_up l < length (rn_sent (lk_runner l)) \<Longrightarrow> ups l =
     (if is_ready (rn_sent (lk_runner l) ! lk_up l) then [] else [rn_sent (lk_runner l) ! lk_up l]) @
     ups (l\<lparr>lk_session := s, lk_up := lk_up l + 1\<rparr>)"
  by (simp add: ups_def Cons_nth_drop_Suc [symmetric])

lemma reads_ok:
  assumes "link_ok num cost l" and "lk_up l < length (rn_sent (lk_runner l))"
  shows "link_ok num cost
    (l\<lparr>lk_session := onFrame num hint (message_json cost (rn_sent (lk_runner l) ! lk_up l)) (lk_session l),
       lk_up := lk_up l + 1\<rparr>)"
proof -
  let ?m = "rn_sent (lk_runner l) ! lk_up l" and ?s = "lk_session l"
  let ?s' = "onFrame num hint (message_json cost ?m) ?s"
  have m: "message_ok num cost ?m" using assms by (simp add: link_ok_def list_all_length)
  have now: "\<not> cl_killed ?s'" "\<not> cl_closed ?s'"
    "phase_ok (cl_current ?s') (rn_current (lk_runner l)) (ups (l\<lparr>lk_session := ?s', lk_up := lk_up l + 1\<rparr>)) (runs l) \<and>
     (\<exists>cs. cl_sent ?s' = cl_sent ?s @ cs \<and> List.filter is_run cs = [])"
  proof (atomize (full), cases "is_ready ?m")
    case True
    then show "\<not> cl_killed ?s' \<and> \<not> cl_closed ?s' \<and> phase_ok (cl_current ?s') (rn_current (lk_runner l))
        (ups (l\<lparr>lk_session := ?s', lk_up := lk_up l + 1\<rparr>)) (runs l) \<and>
      (\<exists>cs. cl_sent ?s' = cl_sent ?s @ cs \<and> List.filter is_run cs = [])"
      using assms ups_read [OF assms(2), of ?s'] onFrame_message [OF m, of hint ?s]
      by (cases ?m) (auto simp: is_ready_def link_ok_def session_frame)
  next
    case False
    then show "\<not> cl_killed ?s' \<and> \<not> cl_closed ?s' \<and> phase_ok (cl_current ?s') (rn_current (lk_runner l))
        (ups (l\<lparr>lk_session := ?s', lk_up := lk_up l + 1\<rparr>)) (runs l) \<and>
      (\<exists>cs. cl_sent ?s' = cl_sent ?s @ cs \<and> List.filter is_run cs = [])"
      using assms ups_read [OF assms(2), of ?s'] phase_reads [OF _ m _ _ False, of ?s _ _ _ hint]
      by (simp add: link_ok_def Let_def) blast
  qed
  then obtain cs where "cl_sent ?s' = cl_sent ?s @ cs" "List.filter is_run cs = []" by blast
  then show ?thesis using assms now by (auto simp: link_ok_def runs_def)
qed

lemma running_phase:
  assumes "phase_ok cur (Some ru) up rs"
  obtains ct where "cur = Some ct" and "ct_done ct = None" and "turnId (ct_turn ct)" and "ru_turn ru = ct_turn ct"
    and "rs = []" and "list_all (in_turn (ct_turn ct)) up"
  using assms by (auto simp: phase_ok_def split: option.splits)

lemma runs_read:
  "lk_down l < length (cl_sent (lk_session l)) \<Longrightarrow> runs l =
     (if is_run (cl_sent (lk_session l) ! lk_down l) then [cl_sent (lk_session l) ! lk_down l] else []) @
     runs (l\<lparr>lk_runner := r, lk_down := lk_down l + 1\<rparr>)"
  by (simp add: runs_def Cons_nth_drop_Suc [symmetric])

lemma phase_command:
  assumes "phase_ok cur (rn_current r) up ((if is_run c then [c] else []) @ rs)"
  shows "let r' = runner_command (to_runner opts c) r
    in rn_sent r' = rn_sent r \<and> rn_exits r' = rn_exits r \<and> phase_ok cur (rn_current r') up rs"
proof (cases c)
  case (Cmd_run t i q)
  then show ?thesis using assms
    by (auto simp: is_run_def runner_command_def exec_begin_def phase_ok_def split: option.splits)
next
  case (Cmd_cancel t)
  then show ?thesis using assms
    by (auto simp: is_run_def runner_command_def phase_ok_def Let_def split: option.splits)
next
  case (Cmd_tool_response i ok q e)
  then show ?thesis using assms
    by (auto simp: is_run_def runner_command_def answer_call_def Let_def split: option.splits)
qed

lemma commands_ok:
  assumes "link_ok num cost l" and "lk_down l < length (cl_sent (lk_session l))"
  shows "link_ok num cost
    (l\<lparr>lk_runner := runner_command (to_runner opts (cl_sent (lk_session l) ! lk_down l)) (lk_runner l),
       lk_down := lk_down l + 1\<rparr>)"
proof -
  let ?c = "cl_sent (lk_session l) ! lk_down l"
  let ?r' = "runner_command (to_runner opts ?c) (lk_runner l)"
  have "rn_sent ?r' = rn_sent (lk_runner l) \<and> rn_exits ?r' = rn_exits (lk_runner l) \<and>
      phase_ok (cl_current (lk_session l)) (rn_current ?r') (ups l) (runs (l\<lparr>lk_runner := ?r', lk_down := lk_down l + 1\<rparr>))"
    using phase_command [of "cl_current (lk_session l)" "lk_runner l" "ups l" ?c
        "runs (l\<lparr>lk_runner := ?r', lk_down := lk_down l + 1\<rparr>)" opts] assms(1) runs_read [OF assms(2), of ?r']
    unfolding link_ok_def Let_def by metis
  then show ?thesis using assms by (auto simp: link_ok_def ups_def)
qed

lemma toolName_call: "callId (call_id n)" if "n < 10 ^ 60"
proof -
  have digits: "list_all is_digit (nat_str k)" for k
  proof (induction k rule: less_induct)
    case (less k)
    show ?case
    proof (cases "k < 10")
      case True
      then show ?thesis by (subst nat_str.simps) (simp add: is_digit_def)
    next
      case False
      then have "list_all is_digit (nat_str (k div 10))" using less by simp
      then show ?thesis using False by (subst nat_str.simps) (simp add: is_digit_def)
    qed
  qed
  have "list_all (\<lambda>c. is_upper c \<or> is_slug_char c \<or> c = CHR ''_'') (nat_str n)"
    using digits [of n] by (simp add: list_all_iff is_slug_char_def)
  then show ?thesis using that length_nat_str [of n 59]
    by (simp add: callId_def call_id_def is_slug_char_def is_lower_def)
qed

lemma truncated_error: "length why < 2 ^ 31 \<Longrightarrow> length (truncate_text why MAX_EVENT_TEXT) \<le> MAX_EVENT_TEXT"
  by (rule truncate_text_le) (simp_all add: js_sized_def MAX_EVENT_TEXT_def)

definition tool_request :: "runner \<Rightarrow> running \<Rightarrow> string \<Rightarrow> json \<Rightarrow> cell_message" where
  "tool_request r ru tool args = Msg_tool_request
     \<lparr>tc_id = call_id (rn_nextCall r + 1), tc_turn = ru_turn ru, tc_tool = tool, tc_args = args\<rparr>"

definition relayed :: "nat \<Rightarrow> runner \<Rightarrow> runner" where
  "relayed k r = r\<lparr>rn_nextCall := rn_nextCall r + 1,
     rn_pending := mset_key (call_id (rn_nextCall r + 1)) k (rn_pending r)\<rparr>"

lemma callTool_cases:
  obtains (refused) why where "callTool k tool args r = answer_call k (refusal why) r"
  | (asked) ru where "rn_current r = Some ru" and "toolName tool" and "\<not> (case args of JArr _ \<Rightarrow> True | _ \<Rightarrow> False)"
      and "length (rn_pending r) < MAX_PENDING_TOOLS"
      and "callTool k tool args r = runner_send (tool_request r ru tool args) (relayed k r)"
proof (cases "rn_current r")
  case None
  then show ?thesis using refused by (simp add: callTool_def)
next
  case (Some ru)
  show ?thesis
  proof (cases "toolName tool \<and> \<not> (case args of JArr _ \<Rightarrow> True | _ \<Rightarrow> False) \<and> length (rn_pending r) < MAX_PENDING_TOOLS")
    case True
    then show ?thesis using Some asked [of ru] by (simp add: callTool_def Let_def tool_request_def relayed_def)
  next
    case False
    have "\<exists>why. callTool k tool args r = answer_call k (refusal why) r"
    proof (cases "toolName tool")
      case True
      with False Some show ?thesis
        by (cases "case args of JArr _ \<Rightarrow> True | _ \<Rightarrow> False") (simp_all add: callTool_def not_less, blast+)
    qed (use Some in \<open>simp add: callTool_def, blast\<close>)
    then show ?thesis using refused by blast
  qed
qed

lemma sending_ok:
  assumes "link_ok num cost l" and "\<not> is_run c"
  shows "link_ok num cost (l\<lparr>lk_session := send c (lk_session l)\<rparr>)"
  using assms by (intro daemon_step [where cs = "[c]"]) (simp_all add: session_frame link_ok_def)

lemma link_step_ok:
  assumes "link_step num cost hint opts l l'" and "link_ok num cost l"
  shows "link_ok num cost l'"
  using assms(1)
proof cases
  case (daemon_runs t inp resume)
  then show ?thesis using assms(2)
    by (auto simp: run_turn_def op_defs require_def send_def link_ok_def phase_ok_def ups_def runs_def is_run_def
        split: option.splits)
next
  case (daemon_cancels t)
  then show ?thesis using assms(2)
    by (simp add: cancel_turn_def sending_ok is_run_def)
next
  case (daemon_answers i r)
  then show ?thesis using assms(2)
    by (simp add: tool_answer_def sending_ok is_run_def split: sum.split)
next
  case daemon_reads
  then show ?thesis using reads_ok [OF assms(2)] by simp
next
  case (daemon_yields ev s)
  then show ?thesis using assms(2)
    by (auto simp: next_event_def link_ok_def phase_ok_def ups_def runs_def split: option.splits list.splits)
next
  case (turn_returns r s)
  then show ?thesis using assms(2)
    by (auto simp: turn_over_def link_ok_def phase_ok_def ups_def runs_def split: option.splits list.splits)
next
  case runner_reads
  then show ?thesis using commands_ok [OF assms(2)] by simp
next
  case (runtime_yields ev)
  show ?thesis
  proof (cases "rn_current (lk_runner l)")
    case (Some ru)
    with assms(2) obtain ct where "cl_current (lk_session l) = Some ct" "ct_done ct = None" "turnId (ct_turn ct)"
      "ru_turn ru = ct_turn ct" "runs l = []" "list_all (in_turn (ct_turn ct)) (ups l)"
      unfolding link_ok_def by (metis running_phase)
    then show ?thesis unfolding runtime_yields(1)
      by (intro runner_step [OF assms(2), where ms = "[Msg_event (ru_turn ru) ev]"])
        (use runtime_yields assms(2) Some in \<open>simp_all add: exec_event_def runner_send_def link_ok_def phase_ok_def is_ready_def\<close>)
  qed (use runtime_yields assms(2) in \<open>simp add: exec_event_def\<close>)
next
  case (runtime_throws why)
  show ?thesis
  proof (cases "rn_current (lk_runner l)")
    case (Some ru)
    let ?m = "if ru_aborted ru then ''interrupted'' else why"
    have "length (truncate_text ?m MAX_EVENT_TEXT) \<le> MAX_EVENT_TEXT"
      using runtime_throws(2) by (intro truncated_error) simp
    moreover from Some assms(2) obtain ct where "cl_current (lk_session l) = Some ct" "ct_done ct = None"
      "turnId (ct_turn ct)" "ru_turn ru = ct_turn ct" "runs l = []" "list_all (in_turn (ct_turn ct)) (ups l)"
      unfolding link_ok_def by (metis running_phase)
    ultimately show ?thesis unfolding runtime_throws(1)
      by (intro runner_step [OF assms(2), where ms = "[Msg_event (ru_turn ru) (Ev_error (truncate_text ?m MAX_EVENT_TEXT) True)]"])
        (use assms(2) Some in \<open>simp_all add: exec_throw_def runner_send_def link_ok_def phase_ok_def is_ready_def Let_def\<close>)
  qed (use runtime_throws assms(2) in \<open>simp add: exec_throw_def\<close>)
next
  case runtime_ends
  show ?thesis
  proof (cases "rn_current (lk_runner l)")
    case (Some ru)
    with assms(2) obtain ct where "cl_current (lk_session l) = Some ct" "ct_done ct = None" "turnId (ct_turn ct)"
      "ru_turn ru = ct_turn ct" "runs l = []" "list_all (in_turn (ct_turn ct)) (ups l)"
      unfolding link_ok_def by (metis running_phase)
    then show ?thesis unfolding runtime_ends
      by (intro runner_step [OF assms(2), where ms = "[Msg_turn_end (ru_turn ru) (ru_ok ru \<and> \<not> ru_aborted ru)]"])
        (use assms(2) Some in \<open>simp_all add: exec_end_def runner_send_def link_ok_def phase_ok_def is_ready_def\<close>)
  qed (use runtime_ends assms(2) in \<open>simp add: exec_end_def\<close>)
next
  case (cell_calls k tool req)
  let ?args = "tool_args req" and ?r = "lk_runner l"
  show ?thesis
  proof (cases rule: callTool_cases [where k = k and tool = tool and args = ?args and r = ?r])
    case (asked ru)
    from asked(1) assms(2) obtain ct where "cl_current (lk_session l) = Some ct" "ct_done ct = None" "turnId (ct_turn ct)"
      "ru_turn ru = ct_turn ct" "runs l = []" "list_all (in_turn (ct_turn ct)) (ups l)"
      unfolding link_ok_def by (metis running_phase)
    moreover have "is_object ?args"
      using asked(3) by (auto simp: tool_args_def is_object_def split: option.splits json.splits)
    moreover have "callId (call_id (rn_nextCall ?r + 1))" using cell_calls(2) by (intro toolName_call) simp
    ultimately show ?thesis unfolding cell_calls(1) asked(5)
      by (intro runner_step [OF assms(2), where ms = "[tool_request ?r ru tool ?args]"])
        (use assms(2) asked(1,2) in
          \<open>simp_all add: runner_send_def relayed_def tool_request_def link_ok_def phase_ok_def is_ready_def\<close>)
  qed (use cell_calls(1) assms(2) in \<open>simp add: answer_call_def link_ok_def ups_def runs_def\<close>)
qed

lemma exec_start_ok: "link_ok num cost (start_link printed name handler)"
  by (auto simp: start_link_def new_session_def startRunner_def link_ok_def ups_def runs_def phase_ok_def is_ready_def
      runtime_of_env_def version_of_def RUNTIMES_def split: option.split)

text \<open>
  The order of the messages is one both ends accept: whatever turns are asked for, cancelled and answered,
  whatever valid events the runtime yields, and however the two ends interleave, no message is refused for what
  it is or when it comes, and no turn ends with a reason of its own.  (Fewer than a billion tool calls.)
\<close>

theorem honest_cell_never_fails:
  assumes "linked num cost hint opts l"
  shows "\<not> cl_killed (lk_session l) \<and> rn_exits (lk_runner l) = [] \<and>
    list_all (message_ok num cost) (rn_sent (lk_runner l)) \<and>
    (\<forall>r s. turn_over (lk_session l) = Some (r, s) \<longrightarrow> r = Inr ())"
proof -
  have ok: "link_ok num cost l"
    using assms by induction (simp_all add: exec_start_ok link_step_ok)
  then show ?thesis
    by (auto simp: link_ok_def phase_ok_def turn_over_def split: option.splits list.splits)
qed

lemma honest_cell_never_fails_witness:
  "\<not> cl_killed (lk_session (start_link (Some ''1.0'') None True))"
  using honest_cell_never_fails [OF linked_start [where printed = "Some ''1.0''" and name = None and handler = True]]
  by blast

end
