(* ===== verification/SocketFacts.thy ===== *)
theory SocketFacts
  imports RunnerFacts "HOL-Library.Multiset"
begin

text \<open>
  Facts about the tool socket of a cell, which any program of the cell may use: every call is answered
  once, the one line that ends the runner, and the frames that end the session although each part of
  them keeps its limit.
\<close>

section \<open>Every call is answered once\<close>

lemma digits_val_snoc: "digits_val (s @ [c]) = 10 * digits_val s + digit_val c"
  by (simp add: digits_val_def)

lemma digits_val_nat_str: "digits_val (nat_str n) = n"
proof (induction n rule: less_induct)
  case (less n)
  show ?case
  proof (cases "n < 10")
    case True
    then show ?thesis by (subst nat_str.simps) (simp add: digits_val_def digit_val_def)
  next
    case False
    then have "digits_val (nat_str (n div 10)) = n div 10" using less by simp
    then show ?thesis using False by (subst nat_str.simps) (simp add: digits_val_snoc digit_val_def)
  qed
qed

lemma call_id_inject: "call_id m = call_id n \<longleftrightarrow> m = n"
  using digits_val_nat_str by (metis call_id_def list.inject)

inductive runner_step :: "nat list \<times> runner \<Rightarrow> nat list \<times> runner \<Rightarrow> bool" where
  a_call: "runner_step (A, r) (A @ [k], callTool k tool args r)"
| a_command: "runner_step (A, r) (A, runner_command c r)"
| an_event: "runner_step (A, r) (A, exec_event ev r)"
| an_error: "runner_step (A, r) (A, exec_throw why r)"
| an_end: "runner_step (A, r) (A, exec_end r)"
| the_stop: "runner_step (A, r) (A, runner_end r)"

inductive runner_reached :: "nat list \<times> runner \<Rightarrow> bool" where
  runner_starts: "runner_reached ([], startRunner version runtime)"
| runner_goes_on: "runner_reached st \<Longrightarrow> runner_step st st' \<Longrightarrow> runner_reached st'"

definition calls_ok :: "nat list \<Rightarrow> runner \<Rightarrow> bool" where
  "calls_ok A r \<longleftrightarrow>
     mset A = mset (map fst (rn_answers r)) + mset (mvalues (rn_pending r)) \<and>
     distinct (mkeys (rn_pending r)) \<and> set (mkeys (rn_pending r)) \<subseteq> call_id ` {..rn_nextCall r} \<and>
     length (rn_pending r) \<le> MAX_PENDING_TOOLS \<and> (rn_current r = None \<longrightarrow> rn_pending r = [])"

lemma update_new: "k \<notin> set (mkeys m) \<Longrightarrow> mset_key k v m = m @ [(k, v)]"
  by (induction m) auto

lemma delete_absent: "mget m k = None \<Longrightarrow> mdelete k m = m"
  by (induction m) (auto split: if_splits)

lemma delete_entry:
  "distinct (mkeys m) \<Longrightarrow> mget m k = Some v \<Longrightarrow> mset (mvalues m) = mset (mvalues (mdelete k m)) + {#v#}"
proof (induction m)
  case (Cons kv m)
  show ?case
  proof (cases "fst kv = k")
    case True
    then have "mdelete k m = m" using Cons.prems(1) by (intro delete_absent) (simp add: map_of_eq_None_iff)
    then show ?thesis using Cons.prems(2) True by simp
  qed (use Cons in simp)
qed simp

lemma delete_shrinks:
  "length (mdelete k m) \<le> length m" "set (mkeys (mdelete k m)) \<subseteq> set (mkeys m)"
  "distinct (mkeys m) \<Longrightarrow> distinct (mkeys (mdelete k m))"
proof -
  show "length (mdelete k m) \<le> length m" by (induction m) auto
  show "set (mkeys (mdelete k m)) \<subseteq> set (mkeys m)" by (induction m) auto
  then show "distinct (mkeys m) \<Longrightarrow> distinct (mkeys (mdelete k m))" by (simp add: delete_keys distinct_removeAll)
qed

lemma calls_ok_call:
  assumes "calls_ok A r"
  shows "calls_ok (A @ [k]) (callTool k tool args r)"
proof (cases rule: callTool_cases [where k = k and tool = tool and args = args and r = r])
  case (asked ru)
  let ?i = "call_id (rn_nextCall r + 1)"
  have new: "?i \<notin> set (mkeys (rn_pending r))"
    using assms by (auto simp: calls_ok_def call_id_inject dest!: subsetD)
  then have "mset_key ?i k (rn_pending r) = rn_pending r @ [(?i, k)]" by (rule update_new)
  moreover have "set (mkeys (rn_pending r)) \<subseteq> call_id ` {..rn_nextCall r + 1}"
    using assms unfolding calls_ok_def by (meson atMost_subset_iff image_mono le_add1 order_trans)
  ultimately show ?thesis using assms asked new
    by (simp add: calls_ok_def relayed_def runner_send_def MAX_PENDING_TOOLS_def)
qed (use assms in \<open>simp add: calls_ok_def answer_call_def\<close>)

lemma calls_ok_response:
  assumes "calls_ok A r"
  shows "calls_ok A (runner_command (Cell_response i ok res err) r)"
proof (cases "mget (rn_pending r) i")
  case None
  then show ?thesis using assms by (simp add: runner_command_def delete_absent calls_ok_def)
next
  case (Some k)
  have "mset (mvalues (rn_pending r)) = mset (mvalues (mdelete i (rn_pending r))) + {#k#}"
    using delete_entry [OF _ Some] assms by (simp add: calls_ok_def)
  moreover have "rn_current r \<noteq> None" using Some assms by (auto simp: calls_ok_def)
  moreover have "length (mdelete i (rn_pending r)) \<le> MAX_PENDING_TOOLS"
    "set (mkeys (mdelete i (rn_pending r))) \<subseteq> call_id ` {..rn_nextCall r}"
    "distinct (mkeys (mdelete i (rn_pending r)))"
    using assms delete_shrinks [where k = i and m = "rn_pending r"] unfolding calls_ok_def by (linarith, blast, blast)
  ultimately show ?thesis
    using Some assms by (simp add: runner_command_def answer_call_def calls_ok_def)
qed

lemma calls_ok_same:
  assumes "calls_ok A r" and "rn_answers s = rn_answers r" and "rn_pending s = rn_pending r"
    and "rn_nextCall s = rn_nextCall r" and "rn_current s = None \<Longrightarrow> rn_current r = None"
  shows "calls_ok A s"
  using assms by (auto simp: calls_ok_def)

lemma calls_ok_command:
  assumes "calls_ok A r"
  shows "calls_ok A (runner_command c r)"
proof (cases c)
  case (Cell_response i ok res err)
  then show ?thesis using calls_ok_response [OF assms] by simp
next
  case (Cell_cancel t)
  then show ?thesis
    by (intro calls_ok_same [OF assms]) (simp_all add: runner_command_def split: option.splits if_splits)
next
  case (Cell_run t i q opts)
  then show ?thesis
    by (intro calls_ok_same [OF assms]) (simp_all add: runner_command_def exec_begin_def runner_send_def split: if_splits)
qed

lemma calls_ok_end: "calls_ok A r \<Longrightarrow> calls_ok A (exec_end r)"
proof (cases "rn_current r")
  case (Some ru)
  moreover assume "calls_ok A r"
  ultimately show ?thesis by (simp add: exec_end_def runner_send_def calls_ok_def comp_def)
qed (simp add: exec_end_def)

lemma calls_ok_step:
  assumes "runner_step (A, r) (B, s)" and "calls_ok A r"
  shows "calls_ok B s"
  using assms(1)
proof cases
  case (an_event ev)
  then show ?thesis
    by (intro calls_ok_same [OF assms(2) [folded an_event(1)]])
      (simp_all add: exec_event_def runner_send_def split: option.splits)
next
  case (an_error why)
  then show ?thesis
    by (intro calls_ok_same [OF assms(2) [folded an_error(1)]])
      (simp_all add: exec_throw_def runner_send_def Let_def split: option.splits)
next
  case the_stop
  then show ?thesis
    by (intro calls_ok_same [OF assms(2) [folded the_stop(1)]]) (simp_all add: runner_end_def runner_exit_def)
qed (use assms(2) in \<open>auto intro: calls_ok_call calls_ok_command calls_ok_end\<close>)

text \<open>
  C16 (tool_calls_answered_once). However calls, answers of the daemon, cancellations and the ends of turns
  come, every call made over the tool socket is answered exactly once or still waits, at most eight wait
  at a time, and none waits when no turn is running.
\<close>

theorem tool_calls_answered_once:
  assumes "runner_reached (A, r)"
  shows "mset A = mset (map fst (rn_answers r)) + mset (mvalues (rn_pending r)) \<and>
    length (rn_pending r) \<le> 8 \<and> (case rn_current r of None \<Rightarrow> rn_pending r = [] | Some _ \<Rightarrow> True)"
proof -
  have "calls_ok (fst st) (snd st)" if "runner_reached st" for st
    using that
  proof induction
    case (runner_starts version runtime)
    show ?case by (simp add: startRunner_def calls_ok_def)
  next
    case (runner_goes_on st st')
    then show ?case using calls_ok_step by (metis prod.collapse)
  qed
  from this [OF assms] show ?thesis by (auto simp: calls_ok_def MAX_PENDING_TOOLS_def split: option.split)
qed

lemma tool_calls_answered_once_witness:
  "mset [7::nat] = mset (map fst (rn_answers (callTool 7 ''whoami'' (JObj []) (startRunner ''1'' ''codex'')))) +
     mset (mvalues (rn_pending (callTool 7 ''whoami'' (JObj []) (startRunner ''1'' ''codex''))))"
  using tool_calls_answered_once [OF runner_goes_on [OF runner_starts a_call [where A = "[]"]],
      of 7 "''whoami''" "JObj []"]
  by simp

section \<open>The line that ends the runner\<close>

lemma tools_line_throws: "(\<exists>e. fst (tools_line parse line st) = Inl e) \<longleftrightarrow> parse line = Some JNull"
  by (cases st) (auto simp: tools_line_def op_defs split: option.split json.split)

lemma tools_lines_throw:
  "(\<exists>e. fst (tools_lines parse ls st) = Inl e) \<longleftrightarrow> list_ex (\<lambda>l. parse l = Some JNull) (butlast ls)"
proof (induction parse ls arbitrary: st rule: tools_lines.induct)
  case (3 parse line l ls)
  obtain q st' where q: "tools_line parse line st = (q, st')" by (cases "tools_line parse line st")
  show ?case
  proof (cases q)
    case (Inl e)
    then show ?thesis using q tools_line_throws [of parse line st] by (auto simp: andthen_def)
  next
    case (Inr u)
    then show ?thesis using q tools_line_throws [of parse line st] "3.IH" [of st'] by (auto simp: andthen_def)
  qed
qed (simp_all add: op_defs)

text \<open>
  A chunk of a tool connection throws an exception that nothing catches,
  and so ends the runner and with it the cell, exactly when it completes a line that is the JSON value
  \<open>null\<close> (and the buffer is within its limit); every other line, however malformed, is answered.
\<close>

theorem null_line_ends_the_runner:
  "(\<exists>e. fst (tools_data parse chunk (r, c)) = Inl e) \<longleftrightarrow>
     length (cn_buffer c @ chunk) \<le> TOOL_BUFFER \<and>
     list_ex (\<lambda>line. parse line = Some JNull) (butlast (split_on newline (cn_buffer c @ chunk)))"
  using tools_lines_throw [of parse "split_on newline (cn_buffer c @ chunk)" "(r, c\<lparr>cn_buffer := cn_buffer c @ chunk\<rparr>)"]
  by (simp add: tools_data_def) (simp add: op_defs)

section \<open>Limits that do not add up\<close>

lemma oversize_line_kills:
  assumes "newline \<notin> set line" and "CELL_MAX_FRAME_BYTES < length line" and "\<not> cl_closed s"
    and "\<not> failed (cl_decoder s)"
  shows "cl_killed (on_data parse num hint (line @ [newline]) s)"
proof -
  have "takeWhile (\<lambda>b. b \<noteq> newline) (line @ [newline]) = line" "dropWhile (\<lambda>b. b \<noteq> newline) (line @ [newline]) = [newline]"
    using assms(1) by (auto simp: takeWhile_append dropWhile_append)
  then have "\<exists>m d. push parse (\<lambda>_. None) CELL_MAX_FRAME_BYTES (line @ [newline]) (cl_decoder s) = ([Failure m], d)"
    using assms(2,4) by (simp add: push_def push_loop.simps [of _ _ _ "line @ [newline]"] Let_def decoder_fail_def)
  then show ?thesis using assms(3) by (auto simp: on_data_def Let_def fail_def turn_end_def settle_ready_def)
qed

lemma length_json_replicate: "length (json_string (replicate n c)) = 2 + n * length (json_char c)"
  by (simp add: json_string_def length_concat sum_list_replicate)

lemma json_char_no_newline: "newline \<notin> set (json_char c)"
proof -
  have "newline \<notin> set (CHR 0x5C # ''u00'' @ [hex_digit (n div 16), hex_digit (n mod 16)])" if "n < 32" for n
  proof -
    have "k < 16 \<Longrightarrow> hex_digit k \<noteq> newline" for k
      by (cases k rule: nat.exhaust; simp add: hex_digit_def newline_def nth_Cons split: nat.splits)
    moreover have "n div 16 < 16" "n mod 16 < 16" using that by auto
    ultimately have "hex_digit (n div 16) \<noteq> newline" "hex_digit (n mod 16) \<noteq> newline" by blast+
    then show ?thesis by (simp add: newline_def eq_commute)
  qed
  then show ?thesis by (auto simp: json_char_def Let_def newline_def)
qed

lemma json_string_no_newline: "newline \<notin> set (json_string s)"
  using json_char_no_newline by (auto simp: json_string_def newline_def)

definition ESC :: char where "ESC = CHR 0x1B"

lemma oversize_event_kills:
  assumes "44000 \<le> n" and "\<not> cl_closed s" and "\<not> failed (cl_decoder s)"
  shows "cl_killed (on_data parse num hint
    (encodeFrame json_text (message_json cost (Msg_event t (Ev_message (replicate n ESC))))) s)"
  unfolding encodeFrame_def
proof (rule oversize_line_kills [OF _ _ assms(2,3)])
  have esc: "length (json_char ESC) = 6" by (simp add: json_char_def ESC_def)
  show "CELL_MAX_FRAME_BYTES < length (json_text (message_json cost (Msg_event t (Ev_message (replicate n ESC)))))"
    using assms(1) by (simp add: CELL_MAX_FRAME_BYTES_def length_json_replicate esc)
  show "newline \<notin> set (json_text (message_json cost (Msg_event t (Ev_message (replicate n ESC)))))"
    using json_string_no_newline by (simp add: newline_def)
qed

definition big_args :: json where
  "big_args = JObj [(''a'', JStr (replicate 262110 (CHR ''x'')))]"

lemma oversize_call_kills:
  assumes "rn_current r = Some ru" and "rn_pending r = []" and "\<not> cl_closed s" and "\<not> failed (cl_decoder s)"
  shows "cl_killed (on_data parse num hint
    (encodeFrame json_text (message_json cost (last (rn_sent (callTool k ''x'' big_args r))))) s)"
proof -
  have x: "length (json_char (CHR ''x'')) = 1" by (simp add: json_char_def)
  have "toolName ''x''" by (simp add: toolName_def is_lower_def)
  then have frame: "last (rn_sent (callTool k ''x'' big_args r)) = tool_request r ru ''x'' big_args"
    using assms(1,2) by (simp add: callTool_def big_args_def MAX_PENDING_TOOLS_def Let_def runner_send_def tool_request_def)
  have "CELL_MAX_FRAME_BYTES < length (json_text (message_json cost (tool_request r ru ''x'' big_args)))"
    by (simp add: tool_request_def big_args_def CELL_MAX_FRAME_BYTES_def length_json_replicate x)
      (simp add: json_string_def json_char_def)
  moreover have "newline \<notin> set (json_text (message_json cost (tool_request r ru ''x'' big_args)))"
    using json_string_no_newline by (simp add: tool_request_def big_args_def newline_def)
  ultimately show ?thesis unfolding encodeFrame_def frame using assms(3,4) by (intro oversize_line_kills)
qed

text \<open>
  Two messages that keep every limit end the session all the same, because JSON
  escapes and the envelope make their frames larger than a frame may be: a text of 44000 or more control
  characters, though an event may hold 65536, and a tool call whose line the socket accepts.
\<close>

theorem limits_do_not_add_up:
  assumes "turnId t" and "44000 \<le> n" and "n \<le> MAX_EVENT_TEXT"
    and "rn_current r = Some ru" and "rn_pending r = []"
    and "\<not> cl_closed s" and "\<not> failed (cl_decoder s)"
  shows "message_ok num cost (Msg_event t (Ev_message (replicate n ESC))) \<and>
    cl_killed (on_data parse num hint
      (encodeFrame json_text (message_json cost (Msg_event t (Ev_message (replicate n ESC))))) s) \<and>
    length (json_text (JObj [(''tool'', JStr ''x''), (''args'', big_args)]) @ [newline]) \<le> TOOL_BUFFER \<and>
    cl_killed (on_data parse num hint
      (encodeFrame json_text (message_json cost (last (rn_sent (callTool k ''x'' big_args r))))) s)"
proof -
  have "length (json_text (JObj [(''tool'', JStr ''x''), (''args'', big_args)]) @ [newline]) \<le> TOOL_BUFFER"
    by (simp add: big_args_def TOOL_BUFFER_def length_json_replicate) (simp add: json_string_def json_char_def)
  then show ?thesis
    using assms oversize_event_kills oversize_call_kills by simp
qed

lemma limits_do_not_add_up_witness:
  "cl_killed (on_data (\<lambda>_. None) (\<lambda>_. 0) (\<lambda>_. None) (encodeFrame json_text (message_json (\<lambda>_. JNull)
     (Msg_event ''t1'' (Ev_message (replicate 44000 ESC))))) (new_session True))"
  using limits_do_not_add_up [of "''t1''" 44000 "exec_begin (Cell_run ''t1'' [] None undefined) ''t1'' (startRunner [] [])"
      "\<lparr>ru_turn = ''t1'', ru_aborted = False, ru_ok = True\<rparr>" "new_session True" "\<lambda>_. 0" "\<lambda>_. JNull" "\<lambda>_. None" "\<lambda>_. None"]
  by (simp add: turnId_def is_slug_char_def is_lower_def is_digit_def MAX_EVENT_TEXT_def exec_begin_def startRunner_def
      new_session_def new_decoder_def del: message_json.simps)

end
