(* ===== verification/Mcp.thy ===== *)
theory Mcp
  imports Runner
begin

text \<open>
  \<^verbatim>\<open>packages/cell-runner/src/mcp.ts\<close>: the MCP server that a runtime starts inside its cell.  Every
  call goes on to the runner's tool socket.  Parameters, as operations on a state of their own:
  \<open>call\<close> is a request over that socket, \<open>run\<close> a connector tool (the third argument announces an
  approval), \<open>tools\<close> the connector tools of the cell.
\<close>

record connector_tool =
  ct_connector :: string
  ct_name :: string
  ct_description :: string
  ct_inputSchema :: json
  ct_op :: string
  ct_keys :: "string list"
  ct_write :: bool

type_synonym 's tool_call_op = "string \<Rightarrow> json \<Rightarrow> ('s, call_answer) op"
type_synonym 's connector_run = "connector_tool \<Rightarrow> json \<Rightarrow> (string \<Rightarrow> ('s, unit) op) \<Rightarrow> ('s, json) op"

definition LIST_TOOLS :: string where "LIST_TOOLS = ''anchi.tools''"
definition APPROVAL_PENDING :: string where "APPROVAL_PENDING = ''anchi.approval_pending''"
definition SERVER_INFO :: json where
  "SERVER_INFO = JObj [(''name'', JStr ''anchi''), (''version'', JStr ''1'')]"
definition DEFAULT_PROTOCOL :: string where "DEFAULT_PROTOCOL = ''2025-06-18''"

definition rpc_result :: "json \<Rightarrow> json \<Rightarrow> json" where
  "rpc_result i result = JObj [(''jsonrpc'', JStr ''2.0''), (''id'', i), (''result'', result)]"

definition rpc_error :: "json \<Rightarrow> int \<Rightarrow> string \<Rightarrow> json" where
  "rpc_error i code msg =
     JObj [(''jsonrpc'', JStr ''2.0''), (''id'', i),
       (''error'', JObj [(''code'', JInt code), (''message'', JStr msg)])]"

text \<open>\<open>x ?? d\<close> on a field.\<close>

definition or_null :: "json option \<Rightarrow> json \<Rightarrow> json" where
  "or_null x d = (case x of None \<Rightarrow> d | Some JNull \<Rightarrow> d | Some v \<Rightarrow> v)"

text \<open>Whether a field is true in a condition.\<close>

fun truthy :: "json \<Rightarrow> bool" where
  "truthy JNull = False"
| "truthy (JBool b) = b"
| "truthy (JInt n) = (n \<noteq> 0)"
| "truthy (JStr s) = (s \<noteq> [])"
| "truthy _ = True"

definition js_truthy :: "json option \<Rightarrow> bool" where
  "js_truthy x = (case x of None \<Rightarrow> False | Some v \<Rightarrow> truthy v)"

definition text_content :: "string \<Rightarrow> string \<times> json" where
  "text_content t = (''content'', JArr [JObj [(''type'', JStr ''text''), (''text'', JStr t)]])"

text \<open>\<open>[...tools]\<close> of a value the daemon sent: only an array or a string can be spread.\<close>

definition spread :: "json \<Rightarrow> ('s, json list) op" where
  "spread v =
     (case v of JArr xs \<Rightarrow> ret xs | JStr s \<Rightarrow> ret (map (\<lambda>c. JStr [c]) s) | _ \<Rightarrow> throw ''TypeError'')"

definition tool_entry :: "connector_tool \<Rightarrow> json" where
  "tool_entry t = JObj [(''name'', JStr (ct_name t)), (''description'', JStr (ct_description t)),
     (''inputSchema'', ct_inputSchema t)]"

definition list_tools :: "'s tool_call_op \<Rightarrow> connector_tool list \<Rightarrow> json \<Rightarrow> ('s, json) op" where
  "list_tools call tools i =
     andthen (call LIST_TOOLS (JObj [])) (\<lambda>r.
     if \<not> an_ok r
     then ret (rpc_error i (- 32603) (case an_error r of None \<Rightarrow> ''cannot list tools'' | Some e \<Rightarrow> e))
     else andthen (spread (or_null (Option.bind (an_result r) (\<lambda>v. js_field v ''tools'')) (JArr []))) (\<lambda>xs.
          ret (rpc_result i (JObj [(''tools'', JArr (xs @ map tool_entry tools))]))))"

text \<open>A connector tool: what it throws is the text of a failed call.\<close>

definition call_connector ::
  "'s tool_call_op \<Rightarrow> 's connector_run \<Rightarrow> connector_tool \<Rightarrow> json \<Rightarrow> json \<Rightarrow> ('s, json) op" where
  "call_connector call run tool args i =
     catch_error
       (andthen (run tool args (\<lambda>a. andthen (call APPROVAL_PENDING
          (JObj [(''connector'', JStr (ct_connector tool)), (''approval_id'', JStr a)])) (\<lambda>_. ret ()))) (\<lambda>result.
        ret (rpc_result i (JObj [text_content (json_text result), (''structuredContent'', result),
          (''isError'', JBool False)]))))
       (\<lambda>err. ret (rpc_result i (JObj [text_content (message err), (''isError'', JBool True)])))"

definition call_daemon :: "'s tool_call_op \<Rightarrow> string \<Rightarrow> json \<Rightarrow> json \<Rightarrow> ('s, json) op" where
  "call_daemon call name args i =
     andthen (call name args) (\<lambda>r.
     let result = or_null (an_result r) (JObj [])
     in ret (rpc_result i (JObj
          ([text_content (if an_ok r then json_text result
                          else case an_error r of None \<Rightarrow> ''failed'' | Some e \<Rightarrow> e)] @
           (if an_ok r then [(''structuredContent'', result)] else []) @
           [(''isError'', JBool (\<not> an_ok r))]))))"

definition call_tool ::
  "'s tool_call_op \<Rightarrow> 's connector_run \<Rightarrow> connector_tool list \<Rightarrow> json \<Rightarrow> json \<Rightarrow> ('s, json) op" where
  "call_tool call run tools params i =
     (let name = (case js_field params ''name'' of Some (JStr n) \<Rightarrow> n | _ \<Rightarrow> []);
          args = or_null (js_field params ''arguments'') (JObj [])
      in case find (\<lambda>t. ct_name t = name) tools of
           Some tool \<Rightarrow> call_connector call run tool args i
         | None \<Rightarrow> call_daemon call name args i)"

text \<open>\<open>handle\<close>: the answer of a message, \<open>None\<close> for a notification.\<close>

definition handle ::
  "'s tool_call_op \<Rightarrow> 's connector_run \<Rightarrow> connector_tool list \<Rightarrow> json \<Rightarrow> ('s, json option) op" where
  "handle call run tools req =
     (if \<not> is_object req then ret (Some (rpc_error JNull (- 32600) ''invalid request''))
      else case or_null (js_field req ''id'') JNull of
        JNull \<Rightarrow> ret None
      | i \<Rightarrow>
          (let params = or_null (js_field req ''params'') (JObj []);
               meth = js_field req ''method''
           in if meth = Some (JStr ''initialize'')
              then ret (Some (rpc_result i (JObj
                [(''protocolVersion'', case js_field params ''protocolVersion'' of
                    Some (JStr v) \<Rightarrow> JStr v | _ \<Rightarrow> JStr DEFAULT_PROTOCOL),
                 (''capabilities'', JObj [(''tools'', JObj [])]), (''serverInfo'', SERVER_INFO)])))
              else if meth = Some (JStr ''ping'') then ret (Some (rpc_result i (JObj [])))
              else if meth = Some (JStr ''tools/list'')
              then andthen (list_tools call tools i) (\<lambda>a. ret (Some a))
              else if meth = Some (JStr ''tools/call'')
              then andthen (call_tool call run tools params i) (\<lambda>a. ret (Some a))
              else ret (Some (rpc_error i (- 32601)
                (''method not found: '' @ js_String_field req ''method'')))))"

text \<open>One line of the stream: the messages written in answer.\<close>

definition mcpLine ::
  "(string \<Rightarrow> json option) \<Rightarrow> 's tool_call_op \<Rightarrow> 's connector_run \<Rightarrow> connector_tool list \<Rightarrow> string \<Rightarrow>
   ('s, json list) op" where
  "mcpLine parse call run tools line =
     (case parse line of
        None \<Rightarrow> ret [rpc_error JNull (- 32700) ''parse error'']
      | Some req \<Rightarrow>
          (let i = or_null (js_field req ''id'') JNull
           in catch_error
                (andthen (handle call run tools req) (\<lambda>a.
                 ret (case a of None \<Rightarrow> [] | Some x \<Rightarrow> [x])))
                (\<lambda>err. ret (if i = JNull then []
                   else [rpc_error i (- 32603) (''internal error: '' @ message err)]))))"

end
