(* ===== verification/McpFacts.thy ===== *)
theory McpFacts
  imports Connectors Tools
begin

text \<open>
  Facts about the tool server of a cell: one answer per request, the table of connector tools, and the
  loop in which a write waits for its approval.
\<close>

section \<open>Answers\<close>

lemma js_field_obj [simp]: "js_field (JObj kvs) k = map_of kvs k"
  by (simp add: js_field_def)

text \<open>An answer to the request \<open>i\<close>: a result or an error.\<close>

definition answers :: "json \<Rightarrow> json \<Rightarrow> bool" where
  "answers i m \<longleftrightarrow> js_field m ''jsonrpc'' = Some (JStr ''2.0'') \<and> js_field m ''id'' = Some i \<and>
     (js_field m ''result'' = None) \<noteq> (js_field m ''error'' = None)"

lemma answers_rpc [simp]: "answers i (rpc_result i r)" "answers i (rpc_error i code msg)"
  by (simp_all add: answers_def rpc_result_def rpc_error_def)

text \<open>An operation that answers the request \<open>i\<close> when it returns.\<close>

definition replies :: "json \<Rightarrow> ('s, json) op \<Rightarrow> bool" where
  "replies i m \<longleftrightarrow> (\<forall>s a s'. m s = (Inr a, s') \<longrightarrow> answers i a)"

lemma replies_ret: "answers i a \<Longrightarrow> replies i (ret a)"
  by (simp add: replies_def)

lemma replies_andthen: "(\<And>a. replies i (f a)) \<Longrightarrow> replies i (andthen m f)"
  by (fastforce simp: replies_def andthen_def split: prod.splits sum.splits)

lemma replies_catch: "replies i m \<Longrightarrow> (\<And>e. replies i (h e)) \<Longrightarrow> replies i (catch_error m h)"
  by (fastforce simp: replies_def catch_error_def split: prod.splits sum.splits)

lemma replies_if: "(b \<Longrightarrow> replies i m) \<Longrightarrow> (\<not> b \<Longrightarrow> replies i m') \<Longrightarrow> replies i (if b then m else m')"
  by simp

lemmas replies_rules = replies_ret replies_andthen replies_catch replies_if answers_rpc

lemma replies_tools: "replies i (list_tools ask tools i)" "replies i (call_tool ask run tools params i)"
  unfolding list_tools_def call_tool_def call_connector_def call_daemon_def Let_def
  by (intro replies_rules) (auto split: option.split intro!: replies_rules)

lemma handle_answers:
  assumes "handle ask run tools req s = (Inr a, s')" and "is_object req"
  shows "case or_null (js_field req ''id'') JNull of JNull \<Rightarrow> a = None | i \<Rightarrow> \<exists>m. a = Some m \<and> answers i m"
proof -
  have some: "\<exists>m. a = Some m \<and> answers i m" if "replies i x" "andthen x (\<lambda>a. ret (Some a)) s = (Inr a, s')"
    for i and x :: "('a, json) op"
    using that unfolding replies_def
    by (auto simp: andthen_def split: prod.splits sum.splits)
  show ?thesis
    using assms some [OF replies_tools(1)] some [OF replies_tools(2)]
    by (cases "or_null (js_field req ''id'') JNull") (auto simp: handle_def Let_def split: if_splits)
qed

lemma mcpLine_returns: "\<exists>ms s'. mcpLine parse ask run tools line s = (Inr ms, s')"
  by (auto simp: mcpLine_def catch_error_def andthen_def Let_def split: option.split prod.split sum.split)

text \<open>
  C17 (mcp_answers_once). Whatever line a runtime sends, and whatever the daemon and the services answer
  or throw, the tool server goes on: it writes exactly one answer with the id of a request, none for a
  notification, and an error without an id for what is not a request.
\<close>

theorem mcp_answers_once:
  "\<exists>ms s'. mcpLine parse ask run tools line s = (Inr ms, s') \<and>
     (case parse line of
        None \<Rightarrow> ms = [rpc_error JNull (- 32700) ''parse error'']
      | Some req \<Rightarrow>
          if is_object req
          then (case or_null (js_field req ''id'') JNull of
                  JNull \<Rightarrow> ms = [] | i \<Rightarrow> \<exists>m. ms = [m] \<and> answers i m)
          else ms = [rpc_error JNull (- 32600) ''invalid request''])"
proof (cases "parse line")
  case None
  then show ?thesis by (simp add: mcpLine_def)
next
  case (Some req)
  show ?thesis
  proof (cases "is_object req")
    case False
    then show ?thesis using Some by (simp add: mcpLine_def handle_def catch_error_def Let_def)
  next
    case True
    let ?i = "or_null (js_field req ''id'') JNull"
    obtain r s' where h: "handle ask run tools req s = (r, s')" by fastforce
    show ?thesis
    proof (cases r)
      case (Inl err)
      then show ?thesis using Some True h
        by (cases ?i) (simp_all add: mcpLine_def catch_error_def andthen_def Let_def)
    next
      case (Inr a)
      then show ?thesis using Some True h handle_answers [of ask run tools req s a s']
        by (cases ?i) (auto simp: mcpLine_def catch_error_def andthen_def Let_def)
    qed
  qed
qed

section \<open>The table of connector tools\<close>

definition required_arguments :: "connector_tool \<Rightarrow> json option" where
  "required_arguments t = js_field (ct_inputSchema t) ''required''"

definition required_known :: "connector_tool \<Rightarrow> bool" where
  "required_known t =
     (case required_arguments t of
        Some (JArr ks) \<Rightarrow> list_all (\<lambda>k. case k of JStr s \<Rightarrow> s \<in> set (ct_keys t) | _ \<Rightarrow> False) ks | _ \<Rightarrow> False)"

definition entry_ok :: "connector_tool \<Rightarrow> bool" where
  "entry_ok t \<longleftrightarrow> ct_connector t \<in> set SERVICE_CONNECTORS \<and> ct_name t = ct_connector t @ ''_'' @ ct_op t \<and>
     required_known t \<and> distinct (ct_keys t) \<and> ''op'' \<notin> set (ct_keys t) \<and> ''request_id'' \<notin> set (ct_keys t)"

lemma entries_ok: "list_all entry_ok CONNECTOR_TOOLS"
  by code_simp

lemma entries_distinct: "distinct (map ct_name CONNECTOR_TOOLS)"
  by code_simp

lemma entries_apart: "list_all (\<lambda>t. ct_name t \<notin> set (map tool_name (BASE_TOOLS @ DELEGATION_TOOLS))) CONNECTOR_TOOLS"
  by code_simp

lemma map_of_map_filter_notin: "k \<notin> set ks \<Longrightarrow> map_of (List.map_filter (\<lambda>k. map_option (Pair k) (f k)) ks) k = None"
  by (induction ks) (auto simp: List.map_filter_simps split: option.split)

lemma request_fields:
  assumes "entry_ok t"
  shows "js_field (connector_request t args fresh) ''op'' = Some (JStr (ct_op t))"
    and "js_field (connector_request t args fresh) ''request_id'' = (if ct_write t then Some (JStr fresh) else None)"
  using assms map_of_map_filter_notin [of "''request_id''" "ct_keys t" "js_field args"]
  by (auto simp: connector_request_def entry_ok_def map_of_append map_add_def)

text \<open>
  Every tool of the table belongs to a service, requires only arguments it
  passes on, has a name no other tool of the cell has, and whatever arguments an agent gives, the
  request names the tool's own operation and carries the fresh request id exactly when it writes.
\<close>

theorem connector_requests_shaped:
  "distinct (map ct_name CONNECTOR_TOOLS @ map tool_name (BASE_TOOLS @ DELEGATION_TOOLS)) \<and>
   list_all (\<lambda>t. ct_connector t \<in> set SERVICE_CONNECTORS \<and> required_known t \<and>
     js_field (connector_request t args fresh) ''op'' = Some (JStr (ct_op t)) \<and>
     js_field (connector_request t args fresh) ''request_id'' = (if ct_write t then Some (JStr fresh) else None))
     CONNECTOR_TOOLS"
proof -
  have "distinct (map tool_name (BASE_TOOLS @ DELEGATION_TOOLS))" by code_simp
  then show ?thesis
    using entries_ok entries_distinct entries_apart request_fields [of _ args fresh]
    by (auto simp: list_all_iff entry_ok_def)
qed

section \<open>Waiting for an approval\<close>

text \<open>An attempt after which the loop goes on, and the approval it waits for.\<close>

definition attempt_waits :: "connector_tool \<Rightarrow> nat \<Rightarrow> json result \<times> nat \<Rightarrow> bool" where
  "attempt_waits tool deadline att =
     (case att of
        (Inr v, now) \<Rightarrow> False
      | (Inl e, now) \<Rightarrow>
          (case connector_error tool (message e) of Gives_up _ \<Rightarrow> False | Awaits _ \<Rightarrow> now < deadline))"

definition awaited :: "connector_tool \<Rightarrow> json result \<times> nat \<Rightarrow> string" where
  "awaited tool att =
     (case fst att of Inl e \<Rightarrow> (case connector_error tool (message e) of Awaits i \<Rightarrow> i | _ \<Rightarrow> []) | _ \<Rightarrow> [])"

text \<open>What an attempt after which the loop ends returns.\<close>

definition attempt_result :: "connector_tool \<Rightarrow> json result \<times> nat \<Rightarrow> json result" where
  "attempt_result tool att =
     (case fst att of
        Inr v \<Rightarrow> Inr v
      | Inl e \<Rightarrow>
          (case connector_error tool (message e) of
             Gives_up m \<Rightarrow> Inl (Error m) | Awaits _ \<Rightarrow> Inl (Error ''APPROVAL_WAIT_TIMEOUT'')))"

fun changes :: "string option \<Rightarrow> string list \<Rightarrow> string list" where
  "changes was [] = []"
| "changes was (i # is) = (if Some i = was then [] else [i]) @ changes (Some i) is"

lemma changes_remdups: "changes (Some i) is = tl (remdups_adj (i # is))"
proof (induction "is" arbitrary: i)
  case (Cons j js)
  then show ?case using remdups_adj_Cons [of j js] by (cases "remdups_adj (j # js)") (auto simp: remdups_adj_Cons')
qed simp

lemma changes_start: "changes None is = remdups_adj is"
  using changes_remdups by (cases "is") (simp_all add: remdups_adj_Cons split: list.split)

lemma callConnector_eq:
  "callConnector tool deadline was as =
     (let waits = takeWhile (attempt_waits tool deadline) as; rest = dropWhile (attempt_waits tool deadline) as
      in (case rest of [] \<Rightarrow> None | att # _ \<Rightarrow> Some (attempt_result tool att),
          changes was (map (awaited tool) waits),
          length waits + (if rest = [] then 0 else 1)))"
proof (induction tool deadline was as rule: callConnector.induct)
  case (2 tool deadline was answer now later)
  show ?case
  proof (cases answer)
    case (Inl e)
    then show ?thesis
      using "2.IH" [OF Inl]
      by (cases "connector_error tool (message e)")
        (auto simp: attempt_waits_def attempt_result_def awaited_def Let_def split_beta)
  qed (simp add: attempt_waits_def attempt_result_def)
qed simp

text \<open>
  A connector tool repeats its request exactly while the service says
  that the write waits for an approval and the deadline has not come: the first other answer, or the
  first one after the deadline, decides the result and no request follows it.  The user is told of
  each approval once, when it changes.
\<close>

theorem connector_waits_for_approval:
  "callConnector tool deadline None as =
     (let waits = takeWhile (attempt_waits tool deadline) as; rest = dropWhile (attempt_waits tool deadline) as
      in (case rest of [] \<Rightarrow> None | att # _ \<Rightarrow> Some (attempt_result tool att),
          remdups_adj (map (awaited tool) waits),
          length waits + (if rest = [] then 0 else 1)))"
  by (simp only: callConnector_eq changes_start)

end
