(* ===== verification/ReportFacts.thy ===== *)
theory ReportFacts
  imports RuntimeFacts
begin

text \<open>
  What a turn reports: a failing Claude turn once, Codex's tool results after their calls, every word of
  Hermes's messages in order, and the session of a Hermes turn.
\<close>

section \<open>Claude\<close>

fun failed_result :: "sdk_message \<Rightarrow> bool" where
  "failed_result (Sdk_result r) = (cr_subtype r \<noteq> ''success'' \<or> cr_isError r)"
| "failed_result _ = False"

definition fatal_count :: "runtime_event list \<Rightarrow> nat" where
  "fatal_count evs = length (List.filter fatal_event evs)"

lemma fatal_count_append [simp]: "fatal_count (xs @ ys) = fatal_count xs + fatal_count ys"
  by (simp add: fatal_count_def)

lemma fatal_count_none: "list_all (\<lambda>e. \<not> fatal_event e) evs \<Longrightarrow> fatal_count evs = 0"
  by (simp add: fatal_count_def list_all_iff)

lemma fatal_event_simps [simp]:
  "fatal_event (Ev_error m f) = f" "\<not> fatal_event (Ev_message t)" "\<not> fatal_event (Ev_progress t)"
  "\<not> fatal_event (Ev_tool_call i n t)" "\<not> fatal_event (Ev_tool_result i t e)" "\<not> fatal_event (Ev_usage u)"
  "\<not> fatal_event Ev_turn_completed" "\<not> fatal_event (Ev_session_started r)"
  by (simp_all add: fatal_event_def)

lemma blocks_not_fatal:
  "list_all (\<lambda>e. \<not> fatal_event e) (concat (map assistant_block bs))"
  "list_all (\<lambda>e. \<not> fatal_event e) (concat (map user_block bs))"
  by (induction bs) (simp_all add: assistant_block_def user_block_def)

lemma mapClaudeMessage_fatal: "fatal_count (mapClaudeMessage m) = (if failed_result m then 1 else 0)"
proof (cases m)
  case (Sdk_assistant content err)
  then show ?thesis using fatal_count_none [OF blocks_not_fatal(1)]
    by (simp add: fatal_count_def split: option.split list.split)
next
  case (Sdk_user content)
  then show ?thesis using fatal_count_none [OF blocks_not_fatal(2)]
    by (simp add: fatal_count_def split: json.split)
next
  case (Sdk_result r)
  have "List.filter fatal_event (map model_usage_event us) = []" for us
    by (induction us) (simp_all add: model_usage_event_def split_beta)
  with Sdk_result show ?thesis by (simp add: result_events_def fatal_count_def Let_def)
qed (simp_all add: fatal_count_def)

lemma fatal_count_messages:
  "fatal_count (concat (map mapClaudeMessage ms)) = length (List.filter failed_result ms)"
  by (induction ms) (simp_all add: fatal_count_def [of "[]"] mapClaudeMessage_fatal)

text \<open>
  A turn of Claude reports exactly one fatal error per failed result,
  and one for the error a query throws only when no result had reported the failure and the turn was
  not aborted: a failing turn is never silent and never reported twice.
\<close>

theorem claude_failure_reported_once:
  "length (List.filter fatal_event (claudeEvents ms thrown aborted)) =
     (let n = length (List.filter failed_result ms)
      in if n = 0 \<and> thrown \<noteq> None \<and> \<not> aborted then 1 else n)"
proof -
  let ?evs = "concat (map mapClaudeMessage ms)"
  have count: "length (List.filter fatal_event ?evs) = length (List.filter failed_result ms)"
    using fatal_count_messages by (simp add: fatal_count_def)
  have "list_ex fatal_event ?evs \<longleftrightarrow> length (List.filter fatal_event ?evs) \<noteq> 0"
    by (simp only: list_ex_iff length_0_conv filter_empty_conv) blast
  then have "list_ex fatal_event ?evs \<longleftrightarrow> length (List.filter failed_result ms) \<noteq> 0" by (simp only: count)
  then show ?thesis
    by (cases thrown) (simp_all add: claudeEvents_def Let_def count)
qed

section \<open>Codex\<close>

text \<open>Every result comes after a call of the same id, counting calls before the list as \<open>known\<close>.\<close>

fun results_follow :: "string set \<Rightarrow> runtime_event list \<Rightarrow> bool" where
  "results_follow known [] = True"
| "results_follow known (Ev_tool_call i n t # es) = results_follow (insert i known) es"
| "results_follow known (Ev_tool_result i t e # es) = (i \<in> known \<and> results_follow known es)"
| "results_follow known (e # es) = results_follow known es"

fun called :: "runtime_event list \<Rightarrow> string set" where
  "called [] = {}"
| "called (Ev_tool_call i n t # es) = insert i (called es)"
| "called (e # es) = called es"

lemma results_follow_append:
  "results_follow known (xs @ ys) \<longleftrightarrow> results_follow known xs \<and> results_follow (known \<union> called xs) ys"
  by (induction known xs rule: results_follow.induct) auto

lemma toolCall_called: "toolCall item = Some c \<Longrightarrow> \<exists>n t. c = Ev_tool_call (item_id item) n t"
  by (cases item) auto

lemma toolResult_called:
  "toolResult item = Some r \<Longrightarrow> (\<exists>t e. r = Ev_tool_result (item_id item) t e) \<and> toolCall item \<noteq> None"
  by (cases item) auto

lemma tool_completed_follows:
  assumes "set (ms_calls st) \<subseteq> known"
  shows "results_follow known (fst (tool_completed item st)) \<and>
    set (ms_calls (snd (tool_completed item st))) \<subseteq> known \<union> called (fst (tool_completed item st))"
  using assms toolCall_called [of item] toolResult_called [of item]
  by (cases "toolCall item"; cases "toolResult item") (auto simp: tool_completed_def)

lemma plan_event_follows:
  "results_follow known (fst (plan_event items st)) \<and> called (fst (plan_event items st)) = {} \<and>
   ms_calls (snd (plan_event items st)) = ms_calls st"
  by (simp add: plan_event_def Let_def)

lemma mapCodexEvent_follows:
  assumes "set (ms_calls st) \<subseteq> known"
  shows "results_follow known (fst (mapCodexEvent e st)) \<and>
    set (ms_calls (snd (mapCodexEvent e st))) \<subseteq> known \<union> called (fst (mapCodexEvent e st))"
proof (cases e)
  case (Th_item_started item)
  show ?thesis
  proof (cases "\<exists>i items. item = It_todo i items")
    case True
    then show ?thesis using Th_item_started assms plan_event_follows by (auto simp: item_started_def)
  next
    case False
    then have "item_started item st = (case toolCall item of None \<Rightarrow> ([], st)
      | Some call \<Rightarrow> ([call], st\<lparr>ms_calls := add_once (item_id item) (ms_calls st)\<rparr>))"
      by (cases item) (simp_all add: item_started_def)
    then show ?thesis using Th_item_started assms toolCall_called [of item]
      by (cases "toolCall item") (auto simp: add_once_def)
  qed
next
  case (Th_item_updated item)
  then show ?thesis using assms plan_event_follows
    by (cases item) (auto simp: item_updated_def)
next
  case (Th_item_completed item)
  then show ?thesis using assms tool_completed_follows [OF assms, of item] by (cases item) auto
qed (use assms in \<open>simp_all add: codex_usage_event_def\<close>)

lemma map_codex_follows:
  "set (ms_calls st) \<subseteq> known \<Longrightarrow> results_follow known (fst (map_codex es st)) \<and>
     set (ms_calls (snd (map_codex es st))) \<subseteq> known \<union> called (fst (map_codex es st))"
proof (induction es arbitrary: st known)
  case (Cons e es)
  have "called (xs @ ys) = called xs \<union> called ys" for xs ys
    by (induction xs rule: called.induct) auto
  then show ?case
    using mapCodexEvent_follows [OF Cons.prems, of e]
      Cons.IH [of "snd (mapCodexEvent e st)" "known \<union> called (fst (mapCodexEvent e st))"]
    by (auto simp: split_beta Let_def results_follow_append)
qed simp

lemma runCodex_follows: "results_follow {} (fst (runCodex resumeId resumed fresh))"
proof -
  let ?first = "map_codex (st_events resumed) new_map_state"
  have first: "results_follow {} (fst ?first)" "set (ms_calls (snd ?first)) \<subseteq> called (fst ?first)"
    using map_codex_follows [of new_map_state "{}" "st_events resumed"] by (simp_all add: new_map_state_def)
  have again: "results_follow (called (fst ?first)) (fst (map_codex (st_events fresh) (snd ?first)))"
    using map_codex_follows [OF first(2)] by blast
  have new: "results_follow {} (fst (map_codex (st_events fresh) new_map_state))"
    using map_codex_follows [of new_map_state "{}"] by (simp add: new_map_state_def)
  show ?thesis
    using first(1) again new by (simp add: runCodex_def Let_def split_beta results_follow_append split: option.split)
qed

text \<open>A stream that only announced its session reports that and changes nothing of what is mapped later.\<close>

definition announces :: "thread_event \<Rightarrow> bool" where
  "announces e \<longleftrightarrow> (case e of Th_started _ \<Rightarrow> True | _ \<Rightarrow> False)"

definition announced :: "runtime_event \<Rightarrow> bool" where
  "announced ev \<longleftrightarrow> (case ev of Ev_session_started _ \<Rightarrow> True | _ \<Rightarrow> False)"

lemma turn_began_announces: "turn_began es \<longleftrightarrow> \<not> list_all announces es"
  unfolding turn_began_def by (induction es) (auto simp: announces_def split: thread_event.splits)

lemma announced_only:
  "list_all announces es \<Longrightarrow> list_all announced (fst (map_codex es st)) \<and> snd (map_codex es st) = st \<and>
     length (fst (map_codex es st)) = length es"
proof (induction es)
  case (Cons e es)
  then obtain i where "e = Th_started i" by (auto simp: announces_def split: thread_event.splits)
  then show ?case using Cons by (simp add: split_beta Let_def announced_def)
qed simp

text \<open>
  C18 (codex_turn_runs_once). In a turn of Codex every tool result comes after the call it belongs to, also for
  items that only arrive when they are finished.  A turn without a session to resume reports the new session's
  events, and one with a session that session's events.  Only where the session to resume is gone, the turn was
  not aborted and its stream had at most announced itself, a warning and the events of a new session follow,
  as if the lost one had never been: no work runs twice, and every other error is passed on.
\<close>

theorem codex_turn_runs_once:
  "let (evs, thrown) = runCodex resumeId resumed fresh
   in results_follow {} evs \<and>
      (if resumeId = None \<or> resumeId = Some []
       then evs = fst (map_codex (st_events fresh) new_map_state) \<and> thrown = st_error fresh
       else if list_all announces (st_events resumed) \<and> \<not> st_aborted resumed \<and>
         (case st_error resumed of None \<Rightarrow> False | Some e \<Rightarrow> js_includes ''no rollout found for thread id'' e)
       then thrown = st_error fresh \<and>
         (\<exists>first. list_all announced first \<and> length first = length (st_events resumed) \<and>
            evs = first @ [Ev_error NEW_SESSION_WARNING False] @ fst (map_codex (st_events fresh) new_map_state))
       else evs = fst (map_codex (st_events resumed) new_map_state) \<and> thrown = st_error resumed)"
proof -
  let ?evs = "fst (runCodex resumeId resumed fresh)" and ?thrown = "snd (runCodex resumeId resumed fresh)"
  let ?lost = "list_all announces (st_events resumed) \<and> \<not> st_aborted resumed \<and>
    (case st_error resumed of None \<Rightarrow> False | Some e \<Rightarrow> js_includes ''no rollout found for thread id'' e)"
  let ?new = "resumeId = None \<or> resumeId = Some []"
  have first: "?new \<Longrightarrow> ?evs = fst (map_codex (st_events fresh) new_map_state) \<and> ?thrown = st_error fresh"
    by (auto simp: runCodex_def)
  have kept: "\<not> ?new \<Longrightarrow> \<not> ?lost \<Longrightarrow> ?evs = fst (map_codex (st_events resumed) new_map_state) \<and> ?thrown = st_error resumed"
    by (auto simp: runCodex_def split_beta Let_def turn_began_announces missing_session_def split: option.splits)
  have replaced: "?evs = fst (map_codex (st_events resumed) new_map_state) @ [Ev_error NEW_SESSION_WARNING False] @
      fst (map_codex (st_events fresh) new_map_state) \<and> ?thrown = st_error fresh" if "\<not> ?new" ?lost
    using that announced_only [of "st_events resumed" new_map_state]
    by (auto simp: runCodex_def split_beta Let_def turn_began_announces missing_session_def split: option.splits)
  have "\<exists>xs. list_all announced xs \<and> length xs = length (st_events resumed) \<and>
      ?evs = xs @ [Ev_error NEW_SESSION_WARNING False] @ fst (map_codex (st_events fresh) new_map_state)"
    if "\<not> ?new" ?lost
    using replaced [OF that] announced_only [of "st_events resumed" new_map_state] that by blast
  note lost = this
  note follows = runCodex_follows [of resumeId resumed fresh]
  show ?thesis
  proof (cases ?new)
    case True
    then show ?thesis using follows first by (simp only: split_beta Let_def if_True simp_thms)
  next
    case False
    show ?thesis
    proof (cases ?lost)
      case True
      then show ?thesis
        using False follows replaced lost by (simp only: split_beta Let_def if_True if_False simp_thms)
    next
      case kept_lost: False
      then show ?thesis
        using False follows kept by (simp only: split_beta Let_def if_False simp_thms)
    qed
  qed
qed

section \<open>Hermes\<close>

text \<open>The text of a list without white space: what a trim cannot take away.\<close>

definition visible :: "string \<Rightarrow> string" where
  "visible s = List.filter (\<lambda>c. \<not> is_space c) s"

fun said :: "runtime_event \<Rightarrow> string" where
  "said (Ev_message t) = visible t"
| "said _ = []"

definition spoken_text :: "runtime_event list \<Rightarrow> string" where
  "spoken_text evs = concat (map said evs)"

text \<open>The message text of an update.\<close>

definition message_chunk :: "json \<Rightarrow> string" where
  "message_chunk u =
     (if h_str (js_field u ''sessionUpdate'') = ''agent_message_chunk'' \<and> is_text (js_field u ''content'')
      then h_str (h_field (js_field u ''content'') ''text'') else [])"

lemma visible_simps [simp]: "visible [] = []" "visible (xs @ ys) = visible xs @ visible ys"
  by (simp_all add: visible_def)

lemma spoken_text_simps [simp]:
  "spoken_text [] = []" "spoken_text (e # es) = said e @ spoken_text es"
  "spoken_text (xs @ ys) = spoken_text xs @ spoken_text ys"
  by (simp_all add: spoken_text_def)

lemma visible_dropWhile: "visible (dropWhile is_space s) = visible s"
  by (induction s) (simp_all add: visible_def)

lemma visible_rev: "visible (rev s) = rev (visible s)"
  by (simp add: visible_def rev_filter)

lemma visible_trim: "visible (js_trim s) = visible s"
  by (simp add: js_trim_def visible_rev visible_dropWhile)

lemma length_trim: "length (js_trim s) \<le> length s"
  unfolding js_trim_def by (metis length_dropWhile_le length_rev order_trans)

lemma flushMessage_said:
  "length (hm_message s) \<le> MAX_EVENT_TEXT \<Longrightarrow>
   spoken_text (fst (flushMessage s)) = visible (hm_message s) \<and> hm_message (snd (flushMessage s)) = [] \<and>
   hm_thought (snd (flushMessage s)) = hm_thought s"
  using visible_trim [of "hm_message s"] length_trim [of "hm_message s"]
  by (auto simp: flushMessage_def Let_def event_text_of_def truncate_text_def)

lemma flushThought_said:
  "spoken_text (fst (flushThought s)) = [] \<and> hm_message (snd (flushThought s)) = hm_message s"
  by (simp add: flushThought_def Let_def)

lemma flush_said:
  "length (hm_message s) \<le> MAX_EVENT_TEXT \<Longrightarrow>
   spoken_text (fst (flush s)) = visible (hm_message s) \<and> hm_message (snd (flush s)) = []"
  using flushThought_said [of s] flushMessage_said [of "snd (flushThought s)"]
  by (simp add: flush_def split_beta Let_def)

lemma tool_events_said: "said (hermes_call u) = []" "said (hermes_result u) = []"
  by (simp_all add: hermes_call_def hermes_result_def)

lemma hermes_update_said:
  assumes "length (hm_message s) \<le> MAX_EVENT_TEXT"
  shows "spoken_text (fst (hermes_update u s)) @ visible (hm_message (snd (hermes_update u s))) =
      visible (hm_message s) @ visible (message_chunk u) \<and>
    length (hm_message (snd (hermes_update u s))) \<le> length (hm_message s) + length (message_chunk u)"
  using flush_said [OF assms] flushMessage_said [OF assms] flushThought_said [of s]
  by (simp add: hermes_update_def message_chunk_def Let_def split_beta tool_events_said)

lemma hermes_updates_said:
  assumes "length (hm_message s) + length (concat (map message_chunk us)) \<le> MAX_EVENT_TEXT"
  shows "spoken_text (fst (hermes_updates us s)) @ visible (hm_message (snd (hermes_updates us s))) =
      visible (hm_message s) @ visible (concat (map message_chunk us)) \<and>
    length (hm_message (snd (hermes_updates us s))) \<le> length (hm_message s) + length (concat (map message_chunk us))"
  using assms
proof (induction us arbitrary: s)
  case (Cons u us)
  let ?t = "snd (hermes_update u s)"
  have step: "spoken_text (fst (hermes_update u s)) @ visible (hm_message ?t) =
      visible (hm_message s) @ visible (message_chunk u)"
    and len: "length (hm_message ?t) \<le> length (hm_message s) + length (message_chunk u)"
    using hermes_update_said [of s u] Cons.prems by auto
  have rest: "spoken_text (fst (hermes_updates us ?t)) @ visible (hm_message (snd (hermes_updates us ?t))) =
      visible (hm_message ?t) @ visible (concat (map message_chunk us))"
    and lens: "length (hm_message (snd (hermes_updates us ?t))) \<le> length (hm_message ?t) + length (concat (map message_chunk us))"
    using Cons.IH [of ?t] Cons.prems len by auto
  have "spoken_text (fst (hermes_updates (u # us) s)) @ visible (hm_message (snd (hermes_updates (u # us) s))) =
      (spoken_text (fst (hermes_update u s)) @ visible (hm_message ?t)) @ visible (concat (map message_chunk us))"
    using rest by (simp add: split_beta Let_def)
  then show ?case using step lens len by (simp add: split_beta Let_def)
qed simp

text \<open>
  While a prompt's message stays within the size of an event, the words
  of its chunks come out once, complete and in their order, however thoughts, plans and tool calls are
  mixed in and wherever the message is cut into events.
\<close>

theorem hermes_message_complete:
  assumes "length (concat (map message_chunk us)) \<le> MAX_EVENT_TEXT"
  shows "(let (out, s) = hermes_updates us new_turn_state in spoken_text (out @ fst (flush s))) =
    visible (concat (map message_chunk us))"
proof -
  let ?s = "snd (hermes_updates us new_turn_state)"
  have "spoken_text (fst (hermes_updates us new_turn_state)) @ visible (hm_message ?s) =
      visible (concat (map message_chunk us))" and "length (hm_message ?s) \<le> MAX_EVENT_TEXT"
    using hermes_updates_said [of new_turn_state us] assms by (simp_all add: new_turn_state_def)
  then show ?thesis using flush_said [of ?s] by (simp add: split_beta Let_def)
qed

definition demo_updates :: "json list" where
  "demo_updates = map (\<lambda>(k, t). JObj [(''sessionUpdate'', JStr k),
     (''content'', JObj [(''type'', JStr ''text''), (''text'', JStr t)])])
     [(''agent_message_chunk'', ''a ''), (''agent_thought_chunk'', ''hm''), (''agent_message_chunk'', ''b'')]"

lemma hermes_message_complete_witness:
  "(let (out, s) = hermes_updates demo_updates new_turn_state in spoken_text (out @ fst (flush s))) = ''ab''"
proof -
  have "concat (map message_chunk demo_updates) = ''a b''" by code_simp
  moreover have "visible ''a b'' = ''ab''" by code_simp
  ultimately show ?thesis using hermes_message_complete [of demo_updates] by (simp add: MAX_EVENT_TEXT_def)
qed

text \<open>
  When a turn is cancelled while its session opens, the session stays
  with the process but is never announced: no turn that follows in the same cell tells the daemon its
  id, whatever happens, so the conversation cannot be resumed once the cell is gone.
\<close>

theorem hermes_session_never_announced:
  assumes "\<not> hx_aborted_first x" and "hx_start x = Inr u" and "\<not> hx_aborted_started x"
    and "hx_session x = None" and "hx_open x = Inr (c # cs)" and "hx_aborted_open x"
    and "hx_session y = fst (snd (runHermes fl model x))"
  shows "fst (runHermes fl model x) = [] \<and> hx_session y = Some (c # cs) \<and>
    Ev_session_started i \<notin> set (fst (runHermes fl model y)) \<and> fst (snd (runHermes fl model y)) = Some (c # cs)"
proof -
  have parts: "Ev_session_started i \<notin> set (fst (flush s))" "Ev_session_started i \<notin> set (fst (flushThought s))"
    "Ev_session_started i \<notin> set (fst (flushMessage s))" for s
    by (auto simp: flush_def flushThought_def flushMessage_def split_beta Let_def)
  have tools: "Ev_session_started i \<noteq> hermes_call u" "Ev_session_started i \<noteq> hermes_result u" for u
    by (simp_all add: hermes_call_def hermes_result_def)
  have step: "Ev_session_started i \<notin> set (fst (hermes_update u s))" for u s
    using parts [of s] tools [of u] by (simp add: hermes_update_def Let_def split_beta)
  have steps: "Ev_session_started i \<notin> set (fst (hermes_updates us s))" for us s
    by (induction us arbitrary: s) (use step in \<open>simp_all add: split_beta Let_def\<close>)
  have result: "Ev_session_started i \<notin> set (promptResult fl r model)" for r
    by (auto simp: promptResult_def Let_def split: option.splits json.splits list.splits)
  have error: "Ev_session_started i \<notin> set (hermes_error a e)" for a e by (simp add: hermes_error_def)
  have prompt: "Ev_session_started i \<notin> set (hermes_prompt fl model sid y)" for sid
    using steps parts result error by (simp add: hermes_prompt_def split_beta Let_def split: sum.split)
  have "fst (runHermes fl model x) = [] \<and> hx_session y = Some (c # cs)"
    using assms by (simp add: runHermes_def)
  then show ?thesis using prompt error by (simp add: runHermes_def split: sum.split)
qed

lemma hermes_session_never_announced_witness:
  "fst (runHermes (\<lambda>_. 0) ''m'' (demo_script\<lparr>hx_aborted_open := True\<rparr>)) = [] \<and>
   Ev_session_started ''s1'' \<notin> set (fst (runHermes (\<lambda>_. 0) ''m'' (demo_script\<lparr>hx_session := Some ''s1''\<rparr>)))"
  using hermes_session_never_announced [of "demo_script\<lparr>hx_aborted_open := True\<rparr>" "()" "CHR ''s''" "''1''"
      "demo_script\<lparr>hx_session := Some ''s1''\<rparr>" "\<lambda>_. 0" "''m''" "''s1''"]
  by (simp add: demo_script_def runHermes_def)

end
