(* ===== verification/Keys.thy ===== *)
theory Keys
  imports Mcp
begin

text \<open>
  \<^verbatim>\<open>packages/tui/src/tui/keys.ts\<close>: the key bindings of the terminal interface.  Actions are their
  names; a map of bindings has the order of the JavaScript \<open>Map\<close>, a table that of its object (keys that
  are array indices come first, in ascending order).

  Text outside ASCII is UTF-8; \<open>code_points\<close> counts the characters that \<open>[...s]\<close> has.  Changing the case of
  letters outside ASCII is not modelled.
\<close>

section \<open>Objects\<close>

definition is_index :: "string \<Rightarrow> bool" where
  "is_index s \<longleftrightarrow> s \<noteq> [] \<and> list_all is_digit s \<and> nat_str (digits_val s) = s \<and> digits_val s < 2 ^ 32 - 1"

definition js_object :: "(string \<times> 'a) list \<Rightarrow> (string, 'a) jsmap" where
  "js_object kvs =
     (let m = fold (\<lambda>(k, v). mset_key k v) kvs []
      in sort_key (\<lambda>(k, v). digits_val k) (List.filter (\<lambda>(k, v). is_index k) m) @ List.filter (\<lambda>(k, v). \<not> is_index k) m)"

definition spread_keys :: "(string \<times> string) list list \<Rightarrow> (string \<times> string) list \<Rightarrow> (string \<times> string) list" where
  "spread_keys tables own = js_object (concat tables @ own)"

text \<open>\<open>Object.entries\<close> of a JSON value.\<close>

fun js_entries :: "json \<Rightarrow> (string \<times> json) list" where
  "js_entries (JObj kvs) = kvs"
| "js_entries (JArr xs) = zip (map nat_str [0..<length xs]) xs"
| "js_entries (JStr s) = zip (map nat_str [0..<length s]) (map (\<lambda>c. JStr [c]) s)"
| "js_entries _ = []"

section \<open>The tables\<close>

datatype key_context =
  Cx_global | Cx_welcome | Cx_team | Cx_approvals | Cx_sidebar | Cx_chat | Cx_task | Cx_runtimes | Cx_skills |
  Cx_connectors | Cx_usage | Cx_access

fun context_name :: "key_context \<Rightarrow> string" where
  "context_name Cx_global = ''global''"
| "context_name Cx_welcome = ''welcome''"
| "context_name Cx_team = ''team''"
| "context_name Cx_approvals = ''approvals''"
| "context_name Cx_sidebar = ''sidebar''"
| "context_name Cx_chat = ''chat''"
| "context_name Cx_task = ''task''"
| "context_name Cx_runtimes = ''runtimes''"
| "context_name Cx_skills = ''skills''"
| "context_name Cx_connectors = ''connectors''"
| "context_name Cx_usage = ''usage''"
| "context_name Cx_access = ''access''"

definition CONTEXTS :: "key_context list" where
  "CONTEXTS = [Cx_global, Cx_welcome, Cx_team, Cx_approvals, Cx_sidebar, Cx_chat, Cx_task, Cx_runtimes, Cx_skills,
     Cx_connectors, Cx_usage, Cx_access]"

definition ACTIONS :: "(string \<times> string \<times> key_context list) list" where
  "ACTIONS =
    [(''nav:welcome'', ''Getting started'', [Cx_global]),
     (''nav:team'', ''Team overview'', [Cx_global]),
     (''nav:approvals'', ''Approvals: every write waiting for your decision'', [Cx_global]),
     (''approvals:approve'', ''Select approve for the chosen write'', [Cx_approvals]),
     (''approvals:deny'', ''Select deny for the chosen write'', [Cx_approvals]),
     (''approvals:confirm'', ''Confirm the selected decision'', [Cx_approvals]),
     (''approvals:task'', ''Open the chosen write'' @ [CHR 0x27] @ ''s task'', [Cx_approvals]),
     (''welcome:next'', ''Continue setup / start the first task'', [Cx_welcome]),
     (''team:open'', ''Open agent'', [Cx_team]),
     (''problem:open'', ''Resolve the latest problem'', [Cx_global]),
     (''setup:logs'', ''Installation progress and logs'', [Cx_global]),
     (''task:history'', ''Switch between result and full transcript'', [Cx_global]),
     (''chat:newline'', ''Insert a new line'', [Cx_chat]),
     (''setup:init'', ''Initialize the vault'', [Cx_runtimes, Cx_welcome]),
     (''app:quit'', ''Quit (the daemon and running tasks keep going)'', [Cx_global]),
     (''app:help'', ''Keys of this view'', [Cx_global]),
     (''app:palette'', ''Command palette'', [Cx_global]),
     (''focus:toggle'', ''Switch between the sidebar and the main pane'', [Cx_global]),
     (''focus:main'', ''Open the selected item'', [Cx_sidebar]),
     (''focus:sidebar'', ''Back to the sidebar'', [Cx_task, Cx_runtimes, Cx_skills, Cx_connectors, Cx_usage,
        Cx_access]),
     (''nav:next'', ''Next sidebar item'', [Cx_global]),
     (''nav:prev'', ''Previous sidebar item'', [Cx_global]),
     (''nav:first'', ''First sidebar item'', [Cx_sidebar]),
     (''nav:last'', ''Last sidebar item'', [Cx_sidebar]),
     (''nav:configure'', ''Go to Configure'', [Cx_global]),
     (''nav:agents'', ''Go to Agents'', [Cx_global]),
     (''nav:tasks'', ''Go to Tasks'', [Cx_global]),
     (''nav:builder'', ''Open the agent builder'', [Cx_global]),
     (''agent:create'', ''Create a starter agent (no model call)'', [Cx_global]),
     (''tasks:filter'', ''Filter tasks (@agent, status:failed, words)'', [Cx_global]),
     (''tasks:pagePrev'', ''Previous page of tasks'', [Cx_sidebar, Cx_task]),
     (''tasks:pageNext'', ''Next page of tasks'', [Cx_sidebar, Cx_task]),
     (''task:new'', ''New task for this agent (from a task: its agent'' @ [CHR 0x27] @ ''s view)'', [Cx_global]),
     (''task:cancel'', ''Cancel the running task'', [Cx_global]),
     (''task:retry'', ''Run a failed or cancelled task again'', [Cx_global]),
     (''task:access'', ''External access of the task: hosts, credentials injected, refusals (audit log)'', [Cx_global]),
     (''usage:period'', ''Usage: next period (24 hours, 7 days, 30 days)'', [Cx_usage]),
     (''usage:group'', ''Usage: group by agent, model, runtime or day'', [Cx_usage]),
     (''usage:refresh'', ''Usage: refresh'', [Cx_usage]),
     (''access:period'', ''Access: next period (24 hours, 7 days, 30 days)'', [Cx_access]),
     (''access:refresh'', ''Access: refresh'', [Cx_access]),
     (''task:delete'', ''Delete the task and the tasks it delegated'', [Cx_task]),
     (''approvals:open'', ''Review a write waiting for approval'', [Cx_global]),
     (''agent:delete'', ''Delete the agent with its tasks and its files in the VM'', [Cx_global]),
     (''sidebar:delete'', ''Delete the selected agent or task'', [Cx_sidebar]),
     (''agent:settings'', ''Agent settings: skills, connectors, workspaces'', [Cx_global]),
     (''builder:proposal'', ''Reopen the pending builder proposal'', [Cx_global]),
     (''transcript:tools'', ''Expand or collapse tool calls'', [Cx_global]),
     (''transcript:verbose'', ''Verbose tool output'', [Cx_global]),
     (''app:select'', ''Selection mode: select and copy text with the mouse (Esc ends)'', [Cx_global]),
     (''scroll:up'', ''Scroll up'', [Cx_chat, Cx_task, Cx_usage, Cx_access, Cx_welcome]),
     (''scroll:down'', ''Scroll down'', [Cx_chat, Cx_task, Cx_usage, Cx_access, Cx_welcome]),
     (''scroll:pageUp'', ''Scroll up a page'', [Cx_chat, Cx_task, Cx_usage, Cx_access]),
     (''scroll:pageDown'', ''Scroll down a page'', [Cx_chat, Cx_task, Cx_usage, Cx_access]),
     (''chat:submit'', ''Send'', [Cx_chat]),
     (''chat:escape'', ''Back to the sidebar (keep draft and task running)'', [Cx_chat]),
     (''chat:editor'', ''Compose in $EDITOR'', [Cx_chat]),
     (''list:up'', ''Move up'', [Cx_skills, Cx_connectors, Cx_team]),
     (''list:down'', ''Move down'', [Cx_skills, Cx_connectors, Cx_team]),
     (''list:pageUp'', ''Move up a page'', [Cx_skills]),
     (''list:pageDown'', ''Move down a page'', [Cx_skills]),
     (''list:first'', ''Move to the first'', [Cx_skills]),
     (''list:last'', ''Move to the last'', [Cx_skills]),
     (''setup:vmStart'', ''Start the VM'', [Cx_runtimes, Cx_welcome]),
     (''setup:install'', ''Install or update'', [Cx_runtimes, Cx_welcome]),
     (''setup:unlock'', ''Unlock the vault'', [Cx_runtimes, Cx_welcome]),
     (''setup:workspaces'', ''Share ~/AnchiWorkspaces with the VM'', [Cx_runtimes, Cx_welcome]),
     (''setup:codex'', ''Import the Codex login'', [Cx_runtimes, Cx_welcome]),
     (''setup:codexSignIn'', ''Sign in to ChatGPT for Codex in any browser (no Codex CLI needed)'', [Cx_runtimes,
        Cx_welcome]),
     (''setup:claude'', ''Connect Claude Code'', [Cx_runtimes, Cx_welcome]),
     
      (''setup:claudeSignIn'', ''Sign in to Claude in a browser (Anchi creates and stores a one-year token)'', [Cx_runtimes,
        Cx_welcome]),
     (''setup:hermes'', ''Set Hermes'' @ [CHR 0x27] @ ''s model endpoint (OpenAI-compatible)'', [Cx_runtimes,
        Cx_welcome]),
     (''setup:refresh'', ''Refresh'', [Cx_runtimes, Cx_connectors, Cx_welcome]),
     (''skills:add'', ''Add a skill (local directory or GitHub URL)'', [Cx_skills]),
     (''skills:remove'', ''Remove the skill'', [Cx_skills]),
     (''skills:update'', ''Update the skill to the latest commit of its URL'', [Cx_skills]),
     (''connectors:connect'', ''Connect'', [Cx_connectors]),
     (''connectors:ghImport'', ''GitHub: import the gh CLI token'', [Cx_connectors]),
     (''connectors:awsProfile'', ''AWS: connect through a profile'', [Cx_connectors]),
     (''connectors:mode'', ''Service writes: automatic or ask'', [Cx_connectors]),
     (''connectors:disconnect'', ''Disconnect'', [Cx_connectors]),
     (''connectors:account'', ''Gmail, Drive: sign in another Google account'', [Cx_connectors]),
     
      (''connectors:googleClient'', ''Google OAuth client: use your own, or go back to the built-in one'', [Cx_connectors]),
     (''connectors:redditClient'', ''Reddit: configure your installed app client'', [Cx_connectors]),
     (''connectors:xClient'', ''X: configure your native app Client ID'', [Cx_connectors])]"

definition VIEW_KEYS :: "(string \<times> string) list" where
  "VIEW_KEYS = [(''?'', ''app:help''), (''q'', ''app:quit'')]"

definition BACK_KEYS :: "(string \<times> string) list" where
  "BACK_KEYS = [(''esc'', ''focus:sidebar''), (''left'', ''focus:sidebar''), (''h'', ''focus:sidebar'')]"

definition LIST_KEYS :: "(string \<times> string) list" where
  "LIST_KEYS = [(''up'', ''list:up''), (''k'', ''list:up''), (''down'', ''list:down''), (''j'', ''list:down'')]"

definition global_bindings :: "(string \<times> string) list" where
  "global_bindings =
     [(''<leader> 0'', ''nav:welcome''), (''<leader> 4'', ''nav:team''), (''<leader> 5'', ''nav:approvals''),
      (''<leader> !'', ''problem:open''), (''<leader> L'', ''setup:logs''), (''<leader> h'', ''task:history''),
      (''tab'', ''focus:toggle''), (''shift+tab'', ''focus:toggle''), (''ctrl+n'', ''nav:next''),
      (''ctrl+p'', ''nav:prev''), (''<leader> q'', ''app:quit''), (''<leader> ?'', ''app:help''),
      (''<leader> space'', ''app:palette''), (''<leader> p'', ''app:palette''), (''<leader> j'', ''nav:next''),
      (''<leader> k'', ''nav:prev''), (''<leader> 1'', ''nav:configure''), (''<leader> 2'', ''nav:agents''),
      (''<leader> 3'', ''nav:tasks''), (''<leader> b'', ''nav:builder''), (''<leader> N'', ''agent:create''),
      (''<leader> /'', ''tasks:filter''), (''<leader> n'', ''task:new''), (''<leader> c'', ''task:cancel''),
      (''<leader> r'', ''task:retry''), (''<leader> l'', ''task:access''), (''<leader> a'', ''approvals:open''),
      (''<leader> s'', ''agent:settings''), (''<leader> D'', ''agent:delete''), (''<leader> o'', ''builder:proposal''),
      (''<leader> t'', ''transcript:tools''), (''<leader> v'', ''transcript:verbose''),
      (''<leader> m'', ''app:select'')]"

definition welcome_bindings :: "(string \<times> string) list" where
  "welcome_bindings =
     spread_keys [VIEW_KEYS, BACK_KEYS]
     [(''up'', ''scroll:up''), (''down'', ''scroll:down''), (''enter'', ''welcome:next''),
      (''i'', ''setup:codex''), (''g'', ''setup:codexSignIn''), (''c'', ''setup:claude''), (''C'', ''setup:claudeSignIn''),
      (''h'', ''setup:hermes''), (''r'', ''setup:refresh'')]"

definition team_bindings :: "(string \<times> string) list" where
  "team_bindings =
     spread_keys [VIEW_KEYS, BACK_KEYS, LIST_KEYS]
     [(''enter'', ''team:open''), (''a'', ''approvals:open'')]"

definition approvals_bindings :: "(string \<times> string) list" where
  "approvals_bindings =
     spread_keys [VIEW_KEYS, BACK_KEYS, LIST_KEYS]
     [(''y'', ''approvals:approve''), (''n'', ''approvals:deny''), (''enter'', ''approvals:confirm''),
      (''a'', ''approvals:open''), (''o'', ''approvals:task'')]"

definition sidebar_bindings :: "(string \<times> string) list" where
  "sidebar_bindings =
     spread_keys [VIEW_KEYS]
     [(''up'', ''nav:prev''), (''k'', ''nav:prev''), (''down'', ''nav:next''), (''j'', ''nav:next''),
      (''home'', ''nav:first''), (''g'', ''nav:first''), (''end'', ''nav:last''), (''G'', ''nav:last''),
      (''pageup'', ''tasks:pagePrev''), (''['', ''tasks:pagePrev''), (''pagedown'', ''tasks:pageNext''),
      ('']'', ''tasks:pageNext''), (''1'', ''nav:configure''), (''2'', ''nav:agents''), (''3'', ''nav:tasks''),
      (''enter'', ''focus:main''), (''right'', ''focus:main''), (''l'', ''focus:main''), (''/'', ''tasks:filter''),
      (''s'', ''agent:settings''), (''D'', ''sidebar:delete'')]"

definition chat_bindings :: "(string \<times> string) list" where
  "chat_bindings =
     [(''enter'', ''chat:submit''), (''shift+enter'', ''chat:newline''), (''<leader> enter'', ''chat:newline''),
      (''esc'', ''chat:escape''), (''up'', ''scroll:up''), (''down'', ''scroll:down''),
      (''pageup'', ''scroll:pageUp''), (''pagedown'', ''scroll:pageDown''), (''ctrl+g'', ''chat:editor''),
      (''<leader> e'', ''chat:editor'')]"

definition task_bindings :: "(string \<times> string) list" where
  "task_bindings =
     [(''<leader> D'', ''task:delete''), (''<leader> ['', ''tasks:pagePrev''), (''<leader> ]'', ''tasks:pageNext'')]"

definition runtimes_bindings :: "(string \<times> string) list" where
  "runtimes_bindings =
     spread_keys [VIEW_KEYS, BACK_KEYS]
     [(''s'', ''setup:vmStart''), (''I'', ''setup:install''), (''u'', ''setup:unlock''), (''V'', ''setup:init''),
      (''W'', ''setup:workspaces''), (''i'', ''setup:codex''), (''g'', ''setup:codexSignIn''),
      (''c'', ''setup:claude''), (''C'', ''setup:claudeSignIn''), (''h'', ''setup:hermes''), (''r'', ''setup:refresh'')]"

definition skills_bindings :: "(string \<times> string) list" where
  "skills_bindings =
     spread_keys [VIEW_KEYS, BACK_KEYS, LIST_KEYS]
     [(''pageup'', ''list:pageUp''), (''pagedown'', ''list:pageDown''), (''home'', ''list:first''),
      (''g'', ''list:first''), (''end'', ''list:last''), (''G'', ''list:last''), (''a'', ''skills:add''),
      (''d'', ''skills:remove''), (''u'', ''skills:update'')]"

definition connectors_bindings :: "(string \<times> string) list" where
  "connectors_bindings =
     spread_keys [VIEW_KEYS, BACK_KEYS, LIST_KEYS]
     [(''enter'', ''connectors:connect''), (''c'', ''connectors:connect''), (''g'', ''connectors:ghImport''),
      (''p'', ''connectors:awsProfile''), (''m'', ''connectors:mode''), (''d'', ''connectors:disconnect''),
      (''a'', ''connectors:account''), (''o'', ''connectors:googleClient''), (''x'', ''connectors:xClient''),
      (''R'', ''connectors:redditClient''), (''r'', ''setup:refresh'')]"

definition usage_bindings :: "(string \<times> string) list" where
  "usage_bindings =
     spread_keys [VIEW_KEYS, BACK_KEYS]
     [(''p'', ''usage:period''), (''b'', ''usage:group''), (''r'', ''usage:refresh''), (''up'', ''scroll:up''),
      (''k'', ''scroll:up''), (''down'', ''scroll:down''), (''j'', ''scroll:down''),
      (''pageup'', ''scroll:pageUp''), (''pagedown'', ''scroll:pageDown'')]"

definition access_bindings :: "(string \<times> string) list" where
  "access_bindings =
     spread_keys [VIEW_KEYS, BACK_KEYS]
     [(''p'', ''access:period''), (''r'', ''access:refresh''), (''up'', ''scroll:up''), (''k'', ''scroll:up''),
      (''down'', ''scroll:down''), (''j'', ''scroll:down''), (''pageup'', ''scroll:pageUp''),
      (''pagedown'', ''scroll:pageDown'')]"

fun DEFAULT_BINDINGS :: "key_context \<Rightarrow> (string \<times> string) list" where
  "DEFAULT_BINDINGS Cx_global = global_bindings"
| "DEFAULT_BINDINGS Cx_welcome = welcome_bindings"
| "DEFAULT_BINDINGS Cx_team = team_bindings"
| "DEFAULT_BINDINGS Cx_approvals = approvals_bindings"
| "DEFAULT_BINDINGS Cx_sidebar = sidebar_bindings"
| "DEFAULT_BINDINGS Cx_chat = chat_bindings"
| "DEFAULT_BINDINGS Cx_task = task_bindings"
| "DEFAULT_BINDINGS Cx_runtimes = runtimes_bindings"
| "DEFAULT_BINDINGS Cx_skills = skills_bindings"
| "DEFAULT_BINDINGS Cx_connectors = connectors_bindings"
| "DEFAULT_BINDINGS Cx_usage = usage_bindings"
| "DEFAULT_BINDINGS Cx_access = access_bindings"

definition RESERVED :: "string list" where
  "RESERVED = [''ctrl+c'', ''ctrl+m'', ''ctrl+i'', ''ctrl+['']"

definition LINE_EDIT_KEYS :: "string list" where
  "LINE_EDIT_KEYS = [''left'', ''right'', ''home'', ''end'', ''backspace'', ''ctrl+a'', ''ctrl+e'', ''ctrl+b'',
     ''ctrl+f'', ''ctrl+d'', ''ctrl+h'', ''ctrl+k'', ''ctrl+u'', ''ctrl+w'', ''alt+b'', ''alt+f'', ''alt+d'',
     ''alt+backspace'']"

definition ALIASES :: "(string \<times> string) list" where
  "ALIASES = [(''escape'', ''esc''), (''return'', ''enter''), (''pgup'', ''pageup''), (''pgdn'', ''pagedown''),
     (''control'', ''ctrl''), (''meta'', ''alt''), (''option'', ''alt''), (''opt'', ''alt''),
      (''arrowup'', ''up''), (''arrowdown'', ''down''), (''arrowleft'', ''left''), (''arrowright'', ''right'')]"

definition NAMED :: "string list" where
  "NAMED = [''enter'', ''esc'', ''tab'', ''space'', ''up'', ''down'', ''left'', ''right'', ''pageup'',
     ''pagedown'', ''home'', ''end'', ''backspace'']"

definition LABELS :: "(string \<times> string) list" where
  "LABELS = [(''enter'', ''Enter''), (''esc'', ''Esc''), (''tab'', ''Tab''), (''shift+tab'', ''Shift+Tab''),
     (''space'', ''Space''), (''up'', [CHR 0xE2] @ [CHR 0x86] @ [CHR 0x91]),
     (''down'', [CHR 0xE2] @ [CHR 0x86] @ [CHR 0x93]), (''left'', [CHR 0xE2] @ [CHR 0x86] @ [CHR 0x90]),
     (''right'', [CHR 0xE2] @ [CHR 0x86] @ [CHR 0x92]), (''pageup'', ''PgUp''), (''pagedown'', ''PgDn''),
     (''home'', ''Home''), (''end'', ''End''), (''backspace'', ''Backspace'')]"

section \<open>Keystrokes\<close>

definition lower_char :: "char \<Rightarrow> char" where
  "lower_char c = (if 65 \<le> (of_char c :: nat) \<and> (of_char c :: nat) \<le> 90 then char_of (of_char c + 32 :: nat) else c)"

definition upper_char :: "char \<Rightarrow> char" where
  "upper_char c = (if is_lower c then char_of (of_char c - 32 :: nat) else c)"

definition lower :: "string \<Rightarrow> string" where "lower s = map lower_char s"
definition upper :: "string \<Rightarrow> string" where "upper s = map upper_char s"

definition is_continuation :: "char \<Rightarrow> bool" where
  "is_continuation c \<longleftrightarrow> 128 \<le> (of_char c :: nat) \<and> (of_char c :: nat) < 192"

definition code_points :: "string \<Rightarrow> nat" where
  "code_points s = length (List.filter (\<lambda>c. \<not> is_continuation c) s)"

definition ends_with :: "string \<Rightarrow> string \<Rightarrow> bool" where
  "ends_with p s \<longleftrightarrow> starts_with (rev p) (rev s)"

text \<open>The parts of Ink's \<open>Key\<close>.\<close>

record ink_key =
  ik_upArrow :: bool
  ik_downArrow :: bool
  ik_leftArrow :: bool
  ik_rightArrow :: bool
  ik_pageUp :: bool
  ik_pageDown :: bool
  ik_home :: bool
  ik_end :: bool
  ik_return :: bool
  ik_escape :: bool
  ik_ctrl :: bool
  ik_shift :: bool
  ik_tab :: bool
  ik_backspace :: bool
  ik_delete :: bool
  ik_meta :: bool

definition no_key :: ink_key where
  "no_key = \<lparr>ik_upArrow = False, ik_downArrow = False, ik_leftArrow = False, ik_rightArrow = False,
     ik_pageUp = False, ik_pageDown = False, ik_home = False, ik_end = False, ik_return = False,
     ik_escape = False, ik_ctrl = False, ik_shift = False, ik_tab = False, ik_backspace = False,
     ik_delete = False, ik_meta = False\<rparr>"

definition mods_text :: "bool \<Rightarrow> bool \<Rightarrow> bool \<Rightarrow> string" where
  "mods_text ctrl alt shift =
     (if ctrl then ''ctrl+'' else []) @ (if alt then ''alt+'' else []) @ (if shift then ''shift+'' else [])"

definition strokeOf :: "string \<Rightarrow> ink_key \<Rightarrow> string option" where
  "strokeOf ch key =
     (let mods = (\<lambda>k. Some (mods_text (ik_ctrl key) (ik_meta key) (ik_shift key) @ k))
      in if ik_return key then mods ''enter''
         else if ik_tab key then Some (if ik_shift key then ''shift+tab'' else ''tab'')
         else if ik_escape key then Some ''esc''
         else if ik_upArrow key then mods ''up''
         else if ik_downArrow key then mods ''down''
         else if ik_leftArrow key then mods ''left''
         else if ik_rightArrow key then mods ''right''
         else if ik_pageUp key then mods ''pageup''
         else if ik_pageDown key then mods ''pagedown''
         else if ik_home key then mods ''home''
         else if ik_end key then mods ''end''
         else if ik_backspace key \<or> ik_delete key
         then Some (if ik_meta key then ''alt+backspace'' else ''backspace'')
         else if code_points ch \<noteq> 1 then None
         else if ik_ctrl key then Some (''ctrl+'' @ lower ch)
         else if ik_meta key then Some (''alt+'' @ (if ch = '' '' then ''space'' else ch))
         else if ch = '' '' then Some ''space''
         else Some ch)"

text \<open>
  \<open>splitChunk\<close>, on the code points of the chunk: \<open>txt\<close> is the text not given out yet.  A code is a
  control code when \<open>String.fromCharCode(code + 96)\<close> names its key.
\<close>

definition chunk_text :: "'c list \<Rightarrow> ('c list \<times> ink_key) list" where
  "chunk_text t = (if t = [] then [] else [(t, no_key)])"

fun split_chunk :: "ink_key \<Rightarrow> nat list \<Rightarrow> nat list \<Rightarrow> (nat list \<times> ink_key) list" where
  "split_chunk key t [] = chunk_text t"
| "split_chunk key t (c # cs) =
     (if c = 13 \<or> c = 10 \<or> 32 \<le> c
      then (if c = 127 then chunk_text t @ ([], no_key\<lparr>ik_backspace := True\<rparr>) # split_chunk key [] cs
            else split_chunk key (t @ [c]) cs)
      else chunk_text t @
        (if c = 9 then ([], no_key\<lparr>ik_tab := True\<rparr>) # split_chunk key [] cs
         else if c = 27
         then (case cs of
                 [] \<Rightarrow> ([], no_key\<lparr>ik_escape := True\<rparr>) # split_chunk key [] cs
               | d # ds \<Rightarrow>
                   if d = 91 \<or> d = 79 then [(c # cs, key)]
                   else ([d], no_key\<lparr>ik_meta := True\<rparr>) # split_chunk key [] ds)
         else ([c + 96], no_key\<lparr>ik_ctrl := True\<rparr>) # split_chunk key [] cs))"

definition key_code :: "nat \<Rightarrow> bool" where
  "key_code c \<longleftrightarrow> 1 \<le> c \<and> c \<le> 8 \<or> c = 11 \<or> c = 12 \<or> 14 \<le> c \<and> c \<le> 27 \<or> c = 127"

definition splitChunk :: "nat list \<Rightarrow> ink_key \<Rightarrow> (nat list \<times> ink_key) list" where
  "splitChunk ch key =
     (if length ch < 2 \<or> \<not> list_ex key_code ch then [(ch, key)] else split_chunk key [] ch)"

section \<open>Keystrokes of a configuration\<close>

definition quoted :: "string \<Rightarrow> string" where
  "quoted s = [CHR 0x22] @ s @ [CHR 0x22]"

text \<open>
  \<open>ALIASES[name]\<close> is a plain object: besides the aliases it has the properties of every object.  Of
  their names only these two are in lower case; their values cannot be spread.
\<close>

datatype key_alias = Alias string | No_alias | Object_property

definition alias_of :: "string \<Rightarrow> key_alias" where
  "alias_of s =
     (case map_of ALIASES s of
        Some a \<Rightarrow> Alias a
      | None \<Rightarrow> if s = ''constructor'' \<or> s = ''__proto__'' then Object_property else No_alias)"

datatype stroke_parse = Stroke string | Bad string | Throws

fun parse_mods :: "string \<Rightarrow> string list \<Rightarrow> string list \<Rightarrow> string + string list" where
  "parse_mods whole mods [] = Inr mods"
| "parse_mods whole mods (m # ms) =
     (let name = (case alias_of (lower m) of Alias a \<Rightarrow> a | No_alias \<Rightarrow> lower m | Object_property \<Rightarrow> [])
      in if name = ''ctrl'' \<or> name = ''alt'' \<or> name = ''shift'' then parse_mods whole (name # mods) ms
         else Inl (''unknown modifier '' @ quoted m @ '' in '' @ quoted whole))"

definition is_letter :: "string \<Rightarrow> bool" where
  "is_letter k \<longleftrightarrow> (case k of [c] \<Rightarrow> is_lower (lower_char c) | _ \<Rightarrow> False)"

definition finish_stroke :: "string list \<Rightarrow> string \<Rightarrow> string" where
  "finish_stroke mods key =
     (let letter = is_letter key;
          k = (if letter then if ''ctrl'' \<in> set mods then lower key
                              else if ''shift'' \<in> set mods then upper key else key
               else key);
          ms = (if letter \<and> ''ctrl'' \<notin> set mods then removeAll ''shift'' mods else mods)
      in if k = ''tab'' \<and> set ms = {''shift''} then ''shift+tab''
         else mods_text (''ctrl'' \<in> set ms) (''alt'' \<in> set ms) (''shift'' \<in> set ms) @ k)"

definition parseStroke :: "string \<Rightarrow> stroke_parse" where
  "parseStroke t =
     (let raw = js_trim t
      in if raw = [] then Bad ''empty key''
         else if code_points raw = 1 then Stroke (if raw = '' '' then ''space'' else raw)
         else (let parts = split_on (CHR ''+'') raw;
                   last_part = (if ends_with ''++'' raw \<or> raw = ''+'' then ''+'' else last parts);
                   mod_parts = (if ends_with ''++'' raw then butlast (butlast parts) else butlast parts)
               in case parse_mods t [] mod_parts of
                    Inl e \<Rightarrow> Bad e
                  | Inr mods \<Rightarrow>
                      (case alias_of (lower last_part) of
                         Object_property \<Rightarrow> Throws
                       | al \<Rightarrow>
                           (let key = (case al of Alias a \<Rightarrow> a
                                       | _ \<Rightarrow> if lower last_part \<in> set NAMED then lower last_part else last_part)
                            in if code_points key \<noteq> 1 \<and> key \<notin> set NAMED
                               then Bad (''unknown key '' @ quoted last_part @ '' in '' @ quoted t)
                               else Stroke (finish_stroke mods key)))))"

text \<open>\<open>s.split(/\s+/)\<close>.\<close>

fun split_spaces :: "string \<Rightarrow> string list" where
  "split_spaces [] = [[]]"
| "split_spaces (c # cs) =
     (if is_space c
      then (case cs of d # ds \<Rightarrow> if is_space d then split_spaces cs else [] # split_spaces cs | [] \<Rightarrow> [[], []])
      else case split_spaces cs of [] \<Rightarrow> [[c]] | w # ws \<Rightarrow> (c # w) # ws)"

datatype sequence_parse = Strokes "string list" | Bad_sequence string | Throws_sequence

fun parse_parts :: "string \<Rightarrow> string list \<Rightarrow> sequence_parse" where
  "parse_parts leader [] = Strokes []"
| "parse_parts leader (p # ps) =
     (if p = ''<leader>''
      then (case parse_parts leader ps of Strokes ss \<Rightarrow> Strokes (leader # ss) | e \<Rightarrow> e)
      else case parseStroke p of
          Stroke s \<Rightarrow> (case parse_parts leader ps of Strokes ss \<Rightarrow> Strokes (s # ss) | e \<Rightarrow> e)
        | Bad m \<Rightarrow> Bad_sequence m
        | Throws \<Rightarrow> Throws_sequence)"

definition parseSequence :: "string \<Rightarrow> string \<Rightarrow> sequence_parse" where
  "parseSequence t leader =
     (case parse_parts leader (split_spaces (js_trim t)) of
        Strokes out \<Rightarrow>
          if out = [] \<or> 3 < length out then Bad_sequence (quoted t @ '': use one to three keys'') else Strokes out
      | e \<Rightarrow> e)"

section \<open>Key maps\<close>

type_synonym bindings = "(string, string) jsmap"

record keymap =
  km_leader :: string
  km_contexts :: "key_context \<Rightarrow> bindings"

definition DEFAULT_LEADER :: string where "DEFAULT_LEADER = ''ctrl+x''"

definition action_contexts :: "string \<Rightarrow> key_context list option" where
  "action_contexts a = map_option snd (map_of ACTIONS a)"

definition isAction :: "string \<Rightarrow> bool" where "isAction a \<longleftrightarrow> action_contexts a \<noteq> None"

definition leader_ok :: "string \<Rightarrow> bool" where
  "leader_ok s \<longleftrightarrow> s \<notin> set RESERVED \<and> s \<notin> set LINE_EDIT_KEYS \<and> (starts_with ''ctrl+'' s \<or> starts_with ''alt+'' s)"

text \<open>The leader of a configuration with its warnings; \<open>None\<close> is an exception.\<close>

definition choose_leader :: "json option \<Rightarrow> (string \<times> string list) option" where
  "choose_leader v =
     (case v of
        None \<Rightarrow> Some (DEFAULT_LEADER, [])
      | Some (JStr t) \<Rightarrow>
          (case parseStroke t of
             Throws \<Rightarrow> None
           | Bad m \<Rightarrow> Some (DEFAULT_LEADER, [''leader: '' @ m])
           | Stroke s \<Rightarrow>
               if leader_ok s then Some (s, [])
               else Some (DEFAULT_LEADER, [''leader: '' @ s @
                 '' cannot be the leader (use Ctrl or Alt with a key that does not edit text)'']))
      | Some _ \<Rightarrow> Some (DEFAULT_LEADER, [''leader: not a string'']))"

definition set_binding :: "key_context \<Rightarrow> string \<Rightarrow> string \<Rightarrow> (key_context \<Rightarrow> bindings) \<Rightarrow> key_context \<Rightarrow> bindings" where
  "set_binding cx k a cs = cs(cx := mset_key k a (cs cx))"

definition delete_binding :: "key_context \<Rightarrow> string \<Rightarrow> (key_context \<Rightarrow> bindings) \<Rightarrow> key_context \<Rightarrow> bindings" where
  "delete_binding cx k cs = cs(cx := mdelete k (cs cx))"

text \<open>
  The defaults of a context; a default on the key chosen as leader is left out.  The code throws when a
  default does not parse, which \<open>defaults_ok\<close> shows never to happen.
\<close>

definition default_binding :: "string \<Rightarrow> key_context \<Rightarrow> string \<times> string \<Rightarrow> (key_context \<Rightarrow> bindings) \<Rightarrow> key_context \<Rightarrow> bindings" where
  "default_binding leader cx kv cs =
     (case parseSequence (fst kv) leader of
        Strokes seq \<Rightarrow> if join '' '' seq = leader then cs else set_binding cx (join '' '' seq) (snd kv) cs
      | _ \<Rightarrow> cs)"

definition default_contexts :: "string \<Rightarrow> key_context \<Rightarrow> bindings" where
  "default_contexts leader =
     fold (\<lambda>cx. fold (default_binding leader cx) (DEFAULT_BINDINGS cx)) CONTEXTS (\<lambda>_. [])"

definition context_of :: "json option \<Rightarrow> key_context option" where
  "context_of v = (case v of Some (JStr s) \<Rightarrow> find (\<lambda>cx. context_name cx = s) CONTEXTS | _ \<Rightarrow> None)"

type_synonym map_build = "(key_context \<Rightarrow> bindings) \<times> string list"

definition warn :: "string \<Rightarrow> map_build \<Rightarrow> map_build" where
  "warn m b = (fst b, snd b @ [m])"

text \<open>One binding of a configuration; \<open>None\<close> is an exception.\<close>

definition bind_action :: "key_context \<Rightarrow> string \<Rightarrow> string \<Rightarrow> json \<Rightarrow> map_build \<Rightarrow> map_build" where
  "bind_action cx k i action b =
     (case action of
        JStr a \<Rightarrow>
          (case action_contexts a of
             None \<Rightarrow> warn (context_name cx @ '': unknown action '' @ quoted a @ '' for '' @ quoted k) b
           | Some allowed \<Rightarrow>
               if cx \<notin> set allowed \<and> Cx_global \<notin> set allowed
               then warn (context_name cx @ '': '' @ a @ '' works only in '' @ join '', '' (map context_name allowed)) b
               else (set_binding cx i a (fst b), snd b))
      | _ \<Rightarrow> warn (context_name cx @ '': unknown action '' @ quoted (js_String action) @ '' for '' @ quoted k) b)"

definition user_binding :: "string \<Rightarrow> key_context \<Rightarrow> string \<times> json \<Rightarrow> map_build \<Rightarrow> map_build option" where
  "user_binding leader cx kv b =
     (let k = fst kv; at_context = context_name cx @ '': ''
      in case parseSequence k leader of
           Throws_sequence \<Rightarrow> None
         | Bad_sequence m \<Rightarrow> Some (warn (at_context @ m) b)
         | Strokes seq \<Rightarrow>
             (let i = join '' '' seq
              in if list_ex (\<lambda>s. s \<in> set RESERVED) seq
                 then Some (warn (at_context @ quoted k @ '' uses a reserved key ('' @ join '', '' RESERVED @ '')'') b)
                 else if cx = Cx_chat \<and> hd seq \<in> set LINE_EDIT_KEYS
                 then Some (warn (''chat: '' @ quoted k @ '' edits text in the input and cannot be bound there'') b)
                 else if snd kv = JNull then Some (delete_binding cx i (fst b), snd b)
                 else if i = leader
                 then Some (warn (at_context @ quoted k @ '' is the leader key; bind '' @ quoted ''<leader> ...'' @ '' instead'') b)
                 else Some (bind_action cx k i (snd kv) b)))"

fun fold_option :: "('a \<Rightarrow> 'b \<Rightarrow> 'b option) \<Rightarrow> 'a list \<Rightarrow> 'b \<Rightarrow> 'b option" where
  "fold_option f [] b = Some b"
| "fold_option f (x # xs) b = (case f x b of None \<Rightarrow> None | Some b' \<Rightarrow> fold_option f xs b')"

definition user_block :: "string \<Rightarrow> json \<Rightarrow> map_build \<Rightarrow> map_build option" where
  "user_block leader block b =
     (case context_of (js_field block ''context'') of
        None \<Rightarrow> Some (warn (''unknown context '' @ quoted (js_String_field block ''context'') @ '' (use '' @
          join '', '' (map context_name CONTEXTS) @ '')'') b)
      | Some cx \<Rightarrow>
          fold_option (user_binding leader cx)
            (case js_field block ''bindings'' of Some v \<Rightarrow> js_entries v | None \<Rightarrow> []) b)"

definition shape_warnings :: "json \<Rightarrow> string list" where
  "shape_warnings config =
     (case config of JNull \<Rightarrow> [] | JObj _ \<Rightarrow> []
      | _ \<Rightarrow> [''the file must hold an object with '' @ quoted ''leader'' @ '' and '' @ quoted ''bindings''])"

definition buildKeyMap :: "json \<Rightarrow> (keymap \<times> string list) option" where
  "buildKeyMap config =
     (case choose_leader (js_field config ''leader'') of
        None \<Rightarrow> None
      | Some (leader, ws) \<Rightarrow>
          (let (blocks, more_ws) = (case js_field config ''bindings'' of
                 None \<Rightarrow> ([], [])
               | Some (JArr bs) \<Rightarrow> (bs, [])
               | Some _ \<Rightarrow> ([], [quoted ''bindings'' @ '' must be a list'']))
           in case fold_option (user_block leader) blocks
                     (default_contexts leader, shape_warnings config @ ws @ more_ws) of
                None \<Rightarrow> None
              | Some (cs, warnings) \<Rightarrow> Some (\<lparr>km_leader = leader, km_contexts = cs\<rparr>, warnings)))"

definition DEFAULT_KEYMAP :: keymap where
  "DEFAULT_KEYMAP = \<lparr>km_leader = DEFAULT_LEADER, km_contexts = default_contexts DEFAULT_LEADER\<rparr>"

section \<open>Using a key map\<close>

datatype resolution = Action string | Pending | Nothing_bound

definition resolve_keys :: "keymap \<Rightarrow> key_context list \<Rightarrow> string list \<Rightarrow> resolution" where
  "resolve_keys km active seq =
     (let i = join '' '' seq
      in if list_ex (\<lambda>cx. list_ex (starts_with (i @ '' '')) (mkeys (km_contexts km cx))) active then Pending
         else case List.find (\<lambda>cx. mget (km_contexts km cx) i \<noteq> None) active of
             Some cx \<Rightarrow> Action (the (mget (km_contexts km cx) i))
           | None \<Rightarrow> Nothing_bound)"

definition continuations :: "keymap \<Rightarrow> key_context list \<Rightarrow> string list \<Rightarrow> (string \<times> string) list" where
  "continuations km active seq =
     (let pre = join '' '' seq @ '' '';
          found = concat (map (\<lambda>cx. map (\<lambda>(k, a). (drop (length pre) k, a))
            (List.filter (\<lambda>(k, a). starts_with pre k) (km_contexts km cx))) active)
      in fold (\<lambda>(k, a) m. if mhas m k then m else mset_key k a m) found [])"

definition keysFor :: "keymap \<Rightarrow> key_context list \<Rightarrow> string \<Rightarrow> string list" where
  "keysFor km active action =
     dedup (concat (map (\<lambda>cx. map fst (List.filter (\<lambda>(k, a). a = action) (km_contexts km cx))) active))"

definition capital :: "string \<Rightarrow> string" where
  "capital m = (case m of [] \<Rightarrow> [] | c # cs \<Rightarrow> upper_char c # cs)"

definition stroke_label :: "string \<Rightarrow> string" where
  "stroke_label s =
     (case map_of LABELS s of
        Some l \<Rightarrow> l
      | None \<Rightarrow>
          (let parts = split_on (CHR ''+'') s; key = last parts; mods = butlast parts
           in if mods = [''ctrl''] \<and> code_points key = 1 then ''^'' @ upper key
              else join ''+'' (map capital mods @ [case map_of LABELS key of Some l \<Rightarrow> l | None \<Rightarrow> key])))"

definition keyLabel :: "string \<Rightarrow> string" where
  "keyLabel ks = join '' '' (map stroke_label (split_on (CHR '' '') ks))"

end
