(* ===== verification/KeyDefaults.thy ===== *)
theory KeyDefaults
  imports Keys Invariant
begin

text \<open>
  The default key bindings: each parses, uses no reserved key and names a known action, whatever the leader.
\<close>

section \<open>The defaults\<close>

lemma set_js_object: "set (js_object kvs) \<subseteq> set kvs"
proof -
  have "set (mset_key k v m) \<subseteq> insert (k, v) (set m)" for k :: string and v :: 'a and m
    by (induction m) (auto split: if_splits)
  then have "set (fold (\<lambda>(k, v). mset_key k v) kvs m) \<subseteq> set kvs \<union> set m" for m
    by (induction kvs arbitrary: m) fastforce+
  from this[of "[]"] show ?thesis by (auto simp: js_object_def Let_def)
qed

lemma spread_keysI:
  assumes "\<forall>t \<in> set tables. list_all P t" "list_all P own"
  shows "list_all P (spread_keys tables own)"
  using assms set_js_object[of "concat tables @ own"] by (fastforce simp: spread_keys_def list_all_iff)

text \<open>A default whose key parses, for a leader that is one stroke of its own (\<open>ctrl+x\<close> stands for it).\<close>

definition sequence_ok :: "key_context \<Rightarrow> string list \<Rightarrow> bool" where
  "sequence_ok cx ss \<longleftrightarrow> 1 \<le> length ss \<and> length ss \<le> 3 \<and> list_all (\<lambda>s. s \<notin> set RESERVED) ss \<and>
     (cx = Cx_chat \<longrightarrow> hd ss \<notin> set LINE_EDIT_KEYS)"

definition default_ok :: "key_context \<Rightarrow> string \<times> string \<Rightarrow> bool" where
  "default_ok cx kv \<longleftrightarrow>
     (case parse_parts ''ctrl+x'' (split_spaces (js_trim (fst kv))) of Strokes ss \<Rightarrow> sequence_ok cx ss | _ \<Rightarrow> False) \<and>
     list_ex (\<lambda>a. fst a = snd kv) ACTIONS"

lemmas stroke_eval = js_trim_def is_space_def parseStroke_def code_points_def is_continuation_def
  ends_with_def starts_with_def alias_of_def ALIASES_def NAMED_def RESERVED_def LINE_EDIT_KEYS_def
  finish_stroke_def is_letter_def is_lower_def lower_def lower_char_def upper_def upper_char_def mods_text_def Let_def

lemmas default_eval = default_ok_def sequence_ok_def stroke_eval ACTIONS_def

lemma shared_keys_ok:
  "list_all (default_ok Cx_team) VIEW_KEYS" "list_all (default_ok Cx_team) BACK_KEYS"
  "list_all (default_ok Cx_team) LIST_KEYS"
  by (simp_all add: VIEW_KEYS_def BACK_KEYS_def LIST_KEYS_def default_eval)

lemma global_keys_ok: "list_all (default_ok Cx_team) global_bindings"
  by (simp add: global_bindings_def default_eval)

lemma chat_keys_ok: "list_all (default_ok Cx_chat) chat_bindings"
  by (simp add: chat_bindings_def default_eval)

lemma task_keys_ok: "list_all (default_ok Cx_team) task_bindings"
  by (simp add: task_bindings_def default_eval)

lemma default_ok_other: "cx \<noteq> Cx_chat \<Longrightarrow> default_ok cx = default_ok Cx_team"
  by (auto simp: default_ok_def sequence_ok_def fun_eq_iff split: sequence_parse.splits)

lemma welcome_keys_ok: "list_all (default_ok Cx_team) welcome_bindings"
  unfolding welcome_bindings_def by (rule spread_keysI) (simp_all add: shared_keys_ok default_eval)

lemma team_keys_ok: "list_all (default_ok Cx_team) team_bindings"
  unfolding team_bindings_def by (rule spread_keysI) (simp_all add: shared_keys_ok default_eval)

lemma approvals_keys_ok: "list_all (default_ok Cx_team) approvals_bindings"
  unfolding approvals_bindings_def by (rule spread_keysI) (simp_all add: shared_keys_ok default_eval)

lemma sidebar_keys_ok: "list_all (default_ok Cx_team) sidebar_bindings"
  unfolding sidebar_bindings_def by (rule spread_keysI) (simp_all add: shared_keys_ok default_eval)

lemma runtimes_keys_ok: "list_all (default_ok Cx_team) runtimes_bindings"
  unfolding runtimes_bindings_def by (rule spread_keysI) (simp_all add: shared_keys_ok default_eval)

lemma skills_keys_ok: "list_all (default_ok Cx_team) skills_bindings"
  unfolding skills_bindings_def by (rule spread_keysI) (simp_all add: shared_keys_ok default_eval)

lemma connectors_keys_ok: "list_all (default_ok Cx_team) connectors_bindings"
  unfolding connectors_bindings_def by (rule spread_keysI) (simp_all add: shared_keys_ok default_eval)

lemma usage_keys_ok: "list_all (default_ok Cx_team) usage_bindings"
  unfolding usage_bindings_def by (rule spread_keysI) (simp_all add: shared_keys_ok default_eval)

lemma access_keys_ok: "list_all (default_ok Cx_team) access_bindings"
  unfolding access_bindings_def by (rule spread_keysI) (simp_all add: shared_keys_ok default_eval)

lemma defaults_ok: "list_all (default_ok cx) (DEFAULT_BINDINGS cx)"
proof (cases "cx = Cx_chat")
  case False
  then have "list_all (default_ok Cx_team) (DEFAULT_BINDINGS cx)"
    using global_keys_ok task_keys_ok welcome_keys_ok team_keys_ok approvals_keys_ok sidebar_keys_ok
      runtimes_keys_ok skills_keys_ok connectors_keys_ok usage_keys_ok access_keys_ok
    by (cases cx) simp_all
  then show ?thesis by (simp only: default_ok_other[OF False])
qed (simp add: chat_keys_ok)

end
