(* ===== verification/KeyFacts.thy ===== *)
theory KeyFacts
  imports KeyDefaults
begin

text \<open>
  Facts about key bindings: what every key map keeps, whatever the configuration; what a keystroke
  resolves to; that splitting a chunk loses nothing.
\<close>

section \<open>Every key map\<close>

lemma parse_parts_subst:
  assumes "parse_parts l ps = Strokes ss"
  shows "\<exists>ss'. parse_parts leader ps = Strokes ss' \<and> length ss' = length ss \<and>
    (\<forall>s \<in> set ss'. s = leader \<or> s \<in> set ss) \<and> (ss \<noteq> [] \<longrightarrow> hd ss' = leader \<or> hd ss' = hd ss)"
  using assms
proof (induction ps arbitrary: ss)
  case (Cons p ps)
  show ?case
  proof (cases "parse_parts l ps")
    case (Strokes rest)
    from Cons.IH[OF this] obtain rest' where "parse_parts leader ps = Strokes rest'" "length rest' = length rest"
      "\<forall>s \<in> set rest'. s = leader \<or> s \<in> set rest" by blast
    then show ?thesis using Cons.prems Strokes
      by (cases "p = ''<leader>''"; cases "parseStroke p") auto
  qed (use Cons.prems in \<open>cases "p = ''<leader>''"; cases "parseStroke p"; simp\<close>)+
qed simp

definition binding_ok :: "string \<Rightarrow> key_context \<Rightarrow> string \<times> string \<Rightarrow> bool" where
  "binding_ok leader cx kv \<longleftrightarrow> isAction (snd kv) \<and> fst kv \<noteq> leader \<and>
     (\<exists>ss. fst kv = join '' '' ss \<and> sequence_ok cx ss)"

definition contexts_ok :: "string \<Rightarrow> (key_context \<Rightarrow> bindings) \<Rightarrow> bool" where
  "contexts_ok leader cs \<longleftrightarrow> (\<forall>cx. distinct (mkeys (cs cx)) \<and> list_all (binding_ok leader cx) (cs cx))"

lemma set_binding_ok:
  assumes "contexts_ok leader cs" "binding_ok leader cx (k, a)"
  shows "contexts_ok leader (set_binding cx k a cs)"
proof -
  have "set (mset_key k a m) \<subseteq> insert (k, a) (set m)" for m :: bindings
    by (induction m) (auto split: if_splits)
  then show ?thesis using assms
    by (fastforce simp: contexts_ok_def set_binding_def list_all_iff distinct_mkeys_update)
qed

lemma delete_binding_ok:
  assumes "contexts_ok leader cs"
  shows "contexts_ok leader (delete_binding cx k cs)"
proof -
  have "set (mdelete k m) \<subseteq> set m" for m :: bindings
    by (induction m) (auto split: if_splits)
  then show ?thesis using assms
    by (fastforce simp: contexts_ok_def delete_binding_def list_all_iff distinct_mkeys_delete)
qed

lemma sequence_ok_leader:
  assumes "leader_ok leader" "sequence_ok cx ss" "length ss' = length ss"
    "\<forall>s \<in> set ss'. s = leader \<or> s \<in> set ss" "hd ss' = leader \<or> hd ss' = hd ss"
  shows "sequence_ok cx ss'"
  using assms by (auto simp: sequence_ok_def leader_ok_def list_all_iff)

lemma parse_keys_ok:
  assumes "leader_ok leader" "default_ok cx kv"
  shows "\<exists>seq. parseSequence (fst kv) leader = Strokes seq \<and> sequence_ok cx seq \<and> isAction (snd kv)"
proof -
  have "isAction (snd kv)"
    using assms(2) by (force simp: default_ok_def isAction_def action_contexts_def list_ex_iff map_of_eq_None_iff)
  moreover obtain ss where ss: "parse_parts ''ctrl+x'' (split_spaces (js_trim (fst kv))) = Strokes ss" "sequence_ok cx ss"
    using assms(2) by (auto simp: default_ok_def split: sequence_parse.splits)
  moreover from parse_parts_subst[OF ss(1), of leader] obtain ss' where
    ss': "parse_parts leader (split_spaces (js_trim (fst kv))) = Strokes ss'" "length ss' = length ss"
      "\<forall>s \<in> set ss'. s = leader \<or> s \<in> set ss" "ss \<noteq> [] \<longrightarrow> hd ss' = leader \<or> hd ss' = hd ss" by blast
  moreover have "ss \<noteq> []" using ss(2) by (auto simp: sequence_ok_def)
  ultimately have "sequence_ok cx ss'" using sequence_ok_leader[OF assms(1) ss(2)] by blast
  moreover from this have "parseSequence (fst kv) leader = Strokes ss'"
    using ss' by (auto simp: parseSequence_def sequence_ok_def)
  ultimately show ?thesis using \<open>isAction (snd kv)\<close> by blast
qed

lemma default_binding_ok:
  assumes "leader_ok leader" "default_ok cx kv" "contexts_ok leader cs"
  shows "contexts_ok leader (default_binding leader cx kv cs)"
proof -
  from parse_keys_ok[OF assms(1,2)] obtain seq where
    seq: "parseSequence (fst kv) leader = Strokes seq" "sequence_ok cx seq" "isAction (snd kv)" by blast
  then show ?thesis using assms(3)
    by (auto simp: default_binding_def binding_ok_def intro!: set_binding_ok)
qed

lemma default_contexts_ok:
  assumes "leader_ok leader"
  shows "contexts_ok leader (default_contexts leader)"
proof -
  have one: "contexts_ok leader (fold (default_binding leader cx) kvs cs)"
    if "list_all (default_ok cx) kvs" "contexts_ok leader cs" for cx kvs cs
    using that by (induction kvs arbitrary: cs) (auto simp: default_binding_ok[OF assms])
  have "contexts_ok leader (fold (\<lambda>cx. fold (default_binding leader cx) (DEFAULT_BINDINGS cx)) cxs cs)"
    if "contexts_ok leader cs" for cxs cs
    using that by (induction cxs arbitrary: cs) (auto simp: one defaults_ok)
  moreover have "contexts_ok leader (\<lambda>_. [])" by (simp add: contexts_ok_def)
  ultimately show ?thesis by (simp add: default_contexts_def)
qed

lemma user_binding_ok:
  assumes "user_binding leader cx kv b = Some b'" "contexts_ok leader (fst b)"
  shows "contexts_ok leader (fst b')"
proof (cases "parseSequence (fst kv) leader")
  case (Strokes seq)
  then have len: "1 \<le> length seq \<and> length seq \<le> 3"
    by (auto simp: parseSequence_def Suc_le_eq split: sequence_parse.splits if_splits)
  show ?thesis using assms Strokes len
    by (auto simp: user_binding_def Let_def warn_def delete_binding_ok bind_action_def binding_ok_def
        sequence_ok_def list_ex_iff list_all_iff isAction_def
        split: if_splits json.splits option.splits intro!: set_binding_ok exI[of _ seq])
qed (use assms in \<open>auto simp: user_binding_def warn_def Let_def\<close>)

lemma fold_option_keeps:
  assumes "\<And>x b b'. f x b = Some b' \<Longrightarrow> I b \<Longrightarrow> I b'" "fold_option f xs b = Some b'" "I b"
  shows "I b'"
  using assms(2,3) by (induction xs arbitrary: b) (auto split: option.splits dest: assms(1))

lemma user_block_ok:
  assumes "user_block leader blk b = Some b'" "contexts_ok leader (fst b)"
  shows "contexts_ok leader (fst b')"
  using assms
  by (auto simp: user_block_def warn_def split: option.splits
      elim!: fold_option_keeps[where I = "\<lambda>b. contexts_ok leader (fst b)", rotated] dest: user_binding_ok)

lemma choose_leader_ok: "choose_leader v = Some (l, ws) \<Longrightarrow> leader_ok l"
proof -
  have "leader_ok DEFAULT_LEADER"
    by (simp add: leader_ok_def DEFAULT_LEADER_def RESERVED_def LINE_EDIT_KEYS_def starts_with_def)
  then show "choose_leader v = Some (l, ws) \<Longrightarrow> leader_ok l"
    by (auto simp: choose_leader_def split: option.splits json.splits stroke_parse.splits if_splits)
qed

lemma resolve_alone:
  assumes "distinct (mkeys (km_contexts km cx))" and "(join '' '' ss, a) \<in> set (km_contexts km cx)"
  shows "resolve_keys km [cx] ss =
    (if list_ex (starts_with (join '' '' ss @ '' '')) (mkeys (km_contexts km cx)) then Pending else Action a)"
  using map_of_is_SomeI [OF assms] by (simp add: resolve_keys_def)

text \<open>
  C26 (keymap_well_formed). Whatever the file of key bindings says, of the key map built from it: the
  leader holds Ctrl or Alt, is not reserved and edits no text; every binding of a context is one to
  three keystrokes, none reserved and together not the leader, and is of a known action; no binding of the
  chat starts with a key that edits its input; and no sequence is bound twice in a context.  In its
  context the keystrokes of a binding run its action, except when the context also binds a longer
  sequence that begins with them: then they wait for more, and the shorter binding runs nothing.
\<close>

theorem keymap_well_formed:
  assumes "buildKeyMap config = Some (km, warnings)"
  shows "leader_ok (km_leader km) \<and>
    (\<forall>cx. distinct (mkeys (km_contexts km cx)) \<and>
       (\<forall>(k, a) \<in> set (km_contexts km cx).
          isAction a \<and> k \<noteq> km_leader km \<and>
          (\<exists>ss. k = join '' '' ss \<and> 1 \<le> length ss \<and> length ss \<le> 3 \<and> set ss \<inter> set RESERVED = {} \<and>
             (cx = Cx_chat \<longrightarrow> hd ss \<notin> set LINE_EDIT_KEYS) \<and>
             resolve_keys km [cx] ss =
               (if list_ex (starts_with (k @ '' '')) (mkeys (km_contexts km cx)) then Pending else Action a))))"
proof -
  from assms obtain leader ws blocks b cs where *:
    "choose_leader (js_field config ''leader'') = Some (leader, ws)"
    "fold_option (user_block leader) blocks b = Some (cs, warnings)"
    "km = \<lparr>km_leader = leader, km_contexts = cs\<rparr>" "fst b = default_contexts leader"
    by (fastforce simp: buildKeyMap_def Let_def simp del: fold_option.simps split: option.splits prod.splits)
  have leader: "leader_ok leader" by (rule choose_leader_ok[OF *(1)])
  have "contexts_ok leader cs"
    using fold_option_keeps[where I = "\<lambda>b. contexts_ok leader (fst b)", OF user_block_ok *(2)]
      default_contexts_ok[OF leader] *(4) by simp
  then have cx: "distinct (mkeys (km_contexts km cx))" "\<forall>(k, a) \<in> set (km_contexts km cx). binding_ok leader cx (k, a)" for cx
    using *(3) by (auto simp: contexts_ok_def list_all_iff)
  have "isAction a \<and> k \<noteq> km_leader km \<and>
          (\<exists>ss. k = join '' '' ss \<and> 1 \<le> length ss \<and> length ss \<le> 3 \<and> set ss \<inter> set RESERVED = {} \<and>
             (cx = Cx_chat \<longrightarrow> hd ss \<notin> set LINE_EDIT_KEYS) \<and>
             resolve_keys km [cx] ss =
               (if list_ex (starts_with (k @ '' '')) (mkeys (km_contexts km cx)) then Pending else Action a))"
    if "(k, a) \<in> set (km_contexts km cx)" for k a cx
  proof -
    have ok: "binding_ok leader cx (k, a)" using cx(2) that by blast
    then obtain ss where ss: "k = join '' '' ss" "sequence_ok cx ss" by (auto simp: binding_ok_def)
    have "resolve_keys km [cx] ss =
        (if list_ex (starts_with (k @ '' '')) (mkeys (km_contexts km cx)) then Pending else Action a)"
      using resolve_alone [OF cx(1)] that unfolding ss(1) .
    moreover have "1 \<le> length ss \<and> length ss \<le> 3 \<and> set ss \<inter> set RESERVED = {} \<and>
        (cx = Cx_chat \<longrightarrow> hd ss \<notin> set LINE_EDIT_KEYS)"
      using ss(2) by (auto simp: sequence_ok_def list_all_iff)
    moreover have "isAction a" "k \<noteq> km_leader km" using ok *(3) by (simp_all add: binding_ok_def)
    ultimately show ?thesis using ss(1) by blast
  qed
  note bound = this
  show ?thesis
  proof (intro conjI allI ballI)
    show "leader_ok (km_leader km)" using leader *(3) by simp
    show "distinct (mkeys (km_contexts km cx))" for cx by (rule cx(1))
    fix cx kv
    assume kv: "kv \<in> set (km_contexts km cx)"
    show "case kv of (k, a) \<Rightarrow> isAction a \<and> k \<noteq> km_leader km \<and>
          (\<exists>ss. k = join '' '' ss \<and> 1 \<le> length ss \<and> length ss \<le> 3 \<and> set ss \<inter> set RESERVED = {} \<and>
             (cx = Cx_chat \<longrightarrow> hd ss \<notin> set LINE_EDIT_KEYS) \<and>
             resolve_keys km [cx] ss =
               (if list_ex (starts_with (k @ '' '')) (mkeys (km_contexts km cx)) then Pending else Action a))"
      using bound kv by (cases kv) (simp only: prod.case simp_thms)
  qed
qed

lemma keymap_well_formed_witness:
  "\<exists>km ws. buildKeyMap (JObj [(''leader'', JStr ''alt+a''), (''bindings'', JArr [])]) = Some (km, ws) \<and>
     km_leader km = ''alt+a'' \<and> leader_ok (km_leader km)"
proof -
  let ?c = "JObj [(''leader'', JStr ''alt+a''), (''bindings'', JArr [])]"
  obtain km where km: "buildKeyMap ?c = Some (km, [])" "km_leader km = ''alt+a''"
    by (simp add: buildKeyMap_def js_field_def choose_leader_def shape_warnings_def leader_ok_def stroke_eval)
  from keymap_well_formed[OF km(1)] km show ?thesis by blast
qed

section \<open>What a keystroke does\<close>

lemma join_snoc: "join '' '' (s # ss @ [r]) = join '' '' (s # ss) @ '' '' @ r"
  by (induction ss arbitrary: s) auto

lemma starts_with_iff_append: "starts_with p s \<longleftrightarrow> (\<exists>r. s = p @ r)"
  by (auto simp: starts_with_def) (metis append_take_drop_id)

lemma map_of_continued:
  fixes m :: bindings
  shows "map_of (map (\<lambda>(k, a). (drop (length p) k, a)) (List.filter (\<lambda>(k, a). starts_with p k) m)) r = map_of m (p @ r)"
proof (induction m)
  case (Cons kv m)
  obtain k a where kv: "kv = (k, a)" by (cases kv)
  show ?case
  proof (cases "starts_with p k")
    case True
    then obtain k' where "k = p @ k'" by (auto simp: starts_with_iff_append)
    with Cons True kv show ?thesis by simp
  next
    case False
    then have "p @ r \<noteq> k" by (auto simp: starts_with_iff_append)
    with Cons False kv show ?thesis by simp
  qed
qed simp

lemma map_of_concat_find:
  "map_of (concat (map f xs)) r =
     (case List.find (\<lambda>x. map_of (f x) r \<noteq> None) xs of Some x \<Rightarrow> map_of (f x) r | None \<Rightarrow> None)"
  by (induction xs) (auto simp: map_add_def split: option.splits)

definition first_wins :: "string \<times> string \<Rightarrow> bindings \<Rightarrow> bindings" where
  "first_wins = (\<lambda>(k, a) m. if mhas m k then m else mset_key k a m)"

lemma first_wins_get:
  "mget (fold first_wins kvs m) r = (case mget m r of Some v \<Rightarrow> Some v | None \<Rightarrow> map_of kvs r)"
proof (induction kvs arbitrary: m)
  case (Cons kv kvs)
  obtain k a where kv: "kv = (k, a)" by (cases kv)
  have "mget (first_wins kv m) r = (case mget m r of Some v \<Rightarrow> Some v | None \<Rightarrow> if r = k then Some a else None)"
    by (auto simp: kv first_wins_def update_conv' split: option.splits)
  with Cons.IH[of "first_wins kv m"] show ?case by (auto simp: kv split: option.splits)
qed (simp split: option.splits)

lemma first_wins_empty: "fold first_wins kvs m = [] \<longleftrightarrow> kvs = [] \<and> m = []"
proof -
  have "mset_key k a m \<noteq> []" for k a and m :: bindings by (cases m) auto
  then have "first_wins kv m \<noteq> []" for kv m by (cases kv) (auto simp: first_wins_def)
  then show ?thesis by (induction kvs arbitrary: m) auto
qed

definition continued :: "string \<Rightarrow> bindings \<Rightarrow> bindings" where
  "continued p m = map (\<lambda>(k, a). (drop (length p) k, a)) (List.filter (\<lambda>(k, a). starts_with p k) m)"

lemma continuations_alt:
  "continuations km active seq =
     fold first_wins (concat (map (\<lambda>cx. continued (join '' '' seq @ '' '') (km_contexts km cx)) active)) []"
  by (simp add: continuations_def Let_def first_wins_def continued_def)

lemma continuations_get:
  "mget (continuations km active seq) r =
     (case List.find (\<lambda>cx. mget (km_contexts km cx) ((join '' '' seq @ '' '') @ r) \<noteq> None) active of
        Some cx \<Rightarrow> mget (km_contexts km cx) ((join '' '' seq @ '' '') @ r) | None \<Rightarrow> None)"
  by (simp only: continuations_alt first_wins_get map_of_concat_find continued_def map_of_continued)
    (simp split: option.splits)

text \<open>
  The menu of the keys that may come next tells the truth: after any keys typed,
  the next key waits exactly when the menu of the longer sequence has entries, and otherwise runs the
  action that the menu shows for it, or nothing when the menu does not show it.
\<close>

theorem which_key_faithful:
  "resolve_keys km active (s # ss @ [r]) =
     (if continuations km active (s # ss @ [r]) \<noteq> [] then Pending
      else case mget (continuations km active (s # ss)) r of Some a \<Rightarrow> Action a | None \<Rightarrow> Nothing_bound)"
proof -
  let ?key = "join '' '' (s # ss) @ '' '' @ r"
  have empty: "continuations km active seq = [] \<longleftrightarrow>
    \<not> list_ex (\<lambda>cx. list_ex (starts_with (join '' '' seq @ '' '')) (mkeys (km_contexts km cx))) active" for seq
    by (auto simp: continuations_alt first_wins_empty continued_def list_ex_iff filter_empty_conv
        split_beta)
  have "join '' '' (s # ss @ [r]) = ?key" by (rule join_snoc)
  moreover have "\<exists>a. mget (km_contexts km cx) k = Some a"
    if "List.find (\<lambda>cx. \<exists>a. mget (km_contexts km cx) k = Some a) active = Some cx" for cx k
    using that by (auto simp: find_Some_iff)
  ultimately show ?thesis
    unfolding empty continuations_get
    by (fastforce simp: resolve_keys_def Let_def split: option.splits)
qed

section \<open>Hints of shadowed keys\<close>

lemma default_binding_other: "c \<noteq> cx \<Longrightarrow> fold (default_binding leader c) kvs cs cx = cs cx"
  by (induction kvs arbitrary: cs) (simp_all add: default_binding_def set_binding_def split: sequence_parse.splits)

lemma default_binding_local:
  "cs cx = cs' cx \<Longrightarrow> fold (default_binding leader cx) kvs cs cx = fold (default_binding leader cx) kvs cs' cx"
proof (induction kvs arbitrary: cs cs')
  case (Cons kv kvs)
  have "default_binding leader cx kv cs cx = default_binding leader cx kv cs' cx"
    using Cons.prems by (simp add: default_binding_def set_binding_def split: sequence_parse.splits)
  from Cons.IH[of "default_binding leader cx kv cs" "default_binding leader cx kv cs'", OF this] show ?case by simp
qed simp

lemma default_context_alone:
  "default_contexts leader cx = fold (default_binding leader cx) (DEFAULT_BINDINGS cx) (\<lambda>_. []) cx"
proof -
  let ?f = "\<lambda>cx. fold (default_binding leader cx) (DEFAULT_BINDINGS cx)"
  have other: "cx \<notin> set cxs \<Longrightarrow> fold ?f cxs cs cx = cs cx" for cxs cs
    by (induction cxs arbitrary: cs) (auto simp: default_binding_other)
  have "distinct cxs \<Longrightarrow> cx \<in> set cxs \<Longrightarrow> fold ?f cxs cs cx = ?f cx cs cx" for cxs cs
  proof (induction cxs arbitrary: cs)
    case (Cons c cxs)
    show ?case
    proof (cases "c = cx")
      case False
      with Cons have "fold ?f (c # cxs) cs cx = ?f cx (?f c cs) cx" by simp
      also have "\<dots> = ?f cx cs cx" by (rule default_binding_local) (simp add: default_binding_other False)
      finally show ?thesis .
    qed (use Cons.prems other in simp)
  qed simp
  moreover have "distinct CONTEXTS" "cx \<in> set CONTEXTS" by (simp_all add: CONTEXTS_def) (cases cx; simp)
  ultimately show ?thesis by (simp only: default_contexts_def)
qed

text \<open>Looking a sequence up in the defaults of a context: the last binding on it counts.\<close>

definition default_pairs :: "string \<Rightarrow> (string \<times> string) list \<Rightarrow> (string \<times> string) list" where
  "default_pairs leader kvs =
     List.filter (\<lambda>(k, a). k \<noteq> leader)
       (map (\<lambda>kv. (case parseSequence (fst kv) leader of Strokes seq \<Rightarrow> join '' '' seq | _ \<Rightarrow> leader, snd kv)) kvs)"

lemma default_context_get: "mget (default_contexts leader cx) k = map_of (rev (default_pairs leader (DEFAULT_BINDINGS cx))) k"
proof -
  have "mget (fold (default_binding leader cx) kvs cs cx) k =
      (case map_of (rev (default_pairs leader kvs)) k of Some a \<Rightarrow> Some a | None \<Rightarrow> mget (cs cx) k)" for kvs cs
  proof (induction kvs arbitrary: cs)
    case (Cons kv kvs)
    then show ?case
      by (cases "parseSequence (fst kv) leader")
        (auto simp: default_pairs_def default_binding_def set_binding_def map_add_def update_conv' split: option.splits)
  qed (simp add: default_pairs_def)
  then show ?thesis by (simp add: default_context_alone split: option.splits)
qed

lemmas pairs_eval = default_pairs_def parseSequence_def stroke_eval quoted_def

definition unextended :: "string \<Rightarrow> key_context \<Rightarrow> bool" where
  "unextended k cx \<longleftrightarrow> list_all (\<lambda>kv. \<not> starts_with (k @ '' '') (fst kv)) (default_pairs ''ctrl+x'' (DEFAULT_BINDINGS cx))"

lemma delete_unextended:
  "unextended ''ctrl+x D'' Cx_chat" "unextended ''ctrl+x D'' Cx_task" "unextended ''ctrl+x D'' Cx_global"
  by (simp_all add: unextended_def pairs_eval chat_bindings_def task_bindings_def global_bindings_def)

lemma unextended_keys:
  assumes "unextended k cx"
  shows "\<not> list_ex (starts_with (k @ '' '')) (mkeys (default_contexts ''ctrl+x'' cx))"
proof
  assume "list_ex (starts_with (k @ '' '')) (mkeys (default_contexts ''ctrl+x'' cx))"
  then obtain k' where k': "k' \<in> fst ` set (default_contexts ''ctrl+x'' cx)" "starts_with (k @ '' '') k'"
    by (auto simp: list_ex_iff)
  then obtain a where "mget (default_contexts ''ctrl+x'' cx) k' = Some a"
    by (cases "mget (default_contexts ''ctrl+x'' cx) k'") (auto simp: map_of_eq_None_iff)
  then have "(k', a) \<in> set (default_pairs ''ctrl+x'' (DEFAULT_BINDINGS cx))"
    unfolding default_context_get by (auto dest: map_of_SomeD)
  with assms k'(2) show False by (auto simp: unextended_def list_all_iff)
qed

lemma keysForI: "cx \<in> set active \<Longrightarrow> (k, a) \<in> set (km_contexts km cx) \<Longrightarrow> k \<in> set (keysFor km active a)"
  by (force simp: keysFor_def)

lemma delete_keys:
  "mget (default_contexts ''ctrl+x'' Cx_chat) ''ctrl+x D'' = None"
  "mget (default_contexts ''ctrl+x'' Cx_task) ''ctrl+x D'' = Some ''task:delete''"
  "mget (default_contexts ''ctrl+x'' Cx_global) ''ctrl+x D'' = Some ''agent:delete''"
  by (simp_all add: default_context_get pairs_eval chat_bindings_def task_bindings_def global_bindings_def)

text \<open>
  In the view of a task the palette shows, beside the deletion of the whole
  agent, a key that deletes only the task: the hint of an action lists every key bound to it in an active
  context, also one that a more specific context binds to another action.
\<close>

theorem palette_shows_shadowed_key:
  "''ctrl+x D'' \<in> set (keysFor DEFAULT_KEYMAP [Cx_chat, Cx_task, Cx_global] ''agent:delete'') \<and>
   resolve_keys DEFAULT_KEYMAP [Cx_chat, Cx_task, Cx_global] [''ctrl+x'', ''D''] = Action ''task:delete''"
proof
  have "(''ctrl+x D'', ''agent:delete'') \<in> set (default_contexts ''ctrl+x'' Cx_global)"
    by (rule map_of_SomeD) (rule delete_keys)
  then show "''ctrl+x D'' \<in> set (keysFor DEFAULT_KEYMAP [Cx_chat, Cx_task, Cx_global] ''agent:delete'')"
    by (intro keysForI[of Cx_global]) (simp_all add: DEFAULT_KEYMAP_def DEFAULT_LEADER_def)
  show "resolve_keys DEFAULT_KEYMAP [Cx_chat, Cx_task, Cx_global] [''ctrl+x'', ''D''] = Action ''task:delete''"
    using delete_unextended[THEN unextended_keys]
    by (simp add: resolve_keys_def Let_def DEFAULT_KEYMAP_def DEFAULT_LEADER_def delete_keys)
qed

section \<open>Chunks\<close>

text \<open>The codes that a part of a split chunk stands for.\<close>

definition chunk_codes :: "nat list \<times> ink_key \<Rightarrow> nat list" where
  "chunk_codes = (\<lambda>(t, k).
     if ik_backspace k then [127] else if ik_tab k then [9] else if ik_escape k then [27]
     else if ik_meta k then 27 # t else if ik_ctrl k then map (\<lambda>c. c - 96) t else t)"

lemma chunk_codes_simps [simp]:
  "chunk_codes (t, no_key) = t" "chunk_codes (t, no_key\<lparr>ik_backspace := True\<rparr>) = [127]"
  "chunk_codes (t, no_key\<lparr>ik_tab := True\<rparr>) = [9]" "chunk_codes (t, no_key\<lparr>ik_escape := True\<rparr>) = [27]"
  "chunk_codes (t, no_key\<lparr>ik_meta := True\<rparr>) = 27 # t"
  "chunk_codes (t, no_key\<lparr>ik_ctrl := True\<rparr>) = map (\<lambda>c. c - 96) t"
  by (simp_all add: chunk_codes_def no_key_def)

lemma chunk_codes_text [simp]: "concat (map chunk_codes (chunk_text t)) = t"
  by (simp add: chunk_text_def)

lemma split_chunk_codes: "concat (map chunk_codes (split_chunk no_key t cs)) = t @ cs"
proof (induction cs arbitrary: t rule: length_induct)
  case (1 cs)
  then have IH: "length ds < length cs \<Longrightarrow> concat (map chunk_codes (split_chunk no_key t ds)) = t @ ds" for ds t
    by blast
  show ?case
  proof (cases cs)
    case (Cons c ds)
    show ?thesis
    proof (cases ds)
      case (Cons d es)
      then show ?thesis using \<open>cs = c # ds\<close> IH[of ds] IH[of es] by simp
    qed (use IH[of "[]"] Cons in simp)
  qed simp
qed

text \<open>
  Splitting the input of one read into keys and text loses nothing and
  reorders nothing: whatever characters arrive, the parts stand for exactly those characters, in order.
\<close>

theorem split_chunk_loses_nothing: "concat (map chunk_codes (splitChunk ch no_key)) = ch"
  by (simp add: splitChunk_def split_chunk_codes)

end
