(* ===== verification/PeerNet.thy ===== *)
theory PeerNet
  imports Protocol "HOL-Library.List_Lexorder" "HOL-Library.Char_ord"
begin

text \<open>
  \<^verbatim>\<open>packages/daemon/src/peer-network.ts\<close> with the schemas of its records in
  \<^verbatim>\<open>packages/protocol/src/peers.ts\<close>: the records of the paired machines, who may connect, which
  requests are served, and how records spread.  The rows of \<open>team_state\<close> that the code keeps under
  \<open>peer/record/\<close>, \<open>peer/generations\<close>, \<open>peer/removed\<close> and \<open>peer/config\<close> are fields here; what
  is stored there was parsed before.  A connection is a number; sockets are not modelled.

  Certificates, signatures and URLs belong to Node.js and are the parameters \<open>net_env\<close>.
\<close>

section \<open>Data\<close>

record url =
  u_protocol :: string
  u_hostname :: string
  u_port :: string
  u_username :: string
  u_password :: string
  u_search :: string
  u_hash :: string
  u_pathname :: string

record catalog_agent =
  cg_id :: string
  cg_generation :: string
  cg_name :: string
  cg_description :: string
  cg_runtime :: string
  cg_connectors :: "string list"
  cg_skills :: "string list"

record node_record =
  nr_node :: string
  nr_label :: string
  nr_address :: string
  nr_certificate :: string
  nr_revision :: nat
  nr_agents :: "catalog_agent list"
  nr_signature :: string

record net_config =
  nc_label :: string
  nc_listen :: string
  nc_port :: nat
  nc_address :: string

text \<open>
  What Node.js answers: whether a certificate is self-signed and valid at a time, the hash of its key,
  whether a signature of a record fits a certificate, the signature of the own key, the length of a record
  as JSON, \<open>new URL\<close> and the text of a URL.
\<close>

record net_env =
  ne_valid :: "int \<Rightarrow> string \<Rightarrow> bool"
  ne_fingerprint :: "string \<Rightarrow> string"
  ne_verify :: "string \<Rightarrow> node_record \<Rightarrow> string \<Rightarrow> bool"
  ne_sign :: "node_record \<Rightarrow> string"
  ne_size :: "node_record \<Rightarrow> nat"
  ne_url :: "string \<Rightarrow> url option"
  ne_url_text :: "url \<Rightarrow> string"

definition peerAddressSchema :: "net_env \<Rightarrow> string \<Rightarrow> bool" where
  "peerAddressSchema env a \<longleftrightarrow>
     length a \<le> 300 \<and>
     (case ne_url env a of
        None \<Rightarrow> False
      | Some u \<Rightarrow>
          u_protocol u = ''tls:'' \<and> u_hostname u \<noteq> [] \<and>
          u_port u \<noteq> [] \<and> list_all is_digit (u_port u) \<and> digits_val (u_port u) \<le> 65535 \<and>
          u_username u = [] \<and> u_password u = [] \<and> u_search u = [] \<and> u_hash u = [] \<and>
          (u_pathname u = [] \<or> u_pathname u = ''/''))"

definition peerAgentSchema :: "catalog_agent \<Rightarrow> bool" where
  "peerAgentSchema a \<longleftrightarrow>
     peerAgentIdSchema (cg_id a) \<and> generationSchema (cg_generation a) \<and> length (cg_name a) \<le> 100 \<and>
     length (cg_description a) \<le> 500 \<and> length (cg_runtime a) \<le> 40 \<and>
     length (cg_connectors a) \<le> 50 \<and> list_all (\<lambda>c. length c \<le> 40) (cg_connectors a) \<and>
     length (cg_skills a) \<le> 200 \<and> list_all (\<lambda>s. length s \<le> 40) (cg_skills a)"

definition peerRecordSchema :: "net_env \<Rightarrow> node_record \<Rightarrow> bool" where
  "peerRecordSchema env r \<longleftrightarrow>
     peerNodeSchema (nr_node r) \<and> 1 \<le> length (nr_label r) \<and> length (nr_label r) \<le> 80 \<and>
     peerAddressSchema env (nr_address r) \<and> length (nr_certificate r) \<le> 8000 \<and>
     1 \<le> nr_revision r \<and> nr_revision r \<le> 2 ^ 53 - 1 \<and>
     length (nr_agents r) \<le> 200 \<and> list_all peerAgentSchema (nr_agents r) \<and>
     1 \<le> length (nr_signature r) \<and> length (nr_signature r) \<le> 300 \<and> ne_size env r \<le> 2000000"

definition listen_char :: "char \<Rightarrow> bool" where
  "listen_char c \<longleftrightarrow> is_lower c \<or> is_digit c \<or> 65 \<le> (of_char c :: nat) \<and> (of_char c :: nat) \<le> 90 \<or>
     c \<in> set ''.:-''"

definition peerNetworkConfigSchema :: "net_env \<Rightarrow> net_config \<Rightarrow> bool" where
  "peerNetworkConfigSchema env c \<longleftrightarrow>
     1 \<le> length (nc_label c) \<and> length (nc_label c) \<le> 80 \<and>
     1 \<le> length (nc_listen c) \<and> length (nc_listen c) \<le> 80 \<and> list_all listen_char (nc_listen c) \<and>
     nc_port c \<le> 65535 \<and> peerAddressSchema env (nc_address c)"

definition peerSyncSchema :: "net_env \<Rightarrow> node_record list \<Rightarrow> string list \<Rightarrow> bool" where
  "peerSyncSchema env rs rm \<longleftrightarrow>
     length rs \<le> 32 \<and> list_all (peerRecordSchema env) rs \<and> length rm \<le> 1000 \<and> list_all peerNodeSchema rm"

section \<open>State\<close>

text \<open>
  An agent of this machine, as the hub sums it up; a link is a connection and whether its socket closed.
\<close>

record local_agent =
  la_id :: string
  la_name :: string
  la_description :: "string option"
  la_runtime :: "string option"
  la_connectors :: "string list"
  la_skills :: "string list option"
  la_error :: "string option"
  la_execution :: "execution option"

record link =
  lk_id :: nat
  lk_closed :: bool

datatype net_output =
  Link_closed string nat
| Socket_destroyed nat
| Changed
| Trust_updated
| Sync_request string "node_record list" "string list"

record pnet =
  n_node :: string
  n_cert :: string
  n_config :: "net_config option"
  n_stored_config :: "net_config option"
  n_agents :: "local_agent list"
  n_now :: int
  n_random :: "nat \<Rightarrow> string"
  n_draws :: nat
  n_records :: "(string, node_record) jsmap"
  n_generations :: "(string, string) jsmap"
  n_removed :: "string list"
  n_cursor :: nat
  n_links :: "(string, link) jsmap"
  n_dialing :: "(string, node_record) jsmap"
  n_stopped :: bool
  n_server :: bool
  n_ticking :: bool
  n_out :: "net_output list"

type_synonym 'a net_op = "(pnet, 'a) op"

definition put_out :: "net_output \<Rightarrow> unit net_op" where
  "put_out x = modify (\<lambda>s. s\<lparr>n_out := n_out s @ [x]\<rparr>)"

definition changed :: "unit net_op" where
  "changed = andthen (gets n_stopped) (\<lambda>st. when_do (\<not> st) (put_out Changed))"

definition update_trust :: "unit net_op" where
  "update_trust = andthen (gets n_server) (\<lambda>sv. when_do sv (put_out Trust_updated))"

section \<open>Keys\<close>

definition publicKey :: "net_env \<Rightarrow> int \<Rightarrow> string \<Rightarrow> string result" where
  "publicKey env now cert =
     (if ne_valid env now cert then Inr (ne_fingerprint env cert) else Inl (Error ''PEER_CERTIFICATE_INVALID''))"

text \<open>\<open>payload\<close>: the record without its signature.\<close>

definition unsigned :: "node_record \<Rightarrow> node_record" where
  "unsigned r = r\<lparr>nr_signature := []\<rparr>"

text \<open>
  \<open>find\<close> on the records with a key: an exception of \<open>publicKey\<close> ends the search.
\<close>

fun find_key :: "net_env \<Rightarrow> int \<Rightarrow> string \<Rightarrow> node_record list \<Rightarrow> node_record option result" where
  "find_key env now fp [] = Inr None"
| "find_key env now fp (r # rs) =
     rbind (publicKey env now (nr_certificate r)) (\<lambda>k. if k = fp then Inr (Some r) else find_key env now fp rs)"

section \<open>The own record\<close>

definition listed_agents :: "local_agent list \<Rightarrow> local_agent list" where
  "listed_agents xs =
     take 200 (List.filter (\<lambda>a. la_id a \<noteq> ''builder'' \<and> la_error a = None \<and> la_execution a = None) xs)"

text \<open>
  An agent keeps its generation while it is listed; another one gets a random one.  The generations are a
  plain object: \<open>known.constructor\<close> is a function that every object has, and the record that holds it fails
  its schema.
\<close>

definition generation_of :: "string \<Rightarrow> string net_op" where
  "generation_of a =
     (\<lambda>s. case mget (n_generations s) a of
            Some g \<Rightarrow> (Inr g, s)
          | None \<Rightarrow> if a = ''constructor'' then (Inl (Error ''ZodError''), s)
                    else (Inr (n_random s (n_draws s)), s\<lparr>n_draws := Suc (n_draws s)\<rparr>))"

definition catalog_entry :: "local_agent \<Rightarrow> string \<Rightarrow> catalog_agent" where
  "catalog_entry a g =
     \<lparr>cg_id = la_id a, cg_generation = g, cg_name = take 100 (la_name a),
      cg_description = take 500 (case la_description a of Some d \<Rightarrow> d | None \<Rightarrow> []),
      cg_runtime = (case la_runtime a of Some r \<Rightarrow> r | None \<Rightarrow> []), cg_connectors = la_connectors a,
      cg_skills = take 50 (case la_skills a of Some ss \<Rightarrow> ss | None \<Rightarrow> [])\<rparr>"

fun catalog :: "local_agent list \<Rightarrow> catalog_agent list net_op" where
  "catalog [] = ret []"
| "catalog (a # as) =
     andthen (generation_of (la_id a)) (\<lambda>g. andthen (catalog as) (\<lambda>rest. ret (catalog_entry a g # rest)))"

text \<open>The second half of \<open>identity\<close>: a record like the last one is kept, another one gets the next revision.\<close>

definition fresh_record :: "net_config \<Rightarrow> catalog_agent list \<Rightarrow> pnet \<Rightarrow> node_record" where
  "fresh_record c entries s =
     \<lparr>nr_node = n_node s, nr_label = nc_label c, nr_address = nc_address c, nr_certificate = n_cert s,
      nr_revision = (case mget (n_records s) (n_node s) of Some p \<Rightarrow> nr_revision p | None \<Rightarrow> 1),
      nr_agents = sort_key cg_id entries, nr_signature = ''-''\<rparr>"

definition next_record :: "net_env \<Rightarrow> net_config \<Rightarrow> catalog_agent list \<Rightarrow> pnet \<Rightarrow> node_record" where
  "next_record env c entries s =
     (let fresh = fresh_record c entries s;
          r = (case mget (n_records s) (n_node s) of
                 Some p \<Rightarrow> fresh\<lparr>nr_revision := nr_revision p + 1\<rparr> | None \<Rightarrow> fresh)
      in r\<lparr>nr_signature := ne_sign env (unsigned r)\<rparr>)"

definition publish :: "net_env \<Rightarrow> net_config \<Rightarrow> catalog_agent list \<Rightarrow> node_record net_op" where
  "publish env c entries =
     (\<lambda>s. let previous = mget (n_records s) (n_node s); record = next_record env c entries s
          in if map_option unsigned previous = Some (unsigned (fresh_record c entries s))
             then (Inr (the previous), s)
             else if peerRecordSchema env record
             then (Inr record, s\<lparr>n_generations := map (\<lambda>e. (cg_id e, cg_generation e)) entries,
                                 n_records := mset_key (n_node s) record (n_records s)\<rparr>)
             else (Inl (Error ''ZodError''), s))"

definition identity :: "net_env \<Rightarrow> node_record net_op" where
  "identity env =
     andthen (gets n_config) (\<lambda>config.
     case config of
       None \<Rightarrow> throw ''PEER_NETWORK_NOT_CONFIGURED''
     | Some c \<Rightarrow>
         andthen (gets (\<lambda>s. listed_agents (n_agents s))) (\<lambda>listed.
         andthen (catalog listed) (\<lambda>entries.
         publish env c entries)))"

section \<open>Records\<close>

definition active :: "pnet \<Rightarrow> node_record list" where
  "active s = List.filter (\<lambda>r. nr_node r \<notin> set (n_removed s)) (mvalues (n_records s))"

definition others :: "pnet \<Rightarrow> node_record list" where
  "others s = List.filter (\<lambda>r. nr_node r \<noteq> n_node s) (active s)"

definition catalogBatch :: "node_record list net_op" where
  "catalogBatch =
     (\<lambda>s. let rs = active s
          in (Inr (if rs = [] then [] else [rs ! (n_cursor s mod length rs)]), s\<lparr>n_cursor := Suc (n_cursor s)\<rparr>))"

section \<open>Connections\<close>

text \<open>A new connection of a node; one that is still open stays, and the new socket is destroyed.\<close>

definition attach :: "string \<Rightarrow> nat \<Rightarrow> nat net_op" where
  "attach node sock =
     andthen (gets (\<lambda>s. mget (n_links s) node)) (\<lambda>old.
     case old of
       Some l \<Rightarrow>
         if \<not> lk_closed l then andthen (put_out (Socket_destroyed sock)) (\<lambda>_. ret (lk_id l))
         else andthen (modify (\<lambda>s. s\<lparr>n_links := mset_key node \<lparr>lk_id = sock, lk_closed = False\<rparr> (n_links s)\<rparr>)) (\<lambda>_.
              andthen changed (\<lambda>_. ret sock))
     | None \<Rightarrow>
         andthen (modify (\<lambda>s. s\<lparr>n_links := mset_key node \<lparr>lk_id = sock, lk_closed = False\<rparr> (n_links s)\<rparr>)) (\<lambda>_.
         andthen changed (\<lambda>_. ret sock)))"

text \<open>The socket of a link closed.\<close>

definition link_closed :: "string \<Rightarrow> nat \<Rightarrow> unit net_op" where
  "link_closed node sock =
     andthen (modify (\<lambda>s. case mget (n_links s) node of
         Some l \<Rightarrow> if lk_id l = sock then s\<lparr>n_links := mdelete node (n_links s)\<rparr> else s
       | None \<Rightarrow> s)) (\<lambda>_. changed)"

text \<open>A machine that connected, with the certificate it presented; any exception destroys its socket.\<close>

definition accept_peer :: "net_env \<Rightarrow> string option \<Rightarrow> nat \<Rightarrow> unit net_op" where
  "accept_peer env raw sock =
     catch_error
       (andthen (gets n_stopped) (\<lambda>st.
        andthen (require (\<not> st) ''PEER_UNAVAILABLE'') (\<lambda>_.
        case raw of
          None \<Rightarrow> throw ''PEER_CERTIFICATE_REQUIRED''
        | Some cert \<Rightarrow>
            andthen (gets n_now) (\<lambda>now.
            andthen (lift_result (publicKey env now cert)) (\<lambda>fp.
            andthen (gets others) (\<lambda>rs.
            andthen (lift_result (find_key env now fp rs)) (\<lambda>owner.
            case owner of
              None \<Rightarrow> throw ''PEER_NOT_PAIRED''
            | Some r \<Rightarrow> andthen (attach (nr_node r) sock) (\<lambda>_. ret ()))))))))
       (\<lambda>_. put_out (Socket_destroyed sock))"

text \<open>
  \<open>connection\<close>: an open link, a dial that is under way, or the record to dial.  \<open>dial_over\<close> is the
  \<open>finally\<close> of a dial, whose socket closed or failed or is secure.
\<close>

datatype connecting = Open_link nat | Shared_dial | Dial node_record

definition connection :: "string \<Rightarrow> connecting net_op" where
  "connection node =
     andthen (gets n_stopped) (\<lambda>st.
     andthen (require (\<not> st) ''PEER_UNAVAILABLE'') (\<lambda>_.
     andthen (gets n_removed) (\<lambda>rm.
     andthen (require (node \<notin> set rm) ''PEER_REVOKED'') (\<lambda>_.
     andthen (gets (\<lambda>s. mget (n_links s) node)) (\<lambda>existing.
     if (case existing of Some l \<Rightarrow> \<not> lk_closed l | None \<Rightarrow> False) then ret (Open_link (lk_id (the existing)))
     else
       andthen (gets (\<lambda>s. mhas (n_dialing s) node)) (\<lambda>pending.
       if pending then ret Shared_dial
       else
         andthen (gets (\<lambda>s. List.find (\<lambda>r. nr_node r = node) (others s))) (\<lambda>found.
         case found of
           None \<Rightarrow> throw ''PEER_NOT_PAIRED''
         | Some r \<Rightarrow>
             andthen (modify (\<lambda>s. s\<lparr>n_dialing := mset_key node r (n_dialing s)\<rparr>)) (\<lambda>_.
             ret (Dial r)))))))))"

definition dial_over :: "string \<Rightarrow> unit net_op" where
  "dial_over node = modify (\<lambda>s. s\<lparr>n_dialing := mdelete node (n_dialing s)\<rparr>)"

text \<open>A dialled socket is secure: the certificate it presents must hold the key of the record dialled.\<close>

definition dialed :: "net_env \<Rightarrow> node_record \<Rightarrow> string option \<Rightarrow> nat \<Rightarrow> nat net_op" where
  "dialed env r raw sock =
     catch_error
       (andthen (gets n_now) (\<lambda>now.
        case raw of
          None \<Rightarrow> throw ''PEER_IDENTITY_CHANGED''
        | Some cert \<Rightarrow>
            andthen (lift_result (publicKey env now cert)) (\<lambda>fp.
            andthen (lift_result (publicKey env now (nr_certificate r))) (\<lambda>expected.
            andthen (require (fp = expected) ''PEER_IDENTITY_CHANGED'') (\<lambda>_.
            andthen (gets (\<lambda>s. n_stopped s \<or> nr_node r \<in> set (n_removed s))) (\<lambda>gone.
            andthen (require (\<not> gone) ''PEER_REVOKED'') (\<lambda>_.
            andthen (attach (nr_node r) sock) (\<lambda>l.
            andthen (dial_over (nr_node r)) (\<lambda>_. ret l)))))))))
       (\<lambda>e. andthen (put_out (Socket_destroyed sock)) (\<lambda>_.
            andthen (dial_over (nr_node r)) (\<lambda>_. lift_result (Inl e))))"

section \<open>Spreading records\<close>

definition ALLOWED :: "string list" where
  "ALLOWED = [''peer.sync'', ''task.run'', ''task.poll'', ''task.cancel'', ''task.approve'']"

text \<open>
  \<open>tick\<close> up to its requests: the machines it dials and the batch it sends each.  Of two machines only the
  one with the smaller name dials.
\<close>

definition dial_targets :: "pnet \<Rightarrow> node_record list" where
  "dial_targets s = List.filter (\<lambda>r. n_node s \<le> nr_node r \<or> mhas (n_links s) (nr_node r)) (others s)"

definition send_sync :: "node_record \<Rightarrow> unit net_op" where
  "send_sync r =
     andthen catalogBatch (\<lambda>batch.
     andthen (gets n_removed) (\<lambda>rm.
     put_out (Sync_request (nr_node r) batch rm)))"

definition tick :: "net_env \<Rightarrow> unit net_op" where
  "tick env =
     andthen (gets (\<lambda>s. n_stopped s \<or> n_ticking s \<or> n_config s = None)) (\<lambda>skip.
     if skip then ret ()
     else
       andthen (modify (\<lambda>s. s\<lparr>n_ticking := True\<rparr>)) (\<lambda>_.
       catch_error
         (andthen (identity env) (\<lambda>_.
          andthen (gets dial_targets) (\<lambda>targets.
          each send_sync targets)))
         (\<lambda>e. andthen (modify (\<lambda>s. s\<lparr>n_ticking := False\<rparr>)) (\<lambda>_. lift_result (Inl e)))))"

definition tick_over :: "unit net_op" where
  "tick_over = modify (\<lambda>s. s\<lparr>n_ticking := False\<rparr>)"

definition start_tick :: "net_env \<Rightarrow> unit net_op" where
  "start_tick env = catch_error (tick env) (\<lambda>_. ret ())"

text \<open>
  The checks of \<open>admit\<close>, in the code's order; whether the record is stored.
\<close>

definition check :: "bool \<Rightarrow> string \<Rightarrow> unit result" where
  "check b m = (if b then Inr () else Inl (Error m))"

definition check_key :: "net_env \<Rightarrow> pnet \<Rightarrow> node_record \<Rightarrow> string \<Rightarrow> bool result" where
  "check_key env s r fp =
     (let key = publicKey env (n_now s); previous = mget (n_records s) (nr_node r)
      in if nr_node r = n_node s
         then rbind (key (n_cert s)) (\<lambda>own. rbind (check (fp = own) ''PEER_SELF_IDENTITY'') (\<lambda>_. Inr False))
         else
           rbind (key (n_cert s)) (\<lambda>own.
           rbind (check (own \<noteq> fp) ''PEER_DUPLICATE_KEY'') (\<lambda>_.
           rbind (find_key env (n_now s) fp (List.filter (\<lambda>q. nr_node q \<noteq> nr_node r) (active s))) (\<lambda>dup.
           rbind (check (dup = None) ''PEER_DUPLICATE_KEY'') (\<lambda>_.
           if (case previous of Some p \<Rightarrow> nr_revision r \<le> nr_revision p | None \<Rightarrow> False) then Inr False
           else rbind (check (previous \<noteq> None \<or> length (active s) < 32) ''PEER_LIMIT'') (\<lambda>_. Inr True))))))"

definition check_record :: "net_env \<Rightarrow> pnet \<Rightarrow> node_record \<Rightarrow> bool result" where
  "check_record env s r =
     (let key = publicKey env (n_now s)
      in rbind (check (peerRecordSchema env r) ''ZodError'') (\<lambda>_.
         rbind (check (nr_node r \<notin> set (n_removed s)) ''PEER_REVOKED'') (\<lambda>_.
         rbind (key (nr_certificate r)) (\<lambda>fp.
         rbind (check (ne_verify env (nr_certificate r) (unsigned r) (nr_signature r)) ''PEER_RECORD_SIGNATURE_INVALID'') (\<lambda>_.
         rbind (case mget (n_records s) (nr_node r) of
             None \<Rightarrow> Inr ()
           | Some p \<Rightarrow> rbind (key (nr_certificate p)) (\<lambda>k. check (k = fp) ''PEER_IDENTITY_CHANGED'')) (\<lambda>_.
         check_key env s r fp))))))"

definition admit :: "net_env \<Rightarrow> node_record \<Rightarrow> unit net_op" where
  "admit env r =
     andthen (\<lambda>s. (check_record env s r, s)) (\<lambda>store.
     when_do store
       (andthen (modify (\<lambda>s. s\<lparr>n_records := mset_key (nr_node r) r (n_records s)\<rparr>)) (\<lambda>_.
        andthen update_trust (\<lambda>_.
        andthen changed (\<lambda>_.
        start_tick env)))))"

text \<open>
  \<open>remove\<close>: the machine is no longer trusted, for good; its connection is closed.
\<close>

definition remove_node :: "string \<Rightarrow> unit net_op" where
  "remove_node node =
     andthen (require (peerNodeSchema node) ''ZodError'') (\<lambda>_.
     andthen (gets n_removed) (\<lambda>rm.
     if node \<in> set rm then ret ()
     else
       andthen (gets n_node) (\<lambda>self.
       andthen (require (node \<noteq> self) ''PEER_CANNOT_REMOVE_SELF'') (\<lambda>_.
       let removed = dedup (rm @ [node])
       in andthen (require (length removed \<le> 1000) ''PEER_REMOVAL_LIMIT'') (\<lambda>_.
          andthen (modify (\<lambda>s. s\<lparr>n_removed := removed\<rparr>)) (\<lambda>_.
          andthen update_trust (\<lambda>_.
          andthen (gets (\<lambda>s. mget (n_links s) node)) (\<lambda>l.
          andthen (case l of Some k \<Rightarrow> put_out (Link_closed node (lk_id k)) | None \<Rightarrow> ret ()) (\<lambda>_.
          andthen (modify (\<lambda>s. s\<lparr>n_links := mdelete node (n_links s)\<rparr>)) (\<lambda>_.
          changed))))))))))"

text \<open>A request of a paired machine; what the tasks answer is a parameter.\<close>

datatype net_answer = Served_by_tasks string string json | Synced "node_record list" "string list"

definition handle_request :: "net_env \<Rightarrow> (json \<Rightarrow> (node_record list \<times> string list) option) \<Rightarrow> string \<Rightarrow> string \<Rightarrow> json \<Rightarrow>
    net_answer net_op" where
  "handle_request env parse_sync node method params =
     andthen (gets n_removed) (\<lambda>rm.
     andthen (require (node \<notin> set rm) ''PEER_REVOKED'') (\<lambda>_.
     andthen (require (method \<in> set ALLOWED) ''PEER_METHOD_DENIED'') (\<lambda>_.
     if method \<noteq> ''peer.sync'' then ret (Served_by_tasks node method params)
     else
       (case parse_sync params of
          None \<Rightarrow> throw ''ZodError''
        | Some (records, removed) \<Rightarrow>
            andthen (require (peerSyncSchema env records removed) ''ZodError'') (\<lambda>_.
            andthen (each (\<lambda>i.
              andthen (gets n_node) (\<lambda>self.
              andthen (require (i \<noteq> self) ''PEER_REVOKED'') (\<lambda>_.
              remove_node i))) removed) (\<lambda>_.
            andthen (each (\<lambda>r.
              andthen (gets n_removed) (\<lambda>gone. when_do (nr_node r \<notin> set gone) (admit env r))) records) (\<lambda>_.
            andthen (identity env) (\<lambda>_.
            andthen catalogBatch (\<lambda>batch.
            gets (\<lambda>s. Synced batch (n_removed s)))))))))))"

text \<open>The answer to a request of \<open>tick\<close>; an exception ends the handling of this answer only.\<close>

definition sync_answer :: "net_env \<Rightarrow> node_record list \<Rightarrow> string list \<Rightarrow> unit net_op" where
  "sync_answer env records removed =
     andthen (require (peerSyncSchema env records removed) ''ZodError'') (\<lambda>_.
     andthen (gets n_stopped) (\<lambda>st.
     if st then ret ()
     else
       andthen (each (\<lambda>i. andthen (gets n_node) (\<lambda>self. when_do (i \<noteq> self) (remove_node i))) removed) (\<lambda>_.
       each (\<lambda>r. andthen (gets n_removed) (\<lambda>gone. when_do (nr_node r \<notin> set gone) (admit env r))) records)))"

definition request_peer :: "string \<Rightarrow> string \<Rightarrow> connecting net_op" where
  "request_peer node method =
     andthen (require (method \<in> set ALLOWED) ''PEER_METHOD_DENIED'') (\<lambda>_. connection node)"

section \<open>Starting and stopping\<close>

text \<open>
  \<open>stop\<close> closes every socket; \<open>start\<close> listens, which fails or binds a port; an advertised port 0 becomes
  that port.
\<close>

definition stop_net :: "unit net_op" where
  "stop_net =
     modify (\<lambda>s. s\<lparr>n_stopped := True, n_out := n_out s @ map (\<lambda>(n, l). Link_closed n (lk_id l)) (n_links s),
                   n_links := [], n_server := False\<rparr>)"

definition bound_config :: "net_env \<Rightarrow> nat \<Rightarrow> net_config \<Rightarrow> net_config" where
  "bound_config env port c =
     (if nc_port c \<noteq> 0 then c
      else c\<lparr>nc_port := port,
             nc_address := (case ne_url env (nc_address c) of
                None \<Rightarrow> nc_address c
              | Some u \<Rightarrow> ne_url_text env (if u_port u = ''0'' then u\<lparr>u_port := nat_str port\<rparr> else u))\<rparr>)"

definition start_net :: "net_env \<Rightarrow> nat option \<Rightarrow> unit net_op" where
  "start_net env bound =
     andthen (gets (\<lambda>s. (n_config s, n_server s))) (\<lambda>(config, server).
     case config of
       None \<Rightarrow> ret ()
     | Some c \<Rightarrow>
         if server then ret ()
         else
           andthen (modify (\<lambda>s. s\<lparr>n_stopped := False, n_server := True\<rparr>)) (\<lambda>_.
           case bound of
             None \<Rightarrow> throw ''EADDRINUSE''
           | Some port \<Rightarrow>
               andthen (modify (\<lambda>s. s\<lparr>n_config := Some (bound_config env port c)\<rparr>)) (\<lambda>_.
               andthen (identity env) (\<lambda>_.
               start_tick env))))"

definition configure :: "net_env \<Rightarrow> net_config \<Rightarrow> nat option \<Rightarrow> nat option \<Rightarrow> node_record net_op" where
  "configure env config bound again =
     andthen (require (peerNetworkConfigSchema env config) ''ZodError'') (\<lambda>_.
     andthen (gets n_config) (\<lambda>previous.
     andthen stop_net (\<lambda>_.
     andthen (modify (\<lambda>s. s\<lparr>n_stopped := False, n_config := Some config\<rparr>)) (\<lambda>_.
     andthen (catch_error (start_net env bound) (\<lambda>e.
       andthen stop_net (\<lambda>_.
       andthen (modify (\<lambda>s. s\<lparr>n_config := previous\<rparr>)) (\<lambda>_.
       andthen (start_net env again) (\<lambda>_.
       lift_result (Inl e)))))) (\<lambda>_.
     andthen (modify (\<lambda>s. s\<lparr>n_stored_config := n_config s\<rparr>)) (\<lambda>_.
     identity env))))))"

text \<open>The directory shown to the user: every machine, and whether it is connected.\<close>

definition directory :: "net_env \<Rightarrow> (node_record \<times> bool) list net_op" where
  "directory env =
     andthen (gets n_config) (\<lambda>config.
     andthen (if config = None then ret () else andthen (identity env) (\<lambda>_. ret ())) (\<lambda>_.
     gets (\<lambda>s. map (\<lambda>r. (r, nr_node r = n_node s \<or> mhas (n_links s) (nr_node r))) (active s))))"

section \<open>Steps\<close>

text \<open>
  What can happen to the network, in any order: calls of the user, connections, requests and answers of
  other machines, the clock, and the hub's agents changing.
\<close>

datatype net_event =
  Admit node_record
| Remove string
| Accept "string option" nat
| Link_over string nat
| Connect string
| Dialed string "string option" nat
| Dial_failed string
| Request string string json
| Answer "node_record list" "string list"
| Tick
| Tick_over
| Configure net_config "nat option" "nat option"
| Start "nat option"
| Stop
| Show_directory
| Agents "local_agent list"
| Clock int

fun net_step :: "net_env \<Rightarrow> (json \<Rightarrow> (node_record list \<times> string list) option) \<Rightarrow> net_event \<Rightarrow> pnet \<Rightarrow> pnet" where
  "net_step env ps (Admit r) s = snd (admit env r s)"
| "net_step env ps (Remove n) s = snd (remove_node n s)"
| "net_step env ps (Accept raw k) s = snd (accept_peer env raw k s)"
| "net_step env ps (Link_over n k) s = snd (link_closed n k s)"
| "net_step env ps (Connect n) s = snd (connection n s)"
| "net_step env ps (Dialed n raw k) s =
     (case mget (n_dialing s) n of Some r \<Rightarrow> snd (dialed env r raw k s) | None \<Rightarrow> s)"
| "net_step env ps (Dial_failed n) s = snd (dial_over n s)"
| "net_step env ps (Request n m v) s = snd (handle_request env ps n m v s)"
| "net_step env ps (Answer rs rm) s = snd (sync_answer env rs rm s)"
| "net_step env ps Tick s = snd (start_tick env s)"
| "net_step env ps Tick_over s = snd (tick_over s)"
| "net_step env ps (Configure c b b') s = snd (configure env c b b' s)"
| "net_step env ps (Start b) s = snd (start_net env b s)"
| "net_step env ps Stop s = snd (stop_net s)"
| "net_step env ps Show_directory s = snd (directory env s)"
| "net_step env ps (Agents as) s = s\<lparr>n_agents := as\<rparr>"
| "net_step env ps (Clock t) s = s\<lparr>n_now := t\<rparr>"

definition new_pnet :: "string \<Rightarrow> string \<Rightarrow> (nat \<Rightarrow> string) \<Rightarrow> pnet" where
  "new_pnet node cert rnd =
     \<lparr>n_node = node, n_cert = cert, n_config = None, n_stored_config = None, n_agents = [], n_now = 0,
      n_random = rnd, n_draws = 0, n_records = [], n_generations = [], n_removed = [], n_cursor = 0,
      n_links = [], n_dialing = [], n_stopped = False, n_server = False, n_ticking = False, n_out = []\<rparr>"

end
