(* ===== verification/PeerNetFacts.thy ===== *)
theory PeerNetFacts
  imports PeerNet
begin

text \<open>
  Facts about the peer network: who is trusted in every state it can reach, what an expired certificate
  does, and which records reach which machine.
\<close>

section \<open>Trust\<close>

abbreviation fp_of :: "net_env \<Rightarrow> node_record \<Rightarrow> string" where
  "fp_of env r \<equiv> ne_fingerprint env (nr_certificate r)"

definition records_ok :: "net_env \<Rightarrow> pnet \<Rightarrow> bool" where
  "records_ok env s \<longleftrightarrow>
     distinct (mkeys (n_records s)) \<and> (\<forall>n r. mget (n_records s) n = Some r \<longrightarrow> nr_node r = n) \<and>
     (\<forall>r. mget (n_records s) (n_node s) = Some r \<longrightarrow> nr_certificate r = n_cert s) \<and>
     (\<forall>r \<in> set (others s). ne_verify env (nr_certificate r) (unsigned r) (nr_signature r) \<and>
        fp_of env r \<noteq> ne_fingerprint env (n_cert s)) \<and>
     inj_on (fp_of env) (set (others s)) \<and> length (others s) \<le> 32"

definition links_ok :: "net_env \<Rightarrow> pnet \<Rightarrow> bool" where
  "links_ok env s \<longleftrightarrow>
     n_node s \<notin> set (n_removed s) \<and> distinct (n_removed s) \<and> length (n_removed s) \<le> 1000 \<and>
     (\<forall>n. mhas (n_links s) n \<longrightarrow> n \<noteq> n_node s \<and> n \<notin> set (n_removed s) \<and> mhas (n_records s) n) \<and>
     (\<forall>n r. mget (n_dialing s) n = Some r \<longrightarrow>
        nr_node r = n \<and> n \<noteq> n_node s \<and> (\<exists>r'. mget (n_records s) n = Some r' \<and> fp_of env r' = fp_of env r))"

definition trust_ok :: "net_env \<Rightarrow> pnet \<Rightarrow> bool" where
  "trust_ok env s \<longleftrightarrow> records_ok env s \<and> links_ok env s"

text \<open>What never changes back: identity, removals, the key of a machine, the order of its revisions.\<close>

definition pinned :: "net_env \<Rightarrow> pnet \<Rightarrow> pnet \<Rightarrow> bool" where
  "pinned env s s' \<longleftrightarrow>
     n_node s' = n_node s \<and> n_cert s' = n_cert s \<and> set (n_removed s) \<subseteq> set (n_removed s') \<and>
     (\<forall>n r. mget (n_records s) n = Some r \<longrightarrow>
        (\<exists>r'. mget (n_records s') n = Some r' \<and> fp_of env r' = fp_of env r \<and>
           (r' = r \<or> nr_revision r < nr_revision r')))"

definition follows :: "net_env \<Rightarrow> pnet \<Rightarrow> pnet \<Rightarrow> bool" where
  "follows env s0 s \<longleftrightarrow> trust_ok env s \<and> pinned env s0 s"

lemma pinned_refl [simp]: "pinned env s s"
  by (simp add: pinned_def)

lemma pinned_trans:
  assumes "pinned env a b" "pinned env b c"
  shows "pinned env a c"
proof -
  have "\<exists>r'. mget (n_records c) n = Some r' \<and> fp_of env r' = fp_of env r \<and> (r' = r \<or> nr_revision r < nr_revision r')"
    if "mget (n_records a) n = Some r" for n r
  proof -
    obtain q where q: "mget (n_records b) n = Some q" "fp_of env q = fp_of env r" "q = r \<or> nr_revision r < nr_revision q"
      using assms(1) \<open>mget (n_records a) n = Some r\<close> unfolding pinned_def by blast
    moreover obtain r' where "mget (n_records c) n = Some r'" "fp_of env r' = fp_of env q" "r' = q \<or> nr_revision q < nr_revision r'"
      using assms(2) q(1) unfolding pinned_def by blast
    ultimately show ?thesis by auto
  qed
  then show ?thesis using assms unfolding pinned_def by auto
qed

lemma follows_trans: "follows env s0 s \<Longrightarrow> trust_ok env s' \<Longrightarrow> pinned env s s' \<Longrightarrow> follows env s0 s'"
  by (auto simp: follows_def dest: pinned_trans)

lemma keeps_followsI:
  assumes "\<And>s. trust_ok env s \<Longrightarrow> trust_ok env (snd (m s)) \<and> pinned env s (snd (m s))"
  shows "keeps_inv (follows env s0) m"
  using assms by (auto intro!: keeps_invI intro: follows_trans simp: follows_def dest: pinned_trans)

lemma follows_op: "keeps_inv (follows env s0) m \<Longrightarrow> follows env s0 s \<Longrightarrow> follows env s0 (snd (m s))"
  by (rule keeps_invD)

text \<open>Changes that touch none of the fields of trust.\<close>

definition core :: "pnet \<Rightarrow> string \<times> string \<times> (string, node_record) jsmap \<times> string list \<times> (string, link) jsmap \<times> (string, node_record) jsmap" where
  "core s = (n_node s, n_cert s, n_records s, n_removed s, n_links s, n_dialing s)"

lemma others_core: "core s' = core s \<Longrightarrow> others s' = others s"
  by (simp add: others_def active_def core_def)

lemma core_trust: "core s' = core s \<Longrightarrow> trust_ok env s' \<longleftrightarrow> trust_ok env s"
  by (frule others_core) (simp add: trust_ok_def records_ok_def links_ok_def core_def)

lemma core_pinned: "core s' = core s \<Longrightarrow> pinned env s s'"
  by (simp add: pinned_def core_def)

lemma keeps_core:
  assumes "\<And>s. core (snd (m s)) = core s"
  shows "keeps_inv (follows env s0) m"
  by (rule keeps_followsI) (metis assms core_trust core_pinned)

lemma keeps_put_out [keeps]: "keeps_inv (follows env s0) (put_out x)"
  by (rule keeps_core) (simp add: put_out_def modify_def core_def)

lemma keeps_changed [keeps]: "keeps_inv (follows env s0) changed"
  by (auto simp: changed_def intro!: keeps)

lemma keeps_update_trust [keeps]: "keeps_inv (follows env s0) update_trust"
  by (auto simp: update_trust_def intro!: keeps)

lemma keeps_generation [keeps]: "keeps_inv (follows env s0) (generation_of a)"
  by (rule keeps_core) (auto simp: generation_of_def core_def split: option.splits)

lemma keeps_catalog [keeps]: "keeps_inv (follows env s0) (catalog as)"
proof (induction as)
  case Nil
  show ?case unfolding catalog.simps by (rule keeps)
next
  case (Cons a as)
  then show ?case unfolding catalog.simps by (intro keeps)
qed

lemma keeps_catalogBatch [keeps]: "keeps_inv (follows env s0) catalogBatch"
  by (rule keeps_core) (simp add: catalogBatch_def Let_def core_def)

lemma keeps_send_sync [keeps]: "keeps_inv (follows env s0) (send_sync r)"
  unfolding send_sync_def by (intro keeps)

section \<open>Changes of the records\<close>

definition named :: "(string, node_record) jsmap \<Rightarrow> bool" where
  "named m \<longleftrightarrow> distinct (mkeys m) \<and> (\<forall>(n, r) \<in> set m. nr_node r = n)"

lemma named_records: "records_ok env s \<Longrightarrow> named (n_records s)"
  by (auto simp: records_ok_def named_def)

definition pick :: "(string \<Rightarrow> bool) \<Rightarrow> (string, node_record) jsmap \<Rightarrow> node_record list" where
  "pick P m = List.filter (\<lambda>r. P (nr_node r)) (mvalues m)"

lemma others_pick: "others s = pick (\<lambda>n. n \<notin> set (n_removed s) \<and> n \<noteq> n_node s) (n_records s)"
  by (simp add: others_def active_def pick_def conj_commute)

lemma active_pick: "active s = pick (\<lambda>n. n \<notin> set (n_removed s)) (n_records s)"
  by (simp add: active_def pick_def)

lemma pick_other:
  "named m \<Longrightarrow> nr_node r = n \<Longrightarrow> \<not> P n \<Longrightarrow> pick P (mset_key n r m) = pick P m"
  by (induction m) (auto simp: pick_def named_def)

lemma in_pick: "named m \<Longrightarrow> r \<in> set (pick P m) \<longleftrightarrow> P (nr_node r) \<and> mget m (nr_node r) = Some r"
  by (force simp: pick_def named_def)

lemma named_update: "named m \<Longrightarrow> nr_node r = n \<Longrightarrow> named (mset_key n r m)"
proof -
  have "set (mset_key n r m) \<subseteq> insert (n, r) (set m)" by (induction m) (auto split: if_splits)
  then show "named m \<Longrightarrow> nr_node r = n \<Longrightarrow> named (mset_key n r m)"
    unfolding named_def by (auto simp: distinct_update)
qed

lemma pick_set:
  assumes "named m" "nr_node r = n" "P n"
  shows "set (pick P (mset_key n r m)) = insert r {q \<in> set (pick P m). nr_node q \<noteq> n}"
  using assms in_pick[OF assms(1)] in_pick[OF named_update[OF assms(1,2)]]
  by (auto simp: update_conv' split: if_splits)

lemma pick_length:
  "named m \<Longrightarrow> nr_node r = n \<Longrightarrow> P n \<Longrightarrow>
   length (pick P (mset_key n r m)) = length (pick P m) + (if mhas m n then 0 else 1)"
  by (induction m) (auto simp: pick_def named_def split: if_splits)

lemma pick_mono: "(\<And>n. Q n \<Longrightarrow> P n) \<Longrightarrow> set (pick Q m) \<subseteq> set (pick P m) \<and> length (pick Q m) \<le> length (pick P m)"
  by (induction m) (auto simp: pick_def)

lemma records_ok_iff:
  "records_ok env s \<longleftrightarrow>
     named (n_records s) \<and> (\<forall>r. mget (n_records s) (n_node s) = Some r \<longrightarrow> nr_certificate r = n_cert s) \<and>
     (\<forall>r \<in> set (others s). ne_verify env (nr_certificate r) (unsigned r) (nr_signature r) \<and>
        fp_of env r \<noteq> ne_fingerprint env (n_cert s)) \<and>
     inj_on (fp_of env) (set (others s)) \<and> length (others s) \<le> 32"
  by (auto simp: records_ok_def named_def)

abbreviation put_record :: "node_record \<Rightarrow> pnet \<Rightarrow> pnet" where
  "put_record r s \<equiv> s\<lparr>n_records := mset_key (nr_node r) r (n_records s)\<rparr>"

text \<open>A newer record with the key that its machine already has.\<close>

lemma links_ok_put:
  assumes "links_ok env s" "\<And>p. mget (n_records s) (nr_node r) = Some p \<Longrightarrow> fp_of env p = fp_of env r"
  shows "links_ok env (put_record r s)"
  using assms by (fastforce simp: links_ok_def update_conv' split: if_splits)

lemma pinned_put:
  assumes "\<And>p. mget (n_records s) (nr_node r) = Some p \<Longrightarrow> fp_of env p = fp_of env r \<and> nr_revision p < nr_revision r"
  shows "pinned env s (put_record r s)"
  using assms by (auto simp: pinned_def update_conv')

lemma put_own_record:
  assumes "trust_ok env s" "nr_node r = n_node s" "nr_certificate r = n_cert s"
    "\<And>p. mget (n_records s) (nr_node r) = Some p \<Longrightarrow> nr_revision p < nr_revision r"
  shows "trust_ok env (put_record r s) \<and> pinned env s (put_record r s)"
proof -
  have fp: "fp_of env p = fp_of env r" if "mget (n_records s) (nr_node r) = Some p" for p
    using assms(1-3) that by (auto simp: trust_ok_def records_ok_def)
  have "named (n_records s)" using assms(1) by (auto simp: trust_ok_def intro: named_records)
  then have "others (put_record r s) = others s"
    using assms(2) by (simp add: others_pick pick_other)
  then have "records_ok env (put_record r s)"
    using assms(1-3) named_update[OF \<open>named _\<close> refl, of r]
    by (auto simp: records_ok_iff trust_ok_def update_conv')
  then show ?thesis
    using assms(1,4) fp links_ok_put[of env s r] pinned_put[of s r env] by (auto simp: trust_ok_def)
qed

lemma put_other_record:
  assumes "trust_ok env s" "nr_node r \<noteq> n_node s" "nr_node r \<notin> set (n_removed s)"
    "\<And>p. mget (n_records s) (nr_node r) = Some p \<Longrightarrow> fp_of env p = fp_of env r \<and> nr_revision p < nr_revision r"
    "\<And>q. q \<in> set (others s) \<Longrightarrow> nr_node q \<noteq> nr_node r \<Longrightarrow> fp_of env q \<noteq> fp_of env r"
    "fp_of env r \<noteq> ne_fingerprint env (n_cert s)"
    "ne_verify env (nr_certificate r) (unsigned r) (nr_signature r)"
    "mhas (n_records s) (nr_node r) \<or> length (active s) < 32"
  shows "trust_ok env (put_record r s) \<and> pinned env s (put_record r s)"
proof -
  have rec: "records_ok env s" "links_ok env s" using assms(1) by (simp_all add: trust_ok_def)
  then have named: "named (n_records s)" by (auto intro: named_records)
  have set: "set (others (put_record r s)) = insert r {q \<in> set (others s). nr_node q \<noteq> nr_node r}"
    using assms(2,3) by (simp add: others_pick pick_set[OF named refl])
  have len: "length (others (put_record r s)) = length (others s) + (if mhas (n_records s) (nr_node r) then 0 else 1)"
    using assms(2,3) by (simp add: others_pick pick_length[OF named refl])
  have "length (others s) \<le> length (active s)"
    unfolding others_pick active_pick using pick_mono by fastforce
  then have "length (others (put_record r s)) \<le> 32"
    using len assms(8) rec(1) by (auto simp: records_ok_def split: if_splits)
  moreover have "inj_on (fp_of env) (set (others (put_record r s)))"
  proof -
    have "inj_on (fp_of env) {q \<in> set (others s). nr_node q \<noteq> nr_node r}"
      using rec(1) by (auto simp: records_ok_def intro: inj_on_subset)
    then show ?thesis unfolding set using assms(5) by (auto simp: inj_on_insert) metis
  qed
  ultimately have "records_ok env (put_record r s)"
    using rec(1) named_update[OF named refl, of r] assms(2,6,7) set
    by (auto simp: records_ok_iff update_conv')
  then show ?thesis
    using rec(2) assms(4) links_ok_put[of env s r] pinned_put[of s r env] by (auto simp: trust_ok_def)
qed

section \<open>Operations\<close>

lemma next_record_own:
  "nr_node (next_record env c entries s) = n_node s" "nr_certificate (next_record env c entries s) = n_cert s"
  "mget (n_records s) (n_node s) = Some p \<Longrightarrow> nr_revision p < nr_revision (next_record env c entries s)"
  by (auto simp: next_record_def fresh_record_def Let_def split: option.splits)

lemma keeps_publish [keeps]: "keeps_inv (follows env s0) (publish env c entries)"
proof (rule keeps_followsI)
  fix s assume ok: "trust_ok env s"
  let ?r = "next_record env c entries s"
  have put: "trust_ok env (put_record ?r s) \<and> pinned env s (put_record ?r s)"
    by (intro put_own_record[OF ok]) (simp_all add: next_record_own)
  have "snd (publish env c entries s) = s \<or> core (snd (publish env c entries s)) = core (put_record ?r s)"
    by (simp add: publish_def Let_def core_def next_record_own)
  then show "trust_ok env (snd (publish env c entries s)) \<and> pinned env s (snd (publish env c entries s))"
  proof
    assume same: "core (snd (publish env c entries s)) = core (put_record ?r s)"
    show ?thesis
      using put core_trust[OF same] pinned_trans[OF conjunct2[OF put] core_pinned[OF same]] by blast
  qed (simp add: ok)
qed

lemma keeps_identity [keeps]: "keeps_inv (follows env s0) (identity env)"
  unfolding identity_def by (intro keeps)

lemma keeps_tick [keeps]: "keeps_inv (follows env s0) (start_tick env)"
proof -
  have "keeps_inv (follows env s0) (modify (\<lambda>s. s\<lparr>n_ticking := b\<rparr>))" for b
    by (rule keeps_core) (simp add: modify_def core_def)
  note [keeps] = this
  show ?thesis unfolding start_tick_def tick_def by (intro keeps)
qed

lemma find_key_None:
  "find_key env now fp rs = Inr None \<longleftrightarrow> (\<forall>r \<in> set rs. ne_valid env now (nr_certificate r) \<and> fp_of env r \<noteq> fp)"
  by (induction rs) (auto simp: publicKey_def)

lemma check_simps [simp]: "check b m = Inr () \<longleftrightarrow> b"
  by (simp add: check_def)

lemma publicKey_Inr: "publicKey env now c = Inr k \<longleftrightarrow> ne_valid env now c \<and> k = ne_fingerprint env c"
  by (auto simp: publicKey_def)

lemma check_record_store:
  assumes "check_record env s r = Inr True"
  shows "nr_node r \<noteq> n_node s" "nr_node r \<notin> set (n_removed s)"
    "ne_verify env (nr_certificate r) (unsigned r) (nr_signature r)"
    "fp_of env r \<noteq> ne_fingerprint env (n_cert s)"
    "mget (n_records s) (nr_node r) = Some p \<Longrightarrow> fp_of env p = fp_of env r \<and> nr_revision p < nr_revision r"
    "q \<in> set (active s) \<Longrightarrow> nr_node q \<noteq> nr_node r \<Longrightarrow> fp_of env q \<noteq> fp_of env r"
    "mhas (n_records s) (nr_node r) \<or> length (active s) < 32"
  using assms
  by (auto simp: check_record_def check_key_def Let_def rbind_Inr_iff publicKey_Inr find_key_None
      split: if_splits option.splits)

lemma keeps_admit [keeps]: "keeps_inv (follows env s0) (admit env r)"
proof (rule keeps_invI)
  fix s assume s: "follows env s0 s"
  then have ok: "trust_ok env s" by (simp add: follows_def)
  let ?rest = "andthen update_trust (\<lambda>_. andthen changed (\<lambda>_. start_tick env))"
  have rest: "keeps_inv (follows env s0) ?rest" by (intro keeps)
  show "follows env s0 (snd (admit env r s))"
  proof (cases "check_record env s r = Inr True")
    case True
    note c = check_record_store[OF this]
    have "trust_ok env (put_record r s) \<and> pinned env s (put_record r s)"
      using c by (intro put_other_record[OF ok]) (auto simp: others_def)
    then have "follows env s0 (put_record r s)" using s follows_trans by blast
    moreover have "admit env r s = ?rest (put_record r s)"
      using True by (simp add: admit_def andthen_def modify_def)
    ultimately show ?thesis using keeps_invD[OF rest] by simp
  next
    case False
    then have "snd (admit env r s) = s"
      by (cases "check_record env s r") (auto simp: admit_def andthen_def)
    with s show ?thesis by simp
  qed
qed

lemma remove_others:
  "set (others (s\<lparr>n_removed := rm, n_links := ls\<rparr>)) \<subseteq> set (others s) \<and>
   length (others (s\<lparr>n_removed := rm, n_links := ls\<rparr>)) \<le> length (others s)"
  if "set (n_removed s) \<subseteq> set rm"
  unfolding others_pick using that by (auto intro!: pick_mono)

lemma remove_trust:
  assumes "trust_ok env s" "node \<noteq> n_node s" "node \<notin> set (n_removed s)" "length (dedup (n_removed s @ [node])) \<le> 1000"
  defines "s' \<equiv> s\<lparr>n_removed := dedup (n_removed s @ [node]), n_links := mdelete node (n_links s)\<rparr>"
  shows "trust_ok env s' \<and> pinned env s s'"
proof -
  have "set (n_removed s) \<subseteq> set (dedup (n_removed s @ [node]))" by auto
  note sub = remove_others[OF this, of "mdelete node (n_links s)"]
  have "records_ok env s'"
    using sub assms(1) by (auto simp: s'_def records_ok_def trust_ok_def intro: inj_on_subset)
  moreover have "links_ok env s'"
    using assms(1-4) by (auto simp: s'_def links_ok_def trust_ok_def delete_conv')
  moreover have "pinned env s s'" by (auto simp: s'_def pinned_def)
  ultimately show ?thesis by (simp add: trust_ok_def)
qed

lemma remove_state:
  "core (snd (remove_node node s)) = core s \<or>
   node \<noteq> n_node s \<and> node \<notin> set (n_removed s) \<and> length (dedup (n_removed s @ [node])) \<le> 1000 \<and>
   core (snd (remove_node node s)) =
     core (s\<lparr>n_removed := dedup (n_removed s @ [node]), n_links := mdelete node (n_links s)\<rparr>)"
  by (auto simp: remove_node_def andthen_def gets_def require_def ret_def throw_def modify_def put_out_def
      update_trust_def changed_def when_do_def core_def Let_def split: option.splits)

lemma keeps_remove [keeps]: "keeps_inv (follows env s0) (remove_node node)"
proof (rule keeps_followsI)
  fix s assume ok: "trust_ok env s"
  let ?t = "snd (remove_node node s)"
  let ?s = "s\<lparr>n_removed := dedup (n_removed s @ [node]), n_links := mdelete node (n_links s)\<rparr>"
  from remove_state[of node s] show "trust_ok env ?t \<and> pinned env s ?t"
  proof
    assume "core ?t = core s"
    then show ?thesis using ok core_trust core_pinned by blast
  next
    assume *: "node \<noteq> n_node s \<and> node \<notin> set (n_removed s) \<and> length (dedup (n_removed s @ [node])) \<le> 1000 \<and>
      core ?t = core ?s"
    then have "trust_ok env ?s \<and> pinned env s ?s" using remove_trust[OF ok] by blast
    moreover have same: "core ?t = core ?s" using * by blast
    ultimately show ?thesis
      using core_trust[OF same] pinned_trans[OF _ core_pinned[OF same]] by blast
  qed
qed

text \<open>A connection is attached only to a machine that is paired and not removed.\<close>

definition may_link :: "pnet \<Rightarrow> string \<Rightarrow> bool" where
  "may_link s node \<longleftrightarrow> node \<noteq> n_node s \<and> node \<notin> set (n_removed s) \<and> mhas (n_records s) node"

lemma link_trust:
  assumes "trust_ok env s" "may_link s node"
  shows "trust_ok env (s\<lparr>n_links := mset_key node l (n_links s)\<rparr>) \<and>
    pinned env s (s\<lparr>n_links := mset_key node l (n_links s)\<rparr>)"
proof -
  have "others (s\<lparr>n_links := mset_key node l (n_links s)\<rparr>) = others s" by (simp add: others_def active_def)
  then show ?thesis using assms
    by (auto simp: trust_ok_def records_ok_def links_ok_def may_link_def pinned_def update_conv' split: if_splits)
qed

lemma attach_follows:
  assumes "follows env s0 s" "may_link s node"
  shows "follows env s0 (snd (attach node sock s))"
proof -
  let ?s = "s\<lparr>n_links := mset_key node \<lparr>lk_id = sock, lk_closed = False\<rparr> (n_links s)\<rparr>"
  have "follows env s0 ?s"
    using assms link_trust[of env s node] follows_trans[OF assms(1)] by (auto simp: follows_def)
  then have "follows env s0 (snd (andthen changed (\<lambda>_. ret sock) ?s))"
    by (rule follows_op[rotated]) (intro keeps)
  moreover have "follows env s0 (snd (andthen (put_out x) (\<lambda>_. ret i) s))" for x and i :: nat
    by (rule follows_op[OF _ assms(1)]) (intro keeps)
  ultimately show ?thesis
    by (auto simp: attach_def split: option.splits)
qed

definition fewer_links :: "pnet \<Rightarrow> pnet \<Rightarrow> bool" where
  "fewer_links s s' \<longleftrightarrow>
     n_node s' = n_node s \<and> n_cert s' = n_cert s \<and> n_records s' = n_records s \<and> n_removed s' = n_removed s \<and>
     (\<forall>n. mhas (n_links s') n \<longrightarrow> mhas (n_links s) n) \<and>
     (\<forall>n r. mget (n_dialing s') n = Some r \<longrightarrow> mget (n_dialing s) n = Some r)"

lemma fewer_links_trust:
  assumes "trust_ok env s" "fewer_links s s'"
  shows "trust_ok env s' \<and> pinned env s s'"
proof -
  have "others s' = others s" using assms(2) by (simp add: others_def active_def fewer_links_def)
  then have "records_ok env s'" "pinned env s s'"
    using assms by (simp_all add: trust_ok_def records_ok_def fewer_links_def pinned_def)
  moreover have "links_ok env s'"
    using assms by (auto simp: links_ok_def trust_ok_def fewer_links_def)
  ultimately show ?thesis by (simp add: trust_ok_def)
qed

lemma keeps_fewer_links: "(\<And>s. fewer_links s (snd (m s))) \<Longrightarrow> keeps_inv (follows env s0) m"
  by (rule keeps_followsI) (rule fewer_links_trust)

lemma keeps_link_closed [keeps]: "keeps_inv (follows env s0) (link_closed node sock)"
proof -
  have [keeps]: "keeps_inv (follows env s0) (modify (\<lambda>s. case mget (n_links s) node of
         Some l \<Rightarrow> if lk_id l = sock then s\<lparr>n_links := mdelete node (n_links s)\<rparr> else s
       | None \<Rightarrow> s))"
    by (rule keeps_fewer_links) (auto simp: modify_def fewer_links_def delete_conv' split: option.splits if_splits)
  show ?thesis unfolding link_closed_def by (intro keeps)
qed

lemma keeps_dial_over [keeps]: "keeps_inv (follows env s0) (dial_over node)"
  unfolding dial_over_def
  by (rule keeps_fewer_links) (auto simp: modify_def fewer_links_def delete_conv' split: if_splits)

lemma keeps_stop [keeps]: "keeps_inv (follows env s0) stop_net"
  unfolding stop_net_def by (rule keeps_fewer_links) (auto simp: modify_def fewer_links_def)

lemma find_key_Some: "find_key env now fp rs = Inr (Some r) \<Longrightarrow> r \<in> set rs \<and> fp_of env r = fp"
  by (induction rs) (auto simp: rbind_Inr_iff publicKey_Inr split: if_splits)

lemma others_may_link: "trust_ok env s \<Longrightarrow> r \<in> set (others s) \<Longrightarrow> may_link s (nr_node r) \<and> mget (n_records s) (nr_node r) = Some r"
  using in_pick[of "n_records s" r] named_records[of env s]
  by (auto simp: trust_ok_def may_link_def others_pick)

lemma keeps_accept [keeps]: "keeps_inv (follows env s0) (accept_peer env raw sock)"
proof -
  let ?find = "\<lambda>cert. andthen (gets n_now) (\<lambda>now. andthen (lift_result (publicKey env now cert)) (\<lambda>fp.
    andthen (gets others) (\<lambda>rs. andthen (lift_result (find_key env now fp rs)) (\<lambda>owner.
    case owner of None \<Rightarrow> throw ''PEER_NOT_PAIRED'' | Some r \<Rightarrow> andthen (attach (nr_node r) sock) (\<lambda>_. ret ())))))"
  have "keeps_inv (follows env s0) (?find cert)" for cert
  proof (rule keeps_invI)
    fix s assume s: "follows env s0 s"
    have attach: "follows env s0 (snd (attach (nr_node r) sock s))"
      if "find_key env (n_now s) fp (others s) = Inr (Some r)" for fp r
      using find_key_Some[OF that] s others_may_link attach_follows[OF s] by (auto simp: follows_def)
    show "follows env s0 (snd (?find cert s))"
      using s attach by (auto simp: andthen_def lift_result_def gets_def throw_def ret_def split: sum.splits option.splits prod.splits)
        (metis snd_conv)+
  qed
  note [keeps] = this
  show ?thesis unfolding accept_peer_def by (intro keeps)
qed

lemma dialing_trust:
  assumes "trust_ok env s" "r \<in> set (others s)" "nr_node r = node"
  shows "trust_ok env (s\<lparr>n_dialing := mset_key node r (n_dialing s)\<rparr>) \<and>
    pinned env s (s\<lparr>n_dialing := mset_key node r (n_dialing s)\<rparr>)"
proof -
  have "others (s\<lparr>n_dialing := mset_key node r (n_dialing s)\<rparr>) = others s" by (simp add: others_def active_def)
  then show ?thesis using assms others_may_link[OF assms(1,2)]
    by (auto simp: trust_ok_def records_ok_def links_ok_def may_link_def pinned_def update_conv' split: if_splits)
qed

lemma connection_state:
  "snd (connection node s) = s \<or>
   (\<exists>r. r \<in> set (others s) \<and> nr_node r = node \<and> snd (connection node s) = s\<lparr>n_dialing := mset_key node r (n_dialing s)\<rparr>)"
proof (cases "List.find (\<lambda>r. nr_node r = node) (others s)")
  case None
  then show ?thesis
    by (simp add: connection_def andthen_def gets_def require_def ret_def throw_def modify_def split: option.splits)
next
  case (Some r)
  then have "r \<in> set (others s)" "nr_node r = node" by (auto simp: find_Some_iff)
  moreover from Some have "snd (connection node s) = s \<or> snd (connection node s) = s\<lparr>n_dialing := mset_key node r (n_dialing s)\<rparr>"
    by (auto simp: connection_def andthen_def gets_def require_def ret_def throw_def modify_def split: option.splits)
  ultimately show ?thesis by blast
qed

lemma keeps_connection [keeps]: "keeps_inv (follows env s0) (connection node)"
proof (rule keeps_followsI)
  fix s assume ok: "trust_ok env s"
  from connection_state[of node s] show "trust_ok env (snd (connection node s)) \<and> pinned env s (snd (connection node s))"
    using ok dialing_trust[OF ok] by auto
qed

lemma attach_returns: "\<exists>l s1. attach node sock s = (Inr l, s1)"
  by (cases "mget (n_links s) node")
    (auto simp: attach_def andthen_def gets_def ret_def modify_def put_out_def changed_def when_do_def)

lemma dialed_follows:
  assumes s: "follows env s0 s" and r: "mget (n_dialing s) (nr_node r) = Some r"
  shows "follows env s0 (snd (dialed env r raw sock s))"
proof -
  have fail: "follows env s0 (snd (andthen (put_out x) (\<lambda>_. andthen (dial_over n) (\<lambda>_. lift_result (e :: nat result))) s))" for x n e
    by (rule follows_op[OF _ s]) (intro keeps)
  have link: "may_link s (nr_node r)" if "nr_node r \<notin> set (n_removed s)"
  proof -
    from s have "links_ok env s" by (simp add: follows_def trust_ok_def)
    then have "nr_node r \<noteq> n_node s \<and> (\<exists>r'. mget (n_records s) (nr_node r) = Some r' \<and> fp_of env r' = fp_of env r)"
      using r unfolding links_ok_def by blast
    then show ?thesis using that by (auto simp: may_link_def)
  qed
  have attach: "follows env s0 (snd (andthen (attach (nr_node r) sock) (\<lambda>l. andthen (dial_over (nr_node r)) (\<lambda>_. ret l)) s))"
    if "nr_node r \<notin> set (n_removed s)"
  proof -
    have tail: "keeps_inv (follows env s0) (andthen (dial_over (nr_node r)) (\<lambda>_. ret (l::nat)))" for l by (intro keeps)
    obtain l s1 where a: "attach (nr_node r) sock s = (Inr l, s1)" using attach_returns by blast
    then have "follows env s0 s1" using attach_follows[OF s link[OF that], of sock] by simp
    then show ?thesis using keeps_invD[OF tail] a by (simp add: andthen_def)
  qed
  obtain l s1 where a: "attach (nr_node r) sock s = (Inr l, s1)" using attach_returns by blast
  show ?thesis
    using fail attach a
    by (auto simp: dialed_def catch_error_def andthen_def gets_def require_def ret_def throw_def lift_result_def dial_over_def modify_def
        split: option.splits sum.splits)
qed

lemma keeps_handle [keeps]: "keeps_inv (follows env s0) (handle_request env ps node method params)"
  unfolding handle_request_def
  by (intro keeps; simp split: option.splits prod.splits; intro impI allI conjI keeps)

lemma keeps_sync_answer [keeps]: "keeps_inv (follows env s0) (sync_answer env records removed)"
  unfolding sync_answer_def by (intro keeps)

lemma keeps_start [keeps]: "keeps_inv (follows env s0) (start_net env bound)"
proof -
  have [keeps]: "keeps_inv (follows env s0) (modify (\<lambda>s. s\<lparr>n_stopped := a, n_server := b\<rparr>))"
    "keeps_inv (follows env s0) (modify (\<lambda>s. s\<lparr>n_config := c\<rparr>))" for a b c
    by (rule keeps_core, simp add: modify_def core_def)+
  show ?thesis unfolding start_net_def
    by (intro keeps; simp split: option.splits prod.splits; intro impI allI conjI keeps)
qed

lemma keeps_configure [keeps]: "keeps_inv (follows env s0) (configure env config bound again)"
proof -
  have [keeps]: "keeps_inv (follows env s0) (modify (\<lambda>s. s\<lparr>n_stopped := a, n_config := c\<rparr>))"
    "keeps_inv (follows env s0) (modify (\<lambda>s. s\<lparr>n_config := c\<rparr>))"
    "keeps_inv (follows env s0) (modify (\<lambda>s. s\<lparr>n_stored_config := n_config s\<rparr>))" for a c
    by (rule keeps_core, simp add: modify_def core_def)+
  show ?thesis unfolding configure_def by (intro keeps)
qed

lemma keeps_directory [keeps]: "keeps_inv (follows env s0) (directory env)"
  unfolding directory_def by (intro keeps)

section \<open>Every state of the network\<close>

lemma follows_core: "follows env s0 s \<Longrightarrow> core s' = core s \<Longrightarrow> follows env s0 s'"
  by (meson core_pinned core_trust follows_def follows_trans)

lemma dialing_named: "follows env s0 s \<Longrightarrow> mget (n_dialing s) n = Some r \<Longrightarrow> nr_node r = n"
  unfolding follows_def trust_ok_def links_ok_def by blast

lemma step_follows:
  assumes s: "follows env s0 s"
  shows "follows env s0 (net_step env ps e s)"
proof (cases e)
  case (Dialed n raw k)
  show ?thesis
  proof (cases "mget (n_dialing s) n")
    case (Some r)
    with s have "nr_node r = n" by (simp add: dialing_named)
    with Some Dialed show ?thesis using dialed_follows[OF s, of r] by simp
  qed (simp add: Dialed s)
next
  case (Agents as)
  show ?thesis by (rule follows_core[OF s]) (simp add: core_def Agents)
next
  case (Clock t)
  show ?thesis by (rule follows_core[OF s]) (simp add: core_def Clock)
next
  case Tick_over
  show ?thesis by (rule follows_core[OF s]) (simp add: core_def Tick_over tick_over_def modify_def)
qed (simp_all add: s follows_op keeps)

lemma steps_follow:
  assumes "trust_ok env s"
  shows "follows env s (fold (net_step env ps) es s)"
proof -
  have "follows env s0 s \<Longrightarrow> follows env s0 (fold (net_step env ps) es s)" for s0 s
    by (induction es arbitrary: s) (auto intro: step_follows)
  moreover have "follows env s s" using assms by (simp add: follows_def)
  ultimately show ?thesis by blast
qed

lemma new_trust: "trust_ok env (new_pnet node cert rnd)"
  by (simp add: trust_ok_def records_ok_def links_ok_def new_pnet_def others_def active_def)

lemma reached_trust: "trust_ok env (fold (net_step env ps) es (new_pnet node cert rnd))"
  using steps_follow[OF new_trust] by (simp add: follows_def)

text \<open>
  A machine keeps the key it was first trusted with, its revisions only grow, and one
  revision never names two records.
\<close>

theorem keys_pinned:
  assumes "mget (n_records (fold (net_step env ps) before (new_pnet node cert rnd))) n = Some r"
    and "s = fold (net_step env ps) (before @ after) (new_pnet node cert rnd)"
  shows "\<exists>r'. mget (n_records s) n = Some r' \<and>
    ne_fingerprint env (nr_certificate r') = ne_fingerprint env (nr_certificate r) \<and>
    (r' = r \<or> nr_revision r < nr_revision r')"
proof -
  let ?a = "fold (net_step env ps) before (new_pnet node cert rnd)"
  have "follows env ?a s"
    using steps_follow[OF reached_trust[of env ps before node cert rnd]] assms(2) by simp
  then show ?thesis using assms(1) by (simp add: follows_def pinned_def)
qed

text \<open>
  C24 (peers_trusted). However users, paired machines, strangers, failures and the clock act on a peer
  network, every machine it trusts gave a record signed by its own key, no two of them (nor the machine
  itself) share a key, there are at most 32, and every connection belongs to one of them.  Keys are
  pinned: whatever happens next, the record of a machine known now is then still there, under the same
  key, and is either the same record or one of a later revision.
\<close>

theorem peers_trusted:
  "let s = fold (net_step env ps) before (new_pnet node cert rnd); s' = fold (net_step env ps) after s
   in list_all (\<lambda>r. ne_verify env (nr_certificate r) (unsigned r) (nr_signature r) \<and>
         ne_fingerprint env (nr_certificate r) \<noteq> ne_fingerprint env cert) (others s') \<and>
      inj_on (\<lambda>r. ne_fingerprint env (nr_certificate r)) (set (others s')) \<and> length (others s') \<le> 32 \<and>
      set (mkeys (n_links s')) \<subseteq> nr_node ` set (others s') \<and>
      list_all (\<lambda>n. case (mget (n_records s) n, mget (n_records s') n) of
          (Some r, Some r') \<Rightarrow>
            ne_fingerprint env (nr_certificate r') = ne_fingerprint env (nr_certificate r) \<and>
            (r' = r \<or> nr_revision r < nr_revision r')
        | _ \<Rightarrow> False) (mkeys (n_records s))"
proof -
  let ?before = "fold (net_step env ps) before (new_pnet node cert rnd)"
  let ?s = "fold (net_step env ps) after ?before"
  have all: "?s = fold (net_step env ps) (before @ after) (new_pnet node cert rnd)" by simp
  have ok: "trust_ok env ?s" unfolding all by (rule reached_trust)
  have "pinned env (new_pnet node cert rnd) ?s"
    unfolding all using steps_follow[OF new_trust] by (simp only: follows_def)
  then have cert: "n_cert ?s = cert" by (simp add: pinned_def new_pnet_def)
  have "\<exists>r \<in> set (others ?s). nr_node r = n" if "mhas (n_links ?s) n" for n
  proof -
    have n: "n \<noteq> n_node ?s" "n \<notin> set (n_removed ?s)" "mhas (n_records ?s) n"
      using ok that unfolding trust_ok_def links_ok_def by blast+
    then obtain r where r: "mget (n_records ?s) n = Some r" by blast
    have named: "named (n_records ?s)" using ok by (auto simp: trust_ok_def intro: named_records)
    then have "nr_node r = n" using map_of_SomeD[OF r] by (auto simp: named_def)
    then have "r \<in> set (others ?s)" using r n by (simp add: others_pick in_pick[OF named])
    then show ?thesis using \<open>nr_node r = n\<close> by blast
  qed
  then have links: "set (mkeys (n_links ?s)) \<subseteq> nr_node ` set (others ?s)"
    by (metis (no_types, lifting) image_eqI map_of_eq_None_iff set_map subsetI)
  have kept: "\<exists>r'. mget (n_records ?s) n = Some r' \<and>
      ne_fingerprint env (nr_certificate r') = ne_fingerprint env (nr_certificate r) \<and>
      (r' = r \<or> nr_revision r < nr_revision r')" if "mget (n_records ?before) n = Some r" for n r
    using keys_pinned [OF that all] .
  have "case (mget (n_records ?before) n, mget (n_records ?s) n) of
      (Some r, Some r') \<Rightarrow>
        ne_fingerprint env (nr_certificate r') = ne_fingerprint env (nr_certificate r) \<and>
        (r' = r \<or> nr_revision r < nr_revision r')
    | _ \<Rightarrow> False" if "n \<in> set (mkeys (n_records ?before))" for n
  proof -
    obtain r where "mget (n_records ?before) n = Some r"
      using \<open>n \<in> set (mkeys (n_records ?before))\<close> by (auto simp: map_of_eq_None_iff dest: weak_map_of_SomeI)
    then show ?thesis using kept by fastforce
  qed
  then have "list_all (\<lambda>n. case (mget (n_records ?before) n, mget (n_records ?s) n) of
      (Some r, Some r') \<Rightarrow>
        ne_fingerprint env (nr_certificate r') = ne_fingerprint env (nr_certificate r) \<and>
        (r' = r \<or> nr_revision r < nr_revision r')
    | _ \<Rightarrow> False) (mkeys (n_records ?before))" unfolding list_all_iff by blast
  with links ok cert show ?thesis unfolding Let_def trust_ok_def records_ok_def by (simp add: list_all_iff)
qed

text \<open>
  C25 (removal_is_final). A machine that was removed stays out for good: in every later state it has no
  connection, its requests are refused and change nothing, no connection to it is opened, and a record of
  it is not admitted.
\<close>

theorem removal_is_final:
  assumes "n \<in> set (n_removed (fold (net_step env ps) before (new_pnet node cert rnd)))"
    and "s = fold (net_step env ps) (before @ after) (new_pnet node cert rnd)" and "nr_node r = n"
  shows "\<not> mhas (n_links s) n \<and> handle_request env ps n method params s = (Inl (Error ''PEER_REVOKED''), s) \<and>
    (\<exists>e. connection n s = (Inl e, s)) \<and> (\<exists>e. admit env r s = (Inl e, s))"
proof -
  let ?a = "fold (net_step env ps) before (new_pnet node cert rnd)"
  have "follows env ?a s"
    using steps_follow[OF reached_trust[of env ps before node cert rnd]] assms(2) by simp
  then have rm: "n \<in> set (n_removed s)" and ok: "links_ok env s"
    using assms(1) by (auto simp: follows_def pinned_def trust_ok_def)
  have "\<not> mhas (n_links s) n" using ok rm unfolding links_ok_def by blast
  moreover have "handle_request env ps n method params s = (Inl (Error ''PEER_REVOKED''), s)"
    using rm by (simp add: handle_request_def andthen_def gets_def)
  moreover have "\<exists>e. connection n s = (Inl e, s)"
    using rm by (simp add: connection_def andthen_def gets_def require_def)
  moreover have "\<exists>e. check_record env s r = Inl e"
    using rm assms(3) by (cases "check_record env s r") (auto simp: check_record_def Let_def rbind_Inr_iff)
  then have "\<exists>e. admit env r s = (Inl e, s)" by (auto simp: admit_def andthen_def)
  ultimately show ?thesis by blast
qed

section \<open>An expired certificate\<close>

lemma find_key_invalid:
  assumes "q \<in> set rs" "\<not> ne_valid env now (nr_certificate q)"
  shows "find_key env now fp rs \<noteq> Inr None"
  using assms by (auto simp: find_key_None)

text \<open>
  Once the certificate of one paired machine has expired, no new or newer
  record of any other machine is admitted: the search for a second owner of its key throws.
\<close>

theorem expired_certificate_blocks:
  assumes "q \<in> set (active s)" "\<not> ne_valid env (n_now s) (nr_certificate q)"
    and "nr_node r \<noteq> n_node s" "nr_node r \<noteq> nr_node q"
  shows "\<exists>e. admit env r s = (Inl e, s)"
proof -
  have "find_key env (n_now s) fp (List.filter (\<lambda>p. nr_node p \<noteq> nr_node r) (active s)) \<noteq> Inr None" for fp
    by (rule find_key_invalid[of q]) (use assms in auto)
  then have "\<exists>e. check_record env s r = Inl e"
    using assms(3) by (cases "check_record env s r")
      (auto simp: check_record_def check_key_def Let_def rbind_Inr_iff split: if_splits option.splits)
  then show ?thesis by (auto simp: admit_def andthen_def)
qed

text \<open>A network of three machines whose certificates last until 10, 20 and 30.\<close>

definition example_env :: net_env where
  "example_env = \<lparr>ne_valid = (\<lambda>now c. now \<le> (if c = ''a'' then 30 else if c = ''b'' then 10 else 20)),
     ne_fingerprint = (\<lambda>c. c), ne_verify = (\<lambda>c r g. g = ''signed''), ne_sign = (\<lambda>r. ''signed''), ne_size = (\<lambda>r. 100),
     ne_url = (\<lambda>u. Some \<lparr>u_protocol = ''tls:'', u_hostname = u, u_port = ''7000'', u_username = [], u_password = [],
                          u_search = [], u_hash = [], u_pathname = []\<rparr>), ne_url_text = u_hostname\<rparr>"

definition example_record :: "char \<Rightarrow> node_record" where
  "example_record c = \<lparr>nr_node = replicate 32 c, nr_label = [c], nr_address = ''host'', nr_certificate = [c],
     nr_revision = 1, nr_agents = [], nr_signature = ''signed''\<rparr>"

definition example_net :: pnet where
  "example_net = new_pnet (replicate 32 (CHR ''a'')) ''a'' (\<lambda>k. replicate 16 (CHR ''0''))"

lemma example_check:
  "c \<in> {CHR ''b'', CHR ''c''} \<Longrightarrow> check_record example_env example_net (example_record c) = Inr True"
  by (auto simp: check_record_def check_key_def check_def publicKey_def example_env_def example_record_def example_net_def
      new_pnet_def peerRecordSchema_def peerNodeSchema_def peerAddressSchema_def is_hex_def is_digit_def digits_val_def
      digit_val_def is_lower_def active_def Let_def list_all_iff)

definition after_admit :: pnet where
  "after_admit = example_net\<lparr>n_records := [(replicate 32 (CHR ''b''), example_record (CHR ''b''))], n_out := [Changed]\<rparr>"

lemma example_admit: "admit example_env (example_record (CHR ''b'')) example_net = (Inr (), after_admit)"
  using example_check[of "CHR ''b''"]
  by (simp add: admit_def andthen_def modify_def update_trust_def changed_def gets_def when_do_def put_out_def
      start_tick_def tick_def catch_error_def ret_def example_net_def new_pnet_def after_admit_def example_record_def)

lemma expired_certificate_blocks_witness:
  "\<exists>e. admit example_env (example_record (CHR ''c'')) (after_admit\<lparr>n_now := 15\<rparr>) = (Inl e, after_admit\<lparr>n_now := 15\<rparr>)"
  by (rule expired_certificate_blocks[of "example_record (CHR ''b'')"])
    (simp_all add: after_admit_def active_def example_net_def new_pnet_def example_record_def example_env_def)

lemma keys_pinned_witness:
  "\<exists>r'. mget (n_records (fold (net_step example_env (\<lambda>_. None))
        ([Admit (example_record (CHR ''b''))] @ [Remove (replicate 32 (CHR ''b''))])
        (new_pnet (replicate 32 (CHR ''a'')) ''a'' (\<lambda>k. replicate 16 (CHR ''0''))))) (replicate 32 (CHR ''b'')) = Some r' \<and>
     ne_fingerprint example_env (nr_certificate r') = ne_fingerprint example_env (nr_certificate (example_record (CHR ''b''))) \<and>
     (r' = example_record (CHR ''b'') \<or> nr_revision (example_record (CHR ''b'')) < nr_revision r')"
proof (rule keys_pinned[OF _ refl])
  show "mget (n_records (fold (net_step example_env (\<lambda>_. None)) [Admit (example_record (CHR ''b''))]
      (new_pnet (replicate 32 (CHR ''a'')) ''a'' (\<lambda>k. replicate 16 (CHR ''0''))))) (replicate 32 (CHR ''b'')) =
    Some (example_record (CHR ''b''))"
    using example_admit by (simp add: example_net_def after_admit_def)
qed

lemma example_remove:
  "replicate 32 (CHR ''b'') \<in> set (n_removed (fold (net_step example_env (\<lambda>_. None)) [Remove (replicate 32 (CHR ''b''))]
     (new_pnet (replicate 32 (CHR ''a'')) ''a'' (\<lambda>k. replicate 16 (CHR ''0'')))))"
  by (simp add: remove_node_def andthen_def gets_def require_def modify_def update_trust_def changed_def when_do_def put_out_def
      ret_def new_pnet_def peerNodeSchema_def is_hex_def is_digit_def Let_def list_all_iff)

lemma removal_is_final_witness:
  "let s = fold (net_step example_env (\<lambda>_. None)) ([Remove (replicate 32 (CHR ''b''))] @ [])
     (new_pnet (replicate 32 (CHR ''a'')) ''a'' (\<lambda>k. replicate 16 (CHR ''0'')))
   in \<exists>e. admit example_env (example_record (CHR ''b'')) s = (Inl e, s)"
  using removal_is_final[OF example_remove refl, of "example_record (CHR ''b'')" "[]"]
  by (simp add: example_record_def Let_def)

section \<open>Which records reach which machine\<close>

definition batch :: "pnet \<Rightarrow> nat \<Rightarrow> node_record list" where
  "batch s c = (if active s = [] then [] else [active s ! (c mod length (active s))])"

lemma send_sync_state:
  "send_sync r s = (Inr (), s\<lparr>n_cursor := Suc (n_cursor s),
     n_out := n_out s @ [Sync_request (nr_node r) (batch s (n_cursor s)) (n_removed s)]\<rparr>)"
  by (simp add: send_sync_def catalogBatch_def batch_def andthen_def gets_def put_out_def modify_def Let_def active_def)

lemma active_out [simp]: "active (s\<lparr>n_cursor := a, n_out := b\<rparr>) = active s"
  by (simp add: active_def)

lemma batch_out [simp]: "batch (s\<lparr>n_cursor := a, n_out := b\<rparr>) = batch s"
  by (simp add: batch_def fun_eq_iff)

lemma each_send_sync:
  "each send_sync targets s = (Inr (), s\<lparr>n_cursor := n_cursor s + length targets,
     n_out := n_out s @ map (\<lambda>i. Sync_request (nr_node (targets ! i)) (batch s (n_cursor s + i)) (n_removed s)) [0..<length targets]\<rparr>)"
proof (induction targets arbitrary: s)
  case (Cons r rs)
  have "[0..<Suc (length rs)] = 0 # map Suc [0..<length rs]"
    by (simp add: map_Suc_upt upt_conv_Cons del: upt_Suc)
  then show ?case
    by (simp add: send_sync_state[of r s] andthen_def Cons comp_def del: upt_Suc)
qed (simp add: ret_def)

text \<open>The rounds of \<open>tick\<close> to the same machines while nothing else happens, and what a round sends.\<close>

primrec rounds :: "node_record list \<Rightarrow> nat \<Rightarrow> pnet \<Rightarrow> pnet" where
  "rounds targets 0 s = s"
| "rounds targets (Suc t) s = snd (each send_sync targets (rounds targets t s))"

definition sent_in :: "node_record list \<Rightarrow> nat \<Rightarrow> pnet \<Rightarrow> net_output list" where
  "sent_in targets t s = drop (length (n_out (rounds targets t s))) (n_out (rounds targets (Suc t) s))"

lemma rounds_state:
  "n_cursor (rounds targets t s) = n_cursor s + t * length targets \<and> active (rounds targets t s) = active s \<and>
   n_removed (rounds targets t s) = n_removed s"
  by (induction t) (simp_all add: each_send_sync)

lemma sent_in_round:
  "sent_in targets t s = map (\<lambda>i. Sync_request (nr_node (targets ! i))
     (batch s (n_cursor s + t * length targets + i)) (n_removed s)) [0..<length targets]"
  using rounds_state[of targets t s] by (simp add: sent_in_def each_send_sync batch_def)

lemma reaches_iff_coprime:
  fixes a k n :: nat
  assumes "0 < n"
  shows "(\<forall>j < n. \<exists>t. (a + t * k) mod n = j) \<longleftrightarrow> coprime k n"
proof
  assume all: "\<forall>j < n. \<exists>t. (a + t * k) mod n = j"
  have "(a + 1) mod n < n" using assms by simp
  with all obtain t where "(a + t * k) mod n = (a + 1) mod n" by blast
  then have "int n dvd int (a + t * k) - int (a + 1)" by (metis mod_eq_dvd_iff of_nat_mod)
  then have dvd: "int n dvd int (t * k) - 1" by simp
  show "coprime k n"
  proof (rule coprimeI)
    fix d assume "d dvd k" "d dvd n"
    then have "int d dvd int (t * k)" "int d dvd int (t * k) - 1" using dvd by (auto intro: dvd_trans)
    then have "int d dvd int (t * k) - (int (t * k) - 1)" by (rule dvd_diff)
    then show "is_unit d" by simp
  qed
next
  assume co: "coprime k n"
  show "\<forall>j < n. \<exists>t. (a + t * k) mod n = j"
  proof (intro allI impI)
    fix j assume j: "j < n"
    show "\<exists>t. (a + t * k) mod n = j"
    proof (cases "k = 0")
      case True
      with co assms j show ?thesis by simp
    next
      case False
      then obtain x y where "k * x = n * y + gcd k n" using bezout_nat by blast
      then have xy: "k * x = n * y + 1" using co by simp
      obtain d where d: "d = j + (n - a mod n)" by blast
      have "a + (x * d) * k = a + (k * x) * d" by (simp add: algebra_simps)
      also have "\<dots> = (a + d) + n * (y * d)" by (simp add: xy algebra_simps)
      finally have "(a + (x * d) * k) mod n = ((a + d) + n * (y * d)) mod n" by (simp only:)
      also have "\<dots> = (a + d) mod n" by (rule mod_mult_self2)
      also have "\<dots> = (a mod n + d) mod n" by (simp add: mod_add_left_eq)
      also have "a mod n + d = j + n" using mod_less_divisor[OF assms, of a] by (simp add: d)
      finally show ?thesis using j by auto
    qed
  qed
qed

text \<open>
  One cursor serves all machines.  A machine that is asked in every round
  receives every record, whatever its place in the round, exactly when the number of machines asked in a
  round and the number of records have no common divisor; otherwise some record never reaches it.
\<close>

theorem records_reach_coprime:
  assumes "i < length targets" and "distinct (map nr_node targets)" and "distinct (active s)" and "active s \<noteq> []"
  shows "(\<forall>r \<in> set (active s). \<exists>t. Sync_request (nr_node (targets ! i)) [r] (n_removed s) \<in> set (sent_in targets t s)) \<longleftrightarrow>
    coprime (length targets) (length (active s))"
proof -
  let ?n = "length (active s)" and ?k = "length targets"
  have n: "0 < ?n" using assms(4) by simp
  have sent: "Sync_request (nr_node (targets ! i)) [active s ! j] (n_removed s) \<in> set (sent_in targets t s) \<longleftrightarrow>
      ((n_cursor s + i) + t * ?k) mod ?n = j" if "j < ?n" for j t
  proof -
    have "i' = i" if "nr_node (targets ! i) = nr_node (targets ! i')" "i' < ?k" for i'
      using assms(1,2) that by (metis length_map nth_eq_iff_index_eq nth_map)
    then have "Sync_request (nr_node (targets ! i)) [active s ! j] (n_removed s) \<in> set (sent_in targets t s) \<longleftrightarrow>
        active s ! j = active s ! ((n_cursor s + t * ?k + i) mod ?n)"
      using assms(1,4) by (auto simp: sent_in_round batch_def)
    also have "\<dots> \<longleftrightarrow> j = (n_cursor s + t * ?k + i) mod ?n"
      using assms(3) that n by (simp add: nth_eq_iff_index_eq)
    finally show ?thesis by (auto simp: ac_simps)
  qed
  have "(\<forall>r \<in> set (active s). \<exists>t. Sync_request (nr_node (targets ! i)) [r] (n_removed s) \<in> set (sent_in targets t s)) \<longleftrightarrow>
      (\<forall>j < ?n. \<exists>t. ((n_cursor s + i) + t * ?k) mod ?n = j)"
    using sent by (auto simp: in_set_conv_nth all_set_conv_all_nth)
  then show ?thesis using reaches_iff_coprime[OF n] by simp
qed

text \<open>Two of three other machines are asked, and there are four records: half of them reach each of the two.\<close>

definition four_records :: pnet where
  "four_records = example_net\<lparr>n_records :=
     map (\<lambda>c. (replicate 32 c, example_record c)) [CHR ''a'', CHR ''b'', CHR ''c'', CHR ''d'']\<rparr>"

lemma records_reach_coprime_witness:
  "\<not> (\<forall>r \<in> set (active four_records). \<exists>t.
       Sync_request (nr_node ([example_record (CHR ''b''), example_record (CHR ''c'')] ! 0)) [r] (n_removed four_records)
         \<in> set (sent_in [example_record (CHR ''b''), example_record (CHR ''c'')] t four_records))"
proof -
  have "length (active four_records) = 4" "distinct (active four_records)" "active four_records \<noteq> []"
    by (simp_all add: four_records_def active_def example_net_def new_pnet_def example_record_def)
  moreover have "\<not> coprime (Suc (Suc 0)) (4::nat)" by code_simp
  ultimately show ?thesis
    using records_reach_coprime[of 0 "[example_record (CHR ''b''), example_record (CHR ''c'')]" four_records]
    by (simp add: example_record_def)
qed

section \<open>An agent called constructor\<close>

lemma catalog_constructor:
  assumes "a \<in> set as" "la_id a = ''constructor''" "mget (n_generations s) ''constructor'' = None"
  shows "\<exists>s'. catalog as s = (Inl (Error ''ZodError''), s')"
  using assms
proof (induction as arbitrary: s)
  case (Cons b bs)
  show ?case
  proof (cases "\<exists>e. fst (generation_of (la_id b) s) = Inl e")
    case True
    then show ?thesis by (auto simp: andthen_def generation_of_def split: option.splits if_splits)
  next
    case False
    then have "la_id b \<noteq> ''constructor''" using Cons.prems(3) by (auto simp: generation_of_def)
    with Cons.prems have "a \<in> set bs" by auto
    obtain g s1 where g: "generation_of (la_id b) s = (Inr g, s1)" "n_generations s1 = n_generations s"
      using False by (auto simp: generation_of_def split: option.splits if_splits)
    with Cons.IH[OF \<open>a \<in> set bs\<close>, of s1] Cons.prems obtain s' where "catalog bs s1 = (Inl (Error ''ZodError''), s')" by auto
    with g show ?thesis by (simp add: andthen_def)
  qed
qed simp

text \<open>
  While an agent called \<open>constructor\<close> exists, this machine cannot
  publish its record: \<open>identity\<close> throws, so the network cannot be configured, requests of other machines
  fail after their records were taken, and the next round throws out of \<open>tick\<close>, which nothing catches.
\<close>

theorem agent_constructor_stops_network:
  assumes "n_config s = Some c" and "a \<in> set (listed_agents (n_agents s))" and "la_id a = ''constructor''"
    and "mget (n_generations s) ''constructor'' = None"
  shows "fst (identity env s) = Inl (Error ''ZodError'') \<and>
    (\<not> n_stopped s \<longrightarrow> \<not> n_ticking s \<longrightarrow> fst (tick env s) = Inl (Error ''ZodError''))"
proof -
  have id: "fst (identity env u) = Inl (Error ''ZodError'')"
    if "n_config u = n_config s" "n_agents u = n_agents s" "n_generations u = n_generations s" for u
    using catalog_constructor[of a "listed_agents (n_agents u)" u] assms that
    by (auto simp: identity_def andthen_def gets_def)
  obtain s1 where s1: "identity env (s\<lparr>n_ticking := True\<rparr>) = (Inl (Error ''ZodError''), s1)"
    using id[of "s\<lparr>n_ticking := True\<rparr>"] by (cases "identity env (s\<lparr>n_ticking := True\<rparr>)") simp
  then have "fst (tick env s) = Inl (Error ''ZodError'')" if "\<not> n_stopped s" "\<not> n_ticking s"
    using that assms(1)
    by (auto simp: tick_def andthen_def gets_def modify_def catch_error_def lift_result_def split: prod.splits sum.splits)
  then show ?thesis using id[of s] by simp
qed

lemma agent_constructor_stops_network_witness:
  "fst (identity example_env (example_net\<lparr>
      n_config := Some \<lparr>nc_label = ''mac'', nc_listen = ''0.0.0.0'', nc_port = 7000, nc_address = ''host''\<rparr>,
      n_agents := [\<lparr>la_id = ''constructor'', la_name = ''Constructor'', la_description = None, la_runtime = Some ''codex'',
        la_connectors = [], la_skills = None, la_error = None, la_execution = None\<rparr>]\<rparr>)) = Inl (Error ''ZodError'')"
  using agent_constructor_stops_network[of "example_net\<lparr>
      n_config := Some \<lparr>nc_label = ''mac'', nc_listen = ''0.0.0.0'', nc_port = 7000, nc_address = ''host''\<rparr>,
      n_agents := [\<lparr>la_id = ''constructor'', la_name = ''Constructor'', la_description = None, la_runtime = Some ''codex'',
        la_connectors = [], la_skills = None, la_error = None, la_execution = None\<rparr>]\<rparr>"]
  by (simp add: listed_agents_def example_net_def new_pnet_def)

end
