(* ===== verification/Settings.thy ===== *)
theory Settings
  imports Loader
begin

text \<open>
  \<^verbatim>\<open>packages/daemon/src/settings.ts\<close> and the checks of \<^verbatim>\<open>inventory.ts\<close>: changes of an
  agent's file, shown as a diff, checked against what exists, and written only when the file is still the
  one that was reviewed.

  \<open>patchAgentYaml\<close> edits the text through the YAML package's document and is the parameter
  \<open>ed_patch\<close>; so are the digest of a text and whether a path names a real directory under
  \<^verbatim>\<open>~/AnchiWorkspaces\<close>.  Files are those of the layout; writing one replaces its text.
\<close>

section \<open>Patches\<close>

record agent_patch =
  pt_name :: "string option"
  pt_description :: "string option"
  pt_runtime :: "string option"
  pt_model :: "string option"
  pt_effort :: "string option"
  pt_prompt :: "(string option \<times> string option) option"
  pt_skills :: "string list option"
  pt_delegates :: "string list option"
  pt_connectors :: "string list option"
  pt_workspaces :: "workspace list option"
  pt_highRisk :: "string list option"
  pt_egress :: "string list option"

definition no_patch :: agent_patch where
  "no_patch = \<lparr>pt_name = None, pt_description = None, pt_runtime = None, pt_model = None, pt_effort = None,
     pt_prompt = None, pt_skills = None, pt_delegates = None, pt_connectors = None, pt_workspaces = None,
     pt_highRisk = None, pt_egress = None\<rparr>"

definition PATCH_FIELDS :: "string list" where
  "PATCH_FIELDS = [''name'', ''description'', ''runtime'', ''model'', ''effort'', ''prompt'', ''skills'',
     ''delegates'', ''connectors'', ''workspaces'', ''highRisk'']"

definition patch_prompt :: "(string option \<times> string option) parser" where
  "patch_prompt j = do {
     kvs \<leftarrow> strictObject [''mode'', ''text''] j;
     mode \<leftarrow> optional kvs ''mode'' (p_enum [''replace'', ''append'']);
     txt \<leftarrow> optional kvs ''text'' (str_max 100000);
     Some (mode, txt) }"

definition patch_highRisk :: "string list parser" where
  "patch_highRisk j = do {
     kvs \<leftarrow> strictObject [''disable''] j;
     needed kvs ''disable'' (array_max 30 (p_enum HIGH_RISK_IDS)) }"

definition patchSchema :: "agent_patch parser" where
  "patchSchema j = do {
     kvs \<leftarrow> strictObject PATCH_FIELDS j;
     name \<leftarrow> optional kvs ''name'' (str_max 100);
     description \<leftarrow> optional kvs ''description'' (str_max 500);
     runtime \<leftarrow> optional kvs ''runtime'' (p_enum RUNTIMES);
     model \<leftarrow> optional kvs ''model'' (str_where (\<lambda>s. MODEL_ID s \<or> s = []));
     effort \<leftarrow> optional kvs ''effort'' (p_enum [''low'', ''medium'', ''high'', ''xhigh'', []]);
     prompt \<leftarrow> optional kvs ''prompt'' patch_prompt;
     skills \<leftarrow> optional kvs ''skills'' (array_max 200 (str_where idSchema));
     delegates \<leftarrow> optional kvs ''delegates'' (array_max 50 (str_where delegateRefSchema));
     connectors \<leftarrow> optional kvs ''connectors''
       (array_max (length (PROXY_CONNECTORS @ SERVICE_CONNECTORS)) connectorSchema);
     workspaces \<leftarrow> optional kvs ''workspaces'' (array_max 10 workspaceSchema);
     highRisk \<leftarrow> optional kvs ''highRisk'' patch_highRisk;
     Some \<lparr>pt_name = name, pt_description = description, pt_runtime = runtime, pt_model = model,
       pt_effort = effort, pt_prompt = prompt, pt_skills = skills, pt_delegates = delegates,
       pt_connectors = connectors, pt_workspaces = workspaces, pt_highRisk = highRisk, pt_egress = None\<rparr> }"

definition unique_entries :: "'a list option \<Rightarrow> bool" where
  "unique_entries l \<longleftrightarrow> (case l of None \<Rightarrow> True | Some xs \<Rightarrow> distinct xs)"

definition parsePatch :: "json \<Rightarrow> agent_patch result" where
  "parsePatch raw =
     (case patchSchema raw of
        None \<Rightarrow> Inl (Error ''invalid settings'')
      | Some p \<Rightarrow>
          if unique_entries (pt_skills p) \<and> unique_entries (pt_delegates p) \<and> unique_entries (pt_connectors p) \<and>
             unique_entries (map_option (map ws_path) (pt_workspaces p)) \<and> unique_entries (pt_highRisk p)
          then Inr p else Inl (Error ''invalid settings: an entry appears twice''))"

text \<open>\<open>Object.keys(patch)\<close>.\<close>

definition patch_keys :: "agent_patch \<Rightarrow> string list" where
  "patch_keys p =
     map fst (List.filter snd
       [(''name'', pt_name p \<noteq> None), (''description'', pt_description p \<noteq> None), (''runtime'', pt_runtime p \<noteq> None),
        (''model'', pt_model p \<noteq> None), (''effort'', pt_effort p \<noteq> None), (''prompt'', pt_prompt p \<noteq> None),
        (''skills'', pt_skills p \<noteq> None), (''delegates'', pt_delegates p \<noteq> None),
        (''connectors'', pt_connectors p \<noteq> None), (''workspaces'', pt_workspaces p \<noteq> None),
        (''highRisk'', pt_highRisk p \<noteq> None), (''egress'', pt_egress p \<noteq> None)])"

section \<open>References (\<^verbatim>\<open>inventory.ts\<close>)\<close>

record connector_info =
  ci_id :: string
  ci_connected :: "bool option"
  ci_accounts :: "string list option"

record reference_inventory =
  iv_skills :: "string list"
  iv_connectors :: "connector_info list"
  iv_agents :: "string list"
  iv_runtimes :: "(string \<times> bool option) list option"
  iv_servers :: "string list option"

definition qt :: "string \<Rightarrow> string" where
  "qt s = [CHR 0x22] @ s @ [CHR 0x22]"

definition not_an_agent :: "string \<Rightarrow> string list \<Rightarrow> string list \<Rightarrow> string list" where
  "not_an_agent self agents ds =
     map (\<lambda>d. ''delegate '' @ qt d @ '' is not an agent'') (List.filter (\<lambda>d. d \<noteq> self \<and> d \<notin> set agents) ds)"

definition find_connector :: "reference_inventory \<Rightarrow> string \<Rightarrow> connector_info option" where
  "find_connector iv c = List.find (\<lambda>k. ci_id k = c) (iv_connectors iv)"

text \<open>\<open>new Map(connectors)\<close>: of entries with the same id the last one counts.\<close>

definition connector_state :: "reference_inventory \<Rightarrow> string \<Rightarrow> bool option" where
  "connector_state iv c =
     Option.bind (map_of (rev (map (\<lambda>k. (ci_id k, ci_connected k)) (iv_connectors iv))) c) id"

definition account_warnings :: "reference_inventory \<Rightarrow> (string \<times> string) list \<Rightarrow> string list" where
  "account_warnings iv accounts =
     List.map_filter (\<lambda>(service, name).
       let entry = find_connector iv service;
           connected = (case entry of Some e \<Rightarrow> ci_connected e \<noteq> None | None \<Rightarrow> True)
       in case Option.bind entry ci_accounts of
            Some as \<Rightarrow> if name \<noteq> [] \<and> connected \<and> name \<notin> set as
                       then Some (service @ '' account '' @ qt name @ '' is not connected yet'') else None
          | None \<Rightarrow> None) accounts"

definition execution_notice :: "execution \<Rightarrow> string" where
  "execution_notice e =
     ''Runs as @'' @ ex_agent e @ '' on '' @ ex_server e @ '', using that node'' @ [CHR 0x27] @
     ''s runtime, credentials, skills, workspaces and security policy. Local runtime and access settings do not apply.''"

definition checkReferences :: "resolved_agent \<Rightarrow> reference_inventory \<Rightarrow> (string \<Rightarrow> bool) \<Rightarrow> string list \<times> string list" where
  "checkReferences a iv workspaceExists =
     (case ra_execution a of
        Some e \<Rightarrow>
          ((case iv_servers iv of
              Some ss \<Rightarrow> if ex_server e \<in> set ss then [] else [''server '' @ qt (ex_server e) @ '' is not saved'']
            | None \<Rightarrow> []) @
           not_an_agent (ra_id a) (iv_agents iv) (ra_delegates a),
           [execution_notice e])
      | None \<Rightarrow>
          (map (\<lambda>s. ''skill '' @ qt s @ '' is not installed'') (List.filter (\<lambda>s. s \<notin> set (iv_skills iv)) (ra_skills a)) @
           not_an_agent (ra_id a) (iv_agents iv) (ra_delegates a) @
           map (\<lambda>w. ''workspace '' @ qt (ws_path w) @ '' is not a directory under ~/AnchiWorkspaces'')
             (List.filter (\<lambda>w. \<not> workspaceExists (ws_path w)) (ra_workspaces a)),
           map (\<lambda>c. c @ '' is not connected yet'') (List.filter (\<lambda>c. connector_state iv c = Some False) (ra_connectors a)) @
           account_warnings iv (ra_accounts a) @
           (case iv_runtimes iv of
              None \<Rightarrow> []
            | Some rs \<Rightarrow>
                (case List.find (\<lambda>r. fst r = ra_runtime a) rs of
                   Some (r, Some False) \<Rightarrow> [''runtime '' @ r @ '' is not connected yet'']
                 | _ \<Rightarrow> []))))"

section \<open>Diffs\<close>

text \<open>
  The table of the longest common subsequences, filled from its last row up, each row from its end; row
  \<open>i\<close> belongs to what is left of \<open>a\<close> from line \<open>i\<close> on.
\<close>

fun lcs_row :: "string \<Rightarrow> string list \<Rightarrow> nat list \<Rightarrow> nat list" where
  "lcs_row x [] below = [0]"
| "lcs_row x (y # ys) below =
     (let right = lcs_row x ys (tl below)
      in (if x = y then below ! 1 + 1 else max (below ! 0) (right ! 0)) # right)"

fun lcs_table :: "string list \<Rightarrow> string list \<Rightarrow> nat list list" where
  "lcs_table [] b = [replicate (length b + 1) 0]"
| "lcs_table (x # xs) b = (let rows = lcs_table xs b in lcs_row x b (hd rows) # rows)"

datatype diff_line = Kept string | Added string | Removed string

fun diff_text :: "diff_line \<Rightarrow> string" where
  "diff_text (Kept l) = ''  '' @ l"
| "diff_text (Added l) = ''+ '' @ l"
| "diff_text (Removed l) = ''- '' @ l"

function diff_walk :: "nat list list \<Rightarrow> string list \<Rightarrow> string list \<Rightarrow> nat \<Rightarrow> nat \<Rightarrow> diff_line list" where
  "diff_walk lcs a b i j =
     (if i < length a \<or> j < length b
      then if i < length a \<and> j < length b \<and> a ! i = b ! j then Kept (a ! i) # diff_walk lcs a b (i + 1) (j + 1)
           else if j < length b \<and> (length a \<le> i \<or> lcs ! i ! (j + 1) > lcs ! (i + 1) ! j)
           then Added (b ! j) # diff_walk lcs a b i (j + 1)
           else Removed (a ! i) # diff_walk lcs a b (i + 1) j
      else [])"
  by pat_completeness auto
termination
  by (relation "measure (\<lambda>(lcs, a, b, i, j). (length a - i) + (length b - j))") auto

declare diff_walk.simps [simp del]

definition diff_lines :: "string list \<Rightarrow> string list \<Rightarrow> diff_line list" where
  "diff_lines a b = diff_walk (lcs_table a b) a b 0 0"

text \<open>\<open>replace(/\n$/, '')\<close>.\<close>

definition drop_last_newline :: "string \<Rightarrow> string" where
  "drop_last_newline t = (if t \<noteq> [] \<and> last t = CHR 0x0A then butlast t else t)"

definition text_lines :: "string \<Rightarrow> string list" where
  "text_lines t = split_on (CHR 0x0A) (drop_last_newline t)"

definition lineDiff :: "string \<Rightarrow> string \<Rightarrow> string" where
  "lineDiff before after =
     (if before = after then []
      else join [CHR 0x0A] (map diff_text
        (diff_lines (if before = [] then [] else text_lines before) (text_lines after))))"

section \<open>Changing an agent's file\<close>

record edit_env =
  ed_patch :: "string \<Rightarrow> agent_patch \<Rightarrow> string result"
  ed_digest :: "string \<Rightarrow> string"
  ed_workspace :: "string \<Rightarrow> bool"

record agent_update =
  au_diff :: string
  au_errors :: "string list"
  au_warnings :: "string list"
  au_base :: string
  au_applied :: bool

type_synonym 'a file_op = "(layout, 'a) op"

definition read_file :: "string \<Rightarrow> string file_op" where
  "read_file f = (\<lambda>ly. (readFile ly f, ly))"

definition replaceFile :: "string \<Rightarrow> string \<Rightarrow> unit file_op" where
  "replaceFile f t = modify (\<lambda>ly. ly\<lparr>ly_files := mset_key f t (ly_files ly)\<rparr>)"

definition fixed_by_node :: string where
  "fixed_by_node =
     ''Runtime, prompt and access settings belong to the execution node. Edit that node'' @ [CHR 0xE2, CHR 0x80, CHR 0x99] @
     ''s agent profile.''"

text \<open>
  What the changed agent is: the errors that block the change and the warnings.  \<open>before\<close> are the
  exemptions the agent had; a file that does not load had none.
\<close>

definition review :: "edit_env \<Rightarrow> reference_inventory option \<Rightarrow> layout \<Rightarrow> string \<Rightarrow> agent_patch \<Rightarrow> string \<Rightarrow>
    string list \<times> string list" where
  "review env iv ly i patch next_text =
     (let before = (case resolveAgent ly i None of Inr a \<Rightarrow> ra_highRisk a | Inl _ \<Rightarrow> [])
      in case resolveAgent ly i (Some next_text) of
           Inl e \<Rightarrow> ([js_trim (message e)], [])
         | Inr agent \<Rightarrow>
             (let blocked = (if ra_execution agent \<noteq> None \<and>
                   \<not> set (patch_keys patch) \<subseteq> {''name'', ''description'', ''delegates''}
                 then [fixed_by_node] else []);
                  added = List.filter (\<lambda>h. h \<notin> set before) (ra_highRisk agent);
                  risky = (if added \<noteq> []
                    then [''@'' @ i @ '' does '' @ join '', '' added @ '' without asking you (highRisk)''] else []);
                  found = (case iv of Some v \<Rightarrow> checkReferences agent v (ed_workspace env) | None \<Rightarrow> ([], []))
              in (blocked @ fst found, risky @ snd found)))"

definition updateAgentFile :: "edit_env \<Rightarrow> reference_inventory option \<Rightarrow> string \<Rightarrow> agent_patch \<Rightarrow> bool \<Rightarrow> string option \<Rightarrow>
    agent_update file_op" where
  "updateAgentFile env iv i patch apply_it reviewed =
     (\<lambda>ly.
        let file = agentFile ly i
        in if \<not> existsFile ly file
           then (Inl (Error (''agent '' @ qt i @ '' has no file in '' @ ly_agentsDir ly)), ly)
           else case readFile ly file of
             Inl e \<Rightarrow> (Inl e, ly)
           | Inr txt0 \<Rightarrow>
               (case ed_patch env txt0 patch of
                  Inl e \<Rightarrow> (Inl e, ly)
                | Inr next_text \<Rightarrow>
                    (let (errors, warnings) = review env iv ly i patch next_text;
                         base = ed_digest env txt0;
                         result = \<lparr>au_diff = lineDiff txt0 next_text, au_errors = errors, au_warnings = warnings,
                                   au_base = base, au_applied = False\<rparr>
                     in if \<not> apply_it then (Inr result, ly)
                        else if reviewed \<noteq> Some base
                        then (Inl (Error (file @ '' changed since you reviewed it; review again'')), ly)
                        else if errors \<noteq> [] then (Inl (Error (''cannot save: '' @ join ''; '' errors)), ly)
                        else (Inr (result\<lparr>au_applied := True\<rparr>),
                              if next_text \<noteq> txt0 then snd (replaceFile file next_text ly) else ly))))"

text \<open>One exact host: at least two labels of letters, digits and \<open>-\<close>.\<close>

definition host_label :: "string \<Rightarrow> bool" where
  "host_label l \<longleftrightarrow> 1 \<le> length l \<and> length l \<le> 63 \<and> list_all is_slug_char l"

definition HOST :: "string \<Rightarrow> bool" where
  "HOST h \<longleftrightarrow> 2 \<le> length (split_on (CHR ''.'') h) \<and> list_all host_label (split_on (CHR ''.'') h)"

definition host_name :: "string \<Rightarrow> string" where
  "host_name host =
     (let h = map to_lower (js_trim host)
      in if h \<noteq> [] \<and> last h = CHR ''.'' then butlast h else h)"

definition ends_in :: "string \<Rightarrow> string \<Rightarrow> bool" where
  "ends_in p s \<longleftrightarrow> starts_with (rev p) (rev s)"

definition covers :: "string \<Rightarrow> string \<Rightarrow> bool" where
  "covers h p \<longleftrightarrow> p = h \<or> starts_with ''*.'' p \<and> ends_in (tl p) h"

definition allowEgressHost :: "edit_env \<Rightarrow> reference_inventory \<Rightarrow> string \<Rightarrow> string \<Rightarrow> string list file_op" where
  "allowEgressHost env iv i host =
     (let h = host_name host
      in andthen (require (HOST h \<and> length h \<le> 253)
           ''give one host name, such as registry.npmjs.org; wildcards are not added here'') (\<lambda>_.
         andthen (\<lambda>ly. (resolveAgent ly i None, ly)) (\<lambda>agent.
         case ra_egress agent of
           None \<Rightarrow> throw (''@'' @ i @ '' has no egress list: it reaches any public host already'')
         | Some egress \<Rightarrow>
             andthen (require (\<not> list_ex (covers h) egress)
               (h @ '' is already in @'' @ i @ [CHR 0x27] @ ''s egress list'')) (\<lambda>_.
             let patch = no_patch\<lparr>pt_egress := Some (egress @ [h])\<rparr>
             in andthen (updateAgentFile env (Some iv) i patch False None) (\<lambda>preview.
                andthen (updateAgentFile env (Some iv) i patch True (Some (au_base preview))) (\<lambda>_.
                ret (egress @ [h])))))))"

section \<open>Delegates in files\<close>

text \<open>What one file lists itself; a file that does not parse lists none.\<close>

definition delegatesIn :: "layout \<Rightarrow> string \<Rightarrow> string list" where
  "delegatesIn ly file =
     (case rbind (readFile ly file) (\<lambda>t. parseYamlAs ly t agentLayerSchema []) of
        Inl _ \<Rightarrow> []
      | Inr layer \<Rightarrow>
          (case Option.bind (map_of layer ''delegates'') (p_array p_string) of Some ds \<Rightarrow> ds | None \<Rightarrow> []))"

definition delegatorsOf :: "layout \<Rightarrow> string \<Rightarrow> string list" where
  "delegatorsOf ly i =
     List.filter (\<lambda>other. other \<noteq> i \<and> i \<in> set (delegatesIn ly (agentFile ly other))) (listAgentIds ly)"

definition remove_from :: "edit_env \<Rightarrow> string \<Rightarrow> string \<Rightarrow> unit file_op" where
  "remove_from env file i =
     (\<lambda>ly. case rbind (readFile ly file) (\<lambda>t.
              ed_patch env t (no_patch\<lparr>pt_delegates := Some (List.filter (\<lambda>d. d \<noteq> i) (delegatesIn ly file))\<rparr>)) of
            Inl e \<Rightarrow> (Inl e, ly)
          | Inr next_text \<Rightarrow> replaceFile file next_text ly)"

definition removeDelegate :: "edit_env \<Rightarrow> string \<Rightarrow> string \<Rightarrow> unit file_op" where
  "removeDelegate env other i = (\<lambda>ly. remove_from env (agentFile ly other) i ly)"

definition template_stem :: "string \<Rightarrow> string option" where
  "template_stem f =
     (if ends_in ''.yaml'' f then Some (take (length f - 5) f)
      else if ends_in ''.yml'' f then Some (take (length f - 4) f) else None)"

definition templateIds :: "layout \<Rightarrow> string list" where
  "templateIds ly =
     sort (List.map_filter (\<lambda>path. if path_dirname path = ly_templatesDir ly
         then template_stem (drop (length (ly_templatesDir ly) + 1) path) else None) (mkeys (ly_files ly)))"

definition templateFile :: "layout \<Rightarrow> string \<Rightarrow> string" where
  "templateFile ly i =
     (let yml = join_path (ly_templatesDir ly) (i @ ''.yml'')
      in if existsFile ly yml then yml else join_path (ly_templatesDir ly) (i @ ''.yaml''))"

definition templateDelegatorsOf :: "layout \<Rightarrow> string \<Rightarrow> string list" where
  "templateDelegatorsOf ly i =
     List.filter (\<lambda>t. i \<in> set (delegatesIn ly (templateFile ly t))) (templateIds ly)"

definition removeTemplateDelegate :: "edit_env \<Rightarrow> string \<Rightarrow> string \<Rightarrow> unit file_op" where
  "removeTemplateDelegate env template i = (\<lambda>ly. remove_from env (templateFile ly template) i ly)"

end
