(* ===== verification/Builder.thy ===== *)
theory Builder
  imports Settings
begin

text \<open>
  \<^verbatim>\<open>packages/daemon/src/builder.ts\<close>: proposals of the builder agent.  Its output holds blocks of
  YAML; a proposal is checked, shown to the user as a diff, and written only when the user applies it.
  \<open>proposals\<close> is the state of the class \<open>Proposals\<close> with the files it writes to; the messages that
  the schemas give for a wrong value are not modelled.  A proposal's patch is a value of the patch schema
  already, so \<open>parsePatch\<close> of it, which the code repeats, is not repeated here.
\<close>

section \<open>Blocks\<close>

record block_text =
  bk_id :: string
  bk_yaml :: string

record parsed_blocks =
  pb_agent :: "block_text option"
  pb_patch :: "block_text option"
  pb_image :: "block_text option"

definition no_blocks :: parsed_blocks where
  "no_blocks = \<lparr>pb_agent = None, pb_patch = None, pb_image = None\<rparr>"

datatype block_kind = Agent_patch_block | Agent_block | Image_block

definition FENCE :: string where "FENCE = replicate 3 (CHR 0x60)"

fun take_slug :: "nat \<Rightarrow> string \<Rightarrow> string" where
  "take_slug 0 s = []"
| "take_slug (Suc n) [] = []"
| "take_slug (Suc n) (c # cs) = (if is_slug_char c then c # take_slug n cs else [])"

definition strip :: "string \<Rightarrow> string \<Rightarrow> string option" where
  "strip p s = (if starts_with p s then Some (drop (length p) s) else None)"

text \<open>What the header's regular expression matches at the start of a text: kind, id and the rest.\<close>

definition header_id :: "block_kind \<Rightarrow> string \<Rightarrow> (block_kind \<times> string \<times> string) option" where
  "header_id kind s =
     (case strip '' id='' s of
        None \<Rightarrow> None
      | Some t \<Rightarrow>
          (let i = take_slug 40 t;
               rest = dropWhile (\<lambda>c. c = CHR '' '' \<or> c = CHR 0x09) (drop (length i) t)
           in if i \<noteq> [] \<and> hd i \<noteq> CHR ''-'' \<and> rest \<noteq> [] \<and> hd rest = CHR 0x0A then Some (kind, i, tl rest) else None))"

definition match_header :: "string \<Rightarrow> (block_kind \<times> string \<times> string) option" where
  "match_header s =
     (case strip (FENCE @ ''anchi-'') s of
        None \<Rightarrow> None
      | Some t \<Rightarrow>
          (case Option.bind (strip ''agent-patch'' t) (header_id Agent_patch_block) of
             Some m \<Rightarrow> Some m
           | None \<Rightarrow>
               (case Option.bind (strip ''agent'' t) (header_id Agent_block) of
                  Some m \<Rightarrow> Some m
                | None \<Rightarrow> Option.bind (strip ''image'' t) (header_id Image_block))))"

fun index_of :: "string \<Rightarrow> string \<Rightarrow> nat option" where
  "index_of p [] = (if p = [] then Some 0 else None)"
| "index_of p (c # cs) = (if starts_with p (c # cs) then Some 0 else map_option Suc (index_of p cs))"

definition trim_end :: "string \<Rightarrow> string" where
  "trim_end s = rev (dropWhile is_space (rev s))"

definition put_block :: "block_kind \<Rightarrow> block_text \<Rightarrow> parsed_blocks \<Rightarrow> parsed_blocks" where
  "put_block kind b out =
     (case kind of
        Image_block \<Rightarrow> out\<lparr>pb_image := Some b\<rparr>
      | Agent_block \<Rightarrow> out\<lparr>pb_agent := Some b, pb_patch := None\<rparr>
      | Agent_patch_block \<Rightarrow> out\<lparr>pb_agent := None, pb_patch := Some b\<rparr>)"

lemma strip_length: "strip p s = Some t \<Longrightarrow> length t \<le> length s"
  by (auto simp: strip_def split: if_splits)

lemma header_shorter: "header_id k s = Some (kind, i, rest) \<Longrightarrow> length rest < length s"
proof -
  assume h: "header_id k s = Some (kind, i, rest)"
  then obtain t where t: "strip '' id='' s = Some t" by (auto simp: header_id_def split: option.splits)
  let ?d = "dropWhile (\<lambda>c. c = CHR '' '' \<or> c = CHR 0x09) (drop (length (take_slug 40 t)) t)"
  from h t have "rest = tl ?d" "?d \<noteq> []" by (auto simp: header_id_def Let_def split: if_splits)
  moreover have "length ?d \<le> length t" using length_dropWhile_le le_trans by (metis diff_le_self length_drop)
  ultimately show ?thesis using strip_length[OF t] by (cases ?d) auto
qed

lemma match_shorter: "match_header s = Some (kind, i, rest) \<Longrightarrow> length rest < length s"
  by (auto simp: match_header_def bind_eq_Some_conv split: option.splits dest!: header_shorter strip_length)

function parse_from :: "string \<Rightarrow> parsed_blocks \<Rightarrow> parsed_blocks" where
  "parse_from s out =
     (case s of
        [] \<Rightarrow> out
      | c # cs \<Rightarrow>
          (case match_header s of
             None \<Rightarrow> parse_from cs out
           | Some (kind, i, rest) \<Rightarrow>
               (case index_of (CHR 0x0A # FENCE) rest of
                  None \<Rightarrow> out
                | Some n \<Rightarrow>
                    parse_from (drop (n + 4) rest)
                      (put_block kind \<lparr>bk_id = i, bk_yaml = trim_end (take n rest) @ [CHR 0x0A]\<rparr> out))))"
  by pat_completeness auto
termination
  by (relation "measure (\<lambda>(s, out). length s)") (auto dest!: match_shorter)

declare parse_from.simps [simp del]

definition parseBlocks :: "string \<Rightarrow> parsed_blocks" where
  "parseBlocks t = parse_from t no_blocks"

section \<open>Proposals\<close>

definition BUILDER_ID :: string where "BUILDER_ID = ''builder''"

definition MAX_YAML :: nat where "MAX_YAML = 100000"

datatype proposal_kind = Create | Replace | Update

record proposal =
  pr_id :: string
  pr_agentId :: string
  pr_kind :: proposal_kind
  pr_agentYaml :: string
  pr_imageYaml :: "string option"
  pr_agentDiff :: string
  pr_imageDiff :: string
  pr_errors :: "string list"
  pr_warnings :: "string list"
  pr_base :: string
  pr_patch :: agent_patch

definition read_text :: "layout \<Rightarrow> string \<Rightarrow> string" where
  "read_text ly f = (case mget (ly_files ly) f of Some t \<Rightarrow> t | None \<Rightarrow> [])"

definition reserved_error :: "string \<Rightarrow> string list" where
  "reserved_error i = (if i = BUILDER_ID then [qt BUILDER_ID @ '' is reserved''] else [])"

definition layer_candidate :: "string \<Rightarrow> fields \<Rightarrow> json" where
  "layer_candidate i layer =
     JObj (mset_key ''prompt'' (case map_of layer ''prompt'' of None \<Rightarrow> JObj [] | Some p \<Rightarrow> p)
       (mset_key ''name'' (case map_of layer ''name'' of None \<Rightarrow> JStr i | Some n \<Rightarrow> n)
         (mset_key ''id'' (JStr i) layer)))"

definition approval_warnings :: "resolved_agent \<Rightarrow> string list" where
  "approval_warnings a =
     (if ra_highRisk a \<noteq> [] then [''the agent does '' @ join '', '' (ra_highRisk a) @ '' without asking you (highRisk)''] else []) @
     map (\<lambda>c. ''the agent posts to '' @ (if c = ''x'' then ''X'' else ''Reddit'') @
              '' under your account without asking you (approvals)'')
       (List.filter (\<lambda>c. map_of (ra_approvals a) c = Some ''auto'') SOCIAL_CONNECTORS)"

definition set_string :: "fields \<Rightarrow> string \<Rightarrow> string option" where
  "set_string layer k = (case Option.bind (map_of layer k) p_string of Some s \<Rightarrow> if s = [] then None else Some s | None \<Rightarrow> None)"

text \<open>The part of \<open>makeProposal\<close> that looks at the agent's block: its errors and warnings.\<close>

definition check_layer :: "edit_env \<Rightarrow> reference_inventory option \<Rightarrow> layout \<Rightarrow> string \<Rightarrow> block_text option \<Rightarrow> fields \<Rightarrow>
    string list \<times> string list" where
  "check_layer env refs ly i img layer =
     (let own = (if set_string layer ''extends'' \<noteq> None then [''builder proposals cannot use '' @ qt ''extends''] else []) @
                (if prompt_file layer \<noteq> None then [''builder proposals must inline the prompt text''] else []) @
                (case set_string layer ''id'' of
                   Some d \<Rightarrow> if d \<noteq> i then [''id '' @ qt d @ '' does not match '' @ qt i] else []
                 | None \<Rightarrow> []);
          (errs, warns) = (case resolvedAgentSchema (layer_candidate i layer) of
             None \<Rightarrow> ([''invalid value''], [])
           | Some a \<Rightarrow>
               (let found = (case refs of Some v \<Rightarrow> checkReferences a v (ed_workspace env) | None \<Rightarrow> ([], []))
                in (fst found, approval_warnings a @ snd found)));
          named = set_string layer ''image'';
          missing = (case named of
             Some m \<Rightarrow> if m \<noteq> BASE_IMAGE \<and> map_option bk_id img \<noteq> Some m \<and> \<not> existsFile ly (imageFile ly m)
                       then [''image '' @ qt m @ '' does not exist and is not part of this proposal''] else []
           | None \<Rightarrow> []);
          unused = (case img of
             Some b \<Rightarrow> if named \<noteq> Some (bk_id b)
                       then [''the image block '' @ qt (bk_id b) @ '' is not used by the agent''] else []
           | None \<Rightarrow> [])
      in (own @ errs @ missing @ unused, warns))"

definition check_agent_block :: "edit_env \<Rightarrow> reference_inventory option \<Rightarrow> layout \<Rightarrow> block_text \<Rightarrow> block_text option \<Rightarrow>
    string list \<times> string list" where
  "check_agent_block env refs ly b img =
     (case parseYamlAs ly (bk_yaml b) agentLayerSchema [] of
        Inl e \<Rightarrow> ([js_trim (message e)], [])
      | Inr layer \<Rightarrow> check_layer env refs ly (bk_id b) img layer)"

definition check_image_block :: "layout \<Rightarrow> block_text option \<Rightarrow> string list" where
  "check_image_block ly img =
     (case img of
        None \<Rightarrow> []
      | Some b \<Rightarrow>
          (if bk_id b = BASE_IMAGE then [qt BASE_IMAGE @ '' is the built-in image''] else []) @
          (case parseYamlAs ly (bk_yaml b) imageRecipeSchema [] of Inl e \<Rightarrow> [js_trim (message e)] | Inr _ \<Rightarrow> []))"

definition full_proposal :: "edit_env \<Rightarrow> reference_inventory option \<Rightarrow> layout \<Rightarrow> string \<Rightarrow> block_text \<Rightarrow> block_text option \<Rightarrow>
    proposal" where
  "full_proposal env refs ly pid b img =
     (let large = (if MAX_YAML < length (bk_yaml b) \<or> (case img of Some m \<Rightarrow> MAX_YAML < length (bk_yaml m) | None \<Rightarrow> False)
            then [''proposal is too large''] else []);
          checked = check_agent_block env refs ly b img;
          before = read_text ly (agentFile ly (bk_id b))
      in \<lparr>pr_id = pid, pr_agentId = bk_id b, pr_kind = (if before \<noteq> [] then Replace else Create),
          pr_agentYaml = bk_yaml b, pr_imageYaml = map_option bk_yaml img,
          pr_agentDiff = lineDiff before (bk_yaml b),
          pr_imageDiff = (case img of Some m \<Rightarrow> lineDiff (read_text ly (imageFile ly (bk_id m))) (bk_yaml m) | None \<Rightarrow> []),
          pr_errors = reserved_error (bk_id b) @ large @ fst checked @ check_image_block ly img,
          pr_warnings = snd checked, pr_base = ed_digest env before, pr_patch = no_patch\<rparr>)"

text \<open>A patch in the output: \<open>null\<close> removes a field as \<open>''\<close> does.\<close>

definition patch_help :: string where
  "patch_help = [CHR 0x0A] @ ''a patch changes only '' @ join '', '' PATCH_FIELDS @
     ''; send a complete anchi-agent block to change other fields''"

definition id_text :: "json option \<Rightarrow> string" where
  "id_text v = (case v of Some (JStr s) \<Rightarrow> qt s | Some j \<Rightarrow> qt (json_text j) | None \<Rightarrow> [])"

definition readPatch :: "layout \<Rightarrow> string \<Rightarrow> string \<Rightarrow> agent_patch result" where
  "readPatch ly i yaml =
     (if MAX_YAML < length yaml then Inl (Error ''proposal is too large'')
      else case ly_yaml ly yaml of
          Inl e \<Rightarrow> Inl (Error (''invalid YAML: '' @ message e))
        | Inr raw \<Rightarrow>
            (case (if raw = JNull then JObj [] else raw) of
               JObj kvs \<Rightarrow>
                 (let fields = map (\<lambda>(k, v). (k, if v = JNull \<and> k \<in> {''description'', ''model'', ''effort''} then JStr [] else v))
                        (mdelete ''id'' kvs)
                  in if map_of kvs ''id'' \<notin> {None, Some (JStr i)} then Inl (Error (''id '' @ id_text (map_of kvs ''id'') @ '' does not match '' @ qt i))
                     else case parsePatch (JObj fields) of
                         Inl e \<Rightarrow> Inl (Error (js_trim (message e) @ patch_help))
                       | Inr p \<Rightarrow> Inr p)
             | _ \<Rightarrow> Inl (Error ''the patch is not a mapping'')))"

text \<open>A patch of an existing agent, parsed before (\<open>Inl\<close>) or as text of the output (\<open>Inr\<close>).\<close>

definition makeUpdate :: "edit_env \<Rightarrow> reference_inventory option \<Rightarrow> layout \<Rightarrow> string \<Rightarrow> string \<Rightarrow> agent_patch + string \<Rightarrow>
    block_text option \<Rightarrow> string option \<Rightarrow> proposal" where
  "makeUpdate env refs ly pid i patch img base =
     (let file = agentFile ly i; txt0 = read_text ly file;
          p0 = \<lparr>pr_id = pid, pr_agentId = i, pr_kind = Update, pr_agentYaml = txt0, pr_imageYaml = None,
                pr_agentDiff = [], pr_imageDiff = [], pr_errors = [], pr_warnings = [],
                pr_base = (case base of Some d \<Rightarrow> d | None \<Rightarrow> ed_digest env txt0), pr_patch = no_patch\<rparr>;
          early = (if i = BUILDER_ID then [qt BUILDER_ID @ '' is reserved'']
                   else if \<not> existsFile ly file
                   then [''agent '' @ qt i @ '' does not exist; propose it with an anchi-agent block''] else []) @
                  (if img \<noteq> None then [''a patch cannot add an image; send a complete anchi-agent block''] else [])
      in if early \<noteq> [] then p0\<lparr>pr_errors := early\<rparr>
         else case (case patch of Inl p \<Rightarrow> Inr p | Inr yaml \<Rightarrow> readPatch ly i yaml) of
             Inl e \<Rightarrow> p0\<lparr>pr_errors := [js_trim (message e)]\<rparr>
           | Inr parsed \<Rightarrow>
               (case ed_patch env txt0 parsed of
                  Inl e \<Rightarrow> p0\<lparr>pr_patch := parsed, pr_errors := [message e]\<rparr>
                | Inr next_text \<Rightarrow>
                    (case fst (updateAgentFile env refs i parsed False None ly) of
                       Inl e \<Rightarrow> p0\<lparr>pr_patch := parsed, pr_agentYaml := next_text, pr_errors := [message e]\<rparr>
                     | Inr u \<Rightarrow>
                         p0\<lparr>pr_patch := parsed, pr_agentYaml := next_text, pr_agentDiff := au_diff u,
                            pr_errors := au_errors u @
                              (if au_diff u = [] then [''the patch changes nothing''] else []) @
                              (if au_base u \<noteq> pr_base p0
                               then [''@'' @ i @ [CHR 0x27] @ ''s file changed since this proposal; ask the builder again''] else []),
                            pr_warnings := au_warnings u\<rparr>)))"

definition makeProposal :: "edit_env \<Rightarrow> reference_inventory option \<Rightarrow> layout \<Rightarrow> string \<Rightarrow> parsed_blocks \<Rightarrow> proposal option" where
  "makeProposal env refs ly pid blocks =
     (case pb_patch blocks of
        Some b \<Rightarrow> Some (makeUpdate env refs ly pid (bk_id b) (Inr (bk_yaml b)) (pb_image blocks) None)
      | None \<Rightarrow>
          (case pb_agent blocks of
             None \<Rightarrow> None
           | Some b \<Rightarrow> Some (full_proposal env refs ly pid b (pb_image blocks))))"

definition newer :: "'a option \<Rightarrow> 'a option \<Rightarrow> 'a option" where
  "newer base new = (case new of Some v \<Rightarrow> Some v | None \<Rightarrow> base)"

definition mergePatch :: "agent_patch \<Rightarrow> agent_patch \<Rightarrow> agent_patch" where
  "mergePatch p q =
     \<lparr>pt_name = newer (pt_name p) (pt_name q), pt_description = newer (pt_description p) (pt_description q),
      pt_runtime = newer (pt_runtime p) (pt_runtime q), pt_model = newer (pt_model p) (pt_model q),
      pt_effort = newer (pt_effort p) (pt_effort q),
      pt_prompt = (case (pt_prompt p, pt_prompt q) of
         (Some (m, t), Some (m', t')) \<Rightarrow> Some (newer m m', newer t t')
       | (a, b) \<Rightarrow> newer a b),
      pt_skills = newer (pt_skills p) (pt_skills q), pt_delegates = newer (pt_delegates p) (pt_delegates q),
      pt_connectors = newer (pt_connectors p) (pt_connectors q), pt_workspaces = newer (pt_workspaces p) (pt_workspaces q),
      pt_highRisk = newer (pt_highRisk p) (pt_highRisk q), pt_egress = newer (pt_egress p) (pt_egress q)\<rparr>"

section \<open>The proposals that wait\<close>

record item =
  it_proposal :: proposal
  it_imageId :: "string option"
  it_createOnly :: bool

record proposals =
  ps_layout :: layout
  ps_items :: "(string, item) jsmap"
  ps_random :: "nat \<Rightarrow> string"
  ps_draws :: nat

type_synonym 'a builder_op = "(proposals, 'a) op"

definition new_id :: "string builder_op" where
  "new_id = (\<lambda>s. (Inr (''p-'' @ ps_random s (ps_draws s)), s\<lparr>ps_draws := Suc (ps_draws s)\<rparr>))"

definition put_item :: "string \<Rightarrow> item \<Rightarrow> unit builder_op" where
  "put_item i it = modify (\<lambda>s. s\<lparr>ps_items := mset_key i it (ps_items s)\<rparr>)"

definition add :: "edit_env \<Rightarrow> reference_inventory option \<Rightarrow> parsed_blocks \<Rightarrow> proposal option builder_op" where
  "add env refs blocks =
     (if pb_patch blocks = None \<and> pb_agent blocks = None then ret None
      else
        andthen new_id (\<lambda>pid.
        andthen (gets (\<lambda>s. makeProposal env refs (ps_layout s) pid blocks)) (\<lambda>p.
        case p of
          None \<Rightarrow> ret None
        | Some pr \<Rightarrow>
            andthen (put_item pid \<lparr>it_proposal = pr, it_imageId = map_option bk_id (pb_image blocks), it_createOnly = False\<rparr>)
              (\<lambda>_. ret (Some pr)))))"

definition known_item :: "string \<Rightarrow> item builder_op" where
  "known_item i =
     andthen (gets (\<lambda>s. mget (ps_items s) i)) (\<lambda>it.
     case it of None \<Rightarrow> throw (''unknown proposal '' @ qt i) | Some x \<Rightarrow> ret x)"

definition lines_text :: "string list \<Rightarrow> string" where
  "lines_text ls = join [CHR 0x0A] ls"

definition new_agent :: "edit_env \<Rightarrow> reference_inventory option \<Rightarrow> string \<Rightarrow> string list \<Rightarrow> proposal builder_op" where
  "new_agent env refs i ls =
     andthen (require (i \<noteq> BUILDER_ID) (qt ''builder'' @ '' is reserved'')) (\<lambda>_.
     andthen (gets (\<lambda>s. existsFile (ps_layout s) (agentFile (ps_layout s) i))) (\<lambda>exists_already.
     andthen (require (\<not> exists_already) (''agent '' @ qt i @ '' already exists'')) (\<lambda>_.
     andthen (add env refs (no_blocks\<lparr>pb_agent := Some \<lparr>bk_id = i, bk_yaml = lines_text ls\<rparr>\<rparr>)) (\<lambda>p.
     case p of
       None \<Rightarrow> throw ''remote member proposal was not created''
     | Some pr \<Rightarrow>
         andthen (put_item (pr_id pr) \<lparr>it_proposal = pr, it_imageId = None, it_createOnly = True\<rparr>) (\<lambda>_. ret pr)))))"

definition starter :: "edit_env \<Rightarrow> reference_inventory option \<Rightarrow> string \<Rightarrow> string \<Rightarrow> proposal builder_op" where
  "starter env refs i runtime =
     andthen (require (idSchema i \<and> runtime \<in> set RUNTIMES) ''ZodError'') (\<lambda>_.
     new_agent env refs i
       [''name: '' @ qt i, ''runtime: '' @ runtime, ''connectors: []'', ''workspaces: []'', ''prompt:'',
        ''  mode: append'',
        ''  text: Help with the requested task. Explain missing access instead of trying to bypass it.'', []])"

text \<open>A member that runs on an execution node, from what the node says of its agent.\<close>

definition remoteStarter :: "edit_env \<Rightarrow> reference_inventory option \<Rightarrow> string \<Rightarrow> execution \<Rightarrow> string \<Rightarrow> string \<Rightarrow> string \<Rightarrow>
    string list \<Rightarrow> proposal builder_op" where
  "remoteStarter env refs i e name description runtime delegates =
     (let existing = (case refs of Some v \<Rightarrow> iv_agents v | None \<Rightarrow> [])
      in new_agent env refs i
       [''name: '' @ json_text (JStr name), ''description: '' @ json_text (JStr description), ''runtime: '' @ runtime,
        ''execution: '' @ json_text (JObj [(''server'', JStr (ex_server e)), (''agent'', JStr (ex_agent e))]),
        ''delegates: '' @ json_text (JArr (map JStr (List.filter (\<lambda>d. d \<in> set existing \<and> d \<noteq> i) delegates))), []])"

definition get_proposal :: "string \<Rightarrow> proposal builder_op" where
  "get_proposal i = andthen (known_item i) (\<lambda>it. ret (it_proposal it))"

definition discard :: "string \<Rightarrow> unit builder_op" where
  "discard i = modify (\<lambda>s. s\<lparr>ps_items := mdelete i (ps_items s)\<rparr>)"

definition image_block :: "item \<Rightarrow> block_text option" where
  "image_block it =
     (case (it_imageId it, pr_imageYaml (it_proposal it)) of
        (Some i, Some y) \<Rightarrow> if i \<noteq> [] \<and> y \<noteq> [] then Some \<lparr>bk_id = i, bk_yaml = y\<rparr> else None
      | _ \<Rightarrow> None)"

definition revise :: "edit_env \<Rightarrow> reference_inventory option \<Rightarrow> string \<Rightarrow> agent_patch \<Rightarrow> proposal builder_op" where
  "revise env refs i patch =
     andthen (known_item i) (\<lambda>it.
     let old = it_proposal it
     in if pr_kind old = Update then
          andthen new_id (\<lambda>pid.
          andthen (gets (\<lambda>s. makeUpdate env refs (ps_layout s) pid (pr_agentId old) (Inl (mergePatch (pr_patch old) patch))
            None (Some (pr_base old)))) (\<lambda>revised.
          let p = revised\<lparr>pr_id := i\<rparr>
          in andthen (put_item i (it\<lparr>it_proposal := p\<rparr>)) (\<lambda>_. ret p)))
        else
          andthen (lift_result (ed_patch env (pr_agentYaml old) patch)) (\<lambda>yaml.
          andthen new_id (\<lambda>pid.
          andthen (gets (\<lambda>s. full_proposal env refs (ps_layout s) pid \<lparr>bk_id = pr_agentId old, bk_yaml = yaml\<rparr> (image_block it)))
            (\<lambda>revised.
          let p = revised\<lparr>pr_id := i, pr_kind := pr_kind old, pr_base := pr_base old\<rparr>
          in andthen (put_item i (it\<lparr>it_proposal := p\<rparr>)) (\<lambda>_. ret p)))))"

definition on_files :: "'a file_op \<Rightarrow> 'a builder_op" where
  "on_files m = (\<lambda>s. case m (ps_layout s) of (r, ly) \<Rightarrow> (r, s\<lparr>ps_layout := ly\<rparr>))"

definition writeAtomic :: "string \<Rightarrow> string \<Rightarrow> bool \<Rightarrow> unit file_op" where
  "writeAtomic f t createOnly =
     (\<lambda>ly. if createOnly \<and> existsFile ly f then (Inl (Error (''EEXIST: '' @ f)), ly) else replaceFile f t ly)"

definition invalid_proposal :: "string list \<Rightarrow> string" where
  "invalid_proposal errs = ''proposal is invalid: '' @ join ''; '' errs"

definition changed_since :: "string \<Rightarrow> string" where
  "changed_since i = ''@'' @ i @ [CHR 0x27] @ ''s file changed since this proposal; ask the builder again''"

text \<open>\<open>apply\<close> of an update, and of a whole file with its image.\<close>

definition renamed_error :: "string \<Rightarrow> 'a builder_op \<Rightarrow> 'a builder_op" where
  "renamed_error i m = catch_error m (\<lambda>e s.
     (Inl (if index_of ''changed since'' (message e) \<noteq> None then Error (changed_since i) else e), s))"

definition apply_update :: "edit_env \<Rightarrow> reference_inventory option \<Rightarrow> string \<Rightarrow> proposal \<Rightarrow> unit builder_op" where
  "apply_update env refs i p =
     andthen new_id (\<lambda>pid.
     andthen (gets (\<lambda>s. makeUpdate env refs (ps_layout s) pid (pr_agentId p) (Inl (pr_patch p)) None (Some (pr_base p)))) (\<lambda>fresh.
     andthen (require (pr_errors fresh = []) (invalid_proposal (pr_errors fresh))) (\<lambda>_.
     andthen (renamed_error (pr_agentId p)
       (on_files (updateAgentFile env refs (pr_agentId p) (pr_patch p) True (Some (pr_base p))))) (\<lambda>_.
     discard i))))"

definition apply_file :: "edit_env \<Rightarrow> reference_inventory option \<Rightarrow> string \<Rightarrow> item \<Rightarrow> unit builder_op" where
  "apply_file env refs i it =
     (let p = it_proposal it
      in andthen (gets (\<lambda>s. ed_digest env (read_text (ps_layout s) (agentFile (ps_layout s) (pr_agentId p))))) (\<lambda>now.
         andthen (require (now = pr_base p) (changed_since (pr_agentId p))) (\<lambda>_.
         andthen new_id (\<lambda>pid.
         andthen (gets (\<lambda>s. full_proposal env refs (ps_layout s) pid
           \<lparr>bk_id = pr_agentId p, bk_yaml = pr_agentYaml p\<rparr> (image_block it))) (\<lambda>fresh.
         andthen (require (pr_errors fresh = []) (invalid_proposal (pr_errors fresh))) (\<lambda>_.
         andthen (case image_block it of
             Some b \<Rightarrow> on_files (\<lambda>ly. writeAtomic (imageFile ly (bk_id b)) (bk_yaml b) False ly)
           | None \<Rightarrow> ret ()) (\<lambda>_.
         andthen (on_files (\<lambda>ly. writeAtomic (agentFile ly (pr_agentId p)) (pr_agentYaml p)
           (it_createOnly it \<or> pr_kind p = Create) ly)) (\<lambda>_.
         discard i))))))))"

definition apply_proposal :: "edit_env \<Rightarrow> reference_inventory option \<Rightarrow> string \<Rightarrow> (string \<times> string option) builder_op" where
  "apply_proposal env refs i =
     andthen (known_item i) (\<lambda>it.
     let p = it_proposal it
     in andthen (gets (\<lambda>s. it_createOnly it \<and> existsFile (ps_layout s) (agentFile (ps_layout s) (pr_agentId p)))) (\<lambda>there.
        andthen (require (\<not> there) (''agent '' @ qt (pr_agentId p) @ '' already exists; create a new proposal with another id'')) (\<lambda>_.
        if pr_kind p = Update then andthen (apply_update env refs i p) (\<lambda>_. ret (pr_agentId p, None))
        else andthen (apply_file env refs i it) (\<lambda>_. ret (pr_agentId p, it_imageId it)))))"

end
