(* ===== verification/SettingsFacts.thy ===== *)
theory SettingsFacts
  imports Settings
begin

text \<open>
  The diff that a change is reviewed by, and the guard that only the reviewed change is written.  The
  table of \<open>lineDiff\<close> is shown to hold the lengths of longest common subsequences (\<open>lcs\<close>), from
  which the walk's lines are read off.
\<close>

section \<open>The table\<close>

fun lcs :: "'a list \<Rightarrow> 'a list \<Rightarrow> nat" where
  "lcs [] b = 0"
| "lcs (x # xs) [] = 0"
| "lcs (x # xs) (y # ys) = (if x = y then Suc (lcs xs ys) else max (lcs xs (y # ys)) (lcs (x # xs) ys))"

lemma lcs_Nil2 [simp]: "lcs a [] = 0"
  by (cases a) auto

lemma lcs_upper: "subseq c a \<Longrightarrow> subseq c b \<Longrightarrow> length c \<le> lcs a b"
proof (induction a b arbitrary: c rule: lcs.induct)
  case (3 x xs y ys)
  show ?case
  proof (cases c)
    case (Cons z zs)
    note sub = "3.prems"[unfolded Cons]
    show ?thesis
    proof (cases "x = y")
      case True
      have "subseq zs xs" "subseq zs ys" using sub by (auto dest: subseq_Cons' split: if_splits)
      with "3.IH"(1)[OF True] True Cons show ?thesis by simp
    next
      case False
      show ?thesis
      proof (cases "z = x")
        case True
        with sub False have "subseq c ys" unfolding Cons by (metis subseq_Cons2_neq)
        with "3.IH"(3)[OF False _ this] "3.prems" False show ?thesis by (simp add: le_max_iff_disj)
      next
        case neq: False
        with sub have "subseq c xs" unfolding Cons by (metis subseq_Cons2_neq)
        with "3.IH"(2)[OF False this] "3.prems" False show ?thesis by (simp add: le_max_iff_disj)
      qed
    qed
  qed simp
qed auto

fun row :: "string list \<Rightarrow> string list \<Rightarrow> nat list" where
  "row a [] = [lcs a []]"
| "row a (y # ys) = lcs a (y # ys) # row a ys"

lemma row_nth: "j \<le> length b \<Longrightarrow> row a b ! j = lcs a (drop j b)"
  by (induction b arbitrary: j) (auto simp: nth_Cons split: nat.split)

lemma row_Nil: "row [] b = replicate (length b + 1) 0"
  by (induction b) auto

lemma row_head: "row a b ! 0 = lcs a b" "row a b \<noteq> []"
  by (cases b; simp)+

lemma lcs_row_eq: "lcs_row x b (row xs b) = row (x # xs) b"
  by (induction b) (simp_all add: Let_def row_head)

fun rows :: "string list \<Rightarrow> string list \<Rightarrow> nat list list" where
  "rows [] b = [row [] b]"
| "rows (x # xs) b = row (x # xs) b # rows xs b"

lemma rows_nth: "i \<le> length a \<Longrightarrow> rows a b ! i = row (drop i a) b"
  by (induction a arbitrary: i) (auto simp: nth_Cons split: nat.split)

lemma lcs_table_rows: "lcs_table a b = rows a b"
proof (induction a)
  case Nil
  then show ?case by (simp add: row_Nil)
next
  case (Cons x xs)
  have "hd (rows xs b) = row xs b" by (cases xs) auto
  with Cons show ?case by (simp add: Let_def lcs_row_eq)
qed

lemma lcs_table_nth:
  "i \<le> length a \<Longrightarrow> j \<le> length b \<Longrightarrow> lcs_table a b ! i ! j = lcs (drop i a) (drop j b)"
  by (simp add: lcs_table_rows rows_nth row_nth)

section \<open>The walk\<close>

text \<open>The walk by what is left of both sides.\<close>

fun edits :: "string list \<Rightarrow> string list \<Rightarrow> diff_line list" where
  "edits [] b = map Added b"
| "edits (x # xs) [] = map Removed (x # xs)"
| "edits (x # xs) (y # ys) =
     (if x = y then Kept x # edits xs ys
      else if lcs (x # xs) ys > lcs xs (y # ys) then Added y # edits (x # xs) ys
      else Removed x # edits xs (y # ys))"

lemma edits_Nil2 [simp]: "edits a [] = map Removed a"
  by (cases a) auto

lemma diff_walk_edits:
  "i \<le> length a \<Longrightarrow> j \<le> length b \<Longrightarrow> diff_walk (lcs_table a b) a b i j = edits (drop i a) (drop j b)"
proof (induction "(length a - i) + (length b - j)" arbitrary: i j rule: less_induct)
  case less
  show ?case
  proof (cases "i < length a")
    case False
    then have [simp]: "drop i a = []" by simp
    show ?thesis
    proof (cases "j < length b")
      case True
      with less(1)[of i "Suc j"] less(2) False show ?thesis
        by (subst diff_walk.simps) (simp add: Cons_nth_drop_Suc[symmetric])
    qed (use False in \<open>subst diff_walk.simps, simp\<close>)
  next
    case i: True
    then have da: "drop i a = a ! i # drop (Suc i) a" by (simp add: Cons_nth_drop_Suc)
    show ?thesis
    proof (cases "j < length b")
      case False
      with less(1)[of "Suc i" j] less(3) i show ?thesis
        by (subst diff_walk.simps) (simp add: da)
    next
      case j: True
      then have db: "drop j b = b ! j # drop (Suc j) b" by (simp add: Cons_nth_drop_Suc)
      have "lcs_table a b ! i ! Suc j = lcs (drop i a) (drop (Suc j) b)"
        "lcs_table a b ! Suc i ! j = lcs (drop (Suc i) a) (drop j b)"
        using i j by (simp_all add: lcs_table_nth)
      with less(1)[of "Suc i" "Suc j"] less(1)[of i "Suc j"] less(1)[of "Suc i" j] i j show ?thesis
        by (subst diff_walk.simps) (simp add: da db)
    qed
  qed
qed

lemma diff_lines_edits: "diff_lines a b = edits a b"
  by (simp add: diff_lines_def diff_walk_edits)

section \<open>What a diff says\<close>

text \<open>The text before is what a diff keeps and removes, the text after what it keeps and adds.\<close>

definition side_before :: "diff_line list \<Rightarrow> string list" where
  "side_before ds = List.map_filter (\<lambda>d. case d of Kept l \<Rightarrow> Some l | Removed l \<Rightarrow> Some l | Added _ \<Rightarrow> None) ds"

definition side_after :: "diff_line list \<Rightarrow> string list" where
  "side_after ds = List.map_filter (\<lambda>d. case d of Kept l \<Rightarrow> Some l | Added l \<Rightarrow> Some l | Removed _ \<Rightarrow> None) ds"

definition kept_lines :: "diff_line list \<Rightarrow> string list" where
  "kept_lines ds = List.map_filter (\<lambda>d. case d of Kept l \<Rightarrow> Some l | _ \<Rightarrow> None) ds"

lemmas side_defs = side_before_def side_after_def kept_lines_def List.map_filter_def

lemma edits_sides: "side_before (edits a b) = a \<and> side_after (edits a b) = b"
  by (induction a b rule: edits.induct) (auto simp: side_defs comp_def)

lemma edits_kept: "length (kept_lines (edits a b)) = lcs a b"
  by (induction a b rule: edits.induct) (auto simp: side_defs comp_def)

lemma kept_subseq: "subseq (kept_lines ds) (side_before ds)" "subseq (kept_lines ds) (side_after ds)"
proof (induction ds)
  case (Cons d ds)
  { case 1 with Cons show ?case by (cases d) (auto simp: side_defs) }
  { case 2 with Cons show ?case by (cases d) (auto simp: side_defs) }
qed (simp_all add: side_defs)

lemma longest_kept:
  "length (kept_lines (diff_lines a b)) = Max {length c | c. subseq c a \<and> subseq c b}"
proof (rule Max_eqI[symmetric])
  have "{length c | c. subseq c a \<and> subseq c b} \<subseteq> {..lcs a b}" using lcs_upper by auto
  then show "finite {length c | c. subseq c a \<and> subseq c b}" by (rule finite_subset) simp
  show "y \<le> length (kept_lines (diff_lines a b))" if "y \<in> {length c | c. subseq c a \<and> subseq c b}" for y
    using that by (auto simp: diff_lines_edits edits_kept lcs_upper)
  show "length (kept_lines (diff_lines a b)) \<in> {length c | c. subseq c a \<and> subseq c b}"
    using kept_subseq[of "edits a b"] edits_sides[of a b] by (auto simp: diff_lines_edits)
qed

text \<open>
  C27 (diff_faithful_minimal). A diff is faithful and minimal: without its added lines it is the text before, without its
  removed lines the text after, and it keeps as many lines as any common subsequence of the two has.
\<close>

theorem diff_faithful_minimal:
  "side_before (diff_lines a b) = a \<and> side_after (diff_lines a b) = b \<and>
   length (kept_lines (diff_lines a b)) = Max {length c | c. subseq c a \<and> subseq c b}"
  by (metis diff_lines_edits edits_sides longest_kept)

lemma edits_nonempty: "b \<noteq> [] \<Longrightarrow> edits a b \<noteq> []"
  by (cases "(a, b)" rule: edits.cases) auto

lemma join_nonempty: "ls \<noteq> [] \<Longrightarrow> hd ls \<noteq> [] \<Longrightarrow> join s ls \<noteq> []"
  by (cases "(s, ls)" rule: join.cases) auto

lemma diff_empty_iff: "lineDiff before after = [] \<longleftrightarrow> before = after"
proof (cases "before = after")
  case False
  let ?d = "diff_lines (if before = [] then [] else text_lines before) (text_lines after)"
  have "?d \<noteq> []" by (simp add: diff_lines_edits edits_nonempty text_lines_def split_on_nonempty)
  then have "hd (map diff_text ?d) \<noteq> []" by (cases ?d; cases "hd ?d") auto
  with \<open>?d \<noteq> []\<close> have "join [CHR 0x0A] (map diff_text ?d) \<noteq> []" by (intro join_nonempty) auto
  with False show ?thesis by (simp add: lineDiff_def)
qed (simp add: lineDiff_def)

section \<open>Writing an agent's file\<close>

lemma updateAgentFile_read:
  assumes "updateAgentFile env iv i patch do_it reviewed ly = (Inr u, ly')"
  obtains t t' w where "readFile ly (agentFile ly i) = Inr t" and "ed_patch env t patch = Inr t'"
    and "review env iv ly i patch t' = (au_errors u, au_warnings u)"
    and "au_diff u = lineDiff t t'" and "au_base u = ed_digest env t"
    and "ly' = (if do_it \<and> t' \<noteq> t then ly\<lparr>ly_files := mset_key (agentFile ly i) t' (ly_files ly)\<rparr> else ly)"
    and "au_applied u = do_it" and "do_it \<Longrightarrow> reviewed = Some (ed_digest env t) \<and> au_errors u = []"
proof -
  note def = updateAgentFile_def Let_def
  have ex: "existsFile ly (agentFile ly i)" using assms by (simp add: def split: if_splits)
  then obtain t where t: "readFile ly (agentFile ly i) = Inr t"
    using assms by (cases "readFile ly (agentFile ly i)") (simp_all add: def)
  then obtain t' where t': "ed_patch env t patch = Inr t'"
    using assms ex by (cases "ed_patch env t patch") (simp_all add: def)
  obtain errs w where rv: "review env iv ly i patch t' = (errs, w)" by fastforce
  let ?ly = "if do_it \<and> t' \<noteq> t then ly\<lparr>ly_files := mset_key (agentFile ly i) t' (ly_files ly)\<rparr> else ly"
  have "ly' = ?ly \<and> u = \<lparr>au_diff = lineDiff t t', au_errors = errs, au_warnings = w, au_base = ed_digest env t,
      au_applied = do_it\<rparr> \<and> (do_it \<longrightarrow> reviewed = Some (ed_digest env t) \<and> errs = [])"
    using assms ex t t' rv by (auto simp: def replaceFile_def modify_def split: if_splits)
  then show thesis using t t' rv by (intro that[of t t']) auto
qed

lemma updateAgentFile_error: "updateAgentFile env iv i patch do_it reviewed ly = (Inl e, ly') \<Longrightarrow> ly' = ly"
  by (auto simp: updateAgentFile_def Let_def split: if_splits sum.splits prod.splits)

text \<open>
  What a call that changed a file has done.
\<close>

lemma reviewed_write:
  assumes "updateAgentFile env iv i patch do_it reviewed ly = (r, ly')" and "ly' \<noteq> ly"
  shows "do_it \<and> (\<exists>t t' u. r = Inr u \<and> readFile ly (agentFile ly i) = Inr t \<and> reviewed = Some (ed_digest env t) \<and>
    ed_patch env t patch = Inr t' \<and> fst (review env iv ly i patch t') = [] \<and> au_diff u = lineDiff t t' \<and>
    ly' = ly\<lparr>ly_files := mset_key (agentFile ly i) t' (ly_files ly)\<rparr>)"
proof (cases r)
  case (Inl e)
  with assms updateAgentFile_error show ?thesis by blast
next
  case (Inr u)
  with assms(1) have "updateAgentFile env iv i patch do_it reviewed ly = (Inr u, ly')" by simp
  then show ?thesis
  proof (rule updateAgentFile_read)
    fix t t' w
    assume eq: "ly' = (if do_it \<and> t' \<noteq> t then ly\<lparr>ly_files := mset_key (agentFile ly i) t' (ly_files ly)\<rparr> else ly)"
      and ok: "do_it \<Longrightarrow> reviewed = Some (ed_digest env t) \<and> au_errors u = []"
      and rest: "review env iv ly i patch t' = (au_errors u, au_warnings u)" "readFile ly (agentFile ly i) = Inr t"
        "ed_patch env t patch = Inr t'" "au_diff u = lineDiff t t'"
    from eq assms(2) have changed: "do_it" "t' \<noteq> t" by (auto split: if_splits)
    from rest(1) ok[OF changed(1)] have "fst (review env iv ly i patch t') = []" by simp
    moreover from eq changed have "ly' = ly\<lparr>ly_files := mset_key (agentFile ly i) t' (ly_files ly)\<rparr>" by simp
    ultimately show ?thesis using rest(2-) ok[OF changed(1)] changed(1) Inr by blast
  qed
qed

text \<open>
  C28 (only_reviewed_written). Only a reviewed change is written.  A call leaves the files as they were, or it was an apply
  whose base is the digest of the file's text, the agent that results had no errors, and of all files
  the agent's alone was replaced, by the patched text that the diff shows.
\<close>

theorem only_reviewed_written:
  "case updateAgentFile env iv i patch do_it reviewed ly of (r, ly') \<Rightarrow>
     ly' = ly \<or>
     do_it \<and> (\<exists>t t' u. r = Inr u \<and> readFile ly (agentFile ly i) = Inr t \<and> reviewed = Some (ed_digest env t) \<and>
       ed_patch env t patch = Inr t' \<and> fst (review env iv ly i patch t') = [] \<and> au_diff u = lineDiff t t' \<and>
       ly' = ly\<lparr>ly_files := mset_key (agentFile ly i) t' (ly_files ly)\<rparr>)"
  using reviewed_write by (cases "updateAgentFile env iv i patch do_it reviewed ly") blast

lemma preview_then_apply:
  assumes "updateAgentFile env iv i patch False None ly = (Inr u, ly0)" and "au_errors u = []"
  shows "\<exists>ly'. updateAgentFile env iv i patch True (Some (au_base u)) ly = (Inr (u\<lparr>au_applied := True\<rparr>), ly')"
  using assms by (auto simp: updateAgentFile_def Let_def split: if_splits sum.splits prod.splits)

lemma keeps_update:
  "ly_agentsDir (snd (updateAgentFile env iv i patch do_it reviewed ly)) = ly_agentsDir ly"
  by (auto simp: updateAgentFile_def Let_def replaceFile_def modify_def split: sum.splits prod.splits)

section \<open>Egress\<close>

lemma mget_mset: "mget (mset_key k v m) k' = (if k' = k then Some v else mget m k')"
  by (simp add: update_conv)

lemma allow_one_host:
  assumes "allowEgressHost env iv i host ly = (Inr hosts, ly')"
  shows "\<exists>a old. resolveAgent ly i None = Inr a \<and> ra_egress a = Some old \<and> hosts = old @ [host_name host] \<and>
    HOST (host_name host) \<and> length (host_name host) \<le> 253 \<and> \<not> list_ex (covers (host_name host)) old \<and>
    (\<exists>t. ly_files ly' \<in> {ly_files ly, mset_key (agentFile ly i) t (ly_files ly)})"
proof -
  let ?h = "host_name host"
  let ?p = "\<lambda>old. no_patch\<lparr>pt_egress := Some (old @ [?h])\<rparr>"
  from assms obtain a old u1 ly1 u2 where a: "resolveAgent ly i None = Inr a" "ra_egress a = Some old"
    "HOST ?h" "length ?h \<le> 253" "\<not> list_ex (covers ?h) old" and hosts: "hosts = old @ [?h]"
    and one: "updateAgentFile env (Some iv) i (?p old) False None ly = (Inr u1, ly1)"
    and two: "updateAgentFile env (Some iv) i (?p old) True (Some (au_base u1)) ly1 = (Inr u2, ly')"
    unfolding allowEgressHost_def Let_def op_defs
    by (auto split: option.splits sum.splits prod.splits if_splits)
  from one have [simp]: "ly1 = ly" by (rule updateAgentFile_read) simp
  have "\<exists>t. ly_files ly' \<in> {ly_files ly, mset_key (agentFile ly i) t (ly_files ly)}"
  proof (rule updateAgentFile_read[OF two])
    fix t t'
    assume "ly' = (if True \<and> t' \<noteq> t then ly1\<lparr>ly_files := mset_key (agentFile ly1 i) t' (ly_files ly1)\<rparr> else ly1)"
    then show ?thesis by (intro exI[of _ t']) auto
  qed
  with a hosts show ?thesis by blast
qed

lemma allow_error:
  assumes "allowEgressHost env iv i host ly = (Inl e, ly')"
  shows "ly' = ly"
proof -
  have same: "ly1 = ly" if "updateAgentFile env (Some iv) i p False None ly = (r, ly1)" for p r ly1
    using that by (cases r) (auto dest: updateAgentFile_error elim: updateAgentFile_read)
  from assms show ?thesis
    unfolding allowEgressHost_def Let_def op_defs
    by (auto split: option.splits sum.splits prod.splits if_splits dest: updateAgentFile_error same)
qed

text \<open>
  Allowing a host adds that one host: it is an exact, lower-case name no entry of the list covers
  yet, the list keeps its other entries, the agent must have had a list (no list is no limit, so
  adding to it would take access away), and no other file changes; a refusal changes nothing.
\<close>

theorem allow_adds_one_host:
  "case allowEgressHost env iv i host ly of
     (Inl e, ly') \<Rightarrow> ly' = ly
   | (Inr hosts, ly') \<Rightarrow>
       (\<exists>a old. resolveAgent ly i None = Inr a \<and> ra_egress a = Some old \<and> hosts = old @ [host_name host] \<and>
          HOST (host_name host) \<and> length (host_name host) \<le> 253 \<and> \<not> list_ex (covers (host_name host)) old) \<and>
       (\<exists>t. ly_files ly' \<in> {ly_files ly, mset_key (agentFile ly i) t (ly_files ly)})"
  by (auto split: prod.splits sum.splits dest: allow_error allow_one_host)

section \<open>References\<close>

lemma not_an_agent_Nil: "not_an_agent self agents ds = [] \<longleftrightarrow> set ds \<subseteq> insert self (set agents)"
  by (auto simp: not_an_agent_def filter_empty_conv)

text \<open>
  An agent is refused for its references exactly when one of them is missing: for an agent that
  runs here a skill, a workspace or a delegate, for one that runs on a node the node or a delegate.
  Connectors, accounts and runtimes that are not connected yet only warn.
\<close>

theorem refused_iff_missing:
  "fst (checkReferences a iv there) = [] \<longleftrightarrow>
     set (ra_delegates a) \<subseteq> insert (ra_id a) (set (iv_agents iv)) \<and>
     (case ra_execution a of
        Some e \<Rightarrow> (case iv_servers iv of Some ss \<Rightarrow> ex_server e \<in> set ss | None \<Rightarrow> True)
      | None \<Rightarrow> set (ra_skills a) \<subseteq> set (iv_skills iv) \<and> (\<forall>w \<in> set (ra_workspaces a). there (ws_path w)))"
  by (auto simp: checkReferences_def not_an_agent_Nil filter_empty_conv split: option.splits)

end
