(* ===== verification/BuilderFacts.thy ===== *)
theory BuilderFacts
  imports Builder SettingsFacts
begin

text \<open>
  What the builder's blocks mean, and what applying a proposal may do to the files.
\<close>

section \<open>Applying\<close>

text \<open>The files with a proposal's image, and with its agent too.\<close>

definition with_image :: "layout \<Rightarrow> item \<Rightarrow> layout" where
  "with_image ly it =
     (case image_block it of
        Some b \<Rightarrow> ly\<lparr>ly_files := mset_key (imageFile ly (bk_id b)) (bk_yaml b) (ly_files ly)\<rparr>
      | None \<Rightarrow> ly)"

definition with_agent :: "layout \<Rightarrow> item \<Rightarrow> layout" where
  "with_agent ly it =
     (let ly1 = with_image ly it
      in ly1\<lparr>ly_files := mset_key (agentFile ly1 (pr_agentId (it_proposal it))) (pr_agentYaml (it_proposal it)) (ly_files ly1)\<rparr>)"

text \<open>\<open>applied\<close> says what a proposal that was applied has done to the files \<open>ly\<close>.\<close>

definition patched :: "edit_env \<Rightarrow> layout \<Rightarrow> proposal \<Rightarrow> layout \<Rightarrow> bool" where
  "patched env ly p ly' \<longleftrightarrow>
     (\<exists>t t'. readFile ly (agentFile ly (pr_agentId p)) = Inr t \<and> pr_base p = ed_digest env t \<and>
        ed_patch env t (pr_patch p) = Inr t' \<and>
        ly' = (if t' = t then ly else ly\<lparr>ly_files := mset_key (agentFile ly (pr_agentId p)) t' (ly_files ly)\<rparr>))"

definition applied :: "edit_env \<Rightarrow> layout \<Rightarrow> item \<Rightarrow> layout \<Rightarrow> bool" where
  "applied env ly it ly' \<longleftrightarrow>
     (let p = it_proposal it
      in if pr_kind p = Update then patched env ly p ly'
         else pr_base p = ed_digest env (read_text ly (agentFile ly (pr_agentId p))) \<and> ly' = with_agent ly it)"

definition half_applied :: "layout \<Rightarrow> item \<Rightarrow> layout \<Rightarrow> bool" where
  "half_applied ly it ly' \<longleftrightarrow>
     (it_createOnly it \<or> pr_kind (it_proposal it) = Create) \<and> image_block it \<noteq> None \<and>
     existsFile ly' (agentFile ly' (pr_agentId (it_proposal it))) \<and> ly' = with_image ly it"

lemma new_id_eq: "new_id s = (Inr (''p-'' @ ps_random s (ps_draws s)), s\<lparr>ps_draws := Suc (ps_draws s)\<rparr>)"
  by (simp add: new_id_def)

lemma apply_update_files:
  assumes "apply_update env refs i p s = (r, s')"
  shows "case r of Inl e \<Rightarrow> ps_layout s' = ps_layout s
    | Inr _ \<Rightarrow> patched env (ps_layout s) p (ps_layout s') \<and> ps_items s' = mdelete i (ps_items s)"
proof -
  let ?u = "updateAgentFile env refs (pr_agentId p) (pr_patch p) True (Some (pr_base p)) (ps_layout s)"
  obtain u ly' where u: "?u = (u, ly')" by fastforce
  have "patched env (ps_layout s) p ly'" if "u = Inr v" for v
    using u unfolding that
    by (rule updateAgentFile_read) (auto simp: patched_def)
  moreover have "ly' = ps_layout s" if "u = Inl e" for e
    using u that by (auto dest: updateAgentFile_error)
  ultimately show ?thesis
    using assms u
    by (auto simp: apply_update_def renamed_error_def on_files_def discard_def op_defs new_id_eq
        split: sum.splits if_splits prod.splits)
qed

lemma apply_file_files:
  assumes "apply_file env refs i it s = (r, s')"
  shows "case r of
      Inl e \<Rightarrow> ps_layout s' = ps_layout s \<or> half_applied (ps_layout s) it (ps_layout s')
    | Inr _ \<Rightarrow> pr_base (it_proposal it) = ed_digest env (read_text (ps_layout s) (agentFile (ps_layout s) (pr_agentId (it_proposal it)))) \<and>
        ps_layout s' = with_agent (ps_layout s) it \<and> ps_items s' = mdelete i (ps_items s)"
  using assms
  by (auto simp: apply_file_def Let_def with_agent_def with_image_def half_applied_def writeAtomic_def
      replaceFile_def on_files_def
      discard_def op_defs new_id_eq split: sum.splits if_splits prod.splits option.splits)

text \<open>
  C29 (apply_writes_reviewed). Applying writes what was reviewed and nothing else.  A proposal that was applied is gone from
  those that wait; for an update the agent's file had the text of the proposal's base and now has the
  patched text; for a whole file it had that text too, and now the agent's file has the proposal's YAML
  and the image's file, if one came along, its own.  A refused apply leaves the files alone, with one
  exception: \<open>half_applied\<close>.
\<close>

theorem apply_writes_reviewed:
  "case apply_proposal env refs i s of
     (Inl e, s') \<Rightarrow> ps_layout s' = ps_layout s \<or>
       (\<exists>it. mget (ps_items s) i = Some it \<and> half_applied (ps_layout s) it (ps_layout s'))
   | (Inr _, s') \<Rightarrow> ps_items s' = mdelete i (ps_items s) \<and>
       (\<exists>it. mget (ps_items s) i = Some it \<and> applied env (ps_layout s) it (ps_layout s'))"
proof (cases "mget (ps_items s) i")
  case None
  then show ?thesis by (simp add: apply_proposal_def known_item_def op_defs)
next
  case (Some it)
  let ?p = "it_proposal it"
  obtain ru su where u: "apply_update env refs i ?p s = (ru, su)" by fastforce
  obtain rf sf where f: "apply_file env refs i it s = (rf, sf)" by fastforce
  note facts = apply_update_files[OF u] apply_file_files[OF f]
  show ?thesis
  proof (cases "it_createOnly it \<and> existsFile (ps_layout s) (agentFile (ps_layout s) (pr_agentId ?p))")
    case True
    then show ?thesis using Some by (simp add: apply_proposal_def known_item_def op_defs Let_def)
  next
    case go: False
    show ?thesis
    proof (cases "pr_kind ?p = Update")
      case True
      with Some go u facts(1) show ?thesis
        by (cases ru) (auto simp: apply_proposal_def known_item_def op_defs Let_def applied_def)
    next
      case False
      with Some go f facts(2) show ?thesis
        by (cases rf) (auto simp: apply_proposal_def known_item_def op_defs Let_def applied_def)
    qed
  qed
qed

text \<open>
  The exception: an agent whose file is empty has the base of a new agent, so its proposal is a
  creation; the image is written before the file that cannot be created is refused.
\<close>

lemma image_written_before_refusal:
  assumes it: "mget (ps_items s) i = Some it" and kind: "pr_kind (it_proposal it) = Create"
    and img: "image_block it = Some b"
    and empty: "mget (ly_files (ps_layout s)) (agentFile (ps_layout s) (pr_agentId (it_proposal it))) = Some []"
    and base: "pr_base (it_proposal it) = ed_digest env []" and co: "\<not> it_createOnly it"
    and ok: "\<And>pid. pr_errors (full_proposal env refs (ps_layout s) pid
      \<lparr>bk_id = pr_agentId (it_proposal it), bk_yaml = pr_agentYaml (it_proposal it)\<rparr> (Some b)) = []"
    and there: "existsFile (with_image (ps_layout s) it) (agentFile (with_image (ps_layout s) it) (pr_agentId (it_proposal it)))"
  shows "\<exists>e s'. apply_proposal env refs i s = (Inl e, s') \<and> ps_layout s' = with_image (ps_layout s) it"
  using assms
  by (auto simp: apply_proposal_def known_item_def op_defs Let_def apply_file_def read_text_def new_id_eq on_files_def
      writeAtomic_def replaceFile_def with_image_def)

section \<open>Revisions\<close>

text \<open>
  A revision writes no file and keeps what the user reviewed against: the proposal's id, agent,
  kind and base stay, and no other proposal changes.
\<close>

theorem revise_keeps_base:
  "case revise env refs i patch s of (r, s') \<Rightarrow>
     ps_layout s' = ps_layout s \<and>
     (case r of
        Inl e \<Rightarrow> ps_items s' = ps_items s
      | Inr p \<Rightarrow> (\<exists>it. mget (ps_items s) i = Some it \<and> ps_items s' = mset_key i (it\<lparr>it_proposal := p\<rparr>) (ps_items s) \<and>
          pr_id p = i \<and> pr_agentId p = pr_agentId (it_proposal it) \<and> pr_kind p = pr_kind (it_proposal it) \<and>
          pr_base p = pr_base (it_proposal it)))"
proof -
  have update: "pr_agentId (makeUpdate env refs ly pid a (Inl q) None (Some d)) = a \<and>
      pr_kind (makeUpdate env refs ly pid a (Inl q) None (Some d)) = Update \<and>
      pr_base (makeUpdate env refs ly pid a (Inl q) None (Some d)) = d" for ly pid a q d
    by (simp add: makeUpdate_def Let_def split: sum.splits if_splits)
  have whole: "pr_agentId (full_proposal env refs ly pid b img) = bk_id b" for ly pid b img
    by (simp add: full_proposal_def Let_def)
  show ?thesis
    by (cases "mget (ps_items s) i"; cases "ed_patch env (pr_agentYaml (it_proposal (the (mget (ps_items s) i)))) patch")
      (auto simp: revise_def known_item_def op_defs Let_def new_id_eq put_item_def update whole)
qed

section \<open>Blocks\<close>

fun kind_name :: "block_kind \<Rightarrow> string" where
  "kind_name Agent_patch_block = ''agent-patch''"
| "kind_name Agent_block = ''agent''"
| "kind_name Image_block = ''image''"

text \<open>Output with blocks: what the model says before a block, the block's kind, id and YAML.\<close>

fun print_block :: "string \<times> block_kind \<times> block_text \<Rightarrow> string" where
  "print_block (pre, k, b) = pre @ FENCE @ ''anchi-'' @ kind_name k @ '' id='' @ bk_id b @ [CHR 0x0A] @ bk_yaml b @ FENCE @ [CHR 0x0A]"

text \<open>A block the header's syntax allows, whose YAML ends in one newline and has no closing fence in it.\<close>

fun printable :: "string \<times> block_kind \<times> block_text \<Rightarrow> bool" where
  "printable (pre, k, b) \<longleftrightarrow>
     CHR 0x60 \<notin> set pre \<and>
     bk_id b \<noteq> [] \<and> length (bk_id b) \<le> 40 \<and> list_all is_slug_char (bk_id b) \<and> hd (bk_id b) \<noteq> CHR ''-'' \<and>
     bk_yaml b = trim_end (bk_yaml b) @ [CHR 0x0A] \<and>
     index_of (CHR 0x0A # FENCE) (bk_yaml b @ FENCE) = Some (length (bk_yaml b) - 1)"

lemma starts_with_more: "length p \<le> length s \<Longrightarrow> starts_with p (s @ r) \<longleftrightarrow> starts_with p s"
  by (simp add: starts_with_def)

lemma starts_with_length: "starts_with p s \<Longrightarrow> length p \<le> length s"
  by (metis starts_with_def length_take min.cobounded1)

lemma index_of_length: "index_of p s = Some n \<Longrightarrow> length p \<le> length s"
proof (induction s arbitrary: n)
  case (Cons c s)
  show ?case
  proof (cases "starts_with p (c # s)")
    case True
    then show ?thesis by (rule starts_with_length)
  next
    case False
    with Cons.prems obtain m where "index_of p s = Some m" by auto
    with Cons.IH show ?thesis by fastforce
  qed
qed (auto split: if_splits)

lemma index_of_append: "index_of p s = Some n \<Longrightarrow> index_of p (s @ r) = Some n"
proof (induction s arbitrary: n)
  case Nil
  then show ?case by (cases r) (auto split: if_splits)
next
  case (Cons c s)
  have "length p \<le> length (c # s)" using index_of_length[OF Cons.prems] .
  then have "starts_with p ((c # s) @ r) \<longleftrightarrow> starts_with p (c # s)" by (rule starts_with_more)
  with Cons show ?case by (auto split: if_splits)
qed

lemma dropWhile_twice: "dropWhile P (dropWhile P xs) = dropWhile P xs"
  by (induction xs) auto

lemma trim_end_twice: "trim_end (trim_end s) = trim_end s"
  by (simp add: trim_end_def dropWhile_twice)

lemma not_slug_newline: "\<not> is_slug_char (CHR 0x0A)"
  by (simp add: is_slug_char_def is_lower_def is_digit_def)

lemma take_slug_id: "list_all is_slug_char i \<Longrightarrow> length i \<le> n \<Longrightarrow> take_slug n (i @ CHR 0x0A # r) = i"
proof (induction i arbitrary: n)
  case Nil
  then show ?case by (cases n) (auto simp: not_slug_newline)
next
  case (Cons c i)
  then show ?case by (cases n) auto
qed

lemma header_id_print:
  "i \<noteq> [] \<Longrightarrow> length i \<le> 40 \<Longrightarrow> list_all is_slug_char i \<Longrightarrow> hd i \<noteq> CHR ''-'' \<Longrightarrow>
   header_id k ('' id='' @ i @ CHR 0x0A # r) = Some (k, i, r)"
  by (simp add: header_id_def strip_def take_slug_id Let_def)

lemma match_header_print:
  assumes "i \<noteq> []" "length i \<le> 40" "list_all is_slug_char i" "hd i \<noteq> CHR ''-''"
  shows "match_header (FENCE @ ''anchi-'' @ kind_name k @ '' id='' @ i @ CHR 0x0A # r) = Some (k, i, r)"
  using header_id_print[OF assms]
  by (cases k) (simp_all add: match_header_def strip_def FENCE_def numeral_3_eq_3)

lemma match_header_other: "c \<noteq> CHR 0x60 \<Longrightarrow> match_header (c # s) = None"
  by (simp add: match_header_def strip_def FENCE_def numeral_3_eq_3)

lemma parse_skip: "CHR 0x60 \<notin> set pre \<Longrightarrow> parse_from (pre @ s) out = parse_from s out"
  by (induction pre) (auto simp: parse_from.simps[of "c # t" for c t] match_header_other)

lemma parse_match:
  assumes "match_header s = Some (k, i, r)" and "index_of (CHR 0x0A # FENCE) r = Some n" and "s \<noteq> []"
  shows "parse_from s out =
    parse_from (drop (n + 4) r) (put_block k \<lparr>bk_id = i, bk_yaml = trim_end (take n r) @ [CHR 0x0A]\<rparr> out)"
  using assms by (cases s) (simp_all add: parse_from.simps[of "c # cs" for c cs])

lemma parse_block:
  assumes "printable (pre, k, b)"
  shows "parse_from (print_block (pre, k, b) @ rest) out = parse_from rest (put_block k b out)"
proof -
  let ?y = "trim_end (bk_yaml b)"
  let ?r = "bk_yaml b @ FENCE @ CHR 0x0A # rest"
  have ok: "CHR 0x60 \<notin> set pre" "bk_id b \<noteq> []" "length (bk_id b) \<le> 40" "list_all is_slug_char (bk_id b)"
    "hd (bk_id b) \<noteq> CHR ''-''" and y: "bk_yaml b = ?y @ [CHR 0x0A]"
    and i: "index_of (CHR 0x0A # FENCE) (bk_yaml b @ FENCE) = Some (length (bk_yaml b) - 1)"
    using assms by auto
  let ?s = "FENCE @ ''anchi-'' @ kind_name k @ '' id='' @ bk_id b @ CHR 0x0A # ?r"
  from y have len: "length (bk_yaml b) - 1 = length ?y" by (metis add_diff_cancel_right' length_append_singleton Suc_eq_plus1)
  from index_of_append[OF i, of "CHR 0x0A # rest"] len
  have ix: "index_of (CHR 0x0A # FENCE) ?r = Some (length ?y)" by simp
  have tk: "take (length ?y) ?r = ?y" "drop (length ?y + 4) ?r = CHR 0x0A # rest"
    by (subst y, simp add: FENCE_def)+
  have tt: "trim_end ?y = ?y" by (rule trim_end_twice)
  have "?s \<noteq> []" by (simp add: FENCE_def)
  from parse_match[OF match_header_print[OF ok(2-5)] ix this, of out]
  have "parse_from ?s out = parse_from (CHR 0x0A # rest) (put_block k \<lparr>bk_id = bk_id b, bk_yaml = ?y @ [CHR 0x0A]\<rparr> out)"
    by (simp only: tk tt)
  also have "\<lparr>bk_id = bk_id b, bk_yaml = ?y @ [CHR 0x0A]\<rparr> = b" using y by (cases b) simp
  also have "parse_from (CHR 0x0A # rest) (put_block k b out) = parse_from rest (put_block k b out)"
    by (subst parse_from.simps) (simp add: match_header_other)
  finally have "parse_from ?s out = parse_from rest (put_block k b out)" .
  with parse_skip[OF ok(1), of ?s] show ?thesis by simp
qed

lemma put_block_fields:
  "pb_image (put_block k b out) = (if k = Image_block then Some b else pb_image out)"
  "pb_agent (put_block k b out) = (if k = Image_block then pb_agent out else if k = Agent_block then Some b else None)"
  "pb_patch (put_block k b out) = (if k = Image_block then pb_patch out else if k = Agent_block then None else Some b)"
  by (simp_all add: put_block_def split: block_kind.split)

text \<open>The last part that satisfies \<open>P\<close>.\<close>

definition last_part :: "('a \<Rightarrow> bool) \<Rightarrow> 'a list \<Rightarrow> 'a option" where
  "last_part P xs = List.find P (rev xs)"

lemma last_part_Nil [simp]: "last_part P [] = None"
  by (simp add: last_part_def)

lemma last_part_snoc [simp]: "last_part P (xs @ [x]) = (if P x then Some x else last_part P xs)"
  by (simp add: last_part_def)

lemma parse_parts:
  "list_all printable parts \<Longrightarrow>
   parse_from (concat (map print_block parts)) out = fold (\<lambda>(_, k, b). put_block k b) parts out"
proof (induction parts arbitrary: out)
  case Nil
  then show ?case by (simp add: parse_from.simps[of "[]"])
next
  case (Cons p parts)
  obtain pre k b where p: "p = (pre, k, b)" by (cases p) auto
  with Cons.prems have "printable (pre, k, b)" by simp
  from parse_block[OF this] Cons p show ?case by (simp del: print_block.simps printable.simps)
qed

text \<open>
  C30 (blocks_read_back). Reading the blocks back: from output that holds well-formed blocks, with any text before each that
  has no back quote, \<open>parseBlocks\<close> returns the last image block as the image, and the last of the agent and
  patch blocks as what it is, with the other of the two empty; what has no block is empty.
\<close>

theorem blocks_read_back:
  assumes "list_all printable parts"
  shows "pb_image (parseBlocks (concat (map print_block parts))) =
      map_option (\<lambda>(_, _, b). b) (last_part (\<lambda>(_, k, _). k = Image_block) parts) \<and>
    (case last_part (\<lambda>(_, k, _). k = Agent_block \<or> k = Agent_patch_block) parts of
       None \<Rightarrow> pb_agent (parseBlocks (concat (map print_block parts))) = None \<and>
               pb_patch (parseBlocks (concat (map print_block parts))) = None
     | Some (_, k, b) \<Rightarrow>
         pb_agent (parseBlocks (concat (map print_block parts))) = (if k = Agent_block then Some b else None) \<and>
         pb_patch (parseBlocks (concat (map print_block parts))) = (if k = Agent_block then None else Some b))"
proof -
  have eq: "parseBlocks (concat (map print_block parts)) = fold (\<lambda>(_, k, b). put_block k b) parts no_blocks"
    using parse_parts [OF assms] by (simp add: parseBlocks_def)
  have "pb_image (fold (\<lambda>(_, k, b). put_block k b) parts no_blocks) =
      map_option (\<lambda>(_, _, b). b) (last_part (\<lambda>(_, k, _). k = Image_block) parts) \<and>
    (case last_part (\<lambda>(_, k, _). k = Agent_block \<or> k = Agent_patch_block) parts of
       None \<Rightarrow> pb_agent (fold (\<lambda>(_, k, b). put_block k b) parts no_blocks) = None \<and>
               pb_patch (fold (\<lambda>(_, k, b). put_block k b) parts no_blocks) = None
     | Some (_, k, b) \<Rightarrow>
         pb_agent (fold (\<lambda>(_, k, b). put_block k b) parts no_blocks) = (if k = Agent_block then Some b else None) \<and>
         pb_patch (fold (\<lambda>(_, k, b). put_block k b) parts no_blocks) = (if k = Agent_block then None else Some b))"
  proof (induction parts rule: rev_induct)
    case (snoc p parts)
    obtain pre k b where p: "p = (pre, k, b)" by (cases p) auto
    have "fold (\<lambda>(_, k, b). put_block k b) (parts @ [p]) no_blocks =
        put_block k b (fold (\<lambda>(_, k, b). put_block k b) parts no_blocks)"
      by (simp add: p)
    then show ?case using snoc unfolding p
      by (cases k; simp only: put_block_fields) (simp_all add: put_block_fields split: option.splits prod.splits)
  qed (simp add: no_blocks_def)
  then show ?thesis unfolding eq .
qed

definition sample_parts :: "(string \<times> block_kind \<times> block_text) list" where
  "sample_parts =
     [(''Here: '', Agent_block, \<lparr>bk_id = ''dev'', bk_yaml = ''name: d'' @ [CHR 0x0A]\<rparr>),
      ([], Image_block, \<lparr>bk_id = ''py'', bk_yaml = ''a: 1'' @ [CHR 0x0A]\<rparr>),
      (''or'', Agent_patch_block, \<lparr>bk_id = ''dev'', bk_yaml = ''model: x'' @ [CHR 0x0A]\<rparr>)]"

theorem blocks_read_back_witness:
  "parseBlocks (concat (map print_block sample_parts)) =
     \<lparr>pb_agent = None, pb_patch = Some \<lparr>bk_id = ''dev'', bk_yaml = ''model: x'' @ [CHR 0x0A]\<rparr>,
      pb_image = Some \<lparr>bk_id = ''py'', bk_yaml = ''a: 1'' @ [CHR 0x0A]\<rparr>\<rparr>"
proof -
  have "list_all printable sample_parts"
    by (simp add: sample_parts_def is_slug_char_def is_lower_def is_digit_def trim_end_def is_space_def FENCE_def
        numeral_3_eq_3)
  from blocks_read_back[OF this] show ?thesis by (simp add: sample_parts_def last_part_def)
qed

end
