(* ===== verification/Sanitize.thy ===== *)
theory Sanitize
  imports Prelude
begin

text \<open>
  \<^verbatim>\<open>packages/core/src/sanitize.ts\<close>: what untrusted text may put on a terminal.  A text is here the
  list of its UTF-16 units, which the regular expressions of the code run over one by one.
\<close>

type_synonym units = "nat list"

section \<open>Units of a string\<close>

text \<open>
  The strings of the rest of the development are UTF-8 bytes; \<open>utf16\<close> gives the units JavaScript has
  for them (a byte that fits nowhere is the replacement character), and \<open>lit\<close> those of an ASCII literal.
\<close>

fun utf16_of :: "nat list \<Rightarrow> units" where
  "utf16_of [] = []"
| "utf16_of (a # s) =
     (if a < 0x80 then a # utf16_of s
      else case s of
          [] \<Rightarrow> [0xFFFD]
        | b # s1 \<Rightarrow>
            if 0xC2 \<le> a \<and> a < 0xE0 then ((a - 0xC0) * 64 + (b - 0x80)) # utf16_of s1
            else (case s1 of
                [] \<Rightarrow> [0xFFFD]
              | c # s2 \<Rightarrow>
                  if 0xE0 \<le> a \<and> a < 0xF0 then ((a - 0xE0) * 4096 + (b - 0x80) * 64 + (c - 0x80)) # utf16_of s2
                  else (case s2 of
                      [] \<Rightarrow> [0xFFFD]
                    | d # s3 \<Rightarrow>
                        if 0xF0 \<le> a
                        then (let p = (a - 0xF0) * 262144 + (b - 0x80) * 4096 + (c - 0x80) * 64 + (d - 0x80) - 0x10000
                              in (0xD800 + p div 1024) # (0xDC00 + p mod 1024) # utf16_of s3)
                        else 0xFFFD # utf16_of s)))"

definition lit :: "string \<Rightarrow> units" where
  "lit s = map of_char s"

definition utf16 :: "string \<Rightarrow> units" where
  "utf16 s = utf16_of (lit s)"

section \<open>The regular expressions\<close>

definition between :: "nat \<Rightarrow> nat \<Rightarrow> nat \<Rightarrow> bool" where
  "between a b c \<longleftrightarrow> a \<le> c \<and> c \<le> b"

text \<open>\<open>[0-?]*[ -/]*[@-~]\<close>: what is left after the rest of a control sequence, if one is there.\<close>

definition csi_rest :: "units \<Rightarrow> units option" where
  "csi_rest s =
     (case dropWhile (between 0x20 0x2F) (dropWhile (between 0x30 0x3F) s) of
        [] \<Rightarrow> None
      | c # cs \<Rightarrow> if between 0x40 0x7E c then Some cs else None)"

text \<open>\<open>[\s\S]*?\<close> up to a bell or \<open>ESC \\<close>, and for the C1 forms up to a bell or \<open>0x9C\<close>, or the end.\<close>

fun string_rest :: "units \<Rightarrow> units" where
  "string_rest [] = []"
| "string_rest (c # cs) =
     (if c = 0x07 then cs
      else if c = 0x1B \<and> cs \<noteq> [] \<and> hd cs = 0x5C then tl cs
      else string_rest cs)"

fun c1_string_rest :: "units \<Rightarrow> units" where
  "c1_string_rest [] = []"
| "c1_string_rest (c # cs) = (if c = 0x07 \<or> c = 0x9C then cs else c1_string_rest cs)"

definition line_end :: "nat \<Rightarrow> bool" where
  "line_end c \<longleftrightarrow> c \<in> {0x0A, 0x0D, 0x2028, 0x2029}"

text \<open>What is left after the sequence that an ESC starts; the alternatives in their order.\<close>

definition esc_rest :: "units \<Rightarrow> units" where
  "esc_rest s =
     (case s of
        [] \<Rightarrow> []
      | c # cs \<Rightarrow>
          (case if c = 0x5B then csi_rest cs else None of
             Some r \<Rightarrow> r
           | None \<Rightarrow>
               if c \<in> {0x5D, 0x50, 0x58, 0x5E, 0x5F} then string_rest cs
               else if between 0x40 0x5A c \<or> between 0x5C 0x5F c then cs
               else if line_end c then s else cs))"

lemma length_csi_rest: "csi_rest s = Some r \<Longrightarrow> length r \<le> length s"
proof -
  assume "csi_rest s = Some r"
  then obtain c where "dropWhile (between 0x20 0x2F) (dropWhile (between 0x30 0x3F) s) = c # r"
    by (auto simp: csi_rest_def split: list.splits if_splits)
  then have "length (c # r) \<le> length (dropWhile (between 0x30 0x3F) s)"
    by (metis length_dropWhile_le)
  also have "\<dots> \<le> length s" by (rule length_dropWhile_le)
  finally show ?thesis by simp
qed

lemma length_string_rest: "length (string_rest s) \<le> length s"
  by (induction s) auto

lemma length_c1_string_rest: "length (c1_string_rest s) \<le> length s"
  by (induction s) auto

lemma length_esc_rest: "length (esc_rest s) \<le> length s"
  by (auto simp: esc_rest_def dest!: length_csi_rest intro: le_SucI length_string_rest
      split: list.split option.split if_splits)

text \<open>\<open>replace(ESCAPE_SEQUENCES, '')\<close>.\<close>

function strip_escapes :: "units \<Rightarrow> units" where
  "strip_escapes [] = []"
| "strip_escapes (c # cs) = (if c = 0x1B then strip_escapes (esc_rest cs) else c # strip_escapes cs)"
  by pat_completeness auto
termination by (relation "measure length") (auto simp: le_imp_less_Suc length_esc_rest)

text \<open>\<open>replace(C1_SEQUENCES, '')\<close>.\<close>

definition c1_rest :: "nat \<Rightarrow> units \<Rightarrow> units option" where
  "c1_rest c cs =
     (if c = 0x9B then csi_rest cs
      else if c \<in> {0x9D, 0x90, 0x98, 0x9E, 0x9F} then Some (c1_string_rest cs) else None)"

lemma length_c1_rest: "c1_rest c cs = Some r \<Longrightarrow> length r \<le> length cs"
  by (auto simp: c1_rest_def dest: length_csi_rest intro: length_c1_string_rest split: if_splits)

function strip_c1 :: "units \<Rightarrow> units" where
  "strip_c1 [] = []"
| "strip_c1 (c # cs) = (case c1_rest c cs of Some r \<Rightarrow> strip_c1 r | None \<Rightarrow> c # strip_c1 cs)"
  by pat_completeness auto
termination by (relation "measure length") (auto simp: le_imp_less_Suc dest: length_c1_rest)

fun unify_newlines :: "units \<Rightarrow> units" where
  "unify_newlines [] = []"
| "unify_newlines (c # cs) =
     (if c = 0x0D then 0x0A # unify_newlines (if cs \<noteq> [] \<and> hd cs = 0x0A then tl cs else cs)
      else c # unify_newlines cs)"

definition control :: "nat \<Rightarrow> bool" where
  "control c \<longleftrightarrow> c \<le> 0x08 \<or> between 0x0B 0x1F c \<or> between 0x7F 0x9F c"

definition bidi :: "nat \<Rightarrow> bool" where
  "bidi c \<longleftrightarrow> c = 0x061C \<or> between 0x200E 0x200F c \<or> between 0x202A 0x202E c \<or> between 0x2066 0x2069 c"

section \<open>Sanitizing\<close>

definition sanitize :: "units \<Rightarrow> units" where
  "sanitize t =
     List.filter (\<lambda>c. \<not> bidi c) (List.filter (\<lambda>c. \<not> control c) (strip_c1 (strip_escapes (unify_newlines t))))"

text \<open>\<open>\s\<close> and what \<open>trim\<close> takes away.\<close>

definition js_space :: "nat \<Rightarrow> bool" where
  "js_space c \<longleftrightarrow> between 0x09 0x0D c \<or> c \<in> {0x20, 0xA0, 0x1680, 0x202F, 0x205F, 0x3000, 0xFEFF} \<or>
     between 0x2000 0x200A c \<or> between 0x2028 0x2029 c"

definition trim_units :: "units \<Rightarrow> units" where
  "trim_units s = rev (dropWhile js_space (rev (dropWhile js_space s)))"

fun collapse_units :: "bool \<Rightarrow> units \<Rightarrow> units" where
  "collapse_units in_space [] = []"
| "collapse_units in_space (c # cs) =
     (if js_space c then (if in_space then [] else [0x20]) @ collapse_units True cs
      else c # collapse_units False cs)"

definition sanitizeLine :: "units \<Rightarrow> units" where
  "sanitizeLine t = trim_units (collapse_units False (sanitize t))"

fun split_units :: "nat \<Rightarrow> units \<Rightarrow> units list" where
  "split_units c [] = [[]]"
| "split_units c (x # xs) =
     (if x = c then [] # split_units c xs
      else case split_units c xs of [] \<Rightarrow> [[x]] | w # ws \<Rightarrow> (x # w) # ws)"

definition sanitizeLines :: "units \<Rightarrow> nat \<Rightarrow> units list" where
  "sanitizeLines t limit = map sanitizeLine (split_units 0x0A (take limit (sanitize t)))"

section \<open>What a terminal gets\<close>

definition harmless :: "nat \<Rightarrow> bool" where
  "harmless c \<longleftrightarrow> \<not> control c \<and> \<not> bidi c"

lemma harmless_parts: "harmless c \<Longrightarrow> c \<noteq> 0x1B \<and> c \<noteq> 0x0D \<and> \<not> between 0x80 0x9F c"
  by (auto simp: harmless_def control_def between_def)

lemma unify_harmless: "list_all harmless t \<Longrightarrow> unify_newlines t = t"
  by (induction t) (auto dest: harmless_parts)

lemma escapes_harmless: "list_all harmless t \<Longrightarrow> strip_escapes t = t"
  by (induction t) (auto dest: harmless_parts)

lemma c1_harmless: "list_all harmless t \<Longrightarrow> strip_c1 t = t"
  by (induction t) (auto simp: c1_rest_def harmless_def control_def between_def)

lemma sanitize_harmless: "list_all harmless t \<Longrightarrow> sanitize t = t"
  by (simp add: sanitize_def unify_harmless escapes_harmless c1_harmless filter_id_conv harmless_def list_all_iff)

lemma harmless_sanitize: "list_all harmless (sanitize t)"
  by (simp add: sanitize_def harmless_def list_all_iff)

text \<open>
  What a program may write to a terminal, piece by piece: text, a line end, a control or direction
  character, a control sequence (its parameters, intermediate and final units), a string that a bell
  or \<open>ESC \\<close> ends (titles, clipboard writes and hyperlinks), a short escape, and the forms that begin with
  one C1 unit.
\<close>

datatype output_piece =
  Text_piece units
| Line_piece
| Sign_piece nat
| Csi_piece units units nat
| String_piece nat units bool
| Short_piece nat
| C1_csi_piece units units nat
| C1_string_piece nat units bool

definition C1_STRINGS :: units where "C1_STRINGS = [0x9D, 0x90, 0x98, 0x9E, 0x9F]"

definition csi_ok :: "units \<Rightarrow> units \<Rightarrow> nat \<Rightarrow> bool" where
  "csi_ok ps ms f \<longleftrightarrow> list_all (between 0x30 0x3F) ps \<and> list_all (between 0x20 0x2F) ms \<and> between 0x40 0x7E f"

fun piece_ok :: "output_piece \<Rightarrow> bool" where
  "piece_ok (Text_piece t) = list_all harmless t"
| "piece_ok Line_piece = True"
| "piece_ok (Sign_piece c) = ((control c \<or> bidi c) \<and> c \<notin> {0x1B, 0x0D, 0x9B} \<union> set C1_STRINGS)"
| "piece_ok (Csi_piece ps ms f) = csi_ok ps ms f"
| "piece_ok (String_piece c t st) = (c \<in> {0x5D, 0x50, 0x58, 0x5E, 0x5F} \<and> 0x07 \<notin> set t \<and> 0x1B \<notin> set t)"
| "piece_ok (Short_piece c) = (c \<notin> {0x5B, 0x5D, 0x50, 0x58, 0x5E, 0x5F} \<and> \<not> line_end c)"
| "piece_ok (C1_csi_piece ps ms f) = csi_ok ps ms f"
| "piece_ok (C1_string_piece c t st) = (c \<in> set C1_STRINGS \<and> 0x07 \<notin> set t \<and> 0x1B \<notin> set t \<and> 0x9C \<notin> set t)"

fun piece_text :: "output_piece \<Rightarrow> units" where
  "piece_text (Text_piece t) = t"
| "piece_text Line_piece = [0x0D, 0x0A]"
| "piece_text (Sign_piece c) = [c]"
| "piece_text (Csi_piece ps ms f) = [0x1B, 0x5B] @ ps @ ms @ [f]"
| "piece_text (String_piece c t st) = [0x1B, c] @ t @ (if st then [0x1B, 0x5C] else [0x07])"
| "piece_text (Short_piece c) = [0x1B, c]"
| "piece_text (C1_csi_piece ps ms f) = [0x9B] @ ps @ ms @ [f]"
| "piece_text (C1_string_piece c t st) = [c] @ t @ (if st then [0x9C] else [0x07])"

fun piece_kept :: "output_piece \<Rightarrow> units" where
  "piece_kept (Text_piece t) = t"
| "piece_kept Line_piece = [0x0A]"
| "piece_kept _ = []"

text \<open>The passes of \<open>sanitize\<close>, each over a prefix of the text.\<close>

lemma unify_append:
  "xs = [] \<or> last xs \<noteq> 0x0D \<or> ys = [] \<or> hd ys \<noteq> 0x0A \<Longrightarrow>
   unify_newlines (xs @ ys) = unify_newlines xs @ unify_newlines ys"
  by (induction xs rule: unify_newlines.induct) (auto simp: hd_append neq_Nil_conv split: if_splits)

lemma unify_same: "0x0D \<notin> set xs \<Longrightarrow> unify_newlines xs = xs"
  by (induction xs) auto

lemma unify_no: "c \<noteq> 0x0A \<Longrightarrow> c \<notin> set xs \<Longrightarrow> c \<notin> set (unify_newlines xs)"
  by (induction xs rule: unify_newlines.induct) (auto dest: list.set_sel(2) simp: neq_Nil_conv split: if_splits)

lemma escapes_append: "0x1B \<notin> set xs \<Longrightarrow> strip_escapes (xs @ ys) = xs @ strip_escapes ys"
  by (induction xs) auto

lemma c1_append: "set xs \<inter> insert 0x9B (set C1_STRINGS) = {} \<Longrightarrow> strip_c1 (xs @ ys) = xs @ strip_c1 ys"
  by (induction xs) (auto simp: c1_rest_def C1_STRINGS_def)

lemma csi_rest_ok:
  assumes "csi_ok ps ms f"
  shows "csi_rest (ps @ ms @ f # ys) = Some ys"
proof -
  have "dropWhile (between 0x30 0x3F) (ps @ ms @ f # ys) = ms @ f # ys"
    using assms by (cases ms) (auto simp: csi_ok_def list_all_iff between_def dropWhile_append)
  moreover have "dropWhile (between 0x20 0x2F) (ms @ f # ys) = f # ys"
    using assms by (auto simp: csi_ok_def list_all_iff between_def dropWhile_append)
  ultimately show ?thesis using assms by (simp add: csi_rest_def csi_ok_def)
qed

lemma string_rest_bell: "0x07 \<notin> set t \<Longrightarrow> 0x1B \<notin> set t \<Longrightarrow> string_rest (t @ 0x07 # ys) = ys"
  by (induction t) auto

lemma string_rest_st: "0x07 \<notin> set t \<Longrightarrow> 0x1B \<notin> set t \<Longrightarrow> string_rest (t @ 0x1B # 0x5C # ys) = ys"
  by (induction t) auto

lemma c1_string_rest_ends:
  "0x07 \<notin> set t \<Longrightarrow> 0x9C \<notin> set t \<Longrightarrow> e = 0x07 \<or> e = 0x9C \<Longrightarrow> c1_string_rest (t @ e # ys) = ys"
  by (induction t) auto

definition sequence_steps :: "units \<Rightarrow> units" where
  "sequence_steps t = strip_c1 (strip_escapes (unify_newlines t))"

lemma csi_no_cr: "csi_ok ps ms f \<Longrightarrow> 0x0D \<notin> set (ps @ ms @ [f]) \<and> 0x1B \<notin> set (ps @ ms @ [f])"
  by (auto simp: csi_ok_def list_all_iff between_def)

lemma harmless_no_c1: "list_all harmless t \<Longrightarrow> set t \<inter> insert 0x9B (set C1_STRINGS) = {} \<and> 0x0D \<notin> set t \<and> 0x1B \<notin> set t"
  by (auto simp: list_all_iff C1_STRINGS_def dest!: harmless_parts simp: between_def)

text \<open>The part of a piece that the sequence replacements leave.\<close>

fun piece_left :: "output_piece \<Rightarrow> units" where
  "piece_left (Sign_piece c) = [c]"
| "piece_left p = piece_kept p"

lemma sequence_piece:
  assumes "piece_ok p"
  shows "sequence_steps (piece_text p @ ys) = piece_left p @ sequence_steps ys"
proof (cases p)
  case (Text_piece t)
  then have t: "set t \<inter> insert 0x9B (set C1_STRINGS) = {}" "0x0D \<notin> set t" "0x1B \<notin> set t"
    using assms harmless_no_c1 by auto
  then have "t = [] \<or> last t \<noteq> 0x0D" using last_in_set [of t] by metis
  then have "unify_newlines (t @ ys) = t @ unify_newlines ys" using t unify_append unify_same by metis
  then show ?thesis using Text_piece t by (simp add: sequence_steps_def escapes_append c1_append)
next
  case Line_piece
  then show ?thesis by (simp add: sequence_steps_def c1_rest_def)
next
  case (Sign_piece c)
  then show ?thesis using assms by (auto simp: sequence_steps_def c1_rest_def C1_STRINGS_def)
next
  case (Csi_piece ps ms f)
  then have ok: "csi_ok ps ms f" using assms by simp
  have "unify_newlines (piece_text p @ ys) = piece_text p @ unify_newlines ys"
    using csi_no_cr [OF ok] unify_append [of "piece_text p" ys] unify_same [of "piece_text p"] Csi_piece
    by simp
  then show ?thesis using Csi_piece csi_rest_ok [OF ok] by (simp add: sequence_steps_def esc_rest_def)
next
  case (String_piece c t st)
  let ?u = "unify_newlines t"
  have u: "0x07 \<notin> set ?u" "0x1B \<notin> set ?u" using assms String_piece unify_no by auto
  let ?e = "if st then [0x1B, 0x5C] else [0x07]"
  have "unify_newlines (piece_text p @ ys) = [0x1B, c] @ ?u @ ?e @ unify_newlines ys"
    using assms String_piece unify_append [of t "?e @ ys"] by (auto split: if_splits)
  then show ?thesis
    using String_piece u assms string_rest_bell [OF u] string_rest_st [OF u]
    by (auto simp: sequence_steps_def esc_rest_def split: if_splits)
next
  case (Short_piece c)
  then show ?thesis using assms by (auto simp: sequence_steps_def esc_rest_def line_end_def)
next
  case (C1_csi_piece ps ms f)
  then have ok: "csi_ok ps ms f" using assms by simp
  have "unify_newlines (piece_text p @ ys) = piece_text p @ unify_newlines ys"
    using csi_no_cr [OF ok] unify_append [of "piece_text p" ys] unify_same [of "piece_text p"] C1_csi_piece
    by simp
  moreover have "0x1B \<notin> set (piece_text p)" using csi_no_cr [OF ok] C1_csi_piece by simp
  ultimately show ?thesis
    using C1_csi_piece csi_rest_ok [OF ok] by (simp add: sequence_steps_def escapes_append c1_rest_def)
next
  case (C1_string_piece c t st)
  let ?u = "unify_newlines t"
  have u: "0x07 \<notin> set ?u" "0x1B \<notin> set ?u" "0x9C \<notin> set ?u" using assms C1_string_piece unify_no by auto
  let ?e = "if st then 0x9C else (0x07 :: nat)"
  have c: "c \<in> {0x9D, 0x90, 0x98, 0x9E, 0x9F}" using assms C1_string_piece by (simp add: C1_STRINGS_def)
  have "unify_newlines (piece_text p @ ys) = (c # ?u @ [?e]) @ unify_newlines ys"
    using c C1_string_piece unify_append [of t "?e # ys"] by (auto split: if_splits)
  moreover have "0x1B \<notin> set (c # ?u @ [?e])" using u c by auto
  ultimately show ?thesis
    using C1_string_piece c c1_string_rest_ends [OF u(1,3), of ?e]
    by (auto simp: sequence_steps_def escapes_append c1_rest_def split: if_splits)
qed

lemma sequence_pieces:
  "list_all piece_ok ps \<Longrightarrow> sequence_steps (concat (map piece_text ps)) = concat (map piece_left ps)"
  by (induction ps) (simp_all add: sequence_piece, simp add: sequence_steps_def)

lemma piece_filtered:
  "piece_ok p \<Longrightarrow> List.filter (\<lambda>c. \<not> control c \<and> \<not> bidi c) (piece_left p) = piece_kept p"
  by (cases p) (auto simp: harmless_def list_all_iff filter_id_conv control_def bidi_def between_def)

text \<open>
  C32 (sanitize_safe). Whatever the text, nothing that moves the cursor, writes the clipboard or reorders
  text reaches the terminal: of the control characters only newlines and tabs are left and no direction
  override is.  Of a text made of harmless characters, line ends and whole terminal sequences,
  exactly the characters and line ends come through, in order: a sequence leaves nothing behind, its
  payload included, and nothing else is lost.  Sanitizing twice is sanitizing once.
\<close>

theorem sanitize_safe:
  assumes "list_all piece_ok ps"
  shows "sanitize (concat (map piece_text ps)) = concat (map piece_kept ps) \<and>
    list_all harmless (sanitize t) \<and> sanitize (sanitize t) = sanitize t"
proof -
  have "sanitize (concat (map piece_text ps)) = List.filter (\<lambda>c. \<not> bidi c) (List.filter (\<lambda>c. \<not> control c)
      (sequence_steps (concat (map piece_text ps))))"
    by (simp only: sanitize_def sequence_steps_def)
  also have "\<dots> = concat (map piece_kept ps)"
    unfolding sequence_pieces [OF assms] using assms
    by (induction ps) (simp_all add: piece_filtered)
  finally show ?thesis using harmless_sanitize sanitize_harmless by blast
qed

text \<open>A coloured word, a clipboard write and a title, with their line end.\<close>

definition coloured_output :: "output_piece list" where
  "coloured_output = [Csi_piece [0x33, 0x31] [] 0x6D, Text_piece (lit ''ok''), String_piece 0x5D (lit ''52;c;aGk='') False,
     C1_string_piece 0x9D (lit ''0;title'') True, Sign_piece 0x202E, Line_piece]"

lemma sanitize_safe_witness:
  "sanitize (concat (map piece_text coloured_output)) = lit ''ok'' @ [0x0A]"
proof -
  have "list_all piece_ok coloured_output"
    by (simp add: coloured_output_def lit_def csi_ok_def between_def harmless_def control_def bidi_def C1_STRINGS_def
        line_end_def)
  from sanitize_safe [OF this] show ?thesis by (simp add: coloured_output_def)
qed

lemma collapse_spaces_only: "c \<in> set (collapse_units b s) \<Longrightarrow> js_space c \<Longrightarrow> c = 0x20"
  by (induction b s rule: collapse_units.induct) (auto split: if_splits)

lemma set_trim: "set (trim_units s) \<subseteq> set s"
  by (auto simp: trim_units_def dest!: set_dropWhileD)

lemma set_collapse: "set (collapse_units b s) \<subseteq> insert 0x20 (set s)"
  by (induction b s rule: collapse_units.induct) auto

lemma sanitizeLine_one_line: "list_all (\<lambda>c. harmless c \<and> (js_space c \<longrightarrow> c = 0x20)) (sanitizeLine t)"
proof -
  have "harmless 0x20" by (simp add: harmless_def control_def bidi_def between_def)
  then show ?thesis
    using harmless_sanitize[of t] set_trim set_collapse collapse_spaces_only
    by (fastforce simp: sanitizeLine_def list_all_iff)
qed

end
