(* ===== verification/Draft.thy ===== *)
theory Draft
  imports Sanitize
begin

text \<open>
  \<^verbatim>\<open>packages/tui/src/tui/lineedit.ts\<close>: the input of the terminal.  Positions count code points, so
  a text is here the list of its code points.  \<open>seg\<close> is \<open>Intl.Segmenter\<close>, which cuts a text into the
  clusters a reader takes for one character, and \<open>sw\<close> the package \<open>string-width\<close>.
\<close>

type_synonym points = "nat list"

record draft =
  dr_text :: points
  dr_cursor :: nat

definition EMPTY_DRAFT :: draft where
  "EMPTY_DRAFT = \<lparr>dr_text = [], dr_cursor = 0\<rparr>"

definition draftOf :: "points \<Rightarrow> draft" where
  "draftOf t = \<lparr>dr_text = t, dr_cursor = length t\<rparr>"

definition insert_text :: "draft \<Rightarrow> points \<Rightarrow> draft" where
  "insert_text d t =
     \<lparr>dr_text = take (dr_cursor d) (dr_text d) @ t @ drop (dr_cursor d) (dr_text d),
      dr_cursor = dr_cursor d + length t\<rparr>"

section \<open>Words and lines\<close>

fun back_while :: "(nat \<Rightarrow> bool) \<Rightarrow> points \<Rightarrow> nat \<Rightarrow> nat" where
  "back_while p c 0 = 0"
| "back_while p c (Suc i) = (if p (c ! i) then back_while p c i else Suc i)"

definition wordStart :: "points \<Rightarrow> nat \<Rightarrow> nat" where
  "wordStart c i = back_while (\<lambda>x. \<not> js_space x) c (back_while js_space c i)"

definition forward_while :: "(nat \<Rightarrow> bool) \<Rightarrow> points \<Rightarrow> nat \<Rightarrow> nat" where
  "forward_while p c i = i + length (takeWhile p (drop i c))"

definition wordEnd :: "points \<Rightarrow> nat \<Rightarrow> nat" where
  "wordEnd c i = forward_while (\<lambda>x. \<not> js_space x) c (forward_while js_space c i)"

definition cut_range :: "points \<Rightarrow> nat \<Rightarrow> nat \<Rightarrow> nat \<Rightarrow> draft" where
  "cut_range c start stop cursor = \<lparr>dr_text = take start c @ drop stop c, dr_cursor = cursor\<rparr>"

definition NL :: nat where "NL = 0x0A"

definition line_start :: "points \<Rightarrow> nat \<Rightarrow> nat" where
  "line_start c i = back_while (\<lambda>x. x \<noteq> NL) c i"

definition line_stop :: "points \<Rightarrow> nat \<Rightarrow> nat" where
  "line_stop c i = forward_while (\<lambda>x. x \<noteq> NL) c i"

fun boundaries :: "nat \<Rightarrow> points list \<Rightarrow> nat list" where
  "boundaries n [] = [n]"
| "boundaries n (s # ss) = n # boundaries (n + length s) ss"

text \<open>The boundary before a position, and the one after it.\<close>

definition previous_stop :: "nat list \<Rightarrow> nat \<Rightarrow> nat" where
  "previous_stop bs i = (case List.filter (\<lambda>n. n < i) bs of [] \<Rightarrow> 0 | ns \<Rightarrow> last ns)"

definition next_stop :: "nat list \<Rightarrow> nat \<Rightarrow> nat \<Rightarrow> nat" where
  "next_stop bs i len = (case List.find (\<lambda>n. n > i) bs of None \<Rightarrow> len | Some n \<Rightarrow> n)"

section \<open>Editing\<close>

definition edit :: "(points \<Rightarrow> points list) \<Rightarrow> draft \<Rightarrow> string \<Rightarrow> draft option" where
  "edit seg d stroke =
     (let c = dr_text d; i = min (dr_cursor d) (length c);
          bs = boundaries 0 (seg c); prev = previous_stop bs i; nxt = next_stop bs i (length c)
      in if stroke \<in> {''left'', ''ctrl+b''} then Some (d\<lparr>dr_cursor := prev\<rparr>)
         else if stroke \<in> {''right'', ''ctrl+f''} then Some (d\<lparr>dr_cursor := nxt\<rparr>)
         else if stroke \<in> {''home'', ''ctrl+a''} then Some (d\<lparr>dr_cursor := line_start c i\<rparr>)
         else if stroke \<in> {''end'', ''ctrl+e''} then Some (d\<lparr>dr_cursor := line_stop c i\<rparr>)
         else if stroke = ''alt+b'' then Some (d\<lparr>dr_cursor := wordStart c i\<rparr>)
         else if stroke = ''alt+f'' then Some (d\<lparr>dr_cursor := wordEnd c i\<rparr>)
         else if stroke \<in> {''backspace'', ''ctrl+h''} then Some (if i \<noteq> 0 then cut_range c prev i prev else d)
         else if stroke = ''ctrl+d'' then Some (cut_range c i nxt i)
         else if stroke \<in> {''ctrl+w'', ''alt+backspace''}
         then Some (cut_range c (wordStart c i) i (wordStart c i))
         else if stroke = ''alt+d'' then Some (cut_range c i (wordEnd c i) i)
         else if stroke = ''ctrl+u'' then Some (cut_range c (line_start c i) i (line_start c i))
         else if stroke = ''ctrl+k'' then Some (cut_range c i (line_stop c i) i)
         else None)"

section \<open>One line of a draft\<close>

text \<open>As many characters as fit; \<open>reserve\<close> columns are left over.\<close>

fun fit :: "(points \<Rightarrow> nat) \<Rightarrow> int \<Rightarrow> int \<Rightarrow> points \<Rightarrow> points \<times> int" where
  "fit sw reserve room [] = ([], room)"
| "fit sw reserve room (x # xs) =
     (let w = int (sw [x])
      in if w > room - reserve then ([], room)
         else (case fit sw reserve (room - w) xs of (taken, left) \<Rightarrow> (x # taken, left)))"

record input_view =
  vw_before :: points
  vw_at :: points
  vw_after :: points

definition inputWindow :: "(points \<Rightarrow> nat) \<Rightarrow> draft \<Rightarrow> int \<Rightarrow> input_view" where
  "inputWindow sw d width =
     (let c = dr_text d; i = min (dr_cursor d) (length c);
          under = (if i < length c then [c ! i] else [0x20]);
          room = max 1 (width - int (sw under));
          reserve = (if i + 1 < length c then min 8 (room div 4) else 0);
          (before, left) = fit sw reserve room (rev (take i c));
          (after, _) = fit sw 0 left (drop (i + 1) c)
      in \<lparr>vw_before = rev before, vw_at = under, vw_after = after\<rparr>)"

section \<open>Rows of a draft\<close>

record input_row =
  rw_text :: points
  rw_start :: nat
  rw_end :: nat

text \<open>The row being filled: its text, where it starts, where it has got to and its cells.\<close>

record filling =
  fl_text :: points
  fl_start :: nat
  fl_pos :: nat
  fl_cells :: nat

definition row_of :: "filling \<Rightarrow> input_row" where
  "row_of f = \<lparr>rw_text = fl_text f, rw_start = fl_start f, rw_end = fl_pos f\<rparr>"

definition add_segment :: "(points \<Rightarrow> nat) \<Rightarrow> points \<Rightarrow> filling \<Rightarrow> filling" where
  "add_segment sw s f =
     f\<lparr>fl_text := fl_text f @ s, fl_cells := fl_cells f + sw s, fl_pos := fl_pos f + length s\<rparr>"

definition fresh_row :: "nat \<Rightarrow> filling" where
  "fresh_row pos = \<lparr>fl_text = [], fl_start = pos, fl_pos = pos, fl_cells = 0\<rparr>"

fun lay_rows :: "(points \<Rightarrow> nat) \<Rightarrow> nat \<Rightarrow> points list \<Rightarrow> filling \<Rightarrow> input_row list \<times> filling" where
  "lay_rows sw width [] f = ([], f)"
| "lay_rows sw width (s # ss) f =
     (if s = [NL] then (case lay_rows sw width ss (fresh_row (fl_pos f + 1)) of (rs, g) \<Rightarrow> (row_of f # rs, g))
      else if fl_cells f + sw s > width
      then (case lay_rows sw width ss (add_segment sw s (fresh_row (fl_pos f))) of (rs, g) \<Rightarrow> (row_of f # rs, g))
      else lay_rows sw width ss (add_segment sw s f))"

definition all_rows :: "(points \<Rightarrow> points list) \<Rightarrow> (points \<Rightarrow> nat) \<Rightarrow> draft \<Rightarrow> nat \<Rightarrow> input_row list" where
  "all_rows seg sw d width =
     (case lay_rows sw width (seg (dr_text d)) (fresh_row 0) of (rs, f) \<Rightarrow>
        if fl_cells f \<ge> width \<and> dr_cursor d = fl_pos f then rs @ [row_of f, row_of (fresh_row (fl_pos f))]
        else rs @ [row_of f])"

text \<open>The row that holds the cursor: the first that ends after it, or ends at it with a gap behind.\<close>

fun cursor_row :: "nat \<Rightarrow> nat \<Rightarrow> input_row list \<Rightarrow> nat option" where
  "cursor_row cur i [] = None"
| "cursor_row cur i (r # rs) =
     (if rw_start r \<le> cur \<and>
         (cur < rw_end r \<or> cur = rw_end r \<and> (case rs of [] \<Rightarrow> True | r' # _ \<Rightarrow> rw_start r' \<noteq> rw_end r))
      then Some i else cursor_row cur (i + 1) rs)"

definition show_row :: "(points \<Rightarrow> points list) \<Rightarrow> nat \<Rightarrow> bool \<Rightarrow> input_row \<Rightarrow> input_view \<times> bool" where
  "show_row seg cur here r =
     (if \<not> here then (\<lparr>vw_before = rw_text r, vw_at = [], vw_after = []\<rparr>, False)
      else
        (let i = cur - rw_start r; rest = drop i (rw_text r);
             cluster = (case seg rest of [] \<Rightarrow> [0x20] | s # _ \<Rightarrow> s)
         in (\<lparr>vw_before = take i (rw_text r), vw_at = cluster, vw_after = drop (i + length cluster) (rw_text r)\<rparr>, True)))"

record input_rows =
  in_rows :: "(input_view \<times> bool) list"
  in_above :: nat
  in_below :: nat

definition inputRows :: "(points \<Rightarrow> points list) \<Rightarrow> (points \<Rightarrow> nat) \<Rightarrow> draft \<Rightarrow> int \<Rightarrow> nat \<Rightarrow> input_rows" where
  "inputRows seg sw d width maxRows =
     (let rows = all_rows seg sw d (nat (max 2 width));
          cr = (case cursor_row (dr_cursor d) 0 rows of Some i \<Rightarrow> i | None \<Rightarrow> length rows - 1);
          top = nat (max 0 (min (int cr - int maxRows + 1) (int (length rows) - int maxRows)));
          shown = take maxRows (drop top rows)
      in \<lparr>in_rows = map (\<lambda>(i, r). show_row seg (dr_cursor d) (top + i = cr) r) (List.enumerate 0 shown),
          in_above = top, in_below = nat (max 0 (int (length rows) - int top - int maxRows))\<rparr>)"

section \<open>What editing does to a draft\<close>

lemma back_while_numeral [simp]:
  "back_while p c (numeral n) = (if p (c ! pred_numeral n) then back_while p c (pred_numeral n) else numeral n)"
  by (simp add: numeral_eq_Suc)

lemma back_while_le: "back_while p c i \<le> i"
  by (induction i) auto

lemma wordStart_le: "wordStart c i \<le> i"
  using back_while_le le_trans unfolding wordStart_def by blast

lemma line_start_le: "line_start c i \<le> i"
  by (simp add: line_start_def back_while_le)

lemma forward_while_bounds: "i \<le> length c \<Longrightarrow> i \<le> forward_while p c i \<and> forward_while p c i \<le> length c"
  using length_takeWhile_le[of p "drop i c"] by (simp add: forward_while_def)

lemma wordEnd_bounds: "i \<le> length c \<Longrightarrow> i \<le> wordEnd c i \<and> wordEnd c i \<le> length c"
  using forward_while_bounds[of i c js_space]
    forward_while_bounds[of "forward_while js_space c i" c "\<lambda>x. \<not> js_space x"]
  by (simp add: wordEnd_def)

lemma line_stop_bounds: "i \<le> length c \<Longrightarrow> i \<le> line_stop c i \<and> line_stop c i \<le> length c"
  by (simp add: line_stop_def forward_while_bounds)

lemma boundaries_le: "n \<in> set (boundaries m ss) \<Longrightarrow> n \<le> m + length (concat ss)"
proof (induction ss arbitrary: m)
  case (Cons s ss)
  then show ?case using Cons.IH[of "m + length s"] by (auto simp: add.assoc)
qed simp

lemma previous_stop_le: "previous_stop bs i \<le> i"
proof (cases "List.filter (\<lambda>n. n < i) bs")
  case (Cons a l)
  then have "last (a # l) \<in> set (List.filter (\<lambda>n. n < i) bs)" by (metis last_in_set list.distinct(1))
  then have "last (a # l) < i" by simp
  then show ?thesis using Cons by (simp add: previous_stop_def)
qed (simp add: previous_stop_def)

lemma next_stop_bounds:
  assumes "\<And>n. n \<in> set bs \<Longrightarrow> n \<le> len" and "i \<le> len"
  shows "i \<le> next_stop bs i len \<and> next_stop bs i len \<le> len"
  using assms by (auto simp: next_stop_def find_Some_iff split: option.split)

lemma if_SomeE:
  assumes "(if b then Some x else y) = Some z"
  obtains "z = x" | "y = Some z"
proof (cases b)
  case True
  then have "z = x" using assms by simp
  then show thesis by (rule that(1))
next
  case False
  then show thesis using assms that(2) by simp
qed

text \<open>
  Every line-editing key moves the cursor within the text, or cuts one range
  of the text that starts or ends at the cursor and leaves the cursor where the range was; the rest of
  the text stays as it was.
\<close>

theorem edit_cuts_at_cursor:
  assumes "concat (seg (dr_text d)) = dr_text d" and "edit seg d stroke = Some d'"
  shows "\<exists>i j. i \<le> j \<and> j \<le> length (dr_text d) \<and> min (dr_cursor d) (length (dr_text d)) \<in> {i, j} \<and>
    (dr_text d' = dr_text d \<and> dr_cursor d' \<in> {i, j, dr_cursor d} \<or>
     dr_text d' = take i (dr_text d) @ drop j (dr_text d) \<and> dr_cursor d' = i)"
proof -
  define c where "c = dr_text d"
  define i where "i = min (dr_cursor d) (length c)"
  define prev where "prev = previous_stop (boundaries 0 (seg c)) i"
  define nxt where "nxt = next_stop (boundaries 0 (seg c)) i (length c)"
  have i: "i \<le> length c" by (simp add: i_def)
  have p: "prev \<le> i" by (simp add: prev_def previous_stop_le)
  have n: "i \<le> nxt \<and> nxt \<le> length c"
    unfolding nxt_def by (rule next_stop_bounds) (use i boundaries_le[of _ 0 "seg c"] assms(1) in \<open>auto simp: c_def\<close>)
  note bounds = i p n wordStart_le[of c i] wordEnd_bounds[OF i] line_start_le[of c i] line_stop_bounds[OF i]
  let ?ranges = "{(prev, i), (i, nxt), (line_start c i, i), (i, line_stop c i), (wordStart c i, i), (i, wordEnd c i), (i, i)}"
  let ?ok = "\<lambda>r. case r of (a, b) \<Rightarrow> dr_text d' = c \<and> dr_cursor d' \<in> {a, b, dr_cursor d} \<or>
    dr_text d' = take a c @ drop b c \<and> dr_cursor d' = a"
  have text_d: "dr_text d = c" by (simp add: c_def)
  have "\<exists>r \<in> ?ranges. ?ok r"
    using assms(2) unfolding edit_def Let_def text_d i_def[symmetric] prev_def[symmetric] nxt_def[symmetric]
    by (elim if_SomeE) (simp_all add: cut_range_def text_d)
  then obtain a b where r: "(a, b) \<in> ?ranges" and ok: "?ok (a, b)" by blast
  from r bounds have "a \<le> b \<and> b \<le> length c \<and> i \<in> {a, b}" by (elim insertE) auto
  with ok show ?thesis unfolding c_def i_def by auto
qed

section \<open>What the rows show\<close>

definition slice :: "points \<Rightarrow> nat \<Rightarrow> nat \<Rightarrow> points" where
  "slice t i j = take (j - i) (drop i t)"

text \<open>
  Rows that hold a text from position \<open>i\<close> to its end: each is a slice of it and goes on where the row
  above stopped, or one further where a newline is between.
\<close>

fun covers_text :: "points \<Rightarrow> nat \<Rightarrow> input_row list \<Rightarrow> bool" where
  "covers_text t i [] \<longleftrightarrow> False"
| "covers_text t i (r # rs) \<longleftrightarrow>
     rw_start r = i \<and> i \<le> rw_end r \<and> rw_end r \<le> length t \<and> rw_text r = slice t i (rw_end r) \<and>
     (case rs of
        [] \<Rightarrow> rw_end r = length t
      | r' # _ \<Rightarrow>
          (rw_start r' = rw_end r \<or> rw_start r' = rw_end r + 1 \<and> t ! rw_end r = NL \<and> rw_end r < length t) \<and>
          covers_text t (rw_start r') rs)"

lemma slice_more: "i \<le> length pre \<Longrightarrow> slice (pre @ s @ r) i (length pre) @ s = slice (pre @ s @ r) i (length pre + length s)"
  by (simp add: slice_def Suc_diff_le)

lemma slice_empty [simp]: "slice t i i = []"
  by (simp add: slice_def)

lemma lay_rows_head:
  assumes "lay_rows sw width ss f = (rs, g)"
  shows "rw_start (hd (rs @ [row_of g])) = fl_start f"
  using assms
proof (induction ss arbitrary: f rs)
  case (Cons s ss)
  then show ?case by (force simp: add_segment_def row_of_def fresh_row_def split: if_splits prod.splits)
qed (auto simp: row_of_def)

lemma lay_rows_covers:
  assumes "lay_rows sw width ss f = (rs, g)" and "t = pre @ concat ss" and "fl_pos f = length pre"
    and "fl_start f \<le> fl_pos f" and "fl_text f = slice t (fl_start f) (fl_pos f)"
  shows "covers_text t (fl_start f) (rs @ [row_of g]) \<and> fl_pos g = length t"
  using assms
proof (induction ss arbitrary: f rs pre)
  case Nil
  then show ?case by (auto simp: row_of_def)
next
  case (Cons s ss)
  have t: "t = (pre @ s) @ concat ss" using Cons.prems(2) by simp
  have start_ok: "fl_start f \<le> length pre" using Cons.prems(3,4) by simp
  have filled: "fl_text f = slice t (fl_start f) (length pre)" using Cons.prems(3,5) by simp
  have above_it: "covers_text t (fl_start f) (row_of f # rs' @ [row_of g'])"
    if "covers_text t b (rs' @ [row_of g'])" "b = length pre \<or> b = length pre + 1 \<and> s = [NL]" for rs' g' b
  proof -
    obtain r' rest where r: "rs' @ [row_of g'] = r' # rest" by (cases rs') auto
    with that(1) have "rw_start r' = b" by simp
    moreover have "length pre \<le> length t" using t by simp
    moreover have "t ! length pre = NL \<and> length pre < length t" if "s = [NL]" using t that by (simp add: nth_append)
    ultimately show ?thesis
      using that r start_ok filled Cons.prems(3) by (auto simp: row_of_def)
  qed
  have fresh: "fl_text (add_segment sw s (fresh_row (length pre))) = slice t (length pre) (length pre + length s)"
    using t by (simp add: add_segment_def fresh_row_def slice_def)
  have grown: "fl_text (add_segment sw s f) = slice t (fl_start f) (length pre + length s)"
    using slice_more[OF start_ok, of s "concat ss"] filled t by (simp add: add_segment_def)
  consider (newline) "s = [NL]" | (full) "s \<noteq> [NL]" "fl_cells f + sw s > width" | (room) "s \<noteq> [NL]" "\<not> fl_cells f + sw s > width"
    by blast
  then show ?case
  proof cases
    case newline
    then obtain rs' where l: "lay_rows sw width ss (fresh_row (length pre + 1)) = (rs', g)" and rs: "rs = row_of f # rs'"
      using Cons.prems(1,3) by (auto split: prod.splits)
    have "covers_text t (length pre + 1) (rs' @ [row_of g]) \<and> fl_pos g = length t"
      using Cons.IH[OF l t] newline by (simp add: fresh_row_def)
    with above_it[of "length pre + 1" rs' g] newline rs show ?thesis by simp
  next
    case full
    then obtain rs' where l: "lay_rows sw width ss (add_segment sw s (fresh_row (length pre))) = (rs', g)" and rs: "rs = row_of f # rs'"
      using Cons.prems(1,3) by (auto split: prod.splits)
    have "covers_text t (length pre) (rs' @ [row_of g]) \<and> fl_pos g = length t"
      using Cons.IH[OF l t] fresh by (simp add: add_segment_def fresh_row_def)
    with above_it[of "length pre" rs' g] rs show ?thesis by simp
  next
    case room
    then have l: "lay_rows sw width ss (add_segment sw s f) = (rs, g)" using Cons.prems(1) by simp
    show ?thesis
      using Cons.IH[OF l t] grown start_ok Cons.prems(3) by (simp add: add_segment_def)
  qed
qed

lemma covers_snoc:
  "covers_text t i (rs @ [r]) \<Longrightarrow> rw_end r = length t \<Longrightarrow> e = \<lparr>rw_text = [], rw_start = length t, rw_end = length t\<rparr> \<Longrightarrow>
   covers_text t i (rs @ [r, e])"
proof (induction rs arbitrary: i)
  case (Cons q rs)
  then show ?case by (cases rs) auto
qed simp

lemma all_rows_cover:
  assumes "concat (seg (dr_text d)) = dr_text d"
  shows "covers_text (dr_text d) 0 (all_rows seg sw d width)"
proof -
  obtain rs f where l: "lay_rows sw width (seg (dr_text d)) (fresh_row 0) = (rs, f)" by fastforce
  have c: "covers_text (dr_text d) 0 (rs @ [row_of f])" "fl_pos f = length (dr_text d)"
    using lay_rows_covers[OF l, of "dr_text d" "[]"] assms by (auto simp: fresh_row_def)
  then show ?thesis
    using l covers_snoc[OF c(1)] by (auto simp: all_rows_def row_of_def fresh_row_def)
qed

lemma cursor_row_lt: "cursor_row cur i rs = Some k \<Longrightarrow> i \<le> k \<and> k < i + length rs"
  by (induction cur i rs rule: cursor_row.induct) (fastforce split: if_splits)+

lemma one_true:
  "k < n \<Longrightarrow> List.filter id (map (\<lambda>i. i = k) [0..<n]) = [True]"
proof (induction n)
  case (Suc n)
  show ?case
  proof (cases "k = n")
    case True
    then have "List.filter id (map (\<lambda>i. i = k) [0..<n]) = []" by (auto simp: filter_empty_conv)
    with True show ?thesis by simp
  qed (use Suc in simp)
qed simp

lemma show_row_here: "snd (show_row seg cur h r) = h"
  by (simp add: show_row_def Let_def)

lemma show_row_text:
  assumes "\<And>t. concat (seg t) = t"
  shows "take (length (rw_text r)) (vw_before (fst (show_row seg cur here r)) @ vw_at (fst (show_row seg cur here r)) @
    vw_after (fst (show_row seg cur here r))) = rw_text r"
proof (cases "here")
  case True
  let ?i = "cur - rw_start r"
  show ?thesis
  proof (cases "seg (drop ?i (rw_text r))")
    case Nil
    then have "drop ?i (rw_text r) = []" using assms[of "drop ?i (rw_text r)"] by simp
    then show ?thesis using True Nil by (simp add: show_row_def Let_def)
  next
    case (Cons s ss)
    then have "drop ?i (rw_text r) = s @ concat ss" using assms[of "drop ?i (rw_text r)"] by simp
    then have "drop ?i (rw_text r) = s @ drop (?i + length s) (rw_text r)"
      by (metis add.commute append_eq_conv_conj drop_drop)
    then have "take ?i (rw_text r) @ s @ drop (?i + length s) (rw_text r) = rw_text r"
      by (metis append_take_drop_id)
    then show ?thesis using True Cons by (simp add: show_row_def Let_def)
  qed
qed (simp add: show_row_def)

text \<open>
  The rows of a draft hold its whole text in order, and of them as many as
  allowed are shown, the others counted as hidden above or below; what is shown of a row is its text,
  and exactly one shown row has the cursor.
\<close>

theorem input_rows_complete:
  assumes "\<And>t. concat (seg t) = t" and "0 < maxRows"
    and "rows = all_rows seg sw d (nat (max 2 width))" and "v = inputRows seg sw d width maxRows"
  shows "covers_text (dr_text d) 0 rows \<and>
    length (in_rows v) = min maxRows (length rows) \<and> in_above v + length (in_rows v) + in_below v = length rows \<and>
    list_all2 (\<lambda>(w, h) r. take (length (rw_text r)) (vw_before w @ vw_at w @ vw_after w) = rw_text r)
      (in_rows v) (take maxRows (drop (in_above v) rows)) \<and>
    List.filter id (map snd (in_rows v)) = [True]"
proof -
  have cover: "covers_text (dr_text d) 0 rows" using all_rows_cover[of seg d] assms(1,3) by simp
  then have ne: "rows \<noteq> []" by (cases rows) auto
  define cr where "cr = (case cursor_row (dr_cursor d) 0 rows of Some i \<Rightarrow> i | None \<Rightarrow> length rows - 1)"
  have cr: "cr < length rows" using cursor_row_lt[of "dr_cursor d" 0 rows] ne by (auto simp: cr_def split: option.split)
  define top where "top = nat (max 0 (min (int cr - int maxRows + 1) (int (length rows) - int maxRows)))"
  have top: "top \<le> cr" "cr < top + maxRows" "top + maxRows \<le> length rows \<or> top = 0"
    using cr assms(2) by (auto simp: top_def)
  let ?shown = "take maxRows (drop top rows)"
  have len: "length ?shown = min maxRows (length rows)" using top by auto
  have v: "v = \<lparr>in_rows = map (\<lambda>(i, r). show_row seg (dr_cursor d) (top + i = cr) r) (List.enumerate 0 ?shown),
      in_above = top, in_below = nat (max 0 (int (length rows) - int top - int maxRows))\<rparr>"
    unfolding assms(4) inputRows_def Let_def assms(3)[symmetric] cr_def[symmetric] top_def[symmetric] by (rule refl)
  have flags: "map snd (in_rows v) = map (\<lambda>i. i = cr - top) [0..<length ?shown]"
    using top by (auto simp: v show_row_here nth_enumerate_eq split_def intro!: nth_equalityI)
  have "list_all2 (\<lambda>(w, h) r. take (length (rw_text r)) (vw_before w @ vw_at w @ vw_after w) = rw_text r)
      (in_rows v) (take maxRows (drop (in_above v) rows))"
    using show_row_text[of seg, OF assms(1)]
    by (auto simp: v list_all2_conv_all_nth nth_enumerate_eq split_def)
  moreover have k: "cr - top < length ?shown" using top cr by simp linarith
  moreover have "List.filter id (map snd (in_rows v)) = [True]" unfolding flags by (rule one_true[OF k])
  moreover have "in_above v + length (in_rows v) + in_below v = length rows" using top len by (auto simp: v)
  moreover have "length (in_rows v) = min maxRows (length rows)" using len by (simp add: v)
  ultimately show ?thesis using cover by blast
qed

definition one_by_one :: "points \<Rightarrow> points list" where
  "one_by_one t = map (\<lambda>c. [c]) t"

lemma concat_one_by_one: "concat (one_by_one t) = t"
  by (induction t) (auto simp: one_by_one_def)

definition sample_draft :: draft where
  "sample_draft = \<lparr>dr_text = [97, 98, 99, 10, 100], dr_cursor = 5\<rparr>"

lemma input_rows_complete_witness:
  "inputRows one_by_one length sample_draft 2 2 =
     \<lparr>in_rows = [(\<lparr>vw_before = [99], vw_at = [], vw_after = []\<rparr>, False), (\<lparr>vw_before = [100], vw_at = [32], vw_after = []\<rparr>, True)],
      in_above = 1, in_below = 0\<rparr> \<and>
   covers_text (dr_text sample_draft) 0 (all_rows one_by_one length sample_draft 2)"
proof -
  have "covers_text (dr_text sample_draft) 0 (all_rows one_by_one length sample_draft (nat (max 2 2)))"
    using input_rows_complete[of one_by_one 2 _ length sample_draft 2] concat_one_by_one by auto
  moreover have "inputRows one_by_one length sample_draft 2 2 =
     \<lparr>in_rows = [(\<lparr>vw_before = [99], vw_at = [], vw_after = []\<rparr>, False), (\<lparr>vw_before = [100], vw_at = [32], vw_after = []\<rparr>, True)],
      in_above = 1, in_below = 0\<rparr>" by code_simp
  ultimately show ?thesis by simp
qed

lemma edit_cuts_at_cursor_witness:
  "edit one_by_one sample_draft ''ctrl+w'' = Some \<lparr>dr_text = [97, 98, 99, 10], dr_cursor = 4\<rparr> \<and>
   (\<exists>i j. i \<le> j \<and> j \<le> length (dr_text sample_draft) \<and> min (dr_cursor sample_draft) (length (dr_text sample_draft)) \<in> {i, j} \<and>
     ([97, 98, 99, 10] = dr_text sample_draft \<and> 4 \<in> {i, j, dr_cursor sample_draft} \<or>
      [97, 98, 99, 10] = take i (dr_text sample_draft) @ drop j (dr_text sample_draft) \<and> 4 = i))"
proof -
  have e: "edit one_by_one sample_draft ''ctrl+w'' = Some \<lparr>dr_text = [97, 98, 99, 10], dr_cursor = 4\<rparr>"
    by (simp add: edit_def sample_draft_def Let_def wordStart_def cut_range_def js_space_def between_def)
  from edit_cuts_at_cursor[OF concat_one_by_one e] e show ?thesis by (simp only: draft.simps)
qed

end
