(* ===== verification/Client.thy ===== *)
theory Client
  imports Builder PeerBase
begin

text \<open>
  What a client keeps of the daemon's data: the reducer of the desktop application
  (\<^verbatim>\<open>packages/desktop/src/renderer/model.ts\<close>) and the transcripts of the terminal
  (\<^verbatim>\<open>packages/tui/src/tui/App.tsx\<close>), which are read page by page while new events arrive.
\<close>

section \<open>The model of the desktop application\<close>

record model =
  m_agents :: "agent_summary list"
  m_tasks :: "(string, task_row) jsmap"
  m_events :: "(string, stored_event list) jsmap"
  m_approvals :: "approval list"
  m_proposals :: "(string, proposal) jsmap"

definition EMPTY_MODEL :: model where
  "EMPTY_MODEL = \<lparr>m_agents = [], m_tasks = [], m_events = [], m_approvals = [], m_proposals = []\<rparr>"

datatype client_action =
  Set_agents "agent_summary list"
| Set_tasks "task_row list" bool
| Set_events string "stored_event list"
| Live_event string "nat option" runtime_event int
| Set_approvals "approval list"
| Add_proposal proposal
| Proposal_done string

text \<open>\<open>append\<close>: repeats and events before the last one known are dropped.\<close>

definition last_seq :: "stored_event list \<Rightarrow> nat" where
  "last_seq es = (if es = [] then 0 else se_seq (last es))"

definition append_events :: "stored_event list option \<Rightarrow> stored_event list \<Rightarrow> stored_event list" where
  "append_events known added =
     foldl (\<lambda>acc e. if se_seq e > last_seq acc then acc @ [e] else acc) (case known of Some l \<Rightarrow> l | None \<Rightarrow> []) added"

definition reduce :: "model \<Rightarrow> client_action \<Rightarrow> model" where
  "reduce m a =
     (case a of
        Set_agents agents \<Rightarrow> m\<lparr>m_agents := agents\<rparr>
      | Set_tasks tasks replace \<Rightarrow>
          m\<lparr>m_tasks := foldl (\<lambda>acc t. mset_key (t_id t) t acc) (if replace then [] else m_tasks m) tasks\<rparr>
      | Set_events i es \<Rightarrow>
          m\<lparr>m_events := mset_key i (append_events (mget (m_events m) i) es) (m_events m)\<rparr>
      | Live_event i seq ev ts \<Rightarrow>
          (case (mget (m_events m) i, seq) of
             (Some known, Some n) \<Rightarrow>
               m\<lparr>m_events := mset_key i (append_events (Some known) [\<lparr>se_seq = n, se_ts = ts, se_event = ev\<rparr>]) (m_events m)\<rparr>
           | _ \<Rightarrow> m)
      | Set_approvals approvals \<Rightarrow> m\<lparr>m_approvals := approvals\<rparr>
      | Add_proposal p \<Rightarrow> m\<lparr>m_proposals := mset_key (pr_agentId p) p (m_proposals m)\<rparr>
      | Proposal_done i \<Rightarrow> m\<lparr>m_proposals := List.filter (\<lambda>(_, p). pr_id p \<noteq> i) (m_proposals m)\<rparr>)"

type_synonym fleet = "(string, model) jsmap"

datatype fleet_action = Machine string client_action | Retain "string list"

definition reduceFleet :: "fleet \<Rightarrow> fleet_action \<Rightarrow> fleet" where
  "reduceFleet f a =
     (case a of
        Retain servers \<Rightarrow> List.filter (\<lambda>(name, _). name \<in> set servers) f
      | Machine server act \<Rightarrow>
          mset_key server (reduce (case mget f server of Some m \<Rightarrow> m | None \<Rightarrow> EMPTY_MODEL) act) f)"

definition client_agentTasks :: "model \<Rightarrow> string \<Rightarrow> task_row list" where
  "client_agentTasks m agentId = sort_key t_createdAt (List.filter (\<lambda>t. t_agentId t = agentId) (mvalues (m_tasks m)))"

datatype tone = Tone_working | Tone_approval | Tone_idle | Tone_queued | Tone_error

definition agentActivity :: "model \<Rightarrow> agent_summary \<Rightarrow> tone \<times> string" where
  "agentActivity m a =
     (let waiting = length (List.filter (\<lambda>p. ap_agent p = sm_id a) (m_approvals m));
          tasks = client_agentTasks m (sm_id a)
      in case (case sm_error a of Some e \<Rightarrow> if e = [] then None else Some e | None \<Rightarrow> None) of
           Some e \<Rightarrow> (Tone_error, ''Needs attention: '' @ e)
         | None \<Rightarrow>
             if waiting \<noteq> 0 then (Tone_approval, ''Waiting for your approval ('' @ nat_str waiting @ '')'')
             else if sm_running a \<noteq> 0 then (Tone_working, nat_str (sm_running a) @ '' running'')
             else if sm_queued a \<noteq> 0 then (Tone_queued, nat_str (sm_queued a) @ '' queued'')
             else if tasks \<noteq> [] \<and> t_status (last tasks) = Failed then (Tone_error, ''Failed: '' @ t_title (last tasks))
             else if tasks \<noteq> [] then (Tone_idle, t_title (last tasks))
             else (Tone_idle, case sm_description a of Some d \<Rightarrow> d | None \<Rightarrow> ''No tasks yet''))"

section \<open>A transcript of the terminal\<close>

text \<open>
  One task in the terminal: its log once it is shown, the pages read so far while it is fetched, what
  arrived meanwhile, and whether the last page has come.
\<close>

record log_view =
  lv_log :: "stored_event list option"
  lv_pages :: "stored_event list option"
  lv_arriving :: "stored_event list"
  lv_ended :: bool

definition new_view :: log_view where
  "new_view = \<lparr>lv_log = None, lv_pages = None, lv_arriving = [], lv_ended = False\<rparr>"

definition open_log :: "log_view \<Rightarrow> log_view" where
  "open_log v = (if lv_log v \<noteq> None \<or> lv_pages v \<noteq> None then v else v\<lparr>lv_pages := Some []\<rparr>)"

definition on_event :: "stored_event \<Rightarrow> log_view \<Rightarrow> log_view" where
  "on_event e v =
     (let w = (if lv_pages v \<noteq> None then v\<lparr>lv_arriving := lv_arriving v @ [e]\<rparr> else v)
      in case lv_log w of
           None \<Rightarrow> w
         | Some cur \<Rightarrow> if cur \<noteq> [] \<and> se_seq (last cur) \<ge> se_seq e then w else w\<lparr>lv_log := Some (cur @ [e])\<rparr>)"

definition on_page :: "stored_event list \<Rightarrow> log_view \<Rightarrow> log_view" where
  "on_page p v =
     (case lv_pages v of
        None \<Rightarrow> v
      | Some pages \<Rightarrow> if p = [] then v\<lparr>lv_ended := True\<rparr> else v\<lparr>lv_pages := Some (pages @ p)\<rparr>)"

fun once_each :: "nat set \<Rightarrow> stored_event list \<Rightarrow> stored_event list" where
  "once_each had [] = []"
| "once_each had (e # es) =
     (if se_seq e \<in> had then once_each had es else e # once_each (insert (se_seq e) had) es)"

definition finish_log :: "log_view \<Rightarrow> log_view" where
  "finish_log v =
     (case lv_pages v of
        None \<Rightarrow> v
      | Some pages \<Rightarrow>
          let known = (case lv_log v of Some l \<Rightarrow> l | None \<Rightarrow> []);
              tail = sort_key se_seq (once_each {} (List.filter (\<lambda>e. se_seq e > last_seq pages) (known @ lv_arriving v)))
          in \<lparr>lv_log = Some (pages @ tail), lv_pages = None, lv_arriving = [], lv_ended = False\<rparr>)"

section \<open>The connection\<close>

text \<open>
  The daemon's log of the task, what is on its way to the client in order, and the page the client has
  asked for and the daemon has not answered.  A page holds as many of the events after the number it
  names as the daemon likes, and at least one where there is one (\<open>pages_complete\<close> of the store).  The
  time a client gives a live event is its own.
\<close>

datatype wire_message = Live stored_event | Page "stored_event list"

record connection_state =
  cs_log :: "stored_event list"
  cs_wire :: "wire_message list"
  cs_request :: "nat option"
  cs_view :: log_view

datatype connection_event =
  Stored runtime_event int int
| Opened
| Answered nat
| Delivered
| Finished

fun connection_step :: "connection_state \<Rightarrow> connection_event \<Rightarrow> connection_state" where
  "connection_step s (Stored ev ts ts') =
     (let n = last_seq (cs_log s) + 1
      in s\<lparr>cs_log := cs_log s @ [\<lparr>se_seq = n, se_ts = ts, se_event = ev\<rparr>],
           cs_wire := cs_wire s @ [Live \<lparr>se_seq = n, se_ts = ts', se_event = ev\<rparr>]\<rparr>)"
| "connection_step s Opened =
     (if lv_log (cs_view s) \<noteq> None \<or> lv_pages (cs_view s) \<noteq> None then s
      else s\<lparr>cs_view := open_log (cs_view s), cs_request := Some 0\<rparr>)"
| "connection_step s (Answered n) =
     (case cs_request s of
        None \<Rightarrow> s
      | Some a \<Rightarrow>
          s\<lparr>cs_wire := cs_wire s @ [Page (take (Suc n) (List.filter (\<lambda>e. se_seq e > a) (cs_log s)))], cs_request := None\<rparr>)"
| "connection_step s Delivered =
     (case cs_wire s of
        [] \<Rightarrow> s
      | Live e # rest \<Rightarrow> s\<lparr>cs_wire := rest, cs_view := on_event e (cs_view s)\<rparr>
      | Page p # rest \<Rightarrow>
          s\<lparr>cs_wire := rest, cs_view := on_page p (cs_view s),
            cs_request := (if p = [] then cs_request s else Some (last_seq p))\<rparr>)"
| "connection_step s Finished = (if lv_ended (cs_view s) then s\<lparr>cs_view := finish_log (cs_view s)\<rparr> else s)"

definition start_connection :: "stored_event list \<Rightarrow> connection_state" where
  "start_connection es = \<lparr>cs_log = es, cs_wire = [], cs_request = None, cs_view = new_view\<rparr>"

definition run_connection :: "stored_event list \<Rightarrow> connection_event list \<Rightarrow> connection_state" where
  "run_connection es evs = foldl connection_step (start_connection es) evs"

end
