(* ===== verification/ClientFacts.thy ===== *)
theory ClientFacts
  imports Client
begin

text \<open>
  What clients show of a transcript: the terminal's is the daemon's up to the events still on their
  way, however pages and events interleave; the desktop application's is in order but may have a gap.
\<close>

section \<open>The terminal\<close>

text \<open>What of an event is the daemon's: its number and the event, not the time.\<close>

definition key_of :: "stored_event \<Rightarrow> nat \<times> runtime_event" where
  "key_of e = (se_seq e, se_event e)"

abbreviation keys_of :: "stored_event list \<Rightarrow> (nat \<times> runtime_event) list" where
  "keys_of \<equiv> map key_of"

fun lives :: "wire_message list \<Rightarrow> stored_event list" where
  "lives [] = []"
| "lives (Live e # w) = e # lives w"
| "lives (Page _ # w) = lives w"

fun pages_in :: "wire_message list \<Rightarrow> stored_event list list" where
  "pages_in [] = []"
| "pages_in (Live e # w) = pages_in w"
| "pages_in (Page p # w) = p # pages_in w"

lemma lives_append [simp]: "lives (v @ w) = lives v @ lives w"
  by (induction v rule: lives.induct) auto

lemma pages_append [simp]: "pages_in (v @ w) = pages_in v @ pages_in w"
  by (induction v rule: pages_in.induct) auto

definition numbered :: "stored_event list \<Rightarrow> bool" where
  "numbered h \<longleftrightarrow> sorted_wrt (\<lambda>a b. se_seq a < se_seq b) h \<and> (\<forall>e \<in> set h. 0 < se_seq e)"

definition fetch_ok :: "connection_state \<Rightarrow> stored_event list \<Rightarrow> nat \<Rightarrow> nat \<Rightarrow> bool" where
  "fetch_ok s ps d j \<longleftrightarrow>
     (if lv_ended (cs_view s) then cs_request s = None \<and> pages_in (cs_wire s) = [] \<and> j \<le> length ps \<and> length ps \<le> d
      else case cs_request s of
          Some a \<Rightarrow> a = last_seq ps \<and> pages_in (cs_wire s) = []
        | None \<Rightarrow> \<exists>v q w. cs_wire s = v @ Page q # w \<and> pages_in v = [] \<and> pages_in w = [] \<and>
            q = take (length q) (drop (length ps) (cs_log s)) \<and>
            (q = [] \<longrightarrow> length (lives w) + length ps = length (cs_log s)))"

definition view_ok :: "connection_state \<Rightarrow> nat \<Rightarrow> bool" where
  "view_ok s d \<longleftrightarrow>
     (case lv_pages (cs_view s) of
        None \<Rightarrow> cs_request s = None \<and> pages_in (cs_wire s) = [] \<and> \<not> lv_ended (cs_view s) \<and> lv_arriving (cs_view s) = [] \<and>
          (case lv_log (cs_view s) of None \<Rightarrow> True | Some l \<Rightarrow> keys_of l = keys_of (take d (cs_log s)))
      | Some ps \<Rightarrow> lv_log (cs_view s) = None \<and> ps = take (length ps) (cs_log s) \<and>
          (\<exists>j \<le> d. keys_of (lv_arriving (cs_view s)) = keys_of (drop j (take d (cs_log s))) \<and> fetch_ok s ps d j))"

definition conn_ok :: "connection_state \<Rightarrow> bool" where
  "conn_ok s \<longleftrightarrow> numbered (cs_log s) \<and>
     (\<exists>d. d + length (lives (cs_wire s)) = length (cs_log s) \<and>
        keys_of (lives (cs_wire s)) = keys_of (drop d (cs_log s)) \<and> view_ok s d)"

lemma last_seq_snoc [simp]: "last_seq (es @ [e]) = se_seq e"
  by (simp add: last_seq_def)

lemma numbered_log_snoc:
  assumes "numbered h" and "se_seq e = last_seq h + 1"
  shows "numbered (h @ [e])"
proof -
  have "se_seq a < se_seq e" if "a \<in> set h" for a
  proof (cases h rule: rev_cases)
    case (snoc g z)
    then show ?thesis using that assms by (fastforce simp: numbered_def sorted_wrt_append last_seq_def)
  qed (use that in simp)
  then show ?thesis using assms by (auto simp: numbered_def sorted_wrt_append)
qed

lemma numbered_cut:
  assumes "numbered h"
  shows "\<forall>x \<in> set (take p h). \<forall>y \<in> set (drop p h). se_seq x < se_seq y"
proof -
  have "sorted_wrt (\<lambda>a b. se_seq a < se_seq b) (take p h @ drop p h)"
    using assms unfolding numbered_def append_take_drop_id by blast
  then show ?thesis unfolding sorted_wrt_append by blast
qed

lemma numbered_low:
  assumes "numbered h" and "e \<in> set (take p h)"
  shows "se_seq e \<le> last_seq (take p h)"
proof (cases "take p h" rule: rev_cases)
  case (snoc g z)
  have "sorted_wrt (\<lambda>a b. se_seq a < se_seq b) (g @ [z])"
    using assms(1) snoc by (metis numbered_def sorted_wrt_take)
  then show ?thesis using assms(2) snoc by (auto simp: sorted_wrt_append less_imp_le)
qed (use assms in auto)

lemma numbered_high:
  assumes "numbered h" and "e \<in> set (drop p h)"
  shows "last_seq (take p h) < se_seq e"
proof (cases "take p h = []")
  case True
  then show ?thesis using assms by (auto simp: last_seq_def numbered_def dest: in_set_dropD)
next
  case False
  then have "last (take p h) \<in> set (take p h)" by (rule last_in_set)
  then show ?thesis using numbered_cut[OF assms(1), of p] assms(2) False unfolding last_seq_def by simp
qed

lemma numbered_split:
  assumes "numbered h"
  shows "List.filter (\<lambda>e. se_seq e > last_seq (take p h)) h = drop p h"
proof -
  have "List.filter (\<lambda>e. se_seq e > last_seq (take p h)) (take p h @ drop p h) = drop p h"
    using numbered_low[OF assms] numbered_high[OF assms]
    by (auto simp: filter_empty_conv filter_id_conv not_less simp del: append_take_drop_id)
  then show ?thesis unfolding append_take_drop_id .
qed

lemma seqs_of_keys: "keys_of a = keys_of b \<Longrightarrow> map se_seq a = map se_seq b"
  by (auto simp: key_of_def map_eq_conv list_eq_iff_nth_eq)

lemma once_each_id: "distinct (map se_seq es) \<Longrightarrow> had \<inter> se_seq ` set es = {} \<Longrightarrow> once_each had es = es"
  by (induction es arbitrary: had) auto

lemma numbered_drop_take: "numbered h \<Longrightarrow> numbered (drop j (take d h))"
  by (auto simp: numbered_def sorted_wrt_drop sorted_wrt_take dest: in_set_dropD in_set_takeD)

lemma numbered_distinct: "numbered h \<Longrightarrow> distinct (map se_seq h) \<and> sorted (map se_seq h)"
  by (induction h) (auto simp: numbered_def less_imp_le)

lemma filter_keys:
  "keys_of a = keys_of b \<Longrightarrow> keys_of (List.filter (\<lambda>e. P (se_seq e)) a) = keys_of (List.filter (\<lambda>e. P (se_seq e)) b)"
proof (induction a arbitrary: b)
  case (Cons x a)
  then show ?case by (cases b) (auto simp: key_of_def)
qed simp

lemma finish_tail:
  assumes "numbered h" and "keys_of arr = keys_of (drop j (take d h))" and "j \<le> p" and "p \<le> d" and "d \<le> length h"
  shows "keys_of (sort_key se_seq (once_each {} (List.filter (\<lambda>e. se_seq e > last_seq (take p h)) arr))) =
    keys_of (drop p (take d h))"
proof -
  let ?n = "last_seq (take p h)"
  have "numbered (take d h)" using numbered_drop_take[OF assms(1), of 0 d] by simp
  moreover have "take p (take d h) = take p h" using assms(4) by simp
  ultimately have all: "List.filter (\<lambda>e. se_seq e > ?n) (take d h) = drop p (take d h)"
    using numbered_split[of "take d h" p] by simp
  have "take d h = take j (take d h) @ drop j (take d h)" by (rule append_take_drop_id[symmetric])
  then have "List.filter (\<lambda>e. se_seq e > ?n) (take j (take d h)) @ List.filter (\<lambda>e. se_seq e > ?n) (drop j (take d h)) =
      drop p (take d h)" using all by (metis filter_append)
  moreover have "List.filter (\<lambda>e. se_seq e > ?n) (take j (take d h)) = []"
  proof -
    have "e \<in> set (take p h)" if "e \<in> set (take j (take d h))" for e
      using that assms(3,4) set_take_subset_set_take[of j p h] by (auto simp: min_def split: if_splits)
    moreover have "se_seq e \<le> ?n" if "e \<in> set (take p h)" for e using numbered_low[OF assms(1) that] .
    ultimately show ?thesis by (auto simp: filter_empty_conv not_less)
  qed
  ultimately have kept: "List.filter (\<lambda>e. se_seq e > ?n) (drop j (take d h)) = drop p (take d h)" by simp
  let ?t = "List.filter (\<lambda>e. se_seq e > ?n) arr"
  have t: "keys_of ?t = keys_of (drop p (take d h))" using filter_keys[OF assms(2)] kept by metis
  have "distinct (map se_seq ?t) \<and> sorted (map se_seq ?t)"
    using numbered_distinct[OF numbered_drop_take[OF assms(1)], of p d] seqs_of_keys[OF t] by simp
  then show ?thesis using t by (simp add: once_each_id sorted_sort_id sort_key_id_if_sorted)
qed

lemma fetch_on_wire:
  assumes "\<not> lv_ended (cs_view s)" and "cs_request s = None" and "cs_wire s = v @ Page q # w"
    and "pages_in v = []" and "pages_in w = []" and "q = take (length q) (drop (length ps) (cs_log s))"
    and "q = [] \<Longrightarrow> length (lives w) + length ps = length (cs_log s)"
  shows "fetch_ok s ps d j"
  unfolding fetch_ok_def using assms by fastforce

lemma take_own_length:
  assumes "q = take (length q) (drop p h)" and "p \<le> length h"
  shows "length q + p \<le> length h"
proof -
  have "length q = length (take (length q) (drop p h))" by (rule arg_cong[OF assms(1)])
  then show ?thesis using assms(2) by simp
qed

lemma start_ok_client: "numbered h \<Longrightarrow> conn_ok (start_connection h)"
  by (auto simp: conn_ok_def start_connection_def view_ok_def new_view_def)

lemma stored_ok:
  assumes "conn_ok s"
  shows "conn_ok (connection_step s (Stored ev ts ts'))"
proof -
  let ?n = "last_seq (cs_log s) + 1"
  let ?e = "\<lparr>se_seq = ?n, se_ts = ts, se_event = ev\<rparr>" and ?e' = "\<lparr>se_seq = ?n, se_ts = ts', se_event = ev\<rparr>"
  let ?s = "connection_step s (Stored ev ts ts')"
  from assms obtain d where d: "numbered (cs_log s)" "d + length (lives (cs_wire s)) = length (cs_log s)"
    "keys_of (lives (cs_wire s)) = keys_of (drop d (cs_log s))" "view_ok s d" by (auto simp: conn_ok_def)
  have s': "cs_log ?s = cs_log s @ [?e]" "cs_wire ?s = cs_wire s @ [Live ?e']" "cs_request ?s = cs_request s" "cs_view ?s = cs_view s"
    by (simp_all add: Let_def)
  have dl: "d \<le> length (cs_log s)" using d(2) by linarith
  have fetch: "fetch_ok ?s ps d j" if f: "fetch_ok s ps d j" and ps: "ps = take (length ps) (cs_log s)" for ps j
  proof (cases "lv_ended (cs_view s) \<or> cs_request s \<noteq> None")
    case True
    then show ?thesis using f unfolding fetch_ok_def s' by (auto split: option.splits)
  next
    case False
    have pl: "length ps \<le> length (cs_log s)" using arg_cong[OF ps, of length] by simp
    from f False obtain v q w where q: "cs_wire s = v @ Page q # w" "pages_in v = []" "pages_in w = []"
        "q = take (length q) (drop (length ps) (cs_log s))" "q = [] \<longrightarrow> length (lives w) + length ps = length (cs_log s)"
      unfolding fetch_ok_def by auto
    have "take (length q) (drop (length ps) (cs_log s @ [?e])) = take (length q) (drop (length ps) (cs_log s))"
      using take_own_length[OF q(4) pl] pl by simp
    then have "q = take (length q) (drop (length ps) (cs_log s @ [?e]))" using q(4) by simp
    then show ?thesis
      using False q unfolding s'[symmetric]
      by (intro fetch_on_wire[of ?s v q "w @ [Live ?e']"]) (simp_all add: s' del: connection_step.simps)
  qed
  have view: "view_ok ?s d"
  proof (cases "lv_pages (cs_view s)")
    case None
    then show ?thesis using d(4) dl unfolding view_ok_def s' by (auto split: option.splits)
  next
    case (Some ps)
    from d(4) Some obtain j where j: "lv_log (cs_view s) = None" "ps = take (length ps) (cs_log s)" "j \<le> d"
      "keys_of (lv_arriving (cs_view s)) = keys_of (drop j (take d (cs_log s)))" "fetch_ok s ps d j"
      by (auto simp: view_ok_def)
    have pl: "length ps \<le> length (cs_log s)" using arg_cong[OF j(2), of length] by simp
    have "ps = take (length ps) (cs_log s @ [?e])" using j(2) pl by simp
    moreover have "take d (cs_log s @ [?e]) = take d (cs_log s)" using dl by simp
    ultimately show ?thesis using j fetch[OF j(5,2)] Some unfolding view_ok_def s' by auto
  qed
  show ?thesis
    unfolding conn_ok_def s'
    by (intro conjI exI[of _ d]) (use d dl view s' numbered_log_snoc[OF d(1), of ?e] in \<open>auto simp: key_of_def\<close>)
qed

lemma opened_ok:
  assumes "conn_ok s"
  shows "conn_ok (connection_step s Opened)"
proof (cases "lv_log (cs_view s) \<noteq> None \<or> lv_pages (cs_view s) \<noteq> None")
  case False
  then have n: "lv_log (cs_view s) = None" "lv_pages (cs_view s) = None" by auto
  from assms obtain d where d: "numbered (cs_log s)" "d + length (lives (cs_wire s)) = length (cs_log s)"
    "keys_of (lives (cs_wire s)) = keys_of (drop d (cs_log s))" "view_ok s d" by (auto simp: conn_ok_def)
  have "view_ok (connection_step s Opened) d"
    using d(4) n by (auto simp: view_ok_def open_log_def fetch_ok_def last_seq_def intro!: exI[of _ d])
  then show ?thesis using d n by (auto simp: conn_ok_def)
qed (use assms in simp)

lemma answered_ok:
  assumes "conn_ok s"
  shows "conn_ok (connection_step s (Answered n))"
proof (cases "cs_request s")
  case (Some a)
  let ?q = "take (Suc n) (List.filter (\<lambda>e. se_seq e > a) (cs_log s))"
  let ?s = "connection_step s (Answered n)"
  from assms obtain d where d: "numbered (cs_log s)" "d + length (lives (cs_wire s)) = length (cs_log s)"
    "keys_of (lives (cs_wire s)) = keys_of (drop d (cs_log s))" "view_ok s d" by (auto simp: conn_ok_def)
  from d(4) Some obtain ps j where p: "lv_pages (cs_view s) = Some ps" "lv_log (cs_view s) = None"
    "ps = take (length ps) (cs_log s)" "j \<le> d" "keys_of (lv_arriving (cs_view s)) = keys_of (drop j (take d (cs_log s)))"
    and f: "fetch_ok s ps d j"
    by (auto simp: view_ok_def split: option.splits)
  from f Some have a: "a = last_seq ps" "pages_in (cs_wire s) = []" "\<not> lv_ended (cs_view s)"
    by (auto simp: fetch_ok_def split: if_splits)
  have pl: "length ps \<le> length (cs_log s)" using arg_cong[OF p(3), of length] by simp
  have q: "?q = take (Suc n) (drop (length ps) (cs_log s))"
    using numbered_split[OF d(1), of "length ps"] a(1) p(3) by simp
  then have "?q = take (length ?q) (drop (length ps) (cs_log s))" by (simp add: min_def)
  moreover have "?q = [] \<longrightarrow> length ps = length (cs_log s)" using q pl by auto
  moreover have s': "cs_wire ?s = cs_wire s @ Page ?q # []" "cs_request ?s = None" "cs_view ?s = cs_view s" "cs_log ?s = cs_log s"
    using Some by simp_all
  ultimately have "fetch_ok ?s ps d j"
    by (intro fetch_on_wire[of ?s "cs_wire s" ?q "[]"]) (simp_all only: a s' pages_in.simps lives.simps list.size add_0 not_False_eq_True)
  then have "view_ok ?s d" using Some p by (auto simp: view_ok_def)
  then show ?thesis using d Some by (auto simp: conn_ok_def)
qed (use assms in simp)

lemma live_ok:
  assumes "conn_ok s" and wire: "cs_wire s = Live e # rest"
  shows "conn_ok (s\<lparr>cs_wire := rest, cs_view := on_event e (cs_view s)\<rparr>)"
proof -
  let ?s = "s\<lparr>cs_wire := rest, cs_view := on_event e (cs_view s)\<rparr>"
  from assms obtain d where d: "numbered (cs_log s)" "d + length (lives (cs_wire s)) = length (cs_log s)"
    "keys_of (lives (cs_wire s)) = keys_of (drop d (cs_log s))" "view_ok s d" by (auto simp: conn_ok_def)
  have dl: "d < length (cs_log s)" using d(2) wire by simp
  then have next_d: "drop d (cs_log s) = cs_log s ! d # drop (Suc d) (cs_log s)" by (simp add: Cons_nth_drop_Suc)
  with d(3) wire have e: "key_of e = key_of (cs_log s ! d)" "keys_of (lives rest) = keys_of (drop (Suc d) (cs_log s))"
    by simp_all
  have grow: "take (Suc d) (cs_log s) = take d (cs_log s) @ [cs_log s ! d]" using dl by (simp add: take_Suc_conv_app_nth)
  have view: "view_ok ?s (Suc d)"
  proof (cases "lv_pages (cs_view s)")
    case None
    show ?thesis
    proof (cases "lv_log (cs_view s)")
      case (Some l)
      with None d(4) have l: "keys_of l = keys_of (take d (cs_log s))" by (simp add: view_ok_def)
      have "se_seq (last l) < se_seq e" if "l \<noteq> []"
      proof -
        have "take d (cs_log s) \<noteq> []" using l that by (cases "take d (cs_log s)") auto
        moreover have "key_of (last l) = key_of (last (take d (cs_log s)))"
          using l that calculation by (metis last_map)
        moreover have "sorted_wrt (\<lambda>a b. se_seq a < se_seq b) (take d (cs_log s) @ [cs_log s ! d])"
          using d(1) grow by (metis numbered_def sorted_wrt_take)
        ultimately show ?thesis using e(1) by (auto simp: sorted_wrt_append key_of_def)
      qed
      then have "on_event e (cs_view s) = (cs_view s)\<lparr>lv_log := Some (l @ [e])\<rparr>"
        using Some None by (auto simp: on_event_def Let_def not_le)
      moreover have "keys_of (l @ [e]) = keys_of (take (Suc d) (cs_log s))" using l e(1) grow by simp
      ultimately show ?thesis using None d(4) wire Some by (simp add: view_ok_def)
    qed (use None d(4) wire in \<open>auto simp: view_ok_def on_event_def\<close>)
  next
    case (Some ps)
    from d(4) Some obtain j where j: "lv_log (cs_view s) = None" "ps = take (length ps) (cs_log s)" "j \<le> d"
      "keys_of (lv_arriving (cs_view s)) = keys_of (drop j (take d (cs_log s)))" "fetch_ok s ps d j"
      by (auto simp: view_ok_def)
    have arr: "keys_of (lv_arriving (cs_view s) @ [e]) = keys_of (drop j (take (Suc d) (cs_log s)))"
      using j(3,4) e(1) dl unfolding grow by simp
    have "fetch_ok ?s ps (Suc d) j"
    proof (cases "lv_ended (cs_view s) \<or> cs_request s \<noteq> None")
      case True
      then show ?thesis using j(1,5) wire unfolding fetch_ok_def by (auto simp: on_event_def split: option.splits)
    next
      case False
      from j(5) False obtain v q w where q: "cs_wire s = v @ Page q # w" "pages_in v = []" "pages_in w = []"
          "q = take (length q) (drop (length ps) (cs_log s))" "q = [] \<longrightarrow> length (lives w) + length ps = length (cs_log s)"
        unfolding fetch_ok_def by auto
      from q(1) wire obtain v' where v': "v = Live e # v'" by (cases v) auto
      then have "rest = v' @ Page q # w" "pages_in v' = []" using q wire by auto
      moreover have "lv_ended (on_event e (cs_view s)) = lv_ended (cs_view s)"
        using j(1) by (simp add: on_event_def Let_def)
      ultimately show ?thesis using q(3-5) False by (intro fetch_on_wire[of ?s v' q w]) simp_all
    qed
    then show ?thesis using j(1,2,3) arr Some by (auto simp: view_ok_def on_event_def intro!: exI[of _ j])
  qed
  have "Suc d + length (lives rest) = length (cs_log s)" using d(2) wire by simp
  then show ?thesis unfolding conn_ok_def using d(1) e(2) view by (auto intro!: exI[of _ "Suc d"])
qed

lemma page_ok:
  assumes "conn_ok s" and wire: "cs_wire s = Page p # rest"
  shows "conn_ok (s\<lparr>cs_wire := rest, cs_view := on_page p (cs_view s),
    cs_request := (if p = [] then cs_request s else Some (last_seq p))\<rparr>)" (is "conn_ok ?s")
proof -
  from assms obtain d where d: "numbered (cs_log s)" "d + length (lives (cs_wire s)) = length (cs_log s)"
    "keys_of (lives (cs_wire s)) = keys_of (drop d (cs_log s))" "view_ok s d" by (auto simp: conn_ok_def)
  from d(4) wire obtain ps where ps: "lv_pages (cs_view s) = Some ps" by (cases "lv_pages (cs_view s)") (auto simp: view_ok_def)
  with d(4) obtain j where j: "lv_log (cs_view s) = None" "ps = take (length ps) (cs_log s)" "j \<le> d"
      "keys_of (lv_arriving (cs_view s)) = keys_of (drop j (take d (cs_log s)))" "fetch_ok s ps d j"
    by (auto simp: view_ok_def)
  from j(5) wire obtain v q w where q: "cs_wire s = v @ Page q # w" "pages_in v = []" "pages_in w = []"
      "q = take (length q) (drop (length ps) (cs_log s))" "q = [] \<longrightarrow> length (lives w) + length ps = length (cs_log s)"
    and open_fetch: "\<not> lv_ended (cs_view s)" "cs_request s = None"
    by (auto simp: fetch_ok_def split: if_splits option.splits)
  from q(1,2) wire have v: "v = []" "q = p" "w = rest" by (cases v; auto)+
  have pl: "length ps \<le> length (cs_log s)" using arg_cong[OF j(2), of length] by simp
  have "view_ok ?s d"
  proof (cases "p = []")
    case True
    then have "length ps = d" using q(5) v d(2) wire by simp
    then have "fetch_ok ?s ps d j" using True ps open_fetch j(3) q(3) v by (simp add: fetch_ok_def on_page_def)
    then show ?thesis using True ps j by (auto simp: view_ok_def on_page_def intro!: exI[of _ j])
  next
    case False
    have "take (length ps + length p) (cs_log s) = ps @ p"
      using q(4) v j(2) by (simp add: take_add)
    then have whole: "ps @ p = take (length (ps @ p)) (cs_log ?s)" by simp
    have fetch: "fetch_ok ?s (ps @ p) d j"
      using False ps open_fetch q(3) v by (simp add: fetch_ok_def on_page_def last_seq_def)
    have v2: "lv_pages (cs_view ?s) = Some (ps @ p)" "lv_log (cs_view ?s) = None"
      "keys_of (lv_arriving (cs_view ?s)) = keys_of (drop j (take d (cs_log ?s)))"
      using False ps j(1,4) by (simp_all add: on_page_def)
    show ?thesis unfolding view_ok_def v2(1) option.case using whole fetch v2(2,3) j(3) by blast
  qed
  then show ?thesis unfolding conn_ok_def using d wire by (auto intro!: exI[of _ d])
qed

lemma finished_ok:
  assumes "conn_ok s"
  shows "conn_ok (connection_step s Finished)"
proof (cases "lv_ended (cs_view s)")
  case True
  from assms obtain d where d: "numbered (cs_log s)" "d + length (lives (cs_wire s)) = length (cs_log s)"
    "keys_of (lives (cs_wire s)) = keys_of (drop d (cs_log s))" "view_ok s d" by (auto simp: conn_ok_def)
  from d(4) True obtain ps where ps: "lv_pages (cs_view s) = Some ps" by (cases "lv_pages (cs_view s)") (auto simp: view_ok_def)
  with d(4) obtain j where j: "lv_log (cs_view s) = None" "ps = take (length ps) (cs_log s)" "j \<le> d"
      "keys_of (lv_arriving (cs_view s)) = keys_of (drop j (take d (cs_log s)))" "fetch_ok s ps d j"
    by (auto simp: view_ok_def)
  from j(5) True have f: "cs_request s = None" "pages_in (cs_wire s) = []" "j \<le> length ps" "length ps \<le> d"
    by (auto simp: fetch_ok_def)
  have dl: "d \<le> length (cs_log s)" using d(2) by linarith
  let ?tail = "sort_key se_seq (once_each {} (List.filter (\<lambda>e. se_seq e > last_seq ps) (lv_arriving (cs_view s))))"
  have "keys_of ?tail = keys_of (drop (length ps) (take d (cs_log s)))"
    using finish_tail[OF d(1) j(4) f(3,4) dl] j(2) by simp
  moreover have "take d (cs_log s) = ps @ drop (length ps) (take d (cs_log s))"
    using j(2) f(4) by (metis append_take_drop_id min.absorb1 take_take)
  ultimately have "keys_of (ps @ ?tail) = keys_of (take d (cs_log s))" by (metis map_append)
  then have "view_ok (connection_step s Finished) d"
    using True ps j(1) f by (simp add: view_ok_def finish_log_def Let_def)
  then show ?thesis using d True by (auto simp: conn_ok_def)
qed (use assms in simp)

lemma step_ok_client: "conn_ok s \<Longrightarrow> conn_ok (connection_step s ev)"
proof (cases ev)
  case Delivered
  assume ok: "conn_ok s"
  show ?thesis
  proof (cases "cs_wire s")
    case (Cons m rest)
    then show ?thesis using ok Delivered live_ok page_ok by (cases m) auto
  qed (use ok Delivered in simp)
qed (auto simp del: connection_step.simps intro: stored_ok opened_ok answered_ok finished_ok)

lemma run_ok_client: "numbered h \<Longrightarrow> conn_ok (run_connection h evs)"
proof (induction evs rule: rev_induct)
  case (snoc e evs)
  then show ?case by (simp add: run_connection_def step_ok_client)
qed (simp add: run_connection_def start_ok_client)

text \<open>
  C31 (transcript_complete). However pages, events and the client's work interleave, a transcript that the
  terminal shows is the daemon's log, without a gap or a repeat, up to the events that are still on their
  way to it; when none is, it is the whole log.
\<close>

theorem transcript_complete:
  assumes "numbered h" and "s = run_connection h evs" and "lv_log (cs_view s) = Some l"
  shows "keys_of l @ keys_of (lives (cs_wire s)) = keys_of (cs_log s)"
proof -
  from run_ok_client[OF assms(1), of evs] assms(2) obtain d where d: "view_ok s d"
    "keys_of (lives (cs_wire s)) = keys_of (drop d (cs_log s))" by (auto simp: conn_ok_def)
  then have "keys_of l = keys_of (take d (cs_log s))"
    using assms(3) by (auto simp: view_ok_def split: option.splits)
  then show ?thesis using d(2) by (metis append_take_drop_id map_append)
qed

definition sample_event :: "nat \<Rightarrow> stored_event" where
  "sample_event n = \<lparr>se_seq = n, se_ts = 0, se_event = Ev_turn_completed\<rparr>"

definition sample_run :: connection_state where
  "sample_run = run_connection [sample_event 1, sample_event 2]
     [Opened, Answered 0, Delivered, Stored Ev_turn_completed 0 5, Answered 7, Delivered, Delivered, Answered 0,
      Stored Ev_turn_completed 0 6, Delivered, Delivered, Finished, Stored Ev_turn_completed 0 7]"

lemma transcript_complete_witness:
  "keys_of (the (lv_log (cs_view sample_run))) @ keys_of (lives (cs_wire sample_run)) = keys_of (cs_log sample_run) \<and>
   length (the (lv_log (cs_view sample_run))) = 4 \<and> length (cs_log sample_run) = 5"
proof -
  have n: "numbered [sample_event 1, sample_event 2]" by (simp add: numbered_def sample_event_def)
  have l: "lv_log (cs_view sample_run) = Some (the (lv_log (cs_view sample_run))) \<and>
      length (the (lv_log (cs_view sample_run))) = 4 \<and> length (cs_log sample_run) = 5"
    by (simp add: sample_run_def run_connection_def start_connection_def new_view_def open_log_def on_page_def on_event_def
        finish_log_def sample_event_def last_seq_def Let_def)
  from transcript_complete[OF n sample_run_def conjunct1[OF l]] l show ?thesis by blast
qed

section \<open>The desktop application\<close>

definition in_order :: "stored_event list \<Rightarrow> bool" where
  "in_order es \<longleftrightarrow> sorted_wrt (\<lambda>a b. se_seq a < se_seq b) es"

lemma in_order_snoc: "in_order es \<Longrightarrow> last_seq es < se_seq e \<Longrightarrow> in_order (es @ [e])"
proof (cases es rule: rev_cases)
  case (snoc g z)
  moreover assume "in_order es" "last_seq es < se_seq e"
  ultimately show ?thesis by (force simp: in_order_def sorted_wrt_append)
qed (simp add: in_order_def)

lemma append_in_order: "in_order (case known of Some l \<Rightarrow> l | None \<Rightarrow> []) \<Longrightarrow> in_order (append_events known added)"
  unfolding append_events_def
proof (induction added arbitrary: known)
  case (Cons e added)
  let ?l = "case known of Some l \<Rightarrow> l | None \<Rightarrow> []"
  let ?k = "if se_seq e > last_seq ?l then ?l @ [e] else ?l"
  have "in_order (case Some ?k of Some l \<Rightarrow> l | None \<Rightarrow> [])" using Cons.prems in_order_snoc by simp
  from Cons.IH[OF this] show ?case by simp
qed simp

lemma reduce_in_order:
  assumes "\<forall>es \<in> ran (mget (m_events m)). in_order es"
  shows "\<forall>es \<in> ran (mget (m_events (reduce m a))). in_order es"
proof -
  have update: "\<forall>es \<in> ran (mget (mset_key i (append_events known added) (m_events m))). in_order es"
    if "known = mget (m_events m) i" for i known added
  proof -
    have "in_order (case known of Some l \<Rightarrow> l | None \<Rightarrow> [])"
      using assms that by (auto simp: in_order_def ran_def split: option.split)
    then show ?thesis using assms append_in_order by (auto simp: update_conv' ran_def split: if_splits)
  qed
  show ?thesis
  proof (cases a)
    case (Set_events i es)
    then show ?thesis using update[OF refl] by (simp add: reduce_def)
  next
    case (Live_event i seq ev ts)
    then show ?thesis
    proof (cases "mget (m_events m) i")
      case (Some known)
      then show ?thesis using Live_event update[of "Some known" i] assms by (cases seq) (simp_all add: reduce_def)
    qed (use assms in \<open>simp add: reduce_def\<close>)
  qed (use assms in \<open>simp_all add: reduce_def\<close>)
qed

text \<open>
  Whatever arrives in whatever order, each transcript of the desktop application is
  in the order of its numbers and shows no event twice.
\<close>

theorem desktop_in_order:
  "ran (mget (m_events (foldl reduce EMPTY_MODEL acts))) \<subseteq> Collect in_order"
proof (induction acts rule: rev_induct)
  case (snoc a acts)
  then show ?case using reduce_in_order[of "foldl reduce EMPTY_MODEL acts" a] by auto
qed (simp add: EMPTY_MODEL_def)

text \<open>Events up to the last one known are dropped, also those that were never there.\<close>

lemma append_dropped:
  "\<forall>e \<in> set added. se_seq e \<le> last_seq known \<Longrightarrow> append_events (Some known) added = known"
  unfolding append_events_def by (induction added) (auto simp: not_less)

text \<open>
  After a reconnection the application still has the events it knew, so the first live event is appended
  behind the ones it missed; the whole transcript, which it then reads, is dropped.
\<close>

lemma reconnect_leaves_gap:
  assumes "numbered h" and "0 < length h" and "k < length h" and "mget (m_events m) i = Some (take k h)"
  shows "mget (m_events (foldl reduce m [Live_event i (Some (se_seq (last h))) (se_event (last h)) ts, Set_events i h])) i =
    Some (take k h @ [\<lparr>se_seq = se_seq (last h), se_ts = ts, se_event = se_event (last h)\<rparr>])"
proof -
  let ?e = "\<lparr>se_seq = se_seq (last h), se_ts = ts, se_event = se_event (last h)\<rparr>"
  have "last h \<in> set (drop k h)" using assms(2,3) by (metis last_drop last_in_set drop_eq_Nil not_le)
  then have "last_seq (take k h) < se_seq (last h)" using numbered_high[OF assms(1)] by simp
  then have one: "append_events (Some (take k h)) [?e] = take k h @ [?e]" by (simp add: append_events_def)
  have "\<forall>e \<in> set h. se_seq e \<le> se_seq (last h)"
    using numbered_low[OF assms(1), of _ "length h"] assms(2) by (auto simp: last_seq_def)
  then have "append_events (Some (take k h @ [?e])) h = take k h @ [?e]" by (intro append_dropped) simp
  then show ?thesis using one assms(4) by (simp add: reduce_def update_conv')
qed

section \<open>Machines apart\<close>

text \<open>What one machine sends changes only what is shown of it.\<close>

lemma machines_apart:
  "server \<noteq> other \<Longrightarrow> mget (reduceFleet f (Machine server act)) other = mget f other"
  by (simp add: reduceFleet_def update_conv')

end
