(* ===== verification/Transcript.thy ===== *)
theory Transcript
  imports Sanitize Protocol
begin

text \<open>
  \<^verbatim>\<open>packages/desktop/src/renderer/transcript.ts\<close>: the events of a task as the items the window draws.
  The group that is open is kept apart; it is always the last of the items.
\<close>

record shown_call =
  sc_id :: string
  sc_name :: units
  sc_input :: units
  sc_output :: "(units \<times> bool) option"

datatype shown_item =
  Item_input nat units bool
| Item_message nat units
| Item_progress nat units
| Item_notice nat units
| Item_error nat units bool
| Item_tools nat "shown_call list"

type_synonym shown_state = "shown_item list \<times> (nat \<times> shown_call list) option"

definition close_group :: "shown_state \<Rightarrow> shown_item list" where
  "close_group st = (case st of (items, g) \<Rightarrow> items @ (case g of None \<Rightarrow> [] | Some (seq, calls) \<Rightarrow> [Item_tools seq calls]))"

text \<open>The first call with the id gets the output.\<close>

fun set_output :: "string \<Rightarrow> units \<Rightarrow> bool \<Rightarrow> shown_call list \<Rightarrow> shown_call list" where
  "set_output i out failed [] = []"
| "set_output i out failed (c # cs) =
     (if sc_id c = i then c\<lparr>sc_output := Some (out, failed)\<rparr> # cs else c # set_output i out failed cs)"

definition group_of :: "nat \<Rightarrow> shown_state \<Rightarrow> nat \<times> shown_call list" where
  "group_of seq st = (case snd st of Some g \<Rightarrow> g | None \<Rightarrow> (seq, []))"

definition show_event :: "shown_state \<Rightarrow> stored_event \<Rightarrow> shown_state" where
  "show_event st e =
     (let seq = se_seq e; items = fst st; add = (\<lambda>i. (close_group st @ [i], None))
      in case se_event e of
           Ev_tool_call i name inp \<Rightarrow>
             (case group_of seq st of (s, calls) \<Rightarrow>
                (items, Some (s, calls @ [\<lparr>sc_id = i, sc_name = sanitizeLine (utf16 name), sc_input = sanitize (utf16 inp),
                                           sc_output = None\<rparr>])))
         | Ev_tool_result i out failed \<Rightarrow>
             (case group_of seq st of (s, calls) \<Rightarrow> (items, Some (s, set_output i (sanitize (utf16 out)) failed calls)))
         | Ev_input t source \<Rightarrow> add (Item_input seq (sanitize (utf16 t)) (source = Some From_task))
         | Ev_message t \<Rightarrow> add (Item_message seq (sanitize (utf16 t)))
         | Ev_progress t \<Rightarrow> add (Item_progress seq (sanitize (utf16 t)))
         | Ev_notice t \<Rightarrow> add (Item_notice seq (sanitize (utf16 t)))
         | Ev_error t fatal \<Rightarrow> add (Item_error seq (sanitize (utf16 t)) fatal)
         | _ \<Rightarrow> st)"

definition transcript :: "stored_event list \<Rightarrow> shown_item list" where
  "transcript es = close_group (foldl show_event ([], None) es)"

definition failed_call :: "shown_call \<Rightarrow> bool" where
  "failed_call c \<longleftrightarrow> (case sc_output c of Some (_, failed) \<Rightarrow> failed | None \<Rightarrow> False)"

definition num :: "nat \<Rightarrow> units" where
  "num n = lit (nat_str n)"

definition middle_dot :: units where
  "middle_dot = [0x20, 0xB7, 0x20]"

definition toolSummary :: "shown_call list \<Rightarrow> units" where
  "toolSummary calls =
     (let failed = length (List.filter failed_call calls);
          last_text = (if calls = [] then []
            else take 120 (sc_name (last calls) @ [0x20] @ sanitizeLine (sc_input (last calls))))
      in num (length calls) @ lit '' tool call'' @ (if length calls = 1 then [] else lit ''s'') @
         (if failed \<noteq> 0 then lit '' ('' @ num failed @ lit '' failed)'' else []) @
         (if last_text \<noteq> [] then middle_dot @ lit ''last: '' @ last_text else []))"

definition doing :: "shown_item list \<Rightarrow> units option" where
  "doing items =
     (if items = [] then None
      else case last items of
          Item_tools _ calls \<Rightarrow>
            if calls = [] then None
            else Some (take 140 (sc_name (last calls) @ [0x20] @ sanitizeLine (sc_input (last calls))))
        | Item_input _ _ _ \<Rightarrow> None
        | Item_message _ t \<Rightarrow> Some (take 140 (sanitizeLine t))
        | Item_progress _ t \<Rightarrow> Some (take 140 (sanitizeLine t))
        | Item_notice _ t \<Rightarrow> Some (take 140 (sanitizeLine t))
        | Item_error _ t _ \<Rightarrow> Some (take 140 (sanitizeLine t)))"

section \<open>What a transcript shows\<close>

definition item_calls :: "shown_item \<Rightarrow> (string \<times> units \<times> units) list" where
  "item_calls i = (case i of Item_tools _ calls \<Rightarrow> map (\<lambda>c. (sc_id c, sc_name c, sc_input c)) calls | _ \<Rightarrow> [])"

definition item_text :: "shown_item \<Rightarrow> (nat \<times> units) list" where
  "item_text i =
     (case i of
        Item_input s t _ \<Rightarrow> [(s, t)] | Item_message s t \<Rightarrow> [(s, t)] | Item_progress s t \<Rightarrow> [(s, t)]
      | Item_notice s t \<Rightarrow> [(s, t)] | Item_error s t _ \<Rightarrow> [(s, t)] | Item_tools _ _ \<Rightarrow> [])"

definition event_calls :: "stored_event \<Rightarrow> (string \<times> units \<times> units) list" where
  "event_calls e =
     (case se_event e of Ev_tool_call i name inp \<Rightarrow> [(i, sanitizeLine (utf16 name), sanitize (utf16 inp))] | _ \<Rightarrow> [])"

definition event_text :: "stored_event \<Rightarrow> (nat \<times> units) list" where
  "event_text e =
     (case se_event e of
        Ev_input t _ \<Rightarrow> [(se_seq e, sanitize (utf16 t))] | Ev_message t \<Rightarrow> [(se_seq e, sanitize (utf16 t))]
      | Ev_progress t \<Rightarrow> [(se_seq e, sanitize (utf16 t))] | Ev_notice t \<Rightarrow> [(se_seq e, sanitize (utf16 t))]
      | Ev_error t _ \<Rightarrow> [(se_seq e, sanitize (utf16 t))] | _ \<Rightarrow> [])"

lemmas shown_defs = item_calls_def item_text_def event_calls_def event_text_def

lemma set_output_calls:
  "map (\<lambda>c. (sc_id c, sc_name c, sc_input c)) (set_output i out failed cs) = map (\<lambda>c. (sc_id c, sc_name c, sc_input c)) cs"
  by (induction cs) auto

lemma show_event_calls:
  "concat (map item_calls (close_group (show_event st e))) = concat (map item_calls (close_group st)) @ event_calls e"
  by (cases st; cases "snd st"; cases "se_event e")
    (auto simp: show_event_def close_group_def group_of_def shown_defs set_output_calls Let_def)

lemma show_event_text:
  "concat (map item_text (close_group (show_event st e))) = concat (map item_text (close_group st)) @ event_text e"
  by (cases st; cases "snd st"; cases "se_event e")
    (auto simp: show_event_def close_group_def group_of_def shown_defs Let_def)

lemma foldl_shows:
  "concat (map item_calls (close_group (foldl show_event st es))) = concat (map item_calls (close_group st)) @ concat (map event_calls es) \<and>
   concat (map item_text (close_group (foldl show_event st es))) = concat (map item_text (close_group st)) @ concat (map event_text es)"
  by (induction es arbitrary: st) (simp_all add: show_event_calls show_event_text)

text \<open>
  A transcript shows every tool call and every text of the events once and in
  their order, and nothing else; all of it sanitized.
\<close>

theorem transcript_shows_all:
  "concat (map item_calls (transcript es)) = concat (map event_calls es) \<and>
   concat (map item_text (transcript es)) = concat (map event_text es) \<and>
   list_all (\<lambda>(_, t). list_all harmless t) (concat (map item_text (transcript es)))"
proof -
  have eq: "concat (map item_calls (transcript es)) = concat (map event_calls es)"
    "concat (map item_text (transcript es)) = concat (map event_text es)"
    using foldl_shows[of "([], None)" es] by (simp_all add: transcript_def close_group_def)
  have "list_all (\<lambda>(_, t). list_all harmless t) (event_text e)" for e
    by (cases "se_event e") (simp_all add: event_text_def harmless_sanitize)
  then show ?thesis unfolding eq by (auto simp: list_all_iff)
qed

text \<open>
  A result is only put on a call of the group that is open.  After anything shown in between it opens a
  group with no call, and the call stays without its output.
\<close>

lemma result_after_text_lost:
  "transcript [\<lparr>se_seq = 1, se_ts = 0, se_event = Ev_tool_call ''a'' n inp\<rparr>,
               \<lparr>se_seq = 2, se_ts = 0, se_event = Ev_progress p\<rparr>,
               \<lparr>se_seq = 3, se_ts = 0, se_event = Ev_tool_result ''a'' out failed\<rparr>] =
   [Item_tools 1 [\<lparr>sc_id = ''a'', sc_name = sanitizeLine (utf16 n), sc_input = sanitize (utf16 inp), sc_output = None\<rparr>],
    Item_progress 2 (sanitize (utf16 p)), Item_tools 3 []]"
  by (simp add: transcript_def show_event_def close_group_def group_of_def Let_def)

end
