(* ===== verification/Services.thy ===== *)
theory Services
  imports Schema
begin

text \<open>
  \<^verbatim>\<open>packages/daemon/src/services.ts\<close>: the set-up of the connector services, and the sign-ins in
  the browser (Google, X, Reddit) in the pieces between their waits.  Commands in the VM, the loopback
  server and the requests it gets are arguments; \<open>parse\<close> is \<open>JSON.parse\<close>.
\<close>

section \<open>Answers of the administration tools\<close>

text \<open>\<open>String(value)\<close>.\<close>

fun js_string :: "json \<Rightarrow> string" where
  "js_string JNull = ''null''"
| "js_string (JBool b) = (if b then ''true'' else ''false'')"
| "js_string (JInt n) = json_text (JInt n)"
| "js_string (JReal t) = t"
| "js_string (JStr s) = s"
| "js_string (JArr xs) = join '','' (map (\<lambda>x. if x = JNull then [] else js_string x) xs)"
| "js_string (JObj kvs) = ''[object Object]''"

definition error_field :: "json \<Rightarrow> string" where
  "error_field v =
     (case v of
        JObj kvs \<Rightarrow> (case map_of kvs ''error'' of None \<Rightarrow> ''SERVICE_ADMIN_FAILED''
                     | Some JNull \<Rightarrow> ''SERVICE_ADMIN_FAILED'' | Some e \<Rightarrow> js_string e)
      | JNull \<Rightarrow> ''TypeError''
      | _ \<Rightarrow> ''SERVICE_ADMIN_FAILED'')"

definition json_answer :: "(string \<Rightarrow> json option) \<Rightarrow> int \<Rightarrow> string \<Rightarrow> fields result" where
  "json_answer parse code stdout =
     (let out = js_trim stdout
      in case (case parse out of Some v \<Rightarrow> Some v | None \<Rightarrow> parse (last (split_on (CHR 0x0A) out))) of
           None \<Rightarrow> Inl (Error ''the VM did not answer; is it running?'')
         | Some v \<Rightarrow>
             if code \<noteq> 0 then Inl (Error (error_field v))
             else case v of
                    JObj kvs \<Rightarrow> (case map_of kvs ''error'' of None \<Rightarrow> Inr kvs | Some _ \<Rightarrow> Inl (Error (error_field v)))
                  | JArr _ \<Rightarrow> Inr []
                  | _ \<Rightarrow> Inl (Error ''TypeError''))"

section \<open>Accounts and status\<close>

definition SERVICE_IDS :: "string list" where
  "SERVICE_IDS = [''gmail'', ''drive'', ''notion'', ''slack'', ''x'', ''reddit'']"

definition GOOGLE_IDS :: "string list" where
  "GOOGLE_IDS = [''gmail'', ''drive'']"

definition X_CALLBACK_PORT :: nat where "X_CALLBACK_PORT = 48173"
definition REDDIT_CALLBACK_PORT :: nat where "REDDIT_CALLBACK_PORT = 48174"
definition DEFAULT_ACCOUNT :: string where "DEFAULT_ACCOUNT = ''default''"

definition ACCOUNT :: "string \<Rightarrow> bool" where
  "ACCOUNT s \<longleftrightarrow>
     1 \<le> length s \<and> length s \<le> 32 \<and> (is_lower (hd s) \<or> is_digit (hd s)) \<and>
     list_all (\<lambda>c. is_slug_char c \<or> c = CHR ''_'') s"

definition accountArg :: "string \<Rightarrow> string option \<Rightarrow> string list result" where
  "accountArg i account =
     (case account of
        None \<Rightarrow> Inr []
      | Some a \<Rightarrow>
          if i \<notin> set GOOGLE_IDS then Inl (Error (i @ '' has no named accounts''))
          else if \<not> ACCOUNT a
            then Inl (Error (''account names are 1'' @ [CHR 0xE2, CHR 0x80, CHR 0x93] @
              ''32 lowercase letters, digits, '' @ [CHR 0x22, CHR ''-'', CHR 0x22] @ '' or '' @
              [CHR 0x22, CHR ''_'', CHR 0x22]))
          else Inr [a])"

record service_account =
  sa_name :: string
  sa_connected :: bool
  sa_account :: "string option"
  sa_reauthRequired :: bool
  sa_revocationPending :: bool

record service_status =
  sv_id :: string
  sv_connected :: bool
  sv_account :: "string option"
  sv_reauthRequired :: bool
  sv_revocationPending :: bool
  sv_asks :: bool
  sv_accounts :: "service_account list"

record services_status =
  ss_services :: "service_status list"
  ss_googleClient :: bool
  ss_googleClientSource :: "string option"
  ss_xClient :: bool
  ss_redditClient :: bool

definition no_services :: services_status where
  "no_services = \<lparr>ss_services = [], ss_googleClient = False, ss_googleClientSource = None, ss_xClient = False,
     ss_redditClient = False\<rparr>"

definition is_true :: "fields \<Rightarrow> string \<Rightarrow> bool" where
  "is_true kvs k \<longleftrightarrow> map_of kvs k = Some (JBool True)"

definition text_or_null :: "fields \<Rightarrow> string \<Rightarrow> string option" where
  "text_or_null kvs k = Option.bind (map_of kvs k) p_string"

fun object_fields :: "json option \<Rightarrow> fields" where
  "object_fields (Some (JObj kvs)) = kvs"
| "object_fields _ = []"

fun array_items :: "json option \<Rightarrow> json list" where
  "array_items (Some (JArr xs)) = xs"
| "array_items _ = []"

definition account_status :: "json \<Rightarrow> service_account" where
  "account_status j =
     (let a = object_fields (Some j)
      in \<lparr>sa_name = (case map_of a ''name'' of None \<Rightarrow> ''undefined'' | Some v \<Rightarrow> js_string v),
          sa_connected = is_true a ''connected'', sa_account = text_or_null a ''account'',
          sa_reauthRequired = is_true a ''reauth_required'', sa_revocationPending = is_true a ''revocation_pending''\<rparr>)"

text \<open>The policy's mode of a service: X and Reddit ask where there is no rule.\<close>

definition asks :: "fields \<Rightarrow> string \<Rightarrow> bool" where
  "asks rules i =
     (case map_of rules i of
        None \<Rightarrow> i = ''x'' \<or> i = ''reddit''
      | Some JNull \<Rightarrow> i = ''x'' \<or> i = ''reddit''
      | Some v \<Rightarrow> v = JStr ''ask'')"

definition service_status_of :: "fields \<Rightarrow> fields \<Rightarrow> string \<Rightarrow> service_status" where
  "service_status_of all_of rules i =
     (let s = object_fields (map_of all_of i)
      in \<lparr>sv_id = i, sv_connected = is_true s ''connected'', sv_account = text_or_null s ''account'',
          sv_reauthRequired = is_true s ''reauth_required'', sv_revocationPending = is_true s ''revocation_pending'',
          sv_asks = asks rules i, sv_accounts = map account_status (array_items (map_of s ''accounts''))\<rparr>)"

definition services_status :: "fields \<Rightarrow> fields \<Rightarrow> services_status" where
  "services_status all_of answer =
     \<lparr>ss_services = map (service_status_of all_of (object_fields (map_of answer ''rules''))) SERVICE_IDS,
      ss_googleClient = is_true all_of ''client_configured'',
      ss_googleClientSource =
        (case text_or_null all_of ''client_source'' of
           Some s \<Rightarrow> if s = ''user'' \<or> s = ''builtin'' then Some s else None | None \<Rightarrow> None),
      ss_xClient = is_true (object_fields (map_of all_of ''x'')) ''client_configured'',
      ss_redditClient = is_true (object_fields (map_of all_of ''reddit'')) ''client_configured''\<rparr>"

text \<open>What the simple operations ask the VM: the arguments of the tool and its input.\<close>

type_synonym command = "string list \<times> string"

definition admin :: "string list \<Rightarrow> string list" where
  "admin args = ''/opt/secure-vm/services/admin.py'' # args"

definition connector_admin :: "string list \<Rightarrow> string list" where
  "connector_admin args = ''/opt/secure-vm/services/connector_admin.py'' # args"

definition client_id_ok :: "nat \<Rightarrow> nat \<Rightarrow> string \<Rightarrow> bool" where
  "client_id_ok lo hi s \<longleftrightarrow> lo \<le> length s \<and> length s \<le> hi \<and>
     list_all (\<lambda>c. is_upper c \<or> is_lower c \<or> is_digit c \<or> c = CHR ''_'' \<or> c = CHR ''-'') s"

text \<open>A token, and then the label of its account.\<close>

definition setToken :: "string \<Rightarrow> string \<Rightarrow> command list result" where
  "setToken i token =
     (if i = ''x'' \<or> i = ''reddit'' then Inl (Error (i @ '' connects through browser sign-in''))
      else if i \<noteq> ''notion'' \<and> i \<noteq> ''slack'' then Inl (Error (i @ '' connects through Google sign-in''))
      else Inr [(admin [''import-token'', i], json_text (JObj [(''token'', JStr token)])),
        (connector_admin [i, ''probe''], [])])"

definition setMode :: "string \<Rightarrow> string \<Rightarrow> command" where
  "setMode i mode = ([''/opt/secure-vm/services/policy_admin.py'', ''mode'', i, mode], [])"

definition setGoogleClient :: "(string \<Rightarrow> json option) \<Rightarrow> string \<Rightarrow> command result" where
  "setGoogleClient parse clientJson =
     (if length clientJson > 16384 then Inl (Error ''client JSON too large'')
      else if parse clientJson = None then Inl (Error ''SyntaxError'')
      else Inr (admin [''import-client'', ''gmail''], clientJson))"

definition removeGoogleClient :: command where
  "removeGoogleClient = (admin [''remove-client''], [])"

definition setXClient :: "string \<Rightarrow> command result" where
  "setXClient clientId =
     (if \<not> client_id_ok 1 256 clientId then Inl (Error ''BAD_X_CLIENT_ID'')
      else Inr (admin [''import-client'', ''x''], json_text (JObj [(''client_id'', JStr clientId)])))"

definition setRedditClient :: "string \<Rightarrow> string \<Rightarrow> command result" where
  "setRedditClient clientId developer =
     (if \<not> client_id_ok 1 256 clientId then Inl (Error ''BAD_REDDIT_CLIENT_ID'')
      else if \<not> client_id_ok 3 20 developer then Inl (Error ''BAD_REDDIT_DEVELOPER_USERNAME'')
      else Inr (admin [''import-client'', ''reddit''],
        json_text (JObj [(''client_id'', JStr clientId), (''developer_username'', JStr developer)])))"

section \<open>Sign-ins\<close>

text \<open>
  One attempt: its loopback server is open or not; what ended it (a code with its state, replaced, or
  cancelled); how far it came.  \<open>at_state\<close> is the state the VM gave out, empty until then.
\<close>

datatype ending = With_code string string | Superseded | Cancelled_or_late

datatype progress_of = Binding | Beginning | Waiting_user | Completing | Over

record attempt =
  at_service :: string
  at_account :: "string option"
  at_host :: string
  at_state :: string
  at_open :: bool
  at_ending :: "ending option"
  at_progress :: progress_of

datatype service_output =
  Ask_vm nat command
| Open_url nat string
| Reported nat bool string

record sign_ins =
  si_attempts :: "attempt list"
  si_logins :: "(string, nat) jsmap"
  si_out :: "service_output list"

type_synonym 'a sign_op = "(sign_ins, 'a) op"

definition no_sign_ins :: sign_ins where
  "no_sign_ins = \<lparr>si_attempts = [], si_logins = [], si_out = []\<rparr>"

definition login_key :: "string \<Rightarrow> string option \<Rightarrow> string" where
  "login_key i account = i @ '':'' @ (case account of None \<Rightarrow> DEFAULT_ACCOUNT | Some a \<Rightarrow> a)"

definition change :: "nat \<Rightarrow> (attempt \<Rightarrow> attempt) \<Rightarrow> unit sign_op" where
  "change n f = modify (\<lambda>s. s\<lparr>si_attempts := (if n < length (si_attempts s)
     then (si_attempts s)[n := f (si_attempts s ! n)] else si_attempts s)\<rparr>)"

definition say :: "service_output \<Rightarrow> unit sign_op" where
  "say x = modify (\<lambda>s. s\<lparr>si_out := si_out s @ [x]\<rparr>)"

text \<open>A promise settles once: the first ending stays.\<close>

definition settle_with :: "ending \<Rightarrow> attempt \<Rightarrow> attempt" where
  "settle_with e a = (case at_ending a of None \<Rightarrow> a\<lparr>at_ending := Some e\<rparr> | Some _ \<Rightarrow> a)"

definition supersede :: "string \<Rightarrow> unit sign_op" where
  "supersede key =
     andthen (gets (\<lambda>s. mget (si_logins s) key)) (\<lambda>found.
     case found of
       None \<Rightarrow> ret ()
     | Some n \<Rightarrow> change n (\<lambda>a. settle_with Superseded (a\<lparr>at_open := False\<rparr>)))"

definition forget_login :: "nat \<Rightarrow> attempt \<Rightarrow> unit sign_op" where
  "forget_login n a =
     modify (\<lambda>s. s\<lparr>si_logins :=
       (let key = login_key (at_service a) (at_account a)
        in if mget (si_logins s) key = Some n then mdelete key (si_logins s) else si_logins s)\<rparr>)"

text \<open>\<open>oauthLogin\<close>, up to the port it asks for.\<close>

definition oauth_start :: "string \<Rightarrow> string option \<Rightarrow> nat sign_op" where
  "oauth_start i account =
     andthen (lift_result (accountArg i account)) (\<lambda>_.
     andthen (supersede (login_key i account)) (\<lambda>_.
     andthen (gets (\<lambda>s. length (si_attempts s))) (\<lambda>n.
     andthen (modify (\<lambda>s. s\<lparr>si_attempts := si_attempts s @
       [\<lparr>at_service = i, at_account = account, at_host = [], at_state = [], at_open = False, at_ending = None,
         at_progress = Binding\<rparr>]\<rparr>)) (\<lambda>_.
     ret n))))"

definition attempt_at :: "nat \<Rightarrow> progress_of \<Rightarrow> sign_ins \<Rightarrow> attempt option" where
  "attempt_at n p s =
     (if n < length (si_attempts s) \<and> at_progress (si_attempts s ! n) = p then Some (si_attempts s ! n) else None)"

definition at_stage :: "nat \<Rightarrow> progress_of \<Rightarrow> (attempt \<Rightarrow> unit sign_op) \<Rightarrow> unit sign_op" where
  "at_stage n p f = andthen (gets (attempt_at n p)) (\<lambda>found. case found of None \<Rightarrow> ret () | Some a \<Rightarrow> f a)"

text \<open>The port, when one could be bound; then the VM begins.\<close>

definition named_args :: "attempt \<Rightarrow> string list" where
  "named_args a = (case at_account a of None \<Rightarrow> [] | Some x \<Rightarrow> [x])"

definition oauth_bound :: "nat \<Rightarrow> nat option \<Rightarrow> unit sign_op" where
  "oauth_bound n port =
     at_stage n Binding (\<lambda>a.
       case port of
         None \<Rightarrow> andthen (change n (\<lambda>a. a\<lparr>at_progress := Over\<rparr>)) (\<lambda>_. throw ''OAUTH_CALLBACK_PORT_UNAVAILABLE'')
       | Some p \<Rightarrow>
           let host = ''127.0.0.1:'' @ nat_str p
           in andthen (modify (\<lambda>s. s\<lparr>si_logins := mset_key (login_key (at_service a) (at_account a)) n (si_logins s)\<rparr>)) (\<lambda>_.
              andthen (change n (\<lambda>a. a\<lparr>at_open := True, at_host := host, at_progress := Beginning\<rparr>)) (\<lambda>_.
              say (Ask_vm n (admin ([''begin'', at_service a] @ named_args a),
                json_text (JObj [(''redirect_uri'', JStr (''http://'' @ host @ ''/callback''))]))))))"

text \<open>What happens once the attempt has ended: at once when it ended while the VM began.\<close>

definition oauth_ended :: "nat \<Rightarrow> unit sign_op" where
  "oauth_ended n =
     at_stage n Waiting_user (\<lambda>a.
       case at_ending a of
         None \<Rightarrow> ret ()
       | Some e \<Rightarrow>
           andthen (change n (\<lambda>a. a\<lparr>at_open := False, at_progress :=
             (case e of With_code _ _ \<Rightarrow> Completing | _ \<Rightarrow> Over)\<rparr>)) (\<lambda>_.
           andthen (forget_login n a) (\<lambda>_.
           case e of
             Superseded \<Rightarrow> ret ()
           | Cancelled_or_late \<Rightarrow> say (Reported n False ''sign-in cancelled or timed out'')
           | With_code code state \<Rightarrow>
               say (Ask_vm n (admin ([''complete'', at_service a] @ named_args a),
                 json_text (JObj [(''code'', JStr code), (''state'', JStr state)]))))))"

definition oauth_begun :: "nat \<Rightarrow> fields result \<Rightarrow> unit sign_op" where
  "oauth_begun n answer =
     at_stage n Beginning (\<lambda>a.
       case answer of
         Inl e \<Rightarrow>
           andthen (change n (\<lambda>a. a\<lparr>at_open := False, at_progress := Over\<rparr>)) (\<lambda>_.
           andthen (forget_login n a) (\<lambda>_. lift_result (Inl e)))
       | Inr flow \<Rightarrow>
           let word = (\<lambda>k. case map_of flow k of None \<Rightarrow> ''undefined'' | Some v \<Rightarrow> js_string v)
           in andthen (change n (\<lambda>a. a\<lparr>at_state := word ''state'', at_progress := Waiting_user\<rparr>)) (\<lambda>_.
              say (Open_url n (word ''url''))))"

text \<open>A request to the loopback server of an attempt.\<close>

record http_request =
  rq_valid_url :: bool
  rq_get :: bool
  rq_callback :: bool
  rq_host :: "string option"
  rq_states :: "string list"
  rq_codes :: "string list"
  rq_error :: bool

definition request_ok :: "attempt \<Rightarrow> http_request \<Rightarrow> bool" where
  "request_ok a r \<longleftrightarrow>
     rq_valid_url r \<and> rq_get r \<and> rq_callback r \<and> rq_host r = Some (at_host a) \<and> at_state a \<noteq> [] \<and>
     rq_states r = [at_state a] \<and> length (rq_codes r) \<le> 1"

definition request_ending :: "http_request \<Rightarrow> ending" where
  "request_ending r =
     (case rq_codes r of
        code # _ \<Rightarrow>
          if code \<noteq> [] \<and> length code \<le> 4096 \<and> \<not> rq_error r then With_code code (hd (rq_states r))
          else Cancelled_or_late
      | [] \<Rightarrow> Cancelled_or_late)"

text \<open>The status of the answer.\<close>

definition oauth_request :: "nat \<Rightarrow> http_request \<Rightarrow> nat sign_op" where
  "oauth_request n r =
     andthen (gets (\<lambda>s. if n < length (si_attempts s) then Some (si_attempts s ! n) else None)) (\<lambda>found.
     case found of
       None \<Rightarrow> ret 0
     | Some a \<Rightarrow>
         if \<not> at_open a then ret 0
         else if \<not> request_ok a r then ret 400
         else andthen (change n (settle_with (request_ending r))) (\<lambda>_. ret 200))"

definition oauth_timeout :: "nat \<Rightarrow> unit sign_op" where
  "oauth_timeout n = at_stage n Waiting_user (\<lambda>_. change n (settle_with Cancelled_or_late))"

text \<open>The VM's answer to the code; a Google account is then asked for its label.\<close>

definition oauth_completed :: "nat \<Rightarrow> fields result \<Rightarrow> unit sign_op" where
  "oauth_completed n answer =
     at_stage n Completing (\<lambda>a.
       andthen (change n (\<lambda>a. a\<lparr>at_progress := Over\<rparr>)) (\<lambda>_.
       case answer of
         Inl e \<Rightarrow> say (Reported n False (message e))
       | Inr _ \<Rightarrow>
           andthen (when_do (at_service a \<in> set GOOGLE_IDS)
             (say (Ask_vm n (connector_admin ([at_service a, ''probe''] @ named_args a), [])))) (\<lambda>_.
           say (Reported n True []))))"

definition googleLogin :: "string \<Rightarrow> string option \<Rightarrow> nat sign_op" where
  "googleLogin i account =
     andthen (require (i \<in> set GOOGLE_IDS) (i @ '' does not use Google sign-in'')) (\<lambda>_. oauth_start i account)"

definition xLogin :: "nat sign_op" where "xLogin = oauth_start ''x'' None"
definition redditLogin :: "nat sign_op" where "redditLogin = oauth_start ''reddit'' None"

definition disconnect :: "string \<Rightarrow> string option \<Rightarrow> command sign_op" where
  "disconnect i account =
     andthen (supersede (login_key i account)) (\<lambda>_.
     andthen (lift_result (accountArg i account)) (\<lambda>named.
     ret (connector_admin ([i, ''disconnect''] @ named), [])))"

definition stop_sign_ins :: "unit sign_op" where
  "stop_sign_ins = andthen (gets (\<lambda>s. mkeys (si_logins s))) (each supersede)"

end
