(* ===== verification/ServiceFacts.thy ===== *)
theory ServiceFacts
  imports Services
begin

text \<open>
  Sign-ins in the browser, however their steps interleave: an attempt reports at most once and not at
  all when it was replaced, and the VM only gets codes that came with the state it gave out.
\<close>

section \<open>Runs\<close>

datatype sign_event =
  Google_login string "string option"
| X_login
| Reddit_login
| Bound nat "nat option"
| Begun nat "fields result"
| Requested nat http_request
| Timed_out nat
| Ended_now nat
| Completed nat "fields result"
| Disconnected string "string option"
| Stopped

fun sign_step :: "sign_ins \<Rightarrow> sign_event \<Rightarrow> sign_ins" where
  "sign_step s (Google_login i a) = state_of (googleLogin i a) s"
| "sign_step s X_login = state_of xLogin s"
| "sign_step s Reddit_login = state_of redditLogin s"
| "sign_step s (Bound n p) = state_of (oauth_bound n p) s"
| "sign_step s (Begun n r) = state_of (oauth_begun n r) s"
| "sign_step s (Requested n r) = state_of (oauth_request n r) s"
| "sign_step s (Timed_out n) = state_of (oauth_timeout n) s"
| "sign_step s (Ended_now n) = state_of (oauth_ended n) s"
| "sign_step s (Completed n r) = state_of (oauth_completed n r) s"
| "sign_step s (Disconnected i a) = state_of (disconnect i a) s"
| "sign_step s Stopped = state_of stop_sign_ins s"

definition run_sign_ins :: "sign_event list \<Rightarrow> sign_ins" where
  "run_sign_ins evs = foldl sign_step no_sign_ins evs"

section \<open>The invariant\<close>

definition reports :: "nat \<Rightarrow> service_output list \<Rightarrow> service_output list" where
  "reports n out = List.filter (\<lambda>x. case x of Reported m _ _ \<Rightarrow> m = n | _ \<Rightarrow> False) out"

fun completion :: "service_output \<Rightarrow> (nat \<times> string) option" where
  "completion (Ask_vm n (p # c # _, input)) = (if p # [c] = admin [''complete''] then Some (n, input) else None)"
| "completion _ = None"

definition code_input :: "string \<Rightarrow> string \<Rightarrow> string" where
  "code_input code state = json_text (JObj [(''code'', JStr code), (''state'', JStr state)])"

text \<open>An output of the attempts: it is of one that exists, and a code is the one that attempt got.\<close>

definition output_ok :: "attempt list \<Rightarrow> service_output \<Rightarrow> bool" where
  "output_ok as x \<longleftrightarrow>
     (case completion x of
        None \<Rightarrow> True
      | Some (n, input) \<Rightarrow>
          n < length as \<and> at_state (as ! n) \<noteq> [] \<and>
          (case at_ending (as ! n) of
             Some (With_code code state) \<Rightarrow> state = at_state (as ! n) \<and> input = code_input code state
           | _ \<Rightarrow> False))"

definition attempt_ok :: "service_output list \<Rightarrow> nat \<Rightarrow> attempt \<Rightarrow> bool" where
  "attempt_ok out n a \<longleftrightarrow>
     length (reports n out) \<le> (if at_progress a = Over then 1 else 0) \<and>
     (reports n out = [] \<or> (at_ending a \<noteq> None \<and> at_ending a \<noteq> Some Superseded)) \<and>
     (at_progress a = Binding \<or> at_progress a = Beginning \<longrightarrow>
        at_state a = [] \<and> (at_ending a = None \<or> at_ending a = Some Superseded)) \<and>
     (at_progress a = Completing \<longrightarrow> (\<exists>c st. at_ending a = Some (With_code c st))) \<and>
     (\<forall>c st. at_ending a = Some (With_code c st) \<longrightarrow> st = at_state a \<and> at_state a \<noteq> [])"

definition signs_ok :: "sign_ins \<Rightarrow> bool" where
  "signs_ok s \<longleftrightarrow>
     (\<forall>n < length (si_attempts s). attempt_ok (si_out s) n (si_attempts s ! n)) \<and>
     (\<forall>n \<ge> length (si_attempts s). reports n (si_out s) = []) \<and>
     list_all (output_ok (si_attempts s)) (si_out s)"

lemma attempt_ok_cong: "reports n out = reports n out' \<Longrightarrow> attempt_ok out n a = attempt_ok out' n a"
  by (simp add: attempt_ok_def)

lemma reports_append: "reports n (xs @ ys) = reports n xs @ reports n ys"
  by (simp add: reports_def)

lemma reports_one [simp]:
  "reports n [Ask_vm m c] = []" "reports n [Open_url m u] = []"
  "reports n [Reported m b x] = (if m = n then [Reported m b x] else [])"
  by (simp_all add: reports_def)

lemma reports_Nil [simp]: "reports n [] = []"
  by (simp add: reports_def)

text \<open>Outputs stay right when the attempt they speak of keeps its ending and state.\<close>

lemma output_ok_mono:
  assumes "output_ok as x" and "length as \<le> length bs"
    and "\<And>n c st. n < length as \<Longrightarrow> at_ending (as ! n) = Some (With_code c st) \<Longrightarrow>
           at_ending (bs ! n) = at_ending (as ! n) \<and> at_state (bs ! n) = at_state (as ! n)"
  shows "output_ok bs x"
proof (cases "completion x")
  case (Some p)
  then obtain n input where p: "completion x = Some (n, input)" by (cases p) auto
  then obtain c st where n: "n < length as" "at_ending (as ! n) = Some (With_code c st)" "at_state (as ! n) \<noteq> []"
      "st = at_state (as ! n)" "input = code_input c st"
    using assms(1) unfolding output_ok_def p by (auto split: option.splits ending.splits)
  note same = assms(3) [OF n(1,2)]
  have b: "at_ending (bs ! n) = Some (With_code c st)" by (rule trans [OF conjunct1 [OF same] n(2)])
  have c: "at_state (bs ! n) = st" by (rule trans [OF conjunct2 [OF same] n(4) [symmetric]])
  have "st \<noteq> []" by (subst n(4)) (rule n(3))
  moreover have "n < length bs" by (rule order.strict_trans2 [OF n(1) assms(2)])
  ultimately show ?thesis
    unfolding output_ok_def p by (simp only: option.case prod.case b c n(5) ending.case simp_thms)
qed (simp add: output_ok_def)

text \<open>One attempt changes and something may be put out.\<close>

lemma signs_ok_change:
  assumes ok: "signs_ok s" and n: "n < length (si_attempts s)"
    and kept: "\<And>c st. at_ending (si_attempts s ! n) = Some (With_code c st) \<Longrightarrow>
           at_ending a = at_ending (si_attempts s ! n) \<and> at_state a = at_state (si_attempts s ! n)"
    and a: "attempt_ok (si_out s @ xs) n a"
    and other: "\<And>m. m \<noteq> n \<Longrightarrow> reports m xs = []"
    and out: "list_all (output_ok ((si_attempts s)[n := a])) xs"
  shows "signs_ok (s\<lparr>si_attempts := (si_attempts s)[n := a], si_logins := l, si_out := si_out s @ xs\<rparr>)"
proof -
  have old: "list_all (output_ok ((si_attempts s)[n := a])) (si_out s)"
  proof -
    have keep: "at_ending ((si_attempts s)[n := a] ! m) = at_ending (si_attempts s ! m) \<and>
        at_state ((si_attempts s)[n := a] ! m) = at_state (si_attempts s ! m)"
      if "m < length (si_attempts s)" "at_ending (si_attempts s ! m) = Some (With_code c st)" for m c st
    proof (cases "m = n")
      case True
      then show ?thesis using kept [of c st] that(2) n by simp
    qed simp
    have "output_ok ((si_attempts s)[n := a]) x" if "x \<in> set (si_out s)" for x
    proof (rule output_ok_mono [OF _ _ keep])
      show "output_ok (si_attempts s) x" using ok that by (simp add: signs_ok_def list_all_iff)
    qed simp_all
    then show ?thesis by (simp add: list_all_iff)
  qed
  have "attempt_ok (si_out s @ xs) m ((si_attempts s)[n := a] ! m)" if "m < length (si_attempts s)" for m
  proof (cases "m = n")
    case True
    then show ?thesis using a n by simp
  next
    case False
    then have same: "reports m (si_out s @ xs) = reports m (si_out s)" by (simp add: reports_append other)
    have "attempt_ok (si_out s) m (si_attempts s ! m)" using that ok by (simp add: signs_ok_def)
    then show ?thesis using False attempt_ok_cong [OF same] by simp
  qed
  moreover have "reports m (si_out s @ xs) = []" if "m \<ge> length (si_attempts s)" for m
    using that ok other n by (simp add: signs_ok_def reports_append)
  ultimately show ?thesis using old out by (simp add: signs_ok_def)
qed

lemma signs_ok_logins: "signs_ok (s\<lparr>si_logins := l\<rparr>) = signs_ok s"
  by (simp add: signs_ok_def)

lemma signs_ok_at:
  assumes "signs_ok s" and "attempt_at n p s = Some a"
  shows "n < length (si_attempts s)" "si_attempts s ! n = a" "at_progress a = p" "attempt_ok (si_out s) n a"
  using assms by (auto simp: attempt_at_def signs_ok_def split: if_splits)

lemma change_simps:
  "change n f s = (Inr (), s\<lparr>si_attempts := (if n < length (si_attempts s)
     then (si_attempts s)[n := f (si_attempts s ! n)] else si_attempts s)\<rparr>)"
  by (simp add: change_def modify_def)

lemma say_simps: "say x s = (Inr (), s\<lparr>si_out := si_out s @ [x]\<rparr>)"
  by (simp add: say_def modify_def)

lemma logins_first: "s\<lparr>si_logins := l, si_attempts := as, si_out := out\<rparr> = s\<lparr>si_attempts := as, si_logins := l, si_out := out\<rparr>"
  by simp

lemmas sign_simps = state_of_def andthen_def gets_def modify_def lift_result_def change_simps say_simps require_def
  forget_login_def ret_def throw_def when_do_def

lemma attempt_ok_facts:
  assumes "attempt_ok out n a"
  shows "at_progress a \<noteq> Over \<Longrightarrow> reports n out = []"
    and "at_ending a = Some (With_code c st) \<Longrightarrow> st = at_state a \<and> at_state a \<noteq> []"
    and "at_progress a = Completing \<Longrightarrow> \<exists>c st. at_ending a = Some (With_code c st)"
    and "at_progress a = Binding \<or> at_progress a = Beginning \<Longrightarrow>
      at_state a = [] \<and> (at_ending a = None \<or> at_ending a = Some Superseded)"
  using assms unfolding attempt_ok_def by (simp, blast, blast, blast)

lemma attempt_ok_new: "reports n out = [] \<Longrightarrow> at_progress a = Binding \<Longrightarrow> at_state a = [] \<Longrightarrow> at_ending a = None \<Longrightarrow>
    attempt_ok out n a"
  by (simp add: attempt_ok_def)

section \<open>The steps\<close>

lemma ok_no_sign_ins: "signs_ok no_sign_ins"
  by (simp add: signs_ok_def no_sign_ins_def)

lemma settle_ok:
  assumes "signs_ok s" and "n < length (si_attempts s)"
    and "attempt_ok (si_out s) n (settle_with e ((si_attempts s ! n)\<lparr>at_open := b\<rparr>))"
  shows "signs_ok (s\<lparr>si_attempts := (si_attempts s)[n := settle_with e ((si_attempts s ! n)\<lparr>at_open := b\<rparr>)]\<rparr>)"
proof -
  have "signs_ok (s\<lparr>si_attempts := (si_attempts s)[n := settle_with e ((si_attempts s ! n)\<lparr>at_open := b\<rparr>)],
      si_logins := si_logins s, si_out := si_out s @ []\<rparr>)"
    by (rule signs_ok_change) (use assms in \<open>simp_all add: settle_with_def split: option.splits\<close>)
  then show ?thesis by simp
qed

lemma settle_attempt:
  assumes "attempt_ok out n a" and "e = Superseded \<or> at_progress a \<noteq> Binding \<and> at_progress a \<noteq> Beginning \<and>
      (case e of With_code c st \<Rightarrow> st = at_state a \<and> st \<noteq> [] | _ \<Rightarrow> True)"
  shows "attempt_ok out n (settle_with e (a\<lparr>at_open := b\<rparr>))"
  using assms by (auto simp: attempt_ok_def settle_with_def split: option.splits ending.splits)

lemma supersede_ok: "signs_ok s \<Longrightarrow> signs_ok (snd (supersede key s))"
  unfolding supersede_def
  by (auto simp: sign_simps split: option.split intro!: settle_ok settle_attempt) (simp add: signs_ok_def)

lemma start_ok_sign: "signs_ok s \<Longrightarrow> signs_ok (snd (oauth_start i account s))"
proof (cases "accountArg i account")
  case (Inr b)
  define s1 where "s1 = snd (supersede (login_key i account) s)"
  assume "signs_ok s"
  then have ok: "signs_ok s1" unfolding s1_def by (rule supersede_ok)
  have "fst (supersede (login_key i account) s) = Inr ()"
    by (simp add: supersede_def sign_simps split: option.split)
  then have step: "supersede (login_key i account) s = (Inr (), s1)" by (simp add: s1_def prod_eq_iff)
  let ?new = "\<lparr>at_service = i, at_account = account, at_host = [], at_state = [], at_open = False, at_ending = None,
         at_progress = Binding\<rparr>"
  have "signs_ok (s1\<lparr>si_attempts := si_attempts s1 @ [?new]\<rparr>)"
  proof -
    have "attempt_ok (si_out s1) m ((si_attempts s1 @ [?new]) ! m)" if "m < Suc (length (si_attempts s1))" for m
      using that ok by (cases "m < length (si_attempts s1)") (simp_all add: signs_ok_def nth_append attempt_ok_new)
    moreover have "output_ok (si_attempts s1 @ [?new]) x" if "x \<in> set (si_out s1)" for x
    proof (rule output_ok_mono)
      show "output_ok (si_attempts s1) x" using ok that by (simp add: signs_ok_def list_all_iff)
    qed (simp_all add: nth_append)
    moreover have "reports m (si_out s1) = []" if "m \<ge> Suc (length (si_attempts s1))" for m
      using that ok by (simp add: signs_ok_def)
    ultimately show ?thesis by (simp add: signs_ok_def list_all_iff)
  qed
  then show ?thesis by (simp add: oauth_start_def Inr sign_simps step)
qed (simp add: oauth_start_def sign_simps)

lemma bound_ok_sign:
  assumes "signs_ok s"
  shows "signs_ok (snd (oauth_bound n port s))"
proof (cases "attempt_at n Binding s")
  case (Some a)
  note a = signs_ok_at [OF assms Some]
  then have at: "si_attempts s ! n = a" "n < length (si_attempts s)" "reports n (si_out s) = []" "at_state a = []"
    "at_ending a = None \<or> at_ending a = Some Superseded" by (auto simp: attempt_ok_def)
  show ?thesis
  proof (cases port)
    case None
    have "signs_ok (s\<lparr>si_attempts := (si_attempts s)[n := a\<lparr>at_progress := Over\<rparr>], si_logins := si_logins s,
        si_out := si_out s @ []\<rparr>)"
      by (rule signs_ok_change) (use assms at in \<open>auto simp: attempt_ok_def\<close>)
    then show ?thesis by (simp add: oauth_bound_def at_stage_def Some None sign_simps at)
  next
    case (Some p)
    let ?a = "a\<lparr>at_open := True, at_host := ''127.0.0.1:'' @ nat_str p, at_progress := Beginning\<rparr>"
    have "signs_ok (s\<lparr>si_attempts := (si_attempts s)[n := ?a], si_logins := l, si_out := si_out s @
        [Ask_vm n (admin ([''begin'', at_service a] @ named_args a), x)]\<rparr>)" for l x
      by (rule signs_ok_change) (use assms at in \<open>auto simp: attempt_ok_def reports_append output_ok_def admin_def\<close>)
    then show ?thesis
      by (simp add: oauth_bound_def at_stage_def \<open>attempt_at n Binding s = Some a\<close> Some sign_simps at Let_def logins_first)
  qed
qed (use assms in \<open>simp add: oauth_bound_def at_stage_def sign_simps\<close>)

lemma begun_ok_sign:
  assumes "signs_ok s"
  shows "signs_ok (snd (oauth_begun n answer s))"
proof (cases "attempt_at n Beginning s")
  case (Some a)
  note a = signs_ok_at [OF assms Some]
  then have at: "si_attempts s ! n = a" "n < length (si_attempts s)" "reports n (si_out s) = []" "at_state a = []"
    "at_ending a = None \<or> at_ending a = Some Superseded" by (auto simp: attempt_ok_def)
  show ?thesis
  proof (cases answer)
    case (Inl e)
    have "signs_ok (s\<lparr>si_attempts := (si_attempts s)[n := a\<lparr>at_open := False, at_progress := Over\<rparr>], si_logins := l,
        si_out := si_out s @ []\<rparr>)" for l
      by (rule signs_ok_change) (use assms at in \<open>auto simp: attempt_ok_def\<close>)
    then show ?thesis by (simp add: oauth_begun_def at_stage_def Some Inl sign_simps at)
  next
    case (Inr flow)
    have "signs_ok (s\<lparr>si_attempts := (si_attempts s)[n := a\<lparr>at_state := x, at_progress := Waiting_user\<rparr>],
        si_logins := si_logins s, si_out := si_out s @ [Open_url n y]\<rparr>)" for x y
      by (rule signs_ok_change) (use assms at in \<open>auto simp: attempt_ok_def reports_append output_ok_def\<close>)
    then show ?thesis by (simp add: oauth_begun_def at_stage_def Some Inr sign_simps at Let_def)
  qed
qed (use assms in \<open>simp add: oauth_begun_def at_stage_def sign_simps\<close>)

lemma ended_ok_sign:
  assumes "signs_ok s"
  shows "signs_ok (snd (oauth_ended n s))"
proof (cases "attempt_at n Waiting_user s")
  case (Some a)
  note a = signs_ok_at [OF assms Some]
  then have at: "si_attempts s ! n = a" "n < length (si_attempts s)" "reports n (si_out s) = []"
    "at_ending a = Some (With_code c st) \<Longrightarrow> st = at_state a \<and> at_state a \<noteq> []" for c st
    by (auto simp: attempt_ok_def)
  note here = oauth_ended_def at_stage_def Some sign_simps at(1,2)
  show ?thesis
  proof (cases "at_ending a")
    case None
    then show ?thesis using assms by (simp add: here)
  next
    case (Some e)
    show ?thesis
    proof (cases e)
      case (With_code c st)
      have "signs_ok (s\<lparr>si_attempts := (si_attempts s)[n := a\<lparr>at_open := False, at_progress := Completing\<rparr>],
          si_logins := l, si_out := si_out s @ [Ask_vm n (admin ([''complete'', at_service a] @ named_args a),
            code_input c st)]\<rparr>)" for l
        by (rule signs_ok_change)
          (use assms at(1-3) at(4) [of c st] Some With_code in
            \<open>auto simp: attempt_ok_def reports_append output_ok_def admin_def\<close>)
      then show ?thesis by (simp add: here Some With_code Let_def code_input_def)
    next
      case Superseded
      have "signs_ok (s\<lparr>si_attempts := (si_attempts s)[n := a\<lparr>at_open := False, at_progress := Over\<rparr>],
          si_logins := l, si_out := si_out s @ []\<rparr>)" for l
        by (rule signs_ok_change) (use assms at(1-3) Some Superseded in \<open>auto simp: attempt_ok_def\<close>)
      then show ?thesis by (simp add: here Some Superseded Let_def)
    next
      case Cancelled_or_late
      have "signs_ok (s\<lparr>si_attempts := (si_attempts s)[n := a\<lparr>at_open := False, at_progress := Over\<rparr>],
          si_logins := l, si_out := si_out s @ [Reported n False x]\<rparr>)" for l x
        by (rule signs_ok_change)
          (use assms at(1-3) Some Cancelled_or_late in \<open>auto simp: attempt_ok_def reports_append output_ok_def\<close>)
      then show ?thesis by (simp add: here Some Cancelled_or_late Let_def)
    qed
  qed
qed (use assms in \<open>simp add: oauth_ended_def at_stage_def sign_simps\<close>)

lemma settle_step:
  assumes "signs_ok s" and "n < length (si_attempts s)" and "at_progress (si_attempts s ! n) \<noteq> Binding"
    and "at_progress (si_attempts s ! n) \<noteq> Beginning"
    and "case e of With_code c st \<Rightarrow> st = at_state (si_attempts s ! n) \<and> st \<noteq> [] | _ \<Rightarrow> True"
  shows "signs_ok (snd (change n (settle_with e) s))"
proof -
  let ?b = "at_open (si_attempts s ! n)"
  have ok: "attempt_ok (si_out s) n (si_attempts s ! n)" using assms(1,2) by (simp add: signs_ok_def)
  have same: "(si_attempts s ! n)\<lparr>at_open := ?b\<rparr> = si_attempts s ! n" by simp
  have "attempt_ok (si_out s) n (settle_with e ((si_attempts s ! n)\<lparr>at_open := ?b\<rparr>))"
    using assms(3-5) by (intro settle_attempt [OF ok]) simp
  from settle_ok [OF assms(1,2) this] show ?thesis
    using assms(2) by (simp add: change_simps same)
qed

lemma request_ok_sign:
  assumes "signs_ok s"
  shows "signs_ok (snd (oauth_request n r s))"
proof (cases "n < length (si_attempts s) \<and> at_open (si_attempts s ! n) \<and> request_ok (si_attempts s ! n) r")
  case True
  let ?a = "si_attempts s ! n"
  have ok: "attempt_ok (si_out s) n ?a" using assms True by (simp add: signs_ok_def)
  have st: "rq_states r = [at_state ?a]" "at_state ?a \<noteq> []" using True by (auto simp: request_ok_def)
  then have "at_progress ?a \<noteq> Binding" "at_progress ?a \<noteq> Beginning" using ok by (auto simp: attempt_ok_def)
  moreover have "case request_ending r of With_code c s' \<Rightarrow> s' = at_state ?a \<and> s' \<noteq> [] | _ \<Rightarrow> True"
    using st by (simp add: request_ending_def split: list.split)
  ultimately have "signs_ok (snd (change n (settle_with (request_ending r)) s))"
    using True by (intro settle_step [OF assms]) simp_all
  then show ?thesis using True by (simp add: oauth_request_def sign_simps)
qed (use assms in \<open>auto simp: oauth_request_def sign_simps\<close>)

lemma timeout_ok_sign:
  assumes "signs_ok s"
  shows "signs_ok (snd (oauth_timeout n s))"
proof (cases "attempt_at n Waiting_user s")
  case (Some a)
  note a = signs_ok_at [OF assms Some]
  have "signs_ok (snd (change n (settle_with Cancelled_or_late) s))"
    by (rule settle_step [OF assms]) (simp_all add: a)
  then show ?thesis by (simp add: oauth_timeout_def at_stage_def Some sign_simps)
qed (use assms in \<open>simp add: oauth_timeout_def at_stage_def sign_simps\<close>)

lemma completed_ok_sign:
  assumes "signs_ok s"
  shows "signs_ok (snd (oauth_completed n answer s))"
proof (cases "attempt_at n Completing s")
  case (Some a)
  note a = signs_ok_at [OF assms Some]
  note facts = attempt_ok_facts [OF a(4)]
  obtain c st where code: "at_ending a = Some (With_code c st)" using facts(3) [OF a(3)] by blast
  have at: "si_attempts s ! n = a" "n < length (si_attempts s)" "reports n (si_out s) = []"
    "at_ending a = Some (With_code c (at_state a))" "at_state a \<noteq> []"
    using a(1-3) facts(1) facts(2) [OF code] code by simp_all
  have end_with: "signs_ok (s\<lparr>si_attempts := (si_attempts s)[n := a\<lparr>at_progress := Over\<rparr>],
      si_logins := si_logins s, si_out := si_out s @ xs @ [Reported n b x]\<rparr>)"
    if "xs = [] \<or> xs = [Ask_vm n (connector_admin ([at_service a, ''probe''] @ named_args a), [])]" for xs b x
    by (rule signs_ok_change)
      (use assms at that in \<open>auto simp: attempt_ok_def reports_append output_ok_def connector_admin_def admin_def\<close>)
  show ?thesis
    using end_with [of "[]"] end_with [of "[Ask_vm n (connector_admin ([at_service a, ''probe''] @ named_args a), [])]"]
    by (cases answer) (simp_all add: oauth_completed_def at_stage_def Some sign_simps at(1,2) o_def)
qed (use assms in \<open>simp add: oauth_completed_def at_stage_def sign_simps\<close>)

lemma disconnect_ok_sign: "signs_ok s \<Longrightarrow> signs_ok (snd (disconnect i account s))"
  using supersede_ok [of s "login_key i account"]
  by (auto simp: disconnect_def andthen_def lift_result_def ret_def split: prod.splits sum.splits)

lemma stop_ok_sign: "signs_ok s \<Longrightarrow> signs_ok (snd (stop_sign_ins s))"
proof -
  have "keeps_inv signs_ok stop_sign_ins"
    unfolding stop_sign_ins_def by (intro keeps keeps_invI supersede_ok)
  then show "signs_ok s \<Longrightarrow> signs_ok (snd (stop_sign_ins s))" by (rule keeps_invD)
qed

lemma step_ok_sign: "signs_ok s \<Longrightarrow> signs_ok (sign_step s ev)"
  by (cases ev) (auto simp: state_of_def googleLogin_def xLogin_def redditLogin_def require_def
      intro: start_ok_sign bound_ok_sign begun_ok_sign request_ok_sign timeout_ok_sign ended_ok_sign
        completed_ok_sign disconnect_ok_sign stop_ok_sign)

lemma run_ok_sign: "signs_ok (run_sign_ins evs)"
  unfolding run_sign_ins_def
  by (rule foldl_keeps) (simp_all add: step_ok_sign ok_no_sign_ins)

text \<open>
  C35 (sign_ins_report_once). However sign-ins, callbacks, timeouts, answers of the VM and disconnections interleave,
  every attempt reports at most once, one that was replaced reports nothing, and the VM is only sent
  a code that came with the state it had given out for that very attempt.
\<close>

theorem sign_ins_report_once:
  "list_all (\<lambda>(n, a). length (reports n (si_out (run_sign_ins evs))) \<le> 1 \<and>
       \<not> (at_ending a = Some Superseded \<and> reports n (si_out (run_sign_ins evs)) \<noteq> []))
     (List.enumerate 0 (si_attempts (run_sign_ins evs))) \<and>
   list_all (output_ok (si_attempts (run_sign_ins evs))) (si_out (run_sign_ins evs))"
proof -
  let ?s = "run_sign_ins evs"
  have ok: "signs_ok ?s" by (rule run_ok_sign)
  have "length (reports n (si_out ?s)) \<le> 1 \<and> \<not> (at_ending a = Some Superseded \<and> reports n (si_out ?s) \<noteq> [])"
    if "(n, a) \<in> set (List.enumerate 0 (si_attempts ?s))" for n a
  proof -
    have "n < length (si_attempts ?s)" "a = si_attempts ?s ! n" using that by (auto simp: in_set_enumerate_eq)
    then have "attempt_ok (si_out ?s) n a" using ok by (simp add: signs_ok_def)
    then show ?thesis by (auto simp: attempt_ok_def split: if_splits)
  qed
  then show ?thesis using ok by (auto simp: list_all_iff signs_ok_def)
qed

text \<open>
  Two sign-ins of one account that start before either has a port: neither replaces the other, both
  are answered by the user and report, and the first is not in the table that \<open>stop\<close> and
  \<open>disconnect\<close> close.
\<close>

definition twin_sign_ins :: sign_ins where
  "twin_sign_ins =
     run_sign_ins [Google_login ''gmail'' None, Google_login ''gmail'' None, Bound 0 (Some 5001), Bound 1 (Some 5002),
       Begun 0 (Inr [(''state'', JStr ''s0''), (''url'', JStr ''u0'')]),
       Begun 1 (Inr [(''state'', JStr ''s1''), (''url'', JStr ''u1'')]), Stopped]"

lemma twin_sign_in_survives:
  "map at_open (si_attempts twin_sign_ins) = [True, False] \<and>
   map at_ending (si_attempts twin_sign_ins) = [None, Some Superseded]"
  by (simp add: twin_sign_ins_def run_sign_ins_def googleLogin_def GOOGLE_IDS_def no_sign_ins_def oauth_start_def
      supersede_def accountArg_def login_key_def oauth_bound_def oauth_begun_def at_stage_def attempt_at_def
      stop_sign_ins_def sign_simps Let_def settle_with_def)

end
