(* ===== verification/Setup.thy ===== *)
theory Setup
  imports Services
begin

text \<open>
  Setting the environment up: \<^verbatim>\<open>packages/daemon/src/setup.ts\<close> (what is installed, and preparing
  a runtime) and \<open>SetupRunner\<close> with the sizes and credentials of \<^verbatim>\<open>host.ts\<close>.  The guest, the host's
  commands and their results are parameters.
\<close>

section \<open>Status\<close>

datatype vm_state = Vm_missing | Vm_stopped | Vm_running | Vm_unknown

record host_state =
  hs_platform :: string
  hs_missing :: "string list"
  hs_hint :: string

record codex_account =
  cx_connected :: bool
  cx_accountId :: "string option"
  cx_expiresAt :: "int option"

record claude_account =
  ca_connected :: bool
  ca_kind :: "string option"
  ca_expiresAt :: "int option"

record hermes_account =
  ha_connected :: bool
  ha_baseUrl :: "string option"
  ha_model :: "string option"

record connector_status =
  cs_id :: string
  cs_connected :: bool
  cs_account :: "string option"

record vm_size =
  vz_cpus :: nat
  vz_memory :: nat

record setup_status =
  su_preparedRuntimes :: "string list"
  su_vm :: vm_state
  su_host :: host_state
  su_vaultKeyPresent :: bool
  su_vaultUnlocked :: bool
  su_installed :: bool
  su_codex :: codex_account
  su_claude :: claude_account
  su_hermes :: hermes_account
  su_services :: services_status
  su_workspaces :: bool
  su_connectors :: "connector_status list"
  su_vmDefault :: vm_size
  su_vmSize :: "vm_size option"
  su_guestVersion :: "string option"
  su_guestOutdated :: bool
  su_error :: "string option"

text \<open>What a runtime's credential tool in the VM answers; an expiry of 0 is none.\<close>

record stored_login =
  sl_configured :: bool
  sl_account :: "string option"
  sl_expires :: "int option"

definition login_expiry :: "stored_login \<Rightarrow> int option" where
  "login_expiry l = (case sl_expires l of Some e \<Rightarrow> if e = 0 then None else Some (e * 1000) | None \<Rightarrow> None)"

definition codexStatus :: "stored_login \<Rightarrow> codex_account" where
  "codexStatus l = \<lparr>cx_connected = sl_configured l, cx_accountId = sl_account l, cx_expiresAt = login_expiry l\<rparr>"

definition claudeStatus :: "stored_login \<Rightarrow> claude_account" where
  "claudeStatus l = \<lparr>ca_connected = sl_configured l, ca_kind = sl_account l, ca_expiresAt = login_expiry l\<rparr>"

definition CONNECTOR_IDS :: "string list" where
  "CONNECTOR_IDS = [''github'', ''aws'', ''linear'', ''posthog'', ''sentry'', ''firecrawl'', ''figma'', ''discord'']"

definition connectorStatuses :: "(string, bool \<times> string option) jsmap \<Rightarrow> connector_status list" where
  "connectorStatuses all_of =
     map (\<lambda>i. \<lparr>cs_id = i, cs_connected = (case mget all_of i of Some (b, _) \<Rightarrow> b | None \<Rightarrow> False),
                cs_account = (case mget all_of i of Some (_, a) \<Rightarrow> a | None \<Rightarrow> None)\<rparr>) CONNECTOR_IDS"

text \<open>Versions: numbers between dots, what is no number counting as 0.\<close>

definition version_number :: "string \<Rightarrow> nat" where
  "version_number s = (if s \<noteq> [] \<and> list_all is_digit s then digits_val s else 0)"

fun at_least :: "nat list \<Rightarrow> nat list \<Rightarrow> bool" where
  "at_least [] [] = True"
| "at_least (x # xs) [] = (x > 0 \<or> at_least xs [])"
| "at_least [] (y # ys) = (y = 0 \<and> at_least [] ys)"
| "at_least (x # xs) (y # ys) = (if x = y then at_least xs ys else x > y)"

definition versionAtLeast :: "string \<Rightarrow> string \<Rightarrow> bool" where
  "versionAtLeast a b =
     at_least (map version_number (split_on (CHR ''.'') a)) (map version_number (split_on (CHR ''.'') b))"

text \<open>
  What the host lacks: the executables on PATH, whether Anchi has its own Lima, the version of the one
  installed and whether \<^verbatim>\<open>/dev/kvm\<close> can be used are arguments.
\<close>

definition linux_missing :: "(string \<Rightarrow> bool) \<Rightarrow> bool \<Rightarrow> string list" where
  "linux_missing executable kvm =
     (if executable ''qemu-system-x86_64'' then [] else [''qemu-system-x86_64'']) @
     (if kvm then [] else [''/dev/kvm access''])"

definition hostReadiness ::
  "string \<Rightarrow> bool \<Rightarrow> (string \<Rightarrow> bool) \<Rightarrow> bool \<Rightarrow> string option \<Rightarrow> string \<Rightarrow> bool \<Rightarrow> host_state" where
  "hostReadiness platform in_guest executable downloadable lima minimum kvm =
     (if in_guest
      then \<lparr>hs_platform = platform, hs_missing = List.filter (\<lambda>n. \<not> executable n) [''python3'', ''sudo''],
            hs_hint = ''This server needs Python 3.11+ and passwordless sudo for its login user.''\<rparr>
      else
        let base = (if downloadable \<or> executable ''limactl'' then [] else [''limactl'']);
            found = (if downloadable \<or> ''limactl'' \<in> set base then None else lima);
            old = (case found of
                     Some v \<Rightarrow> if v \<noteq> [] \<and> \<not> versionAtLeast v minimum
                       then [''Lima '' @ minimum @ ''+ (found '' @ v @ '')''] else []
                   | None \<Rightarrow> [])
        in \<lparr>hs_platform = platform,
            hs_missing = base @ old @ (if platform = ''linux'' then linux_missing executable kvm else []),
            hs_hint =
              (if platform = ''darwin'' then ''brew install lima (brew upgrade lima for a newer Lima)''
               else ''Install '' @ (if downloadable then [] else ''Lima '' @ minimum @ ''+ (https://lima-vm.io) and '') @
                 ''QEMU. Ubuntu/Debian: sudo apt-get install qemu-system-x86 qemu-utils. Enable KVM access, then reopen Anchi.'')\<rparr>)"

text \<open>What the machine and the guest answer while the status is read.\<close>

record guest_answers =
  ga_vm :: vm_state
  ga_host :: host_state
  ga_size :: vm_size
  ga_keyPresent :: bool
  ga_servicesInstalled :: "bool result"
  ga_vmSize :: "vm_size option"
  ga_vault :: "bool result"
  ga_codex :: "stored_login result"
  ga_claude :: "stored_login result"
  ga_hermes :: "hermes_account result"
  ga_connectors :: "(string, bool \<times> string option) jsmap result"
  ga_base :: "bool result"
  ga_workspaces :: "bool result"
  ga_version :: "string option result"
  ga_image :: "string \<Rightarrow> bool result"
  ga_services :: "services_status result"

text \<open>\<open>catch(() => d)\<close>.\<close>

definition otherwise :: "'a result \<Rightarrow> 'a \<Rightarrow> 'a" where
  "otherwise r d = (case r of Inl _ \<Rightarrow> d | Inr a \<Rightarrow> a)"

definition defaultVmSize :: "vm_size \<Rightarrow> vm_size" where
  "defaultVmSize h = \<lparr>vz_cpus = max 1 (vz_cpus h div 2), vz_memory = max 2 (vz_memory h div 2)\<rparr>"

definition empty_status :: "guest_answers \<Rightarrow> setup_status" where
  "empty_status g =
     \<lparr>su_preparedRuntimes = [], su_vm = ga_vm g, su_host = ga_host g, su_vaultKeyPresent = ga_keyPresent g,
      su_vaultUnlocked = False, su_installed = False,
      su_codex = \<lparr>cx_connected = False, cx_accountId = None, cx_expiresAt = None\<rparr>,
      su_claude = \<lparr>ca_connected = False, ca_kind = None, ca_expiresAt = None\<rparr>,
      su_hermes = \<lparr>ha_connected = False, ha_baseUrl = None, ha_model = None\<rparr>,
      su_services = no_services, su_workspaces = False, su_connectors = connectorStatuses [],
      su_vmDefault = defaultVmSize (ga_size g), su_vmSize = None,
      su_guestVersion = None, su_guestOutdated = False, su_error = None\<rparr>"

definition failure_of :: "'a result \<Rightarrow> js_error list" where
  "failure_of r = (case r of Inl e \<Rightarrow> [e] | Inr _ \<Rightarrow> [])"

definition installation :: "string \<Rightarrow> guest_answers \<Rightarrow> setup_status \<Rightarrow> setup_status" where
  "installation app g s =
     (let base = otherwise (ga_base g) False; version = otherwise (ga_version g) None
      in s\<lparr>su_preparedRuntimes := (if base then List.filter (\<lambda>r. otherwise (ga_image g r) False) RUNTIMES else []),
           su_installed := base, su_workspaces := otherwise (ga_workspaces g) False, su_guestVersion := version,
           su_guestOutdated := base \<and> version \<noteq> Some app\<rparr>)"

text \<open>\<open>pick\<close>: the failure that came first of those of the three credential tools.\<close>

definition setupStatus :: "string \<Rightarrow> (js_error list \<Rightarrow> js_error) \<Rightarrow> guest_answers \<Rightarrow> setup_status" where
  "setupStatus app pick g =
     (let none = empty_status g
      in if ga_vm g \<noteq> Vm_running then none
         else if \<not> otherwise (ga_servicesInstalled g) True then none
         else
           let sized = none\<lparr>su_vmSize := ga_vmSize g\<rparr>;
               failures = failure_of (ga_codex g) @ failure_of (ga_claude g) @ failure_of (ga_connectors g);
               failed = (\<lambda>e. sized\<lparr>su_error := Some (take 300 (message e))\<rparr>)
           in case ga_vault g of
                Inl e \<Rightarrow> failed e
              | Inr False \<Rightarrow> installation app g sized
              | Inr True \<Rightarrow>
                  (case (ga_codex g, ga_claude g, ga_connectors g) of
                     (Inr codex, Inr claude, Inr connectors) \<Rightarrow>
                       (installation app g sized)\<lparr>su_vaultUnlocked := True, su_codex := codexStatus codex,
                         su_claude := claudeStatus claude, su_hermes := otherwise (ga_hermes g) (su_hermes none),
                         su_connectors := connectorStatuses connectors,
                         su_services := otherwise (ga_services g) no_services\<rparr>
                   | _ \<Rightarrow> failed (pick failures)))"

text \<open>The runtime of the builder (\<^verbatim>\<open>builder.ts\<close>): the first connected one whose login is valid.\<close>

definition chooseBuilderRuntime :: "setup_status \<Rightarrow> int \<Rightarrow> string" where
  "chooseBuilderRuntime s now =
     (let valid = (\<lambda>e. case e of None \<Rightarrow> True | Some t \<Rightarrow> t > now)
      in if cx_connected (su_codex s) \<and> valid (cx_expiresAt (su_codex s)) then ''codex''
         else if ca_connected (su_claude s) \<and> valid (ca_expiresAt (su_claude s)) then ''claude-code''
         else if ha_connected (su_hermes s) then ''hermes''
         else ''codex'')"

section \<open>Running steps\<close>

text \<open>
  \<open>'g\<close> is the machine with its guest.  A command on the host answers its exit code, its last line and
  whether it was stopped at its time limit.
\<close>

record 'g setup_env =
  se_answers :: "'g \<Rightarrow> guest_answers"
  se_command :: "string list \<Rightarrow> (string \<times> string) list \<Rightarrow> 'g \<Rightarrow> (int \<times> string \<times> bool) \<times> 'g"
  se_before :: "string \<Rightarrow> 'g \<Rightarrow> unit result \<times> 'g"
  se_image :: "string \<Rightarrow> 'g \<Rightarrow> unit result \<times> 'g"
  se_steps :: "(string \<times> string list list) list"
  se_resetSteps :: "string list list option"
  se_platform :: string
  se_limit :: string
  se_app :: string
  se_pick :: "js_error list \<Rightarrow> js_error"

record 'g setup_state =
  st_guest :: 'g
  st_running :: "string option"
  st_lines :: "string list"
  st_ran :: "string list list"

type_synonym ('g, 'a) setup_op = "('g setup_state, 'a) op"

definition spaced :: "string list \<Rightarrow> string" where
  "spaced ws = join '' '' ws"

definition run_command :: "'g setup_env \<Rightarrow> string \<Rightarrow> (string \<times> string) list \<Rightarrow> string list \<Rightarrow> ('g, unit) setup_op" where
  "run_command env action vars cmd =
     andthen (modify (\<lambda>s. s\<lparr>st_lines := st_lines s @ [''$ '' @ spaced cmd]\<rparr>)) (\<lambda>_.
     andthen (\<lambda>s. case se_command env cmd vars (st_guest s) of
         (r, g) \<Rightarrow> (Inr r, s\<lparr>st_guest := g, st_ran := st_ran s @ [cmd]\<rparr>)) (\<lambda>(code, last_line, timedOut).
     if timedOut
     then throw (action @ '' failed: '' @ spaced cmd @ '' did not finish within '' @ se_limit env @ '' and was stopped'' @
            (if last_line = [] then [] else '' (last output: '' @ last_line @ '')''))
     else require (code = 0)
       (action @ '' failed: '' @ hd cmd @ '' exited with '' @ json_text (JInt code) @
        (if last_line = [] then [] else '': '' @ last_line))))"

definition at_last :: "('s, 'a) op \<Rightarrow> ('s \<Rightarrow> 's) \<Rightarrow> ('s, 'a) op" where
  "at_last m f = (\<lambda>s. case m s of (r, s') \<Rightarrow> (r, f s'))"

definition on_guest :: "('g \<Rightarrow> unit result \<times> 'g) \<Rightarrow> ('g, unit) setup_op" where
  "on_guest f = (\<lambda>s. case f (st_guest s) of (r, g) \<Rightarrow> (r, s\<lparr>st_guest := g\<rparr>))"

definition steps_of :: "'g setup_env \<Rightarrow> string \<Rightarrow> string list list result" where
  "steps_of env action =
     (if action = ''workspaces'' \<and> se_platform env \<noteq> ''darwin'' \<and> se_platform env \<noteq> ''linux''
      then Inl (Error ''workspaces are available on macOS and Linux hosts only'')
      else if action = ''reset''
      then (case se_resetSteps env of Some x \<Rightarrow> Inr x
            | None \<Rightarrow> Inl (Error ''this guest is a remote server: delete or recreate its machine instead''))
      else (case map_of (se_steps env) action of Some x \<Rightarrow> Inr x
            | None \<Rightarrow> Inl (Error (''setup step '' @ [CHR 0x22] @ action @ [CHR 0x22] @ '' does not apply to a remote server''))))"

definition setup_run :: "'g setup_env \<Rightarrow> string \<Rightarrow> (string \<times> string) list \<Rightarrow> ('g, unit) setup_op" where
  "setup_run env action vars =
     andthen (gets st_running) (\<lambda>busy.
     andthen (require (busy = None \<or> busy = Some [])
       (''setup step '' @ [CHR 0x22] @ (case busy of Some b \<Rightarrow> b | None \<Rightarrow> []) @ [CHR 0x22] @ '' is already running'')) (\<lambda>_.
     andthen (lift_result (steps_of env action)) (\<lambda>steps.
     andthen (modify (\<lambda>s. s\<lparr>st_running := Some action\<rparr>)) (\<lambda>_.
     at_last (andthen (on_guest (se_before env action)) (\<lambda>_. each (run_command env action vars) steps))
       (\<lambda>s. s\<lparr>st_running := None\<rparr>)))))"

section \<open>Preparing a runtime\<close>

definition read_status :: "'g setup_env \<Rightarrow> ('g, setup_status) setup_op" where
  "read_status env = gets (\<lambda>s. setupStatus (se_app env) (se_pick env) (se_answers env (st_guest s)))"

definition first_error :: "setup_status \<Rightarrow> string \<Rightarrow> string" where
  "first_error st other = (case su_error st of Some e \<Rightarrow> e | None \<Rightarrow> other)"

definition has_error :: "setup_status \<Rightarrow> bool" where
  "has_error st \<longleftrightarrow> su_error st \<noteq> None \<and> su_error st \<noteq> Some []"

text \<open>
  \<open>run\<close> of the handler: the size of the VM only goes to \<open>install\<close>.  A step that changes something is
  followed by reading the status again.
\<close>

definition step_and_status ::
  "'g setup_env \<Rightarrow> (string \<times> string) list \<Rightarrow> bool \<Rightarrow> string \<Rightarrow> setup_status \<Rightarrow> ('g, setup_status) setup_op" where
  "step_and_status env vars wanted action current =
     (if wanted
      then andthen (setup_run env action (if action = ''install'' then vars else [])) (\<lambda>_. read_status env)
      else ret current)"

definition must_install :: "setup_status \<Rightarrow> bool" where
  "must_install st \<longleftrightarrow> su_vm st = Vm_missing \<or> \<not> su_installed st \<or> su_guestOutdated st"

definition unlock_vault :: "'g setup_env \<Rightarrow> setup_status \<Rightarrow> ('g, setup_status) setup_op" where
  "unlock_vault env st =
     (if su_vaultUnlocked st then ret st
      else
        andthen (step_and_status env [] True (if su_vaultKeyPresent st then ''vault-unlock'' else ''vault-init'') st) (\<lambda>now.
        andthen (require (\<not> has_error now \<and> su_vaultUnlocked now) (first_error now ''Vault remains locked.'')) (\<lambda>_.
        ret now)))"

definition prepareEnvironment :: "'g setup_env \<Rightarrow> (string \<times> string) list \<Rightarrow> string \<Rightarrow> ('g, setup_status) setup_op" where
  "prepareEnvironment env vars runtime =
     andthen (read_status env) (\<lambda>s0.
     andthen (require (hs_missing (su_host s0) = [])
       (''Missing: '' @ join '', '' (hs_missing (su_host s0)) @ ''. '' @ hs_hint (su_host s0))) (\<lambda>_.
     andthen (require (su_vm s0 \<noteq> Vm_unknown) ''Cannot determine VM state; check setup status and retry.'') (\<lambda>_.
     andthen (step_and_status env vars (su_vm s0 = Vm_stopped) ''vm-start'' s0) (\<lambda>s1.
     andthen (require (\<not> has_error s1) (first_error s1 [])) (\<lambda>_.
     andthen (step_and_status env vars (must_install s1) ''install'' s1) (\<lambda>s2.
     andthen (require (\<not> has_error s2 \<and> su_vm s2 = Vm_running \<and> su_installed s2 \<and> \<not> su_guestOutdated s2)
       (first_error s2 ''Environment preparation did not finish; retry setup.'')) (\<lambda>_.
     andthen (unlock_vault env s2) (\<lambda>s3.
     andthen (if runtime \<in> set (su_preparedRuntimes s3) then ret () else on_guest (se_image env runtime)) (\<lambda>_.
     andthen (read_status env) (\<lambda>s4.
     andthen (require (\<not> has_error s4 \<and> su_vaultUnlocked s4 \<and> runtime \<in> set (su_preparedRuntimes s4))
       (first_error s4 (''Preparation of '' @ runtime @ '' did not finish; retry setup.''))) (\<lambda>_.
     ret s4)))))))))))"

section \<open>Sizes and credentials of the host\<close>

text \<open>A size the user picks: whole numbers within what the host has.\<close>

definition vmSizeEnv :: "rat \<Rightarrow> rat \<Rightarrow> vm_size \<Rightarrow> (string \<times> string) list result" where
  "vmSizeEnv cpus memory host =
     (if of_int \<lfloor>cpus\<rfloor> \<noteq> cpus \<or> cpus < 1 \<or> cpus > of_nat (vz_cpus host)
      then Inl (Error (''BAD_VM_SIZE: CPUs must be a whole number from 1 to '' @ nat_str (vz_cpus host)))
      else if of_int \<lfloor>memory\<rfloor> \<noteq> memory \<or> memory < 2 \<or> memory > of_nat (vz_memory host)
      then Inl (Error (''BAD_VM_SIZE: memory must be a whole number of GiB from 2 to '' @ nat_str (vz_memory host)))
      else Inr [(''ANCHI_VM_CPUS'', nat_str (nat \<lfloor>cpus\<rfloor>)), (''ANCHI_VM_MEMORY_GIB'', nat_str (nat \<lfloor>memory\<rfloor>))])"

definition ghToken :: "string \<Rightarrow> string result" where
  "ghToken output =
     (let token = js_trim output
      in if 20 \<le> length token \<and> length token \<le> 255 \<and>
            list_all (\<lambda>c. is_upper c \<or> is_lower c \<or> is_digit c \<or> c = CHR ''_'') token
         then Inr token else Inl (Error ''gh is not logged in; run `gh auth login` on this Mac''))"

definition AWS_PROFILE :: "string \<Rightarrow> bool" where
  "AWS_PROFILE s \<longleftrightarrow> 1 \<le> length s \<and> length s \<le> 64 \<and>
     list_all (\<lambda>c. is_upper c \<or> is_lower c \<or> is_digit c \<or> c \<in> set ''_.+=,@-'') s"

end
