(* ===== verification/SetupFacts.thy ===== *)
theory SetupFacts
  imports Setup
begin

text \<open>
  Preparing a runtime: what it leaves behind when it returns, that it then has nothing left to do, and
  that the runner of steps is never left busy.
\<close>

section \<open>Versions\<close>

lemma at_least_refl: "at_least xs xs"
  by (induction xs) simp_all

lemma at_least_total: "at_least xs ys \<or> at_least ys xs"
  by (induction xs ys rule: at_least.induct) auto

lemma at_least_zeros: "at_least [] zs \<Longrightarrow> at_least ys zs"
proof (induction ys arbitrary: zs)
  case (Cons y ys)
  then show ?case by (cases zs) (auto simp: linorder_not_less)
qed simp

lemma at_least_trans: "at_least xs ys \<Longrightarrow> at_least ys zs \<Longrightarrow> at_least xs zs"
proof (induction xs ys arbitrary: zs rule: at_least.induct)
  case (2 x xs)
  show ?case
  proof (cases zs)
    case (Cons z zs')
    with 2 show ?thesis by (auto intro: at_least_zeros split: if_splits)
  qed (use 2 in simp)
next
  case (3 y ys)
  then show ?case by (cases zs) (auto split: if_splits)
next
  case (4 x xs y ys)
  then show ?case by (cases zs) (auto split: if_splits)
qed simp

section \<open>The runner\<close>

lemma free_simps:
  "keeps_inv (\<lambda>s. st_running s = None) (read_status env)"
  "keeps_inv (\<lambda>s. st_running s = None) (on_guest f)"
  by (auto simp: keeps_inv_def read_status_def gets_def on_guest_def split: prod.splits)

lemma free_setup_run: "keeps_inv (\<lambda>s. st_running s = None) (setup_run env action vars)"
  unfolding setup_run_def
  by (intro keeps keeps_invI)
    (auto simp: andthen_def modify_def at_last_def split: prod.split)

lemma free_step: "keeps_inv (\<lambda>s. st_running s = None) (step_and_status env vars b action st)"
  unfolding step_and_status_def by (intro keeps free_setup_run free_simps)

lemma prepare_leaves_runner_free: "keeps_inv (\<lambda>s. st_running s = None) (prepareEnvironment env vars runtime)"
  unfolding prepareEnvironment_def unlock_vault_def by (intro keeps free_simps free_step)

text \<open>A step that returns has run all its commands, in order.\<close>

lemma run_command_ran:
  "run_command env action vars cmd s = (Inr x, s') \<Longrightarrow> st_ran s' = st_ran s @ [cmd]"
  by (auto simp: run_command_def op_defs split: prod.splits if_splits)

lemma each_ran: "each (run_command env action vars) cmds s = (Inr x, s') \<Longrightarrow> st_ran s' = st_ran s @ cmds"
proof (induction cmds arbitrary: s)
  case (Cons c cs)
  obtain s1 where s1: "run_command env action vars c s = (Inr (), s1)"
    and rest: "each (run_command env action vars) cs s1 = (Inr x, s')"
    using Cons.prems unfolding each.simps by (elim andthen_InrE) simp
  from run_command_ran [OF s1] Cons.IH [OF rest] show ?case by simp
qed simp

lemma on_guest_ran: "on_guest f s = (r, s') \<Longrightarrow> st_ran s' = st_ran s"
  by (auto simp: on_guest_def split: prod.splits)

lemma setup_run_ran:
  assumes "setup_run env action vars s = (Inr x, s')"
  shows "\<exists>steps. steps_of env action = Inr steps \<and> st_ran s' = st_ran s @ steps"
proof -
  from assms have "andthen (lift_result (steps_of env action)) (\<lambda>steps.
       andthen (modify (\<lambda>s. s\<lparr>st_running := Some action\<rparr>)) (\<lambda>_.
       at_last (andthen (on_guest (se_before env action)) (\<lambda>_. each (run_command env action vars) steps))
         (\<lambda>s. s\<lparr>st_running := None\<rparr>))) s = (Inr x, s')"
    by (cases "st_running s = None \<or> st_running s = Some []") (simp_all add: setup_run_def)
  then obtain steps where steps: "steps_of env action = Inr steps"
    and body: "at_last (andthen (on_guest (se_before env action)) (\<lambda>_. each (run_command env action vars) steps))
         (\<lambda>s. s\<lparr>st_running := None\<rparr>) (s\<lparr>st_running := Some action\<rparr>) = (Inr x, s')"
    by (auto elim!: andthen_InrE simp: lift_result_def modify_def)
  then obtain t where t: "andthen (on_guest (se_before env action)) (\<lambda>_. each (run_command env action vars) steps)
      (s\<lparr>st_running := Some action\<rparr>) = (Inr x, t)" "s' = t\<lparr>st_running := None\<rparr>"
    by (auto simp: at_last_def split: prod.splits)
  then obtain u where "on_guest (se_before env action) (s\<lparr>st_running := Some action\<rparr>) = (Inr (), u)"
    "each (run_command env action vars) steps u = (Inr x, t)"
    by (auto elim!: andthen_InrE)
  from on_guest_ran [OF this(1)] each_ran [OF this(2)] show ?thesis using steps t(2) by simp
qed

section \<open>Preparing\<close>

definition prepared :: "setup_status \<Rightarrow> string \<Rightarrow> bool" where
  "prepared st runtime \<longleftrightarrow> \<not> has_error st \<and> su_vm st = Vm_running \<and> su_installed st \<and> su_vaultUnlocked st \<and>
     runtime \<in> set (su_preparedRuntimes st)"

definition status_in :: "'g setup_env \<Rightarrow> 'g setup_state \<Rightarrow> setup_status" where
  "status_in env s = setupStatus (se_app env) (se_pick env) (se_answers env (st_guest s))"

lemma read_status_apply: "read_status env s = (Inr (status_in env s), s)"
  by (simp add: read_status_def status_in_def gets_def)

text \<open>A runtime is only listed as prepared where the VM runs and the base image is built.\<close>

lemma prepared_installed:
  "runtime \<in> set (su_preparedRuntimes (setupStatus app pick g)) \<Longrightarrow>
   su_vm (setupStatus app pick g) = Vm_running \<and> su_installed (setupStatus app pick g)"
  by (auto simp: setupStatus_def empty_status_def installation_def Let_def split: if_splits sum.splits bool.splits)

text \<open>
  \<open>ran_step env action vars s u cmds\<close>: from state \<open>s\<close> the setup step \<open>action\<close> ran its commands \<open>cmds\<close>, all of
  them with success, and left \<open>u\<close>; or it was not run.
\<close>

definition ran_step :: "'g setup_env \<Rightarrow> string \<Rightarrow> (string \<times> string) list \<Rightarrow> 'g setup_state \<Rightarrow> 'g setup_state \<Rightarrow>
    string list list \<Rightarrow> bool" where
  "ran_step env action vars s u cmds \<longleftrightarrow>
     setup_run env action vars s = (Inr (), u) \<and> steps_of env action = Inr cmds \<and> st_ran u = st_ran s @ cmds"

lemma setup_run_step: "setup_run env action vars s = (Inr (), u) \<Longrightarrow> \<exists>cmds. ran_step env action vars s u cmds"
  using setup_run_ran unfolding ran_step_def by blast

lemma step_ran:
  assumes "step_and_status env vars b action st s = (Inr st', u)"
  shows "\<exists>cmds. if b then ran_step env action (if action = ''install'' then vars else []) s u cmds
    else u = s \<and> cmds = []"
  using assms
  by (cases b) (auto simp: step_and_status_def read_status_apply elim!: andthen_InrE dest!: setup_run_step)

lemma unlock_ran:
  assumes "unlock_vault env st s = (Inr st', u)"
  shows "\<exists>cmds. if su_vaultUnlocked st then u = s \<and> cmds = []
    else ran_step env (if su_vaultKeyPresent st then ''vault-unlock'' else ''vault-init'') [] s u cmds"
proof (cases "su_vaultUnlocked st")
  case False
  then obtain now s1 where "step_and_status env [] True (if su_vaultKeyPresent st then ''vault-unlock'' else ''vault-init'')
      st s = (Inr now, s1)" "u = s1"
    using assms by (auto simp: unlock_vault_def elim!: andthen_InrE require_InrE)
  then show ?thesis using step_ran False by fastforce
qed (use assms in \<open>auto simp: unlock_vault_def\<close>)

lemma step_status:
  assumes "step_and_status env vars b action (status_in env s) s = (Inr st', s')"
  shows "st' = status_in env s'"
  using assms by (cases b) (auto simp: step_and_status_def read_status_apply elim!: andthen_InrE)

lemma key_present: "su_vaultKeyPresent (setupStatus app pick g) = ga_keyPresent g"
  by (auto simp: setupStatus_def empty_status_def installation_def Let_def split: sum.splits bool.splits)

lemma vm_state: "su_vm (setupStatus app pick g) = ga_vm g"
  by (auto simp: setupStatus_def empty_status_def installation_def Let_def split: sum.splits bool.splits)

lemma prepare_parts:
  assumes "prepareEnvironment env vars runtime s = (Inr st, s')"
  obtains s1 s2 s3 st3 where
    "step_and_status env vars (su_vm (status_in env s) = Vm_stopped) ''vm-start'' (status_in env s) s = (Inr (status_in env s1), s1)"
    "step_and_status env vars (must_install (status_in env s1)) ''install'' (status_in env s1) s1 = (Inr (status_in env s2), s2)"
    "unlock_vault env (status_in env s2) s2 = (Inr st3, s3)"
    "st_ran s' = st_ran s3"
    "st = status_in env s'" "\<not> has_error st" "su_vaultUnlocked st" "runtime \<in> set (su_preparedRuntimes st)"
proof -
  from assms obtain r1 s1 r2 s2 st3 s3 where
    1: "step_and_status env vars (su_vm (status_in env s) = Vm_stopped) ''vm-start'' (status_in env s) s = (Inr r1, s1)"
    and 2: "step_and_status env vars (must_install r1) ''install'' r1 s1 = (Inr r2, s2)"
    and 3: "unlock_vault env r2 s2 = (Inr st3, s3)"
    and 4: "andthen (if runtime \<in> set (su_preparedRuntimes st3) then ret () else on_guest (se_image env runtime)) (\<lambda>_.
       andthen (read_status env) (\<lambda>s4.
       andthen (require (\<not> has_error s4 \<and> su_vaultUnlocked s4 \<and> runtime \<in> set (su_preparedRuntimes s4))
         (first_error s4 (''Preparation of '' @ runtime @ '' did not finish; retry setup.''))) (\<lambda>_.
       ret s4))) s3 = (Inr st, s')"
    unfolding prepareEnvironment_def
    apply (elim andthen_InrE [of "read_status env"])
    apply (simp only: read_status_apply prod.inject sum.inject)
    apply (elim conjE require_InrE andthen_InrE [of "step_and_status env vars b ''vm-start'' st" for b st]
        andthen_InrE [of "step_and_status env vars b ''install'' st" for b st] andthen_InrE [of "unlock_vault env st" for st])
    apply blast
    done
  have r1: "r1 = status_in env s1" by (rule step_status [OF 1])
  have r2: "r2 = status_in env s2" by (rule step_status [OF 2 [unfolded r1]])
  from 4 obtain s4 where s4: "(if runtime \<in> set (su_preparedRuntimes st3) then ret () else on_guest (se_image env runtime)) s3 = (Inr (), s4)"
    and rest: "andthen (read_status env) (\<lambda>s4.
       andthen (require (\<not> has_error s4 \<and> su_vaultUnlocked s4 \<and> runtime \<in> set (su_preparedRuntimes s4))
         (first_error s4 (''Preparation of '' @ runtime @ '' did not finish; retry setup.''))) (\<lambda>_.
       ret s4)) s4 = (Inr st, s')"
    by (rule andthen_InrE) simp
  let ?ready = "\<not> has_error (status_in env s4) \<and> su_vaultUnlocked (status_in env s4) \<and>
    runtime \<in> set (su_preparedRuntimes (status_in env s4))"
  have now: "andthen (read_status env) f s4 = f (status_in env s4) s4" for f :: "setup_status \<Rightarrow> ('a, setup_status) setup_op"
    by (simp add: andthen_def read_status_apply)
  have ready: ?ready and fin: "st = status_in env s'" "s' = s4"
    using rest unfolding now by (cases ?ready; simp add: require_def)+
  have "st_ran s4 = st_ran s3" using s4 on_guest_ran by (auto split: if_splits)
  then show ?thesis using that [OF 1 [unfolded r1] 2 [unfolded r1 r2] 3 [unfolded r2]] ready fin by simp
qed

lemma prepare_again:
  assumes "prepared (status_in env s) runtime" and "\<not> su_guestOutdated (status_in env s)"
    and "hs_missing (su_host (status_in env s)) = []"
  shows "prepareEnvironment env vars runtime s = (Inr (status_in env s), s)"
proof -
  let ?s = "status_in env s"
  have now: "andthen (read_status env) f s = f ?s s" for f :: "setup_status \<Rightarrow> ('a, setup_status) setup_op"
    by (simp add: andthen_def read_status_apply)
  have st: "\<not> has_error ?s" "su_vm ?s = Vm_running" "su_installed ?s" "su_vaultUnlocked ?s"
    "runtime \<in> set (su_preparedRuntimes ?s)" using assms(1) by (auto simp: prepared_def)
  show ?thesis
    unfolding prepareEnvironment_def now
    by (simp add: assms(2,3) st step_and_status_def must_install_def unlock_vault_def now)
qed

text \<open>
  C34 (prepare_environment_ready). When preparing a runtime returns, the VM runs, the base image is built, the vault
  is unlocked and the runtime's image is there.  On the way the VM was started exactly when it was stopped,
  the installation ran exactly when the VM was then missing, without a base image or out of date, and the vault
  that was still locked after that was opened: initialised when the machine that the installation left
  holds no key, unlocked when it holds one.  Nothing else ran, each step at most once and in this order; preparing
  again, unless the guest or the host is out of date by then, runs nothing.
\<close>

theorem prepare_environment_ready:
  fixes env :: "'g setup_env"
  assumes "prepareEnvironment env vars runtime s = (Inr st, s')"
  shows "prepared st runtime \<and> st = status_in env s' \<and>
    (\<exists>u t v start install vault. st_ran s' = st_ran s @ start @ install @ vault \<and> st_ran v = st_ran s' \<and>
      (if ga_vm (se_answers env (st_guest s)) = Vm_stopped then ran_step env ''vm-start'' [] s u start
       else u = s \<and> start = []) \<and>
      (if must_install (status_in env u) then ran_step env ''install'' vars u t install
       else t = u \<and> install = []) \<and>
      (if su_vaultUnlocked (status_in env t) then v = t \<and> vault = []
       else ran_step env (if ga_keyPresent (se_answers env (st_guest t)) then ''vault-unlock'' else ''vault-init'')
         [] t v vault)) \<and>
    (su_guestOutdated st \<or> hs_missing (su_host st) \<noteq> [] \<or> prepareEnvironment env vars runtime s' = (Inr st, s'))"
proof -
  from assms obtain u t v st3 where
    1: "step_and_status env vars (su_vm (status_in env s) = Vm_stopped) ''vm-start'' (status_in env s) s = (Inr (status_in env u), u)"
    and 2: "step_and_status env vars (must_install (status_in env u)) ''install'' (status_in env u) u = (Inr (status_in env t), t)"
    and 3: "unlock_vault env (status_in env t) t = (Inr st3, v)"
    and r: "st_ran s' = st_ran v"
    and st: "st = status_in env s'" "\<not> has_error st" "su_vaultUnlocked st" "runtime \<in> set (su_preparedRuntimes st)"
    by (rule prepare_parts)
  have ready: "prepared st runtime"
    using st prepared_installed unfolding prepared_def status_in_def by metis
  have other: "(''vm-start'' = ''install'') = False" by simp
  have vm: "su_vm (status_in env s) = ga_vm (se_answers env (st_guest s))"
    and key: "su_vaultKeyPresent (status_in env t) = ga_keyPresent (se_answers env (st_guest t))"
    by (simp_all add: status_in_def key_present vm_state)
  obtain start where start: "if ga_vm (se_answers env (st_guest s)) = Vm_stopped then ran_step env ''vm-start'' [] s u start
      else u = s \<and> start = []"
    using step_ran [OF 1] unfolding vm by (simp only: other if_False) blast
  obtain install where install: "if must_install (status_in env u) then ran_step env ''install'' vars u t install
      else t = u \<and> install = []"
    using step_ran [OF 2] by (simp only: if_True simp_thms) blast
  obtain vault where vault: "if su_vaultUnlocked (status_in env t) then v = t \<and> vault = []
      else ran_step env (if ga_keyPresent (se_answers env (st_guest t)) then ''vault-unlock'' else ''vault-init'')
        [] t v vault"
    using unlock_ran [OF 3] unfolding key by blast
  have "st_ran u = st_ran s @ start" using start by (auto simp: ran_step_def split: if_splits)
  moreover have "st_ran t = st_ran u @ install" using install by (auto simp: ran_step_def split: if_splits)
  moreover have "st_ran v = st_ran t @ vault" using vault by (auto simp: ran_step_def split: if_splits)
  ultimately have "st_ran s' = st_ran s @ start @ install @ vault" "st_ran v = st_ran s'" using r by simp_all
  then have "\<exists>u t v start install vault. st_ran s' = st_ran s @ start @ install @ vault \<and> st_ran v = st_ran s' \<and>
      (if ga_vm (se_answers env (st_guest s)) = Vm_stopped then ran_step env ''vm-start'' [] s u start
       else u = s \<and> start = []) \<and>
      (if must_install (status_in env u) then ran_step env ''install'' vars u t install
       else t = u \<and> install = []) \<and>
      (if su_vaultUnlocked (status_in env t) then v = t \<and> vault = []
       else ran_step env (if ga_keyPresent (se_answers env (st_guest t)) then ''vault-unlock'' else ''vault-init'')
         [] t v vault)"
    using start install vault by blast
  moreover have "su_guestOutdated st \<or> hs_missing (su_host st) \<noteq> [] \<or> prepareEnvironment env vars runtime s' = (Inr st, s')"
    using prepare_again [of env s' runtime vars] ready st(1) by blast
  ultimately show ?thesis using ready st(1) by blast
qed

text \<open>A machine whose VM is stopped and whose vault is locked: its state is the steps that were done.\<close>

definition demo_answers :: "string list \<Rightarrow> guest_answers" where
  "demo_answers done_steps =
     \<lparr>ga_vm = (if ''start'' \<in> set done_steps then Vm_running else Vm_stopped),
      ga_host = \<lparr>hs_platform = ''linux'', hs_missing = [], hs_hint = []\<rparr>, ga_size = \<lparr>vz_cpus = 8, vz_memory = 16\<rparr>,
      ga_keyPresent = True, ga_servicesInstalled = Inr True, ga_vmSize = None,
      ga_vault = Inr (''unlock'' \<in> set done_steps), ga_codex = Inl (Error ''locked''), ga_claude = Inl (Error ''locked''),
      ga_hermes = Inl (Error ''none''), ga_connectors = Inl (Error ''locked''), ga_base = Inr True,
      ga_workspaces = Inr False, ga_version = Inr (Some ''1.0.0''), ga_image = (\<lambda>r. Inr (r \<in> set done_steps)),
      ga_services = Inl (Error ''none'')\<rparr>"

definition demo_login :: stored_login where
  "demo_login = \<lparr>sl_configured = True, sl_account = None, sl_expires = None\<rparr>"

definition demo_env :: "string list setup_env" where
  "demo_env =
     \<lparr>se_answers = (\<lambda>g. if ''unlock'' \<in> set g
        then (demo_answers g)\<lparr>ga_codex := Inr demo_login, ga_claude := Inr demo_login, ga_connectors := Inr []\<rparr>
        else demo_answers g),
      se_command = (\<lambda>cmd vars g. ((0, [], False), g @ cmd)), se_before = (\<lambda>a g. (Inr (), g)),
      se_image = (\<lambda>r g. (Inr (), g @ [r])),
      se_steps = [(''vm-start'', [[''start'']]), (''install'', [[''up'']]), (''vault-unlock'', [[''unlock'']])],
      se_resetSteps = None, se_platform = ''linux'', se_limit = ''45 minutes'', se_app = ''1.0.0'',
      se_pick = hd\<rparr>"

definition demo_machine :: "string list setup_state" where
  "demo_machine = \<lparr>st_guest = [], st_running = None, st_lines = [], st_ran = []\<rparr>"

lemmas setup_defs = prepareEnvironment_def step_and_status_def unlock_vault_def must_install_def read_status_def
  setup_run_def steps_of_def run_command_def on_guest_def at_last_def setupStatus_def empty_status_def installation_def
  has_error_def otherwise_def failure_of_def demo_env_def demo_machine_def demo_answers_def demo_login_def RUNTIMES_def
  codexStatus_def claudeStatus_def Let_def op_defs

lemma prepare_environment_ready_witness:
  "prepared (status_in demo_env (state_of (prepareEnvironment demo_env [] ''codex'') demo_machine)) ''codex'' \<and>
   st_ran (state_of (prepareEnvironment demo_env [] ''codex'') demo_machine) = [[''start''], [''unlock'']]"
proof -
  let ?r = "prepareEnvironment demo_env [] ''codex'' demo_machine"
  have "(case fst ?r of Inr _ \<Rightarrow> True | Inl _ \<Rightarrow> False) \<and> st_ran (snd ?r) = [[''start''], [''unlock'']]"
    by (simp add: setup_defs spaced_def)
  then obtain st where st: "?r = (Inr st, snd ?r)" "st_ran (snd ?r) = [[''start''], [''unlock'']]"
    by (cases "fst ?r") (auto simp: prod_eq_iff)
  have "prepared st ''codex''" "st = status_in demo_env (snd ?r)"
    using prepare_environment_ready [OF st(1)] by blast+
  then show ?thesis using st(2) by (simp add: state_of_def)
qed

end
