(* ===== verification/Logins.thy ===== *)
theory Logins
  imports Setup
begin

text \<open>
  Logins of the command-line programs on the host (\<^verbatim>\<open>packages/daemon/src/host-logins.ts\<close>) and
  their import into the vault (\<open>syncCodex\<close>, \<open>syncHostLogins\<close> of \<^verbatim>\<open>daemon.ts\<close>).  \<open>parse\<close> is
  \<open>JSON.parse\<close> and \<open>num\<close> the value of a number's text; files arrive as their content or the error of
  reading them.  Times are in milliseconds.
\<close>

section \<open>Tokens\<close>

text \<open>\<open>Buffer.from(s, 'base64url')\<close>: characters outside the alphabet are left out.\<close>

definition sextet :: "char \<Rightarrow> nat option" where
  "sextet c =
     (let n = of_char c :: nat
      in if is_upper c then Some (n - 65) else if is_lower c then Some (n - 71) else if is_digit c then Some (n + 4)
         else if c = CHR ''-'' \<or> c = CHR ''+'' then Some 62
         else if c = CHR ''_'' \<or> c = CHR ''/'' then Some 63 else None)"

fun bytes_of :: "nat list \<Rightarrow> nat list" where
  "bytes_of (a # b # c # d # r) = [a * 4 + b div 16, (b mod 16) * 16 + c div 4, (c mod 4) * 64 + d] @ bytes_of r"
| "bytes_of [a, b, c] = [a * 4 + b div 16, (b mod 16) * 16 + c div 4]"
| "bytes_of [a, b] = [a * 4 + b div 16]"
| "bytes_of _ = []"

definition base64url :: "string \<Rightarrow> string" where
  "base64url s = map char_of (bytes_of (List.map_filter sextet (takeWhile (\<lambda>c. c \<noteq> CHR ''='') s)))"

definition token_payload :: "(string \<Rightarrow> json option) \<Rightarrow> string \<Rightarrow> json option" where
  "token_payload parse token = parse (base64url (case split_on (CHR ''.'') token of _ # p # _ \<Rightarrow> p | _ \<Rightarrow> []))"

fun number_value :: "(string \<Rightarrow> rat option) \<Rightarrow> json option \<Rightarrow> rat option" where
  "number_value num (Some (JInt n)) = Some (of_int n)"
| "number_value num (Some (JReal t)) = num t"
| "number_value num _ = None"

definition jwtExpiry :: "(string \<Rightarrow> json option) \<Rightarrow> (string \<Rightarrow> rat option) \<Rightarrow> string \<Rightarrow> rat option" where
  "jwtExpiry parse num token =
     (case token_payload parse token of
        Some (JObj claims) \<Rightarrow> map_option (\<lambda>e. e * 1000) (number_value num (map_of claims ''exp''))
      | _ \<Rightarrow> None)"

definition expiry :: "rat \<Rightarrow> rat option \<Rightarrow> rat result" where
  "expiry now v =
     (case v of None \<Rightarrow> Inl (Error [])
      | Some t \<Rightarrow> if t \<le> now + 120000 then Inl (Error ''HOST_LOGIN_EXPIRED'') else Inr t)"

section \<open>Reading logins\<close>

record codex_login =
  xl_token :: string
  xl_account :: string

record claude_login =
  ll_token :: string
  ll_expires :: rat

definition login_error :: "'a result \<Rightarrow> 'a result" where
  "login_error r =
     (case r of
        Inl e \<Rightarrow> Inl (Error (if message e = ''HOST_LOGIN_EXPIRED'' then ''HOST_LOGIN_EXPIRED'' else ''HOST_LOGIN_UNAVAILABLE''))
      | Inr a \<Rightarrow> Inr a)"

definition token_char :: "string \<Rightarrow> char \<Rightarrow> bool" where
  "token_char extra c \<longleftrightarrow> is_upper c \<or> is_lower c \<or> is_digit c \<or> c \<in> set extra"

definition json_field :: "json option \<Rightarrow> string \<Rightarrow> json option" where
  "json_field j k = map_of (object_fields j) k"

definition codex_claims :: "json option \<Rightarrow> json option" where
  "codex_claims payload = json_field (json_field payload ''https://api.openai.com/auth'') ''chatgpt_account_id''"

definition readHostCodexLogin ::
  "(string \<Rightarrow> json option) \<Rightarrow> (string \<Rightarrow> rat option) \<Rightarrow> rat \<Rightarrow> string result \<Rightarrow> codex_login result" where
  "readHostCodexLogin parse num now content =
     rbind content (\<lambda>raw.
     login_error
       (let tokens = json_field (parse raw) ''tokens''
        in case (json_field tokens ''access_token'', json_field tokens ''account_id'') of
             (Some (JStr token), Some (JStr account)) \<Rightarrow>
               if 100 \<le> length token \<and> length token \<le> 16000 \<and> list_all (token_char ''_.-'') token \<and>
                  1 \<le> length account \<and> length account \<le> 128 \<and> list_all (token_char ''_-'') account \<and>
                  codex_claims (token_payload parse token) = Some (JStr account)
               then rbind (expiry now (jwtExpiry parse num token)) (\<lambda>_. Inr \<lparr>xl_token = token, xl_account = account\<rparr>)
               else Inl (Error [])
           | _ \<Rightarrow> Inl (Error [])))"

definition readClaude ::
  "(string \<Rightarrow> json option) \<Rightarrow> (string \<Rightarrow> rat option) \<Rightarrow> rat \<Rightarrow> string \<Rightarrow> claude_login result" where
  "readClaude parse num now raw =
     login_error
       (let login = json_field (parse raw) ''claudeAiOauth''
        in if length raw > 65536 then Inl (Error [])
           else case json_field login ''accessToken'' of
             Some (JStr token) \<Rightarrow>
               if starts_with ''sk-ant-oat01-'' token \<and>
                  41 \<le> length token \<and> length token \<le> 500 \<and> list_all (token_char ''_-'') (drop 13 token) \<and>
                  \<not> js_includes ''anchi-placeholder'' token
               then rbind (expiry now (number_value num (json_field login ''expiresAt'')))
                 (\<lambda>t. Inr \<lparr>ll_token = token, ll_expires = t\<rparr>)
               else Inl (Error [])
           | _ \<Rightarrow> Inl (Error []))"

datatype login_state = Login_ready | Login_missing | Login_expired | Login_unavailable | Login_disabled

definition state_of_login :: "bool \<Rightarrow> 'a result \<Rightarrow> login_state" where
  "state_of_login enabled r =
     (if \<not> enabled then Login_disabled
      else case r of
        Inr _ \<Rightarrow> Login_ready
      | Inl e \<Rightarrow> if message e = ''HOST_LOGIN_MISSING'' then Login_missing
                 else if message e = ''HOST_LOGIN_EXPIRED'' then Login_expired else Login_unavailable)"

definition found_login :: "bool \<Rightarrow> 'a result \<Rightarrow> 'a option" where
  "found_login enabled r = (if enabled then (case r of Inr a \<Rightarrow> Some a | Inl _ \<Rightarrow> None) else None)"

text \<open>\<open>read\<close>: on macOS the keychain is asked before the file.\<close>

definition claude_source ::
  "(string \<Rightarrow> json option) \<Rightarrow> (string \<Rightarrow> rat option) \<Rightarrow> rat \<Rightarrow> bool \<Rightarrow> string option \<Rightarrow> string result \<Rightarrow> claude_login result" where
  "claude_source parse num now darwin keychain content =
     (case (if darwin then keychain else None) of
        Some raw \<Rightarrow> readClaude parse num now raw
      | None \<Rightarrow> rbind content (readClaude parse num now))"

section \<open>The vault\<close>

text \<open>
  What the vault's tools keep: a Codex token with its account and expiry, and a Claude token with the
  expiry of a host login, none for one given by hand.  An import replaces what was there.
\<close>

type_synonym codex_status = "(string \<times> string \<times> rat) option"

record vault =
  va_codex :: codex_status
  va_claude :: "(string \<times> rat option) option"

definition import_codex :: "codex_login \<Rightarrow> rat \<Rightarrow> vault \<Rightarrow> vault" where
  "import_codex l e v = v\<lparr>va_codex := Some (xl_token l, xl_account l, e)\<rparr>"

definition import_claude :: "string \<Rightarrow> rat option \<Rightarrow> vault \<Rightarrow> vault" where
  "import_claude token e v = v\<lparr>va_claude := Some (token, e)\<rparr>"

text \<open>What \<open>syncClaude\<close> and \<open>syncCodex\<close> decide on the vault's status; \<open>None\<close> when it could not be read.\<close>

definition claude_import_due :: "(string \<times> rat option) option \<Rightarrow> claude_login \<Rightarrow> bool" where
  "claude_import_due status login =
     (case status of
        None \<Rightarrow> True
      | Some (_, None) \<Rightarrow> False
      | Some (_, Some e) \<Rightarrow> \<not> e \<ge> ll_expires login)"

definition codex_import_due :: "codex_status \<Rightarrow> codex_login \<Rightarrow> rat \<Rightarrow> bool" where
  "codex_import_due status login hostExpiry =
     (case status of
        None \<Rightarrow> True
      | Some (_, account, e) \<Rightarrow> \<not> (account \<noteq> xl_account login \<or> e \<ge> hostExpiry))"

text \<open>
  The synchronisations and the imports of the user, cut at the guest's commands: what each still has to
  ask, and whether a synchronisation of the Codex login is under way (\<open>codexImporting\<close>).  \<open>Write_codex\<close> keeps
  the status on which the import was decided, and \<open>ls_stored\<close> lists the Codex logins that were stored, by whom.
\<close>

datatype sync_task =
  Read_claude claude_login
| Write_claude claude_login
| Read_codex codex_login rat
| Write_codex codex_login rat codex_status
| Write_user_codex codex_login rat
| Write_manual string

datatype codex_stored =
  Synced codex_status codex_login rat
| Given_by_user codex_login rat

record login_sync =
  ls_vault :: vault
  ls_importing :: bool
  ls_tasks :: "sync_task list"
  ls_stored :: "codex_stored list"

definition sync_claude :: "claude_login \<Rightarrow> login_sync \<Rightarrow> login_sync" where
  "sync_claude login s = s\<lparr>ls_tasks := ls_tasks s @ [Read_claude login]\<rparr>"

text \<open>\<open>syncCodex\<close>: off with \<open>codexAutoImport: false\<close> unless Anchi signed in itself.\<close>

definition sync_codex ::
  "bool \<Rightarrow> bool \<Rightarrow> (string \<Rightarrow> rat option) \<Rightarrow> rat \<Rightarrow> codex_login result \<Rightarrow> login_sync \<Rightarrow> login_sync" where
  "sync_codex auto signedIn expiry_of now login s =
     (if (\<not> signedIn \<and> \<not> auto) \<or> ls_importing s then s
      else case login of
        Inl _ \<Rightarrow> s
      | Inr l \<Rightarrow>
          (case expiry_of (xl_token l) of
             None \<Rightarrow> s
           | Some e \<Rightarrow>
               if e = 0 \<or> e \<le> now + 60000 then s
               else s\<lparr>ls_importing := True, ls_tasks := ls_tasks s @ [Read_codex l e]\<rparr>))"

definition give_token :: "string \<Rightarrow> login_sync \<Rightarrow> login_sync" where
  "give_token token s = s\<lparr>ls_tasks := ls_tasks s @ [Write_manual token]\<rparr>"

text \<open>
  \<open>importSignedInCodex\<close>, when a sign-in in Anchi has finished, and \<open>setup.importCodex\<close>: the login that was
  read is stored without a look at the status, also while a synchronisation waits for the guest.
\<close>

definition import_user_codex :: "(string \<Rightarrow> rat option) \<Rightarrow> codex_login result \<Rightarrow> login_sync \<Rightarrow> login_sync" where
  "import_user_codex expiry_of login s =
     (case login of
        Inl _ \<Rightarrow> s
      | Inr l \<Rightarrow>
          (case expiry_of (xl_token l) of
             None \<Rightarrow> s
           | Some e \<Rightarrow> s\<lparr>ls_tasks := ls_tasks s @ [Write_user_codex l e]\<rparr>))"

definition without :: "nat \<Rightarrow> 'a list \<Rightarrow> 'a list" where
  "without n xs = take n xs @ drop (Suc n) xs"

text \<open>The guest answers one of the commands; \<open>ok\<close> is whether it could.\<close>

definition guest_answers_one :: "nat \<Rightarrow> bool \<Rightarrow> login_sync \<Rightarrow> login_sync" where
  "guest_answers_one n ok s =
     (if n \<ge> length (ls_tasks s) then s
      else
        let rest = without n (ls_tasks s); v = ls_vault s
        in case ls_tasks s ! n of
             Read_claude l \<Rightarrow>
               s\<lparr>ls_tasks := rest @ (if ok \<and> claude_import_due (va_claude v) l then [Write_claude l] else [])\<rparr>
           | Write_claude l \<Rightarrow>
               s\<lparr>ls_tasks := rest, ls_vault := (if ok then import_claude (ll_token l) (Some (ll_expires l)) v else v)\<rparr>
           | Read_codex l e \<Rightarrow>
               if ok \<and> codex_import_due (va_codex v) l e
               then s\<lparr>ls_tasks := rest @ [Write_codex l e (va_codex v)]\<rparr>
               else s\<lparr>ls_tasks := rest, ls_importing := False\<rparr>
           | Write_codex l e seen \<Rightarrow>
               s\<lparr>ls_tasks := rest, ls_importing := False, ls_vault := (if ok then import_codex l e v else v),
                 ls_stored := ls_stored s @ (if ok then [Synced seen l e] else [])\<rparr>
           | Write_user_codex l e \<Rightarrow>
               s\<lparr>ls_tasks := rest, ls_vault := (if ok then import_codex l e v else v),
                 ls_stored := ls_stored s @ (if ok then [Given_by_user l e] else [])\<rparr>
           | Write_manual t \<Rightarrow>
               s\<lparr>ls_tasks := rest, ls_vault := (if ok then import_claude t None v else v)\<rparr>)"

datatype login_event =
  Sync_claude claude_login
| Sync_codex bool bool "string \<Rightarrow> rat option" rat "codex_login result"
| User_codex "string \<Rightarrow> rat option" "codex_login result"
| Give_token string
| Guest_answers nat bool

fun login_step :: "login_sync \<Rightarrow> login_event \<Rightarrow> login_sync" where
  "login_step s (Sync_claude l) = sync_claude l s"
| "login_step s (Sync_codex auto signedIn expiry_of now l) = sync_codex auto signedIn expiry_of now l s"
| "login_step s (User_codex expiry_of l) = import_user_codex expiry_of l s"
| "login_step s (Give_token t) = give_token t s"
| "login_step s (Guest_answers n ok) = guest_answers_one n ok s"

definition run_logins :: "vault \<Rightarrow> login_event list \<Rightarrow> login_sync" where
  "run_logins v evs = foldl login_step \<lparr>ls_vault = v, ls_importing = False, ls_tasks = [], ls_stored = []\<rparr> evs"

end
