(* ===== verification/LoginFacts.thy ===== *)
theory LoginFacts
  imports Logins ServiceFacts
begin

text \<open>
  Imports of logins, however the guest's commands interleave: a synchronisation only renews the Codex login
  it found, but what a sign-in stores while it waits is lost.  A Claude token given by hand is safe from
  synchronisations that start after it was stored, but not from one that is under way.
\<close>

section \<open>The Codex login\<close>

fun codex_task :: "sync_task \<Rightarrow> bool" where
  "codex_task (Read_codex _ _) = True"
| "codex_task (Write_codex _ _ _) = True"
| "codex_task _ = False"

definition codex_tasks :: "login_sync \<Rightarrow> sync_task list" where
  "codex_tasks s = List.filter codex_task (ls_tasks s)"

definition renewed :: "codex_status \<Rightarrow> codex_status \<Rightarrow> bool" where
  "renewed old new \<longleftrightarrow>
     (case old of None \<Rightarrow> True
      | Some (_, a, e) \<Rightarrow> (case new of None \<Rightarrow> False | Some (_, a', e') \<Rightarrow> a' = a \<and> e \<le> e'))"

lemma renewed_refl: "renewed x x"
  by (auto simp: renewed_def split: option.split)

lemma renewed_trans: "renewed x y \<Longrightarrow> renewed y z \<Longrightarrow> renewed x z"
  by (auto simp: renewed_def split: option.splits)

lemma due_renewed: "codex_import_due seen l e \<Longrightarrow> renewed seen (Some (xl_token l, xl_account l, e))"
  by (auto simp: renewed_def codex_import_due_def split: option.splits)

text \<open>The login an entry stored, and the one after all entries of a list.\<close>

fun stored_login_of :: "codex_stored \<Rightarrow> string \<times> string \<times> rat" where
  "stored_login_of (Synced _ l e) = (xl_token l, xl_account l, e)"
| "stored_login_of (Given_by_user l e) = (xl_token l, xl_account l, e)"

fun by_user :: "codex_stored \<Rightarrow> bool" where
  "by_user (Synced _ _ _) = False"
| "by_user (Given_by_user _ _) = True"

definition login_after :: "codex_status \<Rightarrow> codex_stored list \<Rightarrow> codex_status" where
  "login_after old hist = (if hist = [] then old else Some (stored_login_of (last hist)))"

text \<open>
  A synchronisation stores a login that renews the one it saw; it saw the one it replaces, unless the user
  stored one just before.
\<close>

fun entry_ok :: "codex_status \<Rightarrow> bool \<Rightarrow> codex_stored \<Rightarrow> bool" where
  "entry_ok old user (Synced seen l e) =
     (renewed seen (Some (xl_token l, xl_account l, e)) \<and> (seen = old \<or> user))"
| "entry_ok old user (Given_by_user l e) = True"

fun codex_history :: "codex_status \<Rightarrow> bool \<Rightarrow> codex_stored list \<Rightarrow> bool" where
  "codex_history old user [] = True"
| "codex_history old user (x # hist) =
     (entry_ok old user x \<and> codex_history (Some (stored_login_of x)) (by_user x) hist)"

lemma login_after_Cons: "login_after old (x # hist) = login_after (Some (stored_login_of x)) hist"
  by (simp add: login_after_def)

lemma codex_history_snoc:
  "codex_history old user (hist @ [x]) \<longleftrightarrow> codex_history old user hist \<and>
     entry_ok (login_after old hist) (if hist = [] then user else by_user (last hist)) x"
  by (induction hist arbitrary: old user) (simp_all add: login_after_Cons login_after_def [of _ "[]"])

lemma login_after_snoc [simp]: "login_after old (hist @ [x]) = Some (stored_login_of x)"
  by (simp add: login_after_def)

lemma synced_renewed:
  "codex_history old False hist \<Longrightarrow> list_all (\<lambda>x. \<not> by_user x) hist \<Longrightarrow> renewed old (login_after old hist)"
proof (induction hist rule: rev_induct)
  case (snoc x hist)
  then have kept: "codex_history old False hist" "list_all (\<lambda>x. \<not> by_user x) hist" "\<not> by_user x"
    by (simp_all add: codex_history_snoc)
  obtain seen l e where x: "x = Synced seen l e" using kept(3) by (cases x) simp_all
  have "hist \<noteq> [] \<Longrightarrow> \<not> by_user (last hist)" using kept(2) by (simp add: list_all_iff)
  then have "renewed (login_after old hist) (Some (stored_login_of x))"
    using snoc.prems(1) x by (auto simp: codex_history_snoc split: if_splits)
  with snoc.IH [OF kept(1,2)] show ?case by (simp add: renewed_trans)
qed (simp add: login_after_def renewed_refl)

definition after_user :: "login_sync \<Rightarrow> bool" where
  "after_user s \<longleftrightarrow> ls_stored s \<noteq> [] \<and> by_user (last (ls_stored s))"

definition task_due :: "login_sync \<Rightarrow> sync_task \<Rightarrow> bool" where
  "task_due s k =
     (case k of
        Write_codex l e seen \<Rightarrow> renewed seen (Some (xl_token l, xl_account l, e)) \<and>
          (seen = va_codex (ls_vault s) \<or> after_user s)
      | _ \<Rightarrow> True)"

definition logins_ok :: "vault \<Rightarrow> login_sync \<Rightarrow> bool" where
  "logins_ok v s \<longleftrightarrow> length (codex_tasks s) = (if ls_importing s then 1 else 0) \<and>
     list_all (task_due s) (ls_tasks s) \<and> codex_history (va_codex v) False (ls_stored s) \<and>
     va_codex (ls_vault s) = login_after (va_codex v) (ls_stored s)"

lemma split_at:
  assumes "n < length xs"
  shows "xs = take n xs @ xs ! n # drop (Suc n) xs" and "without n xs = take n xs @ drop (Suc n) xs"
  using assms by (simp_all add: id_take_nth_drop without_def)

text \<open>The task that is answered, and the others.\<close>

lemma one_answered:
  assumes "n < length (ls_tasks s)"
  shows "length (codex_tasks s) =
      (if codex_task (ls_tasks s ! n) then 1 else 0) + length (List.filter codex_task (without n (ls_tasks s)))"
    and "list_all p (ls_tasks s) \<longleftrightarrow> p (ls_tasks s ! n) \<and> list_all p (without n (ls_tasks s))"
proof -
  have "codex_tasks s = List.filter codex_task (take n (ls_tasks s) @ ls_tasks s ! n # drop (Suc n) (ls_tasks s))"
    unfolding codex_tasks_def by (subst split_at(1) [OF assms]) (rule refl)
  then show "length (codex_tasks s) =
      (if codex_task (ls_tasks s ! n) then 1 else 0) + length (List.filter codex_task (without n (ls_tasks s)))"
    by (simp add: without_def)
  have "list_all p (ls_tasks s) \<longleftrightarrow> list_all p (take n (ls_tasks s) @ ls_tasks s ! n # drop (Suc n) (ls_tasks s))"
    by (subst split_at(1) [OF assms]) (rule refl)
  then show "list_all p (ls_tasks s) \<longleftrightarrow> p (ls_tasks s ! n) \<and> list_all p (without n (ls_tasks s))"
    by (auto simp: without_def)
qed

lemma no_codex_due: "List.filter codex_task ts = [] \<Longrightarrow> list_all (task_due s) ts"
proof (induction ts)
  case (Cons t ts)
  then show ?case by (cases t) (auto simp: task_due_def split: if_splits)
qed simp

text \<open>A task stays due when the login is the same, or when the user stored one.\<close>

lemma due_same:
  "va_codex (ls_vault t) = va_codex (ls_vault s) \<Longrightarrow> ls_stored t = ls_stored s \<Longrightarrow> task_due t = task_due s"
  by (auto simp: task_due_def after_user_def fun_eq_iff split: sync_task.split)

lemma due_after_user: "after_user t \<Longrightarrow> task_due s k \<Longrightarrow> task_due t k"
  by (auto simp: task_due_def split: sync_task.splits)

lemma logins_ok_tasks:
  assumes "logins_ok v s" and "va_codex (ls_vault t) = va_codex (ls_vault s)" "ls_stored t = ls_stored s"
    and "length (codex_tasks t) = (if ls_importing t then 1 else 0)" "list_all (task_due s) (ls_tasks t)"
  shows "logins_ok v t"
  using assms due_same [of t s] by (simp add: logins_ok_def)

lemma answer_ok:
  assumes "logins_ok v s"
  shows "logins_ok v (guest_answers_one n ok s)"
proof (cases "n < length (ls_tasks s)")
  case True
  let ?rest = "without n (ls_tasks s)"
  let ?others = "List.filter codex_task ?rest"
  have n: "\<not> n \<ge> length (ls_tasks s)" using True by simp
  note count = one_answered(1) [OF True] and due = one_answered(2) [OF True, of "task_due s"]
  have ok: "length (codex_tasks s) = (if ls_importing s then 1 else 0)" "task_due s (ls_tasks s ! n)"
    "list_all (task_due s) ?rest" "codex_history (va_codex v) False (ls_stored s)"
    "va_codex (ls_vault s) = login_after (va_codex v) (ls_stored s)"
    using assms due by (auto simp: logins_ok_def)
  note answer = guest_answers_one_def n Let_def
  show ?thesis
  proof (cases "ls_tasks s ! n")
    case (Read_codex l e)
    then have none: "?others = []" "ls_importing s" using ok(1) count by (auto split: if_splits)
    show ?thesis
      by (rule logins_ok_tasks [OF assms])
        (use Read_codex none ok(3) in \<open>auto simp: answer codex_tasks_def task_due_def due_renewed\<close>)
  next
    case (Write_codex l e seen)
    then have none: "?others = []" "ls_importing s" using ok(1) count by (auto split: if_splits)
    show ?thesis
    proof (cases ok)
      case True
      have "renewed seen (Some (xl_token l, xl_account l, e)) \<and>
          (seen = login_after (va_codex v) (ls_stored s) \<or> after_user s)"
        using ok(2,5) Write_codex by (simp add: task_due_def)
      then have "codex_history (va_codex v) False (ls_stored s @ [Synced seen l e])"
        using ok(4) by (auto simp: codex_history_snoc after_user_def)
      then show ?thesis
        using True Write_codex none no_codex_due [OF none(1)]
        by (simp add: answer logins_ok_def codex_tasks_def import_codex_def)
    next
      case False
      show ?thesis
        by (rule logins_ok_tasks [OF assms])
          (use False Write_codex none no_codex_due [OF none(1)] in \<open>simp_all add: answer codex_tasks_def\<close>)
    qed
  next
    case (Write_user_codex l e)
    then have len: "length ?others = (if ls_importing s then 1 else 0)" using ok(1) count by simp
    show ?thesis
    proof (cases ok)
      case True
      let ?t = "guest_answers_one n ok s"
      have "after_user ?t" using True Write_user_codex by (simp add: answer after_user_def)
      then have "list_all (task_due ?t) ?rest" using ok(3) due_after_user by (auto simp: list_all_iff)
      then show ?thesis
        using True Write_user_codex ok(4) len
        by (simp add: answer logins_ok_def codex_tasks_def import_codex_def codex_history_snoc)
    next
      case False
      show ?thesis
        by (rule logins_ok_tasks [OF assms])
          (use False Write_user_codex len ok(3) in \<open>simp_all add: answer codex_tasks_def\<close>)
    qed
  next
    case (Read_claude l)
    show ?thesis
      by (rule logins_ok_tasks [OF assms])
        (use ok Read_claude count in \<open>auto simp: answer codex_tasks_def task_due_def\<close>)
  next
    case (Write_claude l)
    show ?thesis
      by (rule logins_ok_tasks [OF assms])
        (use ok Write_claude count in \<open>auto simp: answer codex_tasks_def import_claude_def\<close>)
  next
    case (Write_manual t)
    show ?thesis
      by (rule logins_ok_tasks [OF assms])
        (use ok Write_manual count in \<open>auto simp: answer codex_tasks_def import_claude_def\<close>)
  qed
qed (use assms in \<open>simp add: guest_answers_one_def\<close>)

lemma login_step_ok:
  assumes "logins_ok v s"
  shows "logins_ok v (login_step s ev)"
proof (cases ev)
  case (Guest_answers n ok)
  then show ?thesis using answer_ok [OF assms] by simp
next
  case (Sync_claude l)
  show ?thesis
    by (rule logins_ok_tasks [OF assms])
      (use assms Sync_claude in \<open>auto simp: sync_claude_def logins_ok_def codex_tasks_def task_due_def\<close>)
next
  case (Sync_codex auto signedIn expiry_of now l)
  show ?thesis
    by (rule logins_ok_tasks [OF assms])
      (use assms Sync_codex in \<open>auto simp: sync_codex_def logins_ok_def codex_tasks_def task_due_def
        split: sum.splits option.splits\<close>)
next
  case (User_codex expiry_of l)
  show ?thesis
    by (rule logins_ok_tasks [OF assms])
      (use assms User_codex in \<open>auto simp: import_user_codex_def logins_ok_def codex_tasks_def task_due_def
        split: sum.splits option.splits\<close>)
next
  case (Give_token t)
  show ?thesis
    by (rule logins_ok_tasks [OF assms])
      (use assms Give_token in \<open>auto simp: give_token_def logins_ok_def codex_tasks_def task_due_def\<close>)
qed

lemma run_logins_ok: "logins_ok v (run_logins v evs)"
proof -
  have "logins_ok v (foldl login_step s evs)" if "logins_ok v s" for s
    using that by (induction evs arbitrary: s) (simp_all add: login_step_ok)
  then show ?thesis
    by (simp add: run_logins_def logins_ok_def codex_tasks_def login_after_def)
qed


text \<open>
  A synchronisation of the login of the host has read the status when the user signs in to another account: the
  new login is stored and then replaced by the one of the host.  Later synchronisations leave that, since
  they find another account.
\<close>

definition host_codex :: codex_login where
  "host_codex = \<lparr>xl_token = ''host'', xl_account = ''first''\<rparr>"

definition own_codex :: codex_login where
  "own_codex = \<lparr>xl_token = ''own'', xl_account = ''second''\<rparr>"

definition token_times :: "string \<Rightarrow> rat option" where
  "token_times t = (if t = ''host'' then Some 900000 else if t = ''own'' then Some 950000 else None)"

definition renewal :: "login_event list" where
  "renewal = [Sync_codex True False token_times 0 (Inr host_codex), Guest_answers 0 True, Guest_answers 0 True]"

definition signed_in_meanwhile :: "login_event list" where
  "signed_in_meanwhile =
     [Sync_codex True False token_times 0 (Inr host_codex), Guest_answers 0 True, User_codex token_times (Inr own_codex),
      Guest_answers 1 True, Guest_answers 0 True,
      Sync_codex True True token_times 0 (Inr own_codex), Guest_answers 0 True]"

definition old_vault :: vault where
  "old_vault = \<lparr>va_codex = Some (''old'', ''first'', 800000), va_claude = None\<rparr>"

lemmas login_run = run_logins_def sync_codex_def guest_answers_one_def import_user_codex_def without_def
  codex_import_due_def import_codex_def token_times_def host_codex_def own_codex_def old_vault_def Let_def


lemma signed_in_login_replaced:
  "va_codex (ls_vault (run_logins old_vault signed_in_meanwhile)) = Some (''host'', ''first'', 900000) \<and>
   ls_tasks (run_logins old_vault signed_in_meanwhile) = [] \<and>
   Given_by_user own_codex 950000 \<in> set (ls_stored (run_logins old_vault signed_in_meanwhile))"
  by (simp add: signed_in_meanwhile_def login_run)

section \<open>Tokens given by hand\<close>

text \<open>A synchronisation that starts when such a token is stored, and whose answers come, keeps it.\<close>

lemma manual_token_kept:
  "va_claude v = Some (t, None) \<Longrightarrow>
   va_claude (ls_vault (run_logins v [Sync_claude l, Guest_answers 0 a, Guest_answers 0 b])) = Some (t, None)"
  by (cases a) (simp_all add: run_logins_def sync_claude_def guest_answers_one_def without_def claude_import_due_def Let_def)

text \<open>
  One that read the status before the token was stored replaces it: the status says a host login is
  there that expires soon, the token is stored, and the import that was due then takes its place.
\<close>

definition host_claude :: claude_login where
  "host_claude = \<lparr>ll_token = ''sk-ant-oat01-host'', ll_expires = 2000\<rparr>"

definition claude_race :: login_sync where
  "claude_race =
     run_logins \<lparr>va_codex = None, va_claude = Some (''sk-ant-oat01-old'', Some 1000)\<rparr>
       [Sync_claude host_claude, Give_token ''sk-ant-oat01-mine'', Guest_answers 0 True, Guest_answers 0 True,
        Guest_answers 0 True]"

lemma manual_token_replaced: "va_claude (ls_vault claude_race) = Some (''sk-ant-oat01-host'', Some 2000)"
  by (simp add: claude_race_def host_claude_def run_logins_def sync_claude_def give_token_def guest_answers_one_def
      without_def claude_import_due_def import_claude_def Let_def)

end
