(* ===== verification/Methods.thy ===== *)
theory Methods
  imports PeerTasks Coordinator Approvals Builder Logins Quota
begin

text \<open>
  The methods a client may call, and what the daemon makes of its settings
  (\<^verbatim>\<open>packages/daemon/src/daemon.ts\<close>).  A method is cut where it waits.  Parameters arrive as
  JSON where the handler checks them itself, and as the types of the protocol otherwise.
\<close>

section \<open>Parameters\<close>

definition str_param :: "json option \<Rightarrow> string \<Rightarrow> nat \<Rightarrow> string result" where
  "str_param v what hi =
     (case v of
        Some (JStr s) \<Rightarrow> if s \<noteq> [] \<and> length s \<le> hi then Inr s else Inl (Error (''invalid '' @ what))
      | _ \<Rightarrow> Inl (Error (''invalid '' @ what)))"

definition TASK_ID :: "string \<Rightarrow> bool" where
  "TASK_ID s \<longleftrightarrow> length s = 12 \<and> starts_with ''t-'' s \<and> list_all is_hex (drop 2 s)"

definition task_id :: "json option \<Rightarrow> string result" where
  "task_id v =
     (case v of
        Some (JStr s) \<Rightarrow> if TASK_ID s then Inr s else Inl (Error ''invalid task id'')
      | _ \<Rightarrow> Inl (Error ''invalid task id''))"

definition serviceId :: "json option \<Rightarrow> string result" where
  "serviceId v =
     (case v of
        Some (JStr s) \<Rightarrow> if s \<in> set SERVICE_IDS then Inr s else Inl (Error ''unknown service connector'')
      | _ \<Rightarrow> Inl (Error ''unknown service connector''))"

definition optionalAccount :: "json option \<Rightarrow> string option result" where
  "optionalAccount v =
     (case v of
        None \<Rightarrow> Inr None
      | Some JNull \<Rightarrow> Inr None
      | Some (JStr s) \<Rightarrow> if ACCOUNT s then Inr (Some s) else Inl (Error ''invalid account name'')
      | _ \<Rightarrow> Inl (Error ''invalid account name''))"

text \<open>Whether a value counts as true; \<open>num\<close> reads the text of a number.\<close>

definition truthy :: "(string \<Rightarrow> rat option) \<Rightarrow> json option \<Rightarrow> bool" where
  "truthy num v =
     (case v of
        None \<Rightarrow> False | Some JNull \<Rightarrow> False | Some (JBool b) \<Rightarrow> b | Some (JInt n) \<Rightarrow> n \<noteq> 0
      | Some (JReal t) \<Rightarrow> num t \<noteq> Some 0 | Some (JStr s) \<Rightarrow> s \<noteq> [] | _ \<Rightarrow> True)"

text \<open>\<open>Number(v)\<close>; \<open>None\<close> when it is not finite.  \<open>num\<close> reads the text of a number.\<close>

definition number_text :: "(string \<Rightarrow> rat option) \<Rightarrow> string \<Rightarrow> rat option" where
  "number_text num s = (if js_trim s = [] then Some 0 else num (js_trim s))"

definition js_number :: "(string \<Rightarrow> rat option) \<Rightarrow> json option \<Rightarrow> rat option" where
  "js_number num v =
     (case v of
        None \<Rightarrow> None | Some JNull \<Rightarrow> Some 0 | Some (JBool b) \<Rightarrow> Some (if b then 1 else 0)
      | Some (JInt n) \<Rightarrow> Some (of_int n) | Some (JReal t) \<Rightarrow> num t | Some (JStr s) \<Rightarrow> number_text num s
      | Some (JArr xs) \<Rightarrow> number_text num (js_string (JArr xs)) | Some (JObj _) \<Rightarrow> None)"

definition whole :: "rat \<Rightarrow> bool" where
  "whole r \<longleftrightarrow> of_int \<lfloor>r\<rfloor> = r"

text \<open>\<open>Math.min(Math.max(Number(v) || d, 1), m)\<close> as a \<open>LIMIT\<close> of SQLite, which refuses fractions.\<close>

definition limit_param :: "(string \<Rightarrow> rat option) \<Rightarrow> json option \<Rightarrow> nat \<Rightarrow> nat \<Rightarrow> nat result" where
  "limit_param num v d m =
     (let n = (case js_number num v of None \<Rightarrow> of_nat d | Some r \<Rightarrow> if r = 0 then of_nat d else r);
          r = min (max n 1) (of_nat m)
      in if whole r then Inr (nat \<lfloor>r\<rfloor>) else Inl (Error ''datatype mismatch''))"

datatype connector_secret =
  Token_secret string string
| Aws_secret string string "string option" string

definition TOKEN_CONNECTOR_IDS :: "string list" where
  "TOKEN_CONNECTOR_IDS = [''github'', ''linear'', ''posthog'', ''sentry'', ''firecrawl'', ''figma'', ''discord'']"

definition connectorSecret :: "(string \<Rightarrow> rat option) \<Rightarrow> fields \<Rightarrow> connector_secret result" where
  "connectorSecret num v =
     (case map_of v ''id'' of
        Some (JStr i) \<Rightarrow>
          if i \<in> set TOKEN_CONNECTOR_IDS
          then rbind (str_param (map_of v ''token'') ''token'' 1000) (\<lambda>t. Inr (Token_secret i t))
          else if i = ''aws''
          then rbind (str_param (map_of v ''accessKeyId'') ''access key id'' 200) (\<lambda>k.
               rbind (str_param (map_of v ''secretAccessKey'') ''secret access key'' 200) (\<lambda>s.
               rbind (if truthy num (map_of v ''sessionToken'')
                      then rbind (str_param (map_of v ''sessionToken'') ''session token'' 4096) (\<lambda>t. Inr (Some t))
                      else Inr None) (\<lambda>t.
               rbind (str_param (map_of v ''region'') ''region'' 40) (\<lambda>r. Inr (Aws_secret k s t r)))))
          else Inl (Error ''unknown connector'')
      | _ \<Rightarrow> Inl (Error ''unknown connector''))"

definition vmSizeParam :: "(string \<Rightarrow> rat option) \<Rightarrow> json \<Rightarrow> (rat \<times> rat) result" where
  "vmSizeParam num v =
     (let bad = Inl (Error ''BAD_VM_SIZE: vmSize must be {cpus, memoryGiB}'')
      in case v of
           JObj kvs \<Rightarrow>
             (case (number_value num (map_of kvs ''cpus''), number_value num (map_of kvs ''memoryGiB'')) of
                (Some c, Some m) \<Rightarrow> if set (map fst kvs) \<subseteq> {''cpus'', ''memoryGiB''} then Inr (c, m) else bad
              | _ \<Rightarrow> bad)
         | _ \<Rightarrow> bad)"

section \<open>The daemon\<close>

text \<open>
  The daemon's own fields beside the world of its components: what the skill store and the list of
  servers say, the connector and runtime states of the last inventory, the builder's runtime and the
  age of the guest as last seen, the last settings warning, and what it logged, sent and showed.
\<close>

datatype daemon_output =
  Log string
| Sent_tasksDeleted
| Sent_approvals "approval list"
| Sent_proposal proposal
| Notified string string

record daemon =
  dm_world :: world
  dm_watcher :: watcher
  dm_items :: coord_items
  dm_proposals :: proposals
  dm_skills :: "string list"
  dm_servers :: "string list"
  dm_connectors :: "connector_info list"
  dm_runtimes :: "(string \<times> bool option) list"
  dm_autoRuntime :: string
  dm_outdated :: "(string option \<times> string) option"
  dm_warnedGuest :: bool
  dm_warned :: string
  dm_out :: "daemon_output list"

type_synonym 'a dop = "(daemon, 'a) op"

definition on_world :: "'a act \<Rightarrow> 'a dop" where
  "on_world m = (\<lambda>d. case m (dm_world d) of (r, w) \<Rightarrow> (r, d\<lparr>dm_world := w\<rparr>))"

definition on_layout :: "'a file_op \<Rightarrow> 'a dop" where
  "on_layout m = on_world (\<lambda>w. case m (layout w) of (r, ly) \<Rightarrow> (r, w\<lparr>layout := ly\<rparr>))"

definition on_watcher :: "(watcher, 'a) op \<Rightarrow> 'a dop" where
  "on_watcher m = (\<lambda>d. case m (dm_watcher d) of (r, x) \<Rightarrow> (r, d\<lparr>dm_watcher := x\<rparr>))"

text \<open>The proposals work on the same files.\<close>

definition on_builder :: "'a builder_op \<Rightarrow> 'a dop" where
  "on_builder m = (\<lambda>d.
     case m ((dm_proposals d)\<lparr>ps_layout := layout (dm_world d)\<rparr>) of
       (r, p) \<Rightarrow> (r, d\<lparr>dm_proposals := p, dm_world := (dm_world d)\<lparr>layout := ps_layout p\<rparr>\<rparr>))"

definition put_out :: "daemon_output \<Rightarrow> unit dop" where
  "put_out x = modify (\<lambda>d. d\<lparr>dm_out := dm_out d @ [x]\<rparr>)"

definition log_line :: "string \<Rightarrow> unit dop" where
  "log_line m = put_out (Log m)"

section \<open>Settings (\<^verbatim>\<open>settings.yaml\<close>)\<close>

definition settings :: "layout \<Rightarrow> fields" where
  "settings ly =
     (case rbind (readFile ly (join_path (ly_home ly) ''settings.yaml'')) (ly_yaml ly) of
        Inr (JObj kvs) \<Rightarrow> kvs | _ \<Rightarrow> [])"

definition setting :: "string \<Rightarrow> daemon \<Rightarrow> json option" where
  "setting k d = (case map_of (settings (layout (dm_world d))) k of Some JNull \<Rightarrow> None | v \<Rightarrow> v)"

definition warnOnce :: "string \<Rightarrow> unit dop" where
  "warnOnce m =
     andthen (gets dm_warned) (\<lambda>last_one.
     if last_one = m then ret ()
     else andthen (modify (\<lambda>d. d\<lparr>dm_warned := m\<rparr>)) (\<lambda>_. log_line m))"

definition approvalTimeoutS :: "(string \<Rightarrow> rat option) \<Rightarrow> nat option dop" where
  "approvalTimeoutS num =
     andthen (gets (setting ''approvalTimeoutMinutes'')) (\<lambda>raw.
     case raw of
       None \<Rightarrow> ret None
     | Some v \<Rightarrow>
         let refuse = andthen (warnOnce (''settings.yaml: approvalTimeoutMinutes '' @ js_string v @
               '' is not a whole number from 1 to 720; using the default (5)'')) (\<lambda>_. ret None)
         in case js_number num (Some v) of
              None \<Rightarrow> refuse
            | Some m \<Rightarrow> if whole m \<and> 1 \<le> m \<and> m \<le> 720 then ret (Some (nat \<lfloor>m\<rfloor> * 60)) else refuse)"

definition globalHighRisk :: "daemon \<Rightarrow> string list" where
  "globalHighRisk d =
     (case setting ''highRisk'' d of
        Some (JObj kvs) \<Rightarrow> map js_string (array_items (map_of kvs ''disable'')) | _ \<Rightarrow> [])"

text \<open>The number of cells; \<open>show\<close> prints a number.\<close>

definition maxCells_of :: "(string \<Rightarrow> rat option) \<Rightarrow> (rat \<Rightarrow> string) \<Rightarrow> nat dop" where
  "maxCells_of num show_num =
     andthen (gets (setting ''maxCells'')) (\<lambda>raw.
     case raw of
       None \<Rightarrow> ret DEFAULT_MAX_CELLS
     | Some v \<Rightarrow>
         (case js_number num (Some v) of
            None \<Rightarrow>
              andthen (warnOnce (''settings.yaml: maxCells is not a number; using '' @ nat_str DEFAULT_MAX_CELLS)) (\<lambda>_.
              ret DEFAULT_MAX_CELLS)
          | Some n \<Rightarrow>
              let value = nat (min (max \<lfloor>n + 1/2\<rfloor> 1) (int CELL_CEILING))
              in andthen (when_do (of_nat value \<noteq> n)
                   (warnOnce (''settings.yaml: maxCells '' @ show_num n @ '' is outside 1'' @ [CHR 0xE2, CHR 0x80, CHR 0x93] @
                      nat_str CELL_CEILING @ ''; using '' @ nat_str value))) (\<lambda>_.
                 ret value)))"

definition builderRuntime :: "string dop" where
  "builderRuntime =
     andthen (gets (setting ''builderRuntime'')) (\<lambda>raw.
     andthen (gets dm_autoRuntime) (\<lambda>auto.
     case raw of
       None \<Rightarrow> ret auto
     | Some v \<Rightarrow>
         (case p_enum RUNTIMES v of
            Some r \<Rightarrow> ret r
          | None \<Rightarrow>
              andthen (warnOnce (''settings.yaml: builderRuntime '' @ js_string v @
                '' is not codex, claude-code or hermes; using '' @ auto)) (\<lambda>_.
              ret auto))))"

definition retentionDays :: "(string \<Rightarrow> rat option) \<Rightarrow> daemon \<Rightarrow> nat" where
  "retentionDays num d =
     (case js_number num (map_of (settings (layout (dm_world d))) ''retentionDays'') of
        Some n \<Rightarrow> if whole n \<and> 1 \<le> n \<and> n \<le> 3650 then nat \<lfloor>n\<rfloor> else 90 | None \<Rightarrow> 90)"

definition purge_old :: "(string \<Rightarrow> rat option) \<Rightarrow> unit dop" where
  "purge_old num =
     andthen (gets (retentionDays num)) (\<lambda>days.
     andthen (on_world (purge days)) (\<lambda>n.
     when_do (n \<noteq> 0) (log_line (''retention: deleted '' @ nat_str n @ '' task(s) older than '' @ nat_str days @ '' days''))))"

text \<open>A notification, unless notifications are off.\<close>

definition notify_user :: "string \<Rightarrow> string \<Rightarrow> unit dop" where
  "notify_user title msg =
     andthen (gets (setting ''desktopNotifications'')) (\<lambda>v.
     when_do (v \<noteq> Some (JBool False)) (put_out (Notified title msg)))"

section \<open>What a status changes\<close>

definition warning_mark :: string where
  "warning_mark = [CHR 0xE2, CHR 0x9A, CHR 0xA0, CHR 0x20]"

definition guestWarning :: "string \<Rightarrow> daemon \<Rightarrow> string" where
  "guestWarning app d =
     (let (guest, a) = (case dm_outdated d of Some x \<Rightarrow> x | None \<Rightarrow> (None, app))
      in warning_mark @ ''the VM'' @ [CHR 0x27] @ ''s components were installed by Anchi '' @ or_else guest ''an older release'' @
         ''; this is Anchi '' @ a @ '': run anchi setup install (Runtimes '' @ [CHR 0xE2, CHR 0x86, CHR 0x92] @
         '' I) to update them'')"

definition noteSetup :: "string \<Rightarrow> int \<Rightarrow> setup_status \<Rightarrow> unit dop" where
  "noteSetup app now st =
     andthen (gets dm_autoRuntime) (\<lambda>auto.
     let runtime = chooseBuilderRuntime st now
     in andthen (when_do (su_vm st = Vm_running \<and> runtime \<noteq> auto)
          (andthen (modify (\<lambda>d. d\<lparr>dm_autoRuntime := runtime\<rparr>)) (\<lambda>_.
           andthen (log_line (''builder runtime: '' @ runtime @ '' (the first runtime connected)'')) (\<lambda>_.
           on_world reload)))) (\<lambda>_.
        andthen (modify (\<lambda>d. d\<lparr>dm_outdated := (if su_guestOutdated st then Some (su_guestVersion st, app) else None)\<rparr>)) (\<lambda>_.
        andthen (gets (\<lambda>d. (dm_warnedGuest d, guestWarning app d))) (\<lambda>(warned, txt).
        when_do (su_guestOutdated st \<and> \<not> warned)
          (andthen (modify (\<lambda>d. d\<lparr>dm_warnedGuest := True\<rparr>)) (\<lambda>_. log_line txt))))))"

section \<open>Inventory\<close>

record full_inventory = reference_inventory +
  fi_shared :: "bool option"
  fi_dirs :: "string list"
  fi_peerAgents :: "(string \<times> string \<times> string \<times> bool) list"
  fi_images :: "string list"
  fi_highRisk :: "string list"

definition agent_ids :: "world \<Rightarrow> string list" where
  "agent_ids w =
     List.filter (\<lambda>i. i \<noteq> BUILDER_ID) (map sm_id (summaries w @ peer_agents (network w)))"

definition peer_entries :: "network \<Rightarrow> (string \<times> string \<times> string \<times> bool) list" where
  "peer_entries net =
     concat (map (\<lambda>n. map (\<lambda>a. (ref_of (pn_node n) a, pa_name a, pn_label n, pn_online n)) (pn_agents n))
       (List.filter (\<lambda>n. pn_node n \<noteq> net_self net) (net_nodes net)))"

definition quickInventory :: "daemon \<Rightarrow> reference_inventory" where
  "quickInventory d =
     \<lparr>iv_skills = dm_skills d, iv_connectors = dm_connectors d, iv_agents = agent_ids (dm_world d),
      iv_runtimes = Some (dm_runtimes d), iv_servers = Some (dm_servers d)\<rparr>"

definition service_entry :: "bool \<Rightarrow> setup_status \<Rightarrow> string \<Rightarrow> connector_info" where
  "service_entry known st i =
     (let svc = List.find (\<lambda>s. sv_id s = i) (ss_services (su_services st));
          accounts = (case svc of None \<Rightarrow> [] | Some s \<Rightarrow> map sa_name (List.filter sa_connected (sv_accounts s)))
      in \<lparr>ci_id = i, ci_connected = (if known then map_option sv_connected svc else None),
          ci_accounts = (if known \<and> accounts \<noteq> [] then Some accounts else None)\<rparr>)"

definition status_connectors :: "bool \<Rightarrow> setup_status \<Rightarrow> connector_info list" where
  "status_connectors known st =
     map (\<lambda>c. \<lparr>ci_id = cs_id c, ci_connected = (if known then Some (cs_connected c) else None), ci_accounts = None\<rparr>)
       (su_connectors st) @
     map (service_entry known st) SERVICE_IDS"

definition status_runtimes :: "bool \<Rightarrow> setup_status \<Rightarrow> (string \<times> bool option) list" where
  "status_runtimes known st =
     [(''codex'', if known then Some (cx_connected (su_codex st)) else None),
      (''claude-code'', if known then Some (ca_connected (su_claude st)) else None),
      (''hermes'', if known then Some (ha_connected (su_hermes st)) else None)]"

text \<open>\<open>inventory\<close> with the status the VM gave, if any, and the directories of the workspace root.\<close>

definition inventory :: "setup_status option \<Rightarrow> string list \<Rightarrow> full_inventory dop" where
  "inventory status dirs =
     andthen (gets (\<lambda>d.
       let known = (case status of Some st \<Rightarrow> su_vm st = Vm_running \<and> su_vaultUnlocked st | None \<Rightarrow> False)
       in \<lparr>iv_skills = dm_skills d,
           iv_connectors = (case status of Some st \<Rightarrow> status_connectors known st | None \<Rightarrow> dm_connectors d),
           iv_agents = agent_ids (dm_world d),
           iv_runtimes = Some (case status of Some st \<Rightarrow> status_runtimes known st | None \<Rightarrow> dm_runtimes d),
           iv_servers = Some (dm_servers d),
           fi_shared = (case status of Some st \<Rightarrow> if su_vm st = Vm_running then Some (su_workspaces st) else None | None \<Rightarrow> None),
           fi_dirs = dirs, fi_peerAgents = peer_entries (network (dm_world d)),
           fi_images = listImageIds (layout (dm_world d)), fi_highRisk = HIGH_RISK_IDS\<rparr>)) (\<lambda>iv.
     andthen (modify (\<lambda>d. d\<lparr>dm_connectors := iv_connectors iv, dm_runtimes := or_else (iv_runtimes iv) []\<rparr>)) (\<lambda>_.
     ret iv))"

definition refs_of :: "full_inventory \<Rightarrow> reference_inventory" where
  "refs_of iv = \<lparr>iv_skills = iv_skills iv, iv_connectors = iv_connectors iv, iv_agents = iv_agents iv,
     iv_runtimes = iv_runtimes iv, iv_servers = iv_servers iv\<rparr>"

text \<open>\<open>usage.quota\<close>: the limits the proxy saw, and a row of zeros for a connected runtime without any.\<close>

definition rule_runtime :: "string \<Rightarrow> string" where
  "rule_runtime rule = (if rule = ''anthropic'' then ''claude-code'' else rule)"

definition quota :: "(string \<times> quota_info) list \<Rightarrow> setup_status option \<Rightarrow> quota_info list" where
  "quota seen_rules status =
     (let rows = map (\<lambda>(rule, q). q\<lparr>qi_runtime := rule_runtime rule\<rparr>) seen_rules;
          connected = (\<lambda>i. case status of
            Some st \<Rightarrow> su_vm st = Vm_running \<and> su_vaultUnlocked st \<and>
              (if i = ''codex'' then cx_connected (su_codex st) else ca_connected (su_claude st))
          | None \<Rightarrow> False)
      in rows @ map (\<lambda>i. \<lparr>qi_runtime = i, qi_ts = 0, qi_status = 0, qi_limited = False, qi_windows = []\<rparr>)
           (List.filter (\<lambda>i. connected i \<and> i \<notin> set (map qi_runtime rows)) [''codex'', ''claude-code'']))"

end
