(* ===== verification/Handlers.thy ===== *)
theory Handlers
  imports Methods
begin

text \<open>
  The handlers of \<^verbatim>\<open>packages/daemon/src/daemon.ts\<close> for tasks, agents, approvals and proposals, as
  calls of the components.  A method of a name that is not in the table is refused.
\<close>

definition param :: "string \<Rightarrow> fields \<Rightarrow> json option" where
  "param k p = map_of p k"

definition text_param :: "string \<Rightarrow> fields \<Rightarrow> string option" where
  "text_param k p = Option.bind (param k p) p_string"

definition checked :: "'a result \<Rightarrow> 'a dop" where
  "checked = lift_result"

section \<open>Tasks\<close>

definition warn_task :: "string \<Rightarrow> task_row \<Rightarrow> unit dop" where
  "warn_task app task =
     andthen (gets (\<lambda>d. (dm_outdated d, guestWarning app d))) (\<lambda>(outdated, txt).
     when_do (outdated \<noteq> None) (on_world (notice (t_id task) txt)))"

definition tasks_create :: "string \<Rightarrow> fields \<Rightarrow> task_row dop" where
  "tasks_create app p =
     andthen (checked (str_param (param ''agentId'' p) ''agent'' 100)) (\<lambda>agentId.
     andthen (checked (str_param (param ''text'' p) ''text'' 200000)) (\<lambda>txt.
     andthen (on_world (hub_createTask agentId txt ''user'')) (\<lambda>task.
     andthen (warn_task app task) (\<lambda>_.
     ret task))))"

definition tasks_list :: "(string \<Rightarrow> rat option) \<Rightarrow> fields \<Rightarrow> task_row list dop" where
  "tasks_list num p =
     andthen (checked (limit_param num (param ''limit'' p) 100 500)) (\<lambda>n.
     on_world (on_db (listTasks (text_param ''agentId'' p) n)))"

definition known_task :: "fields \<Rightarrow> task_row dop" where
  "known_task p =
     andthen (checked (task_id (param ''taskId'' p))) (\<lambda>i. on_world (hub_getTask i))"

definition status_param :: "json option \<Rightarrow> task_status option" where
  "status_param v =
     (case v of
        Some (JStr s) \<Rightarrow> List.find (\<lambda>st. status_str st = s) [Queued, Running, Done, Failed, Cancelled]
      | _ \<Rightarrow> None)"

definition optional_text :: "(string \<Rightarrow> rat option) \<Rightarrow> string \<Rightarrow> string \<Rightarrow> nat \<Rightarrow> fields \<Rightarrow> string option result" where
  "optional_text num k what hi p =
     (if truthy num (param k p) then rbind (str_param (param k p) what hi) (\<lambda>s. Inr (Some s)) else Inr None)"

definition whole_param :: "json option \<Rightarrow> int option" where
  "whole_param v = (case v of Some (JInt n) \<Rightarrow> Some n | _ \<Rightarrow> None)"

text \<open>Times, the limit and the offset of a search are whole numbers.\<close>

definition tasks_search :: "(string \<Rightarrow> rat option) \<Rightarrow> fields \<Rightarrow> task_row list dop" where
  "tasks_search num p =
     andthen (checked (optional_text num ''agentId'' ''agent'' 100 p)) (\<lambda>agentId.
     andthen (checked (optional_text num ''text'' ''text'' 200 p)) (\<lambda>txt.
     on_world (on_db (search_tasks
       \<lparr>q_agentId = agentId, q_status = status_param (param ''status'' p), q_text = txt,
        q_since = whole_param (param ''since'' p), q_until = whole_param (param ''until'' p),
        q_limit = whole_param (param ''limit'' p), q_offset = whole_param (param ''offset'' p)\<rparr>))))"

definition tasks_tree :: "fields \<Rightarrow> task_row list dop" where
  "tasks_tree p = andthen (known_task p) (\<lambda>t. on_world (on_db (tree (t_rootId t))))"

definition tasks_delete_begin :: "fields \<Rightarrow> string list dop" where
  "tasks_delete_begin p =
     andthen (checked (task_id (param ''taskId'' p))) (\<lambda>i. on_world (deleteTask_begin i))"

definition tasks_delete_end :: "string list \<Rightarrow> nat dop" where
  "tasks_delete_end ids =
     andthen (on_world (deleteTask_end ids)) (\<lambda>n.
     andthen (put_out Sent_tasksDeleted) (\<lambda>_.
     ret n))"

text \<open>A task that another machine or a coordinator leads is not continued here.\<close>

definition led_elsewhere :: "world \<Rightarrow> task_row \<Rightarrow> bool" where
  "led_elsewhere w t =
     (case execution_of t of None \<Rightarrow> False | Some e \<Rightarrow> ref_node (pe_root e) \<noteq> net_self (network w))"

definition lead_here :: "string \<Rightarrow> task_row \<Rightarrow> unit dop" where
  "lead_here what t =
     andthen (gets (\<lambda>d. led_elsewhere (dm_world d) t)) (\<lambda>elsewhere.
     andthen (require (t_teamOrigin t = None) (what @ '' this team task on its coordinator.'')) (\<lambda>_.
     require (\<not> elsewhere) (what @ '' this peer task through its originating task.'')))"

definition tasks_send :: "fields \<Rightarrow> task_row dop" where
  "tasks_send p =
     andthen (known_task p) (\<lambda>task.
     andthen (lead_here ''Continue'' task) (\<lambda>_.
     andthen (checked (str_param (param ''text'' p) ''text'' 200000)) (\<lambda>txt.
     on_world (sendTask (t_id task) txt None))))"

definition tasks_retry :: "fields \<Rightarrow> task_row dop" where
  "tasks_retry p =
     andthen (known_task p) (\<lambda>task.
     andthen (lead_here ''Retry'' task) (\<lambda>_.
     on_world (retryTask (t_id task) (param ''fresh'' p = Some (JBool True)))))"

definition tasks_cancel :: "fields \<Rightarrow> unit dop" where
  "tasks_cancel p = andthen (checked (task_id (param ''taskId'' p))) (\<lambda>i. on_world (hub_cancelTask i))"

definition tasks_events :: "(string \<Rightarrow> rat option) \<Rightarrow> fields \<Rightarrow> stored_event list dop" where
  "tasks_events num p =
     andthen (checked (task_id (param ''taskId'' p))) (\<lambda>i.
     andthen (checked (limit_param num (param ''limit'' p) EVENTS_PAGE_LIMIT EVENTS_PAGE_LIMIT)) (\<lambda>n.
     let aft = (case js_number num (param ''afterSeq'' p) of None \<Rightarrow> 0 | Some r \<Rightarrow> nat \<lfloor>r\<rfloor>)
     in on_world (on_db (events i aft (int n)))))"

definition tasks_wait :: "nat \<Rightarrow> fields \<Rightarrow> unit dop" where
  "tasks_wait k p = andthen (checked (task_id (param ''taskId'' p))) (\<lambda>i. on_world (wait i k))"

text \<open>The task whose live cell is scanned.\<close>

definition tasks_scan :: "fields \<Rightarrow> string dop" where
  "tasks_scan p =
     andthen (checked (task_id (param ''taskId'' p))) (\<lambda>i.
     andthen (gets (\<lambda>d. i \<in> set (mkeys (h_cells (hub (dm_world d)))))) (\<lambda>live.
     andthen (require live ''the task has no live cell; scan within the idle timeout after a turn'') (\<lambda>_.
     ret i)))"

text \<open>\<open>usage.summary\<close>: a month by default, by agent.\<close>

definition usage_summary :: "(int \<Rightarrow> string) \<Rightarrow> fields \<Rightarrow> usage_total list dop" where
  "usage_summary day_of p =
     andthen (checked (case param ''by'' p of
         None \<Rightarrow> Inr By_agent | Some JNull \<Rightarrow> Inr By_agent
       | Some v \<Rightarrow> if v = JStr ''agent'' then Inr By_agent else if v = JStr ''runtime'' then Inr By_runtime
           else if v = JStr ''model'' then Inr By_model else if v = JStr ''day'' then Inr By_day
           else Inl (Error ''unknown grouping''))) (\<lambda>group.
     andthen (gets (\<lambda>d. s_now (db (dm_world d)))) (\<lambda>now.
     let since = (case whole_param (param ''since'' p) of
                    Some n \<Rightarrow> if n \<ge> 0 then n else now - 30 * 86400000 | None \<Rightarrow> now - 30 * 86400000)
     in on_world (on_db (usageSummary day_of since group))))"

section \<open>Agents\<close>

definition deletableId :: "json option \<Rightarrow> string result" where
  "deletableId v =
     (case Option.bind v (str_where idSchema) of
        None \<Rightarrow> Inl (Error ''invalid agent id'')
      | Some i \<Rightarrow> if i = BUILDER_ID then Inl (Error ''the builder is built in and cannot be deleted'') else Inr i)"

record deletion_preview =
  dp_agentId :: string
  dp_exists :: bool
  dp_tasks :: nat
  dp_delegated :: nat
  dp_running :: nat
  dp_delegatedBy :: "string list"
  dp_delegatedByTemplates :: "string list"
  dp_triggers :: nat
  dp_workspaces :: "string list"

definition deletion_preview_of :: "string \<Rightarrow> deletion_preview dop" where
  "deletion_preview_of i =
     andthen (on_world (agentTaskTree i)) (\<lambda>ts.
     gets (\<lambda>d.
       let ly = layout (dm_world d);
           own = length (List.filter (\<lambda>t. t_agentId t = i) ts);
           agent = (case resolveAgent ly i None of Inr a \<Rightarrow> Some a | Inl _ \<Rightarrow> None)
       in \<lparr>dp_agentId = i, dp_exists = (i \<in> set (listAgentIds ly)), dp_tasks = own,
           dp_delegated = length ts - own, dp_running = length (List.filter (\<lambda>t. in_flight (t_status t)) ts),
           dp_delegatedBy = delegatorsOf ly i, dp_delegatedByTemplates = templateDelegatorsOf ly i,
           dp_triggers = (case agent of Some a \<Rightarrow> length (ra_triggers a) | None \<Rightarrow> 0),
           dp_workspaces = (case agent of Some a \<Rightarrow> map ws_path (ra_workspaces a) | None \<Rightarrow> [])\<rparr>))"

definition agents_deletePreview :: "fields \<Rightarrow> deletion_preview dop" where
  "agents_deletePreview p =
     andthen (checked (deletableId (param ''agentId'' p))) deletion_preview_of"

text \<open>
  \<open>deleteAgent\<close>: up to the cells that close; the part that always runs at the end; and, once the tasks
  are settled, the rest.  \<open>edits\<close> takes the agent out of the files that name it, and notes what it could not edit.
\<close>

definition delete_finish :: "string \<Rightarrow> unit dop" where
  "delete_finish i =
     andthen (on_world (endDeleting i)) (\<lambda>_.
     andthen (on_world reload) (\<lambda>_.
     put_out Sent_tasksDeleted))"

definition try_finish :: "'a dop \<Rightarrow> string \<Rightarrow> 'a dop" where
  "try_finish m i = (\<lambda>d.
     case m d of (r, d1) \<Rightarrow>
       (case delete_finish i d1 of (Inl e, d2) \<Rightarrow> (Inl e, d2) | (Inr _, d2) \<Rightarrow> (r, d2)))"

definition delete_agent_begin :: "fields \<Rightarrow> (deletion_preview \<times> task_row list) dop" where
  "delete_agent_begin p =
     andthen (checked (deletableId (param ''agentId'' p))) (\<lambda>i.
     andthen (require (param ''confirm'' p = Some (JStr i)) (''type the agent id '' @ qt i @ '' to confirm'')) (\<lambda>_.
     andthen (deletion_preview_of i) (\<lambda>preview.
     andthen (on_world (beginDeleting i)) (\<lambda>_.
     catch_error (andthen (on_world (deleteAgentTasks_begin i)) (\<lambda>ts. ret (preview, ts)))
       (\<lambda>e. try_finish (lift_result (Inl e)) i)))))"

definition delete_agent_failed :: "string \<Rightarrow> js_error \<Rightarrow> unit dop" where
  "delete_agent_failed i e = try_finish (lift_result (Inl e)) i"

text \<open>The tasks are over: their cells are to be closed, or what stays pending ends the deletion.\<close>

definition delete_agent_settled :: "string \<Rightarrow> task_row list \<Rightarrow> unit dop" where
  "delete_agent_settled i ts =
     catch_error (on_world (deleteAgentTasks_settled ts)) (delete_agent_failed i)"

fun edits :: "(string \<Rightarrow> unit file_op) \<Rightarrow> (string \<Rightarrow> js_error \<Rightarrow> string) \<Rightarrow> string list \<Rightarrow> (string list \<times> string list) dop" where
  "edits edit_one note [] = ret ([], [])"
| "edits edit_one note (x # xs) =
     andthen (catch_error (andthen (on_layout (edit_one x)) (\<lambda>_. ret (Inr x))) (\<lambda>e. ret (Inl (note x e)))) (\<lambda>one.
     andthen (edits edit_one note xs) (\<lambda>(edited, warnings).
     ret (case one of Inr y \<Rightarrow> (y # edited, warnings) | Inl wn \<Rightarrow> (edited, wn # warnings))))"

definition still_lists :: "string \<Rightarrow> string \<Rightarrow> js_error \<Rightarrow> string" where
  "still_lists who i e = who @ '' still lists @'' @ i @ '' as a delegate: '' @ message e"

record deletion =
  dl_agentId :: string
  dl_deletedTasks :: nat
  dl_editedAgents :: "string list"
  dl_editedTemplates :: "string list"
  dl_warnings :: "string list"

definition remove_agent_file :: "string \<Rightarrow> unit file_op" where
  "remove_agent_file i = (\<lambda>ly. (Inr (), ly\<lparr>ly_files := mdelete (agentFile ly i) (ly_files ly)\<rparr>))"

definition delete_agent_rest :: "edit_env \<Rightarrow> deletion_preview \<Rightarrow> task_row list \<Rightarrow> deletion dop" where
  "delete_agent_rest env preview ts =
     (let i = dp_agentId preview
      in try_finish
        (andthen (on_world (deleteAgentTasks_end i ts)) (\<lambda>n.
         andthen (edits (\<lambda>other. removeDelegate env other i) (\<lambda>other. still_lists (''@'' @ other) i) (dp_delegatedBy preview))
           (\<lambda>(agents, w1).
         andthen (edits (\<lambda>t. removeTemplateDelegate env t i) (\<lambda>t. still_lists (''template '' @ t) i)
           (dp_delegatedByTemplates preview)) (\<lambda>(templates, w2).
         andthen (when_do (dp_exists preview) (on_layout (remove_agent_file i))) (\<lambda>_.
         andthen (on_world (on_db (deleteTriggerState i))) (\<lambda>_.
         ret \<lparr>dl_agentId = i, dl_deletedTasks = n, dl_editedAgents = agents, dl_editedTemplates = templates,
              dl_warnings = w1 @ w2\<rparr>)))))) i)"

text \<open>The VM's part, which only warns when the VM does not answer.\<close>

definition delete_agent_vm :: "deletion \<Rightarrow> unit result \<Rightarrow> deletion dop" where
  "delete_agent_vm dl answer =
     (let i = dl_agentId dl;
          dl' = (case answer of Inr _ \<Rightarrow> dl
            | Inl e \<Rightarrow> dl\<lparr>dl_warnings := dl_warnings dl @ [''the VM kept @'' @ i @ [CHR 0x27] @ ''s home and skills ('' @
                message e @ ''); delete @'' @ i @ '' again once the VM runs'']\<rparr>)
      in andthen (log_line (''agent '' @ i @ '' deleted: '' @ nat_str (dl_deletedTasks dl) @ '' tasks, delegates edited in '' @
           nat_str (length (dl_editedAgents dl)) @ '' agents and '' @ nat_str (length (dl_editedTemplates dl)) @ '' templates'')) (\<lambda>_.
         ret dl'))"

text \<open>\<open>agents.update\<close> and \<open>agents.allowHost\<close>, with the inventory read before.\<close>

definition not_builtin :: "string \<Rightarrow> unit dop" where
  "not_builtin i = require (i \<noteq> BUILDER_ID) ''the builder is built in; its settings are fixed''"

definition agents_update :: "edit_env \<Rightarrow> full_inventory \<Rightarrow> fields \<Rightarrow> agent_update dop" where
  "agents_update env iv p =
     andthen (checked (str_param (param ''agentId'' p) ''agent'' 40)) (\<lambda>i.
     andthen (not_builtin i) (\<lambda>_.
     andthen (checked (case param ''patch'' p of Some v \<Rightarrow> parsePatch v | None \<Rightarrow> Inl (Error ''invalid settings''))) (\<lambda>patch.
     andthen (on_layout (updateAgentFile env (Some (refs_of iv)) i patch (param ''apply'' p = Some (JBool True))
       (text_param ''base'' p))) (\<lambda>r.
     andthen (when_do (au_applied r)
       (andthen (log_line (''settings of '' @ i @ '' changed from the TUI'')) (\<lambda>_. on_world reload))) (\<lambda>_.
     ret r)))))"

definition agents_allowHost :: "edit_env \<Rightarrow> full_inventory \<Rightarrow> fields \<Rightarrow> string list dop" where
  "agents_allowHost env iv p =
     andthen (checked (str_param (param ''agentId'' p) ''agent'' 40)) (\<lambda>i.
     andthen (not_builtin i) (\<lambda>_.
     andthen (checked (str_param (param ''host'' p) ''host'' 260)) (\<lambda>host.
     andthen (on_layout (allowEgressHost env (refs_of iv) i host)) (\<lambda>r.
     andthen (log_line (host @ '' added to the egress list of '' @ i)) (\<lambda>_.
     andthen (on_world reload) (\<lambda>_.
     ret r))))))"

section \<open>Proposals\<close>

definition proposal_id :: "fields \<Rightarrow> string result" where
  "proposal_id p = str_param (param ''proposalId'' p) ''proposal'' 20"

definition quick_refs :: "daemon \<Rightarrow> reference_inventory option" where
  "quick_refs d = Some (quickInventory d)"

definition builder_proposal :: "fields \<Rightarrow> proposal dop" where
  "builder_proposal p = andthen (checked (proposal_id p)) (\<lambda>i. on_builder (get_proposal i))"

definition builder_apply :: "edit_env \<Rightarrow> fields \<Rightarrow> unit dop" where
  "builder_apply env p =
     andthen (checked (proposal_id p)) (\<lambda>i.
     andthen (gets quick_refs) (\<lambda>refs.
     andthen (on_builder (apply_proposal env refs i)) (\<lambda>(agentId, imageId).
     andthen (on_world reload) (\<lambda>_.
     case imageId of
       None \<Rightarrow> ret ()
     | Some im \<Rightarrow> when_do (im \<noteq> []) (log_line (''image '' @ qt im @ '' will be built on the first task that uses it''))))))"

definition builder_revise :: "edit_env \<Rightarrow> fields \<Rightarrow> proposal dop" where
  "builder_revise env p =
     andthen (checked (proposal_id p)) (\<lambda>i.
     andthen (checked (case param ''patch'' p of Some v \<Rightarrow> parsePatch v | None \<Rightarrow> Inl (Error ''invalid settings''))) (\<lambda>patch.
     andthen (gets quick_refs) (\<lambda>refs.
     on_builder (revise env refs i patch))))"

definition builder_discard :: "fields \<Rightarrow> unit dop" where
  "builder_discard p = andthen (checked (proposal_id p)) (\<lambda>i. on_builder (discard i))"

text \<open>A turn of the builder that ended: the proposal its reply holds.\<close>

definition builder_turn_ended :: "edit_env \<Rightarrow> task_row \<Rightarrow> string \<Rightarrow> unit dop" where
  "builder_turn_ended env task reply_text =
     (if t_agentId task \<noteq> BUILDER_ID then ret ()
      else
        andthen (gets quick_refs) (\<lambda>refs.
        andthen (on_builder (add env refs (parseBlocks reply_text))) (\<lambda>made.
        case made of None \<Rightarrow> ret () | Some pr \<Rightarrow> put_out (Sent_proposal pr))))"

section \<open>Approvals\<close>

definition allApprovals :: "approval list dop" where
  "allApprovals =
     andthen (on_world listApprovals) (\<lambda>peers.
     gets (\<lambda>d. list_approvals (dm_watcher d) @ map ci_approval (mvalues (dm_items d)) @ peers))"

definition approvals_changed :: "unit dop" where
  "approvals_changed = andthen allApprovals (\<lambda>as. put_out (Sent_approvals as))"

text \<open>Where a decision goes: to a peer, to an execution node, or to this machine's VM.\<close>

datatype decision_route =
  To_peer string string string string
| To_team string coord_item
| To_vm string "approval option" decide_request

definition approvals_decide :: "fields \<Rightarrow> decision_route dop" where
  "approvals_decide p =
     andthen (checked (str_param (param ''id'' p) ''approval'' 40)) (\<lambda>i.
     andthen (on_world (peer_decide i)) (\<lambda>there.
     case there of
       Some (node, task, remote) \<Rightarrow> ret (To_peer i node task remote)
     | None \<Rightarrow>
         andthen (gets (\<lambda>d. mget (dm_items d) i)) (\<lambda>item.
         case item of
           Some x \<Rightarrow> ret (To_team i x)
         | None \<Rightarrow>
             andthen (gets (\<lambda>d. List.find (\<lambda>a. ap_id a = i) (list_approvals (dm_watcher d)))) (\<lambda>a.
             andthen (on_watcher (decide_begin i True)) (\<lambda>request.
             ret (To_vm i a request))))))"

definition decided_text :: "bool \<Rightarrow> approval \<Rightarrow> string" where
  "decided_text allow a =
     (if allow then [CHR 0xE2, CHR 0x9C, CHR 0x93] @ '' approved'' else [CHR 0xE2, CHR 0x9C, CHR 0x97] @ '' denied'') @
     '': '' @ ap_operation a"

text \<open>The answer: of the peer or the node, or the exit code of the proxy's command.\<close>

definition approvals_decided :: "bool \<Rightarrow> decision_route \<Rightarrow> int \<Rightarrow> unit dop" where
  "approvals_decided allow route code =
     (case route of
        To_peer i _ _ _ \<Rightarrow> andthen (on_world (peer_decided i)) (\<lambda>_. approvals_changed)
      | To_team i _ \<Rightarrow> andthen (modify (\<lambda>d. d\<lparr>dm_items := mdelete i (dm_items d)\<rparr>)) (\<lambda>_. approvals_changed)
      | To_vm i a request \<Rightarrow>
          andthen (case request of
              Ask_policy _ \<Rightarrow> on_watcher (dropPolicy i True)
            | Ask_proxy pending \<Rightarrow> on_watcher (decide_answer pending code)) (\<lambda>_.
          case a of None \<Rightarrow> ret () | Some x \<Rightarrow> on_world (notice (ap_task x) (decided_text allow x))))"

text \<open>What the watcher of approvals reports becomes notices of the task.\<close>

definition pause_mark :: string where "pause_mark = [CHR 0xE2, CHR 0x8F, CHR 0xB8, CHR 0x20]"
definition stop_mark :: string where "stop_mark = [CHR 0xE2, CHR 0x8F, CHR 0xB9, CHR 0x20]"

definition minutes_left :: "approval \<Rightarrow> nat" where
  "minutes_left a = nat (max 1 \<lfloor>ap_timeout a / 60 + 1/2\<rfloor>)"

definition approval_added :: "approval \<Rightarrow> unit dop" where
  "approval_added a =
     andthen (on_world (notice (ap_task a) (pause_mark @ ''waiting for your approval: '' @ ap_operation a @ '' ('' @
       (if ap_reason a = [] then ap_connector a else ap_reason a) @ '')''))) (\<lambda>_.
     notify_user (''Anchi: @'' @ ap_agent a @ '' asks for approval'')
       (ap_connector a @ '': '' @ ap_operation a @ (if ap_reason a = [] then [] else name_dot @ ap_reason a) @
        name_dot @ nat_str (minutes_left a) @ '' min to decide''))"

definition approval_resolved :: "approval \<Rightarrow> bool \<Rightarrow> unit dop" where
  "approval_resolved a decided =
     when_do (\<not> decided) (on_world (notice (ap_task a) (stop_mark @ ''approval for '' @ ap_operation a @ '' expired'')))"

section \<open>Reset\<close>

definition busy_tasks :: "nat dop" where
  "busy_tasks =
     (let count = (\<lambda>st. andthen (on_world (on_db (search_tasks
             \<lparr>q_agentId = None, q_status = Some st, q_text = None, q_since = None, q_until = None, q_limit = Some 500,
              q_offset = None\<rparr>))) (\<lambda>ts. ret (length ts)))
      in andthen (count Running) (\<lambda>a. andthen (count Queued) (\<lambda>b. ret (a + b))))"

text \<open>The VM's state is asked for between the count and the closing of the cells.\<close>

definition reset_begin :: "bool \<Rightarrow> json option \<Rightarrow> nat dop" where
  "reset_begin preparing confirm =
     andthen (require (\<not> preparing) ''Environment setup is already running.'') (\<lambda>_.
     andthen (require (confirm = Some (JStr ''reset'')) ''type reset to confirm'') (\<lambda>_.
     busy_tasks))"

definition reset_close :: "nat \<Rightarrow> unit dop" where
  "reset_close pending =
     andthen (require (pending = 0) (nat_str pending @ '' task(s) running or queued; cancel them or wait first'')) (\<lambda>_.
     andthen (gets (\<lambda>d. mkeys (h_cells (hub (dm_world d))))) (\<lambda>live.
     andthen (on_world (each closeCell live)) (\<lambda>_.
     log_line ''setup reset started'')))"

end
