(* ===== verification/HandlerFacts.thy ===== *)
theory HandlerFacts
  imports Handlers Daemon
begin

text \<open>
  The methods a client may call, as parts of the running daemon: they lead to worlds the daemon can
  reach, so that what holds in all of them also holds whatever clients ask; and what the settings
  file may say stays within the bounds of the daemon.
\<close>

section \<open>Calls of the components\<close>

definition stays :: "daemon \<Rightarrow> bool" where
  "stays d \<longleftrightarrow> reachable (dm_world d)"

lemma keeps_on_world:
  assumes "\<And>w. daemon_step w (snd (m w)) \<or> snd (m w) = w"
  shows "keeps_inv stays (on_world m)"
proof (rule keeps_invI)
  fix d assume "stays d"
  then have d: "reachable (dm_world d)" by (simp add: stays_def)
  have "reachable (snd (m (dm_world d)))"
    using assms [of "dm_world d"] by (elim disjE) (auto intro: d reachable.goes_on [OF d])
  then show "stays (snd (on_world m d))" by (simp add: stays_def on_world_def prod.case_eq_if)
qed

lemma keeps_hub_call: "(\<And>w. hub_step w (snd (m w))) \<Longrightarrow> keeps_inv stays (on_world m)"
  by (intro keeps_on_world disjI1 daemon_step.by_hub)

lemma keeps_peer_call: "(\<And>w. peer_step w (snd (m w))) \<Longrightarrow> keeps_inv stays (on_world m)"
  by (intro keeps_on_world disjI1 daemon_step.by_peer)

lemma keeps_same: "(\<And>w. snd (m w) = w) \<Longrightarrow> keeps_inv stays (on_world m)"
  by (intro keeps_on_world disjI2)

lemma keeps_on_layout [keeps]: "keeps_inv stays (on_layout m)"
  unfolding on_layout_def
  by (intro keeps_on_world disjI1) (auto split: prod.split intro: daemon_step.by_environment environment_step.files)

lemma keeps_on_builder [keeps]: "keeps_inv stays (on_builder m)"
  by (auto simp: keeps_inv_def stays_def on_builder_def split: prod.split
      intro: reachable.goes_on daemon_step.by_environment environment_step.files)

lemma keeps_own [keeps]:
  "keeps_inv stays (on_watcher x)" "keeps_inv stays (put_out y)" "keeps_inv stays (log_line z)" "keeps_inv stays (checked r)"
  by (auto simp: keeps_inv_def stays_def on_watcher_def put_out_def log_line_def modify_def checked_def lift_result_def split: prod.split)

lemma keeps_own_modify [keeps]:
  "keeps_inv stays (modify (\<lambda>d. d\<lparr>dm_items := a d\<rparr>))" "keeps_inv stays (modify (\<lambda>d. d\<lparr>dm_warned := b d\<rparr>))"
  "keeps_inv stays (modify (\<lambda>d. d\<lparr>dm_autoRuntime := c d\<rparr>))" "keeps_inv stays (modify (\<lambda>d. d\<lparr>dm_outdated := e d\<rparr>))"
  "keeps_inv stays (modify (\<lambda>d. d\<lparr>dm_warnedGuest := f d\<rparr>))"
  by (auto simp: keeps_inv_def stays_def modify_def)

lemma on_db_same: "(\<And>s. snd (m s) = s) \<Longrightarrow> snd (on_db m w) = w"
  by (simp add: on_db_def prod.case_eq_if)

lemma andthen_same: "(\<And>s. snd (m s) = s) \<Longrightarrow> (\<And>a s. snd (f a s) = s) \<Longrightarrow> snd (andthen m f s) = s"
  by (auto simp: andthen_def split: prod.split sum.split) (metis snd_conv)+

lemma reads_same:
  "snd (hub_getTask i w) = w" "snd (on_db (listTasks a n) w) = w" "snd (on_db (search_tasks q) w) = w"
  "snd (on_db (tree i) w) = w" "snd (on_db (events i b n') w) = w" "snd (on_db (usageSummary f n'' g) w) = w"
  "snd (listApprovals w) = w" "snd (agentTaskTree i w) = w"
  by (auto simp: hub_getTask_def on_db_def getTask_def listTasks_def search_tasks_def tree_def events_def usageSummary_def
      listApprovals_def teamEntries_def agentTaskTree_def taskIdsOfAgent_def andthen_def gets_def ret_def throw_def
      split: option.split)

lemma keeps_reads [keeps]:
  "keeps_inv stays (on_world (hub_getTask i))" "keeps_inv stays (on_world (on_db (listTasks a n)))"
  "keeps_inv stays (on_world (on_db (search_tasks q)))" "keeps_inv stays (on_world (on_db (tree i)))"
  "keeps_inv stays (on_world (on_db (events i b n')))" "keeps_inv stays (on_world (on_db (usageSummary f n'' g)))"
  "keeps_inv stays (on_world listApprovals)" "keeps_inv stays (on_world (agentTaskTree i))"
  by (rule keeps_same, rule reads_same)+

lemma keeps_calls [keeps]:
  "keeps_inv stays (on_world (hub_createTask a x t))" "keeps_inv stays (on_world (sendTask i x k))"
  "keeps_inv stays (on_world (hub_cancelTask i))" "keeps_inv stays (on_world (retryTask i b))"
  "keeps_inv stays (on_world (deleteTask_begin i))" "keeps_inv stays (on_world (deleteTask_end ids))"
  "keeps_inv stays (on_world (purge n))" "keeps_inv stays (on_world (deleteAgentTasks_begin a))"
  "keeps_inv stays (on_world (deleteAgentTasks_settled ts))" "keeps_inv stays (on_world (deleteAgentTasks_end a ts))"
  "keeps_inv stays (on_world (beginDeleting a))" "keeps_inv stays (on_world (endDeleting a))"
  "keeps_inv stays (on_world reload)" "keeps_inv stays (on_world (wait i w))"
  "keeps_inv stays (on_world (notice i x))" "keeps_inv stays (on_world (on_db (deleteTriggerState a)))"
  "keeps_inv stays (on_world (each closeCell is))"
  by (rule keeps_hub_call, rule hub_step.intros)+

lemma keeps_peer_calls [keeps]:
  "keeps_inv stays (on_world (peer_decide i))" "keeps_inv stays (on_world (peer_decided i))"
  by (rule keeps_peer_call, rule peer_step.intros)+

section \<open>The table of methods\<close>

text \<open>What the handlers need from outside: numbers, the version, YAML edits, days.\<close>

record handler_env =
  he_num :: "string \<Rightarrow> rat option"
  he_show :: "rat \<Rightarrow> string"
  he_app :: string
  he_edit :: edit_env
  he_day :: "int \<Rightarrow> string"
  he_preparing :: bool

datatype client_event =
  Method string fields
| Update_agent full_inventory fields
| Allow_host full_inventory fields
| Task_cells_closed "string list"
| Agent_tasks_settled string "task_row list"
| Agent_tasks_over deletion_preview "task_row list"
| Deletion_failed string js_error
| Decision_taken bool decision_route int
| Approval_added approval
| Approval_resolved approval bool
| Builder_replied task_row string
| Status_read int setup_status
| Inventory_read "setup_status option" "string list"
| Retention_due
| Cells_wanted
| Reset_confirmed nat

definition quiet :: "'a dop \<Rightarrow> unit dop" where
  "quiet m = andthen m (\<lambda>_. ret ())"

text \<open>The methods whose handlers are modelled; the other ones of the table are not dispatched here.\<close>

definition call_method :: "handler_env \<Rightarrow> string \<Rightarrow> fields \<Rightarrow> unit dop" where
  "call_method env m p =
     (if m = ''tasks.create'' then quiet (tasks_create (he_app env) p)
      else if m = ''tasks.list'' then quiet (tasks_list (he_num env) p)
      else if m = ''tasks.get'' then quiet (known_task p)
      else if m = ''tasks.search'' then quiet (tasks_search (he_num env) p)
      else if m = ''tasks.tree'' then quiet (tasks_tree p)
      else if m = ''tasks.delete'' then quiet (tasks_delete_begin p)
      else if m = ''tasks.send'' then quiet (tasks_send p)
      else if m = ''tasks.retry'' then quiet (tasks_retry p)
      else if m = ''tasks.cancel'' then quiet (tasks_cancel p)
      else if m = ''tasks.events'' then quiet (tasks_events (he_num env) p)
      else if m = ''tasks.wait'' then quiet (tasks_wait 0 p)
      else if m = ''tasks.scan'' then quiet (tasks_scan p)
      else if m = ''usage.summary'' then quiet (usage_summary (he_day env) p)
      else if m = ''agents.deletePreview'' then quiet (agents_deletePreview p)
      else if m = ''agents.delete'' then quiet (delete_agent_begin p)
      else if m = ''agents.reload'' then on_world reload
      else if m = ''approvals.decide'' then quiet (approvals_decide p)
      else if m = ''approvals.list'' then quiet allApprovals
      else if m = ''builder.proposal'' then quiet (builder_proposal p)
      else if m = ''builder.apply'' then builder_apply (he_edit env) p
      else if m = ''builder.revise'' then quiet (builder_revise (he_edit env) p)
      else if m = ''builder.discard'' then builder_discard p
      else if m = ''setup.reset'' then quiet (reset_begin (he_preparing env) (param ''confirm'' p))
      else throw (''unknown method '' @ m))"

fun serve :: "handler_env \<Rightarrow> client_event \<Rightarrow> unit dop" where
  "serve env (Method m p) = call_method env m p"
| "serve env (Update_agent iv p) = quiet (agents_update (he_edit env) iv p)"
| "serve env (Allow_host iv p) = quiet (agents_allowHost (he_edit env) iv p)"
| "serve env (Task_cells_closed ids) = quiet (tasks_delete_end ids)"
| "serve env (Agent_tasks_settled i ts) = delete_agent_settled i ts"
| "serve env (Agent_tasks_over preview ts) = quiet (delete_agent_rest (he_edit env) preview ts)"
| "serve env (Deletion_failed i e) = delete_agent_failed i e"
| "serve env (Decision_taken allow route code) = approvals_decided allow route code"
| "serve env (Approval_added a) = approval_added a"
| "serve env (Approval_resolved a b) = approval_resolved a b"
| "serve env (Builder_replied t x) = builder_turn_ended (he_edit env) t x"
| "serve env (Status_read now st) = noteSetup (he_app env) now st"
| "serve env (Inventory_read st dirs) = quiet (inventory st dirs)"
| "serve env Retention_due = purge_old (he_num env)"
| "serve env Cells_wanted = quiet (maxCells_of (he_num env) (he_show env))"
| "serve env (Reset_confirmed n) = reset_close n"

definition serve_all :: "handler_env \<Rightarrow> client_event list \<Rightarrow> daemon \<Rightarrow> daemon" where
  "serve_all env evs d = foldl (\<lambda>d ev. snd (serve env ev d)) d evs"

section \<open>Every method keeps the daemon reachable\<close>

lemma keeps_known_task [keeps]: "keeps_inv stays (known_task p)"
  unfolding known_task_def by (intro keeps)

lemma keeps_case_pair [keeps]: "(\<And>a b. keeps_inv P (f a b)) \<Longrightarrow> keeps_inv P (case x of (a, b) \<Rightarrow> f a b)"
  by (cases x) simp

lemma keeps_tasks [keeps]:
  "keeps_inv stays (tasks_create app p)" "keeps_inv stays (tasks_list num p)" "keeps_inv stays (tasks_search num p)"
  "keeps_inv stays (tasks_tree p)" "keeps_inv stays (tasks_delete_begin p)" "keeps_inv stays (tasks_delete_end ids)"
  "keeps_inv stays (tasks_send p)" "keeps_inv stays (tasks_retry p)" "keeps_inv stays (tasks_cancel p)"
  "keeps_inv stays (tasks_events num p)" "keeps_inv stays (tasks_wait k p)" "keeps_inv stays (tasks_scan p)"
  "keeps_inv stays (usage_summary dy p)"
  unfolding tasks_create_def warn_task_def tasks_list_def tasks_search_def tasks_tree_def tasks_delete_begin_def
    tasks_delete_end_def tasks_send_def lead_here_def tasks_retry_def tasks_cancel_def tasks_events_def tasks_wait_def
    tasks_scan_def usage_summary_def Let_def
  by (intro keeps)+

lemma keeps_preview [keeps]: "keeps_inv stays (deletion_preview_of i)" "keeps_inv stays (agents_deletePreview p)"
  unfolding agents_deletePreview_def deletion_preview_of_def by (intro keeps)+

lemma keeps_try_finish [keeps]: "keeps_inv stays m \<Longrightarrow> keeps_inv stays (try_finish m i)"
proof -
  assume m: "keeps_inv stays m"
  have f: "keeps_inv stays (delete_finish i)" unfolding delete_finish_def by (intro keeps)
  show ?thesis
  proof (rule keeps_invI)
    fix d assume "stays d"
    then have "stays (snd (m d))" by (rule keeps_invD [OF m])
    then have "stays (snd (delete_finish i (snd (m d))))" by (rule keeps_invD [OF f])
    then show "stays (snd (try_finish m i d))"
      by (auto simp: try_finish_def split: prod.splits sum.splits)
  qed
qed

lemma keeps_edits [keeps]: "keeps_inv stays (edits f g xs)"
proof (induction xs)
  case (Cons x xs)
  show ?case unfolding edits.simps by (intro keeps Cons.IH)
qed (unfold edits.simps, intro keeps)

lemma keeps_deletion [keeps]:
  "keeps_inv stays (delete_agent_begin p)" "keeps_inv stays (delete_agent_failed i e)"
  "keeps_inv stays (delete_agent_settled i ts)" "keeps_inv stays (delete_agent_rest env preview ts)"
  unfolding delete_agent_begin_def delete_agent_failed_def delete_agent_settled_def delete_agent_rest_def Let_def
  by (intro keeps)+

lemma keeps_agents [keeps]:
  "keeps_inv stays (agents_update env iv p)" "keeps_inv stays (agents_allowHost env iv p)"
  unfolding agents_update_def agents_allowHost_def not_builtin_def by (intro keeps)+

lemma keeps_proposals [keeps]:
  "keeps_inv stays (builder_proposal p)" "keeps_inv stays (builder_apply env p)" "keeps_inv stays (builder_revise env p)"
  "keeps_inv stays (builder_discard p)" "keeps_inv stays (builder_turn_ended env t x)"
  unfolding builder_proposal_def builder_apply_def builder_revise_def builder_discard_def builder_turn_ended_def
  by (intro keeps)+

lemma keeps_settings [keeps]:
  "keeps_inv stays (warnOnce m)" "keeps_inv stays (notify_user x y)" "keeps_inv stays (purge_old num)"
  "keeps_inv stays (noteSetup app now st)"
  unfolding warnOnce_def notify_user_def purge_old_def noteSetup_def Let_def by (intro keeps)+

lemma keeps_cells [keeps]: "keeps_inv stays (maxCells_of num s)"
  unfolding maxCells_of_def Let_def by (intro keeps)

lemma keeps_inventory [keeps]: "keeps_inv stays (inventory st dirs)"
proof -
  have "keeps_inv stays (modify (\<lambda>d. d\<lparr>dm_connectors := a, dm_runtimes := b\<rparr>))" for a b
    by (auto simp: keeps_inv_def stays_def modify_def)
  then show ?thesis unfolding inventory_def by (intro keeps)
qed

lemma keeps_all_approvals [keeps]: "keeps_inv stays allApprovals" "keeps_inv stays approvals_changed"
  unfolding approvals_changed_def allApprovals_def by (intro keeps)+

lemma keeps_decisions [keeps]:
  "keeps_inv stays (approvals_decide p)" "keeps_inv stays (approval_added a)" "keeps_inv stays (approval_resolved a b)"
  unfolding approvals_decide_def approval_added_def approval_resolved_def by (intro keeps)+

lemma keeps_decided [keeps]: "keeps_inv stays (approvals_decided allow route code)"
  unfolding approvals_decided_def
  by (cases route; simp only: decision_route.case; intro keeps) (auto intro!: keeps split: decide_request.split option.split)

lemma keeps_reset [keeps]: "keeps_inv stays (reset_begin b c)" "keeps_inv stays (reset_close n)"
  unfolding reset_begin_def reset_close_def busy_tasks_def Let_def by (intro keeps)+

lemma keeps_quiet [keeps]: "keeps_inv stays m \<Longrightarrow> keeps_inv stays (quiet m)"
  unfolding quiet_def by (intro keeps)

lemma keeps_method: "keeps_inv stays (call_method env m p)"
  unfolding call_method_def by (intro keeps)

lemma keeps_serve: "keeps_inv stays (serve env ev)"
  by (cases ev) (simp_all only: serve.simps, (intro keeps keeps_method)+)

text \<open>
  Whatever methods clients call, with whatever parameters and in whatever order
  with what follows from them, the daemon only does what its own steps do: the world they lead to is
  one the daemon reaches, so its bounds on tasks, transcripts and cells hold there too.
\<close>

theorem clients_take_daemon_steps:
  assumes "reachable (dm_world d)"
  shows "reachable (dm_world (serve_all env evs d)) \<and>
    length (filter (\<lambda>t. t_depth t > 3 \<or> length (t_title t) > 120) (s_tasks (db (dm_world (serve_all env evs d))))) = 0 \<and>
    occupied (hub (dm_world (serve_all env evs d))) \<le> 16"
proof -
  have "stays (serve_all env evs d)"
    unfolding serve_all_def
  proof (rule foldl_keeps)
    show "stays (snd (serve env ev s))" if "stays s" for s ev
      using that by (rule keeps_invD [OF keeps_serve])
    show "stays d" using assms by (simp add: stays_def)
  qed
  then have r: "reachable (dm_world (serve_all env evs d))" by (simp add: stays_def)
  show ?thesis using r reachable_invariant [OF r]
    by (auto simp: filter_empty_conv ok_def db_at_def db_ok_def row_ok_def cells_ok_def maxDepth_def CELL_CEILING_def)
qed

definition demo_daemon :: daemon where
  "demo_daemon =
     \<lparr>dm_world = start_hub demo_start,
      dm_watcher = \<lparr>w_pending = [], w_policy = [], w_decided = [], w_retry = 0, w_stopped = False, w_events = []\<rparr>,
      dm_items = [], dm_proposals = \<lparr>ps_layout = layout demo_start, ps_items = [], ps_random = (\<lambda>n. []), ps_draws = 0\<rparr>,
      dm_skills = [], dm_servers = [], dm_connectors = [], dm_runtimes = [], dm_autoRuntime = ''codex'',
      dm_outdated = None, dm_warnedGuest = False, dm_warned = [], dm_out = []\<rparr>"

definition demo_handlers :: handler_env where
  "demo_handlers = \<lparr>he_num = (\<lambda>t. None), he_show = (\<lambda>r. []), he_app = ''1.0.0'',
     he_edit = \<lparr>ed_patch = (\<lambda>t p. Inr t), ed_digest = id, ed_workspace = (\<lambda>w. False)\<rparr>, he_day = (\<lambda>n. []), he_preparing = False\<rparr>"

definition demo_calls :: "client_event list" where
  "demo_calls =
     [Method ''tasks.create'' [(''agentId'', JStr ''dev''), (''text'', JStr ''fix it'')],
      Method ''tasks.cancel'' [(''taskId'', JStr ''t-0123456789'')]]"

lemma clients_take_daemon_steps_witness:
  "occupied (hub (dm_world (serve_all demo_handlers demo_calls demo_daemon))) \<le> 16"
proof -
  have "empty_db (db demo_start)" by (simp add: empty_db_def demo_start_def demo_defs)
  then have "reachable (dm_world demo_daemon)" by (simp add: demo_daemon_def first_start)
  then show ?thesis using clients_take_daemon_steps by blast
qed

section \<open>Settings\<close>

definition after_warning :: "string \<Rightarrow> daemon \<Rightarrow> daemon" where
  "after_warning m d = (if dm_warned d = m then d else d\<lparr>dm_warned := m, dm_out := dm_out d @ [Log m]\<rparr>)"

lemma warnOnce_apply: "warnOnce m d = (Inr (), after_warning m d)"
  by (simp add: warnOnce_def after_warning_def log_line_def put_out_def ret_def modify_def gets_def andthen_def)

lemma after_warning_world [simp]: "dm_world (after_warning m d) = dm_world d"
  by (simp add: after_warning_def)

lemma andthen_warn [simp]: "andthen (warnOnce m) f d = f () (after_warning m d)"
  by (simp add: andthen_def warnOnce_apply)

lemma andthen_warn_if [simp]: "andthen (when_do b (warnOnce m)) f d = f () (if b then after_warning m d else d)"
  by simp

text \<open>
  Whatever the settings file says, the daemon works with 1 to 16 cells, an
  approval timeout of one minute to twelve hours or the default, 1 to 3650 days of retention and one of
  the three runtimes (or the one it found connected); reading a setting never fails and changes nothing
  but the log.
\<close>

theorem settings_in_bounds:
  "(case maxCells_of num shown d of (Inr n, d') \<Rightarrow> 1 \<le> n \<and> n \<le> 16 \<and> dm_world d' = dm_world d | _ \<Rightarrow> False) \<and>
   (case approvalTimeoutS num d of
      (Inr t, d') \<Rightarrow> t \<in> insert None (Some ` {60..43200}) \<and> dm_world d' = dm_world d | _ \<Rightarrow> False) \<and>
   (case builderRuntime d of (Inr r, d') \<Rightarrow> r \<in> insert (dm_autoRuntime d) (set RUNTIMES) \<and> dm_world d' = dm_world d | _ \<Rightarrow> False) \<and>
   1 \<le> retentionDays num d \<and> retentionDays num d \<le> 3650"
proof -
  have bound: "1 \<le> nat (min (max k 1) 16) \<and> nat (min (max k 1) 16) \<le> 16" for k :: int
    by linarith
  have cells: "case maxCells_of num shown d of (Inr n, d') \<Rightarrow> 1 \<le> n \<and> n \<le> 16 \<and> dm_world d' = dm_world d | _ \<Rightarrow> False"
    using bound by (simp add: maxCells_of_def Let_def DEFAULT_MAX_CELLS_def CELL_CEILING_def split: option.split)
  have minutes: "60 \<le> nat \<lfloor>m\<rfloor> * 60 \<and> nat \<lfloor>m\<rfloor> * 60 \<le> 43200" if "1 \<le> m" "m \<le> 720" for m :: rat
  proof -
    have "1 \<le> \<lfloor>m\<rfloor>" "\<lfloor>m\<rfloor> \<le> 720" using that by (simp_all add: le_floor_iff floor_le_iff)
    then show ?thesis by linarith
  qed
  have timeout: "case approvalTimeoutS num d of
      (Inr t, d') \<Rightarrow> t \<in> insert None (Some ` {60..43200}) \<and> dm_world d' = dm_world d | _ \<Rightarrow> False"
    using minutes by (simp add: approvalTimeoutS_def Let_def image_iff split: option.split)
  have runtime: "case builderRuntime d of
      (Inr r, d') \<Rightarrow> r \<in> insert (dm_autoRuntime d) (set RUNTIMES) \<and> dm_world d' = dm_world d | _ \<Rightarrow> False"
    by (auto simp: builderRuntime_def p_enum_def str_where_def split: option.split bind_splits)
  have days: "1 \<le> retentionDays num d \<and> retentionDays num d \<le> 3650"
    by (auto simp: retentionDays_def nat_le_iff floor_le_iff le_nat_iff le_floor_iff split: option.split)
  show ?thesis using cells timeout runtime days by blast
qed

section \<open>Reset\<close>

text \<open>
  \<open>setup.reset\<close> counts the tasks, then asks for the VM's state, and then goes by that count: a task
  that starts meanwhile does not stop it.
\<close>

lemma closeCells_return: "\<exists>w'. each closeCell is w = (Inr (), w')"
proof (induction "is" arbitrary: w)
  case (Cons i "is")
  obtain w1 where w1: "closeCell i w = (Inr (), w1)" by (simp add: closeCell_def on_hub_def modify_def)
  show ?case using Cons.IH [of w1] by (simp add: andthen_def w1)
qed simp

lemma reset_misses_new_tasks: "fst (reset_close 0 d) = Inr ()"
proof -
  obtain w where "each closeCell (mkeys (h_cells (hub (dm_world d)))) (dm_world d) = (Inr (), w)"
    using closeCells_return by blast
  then show ?thesis
    by (simp add: reset_close_def on_world_def log_line_def put_out_def andthen_def gets_def modify_def)
qed

end
