(* ===== verification/Machines.thy ===== *)
theory Machines
  imports Prelude
begin

text \<open>
  \<^verbatim>\<open>packages/desktop/src/main/connections.ts\<close>: the desktop application's connections, one per machine,
  and the exclusive actions of \<^verbatim>\<open>server-setup.ts\<close> and \<^verbatim>\<open>upgrade.ts\<close>.  Opening a connection, its end and
  the timers are events.  An entry has a key, since a machine that is removed and added again is another
  entry; a client is its position among all that were opened.
\<close>

section \<open>State\<close>

datatype machine_status = Connecting | Connected | Errored | Disconnected | Needs_setup | Installing

record machine_state =
  ms_name :: string
  ms_label :: string
  ms_status :: machine_status
  ms_error :: "string option"
  ms_version :: "string option"
  ms_install :: "string option"

record machine_entry =
  en_key :: nat
  en_state :: machine_state
  en_generation :: nat
  en_client :: "nat option"
  en_retry :: "nat option"

text \<open>
  A client: for which entry and generation it was opened, whether it is open, and whether its close can
  still be reported.  A client may have ended before it was handed over; nothing is reported then.
\<close>

record machine_client =
  mc_target :: string
  mc_key :: nat
  mc_generation :: nat
  mc_open :: bool
  mc_reports :: bool

record open_attempt =
  oa_target :: string
  oa_key :: nat
  oa_generation :: nat
  oa_pending :: bool

record machines =
  mn_entries :: "(string, machine_entry) jsmap"
  mn_nextKey :: nat
  mn_attempts :: "open_attempt list"
  mn_clients :: "machine_client list"
  mn_timers :: "(nat \<times> string) list"
  mn_nextTimer :: nat
  mn_notified :: "(string \<times> string) list"

type_synonym 'a machine_op = "(machines, 'a) op"

definition no_machines :: machines where
  "no_machines = \<lparr>mn_entries = [], mn_nextKey = 0, mn_attempts = [], mn_clients = [], mn_timers = [],
     mn_nextTimer = 0, mn_notified = []\<rparr>"

definition plain_state :: "string \<Rightarrow> string \<Rightarrow> machine_status \<Rightarrow> string option \<Rightarrow> machine_state" where
  "plain_state name label st err =
     \<lparr>ms_name = name, ms_label = label, ms_status = st, ms_error = err, ms_version = None, ms_install = None\<rparr>"

section \<open>Entries\<close>

definition add_machine :: "string \<Rightarrow> string \<Rightarrow> unit machine_op" where
  "add_machine name target =
     modify (\<lambda>s. if mhas (mn_entries s) target then s
       else s\<lparr>mn_entries := mset_key target
                \<lparr>en_key = mn_nextKey s, en_state = plain_state target name Disconnected None, en_generation = 0,
                  en_client = None, en_retry = None\<rparr> (mn_entries s),
              mn_nextKey := mn_nextKey s + 1\<rparr>)"

definition machine_at :: "string \<Rightarrow> machine_entry machine_op" where
  "machine_at target =
     andthen (gets (\<lambda>s. mget (mn_entries s) target)) (\<lambda>e.
     case e of Some x \<Rightarrow> ret x | None \<Rightarrow> throw ''unknown machine: choose a saved machine'')"

definition put_entry :: "string \<Rightarrow> machine_entry \<Rightarrow> unit machine_op" where
  "put_entry target e = modify (\<lambda>s. s\<lparr>mn_entries := mset_key target e (mn_entries s)\<rparr>)"

definition close_client :: "nat option \<Rightarrow> machine_client list \<Rightarrow> machine_client list" where
  "close_client c cs =
     (case c of Some n \<Rightarrow> if n < length cs then cs[n := (cs ! n)\<lparr>mc_open := False\<rparr>] else cs | None \<Rightarrow> cs)"

definition clear_timer :: "nat option \<Rightarrow> (nat \<times> string) list \<Rightarrow> (nat \<times> string) list" where
  "clear_timer r ts = List.filter (\<lambda>(n, _). r \<noteq> Some n) ts"

text \<open>\<open>stop\<close>: the next generation, without a client or a retry.\<close>

definition stopped :: "machine_entry \<Rightarrow> machine_entry" where
  "stopped e = e\<lparr>en_generation := en_generation e + 1, en_client := None, en_retry := None\<rparr>"

definition stop_entry :: "string \<Rightarrow> machine_entry \<Rightarrow> machine_entry machine_op" where
  "stop_entry target e =
     andthen (modify (\<lambda>s. s\<lparr>mn_timers := clear_timer (en_retry e) (mn_timers s),
       mn_clients := close_client (en_client e) (mn_clients s)\<rparr>)) (\<lambda>_.
     andthen (put_entry target (stopped e)) (\<lambda>_.
     ret (stopped e)))"

definition current :: "string \<Rightarrow> nat \<Rightarrow> nat \<Rightarrow> machines \<Rightarrow> machine_entry option" where
  "current target key gen s =
     (case mget (mn_entries s) target of
        Some e \<Rightarrow> if en_key e = key \<and> en_generation e = gen then Some e else None
      | None \<Rightarrow> None)"

section \<open>Connecting\<close>

definition connect_machine :: "string \<Rightarrow> unit machine_op" where
  "connect_machine target =
     andthen (machine_at target) (\<lambda>e.
     if ms_status (en_state e) \<in> {Connected, Connecting, Installing} then ret ()
     else
       andthen (stop_entry target e) (\<lambda>e.
       andthen (put_entry target (e\<lparr>en_state := plain_state target (ms_label (en_state e)) Connecting None\<rparr>)) (\<lambda>_.
       modify (\<lambda>s. s\<lparr>mn_attempts := mn_attempts s @
         [\<lparr>oa_target = target, oa_key = en_key e, oa_generation = en_generation e, oa_pending = True\<rparr>]\<rparr>))))"

definition connect_failed :: "string \<Rightarrow> nat \<Rightarrow> nat \<Rightarrow> string \<Rightarrow> unit machine_op" where
  "connect_failed target key gen err =
     andthen (gets (current target key gen)) (\<lambda>found.
     case found of
       None \<Rightarrow> ret ()
     | Some e \<Rightarrow>
         andthen (gets mn_nextTimer) (\<lambda>n.
         andthen (put_entry target (e\<lparr>en_client := None,
           en_state := (en_state e)\<lparr>ms_status := Errored, ms_error := Some err\<rparr>, en_retry := Some n\<rparr>)) (\<lambda>_.
         modify (\<lambda>s. s\<lparr>mn_timers := mn_timers s @ [(n, target)], mn_nextTimer := n + 1\<rparr>))))"

definition setup_state :: "string \<Rightarrow> bool \<Rightarrow> string option \<Rightarrow> unit machine_op" where
  "setup_state target installing err =
     andthen (machine_at target) (\<lambda>e.
     andthen (stop_entry target e) (\<lambda>e.
     put_entry target (e\<lparr>en_state := plain_state target (ms_label (en_state e))
       (if installing then Installing else Needs_setup) (if err = Some [] then None else err)\<rparr>)))"

text \<open>The answer of \<open>open\<close>: what went wrong and whether the bridge is missing, or a client.\<close>

definition take_attempt :: "nat \<Rightarrow> open_attempt option machine_op" where
  "take_attempt n =
     andthen (gets (\<lambda>s. if n < length (mn_attempts s) \<and> oa_pending (mn_attempts s ! n) then Some (mn_attempts s ! n) else None))
       (\<lambda>found. case found of
          None \<Rightarrow> ret None
        | Some a \<Rightarrow>
            andthen (modify (\<lambda>s. s\<lparr>mn_attempts := (mn_attempts s)[n := a\<lparr>oa_pending := False\<rparr>]\<rparr>)) (\<lambda>_. ret (Some a)))"

definition open_refused :: "nat \<Rightarrow> bool \<Rightarrow> string \<Rightarrow> unit machine_op" where
  "open_refused n bridge_missing err =
     andthen (take_attempt n) (\<lambda>found.
     case found of
       None \<Rightarrow> ret ()
     | Some a \<Rightarrow>
         andthen (gets (current (oa_target a) (oa_key a) (oa_generation a))) (\<lambda>e.
         if e \<noteq> None \<and> bridge_missing then setup_state (oa_target a) False None
         else connect_failed (oa_target a) (oa_key a) (oa_generation a) err))"

definition daemon_version :: "string option \<Rightarrow> string option" where
  "daemon_version v =
     (case v of
        Some s \<Rightarrow>
          if length (split_on (CHR ''.'') s) = 3 \<and>
             list_all (\<lambda>p. 1 \<le> length p \<and> length p \<le> 9 \<and> list_all is_digit p) (split_on (CHR ''.'') s)
          then Some s else None
      | None \<Rightarrow> None)"

definition daemon_install :: "string option \<Rightarrow> string option" where
  "daemon_install v = (if v = Some ''release'' \<or> v = Some ''source'' then v else None)"

definition opened_client :: "nat \<Rightarrow> bool \<Rightarrow> string option \<Rightarrow> string option \<Rightarrow> unit machine_op" where
  "opened_client n alive version install =
     andthen (take_attempt n) (\<lambda>found.
     case found of
       None \<Rightarrow> ret ()
     | Some a \<Rightarrow>
         andthen (gets (current (oa_target a) (oa_key a) (oa_generation a))) (\<lambda>found.
         andthen (gets (\<lambda>s. length (mn_clients s))) (\<lambda>c.
         andthen (modify (\<lambda>s. s\<lparr>mn_clients := mn_clients s @
           [\<lparr>mc_target = oa_target a, mc_key = oa_key a, mc_generation = oa_generation a,
             mc_open = alive \<and> found \<noteq> None, mc_reports = alive \<and> found \<noteq> None\<rparr>]\<rparr>)) (\<lambda>_.
         case found of
           None \<Rightarrow> ret ()
         | Some e \<Rightarrow>
             put_entry (oa_target a) (e\<lparr>en_client := Some c,
               en_state := (en_state e)\<lparr>ms_status := Connected,
                 ms_version := (case daemon_version version of Some v \<Rightarrow> Some v | None \<Rightarrow> ms_version (en_state e)),
                 ms_install := (case daemon_install install of Some i \<Rightarrow> Some i | None \<Rightarrow> ms_install (en_state e))\<rparr>\<rparr>)))))"

definition client_of :: "nat \<Rightarrow> machines \<Rightarrow> machine_client option" where
  "client_of c s = (if c < length (mn_clients s) then Some (mn_clients s ! c) else None)"

text \<open>The end of a client, also of one that the application closed.\<close>

definition client_closed :: "nat \<Rightarrow> unit machine_op" where
  "client_closed c =
     andthen (gets (client_of c)) (\<lambda>found.
     case found of
       None \<Rightarrow> ret ()
     | Some x \<Rightarrow>
         if \<not> mc_reports x then ret ()
         else
           andthen (modify (\<lambda>s. s\<lparr>mn_clients := (mn_clients s)[c := x\<lparr>mc_open := False, mc_reports := False\<rparr>]\<rparr>)) (\<lambda>_.
           connect_failed (mc_target x) (mc_key x) (mc_generation x) ''connection to the daemon closed''))"

definition client_notifies :: "nat \<Rightarrow> string \<Rightarrow> unit machine_op" where
  "client_notifies c what =
     andthen (gets (\<lambda>s. case client_of c s of
         Some x \<Rightarrow> map_option (Pair x) (current (mc_target x) (mc_key x) (mc_generation x) s) | None \<Rightarrow> None)) (\<lambda>found.
     case found of
       Some (x, e) \<Rightarrow>
         when_do (en_client e = Some c) (modify (\<lambda>s. s\<lparr>mn_notified := mn_notified s @ [(mc_target x, what)]\<rparr>))
     | None \<Rightarrow> ret ())"

definition timer_fires :: "nat \<Rightarrow> unit machine_op" where
  "timer_fires n =
     andthen (gets (\<lambda>s. map_of (mn_timers s) n)) (\<lambda>found.
     case found of
       None \<Rightarrow> ret ()
     | Some target \<Rightarrow>
         andthen (modify (\<lambda>s. s\<lparr>mn_timers := clear_timer (Some n) (mn_timers s)\<rparr>)) (\<lambda>_. connect_machine target))"

definition disconnect_machine :: "string \<Rightarrow> unit machine_op" where
  "disconnect_machine target =
     andthen (machine_at target) (\<lambda>e.
     andthen (stop_entry target e) (\<lambda>e.
     put_entry target (e\<lparr>en_state := plain_state target (ms_label (en_state e)) Disconnected None\<rparr>)))"

definition remove_machine :: "string \<Rightarrow> unit machine_op" where
  "remove_machine target =
     andthen (machine_at target) (\<lambda>e.
     andthen (stop_entry target e) (\<lambda>_.
     modify (\<lambda>s. s\<lparr>mn_entries := mdelete target (mn_entries s)\<rparr>)))"

definition close_machines :: "unit machine_op" where
  "close_machines =
     andthen (gets (\<lambda>s. mkeys (mn_entries s))) (\<lambda>ts.
     andthen (each (\<lambda>t. andthen (machine_at t) (\<lambda>e. andthen (stop_entry t e) (\<lambda>_. ret ()))) ts) (\<lambda>_.
     modify (\<lambda>s. s\<lparr>mn_entries := []\<rparr>)))"

section \<open>Leases\<close>

text \<open>\<open>pin\<close> and \<open>lease\<close>: an action stays with the connection on which it started.\<close>

record lease =
  le_name :: string
  le_key :: nat
  le_generation :: nat
  le_client :: nat

definition pin :: "string \<Rightarrow> (string \<times> nat \<times> nat) machine_op" where
  "pin target = andthen (machine_at target) (\<lambda>e. ret (target, en_key e, en_generation e))"

definition check_pin :: "string \<times> nat \<times> nat \<Rightarrow> unit machine_op" where
  "check_pin p =
     (case p of (target, key, gen) \<Rightarrow>
        andthen (gets (current target key gen)) (\<lambda>e.
        require (e \<noteq> None) ''machine connection changed; review the action again''))"

definition take_lease :: "string \<Rightarrow> lease machine_op" where
  "take_lease target =
     andthen (machine_at target) (\<lambda>e.
     case en_client e of
       Some c \<Rightarrow>
         andthen (require (ms_status (en_state e) = Connected) (ms_label (en_state e) @ '': not connected'')) (\<lambda>_.
         ret \<lparr>le_name = ms_name (en_state e), le_key = en_key e, le_generation = en_generation e, le_client = c\<rparr>)
     | None \<Rightarrow> throw (ms_label (en_state e) @ '': not connected''))"

text \<open>The client that a read through the lease goes to.\<close>

definition lease_read :: "lease \<Rightarrow> nat machine_op" where
  "lease_read l =
     andthen (gets (current (le_name l) (le_key l) (le_generation l))) (\<lambda>e.
     andthen (require (case e of Some x \<Rightarrow> en_client x = Some (le_client l) | None \<Rightarrow> False)
       ''machine connection changed; review the action again'') (\<lambda>_.
     ret (le_client l)))"

section \<open>Exclusive actions\<close>

text \<open>
  \<open>ServerSetup.initialize\<close> enters the machine before its first wait, \<open>ServerUpgrade.upgrade\<close> only after
  the last question; both leave it at the end.
\<close>

definition initialize_begin :: "string list \<Rightarrow> string \<Rightarrow> (string list, unit) op" where
  "initialize_begin saved target =
     andthen (require (target \<in> set saved \<and> target \<noteq> ''local'') ''choose a saved remote machine'') (\<lambda>_.
     andthen (gets (\<lambda>running. target \<in> set running)) (\<lambda>there.
     andthen (require (\<not> there) ''initialization is already running'') (\<lambda>_.
     modify (\<lambda>running. running @ [target]))))"

definition upgrade_check :: "string \<Rightarrow> (string list, unit) op" where
  "upgrade_check target =
     andthen (gets (\<lambda>running. target \<in> set running)) (\<lambda>there.
     require (\<not> there) ''an upgrade is already running'')"

definition upgrade_begin :: "string \<Rightarrow> (string list, unit) op" where
  "upgrade_begin target = modify (\<lambda>running. if target \<in> set running then running else running @ [target])"

definition action_over :: "string \<Rightarrow> (string list, unit) op" where
  "action_over target = modify (removeAll target)"

end
