(* ===== verification/MachineFacts.thy ===== *)
theory MachineFacts
  imports Machines
begin

text \<open>
  The connections of the desktop application, however openings, ends, timers and the user interleave:
  no connection is left open beside the one a machine has, and an action never goes to another
  connection than the one it started on.
\<close>

section \<open>Runs\<close>

datatype machine_event =
  Add_machine string string
| Connect_machine string
| Open_refused nat bool string
| Opened_client nat bool "string option" "string option"
| Client_closed nat
| Client_notifies nat string
| Timer_fires nat
| Disconnect_machine string
| Setup_state string bool "string option"
| Remove_machine string
| Close_machines

fun machine_step :: "machines \<Rightarrow> machine_event \<Rightarrow> machines" where
  "machine_step s (Add_machine name t) = state_of (add_machine name t) s"
| "machine_step s (Connect_machine t) = state_of (connect_machine t) s"
| "machine_step s (Open_refused n b e) = state_of (open_refused n b e) s"
| "machine_step s (Opened_client n b v i) = state_of (opened_client n b v i) s"
| "machine_step s (Client_closed c) = state_of (client_closed c) s"
| "machine_step s (Client_notifies c x) = state_of (client_notifies c x) s"
| "machine_step s (Timer_fires n) = state_of (timer_fires n) s"
| "machine_step s (Disconnect_machine t) = state_of (disconnect_machine t) s"
| "machine_step s (Setup_state t b e) = state_of (setup_state t b e) s"
| "machine_step s (Remove_machine t) = state_of (remove_machine t) s"
| "machine_step s Close_machines = state_of close_machines s"

definition run_machines :: "machine_event list \<Rightarrow> machines" where
  "run_machines evs = foldl machine_step no_machines evs"

section \<open>The invariant\<close>

text \<open>Who belongs to an entry: its key, and a generation it has had.\<close>

definition of_entry :: "machines \<Rightarrow> string \<Rightarrow> nat \<Rightarrow> nat \<Rightarrow> bool" where
  "of_entry s t key gen \<longleftrightarrow>
     key < mn_nextKey s \<and>
     (\<forall>t' e. mget (mn_entries s) t' = Some e \<longrightarrow> en_key e = key \<longrightarrow> t' = t \<and> gen \<le> en_generation e)"

definition entry_ok :: "machines \<Rightarrow> string \<Rightarrow> machine_entry \<Rightarrow> bool" where
  "entry_ok s t e \<longleftrightarrow>
     of_entry s t (en_key e) (en_generation e) \<and> ms_name (en_state e) = t \<and>
     (case en_client e of
        Some c \<Rightarrow>
          ms_status (en_state e) = Connected \<and> c < length (mn_clients s) \<and> mc_target (mn_clients s ! c) = t \<and> mc_key (mn_clients s ! c) = en_key e \<and>
          mc_generation (mn_clients s ! c) = en_generation e
      | None \<Rightarrow> True) \<and>
     (case en_retry e of Some n \<Rightarrow> ms_status (en_state e) = Errored \<and> (n, t) \<in> set (mn_timers s) | None \<Rightarrow> True)"

definition client_ok :: "machines \<Rightarrow> nat \<Rightarrow> machine_client \<Rightarrow> bool" where
  "client_ok s c x \<longleftrightarrow>
     of_entry s (mc_target x) (mc_key x) (mc_generation x) \<and> (mc_open x \<longrightarrow> mc_reports x) \<and>
     (mc_reports x \<longrightarrow> (case current (mc_target x) (mc_key x) (mc_generation x) s of
        Some e \<Rightarrow> mc_open x \<and> en_client e = Some c | None \<Rightarrow> \<not> mc_open x))"

definition attempt_fine :: "machines \<Rightarrow> open_attempt \<Rightarrow> bool" where
  "attempt_fine s a \<longleftrightarrow>
     of_entry s (oa_target a) (oa_key a) (oa_generation a) \<and>
     (oa_pending a \<longrightarrow> (case current (oa_target a) (oa_key a) (oa_generation a) s of
        Some e \<Rightarrow> ms_status (en_state e) = Connecting \<and> en_client e = None \<and> en_retry e = None | None \<Rightarrow> True))"

definition timer_ok :: "machines \<Rightarrow> nat \<times> string \<Rightarrow> bool" where
  "timer_ok s x \<longleftrightarrow>
     fst x < mn_nextTimer s \<and>
     (case mget (mn_entries s) (snd x) of Some e \<Rightarrow> en_retry e = Some (fst x) | None \<Rightarrow> False)"

definition machines_ok :: "machines \<Rightarrow> bool" where
  "machines_ok s \<longleftrightarrow>
     (\<forall>t e. mget (mn_entries s) t = Some e \<longrightarrow> entry_ok s t e) \<and>
     (\<forall>c < length (mn_clients s). client_ok s c (mn_clients s ! c)) \<and>
     (\<forall>a\<in>set (mn_attempts s). attempt_fine s a) \<and>
     distinct (map (\<lambda>a. (oa_key a, oa_generation a)) (mn_attempts s)) \<and>
     (\<forall>x\<in>set (mn_timers s). timer_ok s x) \<and> distinct (map fst (mn_timers s))"

lemma current_iff:
  "current t key gen s = Some e \<longleftrightarrow> mget (mn_entries s) t = Some e \<and> en_key e = key \<and> en_generation e = gen"
  by (auto simp: current_def split: option.splits)

lemma current_None:
  "current t key gen s = None \<longleftrightarrow> (\<forall>e. mget (mn_entries s) t = Some e \<longrightarrow> \<not> (en_key e = key \<and> en_generation e = gen))"
  by (auto simp: current_def split: option.splits)

lemma current_cong: "mget (mn_entries s') t = mget (mn_entries s) t \<Longrightarrow> current t key gen s' = current t key gen s"
  by (simp add: current_def)

lemma of_entryD:
  assumes "of_entry s t key gen" and "mget (mn_entries s) t' = Some e" and "en_key e = key"
  shows "t' = t" and "gen \<le> en_generation e"
  using assms by (auto simp: of_entry_def)

lemma of_entry_mono:
  assumes "of_entry s t key gen" and "mn_nextKey s \<le> mn_nextKey s'"
    and "\<And>u e. mget (mn_entries s') u = Some e \<Longrightarrow>
      (\<exists>e0. mget (mn_entries s) u = Some e0 \<and> en_key e = en_key e0 \<and> en_generation e0 \<le> en_generation e) \<or>
      mn_nextKey s \<le> en_key e"
  shows "of_entry s' t key gen"
  unfolding of_entry_def
proof (intro conjI allI impI)
  show "key < mn_nextKey s'" using assms(1,2) by (simp add: of_entry_def)
next
  fix u e assume u: "mget (mn_entries s') u = Some e" "en_key e = key"
  have "key < mn_nextKey s" using assms(1) by (simp add: of_entry_def)
  then obtain e0 where e0: "mget (mn_entries s) u = Some e0" "en_key e0 = key" "en_generation e0 \<le> en_generation e"
    using assms(3) [OF u(1)] u(2) by auto
  then have "u = t \<and> gen \<le> en_generation e0" using assms(1) by (simp add: of_entry_def)
  then show "u = t" "gen \<le> en_generation e" using e0(3) by simp_all
qed

lemma machines_okD:
  assumes "machines_ok s"
  shows "mget (mn_entries s) t = Some e \<Longrightarrow> entry_ok s t e"
    and "c < length (mn_clients s) \<Longrightarrow> client_ok s c (mn_clients s ! c)"
    and "a \<in> set (mn_attempts s) \<Longrightarrow> attempt_fine s a"
    and "x \<in> set (mn_timers s) \<Longrightarrow> timer_ok s x"
    and "distinct (map (\<lambda>a. (oa_key a, oa_generation a)) (mn_attempts s))"
    and "distinct (map fst (mn_timers s))"
  using assms by (simp_all add: machines_ok_def)

lemma close_client_length [simp]: "length (close_client c cs) = length cs"
  by (simp add: close_client_def split: option.split)

lemma close_client_nth:
  "n < length cs \<Longrightarrow> close_client c cs ! n = (if c = Some n then (cs ! n)\<lparr>mc_open := False\<rparr> else cs ! n)"
  by (auto simp: close_client_def nth_list_update split: option.split)

lemma set_clear_timer: "set (clear_timer r ts) = {x \<in> set ts. r \<noteq> Some (fst x)}"
  by (auto simp: clear_timer_def)

section \<open>The parts of the operations\<close>

text \<open>What \<open>stop\<close> does to the rest, with the entry's next state or without the entry.\<close>

definition restarted :: "string \<Rightarrow> machine_entry \<Rightarrow> machine_entry option \<Rightarrow> machines \<Rightarrow> machines \<Rightarrow> bool" where
  "restarted t e new s s' \<longleftrightarrow>
     mget (mn_entries s) t = Some e \<and> mget (mn_entries s') = (mget (mn_entries s))(t := new) \<and>
     (new = None \<or> (\<exists>st. new = Some ((stopped e)\<lparr>en_state := st\<rparr>) \<and> ms_name st = t)) \<and>
     mn_clients s' = close_client (en_client e) (mn_clients s) \<and> mn_timers s' = clear_timer (en_retry e) (mn_timers s) \<and>
     mn_nextKey s' = mn_nextKey s \<and> mn_nextTimer s' = mn_nextTimer s \<and> mn_attempts s' = mn_attempts s"

lemma restartedD:
  assumes "restarted t e new s s'"
  shows "mget (mn_entries s) t = Some e" "mget (mn_entries s') = (mget (mn_entries s))(t := new)"
    "new = None \<or> (\<exists>st. new = Some ((stopped e)\<lparr>en_state := st\<rparr>) \<and> ms_name st = t)"
    "mn_clients s' = close_client (en_client e) (mn_clients s)" "mn_timers s' = clear_timer (en_retry e) (mn_timers s)"
    "mn_nextKey s' = mn_nextKey s" "mn_nextTimer s' = mn_nextTimer s" "mn_attempts s' = mn_attempts s"
  using assms by (simp_all add: restarted_def)

lemma restarted_entry:
  assumes "restarted t e new s s'" and "mget (mn_entries s') u = Some e'"
  shows "\<exists>e0. mget (mn_entries s) u = Some e0 \<and> en_key e' = en_key e0 \<and> en_generation e0 \<le> en_generation e'"
  using restartedD(1-3) [OF assms(1)] assms(2) by (cases "u = t") (auto simp: stopped_def)

lemma restarted_of_entry:
  assumes r: "restarted t e new s s'" and "of_entry s u k g"
  shows "of_entry s' u k g"
proof (rule of_entry_mono [OF assms(2)])
  show "mn_nextKey s \<le> mn_nextKey s'" by (simp add: restartedD(6) [OF r])
qed (use restarted_entry [OF r] in blast)

text \<open>Nothing that belonged to the entry is current any more; for the others nothing changes.\<close>

lemma restarted_gone:
  assumes r: "restarted t e new s s'" and "g \<le> en_generation e"
  shows "current t (en_key e) g s' = None"
  using restartedD(3) [OF r] assms(2) by (auto simp: current_None restartedD(2) [OF r] stopped_def)

lemma restarted_same: "restarted t e new s s' \<Longrightarrow> u \<noteq> t \<Longrightarrow> current u k g s' = current u k g s"
  by (simp add: current_def restartedD(2))

lemma restarted_none:
  assumes r: "restarted t e new s s'" and "of_entry s t k g"
  shows "current t k g s' = None"
proof (cases "en_key e = k")
  case True
  then have "g \<le> en_generation e" using assms(2) restartedD(1) [OF r] unfolding of_entry_def by blast
  then show ?thesis using restarted_gone [OF r] True by simp
next
  case False
  then show ?thesis using restartedD(3) [OF r] by (auto simp: current_None restartedD(2) [OF r] stopped_def)
qed

lemma restarted_own:
  assumes ok: "entry_ok s t e" and r: "restarted t e new s s'" and n: "new \<noteq> None"
  shows "of_entry s' t (en_key e) (Suc (en_generation e))"
  unfolding of_entry_def
proof (intro conjI allI impI)
  show "en_key e < mn_nextKey s'" using ok by (simp add: entry_ok_def of_entry_def restartedD(6) [OF r])
next
  fix u e' assume u: "mget (mn_entries s') u = Some e'" "en_key e' = en_key e"
  then obtain e0 where e0: "mget (mn_entries s) u = Some e0" "en_key e0 = en_key e" using restarted_entry [OF r u(1)] by auto
  then show "u = t" using ok by (simp add: entry_ok_def of_entry_def)
  then show "Suc (en_generation e) \<le> en_generation e'"
    using u(1) restartedD(3) [OF r] by (auto simp: restartedD(2) [OF r] stopped_def)
qed

lemma restarted_entry_ok:
  assumes ok: "machines_ok s" and r: "restarted t e new s s'" and u: "mget (mn_entries s') u = Some e'"
  shows "entry_ok s' u e'"
proof (cases "u = t")
  case True
  then show ?thesis
    using u restartedD(3) [OF r] restarted_own [OF machines_okD(1) [OF ok restartedD(1) [OF r]] r]
    by (auto simp: entry_ok_def restartedD(2) [OF r] stopped_def)
next
  case False
  then have u': "mget (mn_entries s) u = Some e'" using u by (simp add: restartedD(2) [OF r])
  have ok': "entry_ok s u e'" by (rule machines_okD(1) [OF ok u'])
  have here: "entry_ok s t e" by (rule machines_okD(1) [OF ok restartedD(1) [OF r]])
  have retry: "en_retry e \<noteq> Some n" if "en_retry e' = Some n" for n
  proof
    assume "en_retry e = Some n"
    then have "(n, t) \<in> set (mn_timers s)" "(n, u) \<in> set (mn_timers s)"
      using here ok' that by (simp_all add: entry_ok_def)
    then show False using machines_okD(6) [OF ok] False by (metis eq_key_imp_eq_value)
  qed
  have "of_entry s' u (en_key e') (en_generation e')" using ok' restarted_of_entry [OF r] by (simp add: entry_ok_def)
  then show ?thesis using ok' retry
    by (auto simp: entry_ok_def restartedD(4,5) [OF r] close_client_nth set_clear_timer split: option.splits)
qed

lemma restarted_client_ok:
  assumes ok: "machines_ok s" and r: "restarted t e new s s'" and c: "c < length (mn_clients s')"
  shows "client_ok s' c (mn_clients s' ! c)"
proof -
  let ?x = "mn_clients s ! c"
  let ?cur = "current (mc_target ?x) (mc_key ?x) (mc_generation ?x)"
  have c': "c < length (mn_clients s)" using c by (simp add: restartedD(4) [OF r])
  have okc: "client_ok s c ?x" by (rule machines_okD(2) [OF ok c'])
  then have of: "of_entry s (mc_target ?x) (mc_key ?x) (mc_generation ?x)" by (simp add: client_ok_def)
  have own: "of_entry s' (mc_target ?x) (mc_key ?x) (mc_generation ?x)" by (rule restarted_of_entry [OF r of])
  have here: "entry_ok s t e" by (rule machines_okD(1) [OF ok restartedD(1) [OF r]])
  consider "en_client e = Some c" | "en_client e \<noteq> Some c" "mc_target ?x = t" | "en_client e \<noteq> Some c" "mc_target ?x \<noteq> t"
    by blast
  then show ?thesis
  proof cases
    case 1
    then have "?cur s' = None" using here restarted_gone [OF r] by (simp add: entry_ok_def)
    then show ?thesis using okc own c' 1 by (simp add: client_ok_def restartedD(4) [OF r] close_client_nth)
  next
    case 2
    then have "?cur s' = None" using restarted_none [OF r] of by simp
    moreover have "\<not> mc_open ?x"
      using okc 2 restartedD(1) [OF r] by (auto simp: client_ok_def current_iff split: option.splits)
    ultimately show ?thesis using own okc c' 2(1) by (simp add: client_ok_def restartedD(4) [OF r] close_client_nth)
  next
    case 3
    then have "?cur s' = ?cur s" by (simp add: restarted_same [OF r])
    then show ?thesis using own okc c' 3(1) by (simp add: client_ok_def restartedD(4) [OF r] close_client_nth)
  qed
qed

lemma restarted_ok:
  assumes ok: "machines_ok s" and r: "restarted t e new s s'"
  shows "machines_ok s'"
  unfolding machines_ok_def
proof (intro conjI ballI allI impI)
  fix a assume "a \<in> set (mn_attempts s')"
  then have a: "attempt_fine s a" using machines_okD(3) [OF ok] by (simp add: restartedD(8) [OF r])
  then have "of_entry s (oa_target a) (oa_key a) (oa_generation a)" by (simp add: attempt_fine_def)
  then show "attempt_fine s' a"
    using a restarted_of_entry [OF r] restarted_none [OF r] restarted_same [OF r]
    by (cases "oa_target a = t") (simp_all add: attempt_fine_def)
next
  show "distinct (map (\<lambda>a. (oa_key a, oa_generation a)) (mn_attempts s'))"
    using machines_okD(5) [OF ok] by (simp add: restartedD(8) [OF r])
  show "distinct (map fst (mn_timers s'))"
    using machines_okD(6) [OF ok] by (simp add: restartedD(5) [OF r] clear_timer_def distinct_map_filter)
next
  fix x assume "x \<in> set (mn_timers s')"
  then have "timer_ok s x" "en_retry e \<noteq> Some (fst x)"
    using machines_okD(4) [OF ok] by (auto simp: restartedD(5) [OF r] set_clear_timer)
  then show "timer_ok s' x"
    using restartedD(1) [OF r] by (auto simp: timer_ok_def restartedD(2,7) [OF r] split: option.splits if_splits)
qed (fact restarted_entry_ok [OF ok r], fact restarted_client_ok [OF ok r])

lemma restart_ok:
  assumes "machines_ok s" and "mget (mn_entries s) t = Some e"
    and "mget (mn_entries s') = (mget (mn_entries s))(t := new)"
    and "new = None \<or> (\<exists>st. new = Some ((stopped e)\<lparr>en_state := st\<rparr>) \<and> ms_name st = t)"
    and "mn_clients s' = close_client (en_client e) (mn_clients s)"
      "mn_timers s' = clear_timer (en_retry e) (mn_timers s)" "mn_nextKey s' = mn_nextKey s"
      "mn_nextTimer s' = mn_nextTimer s" "mn_attempts s' = mn_attempts s"
  shows "machines_ok s'"
  using restarted_ok [OF assms(1)] assms(2-9) by (simp add: restarted_def)

text \<open>Another state of one entry, of the same generation: only what belongs to it has to be looked at.\<close>

definition refreshed :: "string \<Rightarrow> machine_entry \<Rightarrow> machine_entry \<Rightarrow> machines \<Rightarrow> machines \<Rightarrow> bool" where
  "refreshed t e e' s s' \<longleftrightarrow>
     mget (mn_entries s) t = Some e \<and> mget (mn_entries s') = (mget (mn_entries s))(t \<mapsto> e') \<and>
     en_key e' = en_key e \<and> en_generation e' = en_generation e \<and> mn_nextKey s' = mn_nextKey s"

lemma refreshed_of_entry:
  assumes "refreshed t e e' s s'" and "of_entry s u k g"
  shows "of_entry s' u k g"
  by (rule of_entry_mono [OF assms(2)]) (use assms(1) in \<open>auto simp: refreshed_def split: if_splits\<close>)

lemma refreshed_same:
  "refreshed t e e' s s' \<Longrightarrow> u \<noteq> t \<or> k \<noteq> en_key e \<or> g \<noteq> en_generation e \<Longrightarrow> current u k g s' = current u k g s"
  by (cases "u = t") (auto simp: current_def refreshed_def)

lemma refreshed_other_entry:
  assumes r: "refreshed t e e' s s'" and ok: "entry_ok s u e1"
    and clients: "length (mn_clients s) \<le> length (mn_clients s')"
      "\<And>c. c < length (mn_clients s) \<Longrightarrow> mn_clients s' ! c = mn_clients s ! c"
    and timers: "set (mn_timers s) \<subseteq> set (mn_timers s')"
  shows "entry_ok s' u e1"
proof -
  have "of_entry s' u (en_key e1) (en_generation e1)" using ok refreshed_of_entry [OF r] by (simp add: entry_ok_def)
  moreover have "c < length (mn_clients s) \<Longrightarrow> c < length (mn_clients s')" for c using clients(1) by simp
  ultimately show ?thesis using ok timers by (auto simp: entry_ok_def clients(2) split: option.splits)
qed

lemma refreshed_other_client:
  assumes r: "refreshed t e e' s s'" and ok: "client_ok s c x"
    and "\<not> (mc_target x = t \<and> mc_key x = en_key e \<and> mc_generation x = en_generation e)"
  shows "client_ok s' c x"
proof -
  have "current (mc_target x) (mc_key x) (mc_generation x) s' = current (mc_target x) (mc_key x) (mc_generation x) s"
    by (rule refreshed_same [OF r]) (use assms(3) in blast)
  then show ?thesis using ok refreshed_of_entry [OF r] by (simp add: client_ok_def)
qed

lemma refreshed_attempt:
  assumes r: "refreshed t e e' s s'" and ok: "attempt_fine s a"
    and "oa_pending a \<Longrightarrow> oa_key a = en_key e \<Longrightarrow> oa_generation a \<noteq> en_generation e"
  shows "attempt_fine s' a"
proof -
  have "current (oa_target a) (oa_key a) (oa_generation a) s' = current (oa_target a) (oa_key a) (oa_generation a) s"
    if "oa_pending a" by (rule refreshed_same [OF r]) (use assms(3) that in blast)
  then show ?thesis using ok refreshed_of_entry [OF r] by (auto simp: attempt_fine_def)
qed

lemma refresh_ok:
  assumes ok: "machines_ok s" and e: "mget (mn_entries s) t = Some e"
    and new: "mget (mn_entries s') = (mget (mn_entries s))(t \<mapsto> e')" "en_key e' = en_key e" "en_generation e' = en_generation e"
    and rest: "mn_nextKey s' = mn_nextKey s" "mn_nextTimer s \<le> mn_nextTimer s'" "mn_attempts s' = mn_attempts s"
      "length (mn_clients s) \<le> length (mn_clients s')"
      "\<And>c. c < length (mn_clients s) \<Longrightarrow> mn_clients s' ! c = mn_clients s ! c"
      "set (mn_timers s) \<subseteq> set (mn_timers s')" "distinct (map fst (mn_timers s'))"
      "\<And>x. x \<in> set (mn_timers s') \<Longrightarrow> x \<in> set (mn_timers s) \<and> snd x \<noteq> t \<or> timer_ok s' x"
    and own: "of_entry s' t (en_key e) (en_generation e) \<Longrightarrow> entry_ok s' t e'"
    and clients: "\<And>c. of_entry s' t (en_key e) (en_generation e) \<Longrightarrow> c < length (mn_clients s') \<Longrightarrow>
      c \<ge> length (mn_clients s) \<or>
      mc_target (mn_clients s ! c) = t \<and> mc_key (mn_clients s ! c) = en_key e \<and> mc_generation (mn_clients s ! c) = en_generation e \<Longrightarrow>
      client_ok s' c (mn_clients s' ! c)"
    and attempts: "\<And>a. a \<in> set (mn_attempts s) \<Longrightarrow> oa_pending a \<Longrightarrow> oa_key a = en_key e \<Longrightarrow> oa_generation a \<noteq> en_generation e"
  shows "machines_ok s'"
proof -
  have r: "refreshed t e e' s s'" using e new rest(1) by (simp add: refreshed_def)
  have here: "of_entry s' t (en_key e) (en_generation e)"
    using machines_okD(1) [OF ok e] refreshed_of_entry [OF r] by (simp add: entry_ok_def)
  show ?thesis unfolding machines_ok_def
  proof (intro conjI ballI allI impI)
    fix u e1 assume u: "mget (mn_entries s') u = Some e1"
    show "entry_ok s' u e1"
    proof (cases "u = t")
      case False
      then show ?thesis using refreshed_other_entry [OF r machines_okD(1) [OF ok] rest(4-6)] u by (simp add: new)
    qed (use own [OF here] u in \<open>simp add: new\<close>)
  next
    fix c assume c: "c < length (mn_clients s')"
    show "client_ok s' c (mn_clients s' ! c)"
      using clients [OF here c] refreshed_other_client [OF r machines_okD(2) [OF ok, of c]] rest(5) [of c]
      by (cases "c < length (mn_clients s)") auto
  next
    fix a assume "a \<in> set (mn_attempts s')"
    then have a: "a \<in> set (mn_attempts s)" by (simp add: rest)
    show "attempt_fine s' a" by (rule refreshed_attempt [OF r machines_okD(3) [OF ok a] attempts [OF a]])
  next
    show "distinct (map (\<lambda>a. (oa_key a, oa_generation a)) (mn_attempts s'))" using machines_okD(5) [OF ok] by (simp add: rest)
    show "distinct (map fst (mn_timers s'))" by (rule rest(7))
  next
    fix x assume "x \<in> set (mn_timers s')"
    then consider "timer_ok s' x" | "x \<in> set (mn_timers s)" "snd x \<noteq> t" using rest(8) by blast
    then show "timer_ok s' x"
    proof cases
      case 2
      then have "timer_ok s x" using machines_okD(4) [OF ok] by simp
      then show ?thesis using 2 rest(2) by (auto simp: timer_ok_def new split: option.splits)
    qed simp
  qed
qed

lemma attempts_frame:
  "entry_ok (s\<lparr>mn_attempts := x\<rparr>) = entry_ok s" "client_ok (s\<lparr>mn_attempts := x\<rparr>) = client_ok s"
  "timer_ok (s\<lparr>mn_attempts := x\<rparr>) = timer_ok s" "attempt_fine (s\<lparr>mn_attempts := x\<rparr>) = attempt_fine s"
  by (simp_all add: fun_eq_iff entry_ok_def client_ok_def timer_ok_def attempt_fine_def of_entry_def current_def
      cong: option.case_cong)

lemma notified_frame: "machines_ok (s\<lparr>mn_notified := x\<rparr>) = machines_ok s"
  by (simp add: machines_ok_def entry_ok_def client_ok_def timer_ok_def attempt_fine_def of_entry_def current_def
      cong: option.case_cong)

section \<open>The operations\<close>

lemmas machine_simps = state_of_def machine_at_def put_entry_def stop_entry_def andthen_def gets_def modify_def ret_def throw_def

lemma stopped_simps [simp]:
  "en_key (stopped e) = en_key e" "en_generation (stopped e) = Suc (en_generation e)" "en_client (stopped e) = None"
  "en_retry (stopped e) = None" "en_state (stopped e) = en_state e"
  by (simp_all add: stopped_def)

lemma machine_state_name [simp]: "ms_name (plain_state t l st err) = t"
  "ms_status (plain_state t l st err) = st"
  by (simp_all add: plain_state_def)

lemma stop_ok:
  assumes "machines_ok s" and "mget (mn_entries s) t = Some e"
  shows "machines_ok (snd (stop_entry t e s))"
proof (rule restart_ok [OF assms, of _ "Some (stopped e)"])
  show "Some (stopped e) = None \<or> (\<exists>st. Some (stopped e) = Some ((stopped e)\<lparr>en_state := st\<rparr>) \<and> ms_name st = t)"
    using machines_okD(1) [OF assms] by (intro disjI2 exI [of _ "en_state e"]) (simp add: entry_ok_def stopped_def)
qed (simp_all add: machine_simps update_conv')

text \<open>\<open>stop\<close>, then a new plain state.\<close>

lemma restart_state_ok:
  assumes "machines_ok s" and "mget (mn_entries s) t = Some e" and "\<And>x. ms_name (st x) = t"
  shows "machines_ok (snd (andthen (stop_entry t e) (\<lambda>e. put_entry t (e\<lparr>en_state := st e\<rparr>)) s))"
proof (rule restart_ok [OF assms(1,2), of _ "Some ((stopped e)\<lparr>en_state := st (stopped e)\<rparr>)"])
  show "Some ((stopped e)\<lparr>en_state := st (stopped e)\<rparr>) = None \<or>
      (\<exists>st'. Some ((stopped e)\<lparr>en_state := st (stopped e)\<rparr>) = Some ((stopped e)\<lparr>en_state := st'\<rparr>) \<and> ms_name st' = t)"
    using assms(3) by blast
qed (simp_all add: machine_simps update_conv' fun_eq_iff)

lemma machine_at_cases:
  "machine_at t s = (case mget (mn_entries s) t of Some e \<Rightarrow> (Inr e, s)
     | None \<Rightarrow> (Inl (Error ''unknown machine: choose a saved machine''), s))"
  by (simp add: machine_simps split: option.split)

lemma at_machine_ok:
  assumes "machines_ok s" and "\<And>e. mget (mn_entries s) t = Some e \<Longrightarrow> machines_ok (snd (f e s))"
  shows "machines_ok (snd (andthen (machine_at t) f s))"
  using assms by (cases "mget (mn_entries s) t") (simp_all add: andthen_def machine_at_cases)

lemma disconnect_machine_ok: "machines_ok s \<Longrightarrow> machines_ok (snd (disconnect_machine t s))"
  unfolding disconnect_machine_def
  by (rule at_machine_ok, assumption, rule restart_state_ok) simp_all

lemma setup_state_ok: "machines_ok s \<Longrightarrow> machines_ok (snd (setup_state t b err s))"
  unfolding setup_state_def
  by (rule at_machine_ok, assumption, rule restart_state_ok) simp_all

lemma remove_machine_ok:
  assumes "machines_ok s"
  shows "machines_ok (snd (remove_machine t s))"
  unfolding remove_machine_def
proof (rule at_machine_ok [OF assms])
  fix e assume e: "mget (mn_entries s) t = Some e"
  show "machines_ok (snd (andthen (stop_entry t e) (\<lambda>_. modify (\<lambda>s. s\<lparr>mn_entries := mdelete t (mn_entries s)\<rparr>)) s))"
    by (rule restart_ok [OF assms e, of _ None]) (auto simp: machine_simps update_conv' delete_conv' fun_eq_iff)
qed

lemma connect_machine_ok:
  assumes ok: "machines_ok s"
  shows "machines_ok (snd (connect_machine t s))"
  unfolding connect_machine_def
proof (rule at_machine_ok [OF ok])
  fix e assume e: "mget (mn_entries s) t = Some e"
  define st where "st = plain_state t (ms_label (en_state e)) Connecting None"
  define s1 where "s1 = snd (andthen (stop_entry t e) (\<lambda>e. put_entry t (e\<lparr>en_state := st\<rparr>)) s)"
  define a where "a = \<lparr>oa_target = t, oa_key = en_key e, oa_generation = Suc (en_generation e), oa_pending = True\<rparr>"
  let ?e = "(stopped e)\<lparr>en_state := st\<rparr>"
  let ?s2 = "s1\<lparr>mn_attempts := mn_attempts s1 @ [a]\<rparr>"
  have s1: "machines_ok s1" unfolding s1_def by (rule restart_state_ok [OF ok e]) (simp add: st_def)
  have att: "mn_attempts s1 = mn_attempts s" by (simp add: s1_def machine_simps)
  have e1: "mget (mn_entries s1) t = Some ?e" by (simp add: s1_def machine_simps update_conv')
  have same: "entry_ok ?s2 = entry_ok s1" "client_ok ?s2 = client_ok s1" "timer_ok ?s2 = timer_ok s1"
    "attempt_fine ?s2 = attempt_fine s1"
    by (simp_all add: attempts_frame)
  have own: "of_entry s1 t (en_key e) (Suc (en_generation e))"
    using machines_okD(1) [OF s1 e1] by (simp add: entry_ok_def)
  have cur: "current t (en_key e) (Suc (en_generation e)) s1 = Some ?e"
    using e1 by (simp add: current_iff)
  have fresh: "oa_generation b \<noteq> Suc (en_generation e)" if b: "b \<in> set (mn_attempts s)" "oa_key b = en_key e" for b
  proof -
    have "of_entry s (oa_target b) (oa_key b) (oa_generation b)"
      using machines_okD(3) [OF ok b(1)] by (simp add: attempt_fine_def)
    then have "oa_generation b \<le> en_generation e" using of_entryD(2) [OF _ e] b(2) by metis
    then show ?thesis by simp
  qed
  have fine: "attempt_fine s1 a" using own cur by (simp add: attempt_fine_def a_def st_def)
  have new: "(en_key e, Suc (en_generation e)) \<notin> (\<lambda>a. (oa_key a, oa_generation a)) ` set (mn_attempts s)"
  proof
    assume "(en_key e, Suc (en_generation e)) \<in> (\<lambda>a. (oa_key a, oa_generation a)) ` set (mn_attempts s)"
    then obtain b where "b \<in> set (mn_attempts s)" "oa_key b = en_key e" "oa_generation b = Suc (en_generation e)" by auto
    then show False using fresh by simp
  qed
  have "distinct (map (\<lambda>a. (oa_key a, oa_generation a)) (mn_attempts s @ [a]))"
    using machines_okD(5) [OF ok] new by (simp add: a_def)
  then have "machines_ok ?s2"
    using s1 fine unfolding machines_ok_def same by (auto simp: att)
  moreover have "snd (andthen (stop_entry t e) (\<lambda>e.
        andthen (put_entry t (e\<lparr>en_state := plain_state t (ms_label (en_state e)) Connecting None\<rparr>)) (\<lambda>_.
        modify (\<lambda>s. s\<lparr>mn_attempts := mn_attempts s @
          [\<lparr>oa_target = t, oa_key = en_key e, oa_generation = en_generation e, oa_pending = True\<rparr>]\<rparr>))) s) = ?s2"
    by (simp add: s1_def st_def a_def machine_simps)
  ultimately show "machines_ok (snd ((if ms_status (en_state e) \<in> {Connected, Connecting, Installing} then ret ()
      else andthen (stop_entry t e) (\<lambda>e.
        andthen (put_entry t (e\<lparr>en_state := plain_state t (ms_label (en_state e)) Connecting None\<rparr>)) (\<lambda>_.
        modify (\<lambda>s. s\<lparr>mn_attempts := mn_attempts s @
          [\<lparr>oa_target = t, oa_key = en_key e, oa_generation = en_generation e, oa_pending = True\<rparr>]\<rparr>)))) s))"
    using ok by simp
qed

text \<open>A failure: no client of the entry is left that could report, and no attempt.\<close>

lemma connect_failed_ok:
  assumes ok: "machines_ok s"
    and e: "\<And>e. current t key gen s = Some e \<Longrightarrow> en_retry e = None"
    and clients: "\<And>c e. current t key gen s = Some e \<Longrightarrow> c < length (mn_clients s) \<Longrightarrow>
      mc_target (mn_clients s ! c) = t \<Longrightarrow> mc_key (mn_clients s ! c) = key \<Longrightarrow> mc_generation (mn_clients s ! c) = gen \<Longrightarrow>
      \<not> mc_reports (mn_clients s ! c)"
    and attempts: "\<And>a e. current t key gen s = Some e \<Longrightarrow> a \<in> set (mn_attempts s) \<Longrightarrow> oa_pending a \<Longrightarrow> oa_key a = key \<Longrightarrow>
      oa_generation a \<noteq> gen"
  shows "machines_ok (snd (connect_failed t key gen err s))"
proof (cases "current t key gen s")
  case None
  then show ?thesis using ok by (simp add: connect_failed_def andthen_def gets_def)
next
  case (Some e0)
  then have e0: "mget (mn_entries s) t = Some e0" "en_key e0 = key" "en_generation e0 = gen" by (simp_all add: current_iff)
  let ?e = "e0\<lparr>en_client := None, en_state := (en_state e0)\<lparr>ms_status := Errored, ms_error := Some err\<rparr>, en_retry := Some (mn_nextTimer s)\<rparr>"
  define s' where "s' = s\<lparr>mn_entries := mset_key t ?e (mn_entries s), mn_timers := mn_timers s @ [(mn_nextTimer s, t)],
    mn_nextTimer := mn_nextTimer s + 1\<rparr>"
  have s': "snd (connect_failed t key gen err s) = s'"
    using Some by (simp add: connect_failed_def machine_simps s'_def)
  have none: "(n, t) \<notin> set (mn_timers s)" for n
    using machines_okD(4) [OF ok, of "(n, t)"] e [OF Some] e0(1) by (auto simp: timer_ok_def)
  have old: "n < mn_nextTimer s" if "(n, u) \<in> set (mn_timers s)" for n u
    using machines_okD(4) [OF ok that] by (simp add: timer_ok_def)
  have "machines_ok s'"
  proof (rule refresh_ok [OF ok e0(1), of _ ?e])
    show "distinct (map fst (mn_timers s'))"
      using machines_okD(6) [OF ok] old by (force simp: s'_def)
    show "x \<in> set (mn_timers s) \<and> snd x \<noteq> t \<or> timer_ok s' x" if x: "x \<in> set (mn_timers s')" for x
    proof -
      consider "x \<in> set (mn_timers s)" | "x = (mn_nextTimer s, t)" using x by (auto simp: s'_def)
      then show ?thesis using none [of "fst x"] by cases (auto simp: s'_def timer_ok_def update_conv')
    qed
    show "entry_ok s' t ?e" if "of_entry s' t (en_key e0) (en_generation e0)"
      using that machines_okD(1) [OF ok e0(1)] by (simp add: entry_ok_def s'_def)
    show "client_ok s' c (mn_clients s' ! c)"
      if "of_entry s' t (en_key e0) (en_generation e0)" "c < length (mn_clients s')"
        "c \<ge> length (mn_clients s) \<or> mc_target (mn_clients s ! c) = t \<and> mc_key (mn_clients s ! c) = en_key e0 \<and>
          mc_generation (mn_clients s ! c) = en_generation e0" for c
    proof -
      have c: "c < length (mn_clients s)" using that(2) by (simp add: s'_def)
      then have r: "\<not> mc_reports (mn_clients s ! c)" using clients [OF Some c] that(3) e0 by auto
      then show ?thesis using machines_okD(2) [OF ok c] that c e0 by (auto simp: client_ok_def s'_def)
    qed
    show "oa_generation a \<noteq> en_generation e0" if "a \<in> set (mn_attempts s)" "oa_pending a" "oa_key a = en_key e0" for a
      using attempts [OF Some that(1,2)] that(3) e0 by simp
  qed (auto simp: s'_def update_conv')
  then show ?thesis by (simp add: s')
qed

lemma take_attempt_cases:
  assumes ok: "machines_ok s"
  obtains "take_attempt n s = (Inr None, s)"
  | a s1 where "take_attempt n s = (Inr (Some a), s1)" and "machines_ok s1" and "mn_entries s1 = mn_entries s"
      and "mn_clients s1 = mn_clients s" and "mn_timers s1 = mn_timers s" and "attempt_fine s1 a" and "oa_pending a"
      and "\<And>b. b \<in> set (mn_attempts s1) \<Longrightarrow> oa_pending b \<Longrightarrow> oa_key b = oa_key a \<Longrightarrow> oa_generation b \<noteq> oa_generation a"
proof (cases "n < length (mn_attempts s) \<and> oa_pending (mn_attempts s ! n)")
  case False
  then have "take_attempt n s = (Inr None, s)" by (simp add: take_attempt_def machine_simps)
  then show thesis by (rule that(1))
next
  case True
  let ?a = "mn_attempts s ! n" let ?b = "?a\<lparr>oa_pending := False\<rparr>"
  let ?as = "(mn_attempts s)[n := ?b]"
  let ?s1 = "s\<lparr>mn_attempts := ?as\<rparr>"
  have a: "attempt_fine s ?a" using machines_okD(3) [OF ok] True by simp
  have keys: "map (\<lambda>a. (oa_key a, oa_generation a)) ?as = map (\<lambda>a. (oa_key a, oa_generation a)) (mn_attempts s)"
    using True by (auto simp: map_update list_update_same_conv)
  have d: "distinct (map (\<lambda>a. (oa_key a, oa_generation a)) ?as)" using machines_okD(5) [OF ok] by (simp only: keys)
  have fine: "attempt_fine s b" if "b \<in> set ?as" for b
    using that a machines_okD(3) [OF ok] set_update_subset_insert [of "mn_attempts s" n ?b] by (auto simp: attempt_fine_def)
  have "machines_ok ?s1"
    using ok fine d unfolding machines_ok_def attempts_frame by simp
  moreover have "oa_generation b \<noteq> oa_generation ?a"
    if b: "b \<in> set (mn_attempts ?s1)" "oa_pending b" "oa_key b = oa_key ?a" for b
  proof
    assume g: "oa_generation b = oa_generation ?a"
    obtain m where m: "m < length ?as" "?as ! m = b" using b(1) by (auto simp: in_set_conv_nth)
    have "map (\<lambda>a. (oa_key a, oa_generation a)) ?as ! m = map (\<lambda>a. (oa_key a, oa_generation a)) ?as ! n"
      using m b(3) g True by simp
    then have "m = n" using d m True by (simp only: nth_eq_iff_index_eq length_map length_list_update)
    then have "b = ?b" using m True by simp
    then show False using b(2) by simp
  qed
  moreover have "take_attempt n s = (Inr (Some ?a), ?s1)" using True by (simp add: take_attempt_def machine_simps)
  ultimately show thesis using that(2) a True by (simp add: attempts_frame)
qed

lemma andthen_take:
  "take_attempt n s = (Inr x, s1) \<Longrightarrow> snd (andthen (take_attempt n) f s) = snd (f x s1)"
  by (simp add: andthen_def)

lemma attempt_current:
  assumes "attempt_fine s a" and "oa_pending a" and "current (oa_target a) (oa_key a) (oa_generation a) s = Some e"
  shows "ms_status (en_state e) = Connecting" and "en_client e = None" and "en_retry e = None"
  using assms by (simp_all add: attempt_fine_def)

text \<open>An entry without a client has none that could report.\<close>

lemma no_reports:
  assumes "machines_ok s" and "current t key gen s = Some e" and "en_client e \<noteq> Some c" and "c < length (mn_clients s)"
    and "mc_target (mn_clients s ! c) = t" "mc_key (mn_clients s ! c) = key" "mc_generation (mn_clients s ! c) = gen"
  shows "\<not> mc_reports (mn_clients s ! c)"
  using machines_okD(2) [OF assms(1,4)] assms(2,3,5-7) by (auto simp: client_ok_def)

lemma open_refused_ok:
  assumes "machines_ok s"
  shows "machines_ok (snd (open_refused n b err s))"
  using assms
proof (cases rule: take_attempt_cases [where n = n])
  case 1
  then show ?thesis using assms by (simp add: open_refused_def andthen_def)
next
  case (2 a s1)
  have failed: "machines_ok (snd (connect_failed (oa_target a) (oa_key a) (oa_generation a) err s1))"
  proof (rule connect_failed_ok [OF 2(2)])
    show "en_retry e = None" if "current (oa_target a) (oa_key a) (oa_generation a) s1 = Some e" for e
      using attempt_current(3) [OF 2(6,7)] that by simp
    show "\<not> mc_reports (mn_clients s1 ! c)"
      if "current (oa_target a) (oa_key a) (oa_generation a) s1 = Some e" "c < length (mn_clients s1)"
        "mc_target (mn_clients s1 ! c) = oa_target a" "mc_key (mn_clients s1 ! c) = oa_key a"
        "mc_generation (mn_clients s1 ! c) = oa_generation a" for c e
      using no_reports [OF 2(2) that(1) _ that(2-5)] attempt_current(2) [OF 2(6,7)] that(1) by simp
  qed (use 2(8) in blast)
  show ?thesis
    unfolding open_refused_def andthen_take [OF 2(1)]
    using failed setup_state_ok [OF 2(2)] by simp
qed

text \<open>A client nobody holds.\<close>

lemma add_closed_ok:
  assumes ok: "machines_ok s" and x: "of_entry s (mc_target x) (mc_key x) (mc_generation x)" "\<not> mc_open x" "\<not> mc_reports x"
  shows "machines_ok (s\<lparr>mn_clients := mn_clients s @ [x]\<rparr>)"
proof -
  let ?s = "s\<lparr>mn_clients := mn_clients s @ [x]\<rparr>"
  have same: "of_entry ?s = of_entry s" "current t k g ?s = current t k g s" "timer_ok ?s = timer_ok s" "attempt_fine ?s = attempt_fine s" for t k g
    by (simp_all add: fun_eq_iff of_entry_def current_def timer_ok_def attempt_fine_def cong: option.case_cong)
  have "entry_ok ?s t e" if "entry_ok s t e" for t e
    using that by (auto simp: entry_ok_def same nth_append split: option.splits)
  moreover have "client_ok ?s c (mn_clients ?s ! c)" if "c < length (mn_clients ?s)" for c
    using that machines_okD(2) [OF ok, of c] x by (cases "c = length (mn_clients s)") (simp_all add: client_ok_def same nth_append)
  ultimately show ?thesis using ok by (simp add: machines_ok_def same)
qed

lemma opened_client_ok:
  assumes "machines_ok s"
  shows "machines_ok (snd (opened_client n alive v i s))"
  using assms
proof (cases rule: take_attempt_cases [where n = n])
  case 1
  then show ?thesis using assms by (simp add: opened_client_def andthen_def)
next
  case (2 a s1)
  let ?t = "oa_target a" let ?k = "oa_key a" let ?g = "oa_generation a"
  let ?x = "\<lambda>b. \<lparr>mc_target = ?t, mc_key = ?k, mc_generation = ?g, mc_open = b, mc_reports = b\<rparr>"
  have own: "of_entry s1 ?t ?k ?g" using 2(6) by (simp add: attempt_fine_def)
  show ?thesis
  proof (cases "current ?t ?k ?g s1")
    case None
    have "snd (opened_client n alive v i s) = s1\<lparr>mn_clients := mn_clients s1 @ [?x False]\<rparr>"
      unfolding opened_client_def andthen_take [OF 2(1)] by (simp add: None machine_simps)
    then show ?thesis using add_closed_ok [OF 2(2), of "?x False"] own by simp
  next
    case (Some e)
    then have e: "mget (mn_entries s1) ?t = Some e" "en_key e = ?k" "en_generation e = ?g" by (simp_all add: current_iff)
    note idle = attempt_current [OF 2(6,7) Some]
    let ?c = "length (mn_clients s1)"
    define st where "st = (en_state e)\<lparr>ms_status := Connected,
      ms_version := (case daemon_version v of Some v \<Rightarrow> Some v | None \<Rightarrow> ms_version (en_state e)),
      ms_install := (case daemon_install i of Some i \<Rightarrow> Some i | None \<Rightarrow> ms_install (en_state e))\<rparr>"
    let ?e = "e\<lparr>en_client := Some ?c, en_state := st\<rparr>"
    define s' where "s' = s1\<lparr>mn_clients := mn_clients s1 @ [?x alive], mn_entries := mset_key ?t ?e (mn_entries s1)\<rparr>"
    have eq: "snd (opened_client n alive v i s) = s'"
      unfolding opened_client_def andthen_take [OF 2(1)] by (simp add: Some machine_simps s'_def st_def)
    have "machines_ok s'"
    proof (rule refresh_ok [OF 2(2) e(1), of _ ?e])
      show "entry_ok s' ?t ?e" if "of_entry s' ?t (en_key e) (en_generation e)"
        using that machines_okD(1) [OF 2(2) e(1)] idle e by (simp add: entry_ok_def s'_def st_def)
      show "client_ok s' c (mn_clients s' ! c)"
        if o: "of_entry s' ?t (en_key e) (en_generation e)" and c: "c < length (mn_clients s')"
          "c \<ge> length (mn_clients s1) \<or> mc_target (mn_clients s1 ! c) = ?t \<and> mc_key (mn_clients s1 ! c) = en_key e \<and>
            mc_generation (mn_clients s1 ! c) = en_generation e" for c
      proof (cases "c = ?c")
        case True
        then show ?thesis using o e by (simp add: client_ok_def s'_def current_def update_conv')
      next
        case False
        then have c': "c < length (mn_clients s1)" using c(1) by (simp add: s'_def)
        then have "\<not> mc_reports (mn_clients s1 ! c)"
          using no_reports [OF 2(2) Some _ c'] idle c(2) e by simp
        then show ?thesis using machines_okD(2) [OF 2(2) c'] c' c(2) o e by (auto simp: client_ok_def s'_def nth_append)
      qed
      show "oa_generation b \<noteq> en_generation e" if "b \<in> set (mn_attempts s1)" "oa_pending b" "oa_key b = en_key e" for b
        using 2(8) that e by simp
      show "x \<in> set (mn_timers s1) \<and> snd x \<noteq> ?t \<or> timer_ok s' x" if "x \<in> set (mn_timers s')" for x
        using machines_okD(4) [OF 2(2), of x] that idle e by (auto simp: timer_ok_def s'_def)
      show "distinct (map fst (mn_timers s'))" using machines_okD(6) [OF 2(2)] by (simp add: s'_def)
    qed (auto simp: s'_def update_conv' nth_append)
    then show ?thesis by (simp add: eq)
  qed
qed

lemma close_unreported_ok:
  assumes ok: "machines_ok s" and c: "c < length (mn_clients s)"
    and x: "x = (mn_clients s ! c)\<lparr>mc_open := False, mc_reports := False\<rparr>"
  shows "machines_ok (s\<lparr>mn_clients := (mn_clients s)[c := x]\<rparr>)"
proof -
  let ?s = "s\<lparr>mn_clients := (mn_clients s)[c := x]\<rparr>"
  have same: "of_entry ?s = of_entry s" "current t k g ?s = current t k g s" "timer_ok ?s = timer_ok s" "attempt_fine ?s = attempt_fine s" for t k g
    by (simp_all add: fun_eq_iff of_entry_def current_def timer_ok_def attempt_fine_def cong: option.case_cong)
  have parts: "mc_target x = mc_target (mn_clients s ! c)" "mc_key x = mc_key (mn_clients s ! c)"
    "mc_generation x = mc_generation (mn_clients s ! c)" "\<not> mc_open x" "\<not> mc_reports x"
    by (simp_all add: x)
  have "entry_ok ?s t e" if "entry_ok s t e" for t e
    using that c by (auto simp: entry_ok_def same nth_list_update parts split: option.splits)
  moreover have "client_ok ?s d (mn_clients ?s ! d)" if "d < length (mn_clients ?s)" for d
    using that machines_okD(2) [OF ok, of d] c by (cases "d = c") (simp_all add: client_ok_def same parts)
  ultimately show ?thesis using ok by (simp add: machines_ok_def same)
qed

lemma client_closed_ok:
  assumes ok: "machines_ok s"
  shows "machines_ok (snd (client_closed c s))"
proof (cases "c < length (mn_clients s) \<and> mc_reports (mn_clients s ! c)")
  case False
  then show ?thesis using ok by (auto simp: client_closed_def client_of_def machine_simps)
next
  case True
  let ?x = "mn_clients s ! c"
  let ?t = "mc_target ?x" let ?k = "mc_key ?x" let ?g = "mc_generation ?x"
  define s1 where "s1 = s\<lparr>mn_clients := (mn_clients s)[c := ?x\<lparr>mc_open := False, mc_reports := False\<rparr>]\<rparr>"
  have s1: "machines_ok s1" unfolding s1_def using True by (intro close_unreported_ok [OF ok]) simp_all
  have cur: "current ?t ?k ?g s1 = current ?t ?k ?g s" by (rule current_cong) (simp add: s1_def)
  have held: "en_client e = Some c" if "current ?t ?k ?g s = Some e" for e
    using machines_okD(2) [OF ok, of c] True that by (simp add: client_ok_def)
  have "machines_ok (snd (connect_failed ?t ?k ?g ''connection to the daemon closed'' s1))"
  proof (rule connect_failed_ok [OF s1])
    show "en_retry e = None" if "current ?t ?k ?g s1 = Some e" for e
      using held [of e] machines_okD(1) [OF ok, of ?t e] that unfolding cur
      by (auto simp: entry_ok_def current_iff split: option.splits)
    show "\<not> mc_reports (mn_clients s1 ! d)"
      if "current ?t ?k ?g s1 = Some e" "d < length (mn_clients s1)" "mc_target (mn_clients s1 ! d) = ?t"
        "mc_key (mn_clients s1 ! d) = ?k" "mc_generation (mn_clients s1 ! d) = ?g" for d e
    proof (cases "d = c")
      case True
      then show ?thesis using \<open>c < length (mn_clients s) \<and> mc_reports ?x\<close> by (simp add: s1_def)
    next
      case False
      then show ?thesis using no_reports [OF s1 that(1) _ that(2-5)] held that(1) cur by simp
    qed
    show "oa_generation a \<noteq> ?g"
      if e: "current ?t ?k ?g s1 = Some e" and a: "a \<in> set (mn_attempts s1)" "oa_pending a" "oa_key a = ?k" for a e
    proof
      assume g: "oa_generation a = ?g"
      have fine: "attempt_fine s1 a" by (rule machines_okD(3) [OF s1 a(1)])
      then have "of_entry s1 (oa_target a) ?k ?g" by (simp add: attempt_fine_def a(3) g)
      then have "?t = oa_target a" using e by (auto simp: current_iff dest: of_entryD(1))
      then have "en_client e = None" using attempt_current(2) [OF fine a(2)] e a(3) g by simp
      then show False using held e cur by simp
    qed
  qed
  moreover have "snd (client_closed c s) = snd (connect_failed ?t ?k ?g ''connection to the daemon closed'' s1)"
    using True by (simp add: client_closed_def client_of_def s1_def)
  ultimately show ?thesis by simp
qed

lemma client_notifies_ok: "machines_ok s \<Longrightarrow> machines_ok (snd (client_notifies c what s))"
  by (auto simp: client_notifies_def machine_simps when_do_def notified_frame split: option.split prod.split)

lemma timer_fires_ok:
  assumes ok: "machines_ok s"
  shows "machines_ok (snd (timer_fires n s))"
proof (cases "map_of (mn_timers s) n")
  case None
  then show ?thesis using ok by (simp add: timer_fires_def machine_simps)
next
  case (Some t)
  then have m: "(n, t) \<in> set (mn_timers s)" by (rule map_of_SomeD)
  then obtain e where e: "mget (mn_entries s) t = Some e" "en_retry e = Some n"
    using machines_okD(4) [OF ok m] by (auto simp: timer_ok_def split: option.splits)
  have "ms_status (en_state e) = Errored" using machines_okD(1) [OF ok e(1)] e(2) by (simp add: entry_ok_def)
  then have "snd (timer_fires n s) = snd (connect_machine t s)"
    using Some e by (simp add: timer_fires_def connect_machine_def machine_simps clear_timer_def)
  then show ?thesis using connect_machine_ok [OF ok] by simp
qed

lemma add_machine_ok:
  assumes ok: "machines_ok s"
  shows "machines_ok (snd (add_machine name t s))"
proof (cases "mhas (mn_entries s) t")
  case True
  then show ?thesis using ok by (simp add: add_machine_def modify_def)
next
  case False
  let ?e = "\<lparr>en_key = mn_nextKey s, en_state = plain_state t name Disconnected None, en_generation = 0, en_client = None, en_retry = None\<rparr>"
  define s' where "s' = s\<lparr>mn_entries := mset_key t ?e (mn_entries s), mn_nextKey := mn_nextKey s + 1\<rparr>"
  have eq: "snd (add_machine name t s) = s'" using False by (simp add: add_machine_def modify_def s'_def)
  have ent: "mget (mn_entries s') = (mget (mn_entries s))(t \<mapsto> ?e)" by (simp add: s'_def update_conv')
  have old: "en_key e < mn_nextKey s" if "mget (mn_entries s) u = Some e" for u e
    using machines_okD(1) [OF ok that] by (simp add: entry_ok_def of_entry_def)
  have mono: "of_entry s' u k g" if "of_entry s u k g" for u k g
    by (rule of_entry_mono [OF that]) (auto simp: s'_def update_conv' split: if_splits)
  have same: "current u k g s' = current u k g s" if "of_entry s u k g" for u k g
    using that False by (cases "u = t") (auto simp: current_def ent of_entry_def)
  have "machines_ok s'" unfolding machines_ok_def
  proof (intro conjI ballI allI impI)
    fix u e assume u: "mget (mn_entries s') u = Some e"
    show "entry_ok s' u e"
    proof (cases "u = t")
      case True
      then have "e = ?e" using u by (simp add: ent)
      moreover have "of_entry s' t (mn_nextKey s) 0"
        unfolding of_entry_def
      proof (intro conjI allI impI)
        show "mn_nextKey s < mn_nextKey s'" by (simp add: s'_def)
      next
        fix u' e' assume "mget (mn_entries s') u' = Some e'" "en_key e' = mn_nextKey s"
        then show "u' = t" using old [of u' e'] by (cases "u' = t") (simp_all add: ent)
      qed simp
      ultimately show ?thesis using True by (simp add: entry_ok_def)
    next
      case False
      then have "entry_ok s u e" using machines_okD(1) [OF ok] u by (simp add: ent)
      then show ?thesis using mono by (auto simp: entry_ok_def s'_def split: option.splits)
    qed
  next
    fix c assume "c < length (mn_clients s')"
    then have "client_ok s c (mn_clients s ! c)" using machines_okD(2) [OF ok] by (simp add: s'_def)
    moreover have "mn_clients s' = mn_clients s" by (simp add: s'_def)
    ultimately show "client_ok s' c (mn_clients s' ! c)"
      using mono [of "mc_target (mn_clients s ! c)"] same [of "mc_target (mn_clients s ! c)"] by (simp add: client_ok_def)
  next
    fix a assume "a \<in> set (mn_attempts s')"
    then have "attempt_fine s a" using machines_okD(3) [OF ok] by (simp add: s'_def)
    then show "attempt_fine s' a" using mono same by (simp add: attempt_fine_def)
  next
    show "distinct (map (\<lambda>a. (oa_key a, oa_generation a)) (mn_attempts s'))" "distinct (map fst (mn_timers s'))"
      using machines_okD(5,6) [OF ok] by (simp_all add: s'_def)
  next
    fix x assume "x \<in> set (mn_timers s')"
    then have "timer_ok s x" using machines_okD(4) [OF ok] by (simp add: s'_def)
    moreover have "mn_nextTimer s' = mn_nextTimer s" by (simp add: s'_def)
    ultimately show "timer_ok s' x" using False by (cases "snd x = t") (auto simp: timer_ok_def ent)
  qed
  then show ?thesis by (simp add: eq)
qed

text \<open>Closing: every entry is stopped, and then there is none.\<close>

definition close_one :: "string \<Rightarrow> unit machine_op" where
  "close_one t = andthen (machine_at t) (\<lambda>e. andthen (stop_entry t e) (\<lambda>_. ret ()))"

definition idle_at :: "machines \<Rightarrow> string \<Rightarrow> bool" where
  "idle_at s t \<longleftrightarrow> (case mget (mn_entries s) t of Some e \<Rightarrow> en_client e = None \<and> en_retry e = None | None \<Rightarrow> True)"

lemma close_one_ok: "machines_ok s \<Longrightarrow> machines_ok (snd (close_one t s))"
  unfolding close_one_def
  by (rule at_machine_ok) (simp_all add: andthen_def stop_ok split: prod.split sum.split, metis snd_conv stop_ok)

lemma close_one_simps:
  assumes "mhas (mn_entries s) t"
  shows "fst (close_one t s) = Inr ()" "mhas (mn_entries (snd (close_one t s))) u = mhas (mn_entries s) u"
    "idle_at (snd (close_one t s)) u = (u = t \<or> idle_at s u)"
  using assms by (auto simp: close_one_def machine_simps idle_at_def update_conv' split: if_splits)

definition closing :: "string list \<Rightarrow> machines \<Rightarrow> machines" where
  "closing ts s = foldl (\<lambda>s t. snd (close_one t s)) s ts"

lemma closing_has: "(\<And>t. t \<in> set ts \<Longrightarrow> mhas (mn_entries s) t) \<Longrightarrow> mhas (mn_entries (closing ts s)) u = mhas (mn_entries s) u"
proof (induction ts arbitrary: s)
  case (Cons t ts)
  have t: "mhas (mn_entries s) t" by (rule Cons.prems) simp
  have "mhas (mn_entries (closing ts (snd (close_one t s)))) u = mhas (mn_entries (snd (close_one t s))) u"
    by (rule Cons.IH, unfold close_one_simps(2) [OF t], rule Cons.prems) simp
  then show ?case unfolding close_one_simps(2) [OF t] by (simp add: closing_def)
qed (simp add: closing_def)

lemma closing_each: "(\<And>t. t \<in> set ts \<Longrightarrow> mhas (mn_entries s) t) \<Longrightarrow> each close_one ts s = (Inr (), closing ts s)"
proof (induction ts arbitrary: s)
  case (Cons t ts)
  have t: "mhas (mn_entries s) t" by (rule Cons.prems) simp
  have "each close_one ts (snd (close_one t s)) = (Inr (), closing ts (snd (close_one t s)))"
    by (rule Cons.IH, unfold close_one_simps(2) [OF t], rule Cons.prems) simp
  moreover have "closing (t # ts) s = closing ts (snd (close_one t s))" by (simp add: closing_def)
  moreover obtain s1 where "close_one t s = (Inr (), s1)" using close_one_simps(1) [OF t] by (cases "close_one t s") simp
  ultimately show ?case by (simp add: andthen_def)
qed (simp add: ret_def closing_def)

lemma closing_ok: "machines_ok s \<Longrightarrow> machines_ok (closing ts s)"
  by (induction ts arbitrary: s) (simp_all add: closing_def close_one_ok)

lemma closing_idle:
  "(\<And>t. t \<in> set ts \<Longrightarrow> mhas (mn_entries s) t) \<Longrightarrow> idle_at (closing ts s) u = (u \<in> set ts \<or> idle_at s u)"
proof (induction ts arbitrary: s)
  case (Cons t ts)
  have t: "mhas (mn_entries s) t" by (rule Cons.prems) simp
  have "idle_at (closing ts (snd (close_one t s))) u = (u \<in> set ts \<or> idle_at (snd (close_one t s)) u)"
    by (rule Cons.IH, unfold close_one_simps(2) [OF t], rule Cons.prems) simp
  then show ?case by (auto simp: closing_def close_one_simps(3) [OF t])
qed (simp add: closing_def)

lemma close_machines_eq:
  "close_machines = andthen (gets (\<lambda>s. mkeys (mn_entries s))) (\<lambda>ts.
     andthen (each close_one ts) (\<lambda>_. modify (\<lambda>s. s\<lparr>mn_entries := []\<rparr>)))"
  unfolding close_machines_def close_one_def by (rule refl)

lemma close_machines_ok:
  assumes ok: "machines_ok s"
  shows "machines_ok (snd (close_machines s))"
proof -
  have has: "mhas (mn_entries s) t" if "t \<in> set (mkeys (mn_entries s))" for t
    using that by (simp add: map_of_eq_None_iff)
  define s' where "s' = closing (mkeys (mn_entries s)) s"
  have s': "each close_one (mkeys (mn_entries s)) s = (Inr (), s')" "machines_ok s'"
    unfolding s'_def by (rule closing_each, erule has) (rule closing_ok [OF ok])
  have in_s': "mhas (mn_entries s') u = mhas (mn_entries s) u" for u
    unfolding s'_def by (rule closing_has, erule has)
  have at_s': "idle_at s' u = (u \<in> set (mkeys (mn_entries s)) \<or> idle_at s u)" for u
    unfolding s'_def by (rule closing_idle, erule has)
  have idle: "idle_at s' u" for u
  proof (cases "u \<in> set (mkeys (mn_entries s))")
    case False
    then have "\<not> mhas (mn_entries s) u" by (simp add: map_of_eq_None_iff)
    then have "\<not> mhas (mn_entries s') u" unfolding in_s' .
    then show ?thesis by (simp add: idle_at_def)
  qed (simp add: at_s' del: set_map)
  let ?s = "s'\<lparr>mn_entries := []\<rparr>"
  have "mn_timers s' = []"
  proof (rule ccontr)
    assume "mn_timers s' \<noteq> []"
    then obtain x where "x \<in> set (mn_timers s')" by (cases "mn_timers s'") auto
    then have "timer_ok s' x" using machines_okD(4) [OF s'(2)] by simp
    then show False using idle [of "snd x"] by (auto simp: timer_ok_def idle_at_def split: option.splits)
  qed
  moreover have "client_ok ?s c (mn_clients ?s ! c)" if "c < length (mn_clients ?s)" for c
  proof -
    let ?x = "mn_clients s' ! c"
    have "client_ok s' c ?x" using machines_okD(2) [OF s'(2)] that by simp
    moreover have "en_client e = None" if "current (mc_target ?x) (mc_key ?x) (mc_generation ?x) s' = Some e" for e
      using that idle [of "mc_target ?x"] by (simp add: current_iff idle_at_def)
    ultimately show ?thesis by (auto simp: client_ok_def of_entry_def current_def split: option.splits)
  qed
  moreover have "attempt_fine ?s a" if "a \<in> set (mn_attempts ?s)" for a
    using machines_okD(3) [OF s'(2)] that by (simp add: attempt_fine_def of_entry_def current_def)
  ultimately have "machines_ok ?s"
    using machines_okD(5,6) [OF s'(2)] unfolding machines_ok_def by simp
  then show ?thesis using s'(1) by (simp add: close_machines_eq andthen_def gets_def modify_def)
qed

lemma machine_step_ok: "machines_ok s \<Longrightarrow> machines_ok (machine_step s ev)"
  by (cases ev) (simp_all add: state_of_def add_machine_ok connect_machine_ok open_refused_ok opened_client_ok
      client_closed_ok client_notifies_ok timer_fires_ok disconnect_machine_ok setup_state_ok remove_machine_ok close_machines_ok)

lemma machine_run_ok: "machines_ok s \<Longrightarrow> machines_ok (foldl machine_step s evs)"
  by (induction evs arbitrary: s) (simp_all add: machine_step_ok)

lemma no_machines_ok: "machines_ok no_machines"
  by (simp add: machines_ok_def no_machines_def)

end
