(* ===== verification/MachineRuns.thy ===== *)
theory MachineRuns
  imports MachineFacts
begin

text \<open>
  What holds of the desktop application's connections in every run: one open connection per machine at
  most, and an action that goes to the connection it started on or nowhere.
\<close>

section \<open>Generations only grow\<close>

definition grown :: "machines \<Rightarrow> machines \<Rightarrow> bool" where
  "grown s s' \<longleftrightarrow>
     mn_nextKey s \<le> mn_nextKey s' \<and>
     (\<forall>u e. mget (mn_entries s') u = Some e \<longrightarrow>
       (\<exists>e0. mget (mn_entries s) u = Some e0 \<and> en_key e = en_key e0 \<and> en_generation e0 \<le> en_generation e) \<or>
       mn_nextKey s \<le> en_key e)"

lemma grown_refl [simp]: "grown s s"
  by (auto simp: grown_def)

lemma grown_trans: "grown s s1 \<Longrightarrow> grown s1 s2 \<Longrightarrow> grown s s2"
  by (fastforce simp: grown_def)

lemma grown_frame: "mn_entries s' = mn_entries s \<Longrightarrow> mn_nextKey s' = mn_nextKey s \<Longrightarrow> grown s s'"
  by (auto simp: grown_def)

lemma grown_put:
  "mget (mn_entries s) t = Some e0 \<Longrightarrow> en_key e = en_key e0 \<Longrightarrow> en_generation e0 \<le> en_generation e \<Longrightarrow>
   mget (mn_entries s') = (mget (mn_entries s))(t \<mapsto> e) \<Longrightarrow> mn_nextKey s' = mn_nextKey s \<Longrightarrow> grown s s'"
  by (auto simp: grown_def)

lemma grown_of_entry: "grown s s' \<Longrightarrow> of_entry s t key gen \<Longrightarrow> of_entry s' t key gen"
  by (rule of_entry_mono) (auto simp: grown_def)

lemma grown_at:
  "(\<And>e. mget (mn_entries s) t = Some e \<Longrightarrow> grown s (snd (f e s))) \<Longrightarrow> grown s (snd (andthen (machine_at t) f s))"
  by (cases "mget (mn_entries s) t") (simp_all add: andthen_def machine_at_cases)

lemma add_grown: "grown s (snd (add_machine name t s))"
  by (auto simp: add_machine_def modify_def grown_def update_conv')

lemma stop_state_grown:
  assumes e: "mget (mn_entries s) t = Some e"
  shows "grown s (snd (andthen (stop_entry t e) (\<lambda>e. put_entry t (e\<lparr>en_state := st e\<rparr>)) s))"
  by (rule grown_put [OF e, where e = "(stopped e)\<lparr>en_state := st (stopped e)\<rparr>"])
    (simp_all add: machine_simps update_conv' fun_eq_iff)

lemma stop_grown:
  assumes e: "mget (mn_entries s) t = Some e"
  shows "grown s (snd (stop_entry t e s))"
  by (rule grown_put [OF e, where e = "stopped e"]) (simp_all add: machine_simps update_conv')

lemma disconnect_grown: "grown s (snd (disconnect_machine t s))"
  unfolding disconnect_machine_def by (rule grown_at) (rule stop_state_grown)

lemma setup_state_grown: "grown s (snd (setup_state t b err s))"
  unfolding setup_state_def by (rule grown_at) (rule stop_state_grown)

lemma connect_grown: "grown s (snd (connect_machine t s))"
  unfolding connect_machine_def
proof (rule grown_at)
  fix e assume e: "mget (mn_entries s) t = Some e"
  show "grown s (snd ((if ms_status (en_state e) \<in> {Connected, Connecting, Installing} then ret ()
      else andthen (stop_entry t e) (\<lambda>e.
        andthen (put_entry t (e\<lparr>en_state := plain_state t (ms_label (en_state e)) Connecting None\<rparr>)) (\<lambda>_.
        modify (\<lambda>s. s\<lparr>mn_attempts := mn_attempts s @
          [\<lparr>oa_target = t, oa_key = en_key e, oa_generation = en_generation e, oa_pending = True\<rparr>]\<rparr>)))) s))"
    by (rule grown_put [OF e, where e = "if ms_status (en_state e) \<in> {Connected, Connecting, Installing} then e
        else (stopped e)\<lparr>en_state := plain_state t (ms_label (en_state e)) Connecting None\<rparr>"])
      (auto simp: machine_simps update_conv' fun_eq_iff e)
qed

lemma failed_grown: "grown s (snd (connect_failed t key gen err s))"
proof (cases "current t key gen s")
  case (Some e)
  then have "mget (mn_entries s) t = Some e" by (simp add: current_iff)
  then show ?thesis
    by (rule grown_put) (simp_all add: connect_failed_def machine_simps update_conv' fun_eq_iff Some)
qed (simp add: connect_failed_def machine_simps)

lemma take_grown: "grown s (snd (take_attempt n s))"
  by (rule grown_frame) (simp_all add: take_attempt_def machine_simps)

lemma refused_grown: "grown s (snd (open_refused n b err s))"
proof -
  obtain r s1 where t: "take_attempt n s = (r, s1)" by (cases "take_attempt n s")
  then have "grown s s1" using take_grown [of s n] by simp
  moreover have "grown s1 (snd (open_refused n b err s))"
    by (simp add: open_refused_def andthen_def t gets_def ret_def setup_state_grown failed_grown split: sum.split option.split)
  ultimately show ?thesis by (rule grown_trans)
qed

lemma opened_grown: "grown s (snd (opened_client n alive v i s))"
proof -
  obtain r s1 where t: "take_attempt n s = (r, s1)" by (cases "take_attempt n s")
  then have g: "grown s s1" using take_grown [of s n] by simp
  show ?thesis
  proof (cases "\<exists>a e. r = Inr (Some a) \<and> current (oa_target a) (oa_key a) (oa_generation a) s1 = Some e")
    case True
    then obtain a e where r: "r = Inr (Some a)" "current (oa_target a) (oa_key a) (oa_generation a) s1 = Some e" by blast
    then have "mget (mn_entries s1) (oa_target a) = Some e" by (simp add: current_iff)
    then have "grown s1 (snd (opened_client n alive v i s))"
      by (rule grown_put) (simp_all add: opened_client_def t r machine_simps update_conv' fun_eq_iff)
    then show ?thesis using g by (rule grown_trans [rotated])
  next
    case False
    then have "grown s1 (snd (opened_client n alive v i s))"
      by (auto simp: opened_client_def andthen_def t gets_def ret_def modify_def intro: grown_frame split: sum.split option.split)
    then show ?thesis using g by (rule grown_trans [rotated])
  qed
qed

lemma closed_grown: "grown s (snd (client_closed c s))"
  by (auto simp: client_closed_def andthen_def gets_def ret_def modify_def intro: grown_trans [OF grown_frame failed_grown]
      split: option.split)

lemma timer_grown: "grown s (snd (timer_fires n s))"
  by (auto simp: timer_fires_def andthen_def gets_def ret_def modify_def intro: grown_trans [OF grown_frame connect_grown]
      split: option.split)

lemma notifies_grown: "grown s (snd (client_notifies c x s))"
  by (rule grown_frame) (auto simp: client_notifies_def machine_simps when_do_def split: option.split)

lemma remove_grown: "grown s (snd (remove_machine t s))"
  unfolding remove_machine_def
  by (rule grown_at) (auto simp: machine_simps grown_def update_conv' delete_conv' split: if_splits)

lemma close_grown: "grown s (snd (close_machines s))"
proof -
  have one: "grown s (snd (close_one t s))" for t s
    unfolding close_one_def
    by (rule grown_at, drule stop_grown) (auto simp: andthen_def ret_def split: prod.split sum.split)
  have "grown s (snd (each close_one ts s))" for s ts
  proof (induction ts arbitrary: s)
    case (Cons t ts)
    show ?case using one [of s t] Cons.IH by (auto simp: andthen_def intro: grown_trans split: prod.split sum.split)
  qed (simp add: ret_def)
  note all = this
  obtain r s1 where r: "each close_one (mkeys (mn_entries s)) s = (r, s1)" by (cases "each close_one (mkeys (mn_entries s)) s")
  then have "grown s s1" using all [of s "mkeys (mn_entries s)"] by simp
  moreover have "grown s1 (snd (close_machines s))"
    by (cases r) (simp_all add: close_machines_eq andthen_def gets_def modify_def r grown_def)
  ultimately show ?thesis by (rule grown_trans)
qed

lemma machine_step_grown: "grown s (machine_step s ev)"
  by (cases ev) (simp_all add: state_of_def add_grown connect_grown refused_grown opened_grown closed_grown notifies_grown
      timer_grown disconnect_grown setup_state_grown remove_grown close_grown)

lemma machine_run_grown: "grown s (foldl machine_step s evs)"
  by (induction evs arbitrary: s) (auto intro: grown_trans [OF machine_step_grown])

section \<open>One connection\<close>

definition open_clients :: "machines \<Rightarrow> nat list" where
  "open_clients s = List.filter (\<lambda>c. mc_open (mn_clients s ! c)) [0..<length (mn_clients s)]"

lemma run_ok: "machines_ok (run_machines evs)"
  unfolding run_machines_def by (rule machine_run_ok [OF no_machines_ok])

lemma open_client_held:
  assumes "machines_ok s" and "c \<in> set (open_clients s)"
  shows "\<exists>e. mget (mn_entries s) (mc_target (mn_clients s ! c)) = Some e \<and> en_client e = Some c \<and> ms_status (en_state e) = Connected"
proof -
  let ?x = "mn_clients s ! c"
  have c: "c < length (mn_clients s)" "mc_open ?x" using assms(2) by (simp_all add: open_clients_def)
  then obtain e where e: "current (mc_target ?x) (mc_key ?x) (mc_generation ?x) s = Some e" "en_client e = Some c"
    using machines_okD(2) [OF assms(1) c(1)] by (auto simp: client_ok_def split: option.splits)
  then have "mget (mn_entries s) (mc_target ?x) = Some e" by (simp add: current_iff)
  then show ?thesis using machines_okD(1) [OF assms(1)] e(2) by (fastforce simp: entry_ok_def)
qed

lemma timer_held:
  assumes "machines_ok s" and "(n, t) \<in> set (mn_timers s)"
  shows "\<exists>e. mget (mn_entries s) t = Some e \<and> en_retry e = Some n \<and> ms_status (en_state e) = Errored"
proof -
  obtain e where e: "mget (mn_entries s) t = Some e" "en_retry e = Some n"
    using machines_okD(4) [OF assms] by (auto simp: timer_ok_def split: option.splits)
  then show ?thesis using machines_okD(1) [OF assms(1) e(1)] by (simp add: entry_ok_def)
qed

text \<open>
  C39 (one_connection_each). However openings, ends, timers and the user interleave: every client that is open is the one its
  machine has, and the machine shows as connected; every timer that runs is the one retry of a machine
  in error.  No connection and no retry outlives the machine it was for.
\<close>

theorem one_connection_each:
  "let s = run_machines evs in
   list_all (\<lambda>c. case mget (mn_entries s) (mc_target (mn_clients s ! c)) of
       Some e \<Rightarrow> en_client e = Some c \<and> ms_status (en_state e) = Connected | None \<Rightarrow> False) (open_clients s) \<and>
   list_all (\<lambda>(n, t). case mget (mn_entries s) t of
       Some e \<Rightarrow> en_retry e = Some n \<and> ms_status (en_state e) = Errored | None \<Rightarrow> False) (mn_timers s)"
  unfolding Let_def list_all_iff
  using open_client_held [OF run_ok] timer_held [OF run_ok] by fastforce

section \<open>Leases\<close>

lemma leaseE:
  assumes "take_lease t s = (Inr l, s1)" and "machines_ok s"
  obtains e where "mget (mn_entries s) t = Some e" "en_client e = Some (le_client l)" "le_name l = t"
    "le_key l = en_key e" "le_generation l = en_generation e" "of_entry s t (le_key l) (le_generation l)"
proof -
  obtain e where e: "mget (mn_entries s) t = Some e" "take_lease t s = (Inr l, s1)"
    using assms(1) by (cases "mget (mn_entries s) t") (simp_all add: take_lease_def andthen_def machine_at_cases)
  have ok: "entry_ok s t e" by (rule machines_okD(1) [OF assms(2) e(1)])
  obtain c where "en_client e = Some c" "l = \<lparr>le_name = ms_name (en_state e), le_key = en_key e, le_generation = en_generation e, le_client = c\<rparr>"
    using e by (auto simp: take_lease_def andthen_def machine_at_cases require_def ret_def throw_def split: option.splits if_splits)
  then show thesis using that [OF e(1)] ok by (simp add: entry_ok_def)
qed

lemma lease_read_iff:
  "lease_read l s = (Inr c, s') \<longleftrightarrow>
     s' = s \<and> c = le_client l \<and> (\<exists>e. current (le_name l) (le_key l) (le_generation l) s = Some e \<and> en_client e = Some c)"
  by (auto simp: lease_read_def machine_simps require_def split: option.splits)

text \<open>Whatever stops a machine ends its generation.\<close>

lemma stopped_past:
  assumes ok: "machines_ok s" and e: "mget (mn_entries s) t = Some e"
    and ev: "ev \<in> {Disconnect_machine t, Remove_machine t, Setup_state t b err, Close_machines}"
  shows "of_entry (machine_step s ev) t (en_key e) (Suc (en_generation e))"
proof -
  have own: "of_entry s t (en_key e) (en_generation e)" using machines_okD(1) [OF ok e] by (simp add: entry_ok_def)
  then have own': "of_entry (machine_step s ev) t (en_key e) (en_generation e)" by (rule grown_of_entry [OF machine_step_grown])
  have closes: "mn_entries (snd (close_machines s)) = []"
    using closing_each [of "mkeys (mn_entries s)" s]
    by (auto simp: close_machines_eq andthen_def gets_def modify_def map_of_eq_None_iff)
  have "Suc (en_generation e) \<le> en_generation e'" if "mget (mn_entries (machine_step s ev)) t = Some e'" for e'
    using ev that e closes
    by (auto simp: disconnect_machine_def remove_machine_def setup_state_def machine_simps update_conv' delete_conv')
  then show ?thesis using own' unfolding of_entry_def by metis
qed

lemma past_lease:
  assumes "of_entry s t (le_key l) (Suc (le_generation l))"
  shows "fst (lease_read l s) = Inl (Error ''machine connection changed; review the action again'')"
proof -
  have "current (le_name l) (le_key l) (le_generation l) s = None"
    using assms by (fastforce simp: current_None of_entry_def)
  then show ?thesis by (simp add: lease_read_def machine_simps require_def)
qed

text \<open>
  C40 (lease_stays_on_its_connection). A lease that was taken of a machine reads, whatever happens in between, from the connection on which it
  was taken, while that is still the machine's connection, or it refuses; and once the machine was
  disconnected, removed, sent back to its installation or closed with the application it always refuses,
  also when the machine is connected or added again.
\<close>

theorem lease_stays_on_its_connection:
  "let s = run_machines before in
   case take_lease t s of
     (Inl _, _) \<Rightarrow> True
   | (Inr l, _) \<Rightarrow>
       (case lease_read l (foldl machine_step s later) of
          (Inl err, _) \<Rightarrow> err = Error ''machine connection changed; review the action again''
        | (Inr c, s') \<Rightarrow>
            c = le_client l \<and> mc_target (mn_clients s' ! c) = t \<and>
            (case mget (mn_entries s') t of
               Some e \<Rightarrow> en_client e = Some c \<and> ms_status (en_state e) = Connected | None \<Rightarrow> False)) \<and>
       list_all (\<lambda>ev. fst (lease_read l (foldl machine_step (machine_step s ev) later)) =
           Inl (Error ''machine connection changed; review the action again''))
         [Disconnect_machine t, Remove_machine t, Setup_state t installing err, Close_machines]"
proof -
  define s where "s = run_machines before"
  have ok: "machines_ok s" unfolding s_def by (rule run_ok)
  show ?thesis
  proof (cases "take_lease t s")
    case (Pair r s1)
    show ?thesis
    proof (cases r)
      case (Inr l)
      obtain e where e: "mget (mn_entries s) t = Some e" "le_name l = t" "le_key l = en_key e" "le_generation l = en_generation e"
        using leaseE [OF _ ok] Pair Inr by metis
      let ?s = "foldl machine_step s later"
      have "machines_ok ?s" by (rule machine_run_ok [OF ok])
      note ok_s = machines_okD(1) [OF this]
      have reads: "case lease_read l ?s of
          (Inl err, _) \<Rightarrow> err = Error ''machine connection changed; review the action again''
        | (Inr c, s') \<Rightarrow> c = le_client l \<and> mc_target (mn_clients s' ! c) = t \<and>
            (case mget (mn_entries s') t of Some e \<Rightarrow> en_client e = Some c \<and> ms_status (en_state e) = Connected | None \<Rightarrow> False)"
        using ok_s [of t] e(2)
        by (auto simp: lease_read_def machine_simps require_def current_iff entry_ok_def split: option.splits sum.splits)
      have dead: "fst (lease_read l (foldl machine_step (machine_step s ev) later)) =
          Inl (Error ''machine connection changed; review the action again'')"
        if "ev \<in> {Disconnect_machine t, Remove_machine t, Setup_state t installing err, Close_machines}" for ev
        by (rule past_lease [of _ t], rule grown_of_entry [OF machine_run_grown]) (use stopped_past [OF ok e(1) that] e in simp)
      have "list_all (\<lambda>ev. fst (lease_read l (foldl machine_step (machine_step s ev) later)) =
           Inl (Error ''machine connection changed; review the action again''))
         [Disconnect_machine t, Remove_machine t, Setup_state t installing err, Close_machines]"
        unfolding list_all_iff by (intro ballI dead) simp
      with reads show ?thesis
        unfolding s_def [symmetric] Let_def Pair Inr prod.case sum.case by (rule conjI)
    qed (simp add: Pair flip: s_def)
  qed
qed

section \<open>Two things that can happen\<close>

text \<open>
  The application asks a new connection for the daemon's status and listens for its end only afterwards:
  a connection that ends in between shows as connected, with nothing that would try again.
\<close>

lemma dead_connection_shows_connected:
  "let s = run_machines [Add_machine ''home'' ''h'', Connect_machine ''h'', Opened_client 0 False None None, Client_closed 0] in
   map (\<lambda>(t, e). (ms_status (en_state e), en_client e, en_retry e)) (mn_entries s) = [(Connected, Some 0, None)] \<and>
   open_clients s = [] \<and> mn_timers s = [] \<and> state_of (connect_machine ''h'') s = s"
  by code_simp

text \<open>Two upgrades of a machine, both asked about before one began.\<close>

lemma two_upgrades:
  "let (r1, s1) = upgrade_check ''h'' []; (r2, s2) = upgrade_check ''h'' s1;
       (r3, s3) = upgrade_begin ''h'' s2; (r4, s4) = upgrade_begin ''h'' s3; (_, s5) = action_over ''h'' s4 in
   [r1, r2, r3, r4] = [Inr (), Inr (), Inr (), Inr ()] \<and> fst (upgrade_check ''h'' s5) = Inr ()"
  by code_simp

text \<open>Of two initializations one is refused.\<close>

lemma one_initialization:
  "let (r1, s1) = initialize_begin [''h''] ''h'' []; (r2, _) = initialize_begin [''h''] ''h'' s1 in
   r1 = Inr () \<and> r2 = Inl (Error ''initialization is already running'')"
  by code_simp

end
