(* ===== verification/Guard.thy ===== *)
theory Guard
  imports Handlers PeerNet Sanitize
begin

text \<open>
  \<^verbatim>\<open>packages/desktop/src/main/bridge.ts\<close>: what the window of the desktop application may call, and what
  the application asks the user in a native dialog first.  The window is not trusted: methods and
  parameters are any JSON.  Reads of the daemon, questions and the call itself are recorded in the order
  in which they happen; the daemon's and the user's answers are given.
\<close>

section \<open>Values of the window\<close>

text \<open>\<open>undefined\<close> is \<open>None\<close>.  \<open>shown\<close> is \<open>String\<close>, \<open>js_prop\<close> reads a field, \<open>js_each\<close> goes through a list.\<close>

definition shown :: "json option \<Rightarrow> string" where
  "shown v = (case v of None \<Rightarrow> ''undefined'' | Some j \<Rightarrow> js_String j)"

definition js_prop :: "json option \<Rightarrow> string \<Rightarrow> json option result" where
  "js_prop v k =
     (case v of
        None \<Rightarrow> Inl (Error ''Cannot read properties of undefined'')
      | Some JNull \<Rightarrow> Inl (Error ''Cannot read properties of null'')
      | Some (JObj kvs) \<Rightarrow> Inr (map_of kvs k)
      | _ \<Rightarrow> Inr None)"

definition missing :: "json option \<Rightarrow> bool" where
  "missing v \<longleftrightarrow> v = None \<or> v = Some JNull"

definition js_each :: "json option \<Rightarrow> json list result" where
  "js_each v =
     (case v of
        None \<Rightarrow> Inr []
      | Some JNull \<Rightarrow> Inr []
      | Some (JArr xs) \<Rightarrow> Inr xs
      | Some (JStr s) \<Rightarrow> Inr (map (\<lambda>c. JStr [c]) s)
      | _ \<Rightarrow> Inl (Error ''not iterable''))"

text \<open>Whether an object counts as true; \<open>0\<close>, the empty text, \<open>false\<close> and \<open>null\<close> do not.\<close>

definition given :: "json option \<Rightarrow> bool" where
  "given v \<longleftrightarrow>
     (case v of None \<Rightarrow> False | Some JNull \<Rightarrow> False | Some (JBool b) \<Rightarrow> b | Some (JInt n) \<Rightarrow> n \<noteq> 0
      | Some (JStr s) \<Rightarrow> s \<noteq> [] | Some (JReal t) \<Rightarrow> t \<noteq> ''NaN'' | _ \<Rightarrow> True)"

section \<open>Calls\<close>

definition DESKTOP_METHODS :: "string list" where
  "DESKTOP_METHODS =
    [''daemon.status'', ''peers.configure'', ''peers.identity'', ''peers.directory'', ''peers.admit'',
     ''peers.remove'', ''agents.list'', ''agents.settings'', ''agents.createPreview'', ''team.nodes'',
     ''team.preview'', ''agents.update'', ''agents.deletePreview'', ''agents.delete'', ''tasks.create'',
     ''tasks.list'', ''tasks.search'', ''tasks.tree'', ''tasks.get'', ''tasks.send'', ''tasks.retry'',
     ''tasks.cancel'', ''tasks.audit'', ''tasks.events'', ''setup.status'', ''setup.importCodex'',
     ''setup.codexSignIn'', ''setup.codexSignInCancel'', ''setup.claudeSignIn'', ''setup.claudeSignInCode'',
     ''setup.claudeSignInCancel'', ''setup.importClaude'', ''setup.importHermes'', ''setup.prepare'',
     ''connectors.set'', ''connectors.remove'', ''builder.proposal'', ''builder.apply'', ''builder.discard'',
     ''approvals.list'', ''approvals.decide'', ''triggers.list'', ''skills.list'', ''skills.add'',
     ''skills.checkUpdate'', ''skills.update'', ''skills.remove'', ''usage.summary'', ''usage.quota'',
     ''services.setMode'', ''services.setToken'', ''services.disconnect'', ''services.xClient'',
     ''services.redditClient'', ''services.googleLogin'', ''services.xLogin'', ''services.redditLogin'']"

record guard_env =
  ge_net :: net_env
  ge_yaml :: "string \<Rightarrow> json result"

definition githubSource :: "guard_env \<Rightarrow> json option \<Rightarrow> bool" where
  "githubSource env v =
     (case v of
        Some (JStr s) \<Rightarrow>
          length s \<le> 500 \<and>
          (case ne_url (ge_net env) s of
             Some u \<Rightarrow> u_protocol u = ''https:'' \<and> u_hostname u = ''github.com'' \<and> u_username u = []
           | None \<Rightarrow> False)
      | _ \<Rightarrow> False)"

text \<open>The schemas of \<^verbatim>\<open>protocol/src/peers.ts\<close>, from JSON.\<close>

definition configJson :: "net_env \<Rightarrow> net_config parser" where
  "configJson env j = do {
     kvs \<leftarrow> strictObject [''label'', ''listen'', ''port'', ''address''] j;
     label \<leftarrow> needed kvs ''label'' p_string;
     listen \<leftarrow> needed kvs ''listen'' p_string;
     port \<leftarrow> needed kvs ''port'' (int_between 0 65535);
     address \<leftarrow> needed kvs ''address'' p_string;
     let c = \<lparr>nc_label = label, nc_listen = listen, nc_port = nat port, nc_address = address\<rparr>;
     if peerNetworkConfigSchema env c then Some c else None }"

definition agentJson :: "catalog_agent parser" where
  "agentJson j = do {
     kvs \<leftarrow> strictObject [''id'', ''generation'', ''name'', ''description'', ''runtime'', ''connectors'', ''skills''] j;
     i \<leftarrow> needed kvs ''id'' p_string;
     gen \<leftarrow> needed kvs ''generation'' p_string;
     name \<leftarrow> needed kvs ''name'' p_string;
     description \<leftarrow> needed kvs ''description'' p_string;
     runtime \<leftarrow> needed kvs ''runtime'' p_string;
     connectors \<leftarrow> needed kvs ''connectors'' (p_array p_string);
     skills \<leftarrow> needed kvs ''skills'' (p_array p_string);
     Some \<lparr>cg_id = i, cg_generation = gen, cg_name = name, cg_description = description, cg_runtime = runtime,
       cg_connectors = connectors, cg_skills = skills\<rparr> }"

definition recordJson :: "net_env \<Rightarrow> node_record parser" where
  "recordJson env j = do {
     kvs \<leftarrow> strictObject [''node'', ''label'', ''address'', ''certificate'', ''revision'', ''agents'', ''signature''] j;
     node \<leftarrow> needed kvs ''node'' p_string;
     label \<leftarrow> needed kvs ''label'' p_string;
     address \<leftarrow> needed kvs ''address'' p_string;
     certificate \<leftarrow> needed kvs ''certificate'' p_string;
     revision \<leftarrow> needed kvs ''revision'' (int_between 1 (2 ^ 53 - 1));
     agents \<leftarrow> needed kvs ''agents'' (p_array agentJson);
     signature \<leftarrow> needed kvs ''signature'' p_string;
     let r = \<lparr>nr_node = node, nr_label = label, nr_address = address, nr_certificate = certificate,
       nr_revision = nat revision, nr_agents = agents, nr_signature = signature\<rparr>;
     if peerRecordSchema env r then Some r else None }"

definition deletionParams :: "fields \<Rightarrow> bool \<Rightarrow> unit result" where
  "deletionParams p apply_it =
     (case Option.bind (param ''agentId'' p) (str_where idSchema) of
        None \<Rightarrow> Inl (Error ''choose an agent that can be deleted'')
      | Some i \<Rightarrow>
          if i = ''builder'' then Inl (Error ''choose an agent that can be deleted'')
          else if \<not> set (map fst p) \<subseteq> set (if apply_it then [''agentId'', ''confirm''] else [''agentId''])
          then Inl (Error ''invalid deletion parameters'')
          else if apply_it \<and> param ''confirm'' p \<noteq> Some (JStr i)
          then Inl (Error ''type the exact agent id to confirm deletion'')
          else Inr ())"

definition SERVICES :: "(string \<times> string \<times> string) list" where
  "SERVICES =
     [(''gmail'', ''Gmail'', ''revokes it at Google''),
      (''drive'', ''Google Drive'', ''revokes it at Google''),
      (''notion'', ''Notion'', ''cannot revoke it at Notion: remove the connection in Notion yourself''),
      (''slack'', ''Slack'', ''revokes it at Slack''),
      (''x'', ''X'', ''revokes it at X''),
      (''reddit'', ''Reddit'', ''revokes it at Reddit'')]"

definition disconnectParams :: "fields \<Rightarrow> unit result" where
  "disconnectParams p =
     (case param ''id'' p of
        Some (JStr i) \<Rightarrow>
          if map_of SERVICES i = None then Inl (Error ''services.disconnect: unknown service'')
          else (case param ''account'' p of
              None \<Rightarrow> Inr ()
            | Some (JStr a) \<Rightarrow> if ACCOUNT a then Inr () else Inl (Error ''services.disconnect: invalid account name'')
            | _ \<Rightarrow> Inl (Error ''services.disconnect: invalid account name''))
      | _ \<Rightarrow> Inl (Error ''services.disconnect: unknown service''))"

text \<open>Parameters the window may not choose.\<close>

definition PARAMS :: "guard_env \<Rightarrow> string \<Rightarrow> fields \<Rightarrow> unit result" where
  "PARAMS env m p =
     (if m = ''peers.configure'' then (case configJson (ge_net env) (JObj p) of None \<Rightarrow> Inl (Error ''ZodError'') | Some _ \<Rightarrow> Inr ())
      else if m = ''peers.admit''
      then (case Option.bind (param ''record'' p) (recordJson (ge_net env)) of None \<Rightarrow> Inl (Error ''ZodError'') | Some _ \<Rightarrow> Inr ())
      else if m = ''peers.remove''
      then (case Option.bind (param ''node'' p) (str_where peerNodeSchema) of None \<Rightarrow> Inl (Error ''ZodError'') | Some _ \<Rightarrow> Inr ())
      else if m = ''agents.deletePreview'' then deletionParams p False
      else if m = ''agents.delete'' then deletionParams p True
      else if m = ''skills.add''
      then (if githubSource env (param ''source'' p) then Inr ()
            else Inl (Error ''skills.add: the window adds skills from https://github.com/ addresses''))
      else if m = ''services.disconnect'' then disconnectParams p
      else Inr ())"

definition checkCall :: "guard_env \<Rightarrow> json option \<Rightarrow> json option \<Rightarrow> (string \<times> fields) result" where
  "checkCall env m p =
     (case m of
        Some (JStr name) \<Rightarrow>
          if name \<notin> set DESKTOP_METHODS then Inl (Error (''the desktop app does not call '' @ take 60 name))
          else (case (if missing p then Some (JObj []) else p) of
              Some (JObj kvs) \<Rightarrow> rbind (PARAMS env name kvs) (\<lambda>_. Inr (name, kvs))
            | _ \<Rightarrow> Inl (Error (name @ '': parameters must be an object'')))
      | _ \<Rightarrow> Inl (Error (''the desktop app does not call '' @ take 60 (shown m))))"

definition externalUrl :: "guard_env \<Rightarrow> json option \<Rightarrow> string option" where
  "externalUrl env v =
     (case v of
        Some (JStr s) \<Rightarrow>
          if length s > 2048 then None
          else (case ne_url (ge_net env) s of
              Some u \<Rightarrow> if u_protocol u = ''https:'' \<or> u_protocol u = ''http:'' then Some (ne_url_text (ge_net env) u) else None
            | None \<Rightarrow> None)
      | _ \<Rightarrow> None)"

section \<open>Reads and questions\<close>

record confirmation_text =
  cf_message :: units
  cf_detail :: units
  cf_button :: string

text \<open>The settings of an agent as they are; an older daemon leaves out the lists that are optional here.\<close>

record agent_values =
  av_connectors :: "string list"
  av_delegates :: "string list option"
  av_workspaces :: "workspace list"
  av_highRisk :: "string list option"

datatype daemon_answer =
  Settings_of agent_values "string list"
| Proposal_of bool string string
| Status_of setup_status
| Agents_of "(string \<times> string list option) list"
| Preview_of deletion_preview
| Value_of json

datatype guard_event = Sent string fields | Asked confirmation_text bool

record guard_world =
  gw_events :: "guard_event list"
  gw_answers :: "daemon_answer result list"
  gw_user :: "bool list"

type_synonym 'a guard_op = "(guard_world, 'a) op"

definition read_daemon :: "string \<Rightarrow> fields \<Rightarrow> daemon_answer guard_op" where
  "read_daemon m p =
     (\<lambda>w. let w1 = w\<lparr>gw_events := gw_events w @ [Sent m p]\<rparr>
          in case gw_answers w of
               [] \<Rightarrow> (Inl (Error ''connection closed''), w1)
             | a # rest \<Rightarrow> (a, w1\<lparr>gw_answers := rest\<rparr>))"

definition ask_user :: "confirmation_text \<Rightarrow> bool guard_op" where
  "ask_user q =
     (\<lambda>w. let a = (case gw_user w of [] \<Rightarrow> False | b # _ \<Rightarrow> b)
          in (Inr a, w\<lparr>gw_events := gw_events w @ [Asked q a], gw_user := tl (gw_user w)\<rparr>))"

definition wrong_answer :: "'a guard_op" where
  "wrong_answer = throw ''TypeError''"

fun separated :: "'a \<Rightarrow> 'a list \<Rightarrow> 'a list" where
  "separated sep (x # y # xs) = x # sep # separated sep (y # xs)"
| "separated sep xs = xs"

definition question :: "string \<Rightarrow> string \<Rightarrow> string \<Rightarrow> confirmation_text" where
  "question msg detail button = \<lparr>cf_message = utf16 msg, cf_detail = utf16 detail, cf_button = button\<rparr>"

section \<open>What a patch adds\<close>

definition find_workspace :: "json option \<Rightarrow> workspace list \<Rightarrow> workspace option" where
  "find_workspace path ws = List.find (\<lambda>w. Some (JStr (ws_path w)) = path) ws"

definition added_ids :: "(string \<Rightarrow> string) \<Rightarrow> string list \<Rightarrow> json list \<Rightarrow> string list" where
  "added_ids as_line now new = map (\<lambda>j. as_line (js_String j)) (List.filter (\<lambda>j. \<not> list_ex (\<lambda>s. JStr s = j) now) new)"

definition widening_workspace :: "agent_values \<Rightarrow> json \<Rightarrow> string list result" where
  "widening_workspace cur j =
     rbind (js_prop (Some j) ''path'') (\<lambda>path.
     rbind (js_prop (Some j) ''mode'') (\<lambda>mode.
     Inr (case find_workspace path (av_workspaces cur) of
         None \<Rightarrow> [''workspace '' @ shown path @ '' ('' @ (if mode = Some (JStr ''rw'') then ''read-write'' else ''read-only'') @ '')'']
       | Some before \<Rightarrow>
           if mode = Some (JStr ''rw'') \<and> ws_mode before \<noteq> ''rw'' then [''write access to '' @ shown path] else [])))"

fun widening_workspaces :: "agent_values \<Rightarrow> json list \<Rightarrow> string list result" where
  "widening_workspaces cur [] = Inr []"
| "widening_workspaces cur (j # js) =
     rbind (widening_workspace cur j) (\<lambda>a. rbind (widening_workspaces cur js) (\<lambda>b. Inr (a @ b)))"

definition list_of :: "string list option \<Rightarrow> string list" where
  "list_of l = (case l of Some xs \<Rightarrow> xs | None \<Rightarrow> [])"

definition widening :: "agent_values \<Rightarrow> json option \<Rightarrow> string list result" where
  "widening cur patch =
     rbind (rbind (js_prop patch ''connectors'') js_each) (\<lambda>connectors.
     rbind (rbind (js_prop patch ''delegates'') js_each) (\<lambda>delegates.
     rbind (rbind (rbind (js_prop patch ''workspaces'') js_each) (widening_workspaces cur)) (\<lambda>workspaces.
     rbind (rbind (js_prop patch ''highRisk'') (\<lambda>h. if missing h then Inr [] else rbind (js_prop h ''disable'') js_each)) (\<lambda>risky.
     Inr (added_ids (\<lambda>i. ''connector '' @ i) (av_connectors cur) connectors @
          added_ids (\<lambda>i. ''delegate tasks to @'' @ i) (list_of (av_delegates cur)) delegates @
          workspaces @
          added_ids (\<lambda>i. i @ '' without asking you'') (list_of (av_highRisk cur)) risky)))))"

section \<open>Questions\<close>

definition ask_peer :: "guard_env \<Rightarrow> fields \<Rightarrow> confirmation_text option result" where
  "ask_peer env p =
     (case Option.bind (param ''record'' p) (recordJson (ge_net env)) of
        None \<Rightarrow> Inl (Error ''ZodError'')
      | Some r \<Rightarrow> Inr (Some \<lparr>cf_message = utf16 ''Trust '' @ sanitizeLine (utf16 (nr_label r)) @ utf16 '' as a team machine?'',
          cf_detail = utf16 (''Node '' @ nr_node r @ '' at '' @ nr_address r @ ''. This grants its daemon authority to assign work, relay approvals for its tasks, and introduce or revoke team machines. Only enroll machines you own and trust. Agent delegation still needs an explicit grant.''),
          cf_button = ''Join team''\<rparr>))"

definition ask_network :: "guard_env \<Rightarrow> fields \<Rightarrow> confirmation_text option result" where
  "ask_network env p =
     (case configJson (ge_net env) (JObj p) of
        None \<Rightarrow> Inl (Error ''ZodError'')
      | Some c \<Rightarrow> Inr (Some (question ''Enable peer networking on this machine?''
          (''Listen on '' @ nc_listen c @ '':'' @ nat_str (nc_port c) @ '' and advertise '' @ nc_address c @ ''. Only enrolled machines with pinned identities can connect. Use an address reachable by every team machine.'')
          ''Configure networking'')))"

definition ask_revoke :: "fields \<Rightarrow> confirmation_text" where
  "ask_revoke p = question ''Revoke this machine from the team?''
     (''Node '' @ shown (param ''node'' p) @ ''. Revocation spreads to reachable members; disconnected members learn it when they reconnect. Running work on the removed machine is not cancelled. This identity cannot rejoin.'')
     ''Revoke machine''"

definition layer_of :: "guard_env \<Rightarrow> string \<Rightarrow> fields result" where
  "layer_of env raw =
     rbind (ge_yaml env raw) (\<lambda>v.
     case agentLayerSchema (if v = JNull then JObj [] else v) of None \<Rightarrow> Inl (Error ''invalid value'') | Some layer \<Rightarrow> Inr layer)"

definition layer_delegates :: "fields \<Rightarrow> string list" where
  "layer_delegates layer =
     (case optional layer ''delegates'' (array_max 50 (str_where delegateRefSchema)) of Some (Some ds) \<Rightarrow> ds | _ \<Rightarrow> [])"

definition layer_execution :: "fields \<Rightarrow> execution option" where
  "layer_execution layer = (case optional layer ''execution'' executionJson of Some e \<Rightarrow> e | None \<Rightarrow> None)"

definition grant_text :: "string \<Rightarrow> string list \<Rightarrow> string" where
  "grant_text i added =
     (if added = [] then []
      else ''Allow @'' @ i @ '' to delegate tasks to '' @ join '', '' (map (\<lambda>d. CHR 0x40 # d) added) @
        ''. Recipients keep their own access and approval rules.'')"

definition ask_apply :: "guard_env \<Rightarrow> fields \<Rightarrow> confirmation_text option guard_op" where
  "ask_apply env p =
     andthen (read_daemon ''builder.proposal'' p) (\<lambda>answer.
     case answer of
       Proposal_of create i yaml \<Rightarrow>
         andthen (lift_result (layer_of env yaml)) (\<lambda>layer.
         andthen (if layer_delegates layer = [] then ret []
           else if create then ret (layer_delegates layer)
           else andthen (read_daemon ''agents.settings'' [(''agentId'', JStr i)]) (\<lambda>s.
             case s of
               Settings_of _ fixed \<Rightarrow> ret (List.filter (\<lambda>d. d \<notin> set fixed) (layer_delegates layer))
             | _ \<Rightarrow> wrong_answer)) (\<lambda>added.
         ret (case layer_execution layer of
             None \<Rightarrow> if added = [] then None
               else Some (question (''Grant delegation to @'' @ i @ ''?'') (grant_text i added) ''Grant delegation'')
           | Some e \<Rightarrow> Some (question (''Run @'' @ i @ '' on '' @ ex_server e @ ''?'')
               (''This member uses @'' @ ex_agent e @ '' on '' @ ex_server e @ '', including that profile'' @ [CHR 0x27] @ ''s runtime, connectors, workspaces and security policy. Its credentials stay on that node. Tasks and approval content are returned to this team.'' @
                (if added = [] then [] else [CHR 0x0A, CHR 0x0A] @ grant_text i added))
               ''Use execution node''))))
     | _ \<Rightarrow> wrong_answer)"

definition access_question :: "string \<Rightarrow> string list \<Rightarrow> confirmation_text" where
  "access_question i added =
     question (''Give @'' @ i @ '' more access?'')
       (''Its tasks will be able to use:'' @ [CHR 0x0A, CHR 0x0A] @
        join [CHR 0x0A] (map (\<lambda>a. [CHR 0xE2, CHR 0x80, CHR 0xA2, CHR 0x20] @ a) added))
       ''Give access''"

definition ask_update :: "fields \<Rightarrow> confirmation_text option guard_op" where
  "ask_update p =
     (case (param ''apply'' p, param ''agentId'' p) of
        (Some (JBool True), Some (JStr i)) \<Rightarrow>
          if \<not> given (param ''patch'' p) then ret None
          else
            andthen (read_daemon ''agents.settings'' [(''agentId'', JStr i)]) (\<lambda>s.
            case s of
              Settings_of cur _ \<Rightarrow>
                andthen (lift_result (widening cur (param ''patch'' p))) (\<lambda>added.
                ret (if added = [] then None
                     else Some (access_question i added)))
            | _ \<Rightarrow> wrong_answer)
      | _ \<Rightarrow> ret None)"

text \<open>\<open>autoPublishWarning\<close> of \<^verbatim>\<open>core/src/publish.ts\<close>.\<close>

definition autoPublishWarning :: "string \<Rightarrow> string" where
  "autoPublishWarning i =
     ''Agents with '' @ i @ '' then post to '' @ (if i = ''x'' then ''X'' else ''Reddit'') @ '' publicly under your account without asking you, also in tasks a trigger starts and that read untrusted content (mentions, issues, mail, web pages): instructions in that content can make them post. Agents whose file says approvals: {'' @ i @ '': ask} still ask.''"

definition ask_mode :: "fields \<Rightarrow> confirmation_text option" where
  "ask_mode p =
     (case (param ''mode'' p, param ''id'' p) of
        (Some (JStr m), Some (JStr i)) \<Rightarrow>
          if m = ''auto'' \<and> (i = ''x'' \<or> i = ''reddit'')
          then Some (question (''Let agents post to '' @ (if i = ''x'' then ''X'' else ''Reddit'') @ '' without asking?'')
            (autoPublishWarning i) ''Post without asking'')
          else None
      | _ \<Rightarrow> None)"

definition ask_disconnect :: "fields \<Rightarrow> confirmation_text option result" where
  "ask_disconnect p =
     (case map_of SERVICES (shown (param ''id'' p)) of
        None \<Rightarrow> Inl (Error ''TypeError'')
      | Some (name, remote) \<Rightarrow>
          (let which = (if given (param ''account'' p) then '' account '' @ shown (param ''account'' p) else [])
           in Inr (Some (question (''Disconnect '' @ name @ which @ ''?'')
             (''Anchi removes the '' @ name @ which @ '' credential from the vault on the server and '' @ remote @ ''. Agents that use '' @ name @ '' lose access until you connect it again.'')
             ''Disconnect''))))"

definition or_empty :: "json option \<Rightarrow> string" where
  "or_empty v = (if missing v then [] else shown v)"

definition ask_prepare :: "fields \<Rightarrow> confirmation_text guard_op" where
  "ask_prepare p =
     (let runtime = or_empty (param ''runtime'' p)
      in andthen (catch_error (andthen (read_daemon ''setup.status'' []) (\<lambda>a. ret (Some a))) (\<lambda>_. ret None)) (\<lambda>s.
         ret (if (case s of
               Some (Status_of st) \<Rightarrow> su_vm st = Vm_running \<and> su_installed st \<and> \<not> su_guestOutdated st \<and> \<not> su_vaultUnlocked st \<and>
                 su_vaultKeyPresent st \<and> runtime \<in> set (su_preparedRuntimes st)
             | _ \<Rightarrow> False)
           then question ''Unlock the vault?''
             ''Anchi unlocks the vault on the server with its vault key (~/.config/anchi/vault.key there). The credentials you stored become usable by its services again. Nothing is installed.''
             ''Unlock''
           else question ''Prepare the Anchi environment?''
             (''This starts or installs the Anchi VM on the server, its services and the '' @ runtime @ '' runtime image, then unlocks the vault. The first install takes several minutes.'' @ [CHR 0x0A, CHR 0x0A] @
              ''The vault key (~/.config/anchi/vault.key on the server) is the only way to read the credentials you store. Back it up once it exists.'')
             ''Prepare'')))"

definition ask_skill :: "fields \<Rightarrow> confirmation_text guard_op" where
  "ask_skill p =
     (let i = or_empty (param ''id'' p)
      in andthen (read_daemon ''agents.list'' []) (\<lambda>a.
         case a of
           Agents_of agents \<Rightarrow>
             (let users = map (\<lambda>(n, _). CHR 0x40 # n) (List.filter (\<lambda>(_, sk). i \<in> set (list_of sk)) agents)
              in ret (question (''Remove the skill '' @ i @ ''?'')
                ((if users = [] then ''No agent lists it.''
                  else join '', '' users @ (if length users = 1 then '' lists'' else '' list'') @
                    '' it and will not start until it is taken out of '' @ (if length users = 1 then ''its'' else ''their'') @
                    '' settings or added again.'') @ '' Its files are deleted from the server.'')
                ''Remove''))
         | _ \<Rightarrow> wrong_answer))"

definition confirmation :: "guard_env \<Rightarrow> string \<Rightarrow> fields \<Rightarrow> confirmation_text option guard_op" where
  "confirmation env m p =
     (if m = ''peers.configure'' then lift_result (ask_network env p)
      else if m = ''peers.admit'' then lift_result (ask_peer env p)
      else if m = ''peers.remove'' then ret (Some (ask_revoke p))
      else if m = ''builder.apply'' then ask_apply env p
      else if m = ''agents.update'' then ask_update p
      else if m = ''services.setMode'' then ret (ask_mode p)
      else if m = ''services.disconnect'' then lift_result (ask_disconnect p)
      else if m = ''setup.prepare'' then andthen (ask_prepare p) (\<lambda>q. ret (Some q))
      else if m = ''skills.remove'' then andthen (ask_skill p) (\<lambda>q. ret (Some q))
      else ret None)"

section \<open>The guard\<close>

definition deletion_text :: "string \<Rightarrow> deletion_preview \<Rightarrow> confirmation_text" where
  "deletion_text i d =
     (let references = map (\<lambda>a. CHR 0x40 # a) (dp_delegatedBy d) @ map (\<lambda>t. ''template '' @ t) (dp_delegatedByTemplates d)
      in \<lparr>cf_message = utf16 (''Delete @'' @ i @ ''?''),
          cf_detail =
            utf16 (''Permanently delete its agent file, '' @ nat_str (dp_tasks d) @ '' tasks and '' @ nat_str (dp_delegated d) @
              '' delegated tasks with their transcripts, '' @ nat_str (dp_triggers d) @
              '' triggers, and its VM home, sessions, skills and policy rules.'' @ [CHR 0x0A, CHR 0x0A] @ nat_str (dp_running d) @
              '' running or queued tasks will be cancelled.'') @
            (if references = [] then []
             else utf16 ([CHR 0x0A] @ ''Remove its delegation grants from: '') @
               concat (separated (utf16 '', '') (map (\<lambda>r. sanitizeLine (utf16 r)) references)) @ utf16 ''.'') @
            utf16 ([CHR 0x0A, CHR 0x0A] @ ''Workspaces and audit logs are kept. This cannot be undone.''),
          cf_button = ''Delete agent''\<rparr>)"

definition cancelled :: "'a guard_op" where
  "cancelled = throw ''cancelled''"

definition guarded_delete :: "fields \<Rightarrow> daemon_answer guard_op" where
  "guarded_delete p =
     (let i = shown (param ''agentId'' p)
      in andthen (read_daemon ''agents.deletePreview'' [(''agentId'', JStr i)]) (\<lambda>a.
         case a of
           Preview_of preview \<Rightarrow>
             andthen (require (dp_agentId preview = i) ''agent changed; review deletion again'') (\<lambda>_.
             andthen (ask_user (deletion_text i preview)) (\<lambda>yes.
             if \<not> yes then cancelled
             else
               andthen (read_daemon ''agents.deletePreview'' [(''agentId'', JStr i)]) (\<lambda>latest.
               andthen (require (latest = Preview_of preview)
                 ''Agent or tasks changed during confirmation; review deletion again.'') (\<lambda>_.
               read_daemon ''agents.delete'' p))))
         | _ \<Rightarrow> wrong_answer))"

definition guardedCall :: "guard_env \<Rightarrow> json option \<Rightarrow> json option \<Rightarrow> daemon_answer guard_op" where
  "guardedCall env method params =
     andthen (lift_result (checkCall env method params)) (\<lambda>(m, p).
     if m = ''agents.delete'' then guarded_delete p
     else
       andthen (confirmation env m p) (\<lambda>q.
       case q of
         None \<Rightarrow> read_daemon m p
       | Some q \<Rightarrow> andthen (ask_user q) (\<lambda>yes. if \<not> yes then cancelled else read_daemon m p)))"

end
