(* ===== verification/GuardFacts.thy ===== *)
theory GuardFacts
  imports Guard
begin

text \<open>
  The guard in front of the daemon: what the window can make it send, and that an agent gets no more
  access by a change of its settings than it has, unless the user said yes in the native dialog.
\<close>

section \<open>What the guard sends\<close>

text \<open>The methods that only read, which the guard calls for its questions, and those it always asks about.\<close>

definition READS :: "string list" where
  "READS = [''builder.proposal'', ''agents.settings'', ''setup.status'', ''agents.list'', ''agents.deletePreview'']"

definition ALWAYS_ASKED :: "string list" where
  "ALWAYS_ASKED = [''peers.configure'', ''peers.admit'', ''peers.remove'', ''services.disconnect'', ''setup.prepare'',
     ''skills.remove'', ''agents.delete'']"

definition is_read :: "guard_event \<Rightarrow> bool" where
  "is_read ev = (case ev of Sent m _ \<Rightarrow> m \<in> set READS | Asked _ _ \<Rightarrow> False)"

definition before_call :: "guard_event \<Rightarrow> bool" where
  "before_call ev = (case ev of Sent m _ \<Rightarrow> m \<in> set READS | Asked _ yes \<Rightarrow> yes)"

definition is_yes :: "guard_event \<Rightarrow> bool" where
  "is_yes ev = (case ev of Sent _ _ \<Rightarrow> False | Asked _ yes \<Rightarrow> yes)"

text \<open>
  Before the last event there are reads, and questions that were answered with yes; the last may be another
  method than a read only if it is the call itself, of a method the window has, and if the methods that are
  always asked about were asked about.
\<close>

definition guard_kept :: "json option \<Rightarrow> guard_event list \<Rightarrow> bool" where
  "guard_kept method evs \<longleftrightarrow>
     list_all before_call (butlast evs) \<and>
     (evs = [] \<or>
      (case last evs of
         Asked _ _ \<Rightarrow> True
       | Sent k _ \<Rightarrow>
           k \<in> set READS \<or>
           method = Some (JStr k) \<and> k \<in> set DESKTOP_METHODS \<and> (k \<in> set ALWAYS_ASKED \<longrightarrow> list_ex is_yes (butlast evs))))"

text \<open>Operations that only read.\<close>

definition reads :: "'a guard_op \<Rightarrow> bool" where
  "reads m \<longleftrightarrow> (\<forall>w. \<exists>evs. gw_events (snd (m w)) = gw_events w @ evs \<and> list_all is_read evs)"

named_theorems reading "operations that only read"

lemma reads_pure [reading]: "reads (ret x)" "reads (throw e)" "reads (lift_result r)" "reads wrong_answer"
  by (simp_all add: reads_def ret_def throw_def lift_result_def wrong_answer_def)

lemma reads_daemon [reading]: "m \<in> set READS \<Longrightarrow> reads (read_daemon m p)"
  by (simp add: reads_def read_daemon_def is_read_def Let_def split: list.split)

lemma reads_andthen [reading]:
  assumes "reads m" and "\<And>a. reads (f a)"
  shows "reads (andthen m f)"
  unfolding reads_def
proof
  fix w
  obtain r w1 where m: "m w = (r, w1)" by (cases "m w")
  obtain e1 where e1: "gw_events w1 = gw_events w @ e1" "list_all is_read e1"
    using assms(1) m unfolding reads_def by (metis snd_conv)
  show "\<exists>evs. gw_events (snd (andthen m f w)) = gw_events w @ evs \<and> list_all is_read evs"
  proof (cases r)
    case (Inr a)
    obtain e2 where "gw_events (snd (f a w1)) = gw_events w1 @ e2" "list_all is_read e2"
      using assms(2) [of a] unfolding reads_def by blast
    then show ?thesis using e1 by (intro exI [of _ "e1 @ e2"]) (simp add: andthen_def m Inr)
  qed (use e1 in \<open>auto simp: andthen_def m\<close>)
qed

lemma reads_catch [reading]:
  assumes "reads m" and "\<And>e. reads (h e)"
  shows "reads (catch_error m h)"
  unfolding reads_def
proof
  fix w
  obtain r w1 where m: "m w = (r, w1)" by (cases "m w")
  obtain e1 where e1: "gw_events w1 = gw_events w @ e1" "list_all is_read e1"
    using assms(1) m unfolding reads_def by (metis snd_conv)
  show "\<exists>evs. gw_events (snd (catch_error m h w)) = gw_events w @ evs \<and> list_all is_read evs"
  proof (cases r)
    case (Inl e)
    obtain e2 where "gw_events (snd (h e w1)) = gw_events w1 @ e2" "list_all is_read e2"
      using assms(2) [of e] unfolding reads_def by blast
    then show ?thesis using e1 by (intro exI [of _ "e1 @ e2"]) (simp add: catch_error_def m Inl)
  qed (use e1 in \<open>auto simp: catch_error_def m\<close>)
qed

lemma reads_if [reading]: "(b \<Longrightarrow> reads m) \<Longrightarrow> (\<not> b \<Longrightarrow> reads n) \<Longrightarrow> reads (if b then m else n)"
  by simp

lemma reads_answer [reading]:
  "(\<And>x y. reads (f x y)) \<Longrightarrow> (\<And>x y z. reads (g x y z)) \<Longrightarrow> (\<And>x. reads (h x)) \<Longrightarrow> (\<And>x. reads (i x)) \<Longrightarrow>
   (\<And>x. reads (j x)) \<Longrightarrow> (\<And>x. reads (k x)) \<Longrightarrow>
   reads (case a of Settings_of x y \<Rightarrow> f x y | Proposal_of x y z \<Rightarrow> g x y z | Status_of x \<Rightarrow> h x | Agents_of x \<Rightarrow> i x
     | Preview_of x \<Rightarrow> j x | Value_of x \<Rightarrow> k x)"
  by (cases a) simp_all

lemma READS_simps [simp]:
  "''builder.proposal'' \<in> set READS" "''agents.settings'' \<in> set READS" "''setup.status'' \<in> set READS"
  "''agents.list'' \<in> set READS" "''agents.deletePreview'' \<in> set READS"
  by (simp_all add: READS_def)

lemma reads_apply [reading]: "reads (ask_apply env p)"
  unfolding ask_apply_def by (intro reading) simp_all

lemma reads_update [reading]: "reads (ask_update p)"
  unfolding ask_update_def by (auto intro!: reading split: option.split json.split bool.split)

lemma reads_prepare [reading]: "reads (ask_prepare p)"
  unfolding ask_prepare_def Let_def by (intro reading) simp_all

lemma reads_skill [reading]: "reads (ask_skill p)"
  unfolding ask_skill_def Let_def by (intro reading) simp_all

lemma reads_confirmation: "reads (confirmation env m p)"
  unfolding confirmation_def by (intro reading)

text \<open>A method that is always asked about has a question whenever it gets that far.\<close>

lemma andthen_Some: "andthen m (\<lambda>q. ret (Some q)) w = (Inr x, w1) \<Longrightarrow> x \<noteq> None"
  by (cases "m w") (auto simp: andthen_def ret_def split: sum.splits)

lemma confirmation_cases:
  "confirmation env ''peers.configure'' p = lift_result (ask_network env p)"
  "confirmation env ''peers.admit'' p = lift_result (ask_peer env p)"
  "confirmation env ''peers.remove'' p = ret (Some (ask_revoke p))"
  "confirmation env ''services.disconnect'' p = lift_result (ask_disconnect p)"
  "confirmation env ''setup.prepare'' p = andthen (ask_prepare p) (\<lambda>q. ret (Some q))"
  "confirmation env ''skills.remove'' p = andthen (ask_skill p) (\<lambda>q. ret (Some q))"
  by (simp_all add: confirmation_def)

lemma Some_results: "Inl e = Inr (q :: 'a option) \<Longrightarrow> q \<noteq> None" "Inr (Some x) = Inr q \<Longrightarrow> q \<noteq> None"
  by blast+

lemma ask_network_asks: "ask_network env p = Inr q \<Longrightarrow> q \<noteq> None"
  unfolding ask_network_def by (cases "configJson (ge_net env) (JObj p)"; simp only: option.case; erule Some_results)

lemma ask_peer_asks: "ask_peer env p = Inr q \<Longrightarrow> q \<noteq> None"
  unfolding ask_peer_def
  by (cases "Option.bind (param ''record'' p) (recordJson (ge_net env))"; simp only: option.case; erule Some_results)

lemma ask_disconnect_asks: "ask_disconnect p = Inr q \<Longrightarrow> q \<noteq> None"
  unfolding ask_disconnect_def Let_def
  by (cases "map_of SERVICES (shown (param ''id'' p))"; (simp only: option.case prod.case split: prod.splits)?; erule Some_results)

lemma always_question:
  assumes "m \<in> set ALWAYS_ASKED" and "m \<noteq> ''agents.delete''" and c: "confirmation env m p w = (Inr q, w1)"
  shows "q \<noteq> None"
proof -
  have lifted: "r = Inr q" if "lift_result r w = (Inr q, w1)" for r using that by (simp add: lift_result_def)
  from assms(1) show ?thesis
    unfolding ALWAYS_ASKED_def list.set
  proof (elim insertE emptyE)
    assume m: "m = ''peers.configure''"
    show ?thesis using c unfolding m confirmation_cases by (rule ask_network_asks [OF lifted])
  next
    assume m: "m = ''peers.admit''"
    show ?thesis using c unfolding m confirmation_cases by (rule ask_peer_asks [OF lifted])
  next
    assume m: "m = ''peers.remove''"
    show ?thesis using c unfolding m confirmation_cases ret_def prod.inject by (elim conjE) (rule Some_results(2))
  next
    assume m: "m = ''services.disconnect''"
    show ?thesis using c unfolding m confirmation_cases by (rule ask_disconnect_asks [OF lifted])
  next
    assume m: "m = ''setup.prepare''"
    show ?thesis using c unfolding m confirmation_cases by (rule andthen_Some)
  next
    assume m: "m = ''skills.remove''"
    show ?thesis using c unfolding m confirmation_cases by (rule andthen_Some)
  next
    assume "m = ''agents.delete''"
    with assms(2) show ?thesis by (rule notE)
  qed
qed

lemma reads_before: "list_all is_read evs \<Longrightarrow> list_all before_call evs"
  by (auto simp: list_all_iff is_read_def before_call_def split: guard_event.splits)

lemma kept_reads: "list_all is_read evs \<Longrightarrow> guard_kept m evs"
  by (cases evs rule: rev_cases)
    (auto simp: guard_kept_def reads_before is_read_def split: guard_event.splits)

lemma kept_asked: "list_all before_call evs \<Longrightarrow> guard_kept m (evs @ [Asked q a])"
  by (simp add: guard_kept_def)

lemma kept_call:
  "list_all before_call evs \<Longrightarrow> k \<in> set DESKTOP_METHODS \<Longrightarrow> k \<in> set ALWAYS_ASKED \<longrightarrow> list_ex is_yes evs \<Longrightarrow>
   guard_kept (Some (JStr k)) (evs @ [Sent k p])"
  by (simp add: guard_kept_def)

lemma kept_before: "list_all before_call evs \<Longrightarrow> guard_kept m evs"
  by (cases evs rule: rev_cases) (auto simp: guard_kept_def before_call_def split: guard_event.splits)

lemma checkCall_ok:
  "checkCall env method params = Inr (m, p) \<Longrightarrow> method = Some (JStr m) \<and> m \<in> set DESKTOP_METHODS"
  by (auto simp: checkCall_def rbind_Inr_iff split: option.splits json.splits if_splits)

lemma read_events: "gw_events (snd (read_daemon m p w)) = gw_events w @ [Sent m p]"
  by (simp add: read_daemon_def Let_def split: list.split)

lemma ask_events: "\<exists>a w1. ask_user q w = (Inr a, w1) \<and> gw_events w1 = gw_events w @ [Asked q a]"
  by (simp add: ask_user_def Let_def)

lemma guarded_delete_kept:
  assumes m: "''agents.delete'' \<in> set DESKTOP_METHODS" and w: "gw_events w = []"
  shows "guard_kept (Some (JStr ''agents.delete'')) (gw_events (snd (guarded_delete p w)))"
proof -
  have step: "gw_events (snd (andthen (read_daemon k ps) f v)) =
      (case fst (read_daemon k ps v) of Inl _ \<Rightarrow> gw_events v @ [Sent k ps]
       | Inr a \<Rightarrow> gw_events (snd (f a (snd (read_daemon k ps v)))))" for k ps f v
    using read_events [of k ps v] by (cases "read_daemon k ps v") (simp add: andthen_def split: sum.split)
  show ?thesis
    by (auto simp: guarded_delete_def Let_def step read_events w guard_kept_def before_call_def is_yes_def m ask_user_def
        cancelled_def wrong_answer_def throw_def andthen_def require_def ret_def read_daemon_def
        split: sum.split daemon_answer.split list.split prod.split)
qed

lemma asked_call_kept:
  assumes evs: "gw_events w = evs" "list_all is_read evs" and m: "m \<in> set DESKTOP_METHODS"
    and q: "m \<in> set ALWAYS_ASKED \<Longrightarrow> q \<noteq> None"
  shows "guard_kept (Some (JStr m)) (gw_events (snd ((case q of None \<Rightarrow> read_daemon m p
    | Some t \<Rightarrow> andthen (ask_user t) (\<lambda>yes. if \<not> yes then cancelled else read_daemon m p)) w)))"
proof (cases q)
  case None
  then show ?thesis using q m reads_before [OF evs(2)] by (auto simp: read_events evs(1) intro!: kept_call)
next
  case (Some t)
  obtain a w2 where a: "ask_user t w = (Inr a, w2)" "gw_events w2 = evs @ [Asked t a]"
    using ask_events [of t w] evs(1) by blast
  note all = reads_before [OF evs(2)]
  have "guard_kept (Some (JStr m)) (evs @ [Asked t a])" by (rule kept_asked [OF all])
  moreover have "guard_kept (Some (JStr m)) ((evs @ [Asked t True]) @ [Sent m p])"
    by (rule kept_call) (use all m in \<open>simp_all add: before_call_def is_yes_def\<close>)
  ultimately show ?thesis using Some a
    by (auto simp: andthen_def read_events cancelled_def throw_def)
qed

text \<open>
  C38 (guard_asks_first). Whatever the window calls and whatever the daemon and the user answer: the guard sends reads of its own,
  and the call itself at most once and last, when every question was answered with yes; it only sends
  methods the window has, and the ones that are always asked about only after a yes.
\<close>

theorem guard_asks_first:
  "guard_kept method (gw_events (snd (guardedCall env method params \<lparr>gw_events = [], gw_answers = answers, gw_user = user\<rparr>)))"
  (is "guard_kept method (gw_events (snd (guardedCall env method params ?w)))")
proof (cases "checkCall env method params")
  case (Inl e)
  then show ?thesis by (simp add: guardedCall_def andthen_def lift_result_def guard_kept_def)
next
  case (Inr mp)
  obtain m p where mp: "mp = (m, p)" by (cases mp)
  have m: "method = Some (JStr m)" "m \<in> set DESKTOP_METHODS" using checkCall_ok Inr mp by blast+
  show ?thesis
  proof (cases "m = ''agents.delete''")
    case True
    then show ?thesis using guarded_delete_kept [of ?w p] m Inr mp
      by (simp add: guardedCall_def andthen_def lift_result_def)
  next
    case False
    obtain r w1 where c: "confirmation env m p ?w = (r, w1)" by (cases "confirmation env m p ?w")
    then have "\<exists>evs. gw_events w1 = evs \<and> list_all is_read evs"
      using reads_confirmation [of env m p] unfolding reads_def by (metis append_Nil guard_world.select_convs(1) snd_conv)
    then have evs: "list_all is_read (gw_events w1)" by simp
    show ?thesis
    proof (cases r)
      case (Inl e)
      then show ?thesis using Inr mp False c kept_reads [OF evs] by (simp add: guardedCall_def andthen_def lift_result_def)
    next
      case q: (Inr q)
      have "m \<in> set ALWAYS_ASKED \<Longrightarrow> q \<noteq> None" using always_question [OF _ False] c q by blast
      from asked_call_kept [OF refl evs m(2) this, of p] show ?thesis
        using Inr mp False c q m(1) by (cases q) (simp_all add: guardedCall_def andthen_def lift_result_def)
    qed
  qed
qed

section \<open>What a patch gives\<close>

datatype capability = Connector_use string | Delegation_to string | Read_path string | Write_path string | Unattended string

definition patch_workspaces :: "agent_patch \<Rightarrow> workspace list" where
  "patch_workspaces p = (case pt_workspaces p of Some ws \<Rightarrow> ws | None \<Rightarrow> [])"

definition granted :: "agent_patch \<Rightarrow> capability set" where
  "granted p =
     Connector_use ` set (list_of (pt_connectors p)) \<union> Delegation_to ` set (list_of (pt_delegates p)) \<union>
     Read_path ` ws_path ` set (patch_workspaces p) \<union>
     Write_path ` ws_path ` {w \<in> set (patch_workspaces p). ws_mode w = ''rw''} \<union>
     Unattended ` set (list_of (pt_highRisk p))"

definition held :: "agent_values \<Rightarrow> capability set" where
  "held cur =
     Connector_use ` set (av_connectors cur) \<union> Delegation_to ` set (list_of (av_delegates cur)) \<union>
     {Read_path f | f. find_workspace (Some (JStr f)) (av_workspaces cur) \<noteq> None} \<union>
     {Write_path f | f. case find_workspace (Some (JStr f)) (av_workspaces cur) of Some w \<Rightarrow> ws_mode w = ''rw'' | None \<Rightarrow> False} \<union>
     Unattended ` set (list_of (av_highRisk cur))"

text \<open>A patch the daemon takes, as the JSON the window sent.\<close>

definition strs :: "string list option \<Rightarrow> json option" where
  "strs v = map_option (\<lambda>xs. JArr (map JStr xs)) v"

lemma str_where_Some: "str_where P j = Some x \<longleftrightarrow> j = JStr x \<and> P x"
  by (cases j) (auto simp: str_where_def)

lemma array_strs: "array_max n (str_where P) j = Some xs \<Longrightarrow> j = JArr (map JStr xs)"
proof -
  assume "array_max n (str_where P) j = Some xs"
  then have "p_array (str_where P) j = Some xs" by (auto simp: array_max_def split: if_splits bind_splits)
  then obtain js where j: "j = JArr js" and "map (str_where P) js = map Some xs"
    by (cases j) (auto simp: parse_all_Some_iff)
  then have "js = map JStr xs"
    by (intro nth_equalityI) (auto dest: arg_cong [of _ _ length] simp: str_where_Some list_eq_iff_nth_eq)
  then show "j = JArr (map JStr xs)" using j by simp
qed

lemma optional_strs: "optional kvs k (array_max n (str_where P)) = Some v \<Longrightarrow> map_of kvs k = strs v"
  by (auto simp: optional_def strs_def dest: array_strs split: option.splits)

lemma js_each_strs [simp]: "js_each (strs v) = Inr (map JStr (list_of v))"
  by (cases v) (simp_all add: js_each_def strs_def list_of_def)


lemma patch_parsed:
  assumes "parsePatch raw = Inr p"
  shows "\<exists>kvs. raw = JObj kvs \<and> map_of kvs ''connectors'' = strs (pt_connectors p) \<and>
     map_of kvs ''delegates'' = strs (pt_delegates p) \<and>
     optional kvs ''workspaces'' (array_max 10 workspaceSchema) = Some (pt_workspaces p) \<and>
     optional kvs ''highRisk'' patch_highRisk = Some (pt_highRisk p)"
proof -
  have "patchSchema raw = Some p" using assms by (auto simp: parsePatch_def split: option.splits if_splits)
  then show ?thesis
    unfolding patchSchema_def connectorSchema_def p_enum_def
    by (cases raw) (auto simp: bind_eq_Some_conv split: if_splits dest!: optional_strs)
qed

lemma highRisk_parsed:
  "optional kvs ''highRisk'' patch_highRisk = Some v \<Longrightarrow>
   map_of kvs ''highRisk'' = None \<and> v = None \<or>
   (\<exists>hs xs. map_of kvs ''highRisk'' = Some (JObj hs) \<and> v = Some xs \<and> map_of hs ''disable'' = strs (Some xs))"
  by (auto simp: optional_def patch_highRisk_def p_enum_def needed_def bind_eq_Some_conv strs_def dest!: array_strs
      split: option.splits json.splits if_splits elim!: strictObject.elims)

lemma added_ids_strs:
  "added_ids f now (map JStr xs) = map f (List.filter (\<lambda>x. x \<notin> set now) xs)"
  by (induction xs) (auto simp: added_ids_def list_ex_iff)


text \<open>The workspaces of a patch the daemon takes.\<close>

definition workspace_lines :: "agent_values \<Rightarrow> workspace \<Rightarrow> string list" where
  "workspace_lines cur w =
     (case find_workspace (Some (JStr (ws_path w))) (av_workspaces cur) of
        None \<Rightarrow> [''workspace '' @ ws_path w @ '' ('' @ (if ws_mode w = ''rw'' then ''read-write'' else ''read-only'') @ '')'']
      | Some before \<Rightarrow> if ws_mode w = ''rw'' \<and> ws_mode before \<noteq> ''rw'' then [''write access to '' @ ws_path w] else [])"

lemma workspace_parsed:
  assumes "workspaceSchema j = Some w"
  shows "widening_workspace cur j = Inr (workspace_lines cur w)"
proof -
  obtain kvs where j: "j = JObj kvs" and path: "map_of kvs ''path'' = Some (JStr (ws_path w))"
    and mode: "default_to ''ro'' kvs ''mode'' (p_enum [''ro'', ''rw'']) = Some (ws_mode w)"
    using assms by (cases j) (auto simp: workspaceSchema_def needed_def bind_eq_Some_conv str_where_Some split: if_splits)
  have "(map_of kvs ''mode'' = Some (JStr ''rw'')) = (ws_mode w = ''rw'')"
    using mode by (auto simp: default_to_def p_enum_def str_where_Some split: option.splits)
  then show ?thesis by (simp add: widening_workspace_def js_prop_def j path shown_def workspace_lines_def split: option.split)
qed

lemma workspaces_parsed:
  "map workspaceSchema js = map Some ws \<Longrightarrow> widening_workspaces cur js = Inr (concat (map (workspace_lines cur) ws))"
proof (induction js arbitrary: ws)
  case (Cons j js)
  then obtain w ws' where "ws = w # ws'" by (cases ws) auto
  then show ?case using Cons by (simp add: workspace_parsed)
qed simp

definition all_lines :: "agent_values \<Rightarrow> agent_patch \<Rightarrow> string list" where
  "all_lines cur p =
     map (\<lambda>i. ''connector '' @ i) (List.filter (\<lambda>x. x \<notin> set (av_connectors cur)) (list_of (pt_connectors p))) @
     map (\<lambda>i. ''delegate tasks to @'' @ i) (List.filter (\<lambda>x. x \<notin> set (list_of (av_delegates cur))) (list_of (pt_delegates p))) @
     concat (map (workspace_lines cur) (patch_workspaces p)) @
     map (\<lambda>i. i @ '' without asking you'') (List.filter (\<lambda>x. x \<notin> set (list_of (av_highRisk cur))) (list_of (pt_highRisk p)))"

lemma widening_parsed:
  assumes "parsePatch raw = Inr p"
  shows "widening cur (Some raw) = Inr (all_lines cur p)"
proof -
  obtain kvs where raw: "raw = JObj kvs" and c: "map_of kvs ''connectors'' = strs (pt_connectors p)"
    and d: "map_of kvs ''delegates'' = strs (pt_delegates p)"
    and w: "optional kvs ''workspaces'' (array_max 10 workspaceSchema) = Some (pt_workspaces p)"
    and h: "optional kvs ''highRisk'' patch_highRisk = Some (pt_highRisk p)"
    using patch_parsed [OF assms] by blast
  have ws: "rbind (js_each (map_of kvs ''workspaces'')) (widening_workspaces cur) =
      Inr (concat (map (workspace_lines cur) (patch_workspaces p)))"
  proof (cases "map_of kvs ''workspaces''")
    case None
    then show ?thesis using w by (simp add: optional_def js_each_def patch_workspaces_def)
  next
    case (Some j)
    then obtain ws where ws: "pt_workspaces p = Some ws" "array_max 10 workspaceSchema j = Some ws"
      using w by (cases "array_max 10 workspaceSchema j"; cases "pt_workspaces p") (simp_all add: optional_def)
    then have "p_array workspaceSchema j = Some ws" by (auto simp: array_max_def bind_eq_Some_conv split: if_splits)
    then obtain js where "j = JArr js" "map workspaceSchema js = map Some ws"
      by (cases j) (auto simp: parse_all_Some_iff)
    then show ?thesis using Some ws(1) by (simp add: js_each_def workspaces_parsed patch_workspaces_def)
  qed
  have hs: "(if missing (map_of kvs ''highRisk'') then Inr [] else rbind (js_prop (map_of kvs ''highRisk'') ''disable'') js_each) =
      Inr (map JStr (list_of (pt_highRisk p)))"
    using highRisk_parsed [OF h] by (auto simp: missing_def list_of_def js_prop_def strs_def js_each_def)
  have at_field: "js_prop (Some raw) k = Inr (map_of kvs k)" for k by (simp add: js_prop_def raw)
  show ?thesis
    by (simp only: widening_def at_field rbind_simps c d js_each_strs ws hs added_ids_strs all_lines_def)
qed

text \<open>The lines are empty exactly when the patch gives nothing the agent does not have.\<close>

lemma held_iff:
  "Connector_use c \<in> held cur \<longleftrightarrow> c \<in> set (av_connectors cur)"
  "Delegation_to c \<in> held cur \<longleftrightarrow> c \<in> set (list_of (av_delegates cur))"
  "Read_path c \<in> held cur \<longleftrightarrow> find_workspace (Some (JStr c)) (av_workspaces cur) \<noteq> None"
  "Write_path c \<in> held cur \<longleftrightarrow>
     (case find_workspace (Some (JStr c)) (av_workspaces cur) of Some w \<Rightarrow> ws_mode w = ''rw'' | None \<Rightarrow> False)"
  "Unattended c \<in> held cur \<longleftrightarrow> c \<in> set (list_of (av_highRisk cur))"
  unfolding held_def by blast+

lemma no_workspace_lines:
  "workspace_lines cur w = [] \<longleftrightarrow>
     Read_path (ws_path w) \<in> held cur \<and> (ws_mode w = ''rw'' \<longrightarrow> Write_path (ws_path w) \<in> held cur)"
  by (simp add: workspace_lines_def held_iff split: option.split)

lemma no_lines: "all_lines cur p = [] \<longleftrightarrow> granted p \<subseteq> held cur"
  unfolding all_lines_def granted_def Un_subset_iff image_subset_iff append_is_Nil_conv map_is_Nil_conv
  by (auto simp: held_iff(1,2,5) no_workspace_lines filter_empty_conv)

section \<open>Changing an agent\<close>

lemma given_patch: "parsePatch raw = Inr p \<Longrightarrow> given (Some raw)"
  using patch_parsed [of raw p] by (auto simp: given_def)

text \<open>
  C37 (update_gives_nothing_unasked). When the window applies a patch that the daemon takes, the guard reads the agent's settings and then:
  if the patch gives the agent nothing it does not have, the call goes to the daemon; otherwise the user is
  asked, with every capability that is new in the question, and the call goes on after a yes only.
\<close>

theorem update_gives_nothing_unasked:
  assumes "param ''agentId'' ps = Some (JStr i)" and "param ''apply'' ps = Some (JBool True)"
    and raw: "param ''patch'' ps = Some raw" and p: "parsePatch raw = Inr p"
  shows "gw_events (snd (guardedCall env (Some (JStr ''agents.update'')) (Some (JObj ps))
        \<lparr>gw_events = [], gw_answers = Inr (Settings_of cur fixed) # rest, gw_user = yes # next_ones\<rparr>)) =
      Sent ''agents.settings'' [(''agentId'', JStr i)] #
      (if granted p \<subseteq> held cur then [Sent ''agents.update'' ps]
       else if yes then [Asked (access_question i (all_lines cur p)) True, Sent ''agents.update'' ps]
       else [Asked (access_question i (all_lines cur p)) False])"
proof -
  let ?m = "''agents.update''"
  have m: "?m \<in> set DESKTOP_METHODS" by (simp add: DESKTOP_METHODS_def)
  have check: "checkCall env (Some (JStr ?m)) (Some (JObj ps)) = Inr (?m, ps)"
    by (simp add: checkCall_def m missing_def PARAMS_def)
  have conf: "confirmation env ?m ps = ask_update ps" by (simp add: confirmation_def)
  show ?thesis
    unfolding no_lines [symmetric]
    by (simp add: guardedCall_def check conf ask_update_def assms(1,2) raw given_patch [OF p] widening_parsed [OF p]
        andthen_def lift_result_def ret_def read_daemon_def ask_user_def cancelled_def throw_def Let_def split: list.split)
qed

definition demo_layer :: json where
  "demo_layer = JObj
     [(''connectors'', JArr [JStr ''gmail'']),
      (''workspaces'', JArr [JObj [(''path'', JStr ''notes''), (''mode'', JStr ''rw'')]]),
      (''highRisk'', JObj [(''disable'', JArr [JStr ''github-merge''])])]"

definition demo_guard :: guard_env where
  "demo_guard =
     \<lparr>ge_net = \<lparr>ne_valid = \<lambda>_ _. True, ne_fingerprint = id, ne_verify = \<lambda>_ _ _. True, ne_sign = \<lambda>_. [], ne_size = \<lambda>_. 1,
        ne_url = \<lambda>_. None, ne_url_text = \<lambda>_. []\<rparr>,
      ge_yaml = \<lambda>_. Inr demo_layer\<rparr>"

definition demo_values :: agent_values where
  "demo_values = \<lparr>av_connectors = [''slack''], av_delegates = None,
     av_workspaces = [\<lparr>ws_path = ''notes'', ws_mode = ''ro'', ws_name = None\<rparr>], av_highRisk = Some []\<rparr>"

definition demo_update :: fields where
  "demo_update = [(''agentId'', JStr ''mail''), (''patch'', demo_layer), (''apply'', JBool True)]"

lemma demo_patch:
  "parsePatch demo_layer = Inr (no_patch\<lparr>pt_connectors := Some [''gmail''],
     pt_workspaces := Some [\<lparr>ws_path = ''notes'', ws_mode = ''rw'', ws_name = None\<rparr>], pt_highRisk := Some [''github-merge'']\<rparr>)"
  by code_simp

theorem update_gives_nothing_unasked_witness:
  "gw_events (snd (guardedCall demo_guard (Some (JStr ''agents.update'')) (Some (JObj demo_update))
       \<lparr>gw_events = [], gw_answers = [Inr (Settings_of demo_values [])], gw_user = [True]\<rparr>)) =
     [Sent ''agents.settings'' [(''agentId'', JStr ''mail'')],
      Asked (access_question ''mail'' [''connector gmail'', ''write access to notes'', ''github-merge without asking you'']) True,
      Sent ''agents.update'' demo_update]"
proof -
  let ?p = "no_patch\<lparr>pt_connectors := Some [''gmail''],
     pt_workspaces := Some [\<lparr>ws_path = ''notes'', ws_mode = ''rw'', ws_name = None\<rparr>], pt_highRisk := Some [''github-merge'']\<rparr>"
  have lines: "all_lines demo_values ?p = [''connector gmail'', ''write access to notes'', ''github-merge without asking you'']"
    by code_simp
  then have "\<not> granted ?p \<subseteq> held demo_values" unfolding no_lines [symmetric] by simp
  then show ?thesis
    using update_gives_nothing_unasked [where ps = demo_update and i = "''mail''" and raw = demo_layer and p = ?p
        and env = demo_guard and cur = demo_values and fixed = "[]" and rest = "[]" and yes = True and next_ones = "[]"]
    by (simp add: demo_update_def param_def demo_patch lines)
qed

section \<open>What is not asked about\<close>

text \<open>
  The same access in a proposal of the builder: its application is not asked about, for a new agent or
  for one that exists.
\<close>

lemma proposal_widens_unasked:
  "list_all (\<lambda>create. gw_events (snd (guardedCall demo_guard (Some (JStr ''builder.apply''))
       (Some (JObj [(''proposalId'', JStr ''p-1'')]))
       \<lparr>gw_events = [], gw_answers = [Inr (Proposal_of create ''mail'' [])], gw_user = []\<rparr>)) =
     [Sent ''builder.proposal'' [(''proposalId'', JStr ''p-1'')], Sent ''builder.apply'' [(''proposalId'', JStr ''p-1'')]])
   [True, False]"
  by code_simp

end
