(* ===== verification/Spec2Isabelle.thy ===== *)
theory Spec2Isabelle
  imports Daemon ConnectionFacts WatchFacts TriggerFacts DispatchFacts RoomFacts TreeFacts Codec Calendar Cron Loader
    StoreFacts HubFacts Turn Triggers Tools Team PeerTasks Coordinator Cell Approvals Rpc Quota Welcome
    SocketFacts McpFacts ReportFacts KeyFacts PeerNetFacts BuilderFacts Draft ClientFacts Transcript
    ServiceFacts SetupFacts LoginFacts HandlerFacts MachineRuns GuardFacts
begin

text \<open>
  \<^bold>\<open>A model of Anchi and its correctness.\<close>

  Anchi runs AI agents in isolated cells.  A daemon on the user's computer (\<^verbatim>\<open>src/anchi/packages/daemon\<close>)
  keeps tasks in a database, starts their turns in a virtual machine, and serves clients: a terminal
  (\<^verbatim>\<open>packages/tui\<close>), a desktop application (\<^verbatim>\<open>packages/desktop\<close>) and other daemons.  In each cell a runner
  (\<^verbatim>\<open>packages/cell-runner\<close>) drives one of three vendors' runtimes and offers tools to it.
  \<^verbatim>\<open>packages/core\<close> holds the configuration of agents and small shared algorithms, \<^verbatim>\<open>packages/protocol\<close> the
  data and the frames between the parts.  Paths below are relative to \<^verbatim>\<open>src/anchi/packages\<close>.

  \<^bold>\<open>How the code is modelled.\<close>

  \<^item> JavaScript runs one piece of code at a time, up to its next \<^verbatim>\<open>await\<close>.  So an operation is the function
    of one such piece, in a state-and-error monad \<open>('s, 'a) op\<close> (\<open>Prelude\<close>): it maps a state to a
    result \<open>js_error + 'a\<close> and the state it leaves, which stays changed when it throws.  A function that
    waits is cut into one definition per piece (\<open>deleteTask_begin\<close>, \<open>deleteTask_end\<close>); what the outside
    answers is an argument of the next piece.  Interleavings are sequences of pieces: step relations, or
    lists of events that a \<open>run\<close> function folds over.
  \<^item> Classes are records, unions are datatypes, \<^verbatim>\<open>Map\<close> and plain objects are association lists in insertion
    order (\<open>jsmap\<close>), JSON values are the datatype \<open>json\<close>, schemas are executable checks.
  \<^item> Numbers of the code are integers or naturals where the code only ever has whole numbers, and
    rationals where a client or a file may give fractions; a value that is not finite is \<open>None\<close>.  Strings are
    lists of characters, text for a terminal lists of UTF-16 units (\<open>Sanitize\<close>).
  \<^item> What is not in the repository is an argument: \<^verbatim>\<open>JSON.parse\<close>, the YAML parser and editor, SHA-256,
    random draws, the clock, TLS, processes of the host and the machine, the vendors' SDKs.  SQLite is
    the list functions its statements denote.

  \<^bold>\<open>Theories.\<close>

  \<^item> \<open>Prelude\<close>: the monad with its rules, \<open>keeps_inv\<close> (an operation keeps an invariant whether it returns
    or throws) and the collections \<open>keeps\<close> and \<open>op_defs\<close>, association lists, strings, JSON.  \<open>Protocol\<close>:
    the data of \<^verbatim>\<open>protocol/src\<close>.  \<open>Schema\<close>, \<open>Loader\<close>: \<^verbatim>\<open>core/src/config\<close>, with layers, templates and images.
  \<^item> \<open>Calendar\<close>, \<open>Cron\<close>: \<^verbatim>\<open>core/src/cron.ts\<close> on a calendar of local minutes.  \<open>Codec\<close>: \<^verbatim>\<open>protocol/src/codec.ts\<close>.
    \<open>Welcome\<close>: \<^verbatim>\<open>core/src/welcome.ts\<close>.  \<open>Sanitize\<close>: \<^verbatim>\<open>core/src/sanitize.ts\<close>.
  \<^item> \<open>Store\<close> (\<^verbatim>\<open>daemon/src/store.ts\<close>) and \<open>World\<close>, the state the daemon's components share, with its
    transactions and receipts.  \<open>Room\<close>, \<open>Hub\<close>, \<open>HubTasks\<close>, \<open>Turn\<close>: \<^verbatim>\<open>hub.ts\<close>, its line for cells, queues,
    delegation, cancelling and deleting, and a turn from its start to its end.  \<open>Tools\<close>: \<^verbatim>\<open>tools.ts\<close>.
    \<open>Team\<close>, \<open>CoordinatorBase\<close>, \<open>Coordinator\<close>: \<^verbatim>\<open>team.ts\<close>, \<^verbatim>\<open>team-coordinator.ts\<close>.  \<open>PeerBase\<close>, \<open>PeerTasks\<close>,
    \<open>PeerNet\<close>: \<^verbatim>\<open>peer-tasks.ts\<close>, \<^verbatim>\<open>peer-network.ts\<close>.  \<open>Triggers\<close>, \<open>Quota\<close>, \<open>Approvals\<close>, \<open>Rpc\<close>, \<open>Cell\<close>: the files
    of these names.
  \<^item> \<open>Runner\<close>, \<open>ClaudeRuntime\<close>, \<open>CodexRuntime\<close>, \<open>Hermes\<close>, \<open>Mcp\<close>, \<open>Connectors\<close>: \<^verbatim>\<open>cell-runner/src\<close>.
  \<^item> \<open>Settings\<close>, \<open>Builder\<close>: \<^verbatim>\<open>daemon/src/settings.ts\<close> with the checks of \<^verbatim>\<open>inventory.ts\<close>, and \<^verbatim>\<open>builder.ts\<close>.
    \<open>Services\<close>, \<open>Setup\<close>, \<open>Logins\<close>: \<^verbatim>\<open>services.ts\<close>, \<^verbatim>\<open>setup.ts\<close> with \<^verbatim>\<open>host.ts\<close>, \<^verbatim>\<open>host-logins.ts\<close> with the
    synchronisations of \<^verbatim>\<open>daemon.ts\<close>.  \<open>Methods\<close>, \<open>Handlers\<close>: \<^verbatim>\<open>daemon.ts\<close>, the methods that clients call.
  \<^item> \<open>Keys\<close>, \<open>KeyDefaults\<close>, \<open>Draft\<close>: \<^verbatim>\<open>tui/src/tui/keys.ts\<close>, \<^verbatim>\<open>lineedit.ts\<close>.  \<open>Client\<close>, \<open>Transcript\<close>: what
    the terminal (\<^verbatim>\<open>tui/App.tsx\<close>) and the window (\<^verbatim>\<open>renderer/model.ts\<close>, \<^verbatim>\<open>transcript.ts\<close>) keep of transcripts.
    \<open>Machines\<close>: the connections of the desktop application (\<^verbatim>\<open>desktop/src/main/connections.ts\<close>) with its
    leases, and how \<^verbatim>\<open>server-setup.ts\<close> and \<^verbatim>\<open>upgrade.ts\<close> keep two actions on one machine apart.
    \<open>Guard\<close>: \<^verbatim>\<open>desktop/src/main/bridge.ts\<close>, what the window may call and what the user is asked first.

  \<^bold>\<open>How the parts meet.\<close>  Clients reach \<open>Handlers.serve\<close> over \<open>Rpc\<close> and \<open>Codec\<close>; a handler calls \<open>Hub\<close>,
  \<open>Builder\<close>, \<open>Approvals\<close> or \<open>Settings\<close>.  \<open>Hub\<close> writes to \<open>Store\<close> inside transactions, starts turns (\<open>Turn\<close>) when
  \<open>Room\<close> has a place, and hands work on to \<open>Coordinator\<close> (an execution server) or \<open>PeerTasks\<close> (a peer).
  A turn talks to \<open>Runner\<close> through \<open>Cell\<close>; the runner's tool calls come back to \<open>Tools\<close>, which call \<open>Hub\<close>.
  \<open>Triggers\<close> create tasks.  \<open>Daemon\<close> has all of this as one step relation \<open>daemon_step\<close>, with any order of
  operations, any answers from outside and restarts, and the set of \<open>reachable\<close> worlds.

  \<^bold>\<open>What is shown.\<close>

  \<^item> The daemon as a whole: \<open>Frames\<close>, \<open>Preserve\<close>, \<open>Invariant\<close>, \<open>System\<close>, \<open>Daemon\<close> prove one invariant (unique
    ids, depth, bounded texts and transcripts without gaps, the ceiling of cells) in every reachable
    world; \<open>HandlerFacts\<close> shows that the methods modelled lead to reachable worlds whatever clients call, and that
    the settings file cannot take a value out of its bounds.
  \<^item> Exactly-once and at-most-once behaviour: receipts of tool calls (\<open>HubFacts\<close>), dispatches (\<open>DispatchFacts\<close>),
    polls and schedules (\<open>TriggerFacts\<close>), answers of connections and tool sockets (\<open>ConnectionFacts\<close>,
    \<open>SocketFacts\<close>, \<open>McpFacts\<close>), approvals (\<open>WatchFacts\<close>), sign-ins (\<open>ServiceFacts\<close>), logins (\<open>LoginFacts\<close>).
  \<^item> Limits and order: \<open>DelegateFacts\<close>, \<open>QueueFacts\<close>, \<open>RoomFacts\<close>, \<open>StoreFacts\<close> (transcripts and paging,
    sums of recorded use, what a deletion removes and keeps), \<open>TreeFacts\<close> (the tasks that go with an agent).
  \<^item> The boundary to untrusted cells: \<open>ConnectionFacts\<close>, \<open>RunnerFacts\<close> (the order of messages, as
    values: not the size of frames, the schema of commands and the timer of a turn), \<open>RuntimeFacts\<close> (under limits
    on the fields a runtime passes on uncut), \<open>ReportFacts\<close>, \<open>Sanitize\<close> (nothing but the text comes through).
  \<^item> Algorithms against specifications: \<open>Codec\<close> (refinement of a decoder of whole streams, round trip), \<open>Cron\<close>
    (the least matching minute), \<open>SettingsFacts\<close> (a longest common subsequence), \<open>KeyFacts\<close>, \<open>Draft\<close>.
  \<^item> Trust and review: \<open>GuardFacts\<close> (a window cannot widen an agent's access through its settings without a
    yes in the native dialog), \<open>PeerNetFacts\<close>, \<open>SettingsFacts\<close>, \<open>BuilderFacts\<close>, \<open>SetupFacts\<close>, and \<open>Loader\<close> (a loaded agent
    passes every check).
  \<^item> Clients: \<open>ClientFacts\<close>, \<open>Transcript\<close>; \<open>MachineFacts\<close> and \<open>MachineRuns\<close> (one connection per machine, and
    actions that stay on the connection they started on).
  \<^item> Lemmas that record where the code does not do what it says stand beside the facts they limit, such as
    \<open>unloadable_agent_strands_task\<close>, \<open>null_answer_loses\<close>, \<open>signed_in_login_replaced\<close>, \<open>image_written_before_refusal\<close>, \<open>twin_sign_in_survives\<close>.

  \<^bold>\<open>Interfaces.\<close>  \<open>hub_frame\<close>, \<open>hub_kept\<close> and \<open>store_frame\<close> (\<open>Preserve\<close>) state which writes of the store and the hub a
  property must survive to survive every operation; \<open>Invariant\<close> and \<open>TriggerFacts\<close> interpret them.
  \<open>turn_frame\<close> (\<open>Frames\<close>) does this for the start of a turn and \<open>row_frame\<close> (\<open>DelegateFacts\<close>) for the row of a new
  task.  \<open>chunk_decoder\<close> (\<open>Codec\<close>), \<open>jump_search\<close> (\<open>Cron\<close>) and \<open>ranking\<close> (\<open>RoomFacts\<close>) are the contracts of a
  decoder of chunks, of a search by jumps and of a line of waiters, interpreted on the code's own functions.

  \<^bold>\<open>Recursion, bounds and fuel.\<close>  Loops are structural or have a measure (the search of \<open>nextRun\<close>, the decoder's
  loop, chains of templates, the walk of a diff, the scanners of escapes).  Where the code recurses over
  stored tasks the number of levels is fuel, \<open>levels w\<close>, one more than the number of tasks; running out is
  the error the code gets from its stack, and \<open>agent_tree_ends\<close> shows that the walk that has to survive
  cycles never does.  \<open>pump_rounds\<close> has a bound that \<open>pump_fills\<close> shows to be enough.

  \<^bold>\<open>Not modelled.\<close>  Editing YAML documents in place (\<^verbatim>\<open>core/src/config/edit.ts\<close>) works on the document tree of
  a library and is an argument of \<open>Settings\<close> and \<open>Builder\<close>.  \<^verbatim>\<open>guest.ts\<close>, \<^verbatim>\<open>lima.ts\<close>, \<^verbatim>\<open>launch.ts\<close>, the sign-ins
  that drive vendors' programs, sockets, signals and timers are input and output; their answers are
  arguments.  Prompts, help texts, skills' files and audit reports, React views, the command line's
  output, Electron's windows and updates are presentation.  The Python programs of the virtual machine
  are another language's.  Local time has no daylight saving, and \<^verbatim>\<open>Intl\<close>'s grapheme clusters and the
  width of characters are arguments of \<open>Draft\<close>.
\<close>

end
